(* ===== verification/Prelude.thy ===== *)
theory Prelude
  imports Complex_Main "HOL-Library.Word" "HOL-Library.AList"
begin

text \<open>
  Shared vocabulary of the development: the Rust integer types at their width, the integer
  operations of the standard library that the sources call (saturating, checked and casting
  ones), the result of a fallible call, and the key-value stores (\<open>DashMap\<close> and \<open>HashMap\<close> of
  the sources) as association lists behind a locale that states the laws their clients use.

  The production build of the bot is \<open>cargo zigbuild --release\<close> (\<^verbatim>\<open>src/Makefile.toml\<close>), where
  overflow checks are off: \<open>+\<close>, \<open>-\<close>, \<open>*\<close> and \<open>pow\<close> wrap around, exactly as they do on
  \<^typ>\<open>'a word\<close>. A debug build panics where an operation would wrap, so a theorem that an
  operation does not wrap is at the same time a theorem that the debug build does not panic.
\<close>

section \<open>Collections of facts\<close>

named_theorems rust_arith \<open>unsigned readings of the Rust integer operations\<close>
named_theorems store_simps \<open>what the operations on key-value stores return\<close>

section \<open>Integer types\<close>

type_synonym u8 = "8 word"
type_synonym u16 = "16 word"
type_synonym u32 = "32 word"
type_synonym u64 = "64 word"
type_synonym u128 = "128 word"
type_synonym usize = "64 word"

text \<open>\<open>Pubkey\<close> is 32 bytes and \<open>Signature\<close> 64 bytes; the sources compare them as a whole, and
  the big-endian number keeps both equality and the byte order.\<close>

type_synonym pubkey = "256 word"
type_synonym signature = "512 word"
type_synonym hash = "256 word"

definition saturating_sub :: "'a::len word \<Rightarrow> 'a word \<Rightarrow> 'a word" where
  "saturating_sub a b = (if a < b then 0 else a - b)"

definition saturating_add :: "'a::len word \<Rightarrow> 'a word \<Rightarrow> 'a word" where
  "saturating_add a b = (if unat a + unat b < 2 ^ LENGTH('a) then a + b else - 1)"

definition checked_sub :: "'a::len word \<Rightarrow> 'a word \<Rightarrow> 'a word option" where
  "checked_sub a b = (if a < b then None else Some (a - b))"

definition checked_add :: "'a::len word \<Rightarrow> 'a word \<Rightarrow> 'a word option" where
  "checked_add a b = (if unat a + unat b < 2 ^ LENGTH('a) then Some (a + b) else None)"

definition checked_mul :: "'a::len word \<Rightarrow> 'a word \<Rightarrow> 'a word option" where
  "checked_mul a b = (if unat a * unat b < 2 ^ LENGTH('a) then Some (a * b) else None)"

definition checked_div :: "'a::len word \<Rightarrow> 'a word \<Rightarrow> 'a word option" where
  "checked_div a b = (if b = 0 then None else Some (a div b))"

text \<open>\<open>T::try_from(x)\<close> between unsigned types: \<open>None\<close> stands for \<open>TryFromIntError\<close>.\<close>

definition try_from :: "'a::len word \<Rightarrow> 'b::len word option" where
  "try_from a = (if unat a < 2 ^ LENGTH('b) then Some (ucast a) else None)"

text \<open>\<open>10_u32.pow(d as u32)\<close> of the sources, for a token with \<open>d\<close> decimals.\<close>

definition pow10_u32 :: "u8 \<Rightarrow> u32" where
  "pow10_u32 d = 10 ^ unat d"

lemma unat_less_power: "unat (w :: 'a::len word) < 2 ^ LENGTH('a)"
  by (rule unsigned_less)

lemma unat_saturating_sub [rust_arith]: "unat (saturating_sub a b) = unat a - unat b"
  by (auto simp: saturating_sub_def word_less_nat_alt unat_sub word_le_nat_alt)

lemma unat_saturating_add [rust_arith]:
  "unat (saturating_add a b) = min (unat a + unat b) (2 ^ LENGTH('a) - 1)"
  for a b :: "'a::len word"
  by (auto simp: saturating_add_def unat_word_ariths min_def unsigned_minus_1_eq_mask mask_eq_exp_minus_1)

lemma saturating_add_ge1: "unat a \<le> unat (saturating_add a b)" for a b :: "'a::len word"
  using unat_less_power [of a] by (simp add: unat_saturating_add min_def; linarith)

lemma saturating_sub_le: "saturating_sub a b \<le> a"
  by (simp add: word_le_nat_alt unat_saturating_sub)

lemma saturating_sub_eq_0_iff: "saturating_sub a b = 0 \<longleftrightarrow> a \<le> b"
  by (simp add: unat_eq_zero [symmetric] unat_saturating_sub word_le_nat_alt)

lemma checked_sub_SomeD: "checked_sub a b = Some c \<Longrightarrow> unat a = unat b + unat c"
  by (auto simp: checked_sub_def unat_sub word_le_nat_alt word_less_nat_alt split: if_splits)

lemma checked_add_SomeD: "checked_add a b = Some c \<Longrightarrow> unat c = unat a + unat b"
  by (auto simp: checked_add_def unat_word_ariths split: if_splits)

lemma checked_mul_SomeD: "checked_mul a b = Some c \<Longrightarrow> unat c = unat a * unat b"
  by (auto simp: checked_mul_def unat_word_ariths split: if_splits)

lemma unat_plus_no_wrap:
  "unat a + unat b < 2 ^ LENGTH('a) \<Longrightarrow> unat (a + b) = unat a + unat b" for a b :: "'a::len word"
  by (simp add: unat_word_ariths)

lemma unat_times_no_wrap:
  "unat a * unat b < 2 ^ LENGTH('a) \<Longrightarrow> unat (a * b) = unat a * unat b" for a b :: "'a::len word"
  by (simp add: unat_word_ariths)

lemma unat_minus_no_wrap: "unat b \<le> unat a \<Longrightarrow> unat (a - b) = unat a - unat b"
  by (simp add: unat_sub word_le_nat_alt)

lemma unat_min [rust_arith]: "unat (min a b) = min (unat a) (unat b)" for a b :: "'a::len word"
  by (simp add: min_def word_le_nat_alt)

lemma unat_max [rust_arith]: "unat (max a b) = max (unat a) (unat b)" for a b :: "'a::len word"
  by (simp add: max_def word_le_nat_alt)

lemma unat_ucast_up:
  "LENGTH('a) \<le> LENGTH('b) \<Longrightarrow> unat (ucast (w :: 'a::len word) :: 'b::len word) = unat w"
  by (simp add: unsigned_ucast_eq take_bit_nat_eq_self_iff)
    (rule less_le_trans [OF unat_less_power], simp)

lemma unat_u64_as_u128 [rust_arith]: "unat (ucast (w :: u64) :: u128) = unat w"
  by (rule unat_ucast_up) simp

lemma unat_u32_as_u128 [rust_arith]: "unat (ucast (w :: u32) :: u128) = unat w"
  by (rule unat_ucast_up) simp

lemma unat_u16_as_u64 [rust_arith]: "unat (ucast (w :: u16) :: u64) = unat w"
  by (rule unat_ucast_up) simp

lemma unat_u8_as_u64 [rust_arith]: "unat (ucast (w :: u8) :: u64) = unat w"
  by (rule unat_ucast_up) simp

lemma unat_u128_as_u64: "unat (ucast (w :: u128) :: u64) = unat w mod 2 ^ 64"
  by (simp add: unsigned_ucast_eq take_bit_eq_mod)

lemma unat_u64_less: "unat (w :: u64) < 2 ^ 64"
  using unat_less_power [of w] by simp

lemma unat_u32_less: "unat (w :: u32) < 2 ^ 32"
  using unat_less_power [of w] by simp

lemma unat_u16_less: "unat (w :: u16) < 2 ^ 16"
  using unat_less_power [of w] by simp

text \<open>Up to nine decimals the power of ten fits in a \<open>u32\<close>; from ten on it wraps.\<close>

lemma unat_pow10_u32: "unat d \<le> 9 \<Longrightarrow> unat (pow10_u32 d) = 10 ^ unat d"
proof -
  assume d: "unat d \<le> 9"
  have "(10::nat) ^ unat d \<le> 10 ^ 9"
    using d by (intro power_increasing) auto
  then have "(10::nat) ^ unat d < 2 ^ 32"
    by simp
  then have "take_bit 32 ((10::nat) ^ unat d) = 10 ^ unat d"
    by (rule take_bit_nat_eq_self)
  moreover have "pow10_u32 d = of_nat (10 ^ unat d)"
    by (simp add: pow10_u32_def)
  ultimately show ?thesis
    by (simp only: unsigned_of_nat) simp
qed

section \<open>Results\<close>

text \<open>An \<open>anyhow::Error\<close> carries its message; a panic (\<open>unwrap\<close>, \<open>expect\<close>, an index out of range,
  \<open>panic!\<close>) ends the task that runs the call.\<close>

datatype failure = Error string | Panic string

type_synonym 'a result = "failure + 'a"

definition ok_or :: "'a option \<Rightarrow> string \<Rightarrow> 'a result" where
  "ok_or x msg = (case x of None \<Rightarrow> Inl (Error msg) | Some y \<Rightarrow> Inr y)"

definition unwrap_or :: "'a option \<Rightarrow> 'a \<Rightarrow> 'a" where
  "unwrap_or x d = (case x of None \<Rightarrow> d | Some y \<Rightarrow> y)"

definition or_else :: "'a option \<Rightarrow> 'a option \<Rightarrow> 'a option" where
  "or_else x y = (case x of None \<Rightarrow> y | Some _ \<Rightarrow> x)"

definition expect :: "'a option \<Rightarrow> string \<Rightarrow> 'a result" where
  "expect x msg = (case x of None \<Rightarrow> Inl (Panic msg) | Some y \<Rightarrow> Inr y)"

definition bind_res :: "'a result \<Rightarrow> ('a \<Rightarrow> 'b result) \<Rightarrow> 'b result" where
  "bind_res r f = (case r of Inl e \<Rightarrow> Inl e | Inr x \<Rightarrow> f x)"

lemma unwrap_or_simps [simp]: "unwrap_or None d = d" "unwrap_or (Some x) d = x"
  by (simp_all add: unwrap_or_def)

lemma or_else_simps [simp]: "or_else None y = y" "or_else (Some x) y = Some x"
  by (simp_all add: or_else_def)

lemma ok_or_simps [simp]: "ok_or None m = Inl (Error m)" "ok_or (Some x) m = Inr x"
  by (simp_all add: ok_or_def)

lemma expect_simps [simp]: "expect None m = Inl (Panic m)" "expect (Some x) m = Inr x"
  by (simp_all add: expect_def)

lemma bind_res_simps [simp]: "bind_res (Inl e) f = Inl e" "bind_res (Inr x) f = f x"
  by (simp_all add: bind_res_def)

lemma bind_res_InrE [elim!]:
  assumes "bind_res r f = Inr y"
  obtains x where "r = Inr x" and "f x = Inr y"
  using assms by (cases r) auto

lemma ok_or_Inr_iff [simp]: "ok_or x m = Inr y \<longleftrightarrow> x = Some y"
  by (cases x) auto

text \<open>\<open>collect::<Result<Vec<_>, _>>()\<close>, and a closure that may panic inside \<open>map\<close>: the first
  failure is the result.\<close>

fun collect_results :: "('a \<Rightarrow> 'b result) \<Rightarrow> 'a list \<Rightarrow> 'b list result" where
  "collect_results f [] = Inr []"
| "collect_results f (x # xs) = bind_res (f x) (\<lambda>y. bind_res (collect_results f xs) (\<lambda>ys. Inr (y # ys)))"

lemma collect_results_Inr_iff: "collect_results f xs = Inr ys \<longleftrightarrow> list_all2 (\<lambda>x y. f x = Inr y) xs ys"
proof (induction xs arbitrary: ys)
  case (Cons x xs)
  have "collect_results f (x # xs) = Inr ys \<longleftrightarrow>
      (\<exists>y zs. ys = y # zs \<and> f x = Inr y \<and> collect_results f xs = Inr zs)"
    by (auto simp: bind_res_def split: sum.splits)
  then show ?case unfolding list_all2_Cons1 Cons by blast
qed auto

lemma collect_results_total:
  assumes "\<And>x. x \<in> set xs \<Longrightarrow> f x = Inr (g x)"
  shows "collect_results f xs = Inr (map g xs)"
  using assms by (simp add: collect_results_Inr_iff list_all2_conv_all_nth)

lemma collect_results_Inl:
  "collect_results f xs = Inl e \<Longrightarrow> \<exists>x \<in> set xs. f x = Inl e"
  by (induction xs) (auto simp: bind_res_def split: sum.splits)

lemma collect_results_ex: "(\<And>x. x \<in> set xs \<Longrightarrow> \<exists>y. f x = Inr y) \<Longrightarrow> \<exists>ys. collect_results f xs = Inr ys"
  by (cases "collect_results f xs") (fastforce dest: collect_results_Inl)+

lemma collect_results_mem:
  "collect_results f xs = Inr ys \<Longrightarrow> x \<in> set xs \<Longrightarrow> \<exists>y \<in> set ys. f x = Inr y"
  "collect_results f xs = Inr ys \<Longrightarrow> y \<in> set ys \<Longrightarrow> \<exists>x \<in> set xs. f x = Inr y"
  by (induction xs arbitrary: ys) auto

text \<open>A loop that passes on a state and ends with the first failure.\<close>

fun fold_res :: "('a \<Rightarrow> 's \<Rightarrow> 's result) \<Rightarrow> 'a list \<Rightarrow> 's \<Rightarrow> 's result" where
  "fold_res f [] s = Inr s"
| "fold_res f (x # xs) s = bind_res (f x s) (fold_res f xs)"

lemma fold_res_append: "fold_res f (xs @ ys) s = bind_res (fold_res f xs s) (fold_res f ys)"
  by (induction xs arbitrary: s) (auto simp: bind_res_def split: sum.splits)

lemma fold_res_foldl:
  assumes "\<And>x s. x \<in> set xs \<Longrightarrow> f x s = Inr (foldl g s (h x))"
  shows "fold_res f xs s = Inr (foldl g s (concat (map h xs)))"
  using assms by (induction xs arbitrary: s) simp_all

lemma fold_res_Inr_step: "fold_res f xs s = Inr s' \<Longrightarrow> x \<in> set xs \<Longrightarrow> \<exists>t t'. f x t = Inr t'"
  by (induction xs arbitrary: s) auto

text \<open>\<open>slice::chunks(n)\<close>\<close>

function chunks :: "nat \<Rightarrow> 'a list \<Rightarrow> 'a list list" where
  "chunks n xs = (if xs = [] \<or> n = 0 then [] else take n xs # chunks n (drop n xs))"
  by pat_completeness auto
termination by (relation "measure (\<lambda>(n, xs). length xs)") auto

declare chunks.simps [simp del]

lemma concat_chunks: "0 < n \<Longrightarrow> concat (chunks n xs) = xs"
proof (induction n xs rule: chunks.induct)
  case (1 n xs)
  show ?case using 1 by (subst chunks.simps) auto
qed

lemma chunks_length: "c \<in> set (chunks n xs) \<Longrightarrow> 0 < length c \<and> length c \<le> n"
proof (induction n xs rule: chunks.induct)
  case (1 n xs)
  have "xs \<noteq> [] \<and> n \<noteq> 0" using "1.prems" by (subst (asm) chunks.simps) (auto split: if_splits)
  then show ?case using 1 by (subst (asm) (2) chunks.simps) auto
qed

section \<open>Key-value stores\<close>

text \<open>
  A \<open>DashMap\<close> is a list of entries with distinct keys; the order of the list stands for the
  (unspecified) order in which the map iterates.
\<close>

type_synonym ('k, 'v) store = "('k \<times> 'v) list"

definition store_get :: "('k, 'v) store \<Rightarrow> 'k \<Rightarrow> 'v option" where
  "store_get m k = map_of m k"

definition store_insert :: "('k, 'v) store \<Rightarrow> 'k \<Rightarrow> 'v \<Rightarrow> ('k, 'v) store" where
  "store_insert m k v = AList.update k v m"

definition store_remove :: "('k, 'v) store \<Rightarrow> 'k \<Rightarrow> ('k, 'v) store" where
  "store_remove m k = AList.delete k m"

definition store_ok :: "('k, 'v) store \<Rightarrow> bool" where
  "store_ok m \<longleftrightarrow> distinct (map fst m)"

locale key_value =
  fixes get :: "'m \<Rightarrow> 'k \<Rightarrow> 'v option"
    and put :: "'m \<Rightarrow> 'k \<Rightarrow> 'v \<Rightarrow> 'm"
    and del :: "'m \<Rightarrow> 'k \<Rightarrow> 'm"
    and inv :: "'m \<Rightarrow> bool"
  assumes get_put: "get (put m k v) k' = (if k' = k then Some v else get m k')"
    and get_del: "get (del m k) k' = (if k' = k then None else get m k')"
    and inv_put: "inv m \<Longrightarrow> inv (put m k v)"
    and inv_del: "inv m \<Longrightarrow> inv (del m k)"
begin

lemma put_put_get: "get (put (put m k v) k w) = get (put m k w)"
  by (rule ext) (simp add: get_put)

lemma put_commute_get: "k \<noteq> l \<Longrightarrow> get (put (put m k v) l w) = get (put (put m l w) k v)"
  by (rule ext) (simp add: get_put)

lemma del_put_get: "get (del (put m k v) k) = get (del m k)"
  by (rule ext) (simp add: get_put get_del)

lemma get_put_unchanged: "get m k = Some v \<Longrightarrow> get (put m k v) = get m"
  by (rule ext) (simp add: get_put)

end

lemma store_get_insert [simp, store_simps]:
  "store_get (store_insert m k v) k' = (if k' = k then Some v else store_get m k')"
  by (simp add: store_get_def store_insert_def update_conv')

lemma store_get_remove [simp, store_simps]:
  "store_get (store_remove m k) k' = (if k' = k then None else store_get m k')"
  by (simp add: store_get_def store_remove_def delete_conv')

lemma store_ok_insert [simp, intro]: "store_ok m \<Longrightarrow> store_ok (store_insert m k v)"
  by (simp add: store_ok_def store_insert_def distinct_update)

lemma store_ok_remove [simp, intro]: "store_ok m \<Longrightarrow> store_ok (store_remove m k)"
  by (simp add: store_ok_def store_remove_def distinct_delete)

lemma store_ok_Nil [simp]: "store_ok []"
  by (simp add: store_ok_def)

lemma store_get_Nil [simp]: "store_get [] k = None"
  by (simp add: store_get_def)

interpretation dash: key_value store_get store_insert store_remove store_ok
  by unfold_locales auto

lemma length_store_insert:
  "length (store_insert m k v) = (if store_get m k = None then Suc (length m) else length m)"
  by (induction m) (auto simp: store_insert_def store_get_def)

lemma length_store_remove_le: "length (store_remove m k) \<le> length m"
  by (simp add: store_remove_def length_delete_le)

lemma store_get_Some_iff: "store_ok m \<Longrightarrow> store_get m k = Some v \<longleftrightarrow> (k, v) \<in> set m"
  by (simp add: store_ok_def store_get_def)

lemma store_get_None_iff: "store_get m k = None \<longleftrightarrow> k \<notin> fst ` set m"
  by (simp add: store_get_def map_of_eq_None_iff)

lemma store_insert_all:
  "\<forall>(k, v) \<in> set m. P k v \<Longrightarrow> P a b \<Longrightarrow> \<forall>(k, v) \<in> set (store_insert m a b). P k v"
  by (induction m) (auto simp: store_insert_def)

lemma store_insert_keys:
  "map fst (store_insert m k v) = (if k \<in> set (map fst m) then map fst m else map fst m @ [k])"
  by (simp add: store_insert_def update_keys)

definition store_keys :: "('k, 'v) store \<Rightarrow> 'k set" where
  "store_keys m = fst ` set m"

lemma store_keys_insert [simp]: "store_keys (store_insert m k v) = insert k (store_keys m)"
proof -
  have "set (map fst (store_insert m k v)) = insert k (set (map fst m))"
    unfolding store_insert_keys by auto
  then show ?thesis by (simp add: store_keys_def)
qed

lemma store_keys_get: "k \<in> store_keys m \<longleftrightarrow> (\<exists>v. store_get m k = Some v)"
  using store_get_None_iff [of m k] by (auto simp: store_keys_def)

text \<open>\<open>DashMap::from_iter\<close> and \<open>HashMap::from_iter\<close>: of two entries with one key the last stays.\<close>

definition store_from_list :: "('k \<times> 'v) list \<Rightarrow> ('k, 'v) store" where
  "store_from_list xs = foldl (\<lambda>m (k, v). store_insert m k v) [] xs"

lemma store_insert_fresh: "k \<notin> fst ` set m \<Longrightarrow> store_insert m k v = m @ [(k, v)]"
  by (induction m) (auto simp: store_insert_def)

lemma foldl_store_insert_distinct:
  "distinct (map fst (m @ xs)) \<Longrightarrow> foldl (\<lambda>m (k, v). store_insert m k v) m xs = m @ xs"
proof (induction xs arbitrary: m)
  case (Cons x xs)
  then have "store_insert m (fst x) (snd x) = m @ [x]"
    by (subst store_insert_fresh) auto
  then show ?case using Cons by (simp add: case_prod_beta)
qed simp

lemma store_from_list_id: "store_ok xs \<Longrightarrow> store_from_list xs = xs"
  using foldl_store_insert_distinct [of "[]" xs] by (simp add: store_from_list_def store_ok_def)

lemma store_ok_foldl_insert:
  "store_ok m \<Longrightarrow> store_ok (foldl (\<lambda>m (k, v). store_insert m k v) m xs)"
  by (induction xs arbitrary: m) auto

lemma store_ok_from_list [simp]: "store_ok (store_from_list xs)"
  by (simp add: store_from_list_def store_ok_foldl_insert)

lemma store_insert_nonempty: "store_insert m k v \<noteq> []"
  by (cases m) (auto simp: store_insert_def)

lemma foldl_store_insert_Nil_iff:
  "foldl (\<lambda>m (k, v). store_insert m k v) m xs = [] \<longleftrightarrow> m = [] \<and> xs = []"
  by (induction xs arbitrary: m) (simp_all add: case_prod_beta store_insert_nonempty)

lemma store_from_list_eq_Nil_iff [simp]: "store_from_list xs = [] \<longleftrightarrow> xs = []"
  by (simp add: store_from_list_def foldl_store_insert_Nil_iff)

section \<open>Simulation\<close>

text \<open>
  A concrete step function refines an abstract one as long as a side condition holds (no counter
  wraps): then whole runs refine whole runs. The components with a ledger instantiate it.
\<close>

locale simulation =
  fixes cstep :: "'c \<Rightarrow> 'e \<Rightarrow> 'c"
    and astep :: "'a \<Rightarrow> 'e \<Rightarrow> 'a"
    and abs :: "'c \<Rightarrow> 'a"
    and fits :: "'c \<Rightarrow> 'e \<Rightarrow> bool"
  assumes step_refines: "fits c e \<Longrightarrow> abs (cstep c e) = astep (abs c) e"
begin

fun fits_run :: "'c \<Rightarrow> 'e list \<Rightarrow> bool" where
  "fits_run c [] = True"
| "fits_run c (e # es) = (fits c e \<and> fits_run (cstep c e) es)"

lemma run_refines: "fits_run c es \<Longrightarrow> abs (foldl cstep c es) = foldl astep (abs c) es"
  by (induction es arbitrary: c) (auto simp: step_refines)

end

end
