(* ===== verification/Constants.thy ===== *)
theory Constants
  imports Prelude
begin

text \<open>
  The addresses the bot compares against (\<^verbatim>\<open>constants/mints.rs\<close>, \<^verbatim>\<open>constants/programs.rs\<close>): the
  number a base58 literal of the source denotes. The three mints \<open>SOL\<close>, \<open>USDC\<close> and \<open>USDT\<close> are
  the ones trades are never tracked for.
\<close>

definition SOL :: pubkey where
  "SOL = 2988679396378646993494765771507681406623014513651778753134412041978399162369"

definition USDC :: pubkey where
  "USDC = 90000504370102394704099784797280792267247599056409324908524740370261802442081"

definition USDT :: pubkey where
  "USDT = 93178312886348822970968537621498107490464382474871151705561979197741422641764"

definition JUPITER_AGGREGATOR_V6_PROGRAM_ID :: pubkey where
  "JUPITER_AGGREGATOR_V6_PROGRAM_ID =
     2024512440004304401218460610310738430137902625605816137218628783959189492623"

definition RAYDIUM_LIQUIDITY_POOL_V4_PROGRAM_ID :: pubkey where
  "RAYDIUM_LIQUIDITY_POOL_V4_PROGRAM_ID =
     34307378574122751251753648456821433629702160761243254248185250197633836157645"

definition RAYDIUM_CONCENTRATED_LIQUIDITY_PROGRAM_ID :: pubkey where
  "RAYDIUM_CONCENTRATED_LIQUIDITY_PROGRAM_ID =
     75009356853976929659943414926574456823275450602745972963014244811826130862110"

definition ORCA_WHIRLPOOLS_PROGRAM_ID :: pubkey where
  "ORCA_WHIRLPOOLS_PROGRAM_ID =
     6338400779188879694835442338119989991763804279920687834040273975642487814569"

definition PUMPFUN_PROGRAM_ID :: pubkey where
  "PUMPFUN_PROGRAM_ID =
     605814335005781813025241542787157911726959411820757128006101511735853521072"

definition is_static_token :: "pubkey \<Rightarrow> bool" where
  "is_static_token t \<longleftrightarrow> t = SOL \<or> t = USDT \<or> t = USDC"

lemmas mint_defs = SOL_def USDC_def USDT_def

lemmas program_defs =
  JUPITER_AGGREGATOR_V6_PROGRAM_ID_def RAYDIUM_LIQUIDITY_POOL_V4_PROGRAM_ID_def
  RAYDIUM_CONCENTRATED_LIQUIDITY_PROGRAM_ID_def ORCA_WHIRLPOOLS_PROGRAM_ID_def
  PUMPFUN_PROGRAM_ID_def

lemma static_tokens_distinct [simp]: "SOL \<noteq> USDC" "SOL \<noteq> USDT" "USDC \<noteq> USDT"
  "USDC \<noteq> SOL" "USDT \<noteq> SOL" "USDT \<noteq> USDC"
  by (simp_all add: mint_defs)

lemma is_static_tokenI [simp]: "is_static_token SOL" "is_static_token USDC" "is_static_token USDT"
  by (simp_all add: is_static_token_def)

lemma programs_distinct: "distinct
  [JUPITER_AGGREGATOR_V6_PROGRAM_ID, RAYDIUM_CONCENTRATED_LIQUIDITY_PROGRAM_ID,
   RAYDIUM_LIQUIDITY_POOL_V4_PROGRAM_ID, ORCA_WHIRLPOOLS_PROGRAM_ID, PUMPFUN_PROGRAM_ID]"
  by (simp add: program_defs)

end
