(* ===== verification/Float64.thy ===== *)
theory Float64
  imports Prelude "HOL-Library.Log_Nat"
begin

text \<open>
  Rust's \<open>f64\<close>: IEEE 754 binary64 with round-to-nearest, ties to even. A finite value is its
  sign and its exact rational magnitude; every operation computes the exact result and rounds it
  once. The theory also holds the conversions the sources use (\<open>u64 as f64\<close>, the saturating
  \<open>f64 as u64\<close>, \<open>trunc\<close>, \<open>floor\<close>) and the order facts about rounding (monotone, exact up to
  \<open>2 ^ 53\<close>) that bound every token amount the bot derives from a ratio of floats.
\<close>

section \<open>Rounding a magnitude\<close>

definition round_even :: "rat \<Rightarrow> int" where
  "round_even x =
     (let f = \<lfloor>x\<rfloor>; d = x - of_int f
      in if d < 1 / 2 then f else if 1 / 2 < d then f + 1 else if even f then f else f + 1)"

definition exponent :: "rat \<Rightarrow> int" where
  "exponent x = (if 1 \<le> x then bitlen \<lfloor>x\<rfloor> - 1 else - bitlen (\<lceil>1 / x\<rceil> - 1))"

definition quantum_exp :: "rat \<Rightarrow> int" where
  "quantum_exp x = max (exponent x - 52) (- 1074)"

definition rnd :: "rat \<Rightarrow> rat" where
  "rnd x = (if x = 0 then 0
            else of_int (round_even (x / 2 powi quantum_exp x)) * 2 powi quantum_exp x)"

lemma round_even_of_int [simp]: "round_even (of_int n) = n"
  by (simp add: round_even_def)

lemma round_even_bounds: "\<lfloor>x\<rfloor> \<le> round_even x" "round_even x \<le> \<lfloor>x\<rfloor> + 1"
  by (auto simp: round_even_def Let_def)

lemma round_even_mono: "x \<le> y \<Longrightarrow> round_even x \<le> round_even y"
proof (cases "\<lfloor>x\<rfloor> = \<lfloor>y\<rfloor>")
  case True
  assume "x \<le> y"
  with True show ?thesis
    by (auto simp: round_even_def Let_def)
next
  case False
  assume "x \<le> y"
  then have "\<lfloor>x\<rfloor> \<le> \<lfloor>y\<rfloor>" by (rule floor_mono)
  with False have "\<lfloor>x\<rfloor> + 1 \<le> \<lfloor>y\<rfloor>" by simp
  with round_even_bounds [of x] round_even_bounds [of y] show ?thesis by linarith
qed

lemma round_even_le_int: "x \<le> of_int n \<Longrightarrow> round_even x \<le> n"
  using round_even_mono [of x "of_int n"] by simp

lemma round_even_ge_int: "of_int n \<le> x \<Longrightarrow> n \<le> round_even x"
  using round_even_mono [of "of_int n" x] by simp

lemma powi_mono_iff: "(2::rat) powi a \<le> 2 powi b \<longleftrightarrow> a \<le> b"
  using power_int_strict_increasing [of b a "2::rat"] power_int_increasing [of a b "2::rat"]
  by (metis linorder_not_less one_le_numeral one_less_numeral_iff semiring_norm(76))

lemma powi_diff: "(2::rat) powi (a - b) = 2 powi a / 2 powi b"
  by (rule power_int_diff) simp

lemma powi_is_int: "0 \<le> a \<Longrightarrow> (2::rat) powi a = of_int (2 ^ nat a)"
  by (simp add: power_int_def)

lemma exponent_ge1:
  assumes "1 \<le> x"
  shows "2 powi exponent x \<le> x" and "x < 2 powi (exponent x + 1)"
proof -
  let ?n = "\<lfloor>x\<rfloor>"
  have n: "1 \<le> ?n" using assms by simp
  have b: "2 ^ nat (bitlen ?n - 1) \<le> ?n" "?n < 2 ^ nat (bitlen ?n)"
    using bitlen_bounds [of ?n] n by auto
  have l: "0 \<le> bitlen ?n - 1" using n bitlen_eq_zero_iff [of ?n] bitlen_nonneg [of ?n] by auto
  have e: "exponent x = bitlen ?n - 1" using assms by (simp add: exponent_def)
  show "2 powi exponent x \<le> x"
    using b(1) l by (simp add: e powi_is_int del: of_int_power) (simp add: le_floor_iff)
  show "x < 2 powi (exponent x + 1)"
    using b(2) l by (simp add: e powi_is_int del: of_int_power) (simp add: floor_less_iff)
qed

lemma exponent_lt1:
  assumes "0 < x" and "x < 1"
  shows "2 powi exponent x \<le> x" and "x < 2 powi (exponent x + 1)"
proof -
  let ?n = "\<lceil>1 / x\<rceil> - 1"
  have gt: "1 < 1 / x" using assms by simp
  then have n: "1 \<le> ?n" using less_ceiling_iff [of 1 "1 / x"] by simp
  have b: "2 ^ nat (bitlen ?n - 1) \<le> ?n" "?n < 2 ^ nat (bitlen ?n)"
    using bitlen_bounds [of ?n] n by auto
  have l: "0 \<le> bitlen ?n - 1" using n bitlen_eq_zero_iff [of ?n] bitlen_nonneg [of ?n] by auto
  have e: "exponent x = - bitlen ?n" using assms by (simp add: exponent_def)
  have "\<lceil>1 / x\<rceil> \<le> 2 ^ nat (bitlen ?n)" using b(2) by simp
  then have "1 / x \<le> 2 powi bitlen ?n"
    using l by (simp add: ceiling_le_iff powi_is_int)
  then show "2 powi exponent x \<le> x"
    using assms by (simp add: e power_int_minus field_simps)
  have "2 ^ nat (bitlen ?n - 1) < \<lceil>1 / x\<rceil>" using b(1) by simp
  then have "2 powi (bitlen ?n - 1) < 1 / x"
    using l by (simp add: less_ceiling_iff powi_is_int)
  then have "x < inverse (2 powi (bitlen ?n - 1))"
    using assms by (simp add: field_simps)
  then show "x < 2 powi (exponent x + 1)"
    by (simp add: e flip: power_int_minus)
qed

lemma exponent_bounds:
  assumes "0 < x"
  shows "2 powi exponent x \<le> x" and "x < 2 powi (exponent x + 1)"
  using exponent_ge1 [of x] exponent_lt1 [of x] assms by (cases "1 \<le> x"; simp)+

lemma exponent_le: "0 < x \<Longrightarrow> x < 2 powi (k + 1) \<Longrightarrow> exponent x \<le> k"
proof -
  assume "0 < x" and "x < 2 powi (k + 1)"
  then have "2 powi exponent x < (2::rat) powi (k + 1)"
    using exponent_bounds(1) [of x] by linarith
  then have "\<not> k + 1 \<le> exponent x"
    using powi_mono_iff [of "k + 1" "exponent x"] by linarith
  then show ?thesis by simp
qed

lemma exponent_ge: "0 < x \<Longrightarrow> 2 powi k \<le> x \<Longrightarrow> k \<le> exponent x"
proof -
  assume "0 < x" and "2 powi k \<le> x"
  then have "2 powi k < (2::rat) powi (exponent x + 1)"
    using exponent_bounds(2) [of x] by linarith
  then have "\<not> exponent x + 1 \<le> k"
    using powi_mono_iff [of "exponent x + 1" k] by linarith
  then show ?thesis by simp
qed

lemma exponent_mono: "0 < x \<Longrightarrow> x \<le> y \<Longrightarrow> exponent x \<le> exponent y"
  by (rule exponent_le) (use exponent_bounds(2) [of y] in linarith)+

lemma exponent_powi [simp]: "exponent (2 powi k) = k"
proof (rule antisym)
  show "exponent (2 powi k) \<le> k"
    by (rule exponent_le) (simp_all add: power_int_add)
  show "k \<le> exponent (2 powi k)"
    by (rule exponent_ge) simp_all
qed

section \<open>Order properties of rounding\<close>

lemma rnd_0 [simp]: "rnd 0 = 0"
  by (simp add: rnd_def)

lemma rnd_nonneg: "0 \<le> x \<Longrightarrow> 0 \<le> rnd x"
  by (auto simp: rnd_def intro!: mult_nonneg_nonneg round_even_ge_int)

lemma rnd_le_powi:
  assumes "0 \<le> x" and "x \<le> 2 powi k" and "quantum_exp x \<le> k"
  shows "rnd x \<le> 2 powi k"
proof (cases "x = 0")
  case False
  let ?q = "quantum_exp x"
  have "x / 2 powi ?q \<le> 2 powi (k - ?q)"
    using assms(2) by (simp add: powi_diff divide_right_mono)
  also have "\<dots> = of_int (2 ^ nat (k - ?q))"
    using assms(3) by (simp add: powi_is_int)
  finally have "of_int (round_even (x / 2 powi ?q)) \<le> (2::rat) powi (k - ?q)"
    using round_even_le_int [of "x / 2 powi ?q" "2 ^ nat (k - ?q)"] assms(3)
    by (simp add: powi_is_int)
  then have "of_int (round_even (x / 2 powi ?q)) * 2 powi ?q \<le> (2::rat) powi (k - ?q) * 2 powi ?q"
    by (rule mult_right_mono) simp
  then show ?thesis
    using False by (simp add: rnd_def powi_diff)
qed simp

lemma rnd_ge_powi:
  assumes "2 powi k \<le> x" and "quantum_exp x \<le> k"
  shows "2 powi k \<le> rnd x"
proof -
  let ?q = "quantum_exp x"
  have "(0::rat) < 2 powi k" by simp
  then have x: "x \<noteq> 0" using assms(1) by linarith
  have "2 powi (k - ?q) \<le> x / 2 powi ?q"
    using assms(1) by (simp add: powi_diff divide_right_mono)
  then have "of_int (2 ^ nat (k - ?q)) \<le> x / 2 powi ?q"
    using assms(2) by (simp add: powi_is_int)
  then have "(2::rat) powi (k - ?q) \<le> of_int (round_even (x / 2 powi ?q))"
    using round_even_ge_int [of "2 ^ nat (k - ?q)" "x / 2 powi ?q"] assms(2)
    by (simp add: powi_is_int flip: of_int_le_iff)
  then have "(2::rat) powi (k - ?q) * 2 powi ?q \<le> of_int (round_even (x / 2 powi ?q)) * 2 powi ?q"
    by (rule mult_right_mono) simp
  then show ?thesis
    using x by (simp add: rnd_def powi_diff)
qed

lemma rnd_mono:
  assumes "0 \<le> x" and "x \<le> y"
  shows "rnd x \<le> rnd y"
proof (cases "x = 0")
  case True
  then show ?thesis using assms rnd_nonneg [of y] by simp
next
  case False
  then have x: "0 < x" and y: "0 < y" using assms by auto
  have e: "exponent x \<le> exponent y" by (rule exponent_mono [OF x assms(2)])
  show ?thesis
  proof (cases "quantum_exp x = quantum_exp y")
    case True
    have "round_even (x / 2 powi quantum_exp y) \<le> round_even (y / 2 powi quantum_exp y)"
      by (rule round_even_mono) (simp add: assms(2) divide_right_mono)
    then show ?thesis
      using x y by (simp add: rnd_def True mult_right_mono)
  next
    case False
    with e have lt: "exponent x < exponent y" and q: "quantum_exp y = exponent y - 52"
      by (auto simp: quantum_exp_def)
    have "x \<le> 2 powi exponent y"
      using exponent_bounds(2) [OF x] lt powi_mono_iff [of "exponent x + 1" "exponent y"] by simp
    moreover have "quantum_exp x \<le> exponent y"
      using False e q by (auto simp: quantum_exp_def)
    ultimately have "rnd x \<le> 2 powi exponent y"
      using rnd_le_powi assms(1) by blast
    also have "2 powi exponent y \<le> rnd y"
      by (rule rnd_ge_powi [OF exponent_bounds(1) [OF y]]) (simp add: q)
    finally show ?thesis .
  qed
qed

lemma rnd_exact:
  assumes "x = of_int m * 2 powi k" and "0 \<le> m" and "m \<le> 2 ^ 53" and "- 1074 \<le> k"
  shows "rnd x = x"
proof (cases "m = 0")
  case True
  then show ?thesis using assms(1) by simp
next
  case False
  then have x: "0 < x" using assms(1,2) by simp
  have int: "\<exists>n. x / 2 powi quantum_exp x = of_int n"
  proof (cases "m = 2 ^ 53")
    case True
    then have "x = 2 powi (k + 53)"
      using assms(1) by (simp add: power_int_add)
    then have "x / 2 powi quantum_exp x = of_int (2 ^ 52)"
      using assms(4) by (simp add: quantum_exp_def max_def flip: powi_diff)
    then show ?thesis by blast
  next
    case False
    then have "m < 2 ^ 53" using assms(3) by simp
    then have "(of_int m :: rat) < of_int (2 ^ 53)" by (simp only: of_int_less_iff)
    then have "x < of_int (2 ^ 53) * 2 powi k"
      unfolding assms(1) by (rule mult_strict_right_mono) simp
    then have "x < 2 powi (52 + k + 1)"
      by (simp add: power_int_add)
    then have "exponent x \<le> 52 + k" by (rule exponent_le [OF x])
    then have q: "quantum_exp x \<le> k"
      using assms(4) by (simp add: quantum_exp_def)
    have "x / 2 powi quantum_exp x = of_int m * 2 powi (k - quantum_exp x)"
      by (simp add: assms(1) powi_diff)
    also have "\<dots> = of_int (m * 2 ^ nat (k - quantum_exp x))"
      using q by (simp add: powi_is_int)
    finally show ?thesis by blast
  qed
  then show ?thesis
    using x by (auto simp: rnd_def) (metis nonzero_divide_eq_eq power_int_eq_0_iff zero_neq_numeral)
qed

lemma rnd_of_nat: "n \<le> 2 ^ 53 \<Longrightarrow> rnd (of_nat n) = of_nat n"
  by (rule rnd_exact [where m = "int n" and k = 0]) auto

lemma rnd_1 [simp]: "rnd 1 = 1"
  using rnd_of_nat [of 1] by simp

lemma rnd_powi: "- 1074 \<le> k \<Longrightarrow> rnd (2 powi k) = 2 powi k"
  by (rule rnd_exact [where m = 1 and k = k]) auto

lemma rnd_le_double:
  assumes "1 \<le> x"
  shows "rnd x \<le> 2 powi (exponent x + 1)" and "2 powi exponent x \<le> x"
proof -
  have "0 \<le> exponent x" using exponent_ge [of x 0] assms by simp
  then have "rnd (2 powi (exponent x + 1)) = 2 powi (exponent x + 1)"
    by (intro rnd_powi) simp
  then show "rnd x \<le> 2 powi (exponent x + 1)"
    using rnd_mono [of x "2 powi (exponent x + 1)"] exponent_bounds(2) [of x] assms by simp
  show "2 powi exponent x \<le> x"
    using exponent_bounds(1) [of x] assms by simp
qed

section \<open>Values and operations\<close>

text \<open>The Boolean is the sign bit, \<open>True\<close> for negative; both zeros are values.\<close>

datatype f64 = NaN | Infinity bool | Finite bool rat

definition round64 :: "bool \<Rightarrow> rat \<Rightarrow> f64" where
  "round64 s x = (let r = rnd x in if 2 ^ 1024 \<le> r then Infinity s else Finite s r)"

fun f_neg :: "f64 \<Rightarrow> f64" where
  "f_neg NaN = NaN"
| "f_neg (Infinity s) = Infinity (\<not> s)"
| "f_neg (Finite s x) = Finite (\<not> s) x"

fun f_add :: "f64 \<Rightarrow> f64 \<Rightarrow> f64" where
  "f_add (Finite s x) (Finite t y) =
     (if s = t then round64 s (x + y)
      else if y < x then round64 s (x - y)
      else if x < y then round64 t (y - x)
      else Finite False 0)"
| "f_add (Finite s x) (Infinity t) = Infinity t"
| "f_add (Infinity s) (Finite t y) = Infinity s"
| "f_add (Infinity s) (Infinity t) = (if s = t then Infinity s else NaN)"
| "f_add NaN b = NaN"
| "f_add a NaN = NaN"

definition f_sub :: "f64 \<Rightarrow> f64 \<Rightarrow> f64" where
  "f_sub a b = f_add a (f_neg b)"

fun f_mul :: "f64 \<Rightarrow> f64 \<Rightarrow> f64" where
  "f_mul (Finite s x) (Finite t y) = round64 (s \<noteq> t) (x * y)"
| "f_mul (Finite s x) (Infinity t) = (if x = 0 then NaN else Infinity (s \<noteq> t))"
| "f_mul (Infinity s) (Finite t y) = (if y = 0 then NaN else Infinity (s \<noteq> t))"
| "f_mul (Infinity s) (Infinity t) = Infinity (s \<noteq> t)"
| "f_mul NaN b = NaN"
| "f_mul a NaN = NaN"

fun f_div :: "f64 \<Rightarrow> f64 \<Rightarrow> f64" where
  "f_div (Finite s x) (Finite t y) =
     (if y = 0 then if x = 0 then NaN else Infinity (s \<noteq> t) else round64 (s \<noteq> t) (x / y))"
| "f_div (Finite s x) (Infinity t) = Finite (s \<noteq> t) 0"
| "f_div (Infinity s) (Finite t y) = Infinity (s \<noteq> t)"
| "f_div (Infinity s) (Infinity t) = NaN"
| "f_div NaN b = NaN"
| "f_div a NaN = NaN"

definition f_val :: "bool \<Rightarrow> rat \<Rightarrow> rat" where
  "f_val s x = (if s then - x else x)"

fun f_less :: "f64 \<Rightarrow> f64 \<Rightarrow> bool" where
  "f_less (Finite s x) (Finite t y) = (f_val s x < f_val t y)"
| "f_less (Finite s x) (Infinity t) = (\<not> t)"
| "f_less (Infinity s) (Finite t y) = s"
| "f_less (Infinity s) (Infinity t) = (s \<and> \<not> t)"
| "f_less NaN b = False"
| "f_less a NaN = False"

fun f_eq :: "f64 \<Rightarrow> f64 \<Rightarrow> bool" where
  "f_eq (Finite s x) (Finite t y) = (f_val s x = f_val t y)"
| "f_eq (Infinity s) (Infinity t) = (s = t)"
| "f_eq a b = False"

definition f_le :: "f64 \<Rightarrow> f64 \<Rightarrow> bool" where
  "f_le a b \<longleftrightarrow> f_less a b \<or> f_eq a b"

fun f_trunc :: "f64 \<Rightarrow> f64" where
  "f_trunc (Finite s x) = Finite s (of_int \<lfloor>x\<rfloor>)"
| "f_trunc a = a"

fun f_floor :: "f64 \<Rightarrow> f64" where
  "f_floor (Finite s x) = (if s then Finite s (of_int \<lceil>x\<rceil>) else Finite s (of_int \<lfloor>x\<rfloor>))"
| "f_floor a = a"

fun f_ceil :: "f64 \<Rightarrow> f64" where
  "f_ceil (Finite s x) = (if s then Finite s (of_int \<lfloor>x\<rfloor>) else Finite s (of_int \<lceil>x\<rceil>))"
| "f_ceil a = a"

definition u64_as_f64 :: "u64 \<Rightarrow> f64" where
  "u64_as_f64 w = round64 False (of_nat (unat w))"

definition u32_as_f64 :: "u32 \<Rightarrow> f64" where
  "u32_as_f64 w = round64 False (of_nat (unat w))"

definition u16_as_f64 :: "u16 \<Rightarrow> f64" where
  "u16_as_f64 w = round64 False (of_nat (unat w))"

text \<open>A literal of the source: the nearest \<open>f64\<close> to the decimal number.\<close>

definition f64_lit :: "rat \<Rightarrow> f64" where
  "f64_lit x = (if x < 0 then round64 True (- x) else round64 False x)"

text \<open>\<open>as u64\<close> saturates: below zero to 0, above to \<open>u64::MAX\<close>, \<open>NaN\<close> to 0.\<close>

fun f64_as_u64 :: "f64 \<Rightarrow> u64" where
  "f64_as_u64 NaN = 0"
| "f64_as_u64 (Infinity s) = (if s then 0 else - 1)"
| "f64_as_u64 (Finite s x) =
     (if s then 0 else if 2 ^ 64 \<le> \<lfloor>x\<rfloor> then - 1 else of_int \<lfloor>x\<rfloor>)"

section \<open>Bounds on converted values\<close>

lemma rnd_2_64 [simp]: "rnd 18446744073709551616 = 18446744073709551616"
  using rnd_powi [of 64] by simp

text \<open>The \<open>f64\<close> nearest to a natural number.\<close>

definition fl :: "nat \<Rightarrow> rat" where
  "fl n = rnd (of_nat n)"

lemma fl_nonneg [simp]: "0 \<le> fl n"
  by (simp add: fl_def rnd_nonneg)

lemma fl_mono: "m \<le> n \<Longrightarrow> fl m \<le> fl n"
  by (simp add: fl_def rnd_mono)

lemma fl_exact: "n \<le> 2 ^ 53 \<Longrightarrow> fl n = of_nat n"
  unfolding fl_def by (rule rnd_of_nat)

lemma fl_simps [simp]: "fl 0 = 0" "fl 1 = 1" "fl (Suc 0) = 1"
  by (simp_all add: fl_def)

lemma fl_pos: "n \<noteq> 0 \<Longrightarrow> 1 \<le> fl n"
  using fl_mono [of 1 n] by simp

lemma fl_le: "n \<le> 2 ^ 64 \<Longrightarrow> fl n \<le> 2 ^ 64"
  using fl_mono [of n "2 ^ 64"] by (simp add: fl_def)

lemma round64_Finite: "0 \<le> x \<Longrightarrow> x \<le> 2 ^ 64 \<Longrightarrow> round64 s x = Finite s (rnd x)"
proof -
  assume "0 \<le> x" and "x \<le> 2 ^ 64"
  then have "rnd x \<le> 2 ^ 64" using rnd_mono [of x "2 ^ 64"] by simp
  moreover have "(2::rat) ^ 64 < 2 ^ 1024" by simp
  ultimately show ?thesis by (simp add: round64_def Let_def)
qed

lemma round64_of_nat: "n \<le> 2 ^ 64 \<Longrightarrow> round64 s (of_nat n) = Finite s (fl n)"
proof -
  assume "n \<le> 2 ^ 64"
  then have "(of_nat n :: rat) \<le> of_nat (2 ^ 64)" by (simp only: of_nat_le_iff)
  then show ?thesis unfolding fl_def by (intro round64_Finite) simp_all
qed

lemma u64_as_f64_Finite: "u64_as_f64 w = Finite False (fl (unat w))"
  unfolding u64_as_f64_def by (rule round64_of_nat) (use unat_u64_less [of w] in simp)

lemma u64_as_f64_exact: "unat w \<le> 2 ^ 53 \<Longrightarrow> u64_as_f64 w = Finite False (of_nat (unat w))"
  by (simp only: u64_as_f64_Finite fl_exact)

lemma u32_as_f64_Finite: "u32_as_f64 w = Finite False (of_nat (unat w))"
proof -
  have "unat w \<le> 2 ^ 53" "unat w \<le> 2 ^ 64" using unat_u32_less [of w] by simp_all
  then show ?thesis by (simp only: u32_as_f64_def round64_of_nat fl_exact)
qed

lemma u16_as_f64_Finite: "u16_as_f64 w = Finite False (of_nat (unat w))"
proof -
  have "unat w \<le> 2 ^ 53" "unat w \<le> 2 ^ 64" using unat_u16_less [of w] by simp_all
  then show ?thesis by (simp only: u16_as_f64_def round64_of_nat fl_exact)
qed

lemma unat_f64_as_u64_le:
  assumes "0 \<le> x" and "x \<le> of_nat n"
  shows "unat (f64_as_u64 (Finite False x)) \<le> n"
proof -
  have n: "\<lfloor>x\<rfloor> \<le> int n"
    using floor_mono [OF assms(2)] by simp
  show ?thesis
  proof (cases "2 ^ 64 \<le> \<lfloor>x\<rfloor>")
    case True
    have "(2::int) ^ 64 \<le> int n" by (rule order_trans [OF True n])
    then have "2 ^ 64 \<le> n" by simp
    then show ?thesis using unat_u64_less [of "- 1"] True by simp
  next
    case False
    have "unat (of_int \<lfloor>x\<rfloor> :: u64) = nat \<lfloor>x\<rfloor>"
      using False assms(1) by (simp add: unsigned_of_int nat_take_bit_eq take_bit_int_eq_self)
    then show ?thesis using False n by simp
  qed
qed

lemma unat_f64_as_u64_ge:
  assumes "of_nat n \<le> x" and "n < 2 ^ 64"
  shows "n \<le> unat (f64_as_u64 (Finite False x))"
proof -
  have n: "int n \<le> \<lfloor>x\<rfloor>" using floor_mono [OF assms(1)] by simp
  show ?thesis
  proof (cases "2 ^ 64 \<le> \<lfloor>x\<rfloor>")
    case True
    then show ?thesis
      using assms(2) by (simp add: unsigned_minus_1_eq_mask mask_eq_exp_minus_1)
  next
    case False
    moreover have "0 \<le> \<lfloor>x\<rfloor>" by (rule order_trans [OF _ n]) simp
    ultimately have "unat (of_int \<lfloor>x\<rfloor> :: u64) = nat \<lfloor>x\<rfloor>"
      by (simp add: unsigned_of_int nat_take_bit_eq take_bit_int_eq_self)
    then show ?thesis using False n by simp
  qed
qed

text \<open>
  A share of an amount, as the bot computes it: a ratio of at most 1 times the amount, truncated
  back to an integer. Up to \<open>2 ^ 53\<close> the share never exceeds the amount.
\<close>

definition f64_share :: "f64 \<Rightarrow> u64 \<Rightarrow> u64" where
  "f64_share r w = f64_as_u64 (f_trunc (f_mul r (u64_as_f64 w)))"

lemma f64_share_unfold:
  assumes "0 \<le> x" and "x \<le> 1"
  shows "f64_share (Finite False x) w
    = f64_as_u64 (Finite False (of_int \<lfloor>rnd (x * fl (unat w))\<rfloor>))"
proof -
  have "fl (unat w) \<le> 2 ^ 64" using unat_u64_less [of w] by (intro fl_le) simp
  then have "x * fl (unat w) \<le> 1 * 2 ^ 64"
    using assms by (intro mult_mono) auto
  moreover have "0 \<le> x * fl (unat w)" using assms by simp
  ultimately show ?thesis
    by (simp add: f64_share_def u64_as_f64_Finite round64_Finite)
qed

lemma f64_share_le_rnd:
  assumes "0 \<le> x" and "x \<le> 1" and "rnd (x * fl (unat w)) \<le> of_nat n"
  shows "unat (f64_share (Finite False x) w) \<le> n"
  unfolding f64_share_unfold [OF assms(1,2)]
proof (rule unat_f64_as_u64_le)
  let ?y = "rnd (x * fl (unat w))"
  have "0 \<le> ?y" using assms(1) by (intro rnd_nonneg) simp
  then show "(0::rat) \<le> of_int \<lfloor>?y\<rfloor>" by simp
  show "of_int \<lfloor>?y\<rfloor> \<le> (of_nat n :: rat)"
    using assms(3) of_int_floor_le [of ?y] by linarith
qed

lemma f64_share_le:
  assumes "0 \<le> x" and "x \<le> 1" and "unat w \<le> 2 ^ 53"
  shows "f64_share (Finite False x) w \<le> w"
proof -
  have "x * fl (unat w) \<le> 1 * fl (unat w)"
    using assms(2) by (rule mult_right_mono) simp
  then have "rnd (x * fl (unat w)) \<le> rnd (fl (unat w))"
    using assms(1) by (intro rnd_mono) auto
  also have "\<dots> = of_nat (unat w)"
    by (simp only: fl_exact [OF assms(3)] rnd_of_nat [OF assms(3)])
  finally have "unat (f64_share (Finite False x) w) \<le> unat w"
    by (rule f64_share_le_rnd [OF assms(1,2)])
  then show ?thesis by (simp only: word_le_nat_alt)
qed

text \<open>A share of at most one half never exceeds the amount, whatever its size.\<close>

lemma rnd_half_le:
  assumes "0 \<le> x" and "x \<le> 1 / 2" and "n \<noteq> 0"
  shows "rnd (x * fl n) \<le> of_nat n"
proof -
  let ?n = "of_nat n :: rat"
  have n: "1 \<le> ?n" using assms(3) by (cases n) auto
  have e: "0 \<le> exponent ?n" using exponent_ge [of ?n 0] n by simp
  have "x * fl n \<le> 1 / 2 * 2 powi (exponent ?n + 1)"
    using assms(1,2) rnd_le_double(1) [OF n] by (intro mult_mono) (auto simp: fl_def [symmetric])
  then have "x * fl n \<le> 2 powi exponent ?n" by (simp add: power_int_add)
  then have "rnd (x * fl n) \<le> rnd (2 powi exponent ?n)"
    using assms(1) by (intro rnd_mono) auto
  also have "\<dots> \<le> ?n" using e rnd_le_double(2) [OF n] by (simp add: rnd_powi)
  finally show ?thesis .
qed

lemma f64_share_half_le:
  assumes "0 \<le> x" and "x \<le> 1 / 2"
  shows "f64_share (Finite False x) w \<le> w"
proof -
  have "rnd (x * fl (unat w)) \<le> of_nat (unat w)"
    using assms rnd_half_le [OF assms, of "unat w"] by (cases "unat w = 0") auto
  then have "unat (f64_share (Finite False x) w) \<le> unat w"
    using assms by (intro f64_share_le_rnd) auto
  then show ?thesis by (simp only: word_le_nat_alt)
qed

lemma f_div_u64_le1:
  assumes "a \<le> b" and "b \<noteq> 0"
  obtains x where "f_div (u64_as_f64 a) (u64_as_f64 b) = Finite False x" and "0 \<le> x" and "x \<le> 1"
proof -
  let ?a = "fl (unat a)" and ?b = "fl (unat b)"
  have b: "1 \<le> ?b" using assms(2) by (intro fl_pos) (simp add: unat_eq_zero)
  have ab: "?a \<le> ?b" using assms(1) by (intro fl_mono) (simp only: word_le_nat_alt)
  have q: "0 \<le> ?a / ?b" "?a / ?b \<le> 1" using ab b by (auto simp: divide_le_eq_1)
  then have "rnd (?a / ?b) \<le> 1" using rnd_mono [of "?a / ?b" 1] by simp
  moreover have "?a / ?b \<le> 2 ^ 64" by (rule order_trans [OF q(2)]) simp
  then have "f_div (u64_as_f64 a) (u64_as_f64 b) = Finite False (rnd (?a / ?b))"
    using b round64_Finite [OF q(1), of False] by (simp add: u64_as_f64_Finite)
  ultimately show ?thesis using that rnd_nonneg [OF q(1)] by blast
qed

end
