(* ===== verification/Price_Feed.thy ===== *)
theory Price_Feed
  imports Constants Float64
begin

text \<open>
  The price cache of \<^verbatim>\<open>swap/jupiter/price.rs\<close>: tokens are subscribed with a time to live, a
  refresh stores the prices an HTTP request returned for the tokens subscribed at that moment, a
  cleanup drops the entries whose time to live has passed. Times are nanoseconds of one clock;
  the response of the price API is an argument of the refresh.
\<close>

type_synonym instant = nat
type_synonym duration = nat

datatype token_price = NeverPolled | RecentPrice f64

fun price :: "token_price \<Rightarrow> f64 option" where
  "price NeverPolled = None"
| "price (RecentPrice p) = Some p"

record feed_entry =
  fe_price :: token_price
  fe_last_updated :: instant
  fe_ttl :: duration

type_synonym price_feed = "(pubkey, feed_entry) store"

definition DEFAULT_TTL :: duration where
  "DEFAULT_TTL = 150 * 1000000000"

definition get_price_usd :: "price_feed \<Rightarrow> pubkey \<Rightarrow> token_price option" where
  "get_price_usd feed t = map_option fe_price (store_get feed t)"

definition subscribe_token ::
  "price_feed \<Rightarrow> instant \<Rightarrow> pubkey \<Rightarrow> duration option \<Rightarrow> price_feed \<times> token_price" where
  "subscribe_token feed now t ttl_opt =
     (let ttl = unwrap_or ttl_opt DEFAULT_TTL;
          entry = (case store_get feed t of
                     Some e \<Rightarrow> e\<lparr>fe_last_updated := now, fe_ttl := ttl\<rparr>
                   | None \<Rightarrow> \<lparr>fe_price = NeverPolled, fe_last_updated = now, fe_ttl = ttl\<rparr>)
      in (store_insert feed t entry, fe_price entry))"

definition feed_get_price :: "price_feed \<Rightarrow> pubkey \<Rightarrow> pubkey \<Rightarrow> f64 option" where
  "feed_get_price feed i j =
     Option.bind (get_price_usd feed i) (\<lambda>pi. Option.bind (price pi) (\<lambda>vi.
     Option.bind (get_price_usd feed j) (\<lambda>pj. Option.bind (price pj) (\<lambda>vj.
       Some (f_div vi vj)))))"

text \<open>One entry of the API's answer: \<open>None\<close> is a token the API has no price for; a token that is
  no longer in the cache is not added.\<close>

definition apply_price :: "price_feed \<Rightarrow> pubkey \<times> f64 option \<Rightarrow> price_feed" where
  "apply_price feed tp =
     (case snd tp of
        None \<Rightarrow> feed
      | Some p \<Rightarrow> (case store_get feed (fst tp) of
                     None \<Rightarrow> feed
                   | Some e \<Rightarrow> store_insert feed (fst tp) (e\<lparr>fe_price := RecentPrice p\<rparr>)))"

definition update_token_prices ::
  "(pubkey list \<Rightarrow> (pubkey \<times> f64 option) list) \<Rightarrow> price_feed \<Rightarrow> price_feed" where
  "update_token_prices request feed =
     (let tokens = map fst feed;
          updated_prices = (if tokens = [] then [] else request tokens)
      in foldl apply_price feed updated_prices)"

definition cleanup :: "instant \<Rightarrow> price_feed \<Rightarrow> price_feed" where
  "cleanup now feed =
     (let entries = map (\<lambda>(k, e). (k, fe_last_updated e, fe_ttl e)) feed
      in foldl (\<lambda>f (key, inst, ttl). if ttl < now - inst then store_remove f key else f)
           feed entries)"

section \<open>Properties\<close>

text \<open>Subscribing never loses a price that was already polled.\<close>

lemma get_price_subscribe:
  "get_price_usd (fst (subscribe_token feed now t ttl)) t' =
     (if t' = t then Some (case get_price_usd feed t of None \<Rightarrow> NeverPolled | Some p \<Rightarrow> p)
      else get_price_usd feed t')"
  by (simp add: get_price_usd_def subscribe_token_def Let_def split: option.split)

lemma dom_apply_price:
  "store_get (apply_price feed tp) t = None \<longleftrightarrow> store_get feed t = None"
  by (auto simp: apply_price_def split: option.splits)

lemma dom_update_token_prices:
  "store_get (update_token_prices request feed) t = None \<longleftrightarrow> store_get feed t = None"
proof -
  have "store_get (foldl apply_price f ps) t = None \<longleftrightarrow> store_get f t = None" for f ps
    by (induction ps arbitrary: f) (auto simp: dom_apply_price)
  then show ?thesis by (simp add: update_token_prices_def Let_def)
qed

lemma apply_price_other: "fst tp \<noteq> t \<Longrightarrow> store_get (apply_price feed tp) t = store_get feed t"
  by (auto simp: apply_price_def split: option.splits)

lemma foldl_apply_price_other:
  "t \<notin> fst ` set ps \<Longrightarrow> store_get (foldl apply_price feed ps) t = store_get feed t"
  by (induction ps arbitrary: feed) (auto simp: apply_price_other)

lemma foldl_apply_price_priced:
  assumes "distinct (map fst ps)" and "(t, Some p) \<in> set ps" and "store_get feed t = Some e"
  shows "store_get (foldl apply_price feed ps) t = Some (e\<lparr>fe_price := RecentPrice p\<rparr>)"
  using assms
proof (induction ps arbitrary: feed)
  case (Cons q ps)
  show ?case
  proof (cases "fst q = t")
    case True
    then have q: "q = (t, Some p)" and "t \<notin> fst ` set ps"
      using Cons.prems(1,2) by (cases q; force)+
    moreover have "store_get (apply_price feed q) t = Some (e\<lparr>fe_price := RecentPrice p\<rparr>)"
      using Cons.prems(3) by (simp add: q apply_price_def)
    ultimately show ?thesis by (simp add: foldl_apply_price_other)
  next
    case False
    then show ?thesis
      using Cons.prems Cons.IH [of "apply_price feed q"] by (auto simp: apply_price_other)
  qed
qed simp

text \<open>The entries a cleanup keeps are exactly those within their time to live.\<close>

lemma store_get_cleanup_aux:
  assumes "distinct (map fst es)"
  shows "store_get (foldl (\<lambda>f (key, inst, ttl). if ttl < now - inst then store_remove f key else f)
           f es) t
    = (case map_of es t of
         Some (inst, ttl) \<Rightarrow> if ttl < now - inst then None else store_get f t
       | None \<Rightarrow> store_get f t)"
  using assms
proof (induction es arbitrary: f)
  case (Cons x es)
  obtain k i l where x: "x = (k, i, l)" by (cases x) auto
  have "t = k \<Longrightarrow> map_of es t = None"
    using Cons.prems x by (auto simp: map_of_eq_None_iff)
  then show ?case using Cons by (auto simp: x split: option.splits)
qed simp

lemma store_get_cleanup:
  assumes "store_ok feed"
  shows "store_get (cleanup now feed) t =
    (case store_get feed t of
       None \<Rightarrow> None
     | Some e \<Rightarrow> if fe_ttl e < now - fe_last_updated e then None else Some e)"
proof -
  let ?es = "map (\<lambda>(k, e). (k, fe_last_updated e, fe_ttl e)) feed"
  have fst_es: "map fst ?es = map fst feed" by (induction feed) auto
  have get: "map_of ?es t = map_option (\<lambda>e. (fe_last_updated e, fe_ttl e)) (map_of feed t)"
    by (induction feed) auto
  have "distinct (map fst ?es)" using assms unfolding fst_es by (simp add: store_ok_def)
  then show ?thesis
    unfolding cleanup_def Let_def
    by (subst store_get_cleanup_aux) (auto simp: get store_get_def split: option.splits)
qed

end
