(* ===== verification/History.thy ===== *)
theory History
  imports Price_Feed
begin

text \<open>
  The trade history of \<^verbatim>\<open>services/copy/history.rs\<close>: for every copied wallet and token, what the
  wallet (\<open>origin\<close>) and the bot (\<open>exec\<close>) bought and sold. The volumes of tokens are \<open>u64\<close>, the
  values in USD and SOL are \<open>f64\<close>. Also here: the price derivation from a swap's two amounts.
\<close>

datatype trade_direction = DirBuy | DirSell

record trade_history =
  buy_volume_token :: u64
  sell_volume_token :: u64
  buy_volume_usd :: f64
  sell_volume_usd :: f64
  buy_volume_sol :: f64
  sell_volume_sol :: f64

record copy_history =
  ch_origin :: trade_history
  ch_exec :: trade_history
  ch_token :: pubkey

type_synonym historical_trades = "(pubkey \<times> pubkey, copy_history) store"

record trade_volume =
  tv_exec_volume_token :: u64
  tv_exec_volume_usd :: f64
  tv_exec_volume_sol :: f64
  tv_origin_volume_token :: u64
  tv_origin_volume_usd :: f64
  tv_origin_volume_sol :: f64
  tv_dust_token_amount :: u64

record copy_trade =
  ct_volume :: trade_volume
  ct_token :: pubkey
  ct_origin_signature :: signature
  ct_exec_signature :: signature
  ct_origin_wallet :: pubkey
  ct_exec_wallet :: pubkey
  ct_direction :: trade_direction

definition f64_zero :: f64 where
  "f64_zero = Finite False 0"

definition trade_history_default :: trade_history where
  "trade_history_default =
     \<lparr>buy_volume_token = 0, sell_volume_token = 0, buy_volume_usd = f64_zero,
      sell_volume_usd = f64_zero, buy_volume_sol = f64_zero, sell_volume_sol = f64_zero\<rparr>"

definition copy_history_default :: copy_history where
  "copy_history_default =
     \<lparr>ch_origin = trade_history_default, ch_exec = trade_history_default, ch_token = 0\<rparr>"

definition get_history_for_wallet_and_token ::
  "historical_trades \<Rightarrow> pubkey \<Rightarrow> pubkey \<Rightarrow> copy_history option" where
  "get_history_for_wallet_and_token h w t = store_get h (w, t)"

definition remove_history ::
  "historical_trades \<Rightarrow> pubkey \<Rightarrow> pubkey \<Rightarrow> historical_trades" where
  "remove_history h w t = store_remove h (w, t)"

text \<open>\<open>+=\<close> on one side of the book, for a buy and for a sell.\<close>

definition add_buy :: "trade_history \<Rightarrow> u64 \<Rightarrow> f64 \<Rightarrow> f64 \<Rightarrow> trade_history" where
  "add_buy th v usd sol = th\<lparr>
     buy_volume_token := buy_volume_token th + v,
     buy_volume_usd := f_add (buy_volume_usd th) usd,
     buy_volume_sol := f_add (buy_volume_sol th) sol\<rparr>"

definition add_sell :: "trade_history \<Rightarrow> u64 \<Rightarrow> f64 \<Rightarrow> f64 \<Rightarrow> trade_history" where
  "add_sell th v usd sol = th\<lparr>
     sell_volume_token := sell_volume_token th + v,
     sell_volume_usd := f_add (sell_volume_usd th) usd,
     sell_volume_sol := f_add (sell_volume_sol th) sol\<rparr>"

definition insert_trade_inner ::
  "historical_trades \<Rightarrow> pubkey \<Rightarrow> pubkey \<Rightarrow> u64 \<Rightarrow> u64 \<Rightarrow> f64 \<Rightarrow> f64 \<Rightarrow> f64 \<Rightarrow> f64 \<Rightarrow> u64
     \<Rightarrow> trade_direction \<Rightarrow> historical_trades result" where
  "insert_trade_inner h origin_wallet tok exec_volume_token origin_volume_token
     exec_volume_usd origin_volume_usd exec_volume_sol origin_volume_sol dust_volume_token dir =
   (if is_static_token tok then Inl (Error ''Can't track trades for SOL | USDC | USDT'')
    else
      let history = unwrap_or (store_get h (origin_wallet, tok)) copy_history_default;
          exec_volume_token = exec_volume_token - dust_volume_token;
          history = history\<lparr>ch_token := tok\<rparr>;
          history =
            (case dir of
               DirBuy \<Rightarrow> history\<lparr>
                 ch_origin := add_buy (ch_origin history) origin_volume_token origin_volume_usd
                                origin_volume_sol,
                 ch_exec := add_buy (ch_exec history) exec_volume_token exec_volume_usd
                              exec_volume_sol\<rparr>
             | DirSell \<Rightarrow> history\<lparr>
                 ch_origin := add_sell (ch_origin history) origin_volume_token origin_volume_usd
                                origin_volume_sol,
                 ch_exec := add_sell (ch_exec history) exec_volume_token exec_volume_usd
                              exec_volume_sol\<rparr>)
      in Inr (store_insert h (origin_wallet, tok) history))"

text \<open>The part of a buy that stays in the wallet: \<open>(bps as f64 / 10_000.0) * volume\<close>, truncated.\<close>

definition dust_ratio :: "u16 \<Rightarrow> f64" where
  "dust_ratio bps = f_div (u16_as_f64 bps) (f64_lit 10000)"

definition dust_amount :: "u16 \<Rightarrow> u64 \<Rightarrow> u64" where
  "dust_amount bps volume =
     f64_as_u64 (f_trunc (f_mul (dust_ratio bps) (u64_as_f64 volume)))"

text \<open>\<open>(volume as f64 * price) / 10_u32.pow(decimals) as f64\<close>\<close>

definition token_value :: "u64 \<Rightarrow> f64 \<Rightarrow> u8 \<Rightarrow> f64" where
  "token_value volume p decimals =
     f_div (f_mul (u64_as_f64 volume) p) (u32_as_f64 (pow10_u32 decimals))"

definition trade_dust :: "trade_direction \<Rightarrow> u16 option \<Rightarrow> u64 \<Rightarrow> u64 result" where
  "trade_dust dir moonbag_bps volume =
     (case dir of
        DirBuy \<Rightarrow>
          (let dust_bps = unwrap_or moonbag_bps 0
           in if 10000 < dust_bps then Inl (Error ''Dust bps is greater than 100%'')
              else Inr (dust_amount dust_bps volume))
      | DirSell \<Rightarrow> Inr 0)"

definition insert_trade ::
  "historical_trades \<Rightarrow> pubkey \<Rightarrow> pubkey \<Rightarrow> u8 \<Rightarrow> u64 \<Rightarrow> u64 \<Rightarrow> f64 \<Rightarrow> f64 \<Rightarrow> f64 \<Rightarrow> f64
     \<Rightarrow> trade_direction \<Rightarrow> u16 option \<Rightarrow> (historical_trades \<times> trade_volume) result" where
  "insert_trade h origin_wallet tok token_decimals exec_volume_token origin_volume_token
     exec_price_usd exec_price_sol origin_price_usd origin_price_sol dir moonbag_bps =
   (if is_static_token tok then Inl (Error ''Can't track trades for SOL | USDC | USDT'')
    else
      bind_res (trade_dust dir moonbag_bps exec_volume_token) (\<lambda>dust_volume.
      let origin_volume_usd = token_value origin_volume_token origin_price_usd token_decimals;
          origin_volume_sol = token_value origin_volume_token origin_price_sol token_decimals;
          exec_volume_usd = token_value exec_volume_token exec_price_usd token_decimals;
          exec_volume_sol = token_value exec_volume_token exec_price_sol token_decimals
      in bind_res
           (insert_trade_inner h origin_wallet tok exec_volume_token origin_volume_token
              exec_volume_usd origin_volume_usd exec_volume_sol origin_volume_sol dust_volume dir)
           (\<lambda>h'.
      bind_res (trade_dust dir moonbag_bps exec_volume_token) (\<lambda>reported_dust.
      Inr (h', \<lparr>tv_exec_volume_token = exec_volume_token, tv_exec_volume_usd = exec_volume_usd,
                tv_exec_volume_sol = exec_volume_sol,
                tv_origin_volume_token = origin_volume_token,
                tv_origin_volume_usd = origin_volume_usd,
                tv_origin_volume_sol = origin_volume_sol,
                tv_dust_token_amount = reported_dust\<rparr>)))))"

section \<open>Prices\<close>

record price_quote =
  input_price_usd :: f64
  output_price_usd :: f64
  input_price_sol :: f64
  output_price_sol :: f64
  sol_price_usd :: f64

definition price_default :: price_quote where
  "price_default = \<lparr>input_price_usd = f64_zero, output_price_usd = f64_zero,
     input_price_sol = f64_zero, output_price_sol = f64_zero, sol_price_usd = f64_zero\<rparr>"

text \<open>Step 1 of both functions: the mints with a known price.\<close>

definition mint_price :: "pubkey \<Rightarrow> f64 \<Rightarrow> f64 option" where
  "mint_price mint sol_usd =
     (if mint = USDC \<or> mint = USDT then Some (f64_lit 1)
      else if mint = SOL then Some sol_usd else None)"

text \<open>The last resort: the price of the other token from the two amounts.\<close>

definition price_from_amounts :: "u64 \<Rightarrow> f64 \<Rightarrow> u64 \<Rightarrow> u8 \<Rightarrow> u8 \<Rightarrow> f64" where
  "price_from_amounts known_amount known_price amount known_decimals decimals =
     f_mul (f_div (f_mul (u64_as_f64 known_amount) known_price) (u64_as_f64 amount))
           (f_div (u32_as_f64 (pow10_u32 decimals)) (u32_as_f64 (pow10_u32 known_decimals)))"

definition resolve_prices ::
  "f64 option \<Rightarrow> f64 option \<Rightarrow> u64 \<Rightarrow> u64 \<Rightarrow> u8 \<Rightarrow> u8 \<Rightarrow> (f64 \<times> f64) option" where
  "resolve_prices input_usd output_usd input_amount output_amount input_decimals output_decimals =
     (case (input_usd, output_usd) of
        (Some p_in, Some p_out) \<Rightarrow> Some (p_in, p_out)
      | (Some p_in, None) \<Rightarrow>
          Some (p_in, price_from_amounts input_amount p_in output_amount input_decimals output_decimals)
      | (None, Some p_out) \<Rightarrow>
          Some (price_from_amounts output_amount p_out input_amount output_decimals input_decimals, p_out)
      | (None, None) \<Rightarrow> None)"

definition mk_price :: "f64 \<Rightarrow> f64 \<Rightarrow> f64 \<Rightarrow> price_quote" where
  "mk_price sol_usd p_in p_out =
     \<lparr>input_price_usd = p_in, output_price_usd = p_out, input_price_sol = f_div p_in sol_usd,
      output_price_sol = f_div p_out sol_usd, sol_price_usd = sol_usd\<rparr>"

text \<open>The price request is made only where neither mint is priced by step 1; its answer is an
  argument (\<open>None\<close>: no price).\<close>

definition get_token_prices ::
  "(pubkey list \<Rightarrow> pubkey \<Rightarrow> f64 option) \<Rightarrow> price_feed \<Rightarrow> pubkey \<Rightarrow> pubkey \<Rightarrow> u64 \<Rightarrow> u64 \<Rightarrow> u8 \<Rightarrow> u8
     \<Rightarrow> f64 option \<Rightarrow> price_quote option" where
  "get_token_prices request feed input_mint output_mint input_amount output_amount
     input_decimals output_decimals sol_usd_opt =
   (case or_else sol_usd_opt (Option.bind (get_price_usd feed SOL) price) of
      None \<Rightarrow> None
    | Some sol_usd \<Rightarrow>
        let input_usd = mint_price input_mint sol_usd;
            output_usd = mint_price output_mint sol_usd;
            (input_usd, output_usd) =
              (if input_usd = None \<and> output_usd = None
               then (request [input_mint, output_mint] input_mint,
                     request [input_mint, output_mint] output_mint)
               else (input_usd, output_usd))
        in map_option (\<lambda>(p_in, p_out). mk_price sol_usd p_in p_out)
             (resolve_prices input_usd output_usd input_amount output_amount
                input_decimals output_decimals))"

definition calculate_token_prices ::
  "pubkey \<Rightarrow> pubkey \<Rightarrow> u64 \<Rightarrow> u64 \<Rightarrow> u8 \<Rightarrow> u8 \<Rightarrow> f64 \<Rightarrow> price_quote result" where
  "calculate_token_prices input_mint output_mint input_amount output_amount
     input_decimals output_decimals sol_usd =
   (case resolve_prices (mint_price input_mint sol_usd) (mint_price output_mint sol_usd)
           input_amount output_amount input_decimals output_decimals of
      None \<Rightarrow> Inl (Error
        ''Cannot calculate token prices. Neither input nor output mint price is known'')
    | Some (p_in, p_out) \<Rightarrow> Inr (mk_price sol_usd p_in p_out))"

section \<open>Dust\<close>

lemma dust_amount_share: "dust_amount bps v = f64_share (dust_ratio bps) v"
  by (simp add: dust_amount_def f64_share_def)

lemma f64_lit_10000: "f64_lit 10000 = Finite False 10000"
proof -
  have "round64 False (of_nat 10000) = Finite False (of_nat 10000)"
    by (subst round64_of_nat) (simp_all add: fl_exact)
  then show ?thesis by (simp add: f64_lit_def)
qed

lemma dust_ratio_le:
  assumes "unat bps \<le> n" and "rnd (of_nat n / 10000) = of_nat n / 10000" and "n \<le> 10000"
  obtains x where "dust_ratio bps = Finite False x" and "0 \<le> x" and "x \<le> of_nat n / 10000"
proof -
  let ?q = "of_nat (unat bps) / 10000 :: rat"
  have "(of_nat (unat bps) :: rat) \<le> of_nat n"
    using assms(1) by (simp only: of_nat_le_iff)
  then have q: "0 \<le> ?q" "?q \<le> of_nat n / 10000" by (simp_all add: divide_right_mono del: of_nat_unat)
  have "(of_nat n :: rat) \<le> of_nat 10000"
    using assms(3) by (simp only: of_nat_le_iff)
  then have "?q \<le> 2 ^ 64" using q(2) by simp
  then have "dust_ratio bps = Finite False (rnd ?q)"
    using round64_Finite [OF q(1), of False]
    by (simp add: dust_ratio_def u16_as_f64_Finite f64_lit_10000 del: of_nat_unat)
  moreover have "rnd ?q \<le> of_nat n / 10000"
    using rnd_mono [OF q] assms(2) by simp
  ultimately show ?thesis using that rnd_nonneg [OF q(1)] by blast
qed

lemma rnd_half: "rnd (1 / 2) = 1 / 2"
  by (rule rnd_exact [where m = 1 and k = "- 1"]) (auto simp: power_int_def)

lemma dust_amount_le_half: "bps \<le> 5000 \<Longrightarrow> dust_amount bps v \<le> v"
proof -
  assume "bps \<le> 5000"
  then have "unat bps \<le> 5000" by (simp add: word_le_nat_alt)
  then obtain x where "dust_ratio bps = Finite False x" "0 \<le> x" "x \<le> of_nat 5000 / 10000"
    by (rule dust_ratio_le) (simp_all add: rnd_half)
  then show ?thesis by (simp add: dust_amount_share f64_share_half_le)
qed

lemma dust_amount_le_exact: "bps \<le> 10000 \<Longrightarrow> unat v \<le> 2 ^ 53 \<Longrightarrow> dust_amount bps v \<le> v"
proof -
  assume "bps \<le> 10000" and v: "unat v \<le> 2 ^ 53"
  then have "unat bps \<le> 10000" by (simp add: word_le_nat_alt)
  then obtain x where "dust_ratio bps = Finite False x" "0 \<le> x" "x \<le> of_nat 10000 / 10000"
    by (rule dust_ratio_le) simp_all
  then show ?thesis using v by (simp add: dust_amount_share f64_share_le)
qed

section \<open>The history as a ledger\<close>

record trade =
  tr_wallet :: pubkey
  tr_token :: pubkey
  tr_exec :: u64
  tr_origin :: u64
  tr_exec_usd :: f64
  tr_origin_usd :: f64
  tr_exec_sol :: f64
  tr_origin_sol :: f64
  tr_dust :: u64
  tr_dir :: trade_direction

text \<open>A call whose error is only logged leaves the history as it was.\<close>

definition apply_trade :: "historical_trades \<Rightarrow> trade \<Rightarrow> historical_trades" where
  "apply_trade h t =
     (case insert_trade_inner h (tr_wallet t) (tr_token t) (tr_exec t) (tr_origin t)
             (tr_exec_usd t) (tr_origin_usd t) (tr_exec_sol t) (tr_origin_sol t)
             (tr_dust t) (tr_dir t) of
        Inr h' \<Rightarrow> h'
      | Inl _ \<Rightarrow> h)"

text \<open>The abstract ledger: unbounded totals (origin bought, origin sold, bot bought, bot sold).\<close>

type_synonym totals = "nat \<times> nat \<times> nat \<times> nat"
type_synonym ledger = "pubkey \<times> pubkey \<Rightarrow> totals"

fun add_totals :: "totals \<Rightarrow> totals \<Rightarrow> totals" where
  "add_totals (a, b, c, d) (a', b', c', d') = (a + a', b + b', c + c', d + d')"

definition history_totals :: "copy_history \<Rightarrow> totals" where
  "history_totals c =
     (unat (buy_volume_token (ch_origin c)), unat (sell_volume_token (ch_origin c)),
      unat (buy_volume_token (ch_exec c)), unat (sell_volume_token (ch_exec c)))"

definition ledger_of :: "historical_trades \<Rightarrow> ledger" where
  "ledger_of h k = history_totals (unwrap_or (store_get h k) copy_history_default)"

definition trade_totals :: "trade \<Rightarrow> totals" where
  "trade_totals t =
     (let kept = unat (tr_exec t) - unat (tr_dust t)
      in case tr_dir t of
           DirBuy \<Rightarrow> (unat (tr_origin t), 0, kept, 0)
         | DirSell \<Rightarrow> (0, unat (tr_origin t), 0, kept))"

definition ledger_step :: "ledger \<Rightarrow> trade \<Rightarrow> ledger" where
  "ledger_step L t =
     (if is_static_token (tr_token t) then L
      else L((tr_wallet t, tr_token t) :=
               add_totals (L (tr_wallet t, tr_token t)) (trade_totals t)))"

fun fits_u64 :: "totals \<Rightarrow> bool" where
  "fits_u64 (a, b, c, d) \<longleftrightarrow> a < 2 ^ 64 \<and> b < 2 ^ 64 \<and> c < 2 ^ 64 \<and> d < 2 ^ 64"

definition trade_fits :: "historical_trades \<Rightarrow> trade \<Rightarrow> bool" where
  "trade_fits h t \<longleftrightarrow>
     is_static_token (tr_token t) \<or>
     tr_dust t \<le> tr_exec t \<and>
     fits_u64 (add_totals (ledger_of h (tr_wallet t, tr_token t)) (trade_totals t))"

definition sum_trades :: "trade list \<Rightarrow> pubkey \<times> pubkey \<Rightarrow> totals" where
  "sum_trades ts k =
     fold (\<lambda>t acc. add_totals acc (trade_totals t))
       (filter (\<lambda>t. (tr_wallet t, tr_token t) = k \<and> \<not> is_static_token (tr_token t)) ts)
       (0, 0, 0, 0)"

lemma insert_trade_inner_static:
  "is_static_token tok \<Longrightarrow>
     insert_trade_inner h w tok x o' xu ou xs os d dir
       = Inl (Error ''Can't track trades for SOL | USDC | USDT'')"
  by (simp add: insert_trade_inner_def)

lemma history_totals_insert:
  assumes "tr_dust t \<le> tr_exec t"
    and "fits_u64 (add_totals (history_totals c) (trade_totals t))"
  shows "history_totals (case tr_dir t of
      DirBuy \<Rightarrow> c\<lparr>ch_token := k,
        ch_origin := add_buy (ch_origin c) (tr_origin t) ou os,
        ch_exec := add_buy (ch_exec c) (tr_exec t - tr_dust t) xu xs\<rparr>
    | DirSell \<Rightarrow> c\<lparr>ch_token := k,
        ch_origin := add_sell (ch_origin c) (tr_origin t) ou os,
        ch_exec := add_sell (ch_exec c) (tr_exec t - tr_dust t) xu xs\<rparr>)
    = add_totals (history_totals c) (trade_totals t)"
proof -
  have "unat (tr_exec t - tr_dust t) = unat (tr_exec t) - unat (tr_dust t)"
    using assms(1) by (intro unat_minus_no_wrap) (simp add: word_le_nat_alt)
  then show ?thesis
    using assms(2)
    by (cases "tr_dir t")
      (auto simp: history_totals_def trade_totals_def add_buy_def add_sell_def Let_def
        unat_plus_no_wrap)
qed

lemma ledger_of_apply_trade:
  assumes "trade_fits h t"
  shows "ledger_of (apply_trade h t) = ledger_step (ledger_of h) t"
proof (cases "is_static_token (tr_token t)")
  case True
  then show ?thesis
    by (simp add: apply_trade_def insert_trade_inner_static ledger_step_def)
next
  case False
  let ?k = "(tr_wallet t, tr_token t)"
  let ?c = "unwrap_or (store_get h ?k) copy_history_default"
  have fits: "fits_u64 (add_totals (history_totals ?c) (trade_totals t))"
    and dust: "tr_dust t \<le> tr_exec t"
    using assms False by (simp_all add: trade_fits_def ledger_of_def)
  note tot = history_totals_insert [OF dust fits, where k = "tr_token t" and ou = "tr_origin_usd t"
      and os = "tr_origin_sol t" and xu = "tr_exec_usd t" and xs = "tr_exec_sol t"]
  show ?thesis
  proof (rule ext)
    fix k
    show "ledger_of (apply_trade h t) k = ledger_step (ledger_of h) t k"
      using False tot
      by (cases "tr_dir t")
        (simp_all add: ledger_of_def apply_trade_def insert_trade_inner_def ledger_step_def Let_def)
  qed
qed

interpretation trades: simulation apply_trade ledger_step ledger_of trade_fits
  by unfold_locales (rule ledger_of_apply_trade)

lemma ledger_of_Nil: "ledger_of [] = (\<lambda>_. (0, 0, 0, 0))"
  by (rule ext)
    (simp add: ledger_of_def history_totals_def copy_history_default_def trade_history_default_def)

lemma foldl_ledger_step:
  "foldl ledger_step L ts k =
     fold (\<lambda>t acc. add_totals acc (trade_totals t))
       (filter (\<lambda>t. (tr_wallet t, tr_token t) = k \<and> \<not> is_static_token (tr_token t)) ts) (L k)"
  by (induction ts arbitrary: L) (auto simp: ledger_step_def)


lemma fits_u64_fold:
  "fits_u64 (fold (\<lambda>t acc. add_totals acc (trade_totals t)) ts x) \<Longrightarrow> fits_u64 x"
proof (induction ts arbitrary: x)
  case (Cons t ts)
  then have "fits_u64 (add_totals x (trade_totals t))" by simp
  then show ?case by (cases x; cases "trade_totals t") auto
qed simp

lemma fits_run_if_totals_fit:
  assumes "\<forall>t \<in> set ts. tr_dust t \<le> tr_exec t"
    and "\<forall>k. fits_u64 (ledger_of h k)"
    and "\<forall>k. fits_u64 (foldl ledger_step (ledger_of h) ts k)"
  shows "trades.fits_run h ts"
  using assms
proof (induction ts arbitrary: h)
  case (Cons t ts)
  let ?k = "(tr_wallet t, tr_token t)"
  show ?case
  proof (cases "is_static_token (tr_token t)")
    case True
    then have same: "ledger_step (ledger_of h) t = ledger_of h" "apply_trade h t = h"
      by (simp_all add: ledger_step_def apply_trade_def insert_trade_inner_static)
    then show ?thesis using Cons True same
      by (cases "trade_fits h t") (auto simp: trade_fits_def [of h t])
  next
    case False
    have "fits_u64 (fold (\<lambda>t acc. add_totals acc (trade_totals t))
        (filter (\<lambda>t. (tr_wallet t, tr_token t) = ?k \<and> \<not> is_static_token (tr_token t)) ts)
        (ledger_step (ledger_of h) t ?k))"
      using Cons.prems(3) by (simp only: foldl.simps foldl_ledger_step)
    then have "fits_u64 (ledger_step (ledger_of h) t ?k)" by (rule fits_u64_fold)
    then have fit: "trade_fits h t"
      using False Cons.prems(1) by (simp add: trade_fits_def ledger_step_def)
    moreover from Cons.prems(2,3) fit False have "\<forall>k. fits_u64 (ledger_of (apply_trade h t) k)"
      by (auto simp: ledger_of_apply_trade ledger_step_def trade_fits_def)
    ultimately show ?thesis
      using Cons.prems(1,3) Cons.IH [of "apply_trade h t"]
      by (simp add: ledger_of_apply_trade)
  qed
qed simp

section \<open>Properties of the history\<close>

lemma foldl_trades_totals:
  assumes "\<forall>t \<in> set ts. tr_dust t \<le> tr_exec t" and "\<forall>k. fits_u64 (sum_trades ts k)"
  shows "ledger_of (foldl apply_trade [] ts) = sum_trades ts"
proof -
  have sums: "foldl ledger_step (ledger_of []) ts = sum_trades ts"
    by (rule ext) (simp add: foldl_ledger_step sum_trades_def ledger_of_Nil)
  have "trades.fits_run [] ts"
    using assms by (intro fits_run_if_totals_fit) (simp_all only: sums, simp_all add: ledger_of_Nil)
  then show ?thesis using trades.run_refines [of "[]" ts] sums by simp
qed

text \<open>C5. Any sequence of recorded trades, whatever wallets and tokens it interleaves, leaves the
  history with exactly the total volumes bought and sold by the wallet and by the bot (its dust
  set aside), one entry per wallet and token, nothing for the static tokens: provided no trade sets
  aside more dust than it bought and no total exceeds the range of \<open>u64\<close>, no counter has wrapped.\<close>

theorem history_records_totals:
  assumes "\<forall>t \<in> set ts. tr_dust t \<le> tr_exec t" and "\<forall>k. fits_u64 (sum_trades ts k)"
  shows "ledger_of (foldl apply_trade [] ts) = sum_trades ts"
  using assms by (rule foldl_trades_totals)

definition sample_trades :: "trade list" where
  "sample_trades =
     (let t = \<lparr>tr_wallet = 1, tr_token = 2, tr_exec = 1000, tr_origin = 5000,
               tr_exec_usd = f64_zero, tr_origin_usd = f64_zero, tr_exec_sol = f64_zero,
               tr_origin_sol = f64_zero, tr_dust = 10, tr_dir = DirBuy\<rparr>
      in [t, t\<lparr>tr_token := 3\<rparr>, t\<lparr>tr_exec := 400, tr_dust := 0, tr_dir := DirSell\<rparr>, t])"

lemma sample_trades_static: "\<forall>t \<in> set sample_trades. \<not> is_static_token (tr_token t)"
  by (simp add: sample_trades_def is_static_token_def mint_defs Let_def)

theorem history_records_totals_witness:
  "ledger_of (foldl apply_trade [] sample_trades) (1, 2) = (10000, 5000, 1980, 400)"
proof -
  have "fits_u64 (sum_trades sample_trades k)" for k
    using sample_trades_static
    by (auto simp: sum_trades_def sample_trades_def trade_totals_def Let_def)
  then have "ledger_of (foldl apply_trade [] sample_trades) = sum_trades sample_trades"
    by (intro history_records_totals) (simp_all add: sample_trades_def Let_def)
  then show ?thesis
    using sample_trades_static
    by (auto simp: sum_trades_def sample_trades_def trade_totals_def Let_def)
qed

text \<open>Recording a trade fails exactly for the static tokens and for a buy whose dust share
  is configured above 100%; a failed call changes nothing.\<close>

theorem insert_trade_fails_iff:
  "(\<exists>e. insert_trade h w tok dec x o' xpu xps opu ops dir bps = Inl e) \<longleftrightarrow>
     is_static_token tok \<or> dir = DirBuy \<and> 10000 < unwrap_or bps 0"
  by (cases dir)
    (auto simp: insert_trade_def trade_dust_def insert_trade_inner_def Let_def bind_res_def)

text \<open>A recorded buy splits the bought volume without loss: what is added to the bot's bought
  volume plus the reported dust is the executed volume, the subtraction does not wrap, and no other
  wallet's or token's history changes. This holds for every volume when the dust share is at most
  50%, and up to 100% as long as the volume is a number that \<open>f64\<close> represents exactly.\<close>

theorem insert_trade_buy_splits_volume:
  assumes "insert_trade h w tok dec x o' xpu xps opu ops DirBuy bps = Inr (h', tv)"
    and "unwrap_or bps 0 \<le> 5000 \<or> unat x \<le> 2 ^ 53"
  shows "\<exists>kept. unat kept + unat (tv_dust_token_amount tv) = unat x
    \<and> (\<exists>c. store_get h' (w, tok) = Some c
        \<and> buy_volume_token (ch_exec c)
          = buy_volume_token (ch_exec (unwrap_or (store_get h (w, tok)) copy_history_default)) + kept)
    \<and> (\<forall>k. k \<noteq> (w, tok) \<longrightarrow> store_get h' k = store_get h k)"
proof -
  let ?b = "unwrap_or bps 0"
  have b: "?b \<le> 10000"
    using assms(1) by (auto simp: insert_trade_def trade_dust_def Let_def not_le split: if_splits)
  then have "dust_amount ?b x \<le> x"
    using assms(2) dust_amount_le_half [of ?b x] dust_amount_le_exact [of ?b x] by blast
  then have "unat (x - dust_amount ?b x) + unat (dust_amount ?b x) = unat x"
    by (subst unat_minus_no_wrap) (simp_all add: word_le_nat_alt)
  then show ?thesis
    using assms(1) b
    by (intro exI [of _ "x - dust_amount ?b x"])
      (auto simp: insert_trade_def trade_dust_def insert_trade_inner_def Let_def add_buy_def not_less
        split: if_splits)
qed

theorem insert_trade_buy_splits_volume_witness:
  "\<exists>h' tv (kept :: u64). insert_trade [] 1 2 6 1000 5000 f64_zero f64_zero f64_zero f64_zero DirBuy (Some 250)
       = Inr (h', tv) \<and> unat kept + unat (tv_dust_token_amount tv) = 1000"
proof -
  have "\<not> is_static_token 2" by (simp add: is_static_token_def mint_defs)
  then obtain h' tv where *: "insert_trade [] 1 2 6 1000 5000 f64_zero f64_zero f64_zero f64_zero
      DirBuy (Some 250) = Inr (h', tv)"
    by (simp add: insert_trade_def trade_dust_def insert_trade_inner_def Let_def)
  show ?thesis
    using insert_trade_buy_splits_volume [OF *] * by auto
qed

text \<open>Where the input or the output mint has a known price, the price lookup that may ask the
  price service and the one that only computes agree, and neither depends on the service's answer;
  where neither mint is known, the computing one fails.\<close>

theorem token_prices_agree:
  assumes "or_else sol_usd_opt (Option.bind (get_price_usd feed SOL) price) = Some sol_usd"
  shows "if is_static_token i \<or> is_static_token j
    then \<exists>q. calculate_token_prices i j x y dx dy sol_usd = Inr q
          \<and> get_token_prices request feed i j x y dx dy sol_usd_opt = Some q
    else \<exists>e. calculate_token_prices i j x y dx dy sol_usd = Inl e"
  using assms
  by (auto simp: calculate_token_prices_def get_token_prices_def is_static_token_def mint_price_def
      resolve_prices_def Let_def split: option.splits)

theorem token_prices_agree_witness:
  "\<exists>q. calculate_token_prices SOL 2 1000 5000 9 6 (f64_lit 150) = Inr q
     \<and> get_token_prices (\<lambda>_ _. None) [] SOL 2 1000 5000 9 6 (Some (f64_lit 150)) = Some q"
  using token_prices_agree [of "Some (f64_lit 150)" "[]" "f64_lit 150" SOL 2 1000 5000 9 6
      "\<lambda>_ _. None"] by simp

end
