(* ===== verification/Config.thy ===== *)
theory Config
  imports Constants
begin

text \<open>
  The configuration of the copy service (\<^verbatim>\<open>services/copy/config.rs\<close>) and the priority levels of
  \<^verbatim>\<open>wire/helius_rpc/types.rs\<close>. Strings are ASCII; \<open>trim\<close> and \<open>to_lowercase\<close> are the ASCII
  cases of the standard library's functions. The fields carry the prefixes \<open>cfg\<close> and \<open>cw\<close>.
\<close>

datatype copy_mode = ModeDirect | ModePing

datatype priority_level = PMin | PLow | PMedium | PHigh | PVeryHigh | PUnsafeMax | PDefault

datatype commitment_level = Processed | Confirmed | Finalized

record copy_config =
  cfg_copy_mode_default :: copy_mode
  cfg_min_input_amount_default :: u64
  cfg_max_input_amount_default :: u64
  cfg_ping_config_path :: "string option"
  cfg_slippage_bps :: u16
  cfg_refresh_balance_interval_secs :: u64
  cfg_disable_buy_threshold_lamports :: u64
  cfg_moonbag_bps :: u16
  cfg_execution_retries :: u8
  cfg_send_txn_retries :: u8
  cfg_confirmed_error_retries :: u8
  cfg_quote_api_url :: "string option"
  cfg_price_feed_url :: "string option"
  cfg_price_feed_refresh_frequency_ms :: u64
  cfg_log_interval_seconds :: u64
  cfg_max_pending_queue_length :: usize
  cfg_max_execution_queue_length :: usize
  cfg_send_jito_default :: bool
  cfg_min_fee_lamports :: u64
  cfg_max_fee_lamports :: u64
  cfg_fee_increase_multiplier :: u64
  cfg_priority_level_default :: priority_level
  cfg_disable_buy_lamports :: u64
  cfg_dust_wallet :: "pubkey option"
  cfg_dust_cleanup_secs :: u64

text \<open>What \<open>Envconfig\<close> yields when no variable is set: the \<open>default\<close> attributes.\<close>

definition copy_config_from_empty_env :: copy_config where
  "copy_config_from_empty_env = \<lparr>
     cfg_copy_mode_default = ModeDirect,
     cfg_min_input_amount_default = 100000000,
     cfg_max_input_amount_default = 500000000,
     cfg_ping_config_path = None,
     cfg_slippage_bps = 1000,
     cfg_refresh_balance_interval_secs = 30,
     cfg_disable_buy_threshold_lamports = 500000000,
     cfg_moonbag_bps = 1000,
     cfg_execution_retries = 3,
     cfg_send_txn_retries = 3,
     cfg_confirmed_error_retries = 3,
     cfg_quote_api_url = None,
     cfg_price_feed_url = None,
     cfg_price_feed_refresh_frequency_ms = 15000,
     cfg_log_interval_seconds = 60,
     cfg_max_pending_queue_length = 500,
     cfg_max_execution_queue_length = 200,
     cfg_send_jito_default = True,
     cfg_min_fee_lamports = 150000,
     cfg_max_fee_lamports = 500000,
     cfg_fee_increase_multiplier = 50000,
     cfg_priority_level_default = PHigh,
     cfg_disable_buy_lamports = 100000000,
     cfg_dust_wallet = None,
     cfg_dust_cleanup_secs = 900\<rparr>"

definition copy_config_default :: copy_config where
  "copy_config_default = \<lparr>
     cfg_copy_mode_default = ModeDirect,
     cfg_min_input_amount_default = 100000000,
     cfg_max_input_amount_default = 500000000,
     cfg_ping_config_path = None,
     cfg_slippage_bps = 1000,
     cfg_refresh_balance_interval_secs = 30,
     cfg_disable_buy_threshold_lamports = 100000,
     cfg_moonbag_bps = 1000,
     cfg_execution_retries = 3,
     cfg_send_txn_retries = 3,
     cfg_confirmed_error_retries = 3,
     cfg_quote_api_url = None,
     cfg_price_feed_url = None,
     cfg_price_feed_refresh_frequency_ms = 1000,
     cfg_log_interval_seconds = 60,
     cfg_max_pending_queue_length = 500,
     cfg_max_execution_queue_length = 200,
     cfg_send_jito_default = False,
     cfg_min_fee_lamports = 50000,
     cfg_max_fee_lamports = 200000,
     cfg_fee_increase_multiplier = 15000,
     cfg_priority_level_default = PHigh,
     cfg_disable_buy_lamports = 100000000,
     cfg_dust_wallet = None,
     cfg_dust_cleanup_secs = 15 * 60\<rparr>"

record copy_wallet =
  cw_wallet :: pubkey
  cw_display_name :: "string option"
  cw_min_input_amount :: "u64 option"
  cw_max_input_amount :: "u64 option"
  cw_buy_disabled :: "bool option"
  cw_mode :: "copy_mode option"
  cw_commitment_level :: "commitment_level option"
  cw_poll_transactions_frequency_seconds :: "u64 option"
  cw_ignore_error_transactions :: "bool option"
  cw_recent_signature :: "signature option"

section \<open>Parsing\<close>

definition is_whitespace :: "char \<Rightarrow> bool" where
  "is_whitespace c \<longleftrightarrow> of_char c \<in> {9 :: nat, 10, 11, 12, 13, 32}"

definition trim :: "string \<Rightarrow> string" where
  "trim s = rev (dropWhile is_whitespace (rev (dropWhile is_whitespace s)))"

definition to_lower_char :: "char \<Rightarrow> char" where
  "to_lower_char c =
     (if 65 \<le> (of_char c :: nat) \<and> (of_char c :: nat) \<le> 90 then char_of (of_char c + 32 :: nat)
      else c)"

definition copy_mode_from_str :: "string \<Rightarrow> copy_mode result" where
  "copy_mode_from_str s =
     (let t = map to_lower_char (trim s)
      in if t = ''direct'' then Inr ModeDirect
         else if t = ''ping'' then Inr ModePing
         else Inl (Error ''Invalid copy-mode string. expected (direct | ping)''))"

definition priority_level_from_str :: "string \<Rightarrow> priority_level result" where
  "priority_level_from_str s =
     (if s = ''min'' then Inr PMin
      else if s = ''low'' then Inr PLow
      else if s = ''medium'' then Inr PMedium
      else if s = ''high'' then Inr PHigh
      else if s = ''veryhigh'' then Inr PVeryHigh
      else if s = ''unsafemax'' then Inr PUnsafeMax
      else if s = ''default'' then Inr PDefault
      else Inl (Error (''Invalid priority level. Got '' @ s)))"

text \<open>The conditions on a configuration that the trading code relies on.\<close>

definition config_ok :: "copy_config \<Rightarrow> bool" where
  "config_ok c \<longleftrightarrow>
     cfg_min_input_amount_default c < cfg_max_input_amount_default c \<and>
     cfg_min_fee_lamports c \<le> cfg_max_fee_lamports c \<and>
     cfg_moonbag_bps c < 5000"

lemma config_ok_defaults: "config_ok copy_config_default" "config_ok copy_config_from_empty_env"
  by (simp_all add: config_ok_def copy_config_default_def copy_config_from_empty_env_def)

lemma trim_pad:
  assumes "\<forall>c \<in> set a \<union> set b. is_whitespace c"
    and "s \<noteq> []" and "\<not> is_whitespace (hd s)" and "\<not> is_whitespace (last s)"
  shows "trim (a @ s @ b) = s"
proof -
  have "dropWhile is_whitespace (a @ s @ b) = s @ b"
    using assms(1-3) by (cases s) (auto simp: dropWhile_append)
  moreover have "dropWhile is_whitespace (rev b @ rev s) = rev s"
    using assms(1,2,4) by (cases s rule: rev_cases) (auto simp: dropWhile_append)
  ultimately show ?thesis by (simp add: trim_def)
qed

lemma trim_id: "\<forall>c \<in> set s. \<not> is_whitespace c \<Longrightarrow> trim s = s"
  using trim_pad [of "[]" "[]" s] by (cases "s = []") (simp_all add: trim_def)

end
