(* ===== verification/Swap_Types.thy ===== *)
theory Swap_Types
  imports History Config
begin

text \<open>
  The types that the parser, the copy service and the swap executors exchange: a resolved swap
  (\<^verbatim>\<open>parser/swap.rs\<close>), the input, the quote and the options of a swap to execute
  (\<^verbatim>\<open>swap/execution.rs\<close>), and the slippage adjustment of \<^verbatim>\<open>swap/mod.rs\<close>. The fields carry a
  prefix per record (\<open>rs\<close>, \<open>td\<close>, \<open>mi\<close>, \<open>si\<close>, \<open>sc\<close>, \<open>so\<close>). A transaction is a value of a type
  parameter \<open>'tx\<close>: the SDK's \<open>VersionedTransaction\<close>.
\<close>

section \<open>Resolved swaps\<close>

record mint_info =
  mi_pubkey :: pubkey
  mi_decimals :: u8
  mi_supply :: "u64 option"
  mi_program_id :: "pubkey option"
  mi_mint_authority :: "pubkey option"
  mi_freeze_authority :: "pubkey option"
  mi_name :: "string option"
  mi_symbol :: "string option"
  mi_uri :: "string option"

datatype provider =
  Jupiter
| RaydiumV4 "pubkey option"
| RaydiumV6 "pubkey option"
| OrcaWhirlpool "pubkey option"
| Pump

fun provider_display :: "provider \<Rightarrow> string" where
  "provider_display Jupiter = ''Jupiter''"
| "provider_display (OrcaWhirlpool _) = ''Whirlpool''"
| "provider_display (RaydiumV6 _) = ''RaydiumV6''"
| "provider_display (RaydiumV4 _) = ''RaydiumV4''"
| "provider_display Pump = ''PumpFun''"

fun is_pumpfun :: "provider \<Rightarrow> bool" where
  "is_pumpfun Pump = True"
| "is_pumpfun _ = False"

record token_decimals =
  td_input :: u8
  td_output :: u8

record resolved_swap =
  rs_owner :: "pubkey option"
  rs_provider :: provider
  rs_input_amount :: u64
  rs_output_amount :: u64
  rs_input_token_mint :: pubkey
  rs_output_token_mint :: pubkey
  rs_token_decimals :: "token_decimals option"
  rs_input_mint_info :: "mint_info option"
  rs_output_mint_info :: "mint_info option"

definition resolved_swap_plain :: "provider \<Rightarrow> u64 \<Rightarrow> u64 \<Rightarrow> pubkey \<Rightarrow> pubkey \<Rightarrow> resolved_swap" where
  "resolved_swap_plain p x y i j =
     \<lparr>rs_owner = None, rs_provider = p, rs_input_amount = x, rs_output_amount = y,
      rs_input_token_mint = i, rs_output_token_mint = j, rs_token_decimals = None,
      rs_input_mint_info = None, rs_output_mint_info = None\<rparr>"

text \<open>The accounts an RPC call returned, in the order of the request, and the SPL token library's
  reading of a mint account are arguments. \<open>Vec::remove\<close> and slicing panic out of range.\<close>

definition MINT_LEN :: nat where
  "MINT_LEN = 82"

definition mint_decimals_of ::
  "(u8 list \<Rightarrow> u8 result) \<Rightarrow> u8 list \<Rightarrow> u8 result" where
  "mint_decimals_of unpack data =
     (if length data < MINT_LEN then Inl (Panic ''range end index out of range'')
      else unpack (take MINT_LEN data))"

definition resolve_token_decimals ::
  "(pubkey list \<Rightarrow> u8 list option list result) \<Rightarrow> (u8 list \<Rightarrow> u8 result)
     \<Rightarrow> resolved_swap \<Rightarrow> (u8 \<times> u8) result" where
  "resolve_token_decimals get_multiple_accounts unpack swap =
     bind_res (get_multiple_accounts [rs_input_token_mint swap, rs_output_token_mint swap])
       (\<lambda>accounts. case accounts of
          [] \<Rightarrow> Inl (Panic ''removal index out of range'')
        | a # accounts' \<Rightarrow>
            bind_res (ok_or a ''input mint does not exist'') (\<lambda>input_account.
            case accounts' of
              [] \<Rightarrow> Inl (Panic ''removal index out of range'')
            | b # _ \<Rightarrow>
                bind_res (ok_or b ''output mint does not exist'') (\<lambda>output_account.
                bind_res (mint_decimals_of unpack input_account) (\<lambda>input_decimals.
                bind_res (mint_decimals_of unpack output_account) (\<lambda>output_decimals.
                Inr (input_decimals, output_decimals))))))"

definition resolve_and_set_token_decimals ::
  "(pubkey list \<Rightarrow> u8 list option list result) \<Rightarrow> (u8 list \<Rightarrow> u8 result)
     \<Rightarrow> resolved_swap \<Rightarrow> resolved_swap result" where
  "resolve_and_set_token_decimals get_multiple_accounts unpack swap =
     (if rs_token_decimals swap = None
      then bind_res (resolve_token_decimals get_multiple_accounts unpack swap) (\<lambda>(i, j).
             Inr (swap\<lparr>rs_token_decimals := Some \<lparr>td_input = i, td_output = j\<rparr>\<rparr>))
      else Inr swap)"

section \<open>Swap requests\<close>

datatype swap_execution_mode = ExactIn | ExactOut

fun amount_specified_is_input :: "swap_execution_mode \<Rightarrow> bool" where
  "amount_specified_is_input ExactIn = True"
| "amount_specified_is_input ExactOut = False"

record swap_input =
  si_input_token_mint :: pubkey
  si_output_token_mint :: pubkey
  si_slippage_bps :: u16
  si_amount :: u64
  si_mode :: swap_execution_mode
  si_market :: "pubkey option"

datatype compute_unit_limits = CuDynamic | CuFixed u64

datatype priority_fee_config = FeeDynamic | DynamicMultiplier u64 | FixedCuPrice u64 | JitoTip u64

record swap_config =
  sc_priority_fee :: "priority_fee_config option"
  sc_cu_limits :: "compute_unit_limits option"
  sc_wrap_and_unwrap_sol :: "bool option"
  sc_as_legacy_transaction :: "bool option"

record swap_config_overrides =
  so_priority_fee :: "priority_fee_config option"
  so_cu_limits :: "compute_unit_limits option"
  so_wrap_and_unwrap_sol :: "bool option"
  so_use_shared_accounts :: "bool option"
  so_use_token_ledger :: "bool option"
  so_destination_token_account :: "pubkey option"
  so_as_legacy_transaction :: "bool option"
  so_include_dexes :: "string list option"
  so_exclude_dexes :: "string list option"
  so_max_accounts :: "usize option"
  so_only_direct_routes :: "bool option"

definition swap_config_overrides_default :: swap_config_overrides where
  "swap_config_overrides_default = \<lparr>
     so_priority_fee = None, so_cu_limits = None, so_wrap_and_unwrap_sol = None,
     so_use_shared_accounts = None, so_use_token_ledger = None,
     so_destination_token_account = None, so_as_legacy_transaction = None,
     so_include_dexes = None, so_exclude_dexes = None, so_max_accounts = None,
     so_only_direct_routes = None\<rparr>"

text \<open>What every quote answers (\<open>trait SwapQuote\<close>).\<close>

record swap_quote =
  q_input_token :: pubkey
  q_output_token :: pubkey
  q_input_token_decimals :: "u8 option"
  q_output_token_decimals :: "u8 option"
  q_amount :: u64
  q_other_amount :: u64
  q_other_amount_threshold :: u64
  q_amount_specified_is_input :: bool

text \<open>A transaction as an executor hands it out: bytes to be decoded by \<open>bincode\<close> (an argument)
  or the value itself.\<close>

datatype 'tx transaction_variant = TxBytes "u8 list" | TxVersioned 'tx

fun into_raw :: "('tx \<Rightarrow> u8 list result) \<Rightarrow> 'tx transaction_variant \<Rightarrow> u8 list result" where
  "into_raw serialize (TxBytes vec) = Inr vec"
| "into_raw serialize (TxVersioned v) = serialize v"

fun into_versioned_tx :: "(u8 list \<Rightarrow> 'tx result) \<Rightarrow> 'tx transaction_variant \<Rightarrow> 'tx result" where
  "into_versioned_tx deserialize (TxBytes vec) = deserialize vec"
| "into_versioned_tx deserialize (TxVersioned v) = Inr v"

section \<open>Slippage\<close>

definition adjust_for_slippage :: "u64 \<Rightarrow> f64 \<Rightarrow> bool \<Rightarrow> u64" where
  "adjust_for_slippage amount slippage round_up =
     (if round_up
      then f64_as_u64 (f_ceil (f_mul (u64_as_f64 amount) (f_add (f64_lit 1) slippage)))
      else f64_as_u64 (f_floor (f_mul (u64_as_f64 amount) (f_sub (f64_lit 1) slippage))))"

lemma f64_lit_1: "f64_lit 1 = Finite False 1"
  by (simp add: f64_lit_def round64_Finite)

lemma adjust_down_is_share:
  assumes "0 \<le> s" and "s \<le> 1"
  shows "adjust_for_slippage a (Finite False s) False = f64_share (Finite False (rnd (1 - s))) a"
proof -
  have "f_sub (f64_lit 1) (Finite False s) = Finite False (rnd (1 - s))"
    using assms round64_Finite [of "1 - s" False]
    by (auto simp: f_sub_def f64_lit_1)
  moreover have "0 \<le> rnd (1 - s)" using assms by (intro rnd_nonneg) simp
  ultimately show ?thesis
    by (simp add: adjust_for_slippage_def f64_share_def u64_as_f64_Finite mult.commute round64_def Let_def)
qed

lemma adjust_down_le:
  assumes "0 \<le> s" and "s \<le> 1" and "unat a \<le> 2 ^ 53"
  shows "adjust_for_slippage a (Finite False s) False \<le> a"
proof -
  have "rnd (1 - s) \<le> rnd 1" using assms by (intro rnd_mono) auto
  then show ?thesis
    unfolding adjust_down_is_share [OF assms(1,2)]
    using assms by (intro f64_share_le) (auto intro: rnd_nonneg)
qed

lemma adjust_up_ge:
  assumes "0 \<le> s" and "s \<le> 1" and "unat a \<le> 2 ^ 53"
  shows "a \<le> adjust_for_slippage a (Finite False s) True"
proof -
  let ?n = "of_nat (unat a) :: rat" and ?r = "rnd (1 + s)"
  have r: "1 \<le> ?r" "?r \<le> 2"
    using rnd_mono [of 1 "1 + s"] rnd_mono [of "1 + s" 2] rnd_of_nat [of 2] assms by simp_all
  have add: "f_add (f64_lit 1) (Finite False s) = Finite False ?r"
    using assms round64_Finite [of "1 + s" False] by (auto simp: f64_lit_1)
  have "?n \<le> of_nat (2 ^ 53)" using assms(3) by (simp only: of_nat_le_iff)
  then have n: "0 \<le> ?n" "?n \<le> 2 ^ 53" by (simp_all only: of_nat_0_le_iff of_nat_power of_nat_numeral)
  have m: "?n \<le> ?n * ?r" using r n(1) mult_left_mono [of 1 ?r ?n] by simp
  have "?n * ?r \<le> 2 ^ 53 * 2" using n r by (intro mult_mono) auto
  then have "?n * ?r \<le> 2 ^ 64" by simp
  then have mul: "f_mul (u64_as_f64 a) (Finite False ?r) = Finite False (rnd (?n * ?r))"
    using n(1) m round64_Finite [of "?n * ?r" False]
    by (simp only: u64_as_f64_exact [OF assms(3)] f_mul.simps) simp
  have "rnd ?n \<le> rnd (?n * ?r)" using n(1) m by (rule rnd_mono)
  then have "?n \<le> rnd (?n * ?r)" by (simp only: rnd_of_nat [OF assms(3)])
  then have "?n \<le> of_int \<lceil>rnd (?n * ?r)\<rceil>" by (rule order_trans [OF _ le_of_int_ceiling])
  then have "unat a \<le> unat (f64_as_u64 (Finite False (of_int \<lceil>rnd (?n * ?r)\<rceil>)))"
    using unat_u64_less [of a] by (intro unat_f64_as_u64_ge)
  then show ?thesis
    unfolding word_le_nat_alt adjust_for_slippage_def add mul by simp
qed

text \<open>For a slippage between 0 and 100% and every amount that \<open>f64\<close> represents exactly, the
  adjusted minimum never exceeds the amount and the adjusted maximum is never below it.\<close>

theorem slippage_brackets_amount:
  assumes "0 \<le> s" and "s \<le> 1" and "unat a \<le> 2 ^ 53"
  shows "adjust_for_slippage a (Finite False s) False \<le> a
    \<and> a \<le> adjust_for_slippage a (Finite False s) True"
  using adjust_down_le [OF assms] adjust_up_ge [OF assms] by (rule conjI)

theorem slippage_brackets_amount_witness:
  "adjust_for_slippage 1000000 (Finite False (1 / 8)) False \<le> 1000000
    \<and> 1000000 \<le> adjust_for_slippage 1000000 (Finite False (1 / 8)) True"
  by (rule slippage_brackets_amount) simp_all

section \<open>Quote providers\<close>

text \<open>What the copy service relies on of a swap executor: a quote is for the two tokens it was asked
  for, and the input side of an exact-in quote is the amount it was asked for.\<close>

definition quote_input_amount :: "swap_quote \<Rightarrow> u64" where
  "quote_input_amount q = (if q_amount_specified_is_input q then q_amount q else q_other_amount q)"

locale quote_provider =
  fixes quote :: "swap_input \<Rightarrow> swap_quote result"
  assumes quote_tokens: "quote i = Inr q \<Longrightarrow>
      q_input_token q = si_input_token_mint i \<and> q_output_token q = si_output_token_mint i"
    and quote_exact_in: "quote i = Inr q \<Longrightarrow> si_mode i = ExactIn \<Longrightarrow> quote_input_amount q = si_amount i"
begin

lemma quote_describes_input:
  assumes "quote i = Inr q" and "si_mode i = ExactIn" and "q_amount_specified_is_input q"
  shows "q_input_token q = si_input_token_mint i \<and> q_amount q = si_amount i"
  using assms quote_tokens [OF assms(1)] quote_exact_in [OF assms(1,2)]
  by (simp add: quote_input_amount_def)

end

end
