(* ===== verification/Transaction.thy ===== *)
theory Transaction
  imports Swap_Types
begin

text \<open>
  Transactions as the bot sees them (\<^verbatim>\<open>core/types/transaction.rs\<close>), the identifiers and
  confirmations of the transactions it sends (\<^verbatim>\<open>core/types/wire_transaction.rs\<close>), and the balances
  read off a transaction (\<open>Balance\<close> of \<^verbatim>\<open>services/copy/v2/service.rs\<close>). Of the SDK's types
  the model keeps the fields that the code reads. A legacy message has no address table lookups
  (\<open>None\<close>), a message of version 0 has a list of them; \<open>tx_inner_instructions\<close> lists the
  entries of the map of inner instructions in the order in which it iterates.
\<close>

record compiled_instruction =
  ci_program_id_index :: u8
  ci_accounts :: "u8 list"
  ci_data :: "u8 list"

record token_balance =
  tb_account_index :: u8
  tb_mint :: string
  tb_owner :: "string option"
  tb_ui_amount :: "f64 option"
  tb_decimals :: u8

text \<open>An inner instruction as the RPC encodes it: compiled, with base58 data, or parsed (which the
  code skips).\<close>

datatype ui_instruction =
  UiCompiled (ui_program_id_index: u8) (ui_accounts: "u8 list") (ui_data: string)
| UiParsed

record tx_meta =
  tm_err :: "string option"
  tm_pre_balances :: "u64 list"
  tm_post_balances :: "u64 list"
  tm_inner_instructions :: "(u8 \<times> ui_instruction list) list option"
  tm_log_messages :: "string list option"
  tm_pre_token_balances :: "token_balance list option"
  tm_post_token_balances :: "token_balance list option"
  tm_loaded_addresses :: "(string list \<times> string list) option"
  tm_compute_units_consumed :: "u64 option"

definition tx_meta_empty :: tx_meta where
  "tx_meta_empty = \<lparr>tm_err = None, tm_pre_balances = [], tm_post_balances = [],
     tm_inner_instructions = None, tm_log_messages = None, tm_pre_token_balances = None,
     tm_post_token_balances = None, tm_loaded_addresses = None, tm_compute_units_consumed = None\<rparr>"

record address_table_lookup =
  lk_account_key :: pubkey
  lk_writable_indexes :: "u8 list"
  lk_readonly_indexes :: "u8 list"

record loaded_addresses =
  la_writable :: "pubkey list"
  la_readonly :: "pubkey list"

record versioned_message =
  vm_static_account_keys :: "pubkey list"
  vm_recent_blockhash :: hash
  vm_instructions :: "compiled_instruction list"
  vm_address_table_lookups :: "address_table_lookup list option"

text \<open>\<open>PriorityDetails\<close> of \<^verbatim>\<open>utils/fees.rs\<close>\<close>

record priority_details =
  pd_priority_fee :: u64
  pd_compute_unit_limit :: u32
  pd_compute_unit_price :: u64

record itransaction =
  tx_signature :: signature
  tx_message :: versioned_message
  tx_slot :: u64
  tx_loaded_addresses :: "loaded_addresses option"
  tx_meta_opt :: "tx_meta option"
  tx_err :: "string option"
  tx_priority_details :: priority_details
  tx_compute_units_consumed :: "u64 option"
  tx_recent_blockhash :: hash
  tx_inner_instructions :: "(u8, compiled_instruction list) store option"
  tx_is_vote_transaction :: bool
  tx_address_table_lookups :: "address_table_lookup list"
  tx_readable_accounts :: "pubkey list"
  tx_writable_accounts :: "pubkey list"
  tx_block_time :: "int option"

abbreviation tx_static_account_keys :: "itransaction \<Rightarrow> pubkey list" where
  "tx_static_account_keys tx \<equiv> vm_static_account_keys (tx_message tx)"

abbreviation tx_instructions :: "itransaction \<Rightarrow> compiled_instruction list" where
  "tx_instructions tx \<equiv> vm_instructions (tx_message tx)"

text \<open>\<open>AccountKeys::new\<close>: the static keys, then the loaded writable ones, then the readonly ones.\<close>

definition loaded_keys :: "loaded_addresses option \<Rightarrow> pubkey list" where
  "loaded_keys l = (case l of None \<Rightarrow> [] | Some la \<Rightarrow> la_writable la @ la_readonly la)"

definition tx_account_keys :: "itransaction \<Rightarrow> pubkey list" where
  "tx_account_keys tx = tx_static_account_keys tx @ loaded_keys (tx_loaded_addresses tx)"

definition is_legacy :: "itransaction \<Rightarrow> bool" where
  "is_legacy tx \<longleftrightarrow> vm_address_table_lookups (tx_message tx) = None"

definition is_versioned :: "itransaction \<Rightarrow> bool" where
  "is_versioned tx \<longleftrightarrow> vm_address_table_lookups (tx_message tx) \<noteq> None"

text \<open>A transaction with the given keys, instructions and meta data and defaults elsewhere, for
  concrete inputs.\<close>

definition plain_tx ::
  "signature \<Rightarrow> pubkey list \<Rightarrow> pubkey list \<Rightarrow> compiled_instruction list \<Rightarrow> tx_meta option \<Rightarrow> itransaction" where
  "plain_tx sig static loaded ixs meta = \<lparr>tx_signature = sig,
     tx_message = \<lparr>vm_static_account_keys = static, vm_recent_blockhash = 0, vm_instructions = ixs,
       vm_address_table_lookups = None\<rparr>,
     tx_slot = 0, tx_loaded_addresses = Some \<lparr>la_writable = loaded, la_readonly = []\<rparr>,
     tx_meta_opt = meta, tx_err = None,
     tx_priority_details = \<lparr>pd_priority_fee = 0, pd_compute_unit_limit = 200000, pd_compute_unit_price = 0\<rparr>,
     tx_compute_units_consumed = None, tx_recent_blockhash = 0, tx_inner_instructions = None,
     tx_is_vote_transaction = False, tx_address_table_lookups = [], tx_readable_accounts = [],
     tx_writable_accounts = [], tx_block_time = None\<rparr>"

lemma plain_tx_simps [simp]:
  "tx_signature (plain_tx sig static loaded ixs meta) = sig"
  "tx_static_account_keys (plain_tx sig static loaded ixs meta) = static"
  "tx_account_keys (plain_tx sig static loaded ixs meta) = static @ loaded"
  "tx_instructions (plain_tx sig static loaded ixs meta) = ixs"
  "tx_inner_instructions (plain_tx sig static loaded ixs meta) = None"
  "tx_meta_opt (plain_tx sig static loaded ixs meta) = meta"
  "tx_err (plain_tx sig static loaded ixs meta) = None"
  by (simp_all add: plain_tx_def tx_account_keys_def loaded_keys_def)

record token_account_info =
  ta_index :: u8
  ta_owner :: pubkey
  ta_mint :: pubkey
  ta_decimals :: u8
  ta_pre_balance :: f64
  ta_post_balance :: f64

definition extract_mints_from_meta ::
  "(string \<Rightarrow> pubkey option) \<Rightarrow> itransaction \<Rightarrow> pubkey set option result" where
  "extract_mints_from_meta from_str tx =
     (case tx_meta_opt tx of
        None \<Rightarrow> Inr None
      | Some m \<Rightarrow>
          let bs = unwrap_or (tm_post_token_balances m) [] @ unwrap_or (tm_pre_token_balances m) []
          in if \<exists>b \<in> set bs. from_str (tb_mint b) = None
             then Inl (Panic ''called `Result::unwrap()` on an `Err` value'')
             else Inr (Some (set (map (\<lambda>b. the (from_str (tb_mint b))) bs))))"

text \<open>The entries of one pass over the post balances; the first missing piece ends it.\<close>

definition balance_entry ::
  "(string \<Rightarrow> pubkey option) \<Rightarrow> (u8, token_balance) store \<Rightarrow> u8 \<Rightarrow> token_balance
     \<Rightarrow> token_account_info option" where
  "balance_entry from_str pre_token_balances index balance =
     Option.bind (tb_owner balance) (\<lambda>owner.
     Option.bind (from_str owner) (\<lambda>owner.
     Option.bind (from_str (tb_mint balance)) (\<lambda>mint.
     Option.bind (tb_ui_amount balance) (\<lambda>pre_balance.
     Option.bind (store_get pre_token_balances index) (\<lambda>post_balance.
     Option.bind (tb_ui_amount post_balance) (\<lambda>post_amount.
       Some \<lparr>ta_index = index, ta_owner = owner, ta_mint = mint, ta_decimals = tb_decimals balance,
             ta_pre_balance = pre_balance, ta_post_balance = post_amount\<rparr>))))))"

fun balance_entries ::
  "(string \<Rightarrow> pubkey option) \<Rightarrow> (u8, token_balance) store \<Rightarrow> (u8 \<times> token_balance) list
     \<Rightarrow> (pubkey \<times> pubkey, token_account_info) store
     \<Rightarrow> (pubkey \<times> pubkey, token_account_info) store option" where
  "balance_entries from_str pre [] acc = Some acc"
| "balance_entries from_str pre ((index, balance) # bs) acc =
     Option.bind (balance_entry from_str pre index balance) (\<lambda>info.
       balance_entries from_str pre bs (store_insert acc (ta_owner info, ta_mint info) info))"

definition extract_token_balance_details ::
  "(string \<Rightarrow> pubkey option) \<Rightarrow> itransaction
     \<Rightarrow> (pubkey \<times> pubkey, token_account_info) store option" where
  "extract_token_balance_details from_str tx =
     Option.bind (tx_meta_opt tx) (\<lambda>m.
     let post = store_from_list (map (\<lambda>b. (tb_account_index b, b)) (unwrap_or (tm_post_token_balances m) []));
         pre = store_from_list (map (\<lambda>b. (tb_account_index b, b)) (unwrap_or (tm_pre_token_balances m) []))
     in balance_entries from_str pre post [])"

section \<open>Sent transactions\<close>

type_synonym transaction_id = usize

text \<open>The counter \<open>NEXT_TRANSACTION_ID\<close> and \<open>fetch_add\<close> on it.\<close>

definition next_transaction_id :: "usize \<Rightarrow> usize \<times> transaction_id" where
  "next_transaction_id counter = (counter + 1, counter)"

datatype not_confirmed_reason = Expired | TimedOut | RpcError string

datatype confirm_transaction_response =
  TxConfirmed (cr_error: "string option") (cr_slot: u64)
| TxUnconfirmed not_confirmed_reason

text \<open>Of the data of a sent transaction the service reads its id and signature.\<close>

record confirm_transaction_data =
  cd_txn_id :: transaction_id
  cd_signature :: signature
  cd_response :: confirm_transaction_response

section \<open>Balances\<close>

record balance =
  bal_pre :: u64
  bal_post :: u64

definition balance_default :: balance where
  "balance_default = \<lparr>bal_pre = 0, bal_post = 0\<rparr>"

definition nth_opt :: "'a list \<Rightarrow> nat \<Rightarrow> 'a option" where
  "nth_opt xs i = (if i < length xs then Some (xs ! i) else None)"

definition create_sol_balance :: "itransaction \<Rightarrow> nat \<Rightarrow> balance option" where
  "create_sol_balance tx i =
     Option.bind (tx_meta_opt tx) (\<lambda>meta.
     Option.bind (nth_opt (tm_pre_balances meta) i) (\<lambda>pre.
     Option.bind (nth_opt (tm_post_balances meta) i) (\<lambda>post.
       Some \<lparr>bal_pre = pre, bal_post = post\<rparr>)))"

text \<open>\<open>find_map\<close> over the balances: a balance of the wallet and token without an amount is
  passed over.\<close>

fun find_map :: "('a \<Rightarrow> 'b option) \<Rightarrow> 'a list \<Rightarrow> 'b option" where
  "find_map f [] = None"
| "find_map f (x # xs) = (case f x of Some y \<Rightarrow> Some y | None \<Rightarrow> find_map f xs)"

definition wallet_token_balance ::
  "(pubkey \<Rightarrow> string) \<Rightarrow> pubkey \<Rightarrow> pubkey \<Rightarrow> token_balance \<Rightarrow> (f64 \<times> u8) option" where
  "wallet_token_balance to_string wallet token b =
     (case tb_owner b of
        Some owner \<Rightarrow>
          if owner = to_string wallet \<and> tb_mint b = to_string token
          then map_option (\<lambda>a. (a, tb_decimals b)) (tb_ui_amount b) else None
      | None \<Rightarrow> None)"

definition scale_amount :: "f64 \<Rightarrow> u8 \<Rightarrow> u64" where
  "scale_amount ui_amount decimals =
     f64_as_u64 (f_trunc (f_mul ui_amount (u32_as_f64 (pow10_u32 decimals))))"

definition create_token_balance ::
  "(pubkey \<Rightarrow> string) \<Rightarrow> itransaction \<Rightarrow> pubkey \<Rightarrow> pubkey \<Rightarrow> balance option" where
  "create_token_balance to_string tx wallet token =
     Option.bind (Option.bind (tx_meta_opt tx) tm_pre_token_balances) (\<lambda>pre.
     Option.bind (Option.bind (tx_meta_opt tx) tm_post_token_balances) (\<lambda>post.
     let pre_balance = find_map (wallet_token_balance to_string wallet token) pre;
         post_balance = find_map (wallet_token_balance to_string wallet token) post;
         decimals = (case (map_option snd pre_balance, map_option snd post_balance) of
                       (Some d, _) \<Rightarrow> d
                     | (_, Some d) \<Rightarrow> d
                     | (None, None) \<Rightarrow> 0);
         pre_amount = fst (unwrap_or pre_balance (f64_zero, 0));
         post_amount = fst (unwrap_or post_balance (f64_zero, 0))
     in Some \<lparr>bal_pre = scale_amount pre_amount decimals,
              bal_post = scale_amount post_amount decimals\<rparr>))"

section \<open>Properties\<close>

lemma find_map_SomeD: "find_map f xs = Some y \<Longrightarrow> \<exists>x \<in> set xs. f x = Some y"
  by (induction xs) (auto split: option.splits)

lemma find_map_None_iff: "find_map f xs = None \<longleftrightarrow> (\<forall>x \<in> set xs. f x = None)"
  by (induction xs) (auto split: option.splits)

text \<open>The pre balance that \<open>extract_token_balance_details\<close> reports for an account is the
  amount listed among the balances after the transaction, and the post balance the one listed
  before it: the two are exchanged.\<close>

theorem token_balance_details_exchanged:
  assumes "balance_entry from_str pre index b = Some info"
  shows "tb_ui_amount b = Some (ta_pre_balance info)
    \<and> (\<exists>b'. store_get pre index = Some b' \<and> tb_ui_amount b' = Some (ta_post_balance info))"
  using assms by (auto simp: balance_entry_def bind_eq_Some_conv)

theorem token_balance_details_exchanged_witness:
  "\<exists>info. balance_entry (\<lambda>_. Some 7)
      [(0, \<lparr>tb_account_index = 0, tb_mint = ''m'', tb_owner = Some ''o'',
            tb_ui_amount = Some (Finite False 1), tb_decimals = 6\<rparr>)] 0
      \<lparr>tb_account_index = 0, tb_mint = ''m'', tb_owner = Some ''o'',
       tb_ui_amount = Some (Finite False 5), tb_decimals = 6\<rparr> = Some info
    \<and> ta_pre_balance info = Finite False 5 \<and> ta_post_balance info = Finite False 1"
proof -
  let ?b = "\<lambda>x. \<lparr>tb_account_index = 0, tb_mint = ''m'', tb_owner = Some ''o'',
    tb_ui_amount = Some (Finite False x), tb_decimals = 6\<rparr>"
  obtain info where info: "balance_entry (\<lambda>_. Some 7) [(0, ?b 1)] 0 (?b 5) = Some info"
    by (simp add: balance_entry_def store_get_def)
  show ?thesis
    using token_balance_details_exchanged [OF info] info by (auto simp: store_get_def)
qed

end
