(* ===== verification/Copy_Types.thy ===== *)
theory Copy_Types
  imports Transaction
begin

text \<open>
  The data of the copy service (\<^verbatim>\<open>services/copy/v2/service.rs\<close>): what is known of a trade that is
  being copied, the configuration per wallet, the metrics; and how the list of wallets becomes that
  configuration. The fields carry a prefix per record (\<open>d\<close>, \<open>qd\<close>, \<open>wc\<close>, \<open>mt\<close>, \<open>pr\<close>).
\<close>

datatype copy_type = CopySell | CopyBuy | CopyBoth

text \<open>A transaction to send: the part of the SDK's \<open>VersionedTransaction\<close> that the bot edits.\<close>

record versioned_tx =
  vt_account_keys :: "pubkey list"
  vt_instructions :: "compiled_instruction list"

datatype retry_strategy = BuildTransaction | SendRaw versioned_tx

record wallet_config =
  wc_display :: string
  wc_min_input_amount :: u64
  wc_max_input_amount :: u64
  wc_mode :: copy_mode

record quote_details =
  qd_input_token_decimals :: "u8 option"
  qd_output_token_decimals :: "u8 option"
  qd_input_mint :: pubkey
  qd_output_mint :: pubkey
  qd_amount_specified_is_input :: bool
  qd_amount :: u64
  qd_other_amount :: u64
  qd_other_amount_threshold :: u64

definition from_quote_response :: "swap_quote \<Rightarrow> quote_details" where
  "from_quote_response q = \<lparr>
     qd_input_token_decimals = q_input_token_decimals q,
     qd_output_token_decimals = q_output_token_decimals q,
     qd_input_mint = q_input_token q,
     qd_output_mint = q_output_token q,
     qd_amount_specified_is_input = q_amount_specified_is_input q,
     qd_amount = q_amount q,
     qd_other_amount = q_other_amount q,
     qd_other_amount_threshold = q_other_amount_threshold q\<rparr>"

record copy_details =
  d_origin_signature :: signature
  d_origin_signer :: pubkey
  d_origin_swap :: resolved_swap
  d_origin_sol_balance :: "balance option"
  d_origin_input_mint_balance :: "balance option"
  d_origin_output_mint_balance :: "balance option"
  d_send_txn_retries :: u8
  d_confirmed_error_retries :: u8
  d_retry_strategy :: retry_strategy
  d_wallet_config :: wallet_config
  d_next_priority_level :: priority_level
  d_last_fee_lamports :: u64
  d_send_to_jito :: bool
  d_quote_output :: "quote_details option"
  d_copy_type :: "copy_type option"

definition is_first_execution :: "copy_details \<Rightarrow> bool" where
  "is_first_execution d \<longleftrightarrow> d_send_txn_retries d = 0 \<and> d_confirmed_error_retries d = 0"

record copy_metrics =
  mt_tracked_txns :: usize
  mt_attempted_copy_txns :: usize
  mt_executed_copy_txns :: usize
  mt_skipped_copy_txns :: usize
  mt_total_sent_txns :: usize
  mt_total_confirmed_txns :: usize
  mt_total_unconfirmed_txns :: usize

definition copy_metrics_default :: copy_metrics where
  "copy_metrics_default = \<lparr>
     mt_tracked_txns = 0, mt_attempted_copy_txns = 0, mt_executed_copy_txns = 0,
     mt_skipped_copy_txns = 0, mt_total_sent_txns = 0, mt_total_confirmed_txns = 0,
     mt_total_unconfirmed_txns = 0\<rparr>"

section \<open>Wallets\<close>

definition wallet_min :: "copy_config \<Rightarrow> copy_wallet \<Rightarrow> u64" where
  "wallet_min cfg a = unwrap_or (cw_min_input_amount a) (cfg_min_input_amount_default cfg)"

definition wallet_max :: "copy_config \<Rightarrow> copy_wallet \<Rightarrow> u64" where
  "wallet_max cfg a = unwrap_or (cw_max_input_amount a) (cfg_max_input_amount_default cfg)"

definition account_to_config ::
  "(pubkey \<Rightarrow> string) \<Rightarrow> copy_config \<Rightarrow> copy_wallet \<Rightarrow> (pubkey \<times> wallet_config \<times> bool) result" where
  "account_to_config to_string cfg a =
     (if wallet_max cfg a \<le> wallet_min cfg a
      then Inl (Panic (''Wallet '' @ to_string (cw_wallet a) @ ''. max-input is <= min-input''))
      else Inr (cw_wallet a,
        \<lparr>wc_display = unwrap_or (cw_display_name a) (to_string (cw_wallet a)),
         wc_min_input_amount = wallet_min cfg a,
         wc_max_input_amount = wallet_max cfg a,
         wc_mode = unwrap_or (cw_mode a) (cfg_copy_mode_default cfg)\<rparr>,
        unwrap_or (cw_buy_disabled a) False))"

fun copy_accounts_to_config ::
  "(pubkey \<Rightarrow> string) \<Rightarrow> copy_config \<Rightarrow> copy_wallet list
     \<Rightarrow> (pubkey \<times> wallet_config \<times> bool) list result" where
  "copy_accounts_to_config to_string cfg [] = Inr []"
| "copy_accounts_to_config to_string cfg (a # as) =
     bind_res (account_to_config to_string cfg a) (\<lambda>c.
     bind_res (copy_accounts_to_config to_string cfg as) (\<lambda>cs. Inr (c # cs)))"

record poll_request =
  pr_address :: pubkey
  pr_commitment :: "commitment_level option"
  pr_poll_transactions_frequency :: "duration option"
  pr_ignore_error_transactions :: bool
  pr_recent_signature :: "signature option"
  pr_order_by_earliest :: "bool option"

definition wallet_poll_request :: "copy_wallet \<Rightarrow> poll_request" where
  "wallet_poll_request w = \<lparr>
     pr_address = cw_wallet w,
     pr_commitment = cw_commitment_level w,
     pr_poll_transactions_frequency =
       map_option (\<lambda>s. unat s * 1000000000) (cw_poll_transactions_frequency_seconds w),
     pr_ignore_error_transactions = unwrap_or (cw_ignore_error_transactions w) False,
     pr_recent_signature = cw_recent_signature w,
     pr_order_by_earliest = Some False\<rparr>"

text \<open>The lamports of the wallets' accounts come from the RPC client, and whether the transaction
  stream accepts the wallets from the stream; the requests handed to it are returned.\<close>

definition add_accounts_to_wallet_config_and_stream ::
  "(pubkey \<Rightarrow> string) \<Rightarrow> (pubkey list \<Rightarrow> u64 option list result) \<Rightarrow> (poll_request list \<Rightarrow> unit result)
     \<Rightarrow> copy_wallet list \<Rightarrow> copy_config \<Rightarrow> (pubkey, wallet_config) store
     \<Rightarrow> (pubkey, wallet_config) store \<times> (pubkey set \<times> poll_request list) result" where
  "add_accounts_to_wallet_config_and_stream to_string get_balances watch_accounts init_accounts
     global_config config_map =
     (case get_balances (map cw_wallet init_accounts) of
        Inl e \<Rightarrow> (config_map, Inl e)
      | Inr balances \<Rightarrow>
          let accounts = map fst (zip init_accounts balances)
          in case copy_accounts_to_config to_string global_config accounts of
               Inl e \<Rightarrow> (config_map, Inl e)
             | Inr configs \<Rightarrow>
                 let config_map = foldl (\<lambda>m (w, c, _). store_insert m w c) config_map configs;
                     disabled_wallets = {w. \<exists>c. (w, c, True) \<in> set configs};
                     stream_accounts = map wallet_poll_request accounts
                 in (config_map,
                     bind_res (watch_accounts stream_accounts) (\<lambda>_.
                       Inr (disabled_wallets, stream_accounts))))"

definition wallet_config_ok :: "wallet_config \<Rightarrow> bool" where
  "wallet_config_ok w \<longleftrightarrow> wc_min_input_amount w < wc_max_input_amount w"

section \<open>Properties\<close>

lemma account_to_config_ok:
  "account_to_config s cfg a = Inr (w, c, b) \<Longrightarrow> wallet_config_ok c"
  by (auto simp: account_to_config_def wallet_config_ok_def not_le split: if_splits)

lemma copy_accounts_to_config_all_ok:
  "copy_accounts_to_config s cfg as = Inr cs \<Longrightarrow> \<forall>(w, c, b) \<in> set cs. wallet_config_ok c"
  by (induction as arbitrary: cs) (auto dest: account_to_config_ok)

lemma copy_accounts_to_config_panics_iff:
  "(\<exists>m. copy_accounts_to_config s cfg as = Inl (Panic m))
     \<longleftrightarrow> (\<exists>a \<in> set as. wallet_max cfg a \<le> wallet_min cfg a)"
proof (induction as)
  case (Cons a as)
  then show ?case
    by (cases "copy_accounts_to_config s cfg as")
      (auto simp: account_to_config_def bind_res_def split: if_splits sum.splits)
qed simp

lemma store_get_foldl_insert:
  assumes "store_get (foldl (\<lambda>m (w, c, _). store_insert m w c) m cs) k = Some c"
  shows "(\<exists>b. (k, c, b) \<in> set cs) \<or> store_get m k = Some c"
  using assms
proof (induction cs arbitrary: m)
  case (Cons x cs)
  obtain w c' b where x: "x = (w, c', b)" by (cases x) auto
  show ?case using Cons.IH [of "store_insert m w c'"] Cons.prems by (auto simp: x split: if_splits)
qed simp

text \<open>Whatever wallets are added, and whether or not the call succeeds, every wallet
  configuration in the map has a minimum input strictly below its maximum input.\<close>

theorem add_accounts_keeps_limits:
  assumes "\<forall>k c. store_get config_map k = Some c \<longrightarrow> wallet_config_ok c"
    and "store_get (fst (add_accounts_to_wallet_config_and_stream to_string get_balances
           watch_accounts accounts cfg config_map)) k = Some c"
  shows "wallet_config_ok c"
  using assms(2)
  unfolding add_accounts_to_wallet_config_and_stream_def Let_def
  by (auto split: sum.splits dest!: store_get_foldl_insert copy_accounts_to_config_all_ok
      simp: assms(1))

theorem add_accounts_keeps_limits_witness:
  "wallet_config_ok \<lparr>wc_display = ''w'', wc_min_input_amount = 100000000,
     wc_max_input_amount = 500000000, wc_mode = ModeDirect\<rparr>"
  by (rule add_accounts_keeps_limits [of "[]" "\<lambda>_. ''w''" "\<lambda>_. Inr [Some 1]" "\<lambda>_. Inr ()"
      "[\<lparr>cw_wallet = 1, cw_display_name = None, cw_min_input_amount = None,
         cw_max_input_amount = None, cw_buy_disabled = None, cw_mode = None,
         cw_commitment_level = None, cw_poll_transactions_frequency_seconds = None,
         cw_ignore_error_transactions = None, cw_recent_signature = None\<rparr>]"
      copy_config_default 1])
    (simp_all add: add_accounts_to_wallet_config_and_stream_def account_to_config_def
      wallet_min_def wallet_max_def copy_config_default_def)

end
