(* ===== verification/Ping.thy ===== *)
theory Ping
  imports Swap_Types
begin

text \<open>
  The ping tracker (\<^verbatim>\<open>services/copy/v2/ping.rs\<close>): which wallets bought a token, how much SOL
  they put in, how often the bot acted on it, and the tiers that say how much to put in for how
  many pings. Reading the configuration and the snapshot file is an argument of \<open>ping_start\<close>; the
  thread that writes the snapshots is not modelled. Base58 (\<open>to_string\<close> and \<open>from_str\<close> of a
  \<open>Pubkey\<close>) belongs to the SDK and is an argument.
\<close>

record ping =
  pg_wallets :: "pubkey set"
  pg_execution_count :: u8
  pg_total_lamports_cost :: u64

record wallet_history =
  wh_wallet :: pubkey
  wh_token :: pubkey
  wh_signatures :: "signature set"

record tiers_raw =
  tier_pings :: u8
  tier_amount :: f64

record ping_config =
  pc_snapshot_path :: string
  pc_snapshot_frequency :: u64
  pc_tiers :: "tiers_raw list"

record ping_tracker =
  pt_config :: ping_config
  pt_pings :: "(pubkey, ping) store"
  pt_wallet_history :: "(pubkey \<times> pubkey, wallet_history) store"
  pt_execution :: "(pubkey, trade_history) store"
  pt_tiers :: "(nat, u64) store"

record ping_snapshot =
  ps_pings :: "(string, ping) store"
  ps_wallet_history :: "(string \<times> string, wallet_history) store"
  ps_execution :: "(string, trade_history) store"

record ping_execution_volume =
  pv_volume_token :: u64
  pv_volume_usd :: f64
  pv_volume_sol :: f64
  pv_dust_amount :: u64
  pv_ping :: "ping option"

definition LAMPORTS_PER_SOL :: u64 where
  "LAMPORTS_PER_SOL = 1000000000"

section \<open>Snapshots and start\<close>

definition to_snapshot :: "(pubkey \<Rightarrow> string) \<Rightarrow> ping_tracker \<Rightarrow> ping_snapshot" where
  "to_snapshot to_string t = \<lparr>
     ps_pings = store_from_list (map (\<lambda>(k, v). (to_string k, v)) (pt_pings t)),
     ps_wallet_history = store_from_list
       (map (\<lambda>((k, l), v). ((to_string k, to_string l), v)) (pt_wallet_history t)),
     ps_execution = store_from_list (map (\<lambda>(k, v). (to_string k, v)) (pt_execution t))\<rparr>"

text \<open>A key that does not parse panics (\<open>unwrap\<close>).\<close>

definition unwrap_key :: "'a option \<Rightarrow> 'a result" where
  "unwrap_key k = expect k ''called `Result::unwrap()` on an `Err` value''"

fun load_entries :: "('k \<Rightarrow> 'l result) \<Rightarrow> ('k \<times> 'v) list \<Rightarrow> ('l \<times> 'v) list result" where
  "load_entries f [] = Inr []"
| "load_entries f ((k, v) # xs) =
     bind_res (f k) (\<lambda>l. bind_res (load_entries f xs) (\<lambda>ys. Inr ((l, v) # ys)))"

definition key_pair :: "(string \<Rightarrow> pubkey option) \<Rightarrow> string \<times> string \<Rightarrow> (pubkey \<times> pubkey) result" where
  "key_pair from_str k =
     bind_res (unwrap_key (from_str (fst k))) (\<lambda>a.
     bind_res (unwrap_key (from_str (snd k))) (\<lambda>b. Inr (a, b)))"

definition tiers_from_config :: "ping_config \<Rightarrow> (nat, u64) store" where
  "tiers_from_config config = store_from_list
     (map (\<lambda>t. (unat (tier_pings t),
                f64_as_u64 (f_trunc (f_mul (tier_amount t) (u64_as_f64 LAMPORTS_PER_SOL)))))
        (pc_tiers config))"

text \<open>\<open>snapshot\<close> is \<open>None\<close> where the file does not exist, otherwise what reading it gives.\<close>

definition ping_start ::
  "(string \<Rightarrow> pubkey option) \<Rightarrow> ping_config result \<Rightarrow> bool \<Rightarrow> ping_snapshot result option
     \<Rightarrow> ping_tracker result" where
  "ping_start from_str config_file load_snapshot snapshot =
     bind_res config_file (\<lambda>config.
     if pc_tiers config = [] then Inl (Error ''ping tiers config is empty'')
     else
       bind_res
         (case (load_snapshot, snapshot) of
            (True, Some file) \<Rightarrow>
              bind_res file (\<lambda>s.
              bind_res (load_entries (\<lambda>k. unwrap_key (from_str k)) (ps_pings s)) (\<lambda>pings.
              bind_res (load_entries (key_pair from_str) (ps_wallet_history s)) (\<lambda>hist.
              bind_res (load_entries (\<lambda>k. unwrap_key (from_str k)) (ps_execution s)) (\<lambda>exec.
              Inr (store_from_list pings, store_from_list hist, store_from_list exec)))))
          | _ \<Rightarrow> Inr ([], [], []))
         (\<lambda>(pings, hist, exec).
            Inr \<lparr>pt_config = config, pt_pings = pings, pt_wallet_history = hist,
                 pt_execution = exec, pt_tiers = tiers_from_config config\<rparr>))"

section \<open>Inputs\<close>

definition get_token_input ::
  "ping_tracker \<Rightarrow> pubkey \<Rightarrow> pubkey \<Rightarrow> u64 \<Rightarrow> u64 \<Rightarrow> u64 option result" where
  "get_token_input t input_token origin token_amount origin_balance_after =
     (case store_get (pt_pings t) input_token of
        None \<Rightarrow> Inr None
      | Some ping \<Rightarrow>
          if origin \<notin> pg_wallets ping then Inr None
          else
            (case store_get (pt_execution t) input_token of
               None \<Rightarrow> Inr None
             | Some execution \<Rightarrow>
                 let wallets = of_nat (card (pg_wallets ping)) :: u64
                 in if wallets = 0 then Inl (Panic ''attempt to divide by zero'')
                    else
                      let amount_under_consideration =
                            saturating_sub (buy_volume_token execution) (sell_volume_token execution)
                              div wallets;
                          amount_to_sell =
                            f64_as_u64 (f_trunc (f_mul
                              (f_div (u64_as_f64 token_amount)
                                     (u64_as_f64 (token_amount + origin_balance_after)))
                              (u64_as_f64 amount_under_consideration)))
                      in Inr (Some amount_to_sell)))"

text \<open>\<open>slice::binary_search\<close> on a sorted slice without duplicates: the index of the element
  (\<open>Inr\<close>), or the index where it could be inserted (\<open>Inl\<close>).\<close>

definition binary_search :: "nat list \<Rightarrow> nat \<Rightarrow> nat + nat" where
  "binary_search xs x =
     (let idx = length (takeWhile (\<lambda>y. y < x) xs)
      in if idx < length xs \<and> xs ! idx = x then Inr idx else Inl idx)"

definition tier_amount_for :: "(nat, u64) store \<Rightarrow> nat \<Rightarrow> u64 option result" where
  "tier_amount_for tiers ping_count =
     (case store_get tiers ping_count of
        Some r \<Rightarrow> Inr (Some r)
      | None \<Rightarrow>
          let pings = sort (map fst tiers)
          in case pings of
               [] \<Rightarrow> Inl (Panic ''index out of bounds'')
             | p # _ \<Rightarrow>
                 if p < ping_count then
                   let idx = (case binary_search pings ping_count of
                                Inr idx \<Rightarrow> idx
                              | Inl idx \<Rightarrow> min idx (length pings - 1))
                   in Inr (store_get tiers (pings ! idx))
                 else Inr None)"

definition get_lamports_input :: "ping_tracker \<Rightarrow> pubkey \<Rightarrow> u64 option result" where
  "get_lamports_input t output_token =
     (case store_get (pt_pings t) output_token of
        None \<Rightarrow> Inr None
      | Some ping \<Rightarrow>
          if length (pt_tiers t) \<le> unat (pg_execution_count ping) then Inr None
          else
            bind_res (tier_amount_for (pt_tiers t) (card (pg_wallets ping))) (\<lambda>amount.
              Inr (map_option (\<lambda>amt. min amt (pg_total_lamports_cost ping)) amount)))"

section \<open>Updates\<close>

definition swap_input_lamports :: "f64 \<Rightarrow> f64 \<Rightarrow> u64 \<Rightarrow> u8 \<Rightarrow> u64" where
  "swap_input_lamports input_usd sol_usd input_amount decimals =
     (let input_sol = f_div input_usd sol_usd
      in f64_as_u64 (f_trunc (f_mul
           (f_div (f_mul (u64_as_f64 input_amount) input_sol)
                  (u32_as_f64 (pow10_u32 decimals)))
           (u64_as_f64 LAMPORTS_PER_SOL))))"

definition insert_swap ::
  "ping_tracker \<Rightarrow> pubkey \<Rightarrow> signature \<Rightarrow> resolved_swap \<Rightarrow> price_feed
     \<Rightarrow> ping_tracker \<times> bool result" where
  "insert_swap t origin sig swap feed =
     (let hist = pt_wallet_history t;
          hist = (case store_get hist (origin, rs_input_token_mint swap) of
                    None \<Rightarrow> hist
                  | Some h \<Rightarrow> store_insert hist (origin, rs_input_token_mint swap)
                                (h\<lparr>wh_signatures := insert sig (wh_signatures h)\<rparr>));
          t = t\<lparr>pt_wallet_history := hist\<rparr>;
          token = rs_output_token_mint swap
      in if is_static_token token then (t, Inr False)
         else
           (case rs_token_decimals swap of
              None \<Rightarrow> (t, Inl (Error ''Token decimals not resolved''))
            | Some decimals \<Rightarrow>
                (case Option.bind (get_price_usd feed SOL) price of
                   None \<Rightarrow> (t, Inl (Error ''Failed to get SOL price from feed''))
                 | Some sol_usd \<Rightarrow>
                     let input_usd =
                           (if rs_input_token_mint swap = SOL then sol_usd
                            else if rs_input_token_mint swap = USDC \<or> rs_input_token_mint swap = USDT
                            then f64_lit 1
                            else unwrap_or (Option.bind (get_price_usd feed token) price) f64_zero);
                         input_volume_lamports =
                           swap_input_lamports input_usd sol_usd (rs_input_amount swap)
                             (td_input decimals);
                         (pings, pinged) =
                           (case store_get (pt_pings t) token of
                              Some p \<Rightarrow>
                                (store_insert (pt_pings t) token
                                   (p\<lparr>pg_total_lamports_cost :=
                                        pg_total_lamports_cost p + input_volume_lamports,
                                      pg_wallets := insert origin (pg_wallets p)\<rparr>),
                                 origin \<notin> pg_wallets p)
                            | None \<Rightarrow>
                                (store_insert (pt_pings t) token
                                   \<lparr>pg_wallets = {origin}, pg_execution_count = 0,
                                    pg_total_lamports_cost = input_volume_lamports\<rparr>,
                                 True));
                         hist =
                           (case store_get (pt_wallet_history t) (origin, token) of
                              Some h \<Rightarrow> store_insert (pt_wallet_history t) (origin, token)
                                (h\<lparr>wh_signatures := insert sig (wh_signatures h)\<rparr>)
                            | None \<Rightarrow> store_insert (pt_wallet_history t) (origin, token)
                                \<lparr>wh_wallet = origin, wh_token = token, wh_signatures = {sig}\<rparr>)
                     in (t\<lparr>pt_pings := pings, pt_wallet_history := hist\<rparr>, Inr pinged))))"

definition ping_dust :: "trade_direction \<Rightarrow> u16 option \<Rightarrow> u64 \<Rightarrow> u64 result" where
  "ping_dust dir moonbag_bps volume =
     (case dir of
        DirBuy \<Rightarrow>
          (let dust_bps = unwrap_or moonbag_bps 0
           in if 5000 \<le> dust_bps then Inl (Error ''Dust bps is greater than 50%'')
              else Inr (dust_amount dust_bps volume))
      | DirSell \<Rightarrow> Inr 0)"

definition insert_execution ::
  "ping_tracker \<Rightarrow> pubkey \<Rightarrow> u8 \<Rightarrow> u64 \<Rightarrow> f64 \<Rightarrow> f64 \<Rightarrow> trade_direction \<Rightarrow> u16 option
     \<Rightarrow> (ping_tracker \<times> ping_execution_volume) result" where
  "insert_execution t token decimals volume_token token_price_usd token_price_sol dir moonbag_bps =
     (let volume_usd = token_value volume_token token_price_usd decimals;
          volume_sol = token_value volume_token token_price_sol decimals
      in bind_res (ping_dust dir moonbag_bps volume_token) (\<lambda>dust.
         let volume_token = volume_token - dust;
             history = unwrap_or (store_get (pt_execution t) token) trade_history_default;
             history = (case dir of
                          DirBuy \<Rightarrow> add_buy history volume_token volume_usd volume_sol
                        | DirSell \<Rightarrow> add_sell history volume_token volume_usd volume_sol);
             pings = (case store_get (pt_pings t) token of
                        None \<Rightarrow> pt_pings t
                      | Some p \<Rightarrow> store_insert (pt_pings t) token
                          (p\<lparr>pg_execution_count := pg_execution_count p + 1\<rparr>))
         in Inr (t\<lparr>pt_execution := store_insert (pt_execution t) token history, pt_pings := pings\<rparr>,
                 \<lparr>pv_volume_token = volume_token, pv_volume_usd = volume_usd,
                  pv_volume_sol = volume_sol, pv_dust_amount = dust,
                  pv_ping = store_get pings token\<rparr>)))"

text \<open>What holds of every tracker: the stores have distinct keys, there is at least one tier, every
  tracked token is one that is traded, its pinging wallets are a finite nonempty set and each of
  them has a history of signatures for the token.\<close>

definition ping_entry_ok :: "ping_tracker \<Rightarrow> pubkey \<Rightarrow> ping \<Rightarrow> bool" where
  "ping_entry_ok t k p \<longleftrightarrow>
     \<not> is_static_token k \<and> finite (pg_wallets p) \<and> pg_wallets p \<noteq> {} \<and>
     (\<forall>w \<in> pg_wallets p. \<exists>h. store_get (pt_wallet_history t) (w, k) = Some h)"

definition history_entry_ok :: "pubkey \<times> pubkey \<Rightarrow> wallet_history \<Rightarrow> bool" where
  "history_entry_ok k h \<longleftrightarrow> (wh_wallet h, wh_token h) = k \<and> wh_signatures h \<noteq> {}"

definition tracker_ok :: "ping_tracker \<Rightarrow> bool" where
  "tracker_ok t \<longleftrightarrow>
     store_ok (pt_pings t) \<and> store_ok (pt_wallet_history t) \<and> store_ok (pt_execution t) \<and>
     store_ok (pt_tiers t) \<and> pt_tiers t \<noteq> [] \<and>
     (\<forall>k p. store_get (pt_pings t) k = Some p \<longrightarrow> ping_entry_ok t k p) \<and>
     (\<forall>k h. store_get (pt_wallet_history t) k = Some h \<longrightarrow> history_entry_ok k h)"

section \<open>Tiers\<close>

lemma takeWhile_less_split:
  fixes xs :: "nat list"
  assumes "sorted xs" and i_def: "i = length (takeWhile (\<lambda>y. y < x) xs)"
  shows "\<forall>y \<in> set (drop i xs). x \<le> y" and "\<forall>y \<in> set (take i xs). y < x" and "i \<le> length xs"
proof -
  show "i \<le> length xs" unfolding i_def by (rule length_takeWhile_le)
  have "take i xs = takeWhile (\<lambda>y. y < x) xs" unfolding i_def by (rule takeWhile_eq_take [symmetric])
  then show "\<forall>y \<in> set (take i xs). y < x" by (metis set_takeWhileD)
  have d: "drop i xs = dropWhile (\<lambda>y. y < x) xs" unfolding i_def by (rule dropWhile_eq_drop [symmetric])
  show "\<forall>y \<in> set (drop i xs). x \<le> y"
  proof (cases "dropWhile (\<lambda>y. y < x) xs")
    case (Cons z zs)
    then have "\<not> z < x" using hd_dropWhile [of "\<lambda>y. y < x" xs] by simp
    moreover have "sorted (z # zs)" using assms(1) d Cons sorted_wrt_drop by metis
    ultimately show ?thesis by (auto simp: d Cons)
  next
    case Nil
    then show ?thesis unfolding d by (simp only: list.set ball_empty)
  qed
qed

text \<open>The tier that applies to a number of pings: the smallest one that is at least as high, or
  the highest tier when there is none.\<close>

definition tier_key :: "nat set \<Rightarrow> nat \<Rightarrow> nat" where
  "tier_key K c = (if \<exists>k \<in> K. c \<le> k then Min {k \<in> K. c \<le> k} else Max K)"

lemma tier_index:
  fixes xs :: "nat list"
  assumes "sorted xs" and "xs \<noteq> []" and "i = length (takeWhile (\<lambda>y. y < c) xs)"
  shows "xs ! min i (length xs - 1) = tier_key (set xs) c"
proof (cases "i < length xs")
  case True
  have d: "drop i xs = xs ! i # drop (Suc i) xs" using True by (rule Cons_nth_drop_Suc [symmetric])
  note w = takeWhile_less_split [OF assms(1,3)]
  have "xs ! i \<in> set (drop i xs)" by (simp add: d)
  then have ge: "c \<le> xs ! i" using w(1) by blast
  have "sorted (xs ! i # drop (Suc i) xs)" using assms(1) d sorted_wrt_drop by metis
  then have least: "xs ! i \<le> y" if "y \<in> set xs" "c \<le> y" for y
  proof -
    have "y \<in> set (take i xs @ drop i xs)" using that by (simp only: append_take_drop_id)
    moreover have "y \<notin> set (take i xs)" using w(2) that by force
    ultimately have "y \<in> set (xs ! i # drop (Suc i) xs)" unfolding set_append d by blast
    then show ?thesis using \<open>sorted (xs ! i # drop (Suc i) xs)\<close> by auto
  qed
  have "Min {k \<in> set xs. c \<le> k} = xs ! i"
    using ge True least by (intro Min_eqI) auto
  moreover have "\<exists>k \<in> set xs. c \<le> k" using ge True nth_mem by blast
  ultimately show ?thesis using True by (simp add: tier_key_def)
next
  case False
  note w = takeWhile_less_split [OF assms(1,3)]
  have "\<forall>y \<in> set xs. y < c" using w(2,3) False by simp
  then have "\<not> (\<exists>k \<in> set xs. c \<le> k)" by force
  moreover have "Max (set xs) = xs ! (length xs - 1)"
  proof (rule Max_eqI)
    fix y assume "y \<in> set xs"
    then obtain j where "j < length xs" "y = xs ! j" by (auto simp: in_set_conv_nth)
    then show "y \<le> xs ! (length xs - 1)" using assms(1) by (auto intro: sorted_nth_mono)
  qed (use assms(2) in auto)
  ultimately show ?thesis using False by (simp add: tier_key_def min_absorb2)
qed

lemma tier_key_member: "c \<in> K \<Longrightarrow> finite K \<Longrightarrow> tier_key K c = c"
  by (auto simp: tier_key_def intro!: Min_eqI)

lemma tier_amount_for_spec:
  assumes "tiers \<noteq> []"
  shows "tier_amount_for tiers c = Inr
    (if \<forall>k \<in> fst ` set tiers. c < k then None
     else store_get tiers (tier_key (fst ` set tiers) c))"
proof (cases "store_get tiers c")
  case (Some r)
  then have "c \<in> fst ` set tiers" using store_get_None_iff [of tiers c] by auto
  then show ?thesis using Some by (auto simp: tier_amount_for_def tier_key_member)
next
  case None
  then have c: "c \<notin> fst ` set tiers" by (simp add: store_get_None_iff)
  let ?xs = "sort (map fst tiers)"
  have ne: "?xs \<noteq> []" using assms by (metis length_0_conv length_map length_sort)
  have st: "set ?xs = fst ` set tiers" "sorted ?xs" by simp_all
  obtain p ps where ps: "?xs = p # ps" using ne by (cases ?xs) auto
  have min_p: "p \<in> set ?xs" "\<forall>y \<in> set ?xs. p \<le> y" using st(2) ps by auto
  then have None_iff: "(\<forall>k \<in> fst ` set tiers. c < k) \<longleftrightarrow> \<not> p < c"
    using c unfolding st(1) by (metis linorder_less_linear order_less_le_trans not_less_iff_gr_or_eq)
  have "binary_search ?xs c = Inl (length (takeWhile (\<lambda>y. y < c) ?xs))"
    using c st(1) unfolding binary_search_def Let_def by (metis nth_mem)
  then show ?thesis
    using None ps None_iff tier_index [OF st(2) ne refl, of c] st(1)
    by (auto simp: tier_amount_for_def Let_def split: if_splits)
qed

text \<open>The amount the bot puts into a pinged token, for a tracker that is well-formed: the lookup
  never panics; it yields nothing where the token is not tracked, where the bot has acted as often
  as there are tiers, or where there are fewer pings than the lowest tier asks for; otherwise it is
  the amount of the lowest tier that covers the number of pinging wallets (the highest tier when
  there are more), capped by what those wallets have put in themselves.\<close>

theorem get_lamports_input_tier:
  assumes "pt_tiers t \<noteq> []"
  shows "get_lamports_input t tok = Inr
    (case store_get (pt_pings t) tok of
       None \<Rightarrow> None
     | Some p \<Rightarrow>
         let K = fst ` set (pt_tiers t); c = card (pg_wallets p) in
         if length (pt_tiers t) \<le> unat (pg_execution_count p) \<or> (\<forall>k \<in> K. c < k) then None
         else map_option (\<lambda>a. min a (pg_total_lamports_cost p))
                (store_get (pt_tiers t) (tier_key K c)))"
  by (auto simp: get_lamports_input_def tier_amount_for_spec [OF assms] Let_def split: option.splits)

definition sample_tracker :: ping_tracker where
  "sample_tracker = \<lparr>
     pt_config = \<lparr>pc_snapshot_path = ''p'', pc_snapshot_frequency = 60, pc_tiers = []\<rparr>,
     pt_pings = [(5, \<lparr>pg_wallets = {1, 2, 3}, pg_execution_count = 1,
                      pg_total_lamports_cost = 250000000\<rparr>)],
     pt_wallet_history = [],
     pt_execution = [(5, trade_history_default\<lparr>buy_volume_token := 9000, sell_volume_token := 3000\<rparr>)],
     pt_tiers = [(2, 100000000), (4, 300000000), (7, 500000000)]\<rparr>"

theorem get_lamports_input_tier_witness:
  "get_lamports_input sample_tracker 5 = Inr (Some 250000000)"
proof -
  have "{k :: nat. (k = 2 \<or> k = 4 \<or> k = 7) \<and> Suc (Suc (Suc 0)) \<le> k} = {4, 7}" by auto
  then have "tier_key {2, 4, 7} (Suc (Suc (Suc 0))) = 4"
    by (simp add: tier_key_def)
  moreover have "pt_tiers sample_tracker \<noteq> []" by (simp add: sample_tracker_def)
  note get_lamports_input_tier [OF this, of 5]
  ultimately show ?thesis by (simp add: sample_tracker_def store_get_def Let_def)
qed

section \<open>Selling\<close>

lemma f64_share_ratio_le:
  assumes "unat a + unat b < 2 ^ 64" and "unat x \<le> 2 ^ 53"
  shows "f64_as_u64 (f_trunc (f_mul (f_div (u64_as_f64 a) (u64_as_f64 (a + b))) (u64_as_f64 x))) \<le> x"
proof (cases "a + b = 0")
  case True
  have "unat (a + b) = unat a + unat b" using assms(1) by (intro unat_plus_no_wrap) simp
  then have "a = 0" using True by (simp add: unat_eq_zero)
  then show ?thesis using True by (simp add: u64_as_f64_Finite)
next
  case False
  have "a \<le> a + b" using assms(1) by (simp add: word_le_nat_alt unat_plus_no_wrap)
  then obtain r where "f_div (u64_as_f64 a) (u64_as_f64 (a + b)) = Finite False r" "0 \<le> r" "r \<le> 1"
    using False by (rule f_div_u64_le1)
  then show ?thesis using f64_share_le [of r x] assms(2) by (simp add: f64_share_def)
qed

text \<open>What the bot sells of a token when one of the wallets that pinged it sells: the lookup
  never panics, it answers only for a wallet that pinged the token and a token that the bot traded,
  and the amount is at most the wallet's equal share of what the bot still holds.\<close>

theorem get_token_input_share:
  assumes "store_get (pt_pings t) tok = Some p" and "finite (pg_wallets p)"
    and "card (pg_wallets p) < 2 ^ 64"
    and "unat amount + unat balance_after < 2 ^ 64"
    and "\<forall>e. store_get (pt_execution t) tok = Some e \<longrightarrow> unat (buy_volume_token e) \<le> 2 ^ 53"
  shows "\<exists>r. get_token_input t tok origin amount balance_after = Inr r
    \<and> (r \<noteq> None \<longleftrightarrow> origin \<in> pg_wallets p \<and> store_get (pt_execution t) tok \<noteq> None)
    \<and> (\<forall>sell e. r = Some sell \<and> store_get (pt_execution t) tok = Some e \<longrightarrow>
         unat sell * card (pg_wallets p) \<le> unat (buy_volume_token e) - unat (sell_volume_token e))"
proof (cases "origin \<in> pg_wallets p \<and> store_get (pt_execution t) tok \<noteq> None")
  case True
  then obtain e where e: "store_get (pt_execution t) tok = Some e" by auto
  let ?w = "of_nat (card (pg_wallets p)) :: u64"
  let ?x = "saturating_sub (buy_volume_token e) (sell_volume_token e) div ?w"
  have w: "unat ?w = card (pg_wallets p)"
    using assms(3) by (simp add: unsigned_of_nat take_bit_nat_eq_self)
  moreover have "card (pg_wallets p) \<noteq> 0" using True assms(2) by auto
  ultimately have w0: "?w \<noteq> 0" by (metis unat_eq_zero)
  let ?s = "f64_as_u64 (f_trunc (f_mul (f_div (u64_as_f64 amount) (u64_as_f64 (amount + balance_after)))
      (u64_as_f64 ?x)))"
  have x: "unat ?x = (unat (buy_volume_token e) - unat (sell_volume_token e)) div card (pg_wallets p)"
    by (simp only: unat_div unat_saturating_sub w)
  have "unat ?x \<le> unat (buy_volume_token e)"
    unfolding x by (rule order_trans [OF div_le_dividend diff_le_self])
  then have "unat ?x \<le> 2 ^ 53" using assms(5) e by auto
  then have "?s \<le> ?x" by (rule f64_share_ratio_le [OF assms(4)])
  then have "unat ?s * card (pg_wallets p) \<le> unat ?x * card (pg_wallets p)"
    unfolding word_le_nat_alt by (rule mult_le_mono1)
  also have "\<dots> \<le> unat (buy_volume_token e) - unat (sell_volume_token e)"
    unfolding x by (rule div_times_less_eq_dividend)
  finally show ?thesis
    using True e w0 assms(1) by (simp add: get_token_input_def Let_def)
next
  case False
  then show ?thesis
    using assms(1) by (auto simp: get_token_input_def Let_def split: option.splits)
qed

theorem get_token_input_share_witness:
  "\<exists>sell. get_token_input sample_tracker 5 2 100 100 = Inr (Some sell) \<and> unat sell * 3 \<le> 6000"
proof -
  have p: "store_get (pt_pings sample_tracker) 5 = Some \<lparr>pg_wallets = {1, 2, 3},
      pg_execution_count = 1, pg_total_lamports_cost = 250000000\<rparr>"
    and e: "store_get (pt_execution sample_tracker) 5
      = Some (trade_history_default\<lparr>buy_volume_token := 9000, sell_volume_token := 3000\<rparr>)"
    by (simp_all add: sample_tracker_def store_get_def)
  show ?thesis
    using get_token_input_share [OF p, of 100 100 2] e by auto
qed

section \<open>Recording\<close>

text \<open>Recording an execution fails exactly for a buy with a dust share of 50% or more and then
  changes nothing. Otherwise the executed volume is split without loss into dust and the volume added
  to the token's book, for every volume, and where the token is tracked the execution counter goes
  up by one; the entries of other tokens stay as they are.\<close>

theorem insert_execution_records:
  shows "case insert_execution t tok dec v pu ps dir bps of
      Inl e \<Rightarrow> dir = DirBuy \<and> 5000 \<le> unwrap_or bps 0
    | Inr (t', r) \<Rightarrow>
        (dir = DirBuy \<longrightarrow> unwrap_or bps 0 < 5000)
      \<and> unat (pv_volume_token r) + unat (pv_dust_amount r) = unat v
      \<and> (let h = unwrap_or (store_get (pt_execution t) tok) trade_history_default;
             h' = unwrap_or (store_get (pt_execution t') tok) trade_history_default
         in (case dir of
               DirBuy \<Rightarrow> buy_volume_token h' = buy_volume_token h + pv_volume_token r
                        \<and> sell_volume_token h' = sell_volume_token h
             | DirSell \<Rightarrow> sell_volume_token h' = sell_volume_token h + pv_volume_token r
                         \<and> buy_volume_token h' = buy_volume_token h \<and> pv_dust_amount r = 0))
      \<and> map_option pg_execution_count (store_get (pt_pings t') tok)
          = map_option (\<lambda>p. pg_execution_count p + 1) (store_get (pt_pings t) tok)
      \<and> (\<forall>k. k \<noteq> tok \<longrightarrow> store_get (pt_execution t') k = store_get (pt_execution t) k
           \<and> store_get (pt_pings t') k = store_get (pt_pings t) k)"
proof -
  have le: "unat (dust_amount b v) \<le> unat v" if "b < 5000" for b :: u16
    using dust_amount_le_half [OF order_less_imp_le [OF that]] by (simp add: word_le_nat_alt)
  show ?thesis
    by (cases dir)
      (auto simp: insert_execution_def ping_dust_def add_buy_def add_sell_def Let_def not_le
        unat_minus_no_wrap le split: option.splits)
qed

theorem insert_execution_records_witness:
  "\<exists>t' r. insert_execution sample_tracker 5 6 1000 f64_zero f64_zero DirBuy (Some 100) = Inr (t', r)
     \<and> unat (pv_volume_token r) + unat (pv_dust_amount r) = 1000"
  using insert_execution_records [where t = sample_tracker and tok = 5 and dec = 6 and v = 1000
      and pu = f64_zero and ps = f64_zero and dir = DirBuy and bps = "Some 100"]
  by (auto split: sum.splits)

lemma history_entry_ok_insert:
  "history_entry_ok k h \<Longrightarrow> history_entry_ok k (h\<lparr>wh_signatures := insert s (wh_signatures h)\<rparr>)"
  by (simp add: history_entry_ok_def)

text \<open>The two updates of \<open>insert_swap\<close>, each keeping the tracker well-formed: a signature added to
  an existing history, and a ping of a token by a wallet.\<close>

lemma tracker_ok_add_signature:
  assumes "tracker_ok t" and "store_get (pt_wallet_history t) k = Some h"
  shows "tracker_ok (t\<lparr>pt_wallet_history := store_insert (pt_wallet_history t) k
    (h\<lparr>wh_signatures := insert s (wh_signatures h)\<rparr>)\<rparr>)"
  using assms by (auto simp: tracker_ok_def ping_entry_ok_def history_entry_ok_def split: if_splits)

lemma tracker_ok_ping:
  assumes "tracker_ok t" and "\<not> is_static_token tok" and "history_entry_ok (w, tok) h"
    and "case store_get (pt_pings t) tok of
           None \<Rightarrow> pg_wallets p = {w} | Some q \<Rightarrow> pg_wallets p = insert w (pg_wallets q)"
  shows "tracker_ok (t\<lparr>pt_pings := store_insert (pt_pings t) tok p,
    pt_wallet_history := store_insert (pt_wallet_history t) (w, tok) h\<rparr>)"
  using assms by (auto simp: tracker_ok_def ping_entry_ok_def split: if_splits option.splits)

text \<open>A well-formed tracker stays well-formed, whatever swap is reported for whatever wallet and
  whether or not the call succeeds: keys stay distinct, no static token is ever tracked, every
  tracked token has a finite nonempty set of wallets and each of them a history.\<close>

theorem insert_swap_keeps_tracker_ok:
  assumes "tracker_ok t"
  shows "tracker_ok (fst (insert_swap t w s swap feed))"
proof -
  let ?k = "(w, rs_input_token_mint swap)"
  define t1 where "t1 = t\<lparr>pt_wallet_history :=
      (case store_get (pt_wallet_history t) ?k of
         None \<Rightarrow> pt_wallet_history t
       | Some h \<Rightarrow> store_insert (pt_wallet_history t) ?k
                     (h\<lparr>wh_signatures := insert s (wh_signatures h)\<rparr>))\<rparr>"
  have t1: "tracker_ok t1"
    using assms tracker_ok_add_signature [OF assms, of ?k]
    by (auto simp: t1_def split: option.splits)
  let ?tok = "rs_output_token_mint swap"
  have upd: "tracker_ok (t1\<lparr>pt_pings := store_insert (pt_pings t1) ?tok p,
      pt_wallet_history := store_insert (pt_wallet_history t1) (w, ?tok)
        (case store_get (pt_wallet_history t1) (w, ?tok) of
           None \<Rightarrow> \<lparr>wh_wallet = w, wh_token = ?tok, wh_signatures = {s}\<rparr>
         | Some h \<Rightarrow> h\<lparr>wh_signatures := insert s (wh_signatures h)\<rparr>)\<rparr>)"
    if "\<not> is_static_token ?tok"
      and "case store_get (pt_pings t1) ?tok of
           None \<Rightarrow> pg_wallets p = {w} | Some q \<Rightarrow> pg_wallets p = insert w (pg_wallets q)" for p
    using t1 by (intro tracker_ok_ping [OF t1 that(1) _ that(2)])
      (auto simp: history_entry_ok_def tracker_ok_def split: option.splits)
  show ?thesis
    using t1 upd unfolding insert_swap_def t1_def [symmetric] Let_def
    by (auto split: option.splits)
qed

lemma tracker_ok_sample: "tracker_ok (sample_tracker\<lparr>pt_pings := []\<rparr>)"
  by (simp add: tracker_ok_def sample_tracker_def store_ok_def)

theorem insert_swap_keeps_tracker_ok_witness:
  "tracker_ok (fst (insert_swap (sample_tracker\<lparr>pt_pings := []\<rparr>) 1 7
     (resolved_swap_plain Pump 10 20 SOL 5) []))"
  by (rule insert_swap_keeps_tracker_ok [OF tracker_ok_sample])

section \<open>Snapshots\<close>

lemma load_entries_map:
  "\<forall>k \<in> fst ` set xs. f (g k) = Inr k \<Longrightarrow>
     load_entries f (map (\<lambda>(k, v). (g k, v)) xs) = Inr xs"
  by (induction xs) auto

lemma store_ok_map_keys: "inj g \<Longrightarrow> store_ok xs \<Longrightarrow> store_ok (map (\<lambda>(k, v). (g k, v)) xs)"
  by (simp add: store_ok_def comp_def case_prod_beta)
    (metis (no_types, lifting) comp_apply distinct_map inj_on_subset map_eq_conv map_map subset_UNIV)



end
