(* ===== verification/Execution.thy ===== *)
theory Execution
  imports Copy_Types Ping
begin

text \<open>
  The execution handler (\<^verbatim>\<open>services/copy/v2/execution.rs\<close>): what to do about a trade of a copied
  wallet (\<open>process_direct\<close>, \<open>process_ping\<close>), the fee and the transaction for it
  (\<open>process_execution_input\<close>), the retries around it (\<open>handle_command\<close>). The state is the
  handler's view of the shared maps. The swap executor, the RPC client's mint lookup, the encoding of
  compute budget instructions and the clock are arguments.
\<close>

record execution_handler =
  eh_config :: copy_config
  eh_trade_history :: historical_trades
  eh_ping_tracker :: "ping_tracker option"
  eh_price_feed :: price_feed
  eh_buy_disabled :: bool
  eh_buy_disabled_wallets :: "pubkey set"
  eh_p95_landed :: f64
  eh_metrics :: copy_metrics

datatype execution_output = ExecSuccess copy_details versioned_tx | ExecFailure copy_details

definition PRICE_TTL :: duration where
  "PRICE_TTL = 150 * 1000000000"

section \<open>Direct copies\<close>

text \<open>The sell side: the ratio the wallet will have sold and the amount that brings the bot to the
  same ratio.\<close>

definition direct_sell :: "copy_history \<Rightarrow> u64 \<Rightarrow> (f64 \<times> u64) result" where
  "direct_sell history origin_swap_amount =
     (let origin = ch_origin history; exec = ch_exec history;
          origin_tokens_left = saturating_sub (buy_volume_token origin) (sell_volume_token origin)
      in if origin_tokens_left = 0 then Inl (Error ''Wallet has zero tokens left for token'')
         else if buy_volume_token origin = 0
         then Inl (Error ''Wallet's buy-volume for token is zero'')
         else
           let origin_sell_total =
                 min (saturating_add (sell_volume_token origin) origin_swap_amount)
                     (buy_volume_token origin);
               origin_sell_ratio =
                 f_div (u64_as_f64 origin_sell_total) (u64_as_f64 (buy_volume_token origin));
               exec_target_amount =
                 f64_as_u64 (f_trunc (f_mul origin_sell_ratio (u64_as_f64 (buy_volume_token exec))));
               input_amount = saturating_sub exec_target_amount (sell_volume_token exec)
           in Inr (origin_sell_ratio, input_amount))"

text \<open>The buy side: between the wallet's limits, in proportion to the share of its balance that
  the copied wallet put in.\<close>

definition direct_buy_amount :: "wallet_config \<Rightarrow> balance \<Rightarrow> pubkey \<Rightarrow> u64 \<Rightarrow> u64" where
  "direct_buy_amount wc signer_balance input_token origin_swap_amount =
     (let actual_input_amount =
            (if input_token = SOL \<and> bal_pre signer_balance \<noteq> 0
                \<and> origin_swap_amount < bal_pre signer_balance
             then
               let conviction =
                     (ucast origin_swap_amount
                       * (ucast (wc_max_input_amount wc) - ucast (wc_min_input_amount wc)))
                     div (ucast (bal_pre signer_balance) :: u128)
               in wc_min_input_amount wc + unwrap_or (try_from conviction) 0
             else wc_min_input_amount wc)
      in if input_token = SOL
         then min (min actual_input_amount origin_swap_amount) (wc_max_input_amount wc)
         else actual_input_amount)"

definition exact_in :: "copy_config \<Rightarrow> pubkey \<Rightarrow> pubkey \<Rightarrow> u64 \<Rightarrow> swap_input" where
  "exact_in cfg i j amount = \<lparr>
     si_input_token_mint = i, si_output_token_mint = j, si_slippage_bps = cfg_slippage_bps cfg,
     si_amount = amount, si_mode = ExactIn, si_market = None\<rparr>"

definition buys_disabled :: "execution_handler \<Rightarrow> pubkey \<Rightarrow> bool" where
  "buys_disabled h wallet \<longleftrightarrow> eh_buy_disabled h \<or> wallet \<in> eh_buy_disabled_wallets h"

definition process_direct ::
  "execution_handler \<Rightarrow> copy_details
     \<Rightarrow> execution_handler \<times> copy_details \<times> swap_input option result" where
  "process_direct h d =
     (if rs_token_decimals (d_origin_swap d) = None
      then (h, d, Inl (Error ''Token decimals not resolved''))
      else
        let input_token = rs_input_token_mint (d_origin_swap d);
            output_token = rs_output_token_mint (d_origin_swap d);
            origin_swap_amount = rs_input_amount (d_origin_swap d);
            origin_wallet = d_origin_signer d;
            buy_disabled = buys_disabled h (d_origin_signer d)
        in case get_history_for_wallet_and_token (eh_trade_history h) origin_wallet input_token of
             Some history \<Rightarrow>
               (case direct_sell history origin_swap_amount of
                  Inl e \<Rightarrow> (h, d, Inl e)
                | Inr (origin_sell_ratio, input_amount) \<Rightarrow>
                    let h = (if f_less (f64_lit (95 / 100)) origin_sell_ratio
                             then h\<lparr>eh_trade_history :=
                                    remove_history (eh_trade_history h) origin_wallet input_token\<rparr>
                             else h)
                    in if input_amount = 0 then (h, d, Inr None)
                       else if is_static_token output_token \<or> buy_disabled
                       then (h, d\<lparr>d_copy_type := Some CopySell\<rparr>,
                             Inr (Some (exact_in (eh_config h) input_token SOL input_amount)))
                       else (h, d\<lparr>d_copy_type := Some CopyBoth\<rparr>,
                             Inr (Some (exact_in (eh_config h) input_token output_token input_amount))))
           | None \<Rightarrow>
               if buy_disabled then (h, d, Inr None)
               else if is_static_token output_token then (h, d, Inr None)
               else
                 let signer_balance = unwrap_or (d_origin_sol_balance d) balance_default;
                     amount = direct_buy_amount (d_wallet_config d) signer_balance input_token
                                origin_swap_amount
                 in (h, d\<lparr>d_copy_type := Some CopyBuy\<rparr>,
                     Inr (Some (exact_in (eh_config h) SOL output_token amount))))"

section \<open>Ping copies\<close>

definition process_ping ::
  "execution_handler \<Rightarrow> copy_details
     \<Rightarrow> execution_handler \<times> copy_details \<times> swap_input option result" where
  "process_ping h d =
     (case eh_ping_tracker h of
        None \<Rightarrow> (h, d, Inl (Error ''Tried to process ping but ping-tracker is not set''))
      | Some tracker \<Rightarrow>
          let swap = d_origin_swap d;
              (tracker, inserted) =
                insert_swap tracker (d_origin_signer d) (d_origin_signature d) swap (eh_price_feed h);
              h = h\<lparr>eh_ping_tracker := Some tracker\<rparr>
          in case inserted of
               Inl e \<Rightarrow> (h, d, Inl e)
             | Inr pinged \<Rightarrow>
                 (case d_origin_input_mint_balance d of
                    None \<Rightarrow> (h, d, Inl (Error ''Got null for origin input balance''))
                  | Some bal \<Rightarrow>
                      (case get_token_input tracker (rs_input_token_mint swap) (d_origin_signer d)
                              (rs_input_amount swap) (bal_post bal) of
                         Inl e \<Rightarrow> (h, d, Inl e)
                       | Inr token_input \<Rightarrow>
                           (case (if pinged \<and> \<not> buys_disabled h (d_origin_signer d)
                                  then get_lamports_input tracker (rs_output_token_mint swap)
                                  else Inr None) of
                              Inl e \<Rightarrow> (h, d, Inl e)
                            | Inr input_amount \<Rightarrow>
                                (case (token_input, input_amount) of
                                   (None, None) \<Rightarrow> (h, d, Inr None)
                                 | _ \<Rightarrow>
                                     let (i, j, copy_type) =
                                           (case (token_input, input_amount) of
                                              (Some _, Some _) \<Rightarrow> (rs_input_token_mint swap,
                                                rs_output_token_mint swap, CopyBoth)
                                            | (Some _, None) \<Rightarrow>
                                                (rs_input_token_mint swap, SOL, CopySell)
                                            | _ \<Rightarrow> (SOL, rs_output_token_mint swap, CopyBuy))
                                     in (h, d\<lparr>d_copy_type := Some copy_type\<rparr>,
                                         Inr (map_option (exact_in (eh_config h) i j)
                                                input_amount)))))))"

section \<open>The input of an execution\<close>

text \<open>\<open>Vec::pop\<close> twice: the last answer is the output mint's, the one before the input mint's.\<close>

definition last_two :: "'a list \<Rightarrow> ('a \<times> 'a) result" where
  "last_two xs =
     (case rev xs of
        [] \<Rightarrow> Inl (Error ''output mint info not fetched'')
      | [_] \<Rightarrow> Inl (Error ''input mint info not fetched'')
      | y # x # _ \<Rightarrow> Inr (x, y))"

definition set_mint_info :: "copy_details \<Rightarrow> mint_info option \<Rightarrow> mint_info option \<Rightarrow> copy_details" where
  "set_mint_info d i j = d\<lparr>d_origin_swap := (d_origin_swap d)\<lparr>
     rs_input_mint_info := i, rs_output_mint_info := j,
     rs_token_decimals := (case (i, j) of
        (Some a, Some b) \<Rightarrow> Some \<lparr>td_input = mi_decimals a, td_output = mi_decimals b\<rparr>
      | _ \<Rightarrow> None)\<rparr>\<rparr>"

definition subscribe_tokens :: "price_feed \<Rightarrow> instant \<Rightarrow> pubkey list \<Rightarrow> price_feed" where
  "subscribe_tokens feed now ts = foldl (\<lambda>f t. fst (subscribe_token f now t (Some PRICE_TTL))) feed ts"

definition get_execution_input ::
  "(pubkey list \<Rightarrow> mint_info option list result) \<Rightarrow> instant \<Rightarrow> execution_handler \<Rightarrow> copy_details
     \<Rightarrow> execution_handler \<times> copy_details \<times> swap_input option result" where
  "get_execution_input get_info_for_mints now h d =
     (let swap = d_origin_swap d in
      case bind_res (get_info_for_mints [rs_input_token_mint swap, rs_output_token_mint swap])
             last_two of
        Inl e \<Rightarrow> (h, d, Inl e)
      | Inr (i, j) \<Rightarrow>
          let d = set_mint_info d i j
          in if rs_input_token_mint swap = rs_output_token_mint swap then (h, d, Inr None)
             else
               let (h, d, r) = (case wc_mode (d_wallet_config d) of
                                  ModeDirect \<Rightarrow> process_direct h d
                                | ModePing \<Rightarrow> process_ping h d)
               in case r of
                    Inl e \<Rightarrow> (h, d, Inl e)
                  | Inr None \<Rightarrow> (h, d, Inr None)
                  | Inr (Some input) \<Rightarrow>
                      let h = h\<lparr>eh_price_feed := subscribe_tokens (eh_price_feed h) now
                                 [si_input_token_mint input, rs_input_token_mint swap,
                                  si_output_token_mint input, rs_output_token_mint swap]\<rparr>
                      in (h, d, Inr (if si_amount input = 0 then None else Some input)))"

section \<open>Fees and transactions\<close>

definition MICRO_LAMPORTS_PER_LAMPORT :: u64 where
  "MICRO_LAMPORTS_PER_LAMPORT = 1000000"

definition calculate_cu_price :: "u64 \<Rightarrow> u32 \<Rightarrow> u64 result" where
  "calculate_cu_price priority_fee compute_units =
     bind_res (expect (checked_mul (ucast priority_fee :: u128) (ucast MICRO_LAMPORTS_PER_LAMPORT))
       ''u128 multiplication shouldn't overflow'') (\<lambda>x.
     bind_res (expect (checked_div (saturating_sub x (ucast MICRO_LAMPORTS_PER_LAMPORT - 1))
                        (ucast compute_units + 1)) ''non-zero compute units'') (\<lambda>cu_price.
     Inr (unwrap_or (try_from cu_price) (- 1))))"

definition p95 :: "f64 \<Rightarrow> u64" where
  "p95 p95_landed = f64_as_u64 (f_mul p95_landed (f64_lit 1000000000))"

definition base_fee :: "copy_config \<Rightarrow> u64 \<Rightarrow> u64" where
  "base_fee cfg tip = min (cfg_max_fee_lamports cfg) (max (cfg_min_fee_lamports cfg) (tip + 1))"

definition execution_fee :: "copy_config \<Rightarrow> u64 \<Rightarrow> u8 \<Rightarrow> u64" where
  "execution_fee cfg tip send_txn_retries =
     base_fee cfg tip + ucast send_txn_retries * cfg_fee_increase_multiplier cfg"

text \<open>The SDK functions that read and write compute budget instructions.\<close>

record compute_budget_sdk =
  cb_is_compute_budget :: "pubkey \<Rightarrow> bool"
  cb_is_set_price :: "u8 list \<Rightarrow> bool"
  cb_encode_set_price :: "u64 \<Rightarrow> u8 list"
  cb_compute_unit_limit :: "versioned_tx \<Rightarrow> u32"
  cb_deserialize :: "u8 list \<Rightarrow> versioned_tx result"

text \<open>\<open>modify_compute_unit_price\<close>: the first instruction that sets the price is rewritten.\<close>

fun modify_price_in ::
  "compute_budget_sdk \<Rightarrow> pubkey list \<Rightarrow> u64 \<Rightarrow> compiled_instruction list
     \<Rightarrow> compiled_instruction list result" where
  "modify_price_in sdk keys cu_price [] = Inr []"
| "modify_price_in sdk keys cu_price (ix # ixs) =
     (if length keys \<le> unat (ci_program_id_index ix) then Inl (Panic ''index out of bounds'')
      else if cb_is_compute_budget sdk (keys ! unat (ci_program_id_index ix))
              \<and> cb_is_set_price sdk (ci_data ix)
      then Inr (ix\<lparr>ci_data := cb_encode_set_price sdk cu_price\<rparr> # ixs)
      else bind_res (modify_price_in sdk keys cu_price ixs) (\<lambda>ixs. Inr (ix # ixs)))"

definition modify_compute_unit_price ::
  "compute_budget_sdk \<Rightarrow> u64 \<Rightarrow> versioned_tx \<Rightarrow> versioned_tx result" where
  "modify_compute_unit_price sdk cu_price tx =
     bind_res (modify_price_in sdk (vt_account_keys tx) cu_price (vt_instructions tx)) (\<lambda>ixs.
       Inr (tx\<lparr>vt_instructions := ixs\<rparr>))"

definition fee_overrides :: "bool \<Rightarrow> u64 \<Rightarrow> swap_config_overrides" where
  "fee_overrides send_to_jito fee = swap_config_overrides_default\<lparr>
     so_priority_fee := Some (if send_to_jito then JitoTip fee else FixedCuPrice 150000)\<rparr>"

definition process_execution_input ::
  "compute_budget_sdk \<Rightarrow> (swap_input \<Rightarrow> swap_quote result)
     \<Rightarrow> (swap_quote \<Rightarrow> swap_config_overrides \<Rightarrow> versioned_tx transaction_variant result)
     \<Rightarrow> execution_handler \<Rightarrow> swap_input \<Rightarrow> copy_details \<Rightarrow> copy_details \<times> versioned_tx result" where
  "process_execution_input sdk quote swap_transaction h input d =
     (case quote input of
        Inl e \<Rightarrow> (d, Inl e)
      | Inr q \<Rightarrow>
          let fee = execution_fee (eh_config h) (p95 (eh_p95_landed h)) (d_send_txn_retries d);
              d = d\<lparr>d_last_fee_lamports := fee\<rparr>
          in case bind_res (swap_transaction q (fee_overrides (d_send_to_jito d) fee)) (\<lambda>variant.
                  bind_res (into_versioned_tx (cb_deserialize sdk) variant) (\<lambda>tx.
                  if d_send_to_jito d then Inr tx
                  else bind_res (calculate_cu_price fee (cb_compute_unit_limit sdk tx)) (\<lambda>cu_price.
                       modify_compute_unit_price sdk cu_price tx))) of
               Inl e \<Rightarrow> (d, Inl e)
             | Inr tx \<Rightarrow> (d\<lparr>d_quote_output := Some (from_quote_response q)\<rparr>, Inr tx))"

section \<open>Retries\<close>

text \<open>\<open>attempt n\<close> is the n-th call of \<open>process_execution_input\<close>. The counter is a \<open>u8\<close> in the
  source; it stops at \<open>max_attempts\<close>, a \<open>u8\<close> too, so that it cannot wrap. A panic ends the task
  without an output.\<close>

function run_attempts ::
  "(nat \<Rightarrow> copy_details \<Rightarrow> copy_details \<times> versioned_tx result) \<Rightarrow> nat \<Rightarrow> nat \<Rightarrow> copy_details
     \<Rightarrow> nat \<times> execution_output option" where
  "run_attempts attempt max_attempts attempts d =
     (let attempts = attempts + 1
      in case attempt attempts d of
           (d, Inr tx) \<Rightarrow> (attempts, Some (ExecSuccess d tx))
         | (d, Inl (Panic _)) \<Rightarrow> (attempts, None)
         | (d, Inl (Error _)) \<Rightarrow>
             if attempts < max_attempts then run_attempts attempt max_attempts attempts d
             else (attempts, Some (ExecFailure d)))"
  by pat_completeness auto

termination
  by (relation "measure (\<lambda>(_, max_attempts, attempts, _). max_attempts - attempts)") auto

declare run_attempts.simps [simp del]

definition handle_command ::
  "(pubkey list \<Rightarrow> mint_info option list result) \<Rightarrow> instant
     \<Rightarrow> (nat \<Rightarrow> execution_handler \<Rightarrow> swap_input \<Rightarrow> copy_details \<Rightarrow> copy_details \<times> versioned_tx result)
     \<Rightarrow> execution_handler \<Rightarrow> copy_details \<Rightarrow> execution_handler \<times> execution_output option" where
  "handle_command get_info_for_mints now attempt h d =
     (case get_execution_input get_info_for_mints now h d of
        (h, d, Inl e) \<Rightarrow> (h, None)
      | (h, d, Inr None) \<Rightarrow>
          (if is_first_execution d
           then h\<lparr>eh_metrics := (eh_metrics h)\<lparr>mt_skipped_copy_txns := mt_skipped_copy_txns (eh_metrics h) + 1\<rparr>\<rparr>
           else h, None)
      | (h, d, Inr (Some input)) \<Rightarrow>
          (h, snd (run_attempts (\<lambda>n. attempt n h input)
                     (unat (cfg_execution_retries (eh_config h))) 0 d)))"

section \<open>Amounts\<close>

lemma conviction_exact:
  fixes a lo hi pre :: u64
  assumes "lo < hi" and "a < pre"
  shows "unwrap_or (try_from ((ucast a * (ucast hi - ucast lo)) div (ucast pre :: u128))) 0
      = (of_nat (unat a * (unat hi - unat lo) div unat pre) :: u64)"
    and "unat a * (unat hi - unat lo) div unat pre \<le> unat hi - unat lo"
proof -
  have pre: "unat a < unat pre" "0 < unat pre" using assms(2) by (simp_all add: word_less_nat_alt)
  show le: "unat a * (unat hi - unat lo) div unat pre \<le> unat hi - unat lo"
  proof -
    have "unat a * (unat hi - unat lo) \<le> unat pre * (unat hi - unat lo)"
      using pre by (intro mult_le_mono1) simp
    then have "unat a * (unat hi - unat lo) div unat pre
        \<le> unat pre * (unat hi - unat lo) div unat pre"
      by (rule div_le_mono)
    then show ?thesis using pre(2) by simp
  qed
  have sub: "unat (ucast hi - ucast lo :: u128) = unat hi - unat lo"
    using assms(1) by (subst unat_minus_no_wrap) (simp_all add: unat_u64_as_u128 word_less_nat_alt)
  have "unat a * (unat hi - unat lo) < 2 ^ 64 * 2 ^ 64"
    using unat_u64_less [of a] unat_u64_less [of hi] by (intro mult_strict_mono') auto
  then have mul: "unat (ucast a * (ucast hi - ucast lo) :: u128) = unat a * (unat hi - unat lo)"
    by (subst unat_times_no_wrap) (simp_all add: sub unat_u64_as_u128)
  let ?c = "(ucast a * (ucast hi - ucast lo)) div (ucast pre :: u128)"
  have c: "unat ?c = unat a * (unat hi - unat lo) div unat pre"
    by (simp only: unat_div mul unat_u64_as_u128)
  then have "unat ?c < 2 ^ 64" using le unat_u64_less [of hi] by linarith
  then have "unwrap_or (try_from ?c) 0 = (ucast ?c :: u64)" by (simp add: try_from_def)
  also have "\<dots> = of_nat (unat ?c)" by (simp only: of_nat_unat)
  finally show "unwrap_or (try_from ?c) 0 = (of_nat (unat a * (unat hi - unat lo) div unat pre) :: u64)"
    by (simp only: c)
qed

text \<open>C4. The input of a copied buy, for a wallet whose minimum is below its maximum. No step
  overflows: for a swap from SOL the amount is exactly the minimum plus the share of the configured
  range that the wallet put in of its balance, cut to the wallet's own amount; it never exceeds the
  wallet's amount nor the configured maximum. For a swap from another token it is the minimum.\<close>

theorem direct_buy_amount_exact:
  assumes "wallet_config_ok wc"
  defines "lo \<equiv> unat (wc_min_input_amount wc)" and "hi \<equiv> unat (wc_max_input_amount wc)"
  shows "unat (direct_buy_amount wc bal tok a) =
      (if tok \<noteq> SOL then lo
       else if unat a < unat (bal_pre bal)
            then min (lo + unat a * (hi - lo) div unat (bal_pre bal)) (unat a)
            else min lo (unat a))
    \<and> unat (direct_buy_amount wc bal tok a) \<le> hi"
proof -
  have lohi: "wc_min_input_amount wc < wc_max_input_amount wc" "lo < hi"
    using assms by (simp_all add: wallet_config_ok_def word_less_nat_alt)
  show ?thesis
  proof (cases "tok = SOL \<and> a < bal_pre bal")
    case True
    let ?c = "unat a * (hi - lo) div unat (bal_pre bal)"
    note c = conviction_exact [OF lohi(1), of a "bal_pre bal"]
    have le: "?c \<le> hi - lo" using c(2) True by (simp add: lo_def hi_def)
    have ne: "bal_pre bal \<noteq> 0" using True by auto
    have "unat (of_nat ?c :: u64) = ?c"
      using le unat_u64_less [of "wc_max_input_amount wc"]
      by (simp add: unsigned_of_nat take_bit_nat_eq_self hi_def)
    then have sum: "unat (wc_min_input_amount wc + of_nat ?c) = lo + ?c"
      using le lohi(2) unat_u64_less [of "wc_max_input_amount wc"]
      by (subst unat_plus_no_wrap) (simp_all add: lo_def hi_def)
    have "direct_buy_amount wc bal tok a
        = min (min (wc_min_input_amount wc + of_nat ?c) a) (wc_max_input_amount wc)"
      using True ne c(1) by (simp add: direct_buy_amount_def Let_def lo_def hi_def)
    then have "unat (direct_buy_amount wc bal tok a) = min (min (lo + ?c) (unat a)) hi"
      by (simp only: unat_min sum) (simp add: hi_def)
    then show ?thesis using True le lohi(2) by (auto simp: word_less_nat_alt)
  next
    case False
    then show ?thesis
      using lohi(2)
      by (auto simp: direct_buy_amount_def Let_def unat_min lo_def hi_def word_less_nat_alt
          word_le_nat_alt min_def)
  qed
qed

definition sample_wallet_config :: wallet_config where
  "sample_wallet_config = \<lparr>wc_display = ''w'', wc_min_input_amount = 100000000,
     wc_max_input_amount = 500000000, wc_mode = ModeDirect\<rparr>"

theorem direct_buy_amount_exact_witness:
  "unat (direct_buy_amount sample_wallet_config \<lparr>bal_pre = 8000000000, bal_post = 0\<rparr> SOL 2000000000)
     = 200000000"
  using direct_buy_amount_exact [of sample_wallet_config "\<lparr>bal_pre = 8000000000, bal_post = 0\<rparr>" SOL 2000000000]
  by (simp add: sample_wallet_config_def wallet_config_ok_def)

lemma direct_sell_total_le:
  "min (saturating_add s a) (b :: u64) \<le> b"
  by simp


definition sample_history :: copy_history where
  "sample_history = copy_history_default\<lparr>
     ch_origin := trade_history_default\<lparr>buy_volume_token := 1000\<rparr>,
     ch_exec := trade_history_default\<lparr>buy_volume_token := 100\<rparr>\<rparr>"


section \<open>What is executed\<close>

text \<open>C15. What a direct copy may do. It never spends anything but SOL or the token that the copied
  wallet sold and the bot tracks for it, with the configured slippage. It never buys a static token;
  where buys are disabled (for all or for this wallet) it only ever sells, for SOL; a buy is made
  only of a token that is not tracked as sold, and the recorded kind of the copy says which of the
  three it is.\<close>

theorem process_direct_executes:
  assumes "process_direct h d = (h', d', Inr (Some i))"
  shows "si_mode i = ExactIn \<and> si_slippage_bps i = cfg_slippage_bps (eh_config h)
    \<and> (case d_copy_type d' of
         Some CopySell \<Rightarrow> si_output_token_mint i = SOL
           \<and> si_input_token_mint i = rs_input_token_mint (d_origin_swap d) \<and> si_amount i \<noteq> 0
           \<and> get_history_for_wallet_and_token (eh_trade_history h) (d_origin_signer d) (si_input_token_mint i) \<noteq> None
       | Some CopyBuy \<Rightarrow> si_input_token_mint i = SOL
           \<and> si_output_token_mint i = rs_output_token_mint (d_origin_swap d)
           \<and> \<not> buys_disabled h (d_origin_signer d) \<and> \<not> is_static_token (si_output_token_mint i)
           \<and> eh_trade_history h' = eh_trade_history h
       | Some CopyBoth \<Rightarrow> si_input_token_mint i = rs_input_token_mint (d_origin_swap d)
           \<and> si_output_token_mint i = rs_output_token_mint (d_origin_swap d) \<and> si_amount i \<noteq> 0
           \<and> \<not> buys_disabled h (d_origin_signer d) \<and> \<not> is_static_token (si_output_token_mint i)
           \<and> get_history_for_wallet_and_token (eh_trade_history h) (d_origin_signer d) (si_input_token_mint i) \<noteq> None
       | None \<Rightarrow> False)"
  using assms
  by (auto simp: process_direct_def exact_in_def Let_def
      split: if_splits option.splits sum.splits)

definition sample_details :: copy_details where
  "sample_details = \<lparr>
     d_origin_signature = 1, d_origin_signer = 10,
     d_origin_swap = (resolved_swap_plain Pump 2000000000 5000 SOL 77)\<lparr>
       rs_token_decimals := Some \<lparr>td_input = 9, td_output = 6\<rparr>\<rparr>,
     d_origin_sol_balance = Some \<lparr>bal_pre = 8000000000, bal_post = 6000000000\<rparr>,
     d_origin_input_mint_balance = None, d_origin_output_mint_balance = None,
     d_send_txn_retries = 0, d_confirmed_error_retries = 0, d_retry_strategy = BuildTransaction,
     d_wallet_config = sample_wallet_config, d_next_priority_level = PHigh,
     d_last_fee_lamports = 0, d_send_to_jito = False, d_quote_output = None, d_copy_type = None\<rparr>"

definition sample_handler :: execution_handler where
  "sample_handler = \<lparr>
     eh_config = copy_config_default, eh_trade_history = [], eh_ping_tracker = None,
     eh_price_feed = [], eh_buy_disabled = False, eh_buy_disabled_wallets = {},
     eh_p95_landed = f64_zero, eh_metrics = copy_metrics_default\<rparr>"

lemma process_direct_sample:
  "process_direct sample_handler sample_details = (sample_handler,
     sample_details\<lparr>d_copy_type := Some CopyBuy\<rparr>,
     Inr (Some (exact_in copy_config_default SOL 77
       (direct_buy_amount sample_wallet_config \<lparr>bal_pre = 8000000000, bal_post = 6000000000\<rparr> SOL 2000000000))))"
  by (simp add: process_direct_def sample_handler_def sample_details_def resolved_swap_plain_def
      get_history_for_wallet_and_token_def buys_disabled_def is_static_token_def mint_defs Let_def)

theorem process_direct_executes_witness:
  "\<exists>h' d' i. process_direct sample_handler sample_details = (h', d', Inr (Some i))
     \<and> si_mode i = ExactIn \<and> d_copy_type d' = Some CopyBuy \<and> \<not> is_static_token (si_output_token_mint i)"
proof -
  have "d_copy_type (sample_details\<lparr>d_copy_type := Some CopyBuy\<rparr>) = Some CopyBuy" by simp
  then show ?thesis
    using process_direct_executes [OF process_direct_sample] process_direct_sample by auto
qed

text \<open>In ping mode a pure sell is recognised, its kind is recorded, but no swap is ever
  produced for it: whenever a ping copy is marked as a sell, nothing is executed.\<close>

theorem process_ping_drops_sells:
  assumes "process_ping h d = (h', d', Inr r)" and "d_copy_type d = None"
    and "d_copy_type d' = Some CopySell"
  shows "r = None"
  using assms
  by (auto simp: process_ping_def Let_def split: option.splits sum.splits prod.splits if_splits)

definition sample_ping_handler :: execution_handler where
  "sample_ping_handler = sample_handler\<lparr>eh_ping_tracker := Some sample_tracker\<rparr>"

definition sample_ping_sell :: copy_details where
  "sample_ping_sell = sample_details\<lparr>d_origin_signer := 2,
     d_origin_swap := resolved_swap_plain Pump 100 7 5 SOL,
     d_origin_input_mint_balance := Some \<lparr>bal_pre = 100, bal_post = 0\<rparr>\<rparr>"

theorem process_ping_drops_sells_witness:
  "\<exists>h' d'. process_ping sample_ping_handler sample_ping_sell = (h', d', Inr None)
     \<and> d_copy_type d' = Some CopySell"
proof -
  have ins: "insert_swap sample_tracker 2 1 (resolved_swap_plain Pump 100 7 5 SOL) []
      = (sample_tracker, Inr False)"
    by (simp add: insert_swap_def resolved_swap_plain_def sample_tracker_def)
  obtain sell where "get_token_input sample_tracker 5 2 100 0 = Inr (Some sell)"
    by (simp add: get_token_input_def sample_tracker_def store_get_def Let_def)
  then have *: "process_ping sample_ping_handler sample_ping_sell
      = (sample_ping_handler, sample_ping_sell\<lparr>d_copy_type := Some CopySell\<rparr>, Inr None)"
    using ins
    by (simp add: process_ping_def sample_ping_handler_def sample_ping_sell_def sample_details_def
        sample_handler_def resolved_swap_plain_def Let_def)
  then show ?thesis
    using process_ping_drops_sells [OF *] by (auto simp: sample_ping_sell_def sample_details_def)
qed

section \<open>Fees\<close>

lemma cu_price_nat:
  "calculate_cu_price fee cu = Inr (if (unat fee * 1000000 - 999999) div (unat cu + 1) < 2 ^ 64
     then of_nat ((unat fee * 1000000 - 999999) div (unat cu + 1)) else - 1)"
proof -
  let ?m = "ucast MICRO_LAMPORTS_PER_LAMPORT :: u128"
  have m: "unat ?m = 1000000" "unat (?m - 1) = 999999"
    by (simp_all add: MICRO_LAMPORTS_PER_LAMPORT_def)
  have f: "unat fee * 1000000 < 2 ^ 128" using unat_u64_less [of fee] by simp
  then have fm: "unat (ucast fee :: u128) * unat ?m < 2 ^ LENGTH(128)"
    unfolding unat_u64_as_u128 [of fee] m by simp
  then have mul: "checked_mul (ucast fee) ?m = Some (ucast fee * ?m)"
    by (simp only: checked_mul_def if_True)
  have prod: "unat (ucast fee * ?m) = unat fee * 1000000"
    by (simp only: unat_times_no_wrap [OF fm] unat_u64_as_u128 [of fee] m)
  have d: "unat (ucast cu + 1 :: u128) = unat cu + 1"
    using unat_u32_less [of cu] by (subst unat_plus_no_wrap) (simp_all add: unat_u32_as_u128)
  then have d0: "(ucast cu + 1 :: u128) \<noteq> 0" by (metis Suc_eq_plus1 nat.distinct(1) unat_eq_zero)
  let ?q = "saturating_sub (ucast fee * ?m) (?m - 1) div (ucast cu + 1)"
  have q: "unat ?q = (unat fee * 1000000 - 999999) div (unat cu + 1)"
    by (simp only: unat_div unat_saturating_sub prod m d)
  have "unwrap_or (try_from ?q) (- 1 :: u64)
      = (if unat ?q < 2 ^ 64 then of_nat (unat ?q) else - 1)"
    by (simp add: try_from_def)
  then show ?thesis
    using d0 by (simp only: calculate_cu_price_def mul expect_simps bind_res_simps checked_div_def
        if_False q)
qed

lemma cu_price_charges:
  "\<exists>p. calculate_cu_price fee cu = Inr p
     \<and> (unat p * unat cu + 999999) div 1000000 \<le> unat fee"
proof -
  let ?n = "(unat fee * 1000000 - 999999) div (unat cu + 1)"
  let ?p = "if ?n < 2 ^ 64 then of_nat ?n else - 1 :: u64"
  have "unat (of_nat ?n :: u64) = ?n" if "?n < 2 ^ 64"
    using that by (simp add: unsigned_of_nat take_bit_nat_eq_self)
  moreover have "unat (- 1 :: u64) \<le> ?n" if "\<not> ?n < 2 ^ 64"
    using that unat_u64_less [of "- 1"] by linarith
  ultimately have p: "unat ?p \<le> ?n" by simp
  have "?n * unat cu \<le> ?n * (unat cu + 1)" by simp
  also have "\<dots> \<le> unat fee * 1000000 - 999999" by (rule div_times_less_eq_dividend)
  finally have "unat ?p * unat cu \<le> unat fee * 1000000 - 999999"
    using p by (meson mult_le_mono1 order_trans)
  then have "unat ?p * unat cu + 999999 < (unat fee + 1) * 1000000"
    by simp
  then have "(unat ?p * unat cu + 999999) div 1000000 < unat fee + 1"
    by (rule less_mult_imp_div_less)
  then show ?thesis unfolding cu_price_nat by auto
qed

text \<open>The compute unit price is always defined (no panic) and buys no more than the fee: the
  priority fee that the network charges for it, the price times the compute units rounded up from
  micro-lamports to lamports, is at most the fee that was asked for.\<close>

theorem cu_price_within_fee:
  "\<exists>p. calculate_cu_price fee cu = Inr p
     \<and> (unat p * unat cu + 999999) div 1000000 \<le> unat fee"
  by (rule cu_price_charges)

text \<open>The fee of an attempt: the base fee lies between the configured minimum and maximum, every
  resend of a transaction adds the configured increment, and with a maximum and an increment that
  leave room for 255 resends nothing wraps, so that the fee grows with every resend.\<close>

theorem execution_fee_grows:
  assumes "cfg_min_fee_lamports cfg \<le> cfg_max_fee_lamports cfg"
    and "unat (cfg_max_fee_lamports cfg) + 255 * unat (cfg_fee_increase_multiplier cfg) < 2 ^ 64"
  shows "cfg_min_fee_lamports cfg \<le> base_fee cfg tip \<and> base_fee cfg tip \<le> cfg_max_fee_lamports cfg
    \<and> unat (execution_fee cfg tip n)
        = unat (base_fee cfg tip) + unat n * unat (cfg_fee_increase_multiplier cfg)"
proof -
  let ?m = "cfg_fee_increase_multiplier cfg"
  have base: "cfg_min_fee_lamports cfg \<le> base_fee cfg tip" "base_fee cfg tip \<le> cfg_max_fee_lamports cfg"
    using assms(1) by (auto simp: base_fee_def)
  have "unat n < 256" using unat_less_power [of n] by simp
  then have "unat n * unat ?m \<le> 255 * unat ?m" by (intro mult_le_mono1) simp
  moreover have "unat (base_fee cfg tip) \<le> unat (cfg_max_fee_lamports cfg)"
    using base(2) by (simp only: word_le_nat_alt)
  ultimately have small: "unat (base_fee cfg tip) + unat n * unat ?m < 2 ^ 64"
    using assms(2) by linarith
  then have "unat (ucast n * ?m :: u64) = unat n * unat ?m"
    by (subst unat_times_no_wrap) (simp_all add: unat_u8_as_u64)
  then show ?thesis
    using small base by (simp add: execution_fee_def unat_plus_no_wrap)
qed

theorem execution_fee_grows_witness:
  "unat (execution_fee copy_config_default 70000 2)
     = unat (base_fee copy_config_default 70000) + 2 * 15000"
  using execution_fee_grows [of copy_config_default 70000 2] by (simp add: copy_config_default_def)

section \<open>Retries\<close>

text \<open>The details after \<open>n\<close> attempts, when the earlier ones failed.\<close>

fun details_after ::
  "(nat \<Rightarrow> copy_details \<Rightarrow> copy_details \<times> versioned_tx result) \<Rightarrow> nat \<Rightarrow> nat \<Rightarrow> copy_details
     \<Rightarrow> copy_details" where
  "details_after attempt k 0 d = d"
| "details_after attempt k (Suc n) d =
     details_after attempt (Suc k) n (fst (attempt (Suc k) d))"

lemma run_attempts_spec:
  "case run_attempts attempt m k d of (n, out) \<Rightarrow>
     k < n \<and> n \<le> max m (Suc k)
   \<and> (\<forall>i. k < i \<and> i < n \<longrightarrow>
        (\<exists>e. snd (attempt i (details_after attempt k (i - Suc k) d)) = Inl (Error e)))
   \<and> (let (d', r) = attempt n (details_after attempt k (n - Suc k) d)
      in case r of
           Inr tx \<Rightarrow> out = Some (ExecSuccess d' tx)
         | Inl (Panic _) \<Rightarrow> out = None
         | Inl (Error _) \<Rightarrow> out = Some (ExecFailure d') \<and> m \<le> n)"
proof (induction "m - k" arbitrary: k d)
  case 0
  then show ?case
    by (subst run_attempts.simps)
      (auto simp: Let_def split: prod.splits sum.splits failure.splits)
next
  case (Suc j)
  obtain d1 r where a: "attempt (Suc k) d = (d1, r)" by (cases "attempt (Suc k) d")
  show ?case
  proof (cases "(\<exists>e. r = Inl (Error e)) \<and> Suc k < m")
    case False
    then show ?thesis
      using a by (subst run_attempts.simps) (auto simp: Let_def split: sum.splits failure.splits)
  next
    case True
    then have step: "run_attempts attempt m k d = run_attempts attempt m (Suc k) d1"
      using a by (subst run_attempts.simps) (auto simp: Let_def)
    obtain n out where no: "run_attempts attempt m (Suc k) d1 = (n, out)" by force
    have shift: "details_after attempt k (i - Suc k) d = details_after attempt (Suc k) (i - Suc (Suc k)) d1"
      if "Suc k < i" for i
    proof -
      have "i - Suc k = Suc (i - Suc (Suc k))" using that by simp
      then show ?thesis using a by simp
    qed
    have IH: "case (n, out) of (n, out) \<Rightarrow>
       Suc k < n \<and> n \<le> max m (Suc (Suc k))
     \<and> (\<forall>i. Suc k < i \<and> i < n \<longrightarrow>
          (\<exists>e. snd (attempt i (details_after attempt (Suc k) (i - Suc (Suc k)) d1)) = Inl (Error e)))
     \<and> (let (d', r) = attempt n (details_after attempt (Suc k) (n - Suc (Suc k)) d1)
        in case r of
             Inr tx \<Rightarrow> out = Some (ExecSuccess d' tx)
           | Inl (Panic _) \<Rightarrow> out = None
           | Inl (Error _) \<Rightarrow> out = Some (ExecFailure d') \<and> m \<le> n)"
      using Suc.hyps(1) [of "Suc k" d1] Suc.hyps(2) no by simp
    have first: "\<exists>e. snd (attempt i (details_after attempt k (i - Suc k) d)) = Inl (Error e)"
      if "k < i" "i < n" for i
    proof (cases "i = Suc k")
      case True
      then show ?thesis using \<open>(\<exists>e. r = Inl (Error e)) \<and> Suc k < m\<close> a by simp
    next
      case False
      then have "Suc k < i" using that by simp
      then show ?thesis using IH that shift by simp
    qed
    have "Suc k < n" using IH by simp
    then show ?thesis using IH first shift [of n] True by (auto simp: step no max_def split: if_splits)
  qed
qed

text \<open>C39. The retry loop around an execution ends: it makes at least one and at most
  \<open>max 1 execution_retries\<close> attempts, every attempt but the last failed, and unless an attempt panics
  exactly one output is sent: the transaction of the last attempt if it succeeded, otherwise the
  failure, and a failure only after all the configured attempts.\<close>

theorem run_attempts_bounded:
  assumes "run_attempts attempt m 0 d = (n, out)"
  shows "1 \<le> n \<and> n \<le> max m 1
    \<and> (\<forall>i. 0 < i \<and> i < n \<longrightarrow>
         (\<exists>e. snd (attempt i (details_after attempt 0 (i - 1) d)) = Inl (Error e)))
    \<and> (let (d', r) = attempt n (details_after attempt 0 (n - 1) d)
       in case r of
            Inr tx \<Rightarrow> out = Some (ExecSuccess d' tx)
          | Inl (Panic _) \<Rightarrow> out = None
          | Inl (Error _) \<Rightarrow> out = Some (ExecFailure d') \<and> m \<le> n)"
  using run_attempts_spec [where attempt = attempt and m = m and k = 0 and d = d] assms by (simp add: Suc_le_eq)

theorem run_attempts_bounded_witness:
  "\<exists>out. run_attempts (\<lambda>n d. (d, Inl (Error ''no quote''))) 3 0 sample_details = (3, out)
     \<and> out = Some (ExecFailure (details_after (\<lambda>n d. (d, Inl (Error ''no quote''))) 0 2 sample_details))"
proof -
  obtain n out where *: "run_attempts (\<lambda>n d. (d, Inl (Error ''no quote''))) 3 0 sample_details = (n, out)"
    by force
  from run_attempts_bounded [OF *] have "n = 3" by auto
  then show ?thesis using run_attempts_bounded [OF *] * by simp
qed

section \<open>Rewriting the compute unit price\<close>

lemma modify_price_in_shape:
  "modify_price_in sdk keys p ixs = Inr ixs' \<Longrightarrow>
     map ci_program_id_index ixs' = map ci_program_id_index ixs
   \<and> map ci_accounts ixs' = map ci_accounts ixs
   \<and> (ixs' = ixs \<or> (\<exists>i < length ixs.
        cb_is_compute_budget sdk (keys ! unat (ci_program_id_index (ixs ! i)))
      \<and> cb_is_set_price sdk (ci_data (ixs ! i))
      \<and> ixs' = ixs[i := (ixs ! i)\<lparr>ci_data := cb_encode_set_price sdk p\<rparr>]))"
proof (induction ixs arbitrary: ixs')
  case (Cons ix ixs)
  show ?case
  proof (cases "cb_is_compute_budget sdk (keys ! unat (ci_program_id_index ix))
      \<and> cb_is_set_price sdk (ci_data ix)")
    case True
    then show ?thesis using Cons.prems by (auto split: if_splits)
  next
    case False
    then obtain ys where ys: "modify_price_in sdk keys p ixs = Inr ys" "ixs' = ix # ys"
      using Cons.prems by (auto split: if_splits)
    from Cons.IH [OF ys(1)] show ?thesis unfolding ys(2) by (auto intro: exI [of _ "Suc i" for i])
  qed
qed simp

text \<open>Setting the compute unit price changes the data of at most one instruction of the
  transaction, a compute budget instruction that sets the price, and leaves the keys, the programs
  and the accounts of all instructions as they were.\<close>

theorem modify_compute_unit_price_frame:
  assumes "modify_compute_unit_price sdk p tx = Inr tx'"
  shows "vt_account_keys tx' = vt_account_keys tx
    \<and> map ci_program_id_index (vt_instructions tx') = map ci_program_id_index (vt_instructions tx)
    \<and> map ci_accounts (vt_instructions tx') = map ci_accounts (vt_instructions tx)
    \<and> (tx' = tx \<or> (\<exists>i < length (vt_instructions tx).
         cb_is_compute_budget sdk
           (vt_account_keys tx ! unat (ci_program_id_index (vt_instructions tx ! i)))
       \<and> vt_instructions tx' = (vt_instructions tx)[i :=
           (vt_instructions tx ! i)\<lparr>ci_data := cb_encode_set_price sdk p\<rparr>]))"
proof -
  obtain ixs where ixs: "modify_price_in sdk (vt_account_keys tx) p (vt_instructions tx) = Inr ixs"
    "tx' = tx\<lparr>vt_instructions := ixs\<rparr>"
    using assms by (auto simp: modify_compute_unit_price_def)
  show ?thesis using modify_price_in_shape [OF ixs(1)] by (auto simp: ixs(2))
qed

definition sample_sdk :: compute_budget_sdk where
  "sample_sdk = \<lparr>cb_is_compute_budget = (\<lambda>k. k = 3), cb_is_set_price = (\<lambda>x. x \<noteq> [] \<and> hd x = 3),
     cb_encode_set_price = (\<lambda>p. [3, ucast p]), cb_compute_unit_limit = (\<lambda>_. 200000),
     cb_deserialize = (\<lambda>_. Inl (Error ''bincode''))\<rparr>"

theorem modify_compute_unit_price_frame_witness:
  "\<exists>tx'. modify_compute_unit_price sample_sdk 9
     \<lparr>vt_account_keys = [1, 3], vt_instructions =
        [\<lparr>ci_program_id_index = 0, ci_accounts = [1], ci_data = [3]\<rparr>,
         \<lparr>ci_program_id_index = 1, ci_accounts = [], ci_data = [3, 0]\<rparr>]\<rparr> = Inr tx'
   \<and> vt_account_keys tx' = [1, 3] \<and> map ci_accounts (vt_instructions tx') = [[1], []]"
proof -
  let ?tx = "\<lparr>vt_account_keys = [1, 3], vt_instructions =
        [\<lparr>ci_program_id_index = 0, ci_accounts = [1], ci_data = [3]\<rparr>,
         \<lparr>ci_program_id_index = 1, ci_accounts = [], ci_data = [3, 0]\<rparr>]\<rparr>"
  obtain tx' where tx': "modify_compute_unit_price sample_sdk 9 ?tx = Inr tx'"
    by (simp add: modify_compute_unit_price_def sample_sdk_def)
  show ?thesis using modify_compute_unit_price_frame [OF tx'] tx' by simp
qed

section \<open>What an execution keeps of the details\<close>

definition same_copy :: "copy_details \<Rightarrow> copy_details \<Rightarrow> bool" where
  "same_copy d d' \<longleftrightarrow>
     d_origin_signature d' = d_origin_signature d \<and> d_origin_signer d' = d_origin_signer d \<and>
     d_send_txn_retries d' = d_send_txn_retries d \<and>
     d_confirmed_error_retries d' = d_confirmed_error_retries d \<and>
     d_retry_strategy d' = d_retry_strategy d"

text \<open>The details of a transaction that was sent have everything that its confirmation needs.\<close>

definition swap_ready :: "copy_details \<Rightarrow> swap_input \<Rightarrow> bool" where
  "swap_ready d i \<longleftrightarrow>
     d_copy_type d \<noteq> None \<and> rs_token_decimals (d_origin_swap d) \<noteq> None \<and>
     (si_input_token_mint i = SOL \<or> si_input_token_mint i = rs_input_token_mint (d_origin_swap d)) \<and>
     (si_output_token_mint i = SOL \<or> si_output_token_mint i = rs_output_token_mint (d_origin_swap d))"

definition quote_ready :: "copy_details \<Rightarrow> bool" where
  "quote_ready d \<longleftrightarrow>
     d_copy_type d \<noteq> None \<and> rs_token_decimals (d_origin_swap d) \<noteq> None \<and>
     (\<exists>q. d_quote_output d = Some q \<and>
       (qd_input_mint q = SOL \<or> qd_input_mint q = rs_input_token_mint (d_origin_swap d)) \<and>
       (qd_output_mint q = SOL \<or> qd_output_mint q = rs_output_token_mint (d_origin_swap d)))"

lemma same_copy_refl [simp]: "same_copy d d"
  by (simp add: same_copy_def)

lemma same_copy_trans: "same_copy a b \<Longrightarrow> same_copy b c \<Longrightarrow> same_copy a c"
  by (simp add: same_copy_def)

lemma process_direct_keeps:
  assumes "process_direct h d = (h', d', r)"
  shows "same_copy d d'" and "r = Inr (Some i) \<Longrightarrow> swap_ready d' i"
    and "eh_config h' = eh_config h" and "eh_buy_disabled h' = eh_buy_disabled h"
  using assms
  by (auto simp: process_direct_def same_copy_def swap_ready_def exact_in_def Let_def
      split: if_splits option.splits sum.splits)

lemma insert_swap_pinged:
  "insert_swap t w s swap feed = (t', Inr True) \<Longrightarrow> rs_token_decimals swap \<noteq> None"
  by (auto simp: insert_swap_def Let_def split: if_splits option.splits)

lemma process_ping_keeps:
  assumes "process_ping h d = (h', d', r)"
  shows "same_copy d d'" and "r = Inr (Some i) \<Longrightarrow> swap_ready d' i"
    and "eh_config h' = eh_config h" and "eh_buy_disabled h' = eh_buy_disabled h"
  using assms
  by (auto simp: process_ping_def same_copy_def swap_ready_def exact_in_def Let_def
      split: if_splits option.splits sum.splits prod.splits dest!: insert_swap_pinged)

lemma set_mint_info_keeps: "same_copy d (set_mint_info d i j)"
  by (simp add: set_mint_info_def same_copy_def)

lemma get_execution_input_keeps:
  assumes "get_execution_input infos now h d = (h', d', r)"
  shows "same_copy d d'" and "r = Inr (Some i) \<Longrightarrow> swap_ready d' i"
    and "eh_config h' = eh_config h" and "eh_buy_disabled h' = eh_buy_disabled h"
proof -
  have keeps: "same_copy d d2 \<and> (q = Inr (Some i) \<longrightarrow> swap_ready d2 i)
      \<and> eh_config h2 = eh_config h \<and> eh_buy_disabled h2 = eh_buy_disabled h"
    if "(case wc_mode m of ModeDirect \<Rightarrow> process_direct h (set_mint_info d a b)
         | ModePing \<Rightarrow> process_ping h (set_mint_info d a b)) = (h2, d2, q)" for m a b h2 d2 q i
    using that process_direct_keeps [of h "set_mint_info d a b" h2 d2 q]
      process_ping_keeps [of h "set_mint_info d a b" h2 d2 q]
      same_copy_trans [OF set_mint_info_keeps [of d a b]]
    by (auto split: copy_mode.splits)
  show "same_copy d d'" and "r = Inr (Some i) \<Longrightarrow> swap_ready d' i"
    and "eh_config h' = eh_config h" and "eh_buy_disabled h' = eh_buy_disabled h"
    using assms unfolding get_execution_input_def Let_def
    by (auto split: sum.splits if_splits prod.splits option.splits dest!: keeps simp: set_mint_info_keeps)
qed

lemma process_execution_input_keeps:
  assumes "process_execution_input sdk quote swap h i d = (d', r)"
  shows "same_copy d d'" and "swap_ready d i \<Longrightarrow> swap_ready d' i"
    and "r = Inr tx \<Longrightarrow> swap_ready d i \<Longrightarrow> quote_provider quote \<Longrightarrow> quote_ready d'"
  using assms
  by (auto simp: process_execution_input_def same_copy_def swap_ready_def quote_ready_def
      from_quote_response_def Let_def dest: quote_provider.quote_tokens split: sum.splits)

lemma details_after_inv:
  assumes "\<And>n d d' r. P d \<Longrightarrow> attempt n d = (d', r) \<Longrightarrow> P d'" and "P d"
  shows "P (details_after attempt k n d)"
  using assms(2)
proof (induction n arbitrary: k d)
  case (Suc n)
  then show ?case using assms(1) [of d "Suc k"] by (metis details_after.simps(2) prod.collapse)
qed simp

lemma run_attempts_inv:
  assumes "\<And>n d d' r. P d \<Longrightarrow> attempt n d = (d', r) \<Longrightarrow> P d'" and "P d"
    and "snd (run_attempts attempt m k d) = Some out"
  shows "case out of
      ExecFailure d' \<Rightarrow> P d'
    | ExecSuccess d' tx \<Rightarrow> P d' \<and> (\<exists>n d0. P d0 \<and> attempt n d0 = (d', Inr tx))"
proof -
  obtain n where run: "run_attempts attempt m k d = (n, Some out)"
    using assms(3) by (cases "run_attempts attempt m k d") simp
  let ?d = "details_after attempt k (n - Suc k) d"
  have P: "P ?d" by (rule details_after_inv [of P attempt, OF assms(1,2)])
  obtain d' r where a: "attempt n ?d = (d', r)" by force
  have "P d'" by (rule assms(1) [OF P a])
  moreover have "case r of Inr tx \<Rightarrow> out = ExecSuccess d' tx
      | Inl (Panic _) \<Rightarrow> False | Inl (Error _) \<Rightarrow> out = ExecFailure d'"
    using run_attempts_spec [where attempt = attempt and m = m and k = k and d = d] run a
    by (auto split: sum.splits failure.splits)
  ultimately show ?thesis using P a by (fastforce split: sum.splits failure.splits)
qed

lemma handle_command_keeps:
  assumes "handle_command infos now (\<lambda>n. process_execution_input sdk (quote n) (swap n)) h d = (h', out)"
    and "\<And>n. quote_provider (quote n)"
  shows "eh_config h' = eh_config h" and "eh_buy_disabled h' = eh_buy_disabled h"
    and "out = Some (ExecFailure d') \<Longrightarrow> same_copy d d'"
    and "out = Some (ExecSuccess d' tx) \<Longrightarrow> same_copy d d' \<and> quote_ready d'"
proof -
  obtain h1 d1 r where g: "get_execution_input infos now h d = (h1, d1, r)"
    by (metis prod_cases3)
  note keep = get_execution_input_keeps [OF g]
  show "eh_config h' = eh_config h" and "eh_buy_disabled h' = eh_buy_disabled h"
    using assms(1) g keep(3,4) by (auto simp: handle_command_def split: sum.splits option.splits if_splits)
  have out: "case o' of ExecFailure d' \<Rightarrow> same_copy d d'
      | ExecSuccess d' tx \<Rightarrow> same_copy d d' \<and> quote_ready d'" if o': "out = Some o'" for o'
  proof -
    obtain i where i: "r = Inr (Some i)" and snd_run: "snd (run_attempts
        (\<lambda>n. process_execution_input sdk (quote n) (swap n) h1 i) (unat (cfg_execution_retries (eh_config h1))) 0 d1)
        = Some o'"
      using assms(1) g o' by (auto simp: handle_command_def split: sum.splits option.splits)
    let ?P = "\<lambda>x. same_copy d1 x \<and> swap_ready x i"
    have inv: "?P d'" if "?P x" "process_execution_input sdk (quote n) (swap n) h1 i x = (d', r)" for n x d' r
      using process_execution_input_keeps(1,2) [OF that(2)] that(1) same_copy_trans by blast
    have P1: "?P d1" using keep(2) i by simp
    have tr: "same_copy d x" if "same_copy d1 x" for x by (rule same_copy_trans [OF keep(1) that])
    have "case o' of ExecFailure d' \<Rightarrow> ?P d'
      | ExecSuccess d' tx \<Rightarrow> ?P d' \<and> (\<exists>n d0. ?P d0 \<and>
          process_execution_input sdk (quote n) (swap n) h1 i d0 = (d', Inr tx))"
      by (rule run_attempts_inv [where P = ?P, OF _ P1 snd_run]) (rule inv)
    then show ?thesis
      using process_execution_input_keeps(3) [OF _ refl _ assms(2)] tr
      by (auto split: execution_output.splits)
  qed
  show "out = Some (ExecFailure d') \<Longrightarrow> same_copy d d'" using out by fastforce
  show "out = Some (ExecSuccess d' tx) \<Longrightarrow> same_copy d d' \<and> quote_ready d'" using out by fastforce
qed

end
