(* ===== verification/Pending.thy ===== *)
theory Pending
  imports Price_Feed "HOL-Library.Multiset"
begin

text \<open>
  The bounded map of transactions that wait for their confirmation (\<open>PendingTransactionsMap\<close> of
  \<^verbatim>\<open>services/copy/v2/service.rs\<close>). The map is generic in the transaction id and in the details it
  keeps; every call reads the clock once. When the map is full, an insertion first sheds the
  entries that have waited longest.
\<close>

datatype behaviour = DropNWhenFull (bh_capacity: usize) (bh_n: usize)

record ('k, 'd) pending_transactions_map =
  pm_m :: "('k, 'd \<times> instant) store"
  pm_b :: behaviour

definition validate :: "behaviour \<Rightarrow> unit result" where
  "validate b = (case b of DropNWhenFull capacity n \<Rightarrow>
     if capacity < n then Inl (Panic ''Invalid `dropNWhenFull` behavour: n > capacity'')
     else Inr ())"

definition pending_new :: "usize \<Rightarrow> usize \<Rightarrow> ('k, 'd) pending_transactions_map result" where
  "pending_new capacity drop_size =
     (let mp = \<lparr>pm_m = [], pm_b = DropNWhenFull capacity drop_size\<rparr>
      in bind_res (validate (pm_b mp)) (\<lambda>_. Inr mp))"

definition elapsed :: "instant \<Rightarrow> instant \<Rightarrow> duration" where
  "elapsed now t = now - t"

text \<open>\<open>transactions.sort_by(elapsed)\<close> is stable; slicing from an index beyond the length panics.\<close>

definition shed :: "usize \<Rightarrow> usize \<Rightarrow> instant \<Rightarrow> ('k, 'd \<times> instant) store
    \<Rightarrow> ('k, 'd \<times> instant) store result" where
  "shed capacity n now m =
     (let transactions = sort_key (\<lambda>(_, t). elapsed now t) (map (\<lambda>(k, _, t). (k, t)) m);
          start = unat (capacity - n)
      in if length transactions < start then Inl (Panic ''range start index out of range'')
         else Inr (foldl (\<lambda>m (id, _). store_remove m id) m (drop start transactions)))"

definition pending_insert ::
  "('k, 'd) pending_transactions_map \<Rightarrow> instant \<Rightarrow> 'k \<Rightarrow> 'd
     \<Rightarrow> (('k, 'd) pending_transactions_map \<times> 'd option) result" where
  "pending_insert p now txn_id details =
     (case pm_b p of DropNWhenFull capacity n \<Rightarrow>
        bind_res
          (if unat capacity \<le> length (pm_m p) then shed capacity n now (pm_m p) else Inr (pm_m p))
          (\<lambda>m. Inr (p\<lparr>pm_m := store_insert m txn_id (details, now)\<rparr>,
                    map_option fst (store_get m txn_id))))"

definition pending_remove ::
  "('k, 'd) pending_transactions_map \<Rightarrow> 'k
     \<Rightarrow> ('k, 'd) pending_transactions_map \<times> ('k \<times> 'd) option" where
  "pending_remove p txn_id =
     (p\<lparr>pm_m := store_remove (pm_m p) txn_id\<rparr>,
      map_option (\<lambda>(v, _). (txn_id, v)) (store_get (pm_m p) txn_id))"

text \<open>The bound that the map keeps: its capacity, or one more where nothing is shed
  (\<open>capacity < 5\<close> makes the service's drop size \<open>capacity / 5\<close> zero).\<close>

definition pending_bound :: "behaviour \<Rightarrow> nat" where
  "pending_bound b = max (unat (bh_capacity b)) (unat (bh_capacity b) - unat (bh_n b) + 1)"

definition pending_ok :: "('k, 'd) pending_transactions_map \<Rightarrow> bool" where
  "pending_ok p \<longleftrightarrow> store_ok (pm_m p) \<and> bh_n (pm_b p) \<le> bh_capacity (pm_b p) \<and>
     length (pm_m p) \<le> pending_bound (pm_b p)"

section \<open>Shedding\<close>

lemma pending_new_cases:
  "pending_new capacity n = (if capacity < n
     then Inl (Panic ''Invalid `dropNWhenFull` behavour: n > capacity'')
     else Inr \<lparr>pm_m = [], pm_b = DropNWhenFull capacity n\<rparr>)"
  by (simp add: pending_new_def validate_def Let_def)

lemma foldl_store_remove_filter:
  "foldl (\<lambda>m (id, _). store_remove m id) m xs = filter (\<lambda>(k, _). k \<notin> fst ` set xs) m"
proof (induction xs arbitrary: m)
  case Nil
  then show ?case by (simp add: filter_True case_prod_beta)
next
  case (Cons x xs)
  have "filter (\<lambda>(k, _). k \<notin> fst ` set xs) (store_remove m (fst x))
      = filter (\<lambda>(k, _). k \<notin> fst ` set (x # xs)) m"
    by (auto simp: store_remove_def AList.delete_eq intro!: filter_cong)
  then show ?case using Cons [of "store_remove m (fst x)"] by (cases x) simp
qed

lemma store_ok_filter: "store_ok m \<Longrightarrow> store_ok (filter P m)"
  by (simp add: store_ok_def distinct_map_filter)

text \<open>The entries that stay are the first \<open>capacity - n\<close> in the order of waiting time.\<close>

lemma shed_keeps:
  assumes "store_ok m" and "shed capacity n now m = Inr m'"
  shows "store_ok m'"
    and "fst ` set m' = fst ` set (take (unat (capacity - n))
           (sort_key (\<lambda>(_, t). elapsed now t) (map (\<lambda>(k, _, t). (k, t)) m)))"
    and "set m' \<subseteq> set m"
    and "length m' = unat (capacity - n)"
proof -
  let ?ts = "sort_key (\<lambda>(_, t). elapsed now t) (map (\<lambda>(k, _, t). (k, t)) m)"
  let ?s = "unat (capacity - n)"
  have len: "?s \<le> length ?ts" and m': "m' = filter (\<lambda>(k, _). k \<notin> fst ` set (drop ?s ?ts)) m"
    using assms(2) by (auto simp: shed_def Let_def foldl_store_remove_filter split: if_splits)
  have ms: "mset (map fst ?ts) = mset (map fst m)"
    by (simp only: mset_map mset_sort) (simp add: multiset.map_comp comp_def case_prod_beta)
  then have dist: "distinct (map fst ?ts)"
    using assms(1) mset_eq_imp_distinct_iff unfolding store_ok_def by blast
  have keys: "fst ` set m = fst ` set ?ts"
    using mset_eq_setD [OF ms] by simp
  have split: "map fst ?ts = map fst (take ?s ?ts) @ map fst (drop ?s ?ts)"
    by (simp only: map_append [symmetric] append_take_drop_id)
  have "distinct (map fst (take ?s ?ts) @ map fst (drop ?s ?ts))"
    using dist split by simp
  then have dj: "fst ` set (take ?s ?ts) \<inter> fst ` set (drop ?s ?ts) = {}"
    and dt: "distinct (map fst (take ?s ?ts))"
    by simp_all
  have un: "fst ` set ?ts = fst ` set (take ?s ?ts) \<union> fst ` set (drop ?s ?ts)"
    by (simp only: image_Un [symmetric] set_append [symmetric] append_take_drop_id)
  show ok: "store_ok m'" by (simp add: m' store_ok_filter assms(1))
  show "set m' \<subseteq> set m" by (auto simp: m')
  show kept: "fst ` set m' = fst ` set (take ?s ?ts)"
  proof -
    have "fst ` set (filter (\<lambda>(k, _). k \<notin> A) m) = fst ` set m - A" for A
      by force
    then have "fst ` set m' = fst ` set m - fst ` set (drop ?s ?ts)"
      unfolding m' .
    then show ?thesis
      by (simp only: keys un Un_Diff Diff_cancel Un_empty_right Diff_triv [OF dj])
  qed
  have "length m' = card (fst ` set m')"
    using ok distinct_card [of "map fst m'"] by (simp add: store_ok_def)
  also have "\<dots> = length (take ?s ?ts)"
    using dt distinct_card [of "map fst (take ?s ?ts)"] by (simp add: kept)
  finally show "length m' = ?s" using len by simp
qed

text \<open>An insertion into a well-formed map never panics.\<close>

lemma pending_insert_total:
  assumes "pending_ok p"
  obtains m where "pending_insert p now k d = Inr (p\<lparr>pm_m := store_insert m k (d, now)\<rparr>, map_option fst (store_get m k))"
    and "store_ok m" and "Suc (length m) \<le> pending_bound (pm_b p)"
    and "set m \<subseteq> set (pm_m p)"
    and "length (pm_m p) < unat (bh_capacity (pm_b p)) \<longrightarrow> m = pm_m p"
    and "unat (bh_capacity (pm_b p)) \<le> length (pm_m p) \<longrightarrow>
      shed (bh_capacity (pm_b p)) (bh_n (pm_b p)) now (pm_m p) = Inr m"
proof (cases "unat (bh_capacity (pm_b p)) \<le> length (pm_m p)")
  case True
  let ?c = "bh_capacity (pm_b p)" and ?n = "bh_n (pm_b p)"
  have sub: "unat (?c - ?n) = unat ?c - unat ?n" and ok: "store_ok (pm_m p)"
    using assms by (simp_all add: pending_ok_def unat_minus_no_wrap word_le_nat_alt)
  then have "\<exists>m. shed ?c ?n now (pm_m p) = Inr m"
    using True by (auto simp: shed_def Let_def)
  then obtain m where m: "shed ?c ?n now (pm_m p) = Inr m" ..
  have "pending_insert p now k d = Inr (p\<lparr>pm_m := store_insert m k (d, now)\<rparr>, map_option fst (store_get m k))"
    using True m by (cases "pm_b p") (simp add: pending_insert_def)
  then show ?thesis
    using that [of m] shed_keeps [OF ok m] sub True m by (auto simp: pending_bound_def)
next
  case False
  have "pending_insert p now k d
      = Inr (p\<lparr>pm_m := store_insert (pm_m p) k (d, now)\<rparr>, map_option fst (store_get (pm_m p) k))"
    using False by (cases "pm_b p") (simp add: pending_insert_def)
  then show ?thesis
    using that [of "pm_m p"] False assms by (auto simp: pending_ok_def pending_bound_def)
qed

lemma pending_insert_okE:
  assumes "pending_ok p"
  obtains m where "pending_insert p now k d
      = Inr (p\<lparr>pm_m := store_insert m k (d, now)\<rparr>, map_option fst (store_get m k))"
    and "pending_ok (p\<lparr>pm_m := store_insert m k (d, now)\<rparr>)"
    and "set m \<subseteq> set (pm_m p)" and "store_ok m"
proof -
  obtain m where m: "pending_insert p now k d
      = Inr (p\<lparr>pm_m := store_insert m k (d, now)\<rparr>, map_option fst (store_get m k))"
    "store_ok m" "Suc (length m) \<le> pending_bound (pm_b p)" "set m \<subseteq> set (pm_m p)"
    by (rule pending_insert_total [OF assms])
  then have "length (store_insert m k (d, now)) \<le> pending_bound (pm_b p)"
    by (simp add: length_store_insert)
  then show ?thesis using that [of m] m assms by (simp add: pending_ok_def)
qed

text \<open>The pending map is bounded and never panics once it was created: every insertion
  succeeds, keeps the keys distinct and the number of entries within the bound, and the inserted
  transaction is in the map afterwards.\<close>

theorem pending_insert_bounded:
  assumes "pending_ok p"
  shows "\<exists>p' old. pending_insert p now k d = Inr (p', old) \<and> pending_ok p'
    \<and> store_get (pm_m p') k = Some (d, now) \<and> pm_b p' = pm_b p"
proof -
  obtain m where m: "pending_insert p now k d
      = Inr (p\<lparr>pm_m := store_insert m k (d, now)\<rparr>, map_option fst (store_get m k))"
    "pending_ok (p\<lparr>pm_m := store_insert m k (d, now)\<rparr>)"
    by (rule pending_insert_okE [OF assms])
  then show ?thesis by simp
qed

definition sample_pending :: "(nat, nat) pending_transactions_map" where
  "sample_pending = \<lparr>pm_m = [(1, 11, 40), (2, 12, 10), (3, 13, 30), (4, 14, 20)],
     pm_b = DropNWhenFull 4 2\<rparr>"

theorem pending_insert_bounded_witness:
  "\<exists>p' old. pending_insert sample_pending 50 9 99 = Inr (p', old) \<and> pending_ok p'
    \<and> store_get (pm_m p') 9 = Some (99, 50) \<and> pm_b p' = pm_b sample_pending"
  by (rule pending_insert_bounded)
    (simp add: pending_ok_def sample_pending_def store_ok_def pending_bound_def)

text \<open>C38. What a full map sheds are the transactions that have waited longest: every entry that an
  insertion drops has waited at least as long as every entry that it keeps.\<close>

theorem pending_insert_sheds_oldest:
  assumes "pending_ok p" and "pending_insert p now k d = Inr (p', old)"
    and "(i, x, t) \<in> set (pm_m p)" and "store_get (pm_m p') i = None"
    and "(j, y, u) \<in> set (pm_m p)" and "j \<noteq> k" and "store_get (pm_m p') j \<noteq> None"
  shows "elapsed now u \<le> elapsed now t"
proof -
  obtain m where ins: "pending_insert p now k d
      = Inr (p\<lparr>pm_m := store_insert m k (d, now)\<rparr>, map_option fst (store_get m k))"
    and m: "length (pm_m p) < unat (bh_capacity (pm_b p)) \<longrightarrow> m = pm_m p"
    "unat (bh_capacity (pm_b p)) \<le> length (pm_m p) \<longrightarrow>
      shed (bh_capacity (pm_b p)) (bh_n (pm_b p)) now (pm_m p) = Inr m"
    by (rule pending_insert_total [OF assms(1), of now k d])
  have p': "p' = p\<lparr>pm_m := store_insert m k (d, now)\<rparr>" using ins assms(2) by simp
  have ok: "store_ok (pm_m p)" using assms(1) by (simp add: pending_ok_def)
  have i: "i \<notin> fst ` set m" and j: "j \<in> fst ` set m"
    using assms(4,6,7) by (simp_all add: p' store_get_None_iff split: if_splits)
  then have "m \<noteq> pm_m p" using assms(3) by force
  then have "shed (bh_capacity (pm_b p)) (bh_n (pm_b p)) now (pm_m p) = Inr m"
    using m by force
  note kept = shed_keeps(2) [OF ok this]
  let ?f = "\<lambda>(_ :: 'a, t). elapsed now t"
  let ?ts = "sort_key ?f (map (\<lambda>(k, _, t). (k, t)) (pm_m p))"
  let ?s = "unat (bh_capacity (pm_b p) - bh_n (pm_b p))"
  have "(i, t) \<in> set ?ts" "(j, u) \<in> set ?ts" using assms(3,5) by force+
  then have "(i, t) \<in> set (take ?s ?ts @ drop ?s ?ts)" by (simp only: append_take_drop_id)
  moreover have "(i, t) \<notin> set (take ?s ?ts)"
    using i unfolding kept by (metis fst_conv imageI)
  ultimately have it: "(i, t) \<in> set (drop ?s ?ts)" unfolding set_append by blast
  obtain u' where u': "(j, u') \<in> set (take ?s ?ts)" using j kept by force
  have "(j, u') \<in> set ?ts" using u' by (rule in_set_takeD)
  then have "u' = u"
    using assms(5) ok by (auto simp: store_get_Some_iff [symmetric])
  moreover have "sorted (map ?f (take ?s ?ts @ drop ?s ?ts))"
    by (simp only: append_take_drop_id sorted_sort_key)
  then have "\<forall>a \<in> set (map ?f (take ?s ?ts)). \<forall>b \<in> set (map ?f (drop ?s ?ts)). a \<le> b"
    unfolding map_append sorted_append by (elim conjE)
  then have "?f (j, u') \<le> ?f (i, t)"
    unfolding set_map using u' it by (metis imageI)
  ultimately show ?thesis by simp
qed

theorem pending_insert_sheds_oldest_witness:
  "elapsed 50 40 \<le> elapsed 50 10 \<and> (\<exists>p' old. pending_insert sample_pending 50 9 99 = Inr (p', old)
     \<and> store_get (pm_m p') 2 = None \<and> store_get (pm_m p') 1 = Some (11, 40))"
proof -
  have ok: "pending_ok sample_pending"
    by (simp add: pending_ok_def sample_pending_def store_ok_def pending_bound_def)
  have ins: "pending_insert sample_pending 50 9 99
      = Inr (sample_pending\<lparr>pm_m := [(1, 11, 40), (3, 13, 30), (9, 99, 50)]\<rparr>, None)"
    by code_simp
  have "elapsed 50 40 \<le> elapsed 50 10"
    by (rule pending_insert_sheds_oldest [OF ok ins, of 2 12 _ 1 11])
      (simp_all add: sample_pending_def store_get_def)
  then show ?thesis using ins by (simp add: store_get_def)
qed

end
