(* ===== verification/Service.thy ===== *)
theory Service
  imports Execution Pending
begin

text \<open>
  The copy service (\<^verbatim>\<open>services/copy/v2/service.rs\<close>): the handlers of its main loop, from the
  detection of a swap of a copied wallet to the confirmation of the bot's own transaction, and the
  loop itself as a step relation. The state holds what the tasks share; the channels are lists:
  \<open>sv_queue\<close> the bounded channel to the execution task, \<open>sv_outputs\<close> the channel back, \<open>sv_trades\<close>
  the trades handed to the storage task. What the network, the RPC client and the parser answer are
  arguments of the handlers.
\<close>

record copy_service =
  sv_config :: copy_config
  sv_pending :: "(transaction_id, copy_details) pending_transactions_map"
  sv_queue :: "copy_details list"
  sv_outputs :: "execution_output list"
  sv_wallet_config :: "(pubkey, wallet_config) store"
  sv_buy_disabled_wallets :: "pubkey set"
  sv_trade_history :: historical_trades
  sv_ping_tracker :: "ping_tracker option"
  sv_price_feed :: price_feed
  sv_trades :: "copy_trade list"
  sv_metrics :: copy_metrics
  sv_buy_disabled :: bool
  sv_wallet :: pubkey

text \<open>\<open>execution_sender.try_send\<close>: a full queue drops the trade, the error is only logged.\<close>

definition try_send :: "copy_service \<Rightarrow> copy_details \<Rightarrow> copy_service" where
  "try_send s d =
     (if length (sv_queue s) < unat (cfg_max_execution_queue_length (sv_config s))
      then s\<lparr>sv_queue := sv_queue s @ [d]\<rparr> else s)"

definition SWAP_PROGRAMS :: "pubkey list" where
  "SWAP_PROGRAMS = [JUPITER_AGGREGATOR_V6_PROGRAM_ID, RAYDIUM_CONCENTRATED_LIQUIDITY_PROGRAM_ID,
     RAYDIUM_LIQUIDITY_POOL_V4_PROGRAM_ID, ORCA_WHIRLPOOLS_PROGRAM_ID, PUMPFUN_PROGRAM_ID]"

section \<open>Commands and detected transactions\<close>

text \<open>The set of wallets with buys disabled that the call returns is not used here.\<close>

definition handle_copy_command ::
  "(pubkey \<Rightarrow> string) \<Rightarrow> (pubkey list \<Rightarrow> u64 option list result) \<Rightarrow> (poll_request list \<Rightarrow> unit result)
     \<Rightarrow> copy_service \<Rightarrow> copy_wallet list \<Rightarrow> copy_service result" where
  "handle_copy_command to_string get_balances watch_accounts s accounts =
     (case add_accounts_to_wallet_config_and_stream to_string get_balances watch_accounts accounts
             (sv_config s) (sv_wallet_config s) of
        (m, Inl (Panic e)) \<Rightarrow> Inl (Panic e)
      | (m, _) \<Rightarrow> Inr (s\<lparr>sv_wallet_config := m\<rparr>))"

definition copy_details_of ::
  "(pubkey \<Rightarrow> string) \<Rightarrow> copy_config \<Rightarrow> itransaction \<Rightarrow> pubkey \<Rightarrow> wallet_config \<Rightarrow> resolved_swap
     \<Rightarrow> copy_details" where
  "copy_details_of to_string cfg tx origin_signer wc swap = \<lparr>
     d_origin_signature = tx_signature tx,
     d_origin_signer = origin_signer,
     d_origin_swap = swap,
     d_origin_sol_balance = create_sol_balance tx 0,
     d_origin_input_mint_balance =
       create_token_balance to_string tx origin_signer (rs_input_token_mint swap),
     d_origin_output_mint_balance =
       create_token_balance to_string tx origin_signer (rs_output_token_mint swap),
     d_send_txn_retries = 0,
     d_confirmed_error_retries = 0,
     d_retry_strategy = BuildTransaction,
     d_wallet_config = wc,
     d_next_priority_level = cfg_priority_level_default cfg,
     d_last_fee_lamports = 0,
     d_send_to_jito = cfg_send_jito_default cfg,
     d_quote_output = None,
     d_copy_type = None\<rparr>"

text \<open>The handler runs in a task of its own: a panic there leaves the service as it is.\<close>

definition handle_wire_txn ::
  "(pubkey \<Rightarrow> string) \<Rightarrow> (itransaction \<Rightarrow> itransaction result)
     \<Rightarrow> (itransaction \<Rightarrow> resolved_swap option result) \<Rightarrow> copy_service \<Rightarrow> itransaction result
     \<Rightarrow> copy_service" where
  "handle_wire_txn to_string load_keys parse_swap_transaction s txn =
     (case bind_res txn load_keys of
        Inl _ \<Rightarrow> s
      | Inr tx \<Rightarrow>
          if tx_err tx \<noteq> None then s
          else
            (case tx_static_account_keys tx of
               [] \<Rightarrow> s
             | origin_signer # _ \<Rightarrow>
                 (case store_get (sv_wallet_config s) origin_signer of
                    None \<Rightarrow> s
                  | Some wc \<Rightarrow>
                      (case parse_swap_transaction tx of
                         Inr (Some swap) \<Rightarrow>
                           try_send
                             (s\<lparr>sv_metrics := (sv_metrics s)\<lparr>
                                  mt_attempted_copy_txns := mt_attempted_copy_txns (sv_metrics s) + 1\<rparr>\<rparr>)
                             (copy_details_of to_string (sv_config s) tx origin_signer wc swap)
                       | _ \<Rightarrow> s))))"

section \<open>Failed executions\<close>

definition handle_failed_execution ::
  "(resolved_swap \<Rightarrow> (u8 \<times> u8) result) \<Rightarrow> (pubkey list \<Rightarrow> pubkey \<Rightarrow> f64 option) \<Rightarrow> copy_service
     \<Rightarrow> copy_details \<Rightarrow> copy_service result" where
  "handle_failed_execution resolve_decimals price_request s d =
     (let swap = d_origin_swap d; key = (d_origin_signer d, rs_input_token_mint swap)
      in case store_get (sv_trade_history s) key of
           None \<Rightarrow> Inr s
         | Some history \<Rightarrow>
             (case resolve_decimals swap of
                Inl (Panic e) \<Rightarrow> Inl (Panic e)
              | Inl (Error _) \<Rightarrow> Inr s
              | Inr (input_decimals, output_decimals) \<Rightarrow>
                  let origin_price = unwrap_or
                        (get_token_prices price_request (sv_price_feed s) (rs_input_token_mint swap)
                           (rs_output_token_mint swap) (rs_input_amount swap) (rs_output_amount swap)
                           input_decimals output_decimals None) price_default;
                      volume_sol = token_value (rs_input_amount swap) (input_price_sol origin_price)
                                     input_decimals;
                      volume_usd = token_value (rs_input_amount swap) (input_price_usd origin_price)
                                     input_decimals
                  in Inr (s\<lparr>sv_trade_history := store_insert (sv_trade_history s) key
                         (history\<lparr>ch_origin := add_sell (ch_origin history) (rs_input_amount swap)
                                                 volume_usd volume_sol\<rparr>)\<rparr>)))"

section \<open>Successful executions\<close>

definition in_decimals :: "quote_details \<Rightarrow> copy_details \<Rightarrow> token_decimals \<Rightarrow> u8 option" where
  "in_decimals q d td =
     (case qd_input_token_decimals q of
        Some x \<Rightarrow> Some x
      | None \<Rightarrow>
          if qd_input_mint q = SOL then Some 9
          else if qd_input_mint q = USDC \<or> qd_input_mint q = USDT then Some 6
          else if qd_input_mint q = rs_input_token_mint (d_origin_swap d) then Some (td_input td)
          else None)"

definition out_decimals :: "quote_details \<Rightarrow> copy_details \<Rightarrow> token_decimals \<Rightarrow> u8 option" where
  "out_decimals q d td =
     (case qd_output_token_decimals q of
        Some x \<Rightarrow> Some x
      | None \<Rightarrow>
          if qd_output_mint q = rs_output_token_mint (d_origin_swap d) then Some (td_output td)
          else if qd_output_mint q = USDC \<or> qd_output_mint q = USDT then Some 6
          else if qd_output_mint q = SOL then Some 9
          else None)"

text \<open>What the bot received, read off its own confirmed transaction, and the SOL it has left. The
  transaction comes from the RPC client, \<open>native_mint\<close> is the SPL library's address.\<close>

definition ui_amount_of ::
  "(pubkey \<Rightarrow> string) \<Rightarrow> pubkey \<Rightarrow> pubkey \<Rightarrow> token_balance list \<Rightarrow> (f64 \<times> u8) option" where
  "ui_amount_of to_string wallet mint bs = find_map (wallet_token_balance to_string wallet mint) bs"

definition get_amount_out ::
  "(pubkey \<Rightarrow> string) \<Rightarrow> pubkey \<Rightarrow> (signature \<Rightarrow> itransaction result)
     \<Rightarrow> (itransaction \<Rightarrow> resolved_swap option result) \<Rightarrow> signature \<Rightarrow> pubkey \<Rightarrow> pubkey \<Rightarrow> u64
     \<Rightarrow> (u64 \<times> u64) result" where
  "get_amount_out to_string native_mint fetch parse_swap_transaction sig wallet output_mint last_fee =
     bind_res (fetch sig) (\<lambda>tx.
     bind_res (ok_or (map_option tm_post_balances (tx_meta_opt tx))
       ''failed to get post-balances from transaction meta'') (\<lambda>post_balances.
     let post_lamports = unwrap_or (nth_opt post_balances 0) 0
     in case parse_swap_transaction tx of
          Inl (Panic e) \<Rightarrow> Inl (Panic e)
        | Inr (Some swap) \<Rightarrow> Inr (rs_output_amount swap, post_lamports)
        | _ \<Rightarrow>
            if output_mint = native_mint then
              let pre_lamports =
                    unwrap_or (nth_opt (unwrap_or (map_option tm_pre_balances (tx_meta_opt tx)) []) 0) 0
              in Inr (saturating_sub post_lamports (saturating_sub pre_lamports last_fee), post_lamports)
            else
              let pre = unwrap_or (Option.bind (tx_meta_opt tx) tm_pre_token_balances) [];
                  post = unwrap_or (Option.bind (tx_meta_opt tx) tm_post_token_balances) [];
                  pre_balance = unwrap_or (map_option fst (ui_amount_of to_string wallet output_mint pre)) f64_zero
              in bind_res (ok_or (ui_amount_of to_string wallet output_mint post)
                   ''Failed to get post balance for mint'') (\<lambda>(post_balance, decimals).
                 if f_le post_balance pre_balance
                 then Inl (Error ''post-balance for output is <= than pre-balance'')
                 else Inr (scale_amount (f_sub post_balance pre_balance) decimals, post_lamports))))"

text \<open>\<open>amount-out must be at least other-amount-threshold\<close>; an error falls back to it.\<close>

definition actual_amount_out :: "quote_details \<Rightarrow> (u64 \<times> u64) result \<Rightarrow> u64 \<times> u64 option" where
  "actual_amount_out q r =
     (case r of
        Inr (amount_out, lamports) \<Rightarrow> (max amount_out (qd_other_amount_threshold q), Some lamports)
      | Inl _ \<Rightarrow> (qd_other_amount_threshold q, None))"

definition update_buy_disabled :: "copy_config \<Rightarrow> u64 option \<Rightarrow> bool \<Rightarrow> bool" where
  "update_buy_disabled cfg lamports_post_balance buy_disabled =
     (case lamports_post_balance of
        None \<Rightarrow> buy_disabled
      | Some post_balance \<Rightarrow>
          if post_balance \<le> cfg_disable_buy_lamports cfg then True
          else if buy_disabled then False else buy_disabled)"

text \<open>One side of a successful copy: a trade in the history and for the storage task, or an
  execution of the ping tracker; \<open>None\<close> is the early return without a tracker.\<close>

definition record_side ::
  "copy_service \<Rightarrow> copy_details \<Rightarrow> signature \<Rightarrow> trade_direction \<Rightarrow> pubkey \<Rightarrow> u8 \<Rightarrow> u64 \<Rightarrow> u64
     \<Rightarrow> f64 \<Rightarrow> f64 \<Rightarrow> f64 \<Rightarrow> f64 \<Rightarrow> copy_service option" where
  "record_side s d sig dir token decimals exec_amount origin_amount exec_usd exec_sol
     origin_usd origin_sol =
     (case wc_mode (d_wallet_config d) of
        ModeDirect \<Rightarrow>
          (case insert_trade (sv_trade_history s) (d_origin_signer d) token decimals exec_amount
                  origin_amount exec_usd exec_sol origin_usd origin_sol dir
                  (Some (cfg_moonbag_bps (sv_config s))) of
             Inl _ \<Rightarrow> Some s
           | Inr (h, volume) \<Rightarrow>
               Some (s\<lparr>sv_trade_history := h,
                       sv_trades := sv_trades s @ [\<lparr>ct_volume = volume, ct_token = token,
                         ct_origin_signature = d_origin_signature d, ct_exec_signature = sig,
                         ct_origin_wallet = d_origin_signer d, ct_exec_wallet = sv_wallet s,
                         ct_direction = dir\<rparr>]\<rparr>))
      | ModePing \<Rightarrow>
          (case sv_ping_tracker s of
             None \<Rightarrow> None
           | Some tracker \<Rightarrow>
               (case insert_execution tracker token decimals exec_amount exec_usd exec_sol dir
                       (Some (cfg_moonbag_bps (sv_config s))) of
                  Inl _ \<Rightarrow> Some s
                | Inr (tracker, _) \<Rightarrow> Some (s\<lparr>sv_ping_tracker := Some tracker\<rparr>))))"

definition record_sell ::
  "copy_service \<Rightarrow> copy_details \<Rightarrow> signature \<Rightarrow> quote_details \<Rightarrow> u8 \<Rightarrow> price_quote \<Rightarrow> price_quote
     \<Rightarrow> copy_service option" where
  "record_sell s d sig q in_dec exec_price origin_price =
     record_side s d sig DirSell (rs_input_token_mint (d_origin_swap d)) in_dec (qd_amount q)
       (rs_input_amount (d_origin_swap d)) (input_price_usd exec_price) (input_price_sol exec_price)
       (input_price_usd origin_price) (input_price_sol origin_price)"

definition record_buy ::
  "copy_service \<Rightarrow> copy_details \<Rightarrow> signature \<Rightarrow> u64 \<Rightarrow> u8 \<Rightarrow> price_quote \<Rightarrow> price_quote
     \<Rightarrow> copy_service option" where
  "record_buy s d sig amount_out out_dec exec_price origin_price =
     record_side s d sig DirBuy (rs_output_token_mint (d_origin_swap d)) out_dec amount_out
       (rs_output_amount (d_origin_swap d)) (output_price_usd exec_price) (output_price_sol exec_price)
       (output_price_usd origin_price) (output_price_sol origin_price)"

definition record_copy ::
  "copy_service \<Rightarrow> copy_details \<Rightarrow> signature \<Rightarrow> quote_details \<Rightarrow> copy_type \<Rightarrow> u64 \<Rightarrow> u8 \<Rightarrow> u8
     \<Rightarrow> price_quote \<Rightarrow> price_quote \<Rightarrow> copy_service" where
  "record_copy s d sig q copy_type amount_out in_dec out_dec exec_price origin_price =
     (case (if copy_type = CopySell \<or> copy_type = CopyBoth
            then record_sell s d sig q in_dec exec_price origin_price else Some s) of
        None \<Rightarrow> s
      | Some s \<Rightarrow>
          (case (if copy_type = CopyBuy \<or> copy_type = CopyBoth
                 then record_buy s d sig amount_out out_dec exec_price origin_price else Some s) of
             None \<Rightarrow> s
           | Some s \<Rightarrow> s))"

definition handle_success_txn ::
  "(pubkey list \<Rightarrow> pubkey \<Rightarrow> f64 option)
     \<Rightarrow> (signature \<Rightarrow> pubkey \<Rightarrow> u64 \<Rightarrow> (u64 \<times> u64) result) \<Rightarrow> copy_service \<Rightarrow> copy_details \<Rightarrow> signature
     \<Rightarrow> copy_service result" where
  "handle_success_txn price_request amount_out s d sig =
     (let s = s\<lparr>sv_metrics := (sv_metrics s)\<lparr>
                  mt_executed_copy_txns := mt_executed_copy_txns (sv_metrics s) + 1\<rparr>\<rparr>;
          swap = d_origin_swap d
      in case rs_token_decimals swap of
           None \<Rightarrow> Inr s
         | Some td \<Rightarrow>
             bind_res (expect (d_quote_output d) ''execution output is not null'') (\<lambda>q.
             let (input_amount, output_amount) =
                   (if qd_amount_specified_is_input q then (qd_amount q, qd_other_amount q)
                    else (qd_other_amount q, qd_amount q))
             in bind_res (expect (in_decimals q d td) ''unwrap on None'') (\<lambda>in_dec.
                bind_res (expect (out_decimals q d td) ''unwrap on None'') (\<lambda>out_dec.
                let exec_price = unwrap_or
                      (get_token_prices price_request (sv_price_feed s) (qd_input_mint q)
                         (qd_output_mint q) input_amount output_amount in_dec out_dec None) price_default;
                    origin_price = unwrap_or
                      (get_token_prices price_request (sv_price_feed s) (rs_input_token_mint swap)
                         (rs_output_token_mint swap) (rs_input_amount swap) (rs_output_amount swap)
                         (td_input td) (td_output td) None) price_default;
                    received = amount_out sig (qd_output_mint q) (d_last_fee_lamports d)
                in case received of
                     Inl (Panic e) \<Rightarrow> Inl (Panic e)
                   | _ \<Rightarrow>
                       let (actual, lamports) = actual_amount_out q received;
                           s = s\<lparr>sv_buy_disabled :=
                                  update_buy_disabled (sv_config s) lamports (sv_buy_disabled s)\<rparr>
                       in bind_res (expect (d_copy_type d) ''Should have been set'') (\<lambda>copy_type.
                          Inr (record_copy s d sig q copy_type actual in_dec out_dec exec_price
                                 origin_price))))))"

section \<open>Outputs and confirmations\<close>

definition handle_execution_output ::
  "(resolved_swap \<Rightarrow> (u8 \<times> u8) result) \<Rightarrow> (pubkey list \<Rightarrow> pubkey \<Rightarrow> f64 option)
     \<Rightarrow> (versioned_tx \<Rightarrow> bool \<Rightarrow> transaction_id result) \<Rightarrow> instant \<Rightarrow> copy_service \<Rightarrow> execution_output
     \<Rightarrow> copy_service result" where
  "handle_execution_output resolve_decimals price_request send_transaction now s out =
     (case out of
        ExecSuccess d tx \<Rightarrow>
          (case send_transaction tx (d_send_to_jito d) of
             Inl _ \<Rightarrow> Inr s
           | Inr txn_id \<Rightarrow>
               let s = s\<lparr>sv_metrics := (sv_metrics s)\<lparr>
                           mt_total_sent_txns := mt_total_sent_txns (sv_metrics s) + 1\<rparr>\<rparr>
               in bind_res (pending_insert (sv_pending s) now txn_id d) (\<lambda>(p, _).
                    Inr (s\<lparr>sv_pending := p\<rparr>)))
      | ExecFailure d \<Rightarrow> handle_failed_execution resolve_decimals price_request s d)"

definition escalate :: "priority_level \<Rightarrow> priority_level" where
  "escalate p = (case p of
     PMedium \<Rightarrow> PHigh | PHigh \<Rightarrow> PVeryHigh | PVeryHigh \<Rightarrow> PVeryHigh | _ \<Rightarrow> PHigh)"

definition next_send_retry :: "copy_config \<Rightarrow> copy_details \<Rightarrow> copy_details" where
  "next_send_retry cfg d =
     (let d = d\<lparr>d_send_txn_retries := d_send_txn_retries d + 1\<rparr>;
          d = (if d_send_txn_retries d = cfg_send_txn_retries cfg
               then d\<lparr>d_send_to_jito := True\<rparr> else d)
      in d\<lparr>d_next_priority_level := escalate (d_next_priority_level d)\<rparr>)"

definition next_error_retry :: "copy_details \<Rightarrow> copy_details" where
  "next_error_retry d =
     d\<lparr>d_send_txn_retries := 0, d_confirmed_error_retries := d_confirmed_error_retries d + 1\<rparr>"

definition handle_unconfirmed ::
  "(resolved_swap \<Rightarrow> (u8 \<times> u8) result) \<Rightarrow> (pubkey list \<Rightarrow> pubkey \<Rightarrow> f64 option)
     \<Rightarrow> (versioned_tx \<Rightarrow> transaction_id \<Rightarrow> bool \<Rightarrow> unit result) \<Rightarrow> instant \<Rightarrow> copy_service
     \<Rightarrow> transaction_id \<Rightarrow> copy_details \<Rightarrow> copy_service result" where
  "handle_unconfirmed resolve_decimals price_request resend_transaction now s txn_id d =
     (if d_send_txn_retries d < cfg_send_txn_retries (sv_config s) then
        let d = next_send_retry (sv_config s) d
        in (case d_retry_strategy d of
              BuildTransaction \<Rightarrow> Inr (try_send s d)
            | SendRaw tx \<Rightarrow>
                (case resend_transaction tx txn_id (d_send_to_jito d) of
                   Inl _ \<Rightarrow> Inr s
                 | Inr _ \<Rightarrow> bind_res (pending_insert (sv_pending s) now txn_id d) (\<lambda>(p, _).
                              Inr (s\<lparr>sv_pending := p\<rparr>))))
      else
        handle_failed_execution resolve_decimals price_request
          (s\<lparr>sv_metrics := (sv_metrics s)\<lparr>
               mt_total_unconfirmed_txns := mt_total_unconfirmed_txns (sv_metrics s) + 1\<rparr>\<rparr>) d)"

definition handle_confirmation ::
  "(resolved_swap \<Rightarrow> (u8 \<times> u8) result) \<Rightarrow> (pubkey list \<Rightarrow> pubkey \<Rightarrow> f64 option)
     \<Rightarrow> (signature \<Rightarrow> pubkey \<Rightarrow> u64 \<Rightarrow> (u64 \<times> u64) result)
     \<Rightarrow> (versioned_tx \<Rightarrow> transaction_id \<Rightarrow> bool \<Rightarrow> unit result) \<Rightarrow> instant \<Rightarrow> copy_service
     \<Rightarrow> confirm_transaction_data \<Rightarrow> copy_service result" where
  "handle_confirmation resolve_decimals price_request amount_out resend_transaction now s item =
     (case pending_remove (sv_pending s) (cd_txn_id item) of
        (p, None) \<Rightarrow> Inr (s\<lparr>sv_pending := p\<rparr>)
      | (p, Some (txn_id, d)) \<Rightarrow>
          let s = s\<lparr>sv_pending := p\<rparr>
          in (case cd_response item of
                TxConfirmed err _ \<Rightarrow>
                  let s = s\<lparr>sv_metrics := (sv_metrics s)\<lparr>
                              mt_total_confirmed_txns := mt_total_confirmed_txns (sv_metrics s) + 1\<rparr>\<rparr>
                  in (case err of
                        Some _ \<Rightarrow>
                          if d_confirmed_error_retries d < cfg_confirmed_error_retries (sv_config s)
                          then Inr (try_send s (next_error_retry d))
                          else handle_failed_execution resolve_decimals price_request s d
                      | None \<Rightarrow> handle_success_txn price_request amount_out s d (cd_signature item))
              | TxUnconfirmed _ \<Rightarrow>
                  handle_unconfirmed resolve_decimals price_request resend_transaction now s txn_id d))"

section \<open>The main loop\<close>

text \<open>The execution task works on the shared state; its handler sees the service's maps.\<close>

definition handler_view :: "copy_service \<Rightarrow> f64 \<Rightarrow> execution_handler" where
  "handler_view s tips = \<lparr>
     eh_config = sv_config s, eh_trade_history = sv_trade_history s,
     eh_ping_tracker = sv_ping_tracker s, eh_price_feed = sv_price_feed s,
     eh_buy_disabled = sv_buy_disabled s, eh_buy_disabled_wallets = sv_buy_disabled_wallets s,
     eh_p95_landed = tips, eh_metrics = sv_metrics s\<rparr>"

definition after_execution ::
  "copy_service \<Rightarrow> execution_handler \<Rightarrow> execution_output option \<Rightarrow> copy_service" where
  "after_execution s h out = s\<lparr>
     sv_trade_history := eh_trade_history h, sv_ping_tracker := eh_ping_tracker h,
     sv_price_feed := eh_price_feed h, sv_metrics := eh_metrics h,
     sv_outputs := sv_outputs s @ (case out of None \<Rightarrow> [] | Some x \<Rightarrow> [x])\<rparr>"

text \<open>One turn of \<open>tokio::select!\<close>, or one command of the execution task, or a tick of the price
  feed. The answers of the outside world are arbitrary, except that a quote is for the tokens asked
  for.\<close>

inductive copy_step :: "copy_service \<Rightarrow> copy_service \<Rightarrow> bool" where
  Command: "handle_copy_command to_string get_balances watch s accounts = Inr s' \<Longrightarrow> copy_step s s'"
| Wire: "copy_step s (handle_wire_txn to_string load_keys parse s txn)"
| Execute: "\<lbrakk>sv_queue s = d # queue; \<And>n. quote_provider (quote n);
     handle_command infos now (\<lambda>n. process_execution_input sdk (quote n) (swap n))
       (handler_view s tips) d = (h, out)\<rbrakk>
   \<Longrightarrow> copy_step s (after_execution (s\<lparr>sv_queue := queue\<rparr>) h out)"
| Output: "\<lbrakk>sv_outputs s = out # outs;
     handle_execution_output resolve request send now (s\<lparr>sv_outputs := outs\<rparr>) out = Inr s'\<rbrakk>
   \<Longrightarrow> copy_step s s'"
| Confirmation: "handle_confirmation resolve request amount_out resend now s item = Inr s'
   \<Longrightarrow> copy_step s s'"
| Refresh: "copy_step s (s\<lparr>sv_price_feed := update_token_prices request (sv_price_feed s)\<rparr>)"
| Cleanup: "copy_step s (s\<lparr>sv_price_feed := cleanup now (sv_price_feed s)\<rparr>)"

inductive copy_reachable :: "copy_service \<Rightarrow> copy_service \<Rightarrow> bool" for s0 where
  Start: "copy_reachable s0 s0"
| Step: "copy_reachable s0 s \<Longrightarrow> copy_step s s' \<Longrightarrow> copy_reachable s0 s'"

inductive_cases copy_stepE: "copy_step s s'"

text \<open>The retries of a copy are within the configured ones.\<close>

definition retries_ok :: "copy_config \<Rightarrow> copy_details \<Rightarrow> bool" where
  "retries_ok cfg d \<longleftrightarrow> d_send_txn_retries d \<le> cfg_send_txn_retries cfg
     \<and> d_confirmed_error_retries d \<le> cfg_confirmed_error_retries cfg"

fun output_ok :: "copy_config \<Rightarrow> execution_output \<Rightarrow> bool" where
  "output_ok cfg (ExecSuccess d _) \<longleftrightarrow> retries_ok cfg d \<and> quote_ready d"
| "output_ok cfg (ExecFailure d) \<longleftrightarrow> retries_ok cfg d"

definition service_ok :: "copy_service \<Rightarrow> bool" where
  "service_ok s \<longleftrightarrow>
     pending_ok (sv_pending s) \<and>
     length (sv_queue s) \<le> unat (cfg_max_execution_queue_length (sv_config s)) \<and>
     (\<forall>d \<in> set (sv_queue s). retries_ok (sv_config s) d) \<and>
     (\<forall>out \<in> set (sv_outputs s). output_ok (sv_config s) out) \<and>
     (\<forall>k d t. store_get (pm_m (sv_pending s)) k = Some (d, t) \<longrightarrow>
        retries_ok (sv_config s) d \<and> quote_ready d) \<and>
     (\<forall>k c. store_get (sv_wallet_config s) k = Some c \<longrightarrow> wallet_config_ok c)"

lemma service_ok_pendingD:
  "service_ok s \<Longrightarrow> store_get (pm_m (sv_pending s)) k = Some (d, t) \<Longrightarrow>
     retries_ok (sv_config s) d \<and> quote_ready d"
  unfolding service_ok_def by blast

text \<open>A copy's place in its budget of executions.\<close>

definition retry_rank :: "copy_config \<Rightarrow> copy_details \<Rightarrow> nat" where
  "retry_rank cfg d = unat (d_confirmed_error_retries d) * (unat (cfg_send_txn_retries cfg) + 1)
     + unat (d_send_txn_retries d)"

definition retry_budget :: "copy_config \<Rightarrow> nat" where
  "retry_budget cfg =
     (unat (cfg_confirmed_error_retries cfg) + 1) * (unat (cfg_send_txn_retries cfg) + 1)"

section \<open>Retries\<close>

lemma unat_u8_Suc: "(a :: u8) < b \<Longrightarrow> unat (a + 1) = unat a + 1"
  using unat_less_power [of b] by (subst unat_plus_no_wrap) (simp_all add: word_less_nat_alt)

lemma next_send_retry_simps:
  "d_send_txn_retries (next_send_retry cfg d) = d_send_txn_retries d + 1"
  "d_confirmed_error_retries (next_send_retry cfg d) = d_confirmed_error_retries d"
  "d_retry_strategy (next_send_retry cfg d) = d_retry_strategy d"
  "d_origin_signature (next_send_retry cfg d) = d_origin_signature d"
  "quote_ready (next_send_retry cfg d) = quote_ready d"
  by (simp_all add: next_send_retry_def Let_def quote_ready_def)

lemma next_send_retry_ok:
  assumes "retries_ok cfg d" and "d_send_txn_retries d < cfg_send_txn_retries cfg"
  shows "retries_ok cfg (next_send_retry cfg d)"
    and "retry_rank cfg d < retry_rank cfg (next_send_retry cfg d)"
  using assms unat_u8_Suc [OF assms(2)]
  by (auto simp: retries_ok_def retry_rank_def next_send_retry_simps word_le_nat_alt word_less_nat_alt)

lemma next_error_retry_ok:
  assumes "retries_ok cfg d" and "d_confirmed_error_retries d < cfg_confirmed_error_retries cfg"
  shows "retries_ok cfg (next_error_retry d)"
    and "retry_rank cfg d < retry_rank cfg (next_error_retry d)"
  using assms unat_u8_Suc [OF assms(2)]
  by (auto simp: retries_ok_def retry_rank_def next_error_retry_def word_le_nat_alt word_less_nat_alt)

lemma retry_rank_within_budget: "retries_ok cfg d \<Longrightarrow> retry_rank cfg d < retry_budget cfg"
proof -
  assume "retries_ok cfg d"
  then have "unat (d_confirmed_error_retries d) * (unat (cfg_send_txn_retries cfg) + 1)
      \<le> unat (cfg_confirmed_error_retries cfg) * (unat (cfg_send_txn_retries cfg) + 1)"
    and "unat (d_send_txn_retries d) \<le> unat (cfg_send_txn_retries cfg)"
    by (simp_all add: retries_ok_def word_le_nat_alt del: mult_Suc_right)
  then show ?thesis by (simp add: retry_rank_def retry_budget_def)
qed

lemma set_try_send: "d' \<in> set (sv_queue (try_send s d)) \<Longrightarrow> d' \<in> set (sv_queue s) \<or> d' = d"
  by (auto simp: try_send_def split: if_splits)

lemma try_send_frame [simp]:
  "sv_pending (try_send s d) = sv_pending s" "sv_config (try_send s d) = sv_config s"
  "sv_outputs (try_send s d) = sv_outputs s" "sv_wallet_config (try_send s d) = sv_wallet_config s"
  "sv_trade_history (try_send s d) = sv_trade_history s"
  by (simp_all add: try_send_def)

lemma service_ok_try_send:
  "service_ok s \<Longrightarrow> retries_ok (sv_config s) d \<Longrightarrow> service_ok (try_send s d)"
  by (auto simp: service_ok_def try_send_def)

lemma handle_failed_frame:
  assumes "handle_failed_execution resolve request s d = Inr s'"
  shows "\<exists>h. s' = s\<lparr>sv_trade_history := h\<rparr>"
proof -
  have "s = s\<lparr>sv_trade_history := sv_trade_history s\<rparr>" by simp
  then show ?thesis
    using assms
    by (auto simp: handle_failed_execution_def Let_def split: option.splits sum.splits failure.splits;
        metis)
qed

lemma service_ok_history: "service_ok (s\<lparr>sv_trade_history := h\<rparr>) = service_ok s"
  by (simp add: service_ok_def)

lemma service_ok_metrics: "service_ok (s\<lparr>sv_metrics := m\<rparr>) = service_ok s"
  by (simp add: service_ok_def)

lemma service_ok_pending_insert:
  assumes "service_ok s" and "retries_ok (sv_config s) d" and "quote_ready d"
    and "pending_insert (sv_pending s) now k d = Inr (p, old)"
  shows "service_ok (s\<lparr>sv_pending := p\<rparr>)"
proof -
  have ok: "pending_ok (sv_pending s)" using assms(1) by (simp add: service_ok_def)
  obtain m where ins: "pending_insert (sv_pending s) now k d
      = Inr ((sv_pending s)\<lparr>pm_m := store_insert m k (d, now)\<rparr>, map_option fst (store_get m k))"
    and pok: "pending_ok ((sv_pending s)\<lparr>pm_m := store_insert m k (d, now)\<rparr>)"
    and m: "set m \<subseteq> set (pm_m (sv_pending s))" "store_ok m"
    by (rule pending_insert_okE [OF ok])
  have p: "p = (sv_pending s)\<lparr>pm_m := store_insert m k (d, now)\<rparr>" using ins assms(4) by simp
  have "pending_ok p" using pok by (simp add: p)
  moreover have "retries_ok (sv_config s) x \<and> quote_ready x"
    if "store_get (pm_m p) j = Some (x, t)" for j x t
  proof (cases "j = k")
    case True
    then show ?thesis using that assms(2,3) by (simp add: p)
  next
    case False
    then have "(j, x, t) \<in> set m" using that m(2) by (simp add: p store_get_Some_iff)
    then have "store_get (pm_m (sv_pending s)) j = Some (x, t)"
      using m(1) ok by (auto simp: pending_ok_def store_get_Some_iff)
    then show ?thesis using assms(1) unfolding service_ok_def by blast
  qed
  ultimately show ?thesis using assms(1) by (auto simp: service_ok_def)
qed

section \<open>Every handler keeps the service well-formed\<close>

lemma pending_remove_ok: "pending_ok p \<Longrightarrow> pending_ok (fst (pending_remove p k))"
  using length_store_remove_le [of "pm_m p" k] by (auto simp: pending_ok_def pending_remove_def)

lemma service_ok_pending_remove:
  "service_ok s \<Longrightarrow> service_ok (s\<lparr>sv_pending := fst (pending_remove (sv_pending s) k)\<rparr>)"
  using pending_remove_ok [of "sv_pending s" k]
  by (auto simp: service_ok_def pending_remove_def split: if_splits)

lemma record_side_frame:
  assumes "record_side s d sig dir tok dec x o' eu es ou os = Some s'"
  shows "\<exists>h t tr. s' = s\<lparr>sv_trade_history := h, sv_trades := t, sv_ping_tracker := tr\<rparr>"
proof -
  have "s' = s\<lparr>sv_trade_history := sv_trade_history s', sv_trades := sv_trades s',
      sv_ping_tracker := sv_ping_tracker s'\<rparr>"
    using assms
    by (auto simp: record_side_def split: copy_mode.splits sum.splits option.splits)
  then show ?thesis by blast
qed

lemma service_ok_records:
  "service_ok (s\<lparr>sv_trade_history := h, sv_trades := t, sv_ping_tracker := tr\<rparr>) = service_ok s"
  "service_ok (s\<lparr>sv_buy_disabled := b\<rparr>) = service_ok s"
  "service_ok (s\<lparr>sv_price_feed := f\<rparr>) = service_ok s"
  by (simp_all add: service_ok_def)

lemma service_ok_record_copy:
  "service_ok s \<Longrightarrow> service_ok (record_copy s d sig q ct amount i o' ep op)"
  unfolding record_copy_def record_sell_def record_buy_def
  by (auto split: option.splits if_splits dest!: record_side_frame simp: service_ok_records)

lemma service_ok_success:
  assumes "service_ok s" and "handle_success_txn request amount_out s d sig = Inr s'"
  shows "service_ok s'"
  using assms
  by (auto simp: handle_success_txn_def Let_def split: option.splits prod.splits sum.splits failure.splits
      intro!: service_ok_record_copy simp: service_ok_records service_ok_metrics)

lemma service_ok_failed:
  "service_ok s \<Longrightarrow> handle_failed_execution resolve request s d = Inr s' \<Longrightarrow> service_ok s'"
  by (auto dest!: handle_failed_frame simp: service_ok_history)

lemma service_ok_unconfirmed:
  assumes "service_ok s" and "retries_ok (sv_config s) d" and "quote_ready d"
    and "handle_unconfirmed resolve request resend now s k d = Inr s'"
  shows "service_ok s'"
proof (cases "d_send_txn_retries d < cfg_send_txn_retries (sv_config s)")
  case True
  let ?d = "next_send_retry (sv_config s) d"
  have d: "retries_ok (sv_config s) ?d" "quote_ready ?d"
    using next_send_retry_ok(1) [OF assms(2) True] assms(3) by (simp_all add: next_send_retry_simps)
  show ?thesis
    using assms(1,4) True service_ok_try_send [OF assms(1) d(1)]
      service_ok_pending_insert [OF assms(1) d]
    by (auto simp: handle_unconfirmed_def Let_def split: retry_strategy.splits sum.splits prod.splits)
next
  case False
  then show ?thesis
    using assms(1,4) by (auto simp: handle_unconfirmed_def service_ok_metrics elim!: service_ok_failed [rotated])
qed

lemma service_ok_confirmation:
  assumes "service_ok s"
    and "handle_confirmation resolve request amount_out resend now s item = Inr s'"
  shows "service_ok s'"
proof -
  obtain p r where pr: "pending_remove (sv_pending s) (cd_txn_id item) = (p, r)" by force
  define s1 where "s1 = s\<lparr>sv_pending := p\<rparr>"
  have s1: "service_ok s1"
    using service_ok_pending_remove [OF assms(1), of "cd_txn_id item"] pr by (simp add: s1_def)
  show ?thesis
  proof (cases r)
    case None
    then show ?thesis using assms(2) pr s1 by (simp add: handle_confirmation_def s1_def)
  next
    case (Some kd)
    obtain k d where kd: "kd = (k, d)" by force
    have "\<exists>t. store_get (pm_m (sv_pending s)) (cd_txn_id item) = Some (d, t)"
      using pr Some kd by (auto simp: pending_remove_def)
    then have d: "retries_ok (sv_config s) d" "quote_ready d" "sv_config s1 = sv_config s"
      using assms(1) by (auto simp: service_ok_def s1_def)
    note h = assms(2) [unfolded handle_confirmation_def pr Some kd prod.case option.case Let_def, folded s1_def]
    show ?thesis
    proof (cases "cd_response item")
      case (TxConfirmed err slot)
      let ?s2 = "s1\<lparr>sv_metrics := (sv_metrics s1)\<lparr>mt_total_confirmed_txns := mt_total_confirmed_txns (sv_metrics s1) + 1\<rparr>\<rparr>"
      have s2: "service_ok ?s2" using s1 by (simp add: service_ok_metrics)
      show ?thesis
        using h TxConfirmed s2 d next_error_retry_ok(1) [OF d(1)] service_ok_try_send [OF s2, of "next_error_retry d"]
        by (auto split: option.splits if_splits elim: service_ok_success [rotated] service_ok_failed [rotated])
    next
      case (TxUnconfirmed reason)
      then show ?thesis
        using h service_ok_unconfirmed [OF s1 _ d(2)] d(1,3) by (auto simp: s1_def)
    qed
  qed
qed

lemma service_ok_output:
  assumes "service_ok (s\<lparr>sv_outputs := outs\<rparr>)" and "output_ok (sv_config s) out"
    and "handle_execution_output resolve request send now (s\<lparr>sv_outputs := outs\<rparr>) out = Inr s'"
  shows "service_ok s'"
proof (cases out)
  case (ExecSuccess d tx)
  let ?s = "\<lambda>m. s\<lparr>sv_outputs := outs, sv_metrics := m\<rparr>"
  have "service_ok (?s m)" for m using assms(1) by (simp add: service_ok_metrics)
  then show ?thesis
    using assms ExecSuccess service_ok_pending_insert [of "?s m" for m]
    by (auto simp: handle_execution_output_def Let_def split: sum.splits prod.splits)
next
  case (ExecFailure d)
  then show ?thesis using assms by (auto simp: handle_execution_output_def elim: service_ok_failed [rotated])
qed

lemma retries_ok_same_copy: "same_copy d d' \<Longrightarrow> retries_ok cfg d \<Longrightarrow> retries_ok cfg d'"
  by (simp add: same_copy_def retries_ok_def)

lemma service_ok_execute:
  assumes "service_ok s" and "sv_queue s = d # queue" and "\<And>n. quote_provider (quote n)"
    and "handle_command infos now (\<lambda>n. process_execution_input sdk (quote n) (swap n))
       (handler_view s tips) d = (h, out)"
  shows "service_ok (after_execution (s\<lparr>sv_queue := queue\<rparr>) h out)"
proof -
  have d: "retries_ok (sv_config s) d" using assms(1,2) by (simp add: service_ok_def)
  have "output_ok (sv_config s) x" if "out = Some x" for x
    using handle_command_keeps(3,4) [OF assms(4) assms(3)] that d retries_ok_same_copy
    by (cases x) auto
  then show ?thesis
    using assms(1,2) by (auto simp: service_ok_def after_execution_def split: option.splits)
qed

section \<open>Start\<close>

definition DURATION_MAX :: duration where
  "DURATION_MAX = (2 ^ 64 - 1) * 1000000000 + 999999999"

text \<open>\<open>start_copy_service_v2\<close> up to the main loop: the bootstrapped history, the ping tracker that
  the configured path gives and the answer to the first price request are arguments.\<close>

definition start_copy_service ::
  "(pubkey \<Rightarrow> string) \<Rightarrow> (pubkey list \<Rightarrow> u64 option list result) \<Rightarrow> (poll_request list \<Rightarrow> unit result)
     \<Rightarrow> (string \<Rightarrow> ping_tracker result) \<Rightarrow> (pubkey list \<Rightarrow> (pubkey \<times> f64 option) list) \<Rightarrow> instant
     \<Rightarrow> copy_config \<Rightarrow> copy_wallet list \<Rightarrow> historical_trades result \<Rightarrow> pubkey \<Rightarrow> copy_service result" where
  "start_copy_service to_string get_balances watch start_tracker request now cfg init_accounts
     bootstrapped wallet =
     bind_res bootstrapped (\<lambda>history.
     case add_accounts_to_wallet_config_and_stream to_string get_balances watch init_accounts cfg [] of
       (_, Inl e) \<Rightarrow> Inl e
     | (wallet_config, Inr (disabled, _)) \<Rightarrow>
         bind_res (case cfg_ping_config_path cfg of
                     None \<Rightarrow> Inr None
                   | Some path \<Rightarrow> bind_res (start_tracker path) (\<lambda>t. Inr (Some t))) (\<lambda>tracker.
         bind_res (pending_new (cfg_max_pending_queue_length cfg) (cfg_max_pending_queue_length cfg div 5))
           (\<lambda>pending.
         let feed = foldl (\<lambda>f t. fst (subscribe_token f now t (Some DURATION_MAX))) [] [SOL, USDC, USDT]
         in Inr \<lparr>sv_config = cfg, sv_pending = pending, sv_queue = [], sv_outputs = [],
                 sv_wallet_config = wallet_config, sv_buy_disabled_wallets = disabled,
                 sv_trade_history = history, sv_ping_tracker = tracker,
                 sv_price_feed = update_token_prices request feed, sv_trades = [],
                 sv_metrics = copy_metrics_default, sv_buy_disabled = False, sv_wallet = wallet\<rparr>)))"

lemma drop_size_le: "(c :: usize) div 5 \<le> c"
  by (simp add: word_le_nat_alt unat_div)

lemma add_accounts_wallet_config_ok:
  assumes "\<forall>k c. store_get m k = Some c \<longrightarrow> wallet_config_ok c"
    and "add_accounts_to_wallet_config_and_stream ts gb wa as cfg m = (m', r)"
    and "store_get m' k = Some c"
  shows "wallet_config_ok c"
  using assms unfolding add_accounts_to_wallet_config_and_stream_def Let_def
  by (auto split: sum.splits prod.splits dest!: store_get_foldl_insert copy_accounts_to_config_all_ok)

lemma service_ok_start:
  assumes "start_copy_service ts gb wa ps rq now cfg as hist w = Inr s"
  shows "service_ok s"
proof -
  let ?c = "cfg_max_pending_queue_length cfg"
  obtain p where p: "(pending_new ?c (?c div 5) :: (transaction_id, copy_details) pending_transactions_map result) = Inr p"
    and s: "sv_pending s = p" "sv_queue s = []" "sv_outputs s = []" "sv_config s = cfg"
    "\<exists>r. add_accounts_to_wallet_config_and_stream ts gb wa as cfg [] = (sv_wallet_config s, r)"
    using assms
    by (auto simp: start_copy_service_def Let_def split: prod.splits sum.splits)
  have peq: "p = \<lparr>pm_m = [], pm_b = DropNWhenFull ?c (?c div 5)\<rparr>"
    using p by (simp add: pending_new_cases split: if_splits)
  then have "pending_ok p" by (simp add: pending_ok_def drop_size_le)
  moreover have "wallet_config_ok c" if "store_get (sv_wallet_config s) k = Some c" for k c
    using s(5) that by (auto intro: add_accounts_wallet_config_ok [of "[]"])
  moreover have "store_get (pm_m p) k = None" for k by (simp add: peq)
  ultimately show ?thesis by (simp add: service_ok_def s)
qed

lemma service_ok_step: "copy_step s s' \<Longrightarrow> service_ok s \<Longrightarrow> service_ok s'"
proof (induction rule: copy_step.induct)
  case (Command ts gb wa s as s')
  obtain m r where mr: "add_accounts_to_wallet_config_and_stream ts gb wa as (sv_config s)
      (sv_wallet_config s) = (m, r)" by force
  then have "s' = s\<lparr>sv_wallet_config := m\<rparr>"
    using Command by (auto simp: handle_copy_command_def split: sum.splits failure.splits)
  moreover have "wallet_config_ok c" if "store_get m k = Some c" for k c
    using add_accounts_wallet_config_ok [OF _ mr that] Command by (simp add: service_ok_def)
  ultimately show ?case using Command by (simp add: service_ok_def)
next
  case (Wire s ts lk parse txn)
  then show ?case
    by (auto simp: handle_wire_txn_def retries_ok_def copy_details_of_def service_ok_metrics
        split: sum.splits if_splits list.splits option.splits intro!: service_ok_try_send)
next
  case (Execute s d queue quote infos now sdk swap tips h out)
  show ?case by (rule service_ok_execute [OF Execute.prems Execute.hyps])
next
  case (Output s out outs resolve request send now s')
  have "service_ok (s\<lparr>sv_outputs := outs\<rparr>)" "output_ok (sv_config s) out"
    using Output.prems Output.hyps(1) by (auto simp: service_ok_def)
  then show ?case using Output.hyps(2) by (rule service_ok_output)
next
  case (Confirmation resolve request amount_out resend now s item s')
  show ?case by (rule service_ok_confirmation [OF Confirmation.prems Confirmation.hyps])
qed (simp_all add: service_ok_records)

text \<open>C1. However detected swaps, executions, confirmations, commands and price updates interleave, a
  service that was started stays well-formed: the pending map and the execution queue are within
  their bounds, no copy exceeds its configured retries, every transaction that waits for its
  confirmation has its quote, its kind and its decimals, and every wallet's minimum input is below
  its maximum.\<close>

theorem service_invariant:
  assumes "start_copy_service ts gb wa ps rq now cfg as hist w = Inr s0"
    and "copy_reachable s0 s"
  shows "service_ok s"
  using assms(2)
proof (induction rule: copy_reachable.induct)
  case Start
  show ?case by (rule service_ok_start [OF assms(1)])
next
  case (Step s s')
  then show ?case by (simp add: service_ok_step)
qed

definition sample_service :: copy_service where
  "sample_service = \<lparr>sv_config = copy_config_default,
     sv_pending = \<lparr>pm_m = [], pm_b = DropNWhenFull 500 100\<rparr>, sv_queue = [], sv_outputs = [],
     sv_wallet_config = [(10, sample_wallet_config)], sv_buy_disabled_wallets = {},
     sv_trade_history = [], sv_ping_tracker = None,
     sv_price_feed = update_token_prices (\<lambda>_. []) (foldl (\<lambda>f t. fst (subscribe_token f 0 t (Some DURATION_MAX))) [] [SOL, USDC, USDT]),
     sv_trades = [], sv_metrics = copy_metrics_default, sv_buy_disabled = False, sv_wallet = 99\<rparr>"

lemma sample_service_start:
  "start_copy_service (\<lambda>_. ''w'') (\<lambda>_. Inr [Some 1]) (\<lambda>_. Inr ()) (\<lambda>_. Inl (Error ''none'')) (\<lambda>_. []) 0
     copy_config_default
     [\<lparr>cw_wallet = 10, cw_display_name = None, cw_min_input_amount = None,
         cw_max_input_amount = None, cw_buy_disabled = None, cw_mode = None,
         cw_commitment_level = None, cw_poll_transactions_frequency_seconds = None,
         cw_ignore_error_transactions = None, cw_recent_signature = None\<rparr>] (Inr []) 99
   = Inr sample_service"
  by (simp add: start_copy_service_def sample_service_def add_accounts_to_wallet_config_and_stream_def
      account_to_config_def wallet_min_def wallet_max_def copy_config_default_def sample_wallet_config_def
      pending_new_cases store_insert_def Let_def)

theorem service_invariant_witness:
  "service_ok (handle_wire_txn (\<lambda>_. ''w'') Inr (\<lambda>_. Inr None) sample_service (Inl (Error ''stream'')))"
  by (rule service_invariant [OF sample_service_start copy_reachable.Step
      [OF copy_reachable.Start copy_step.Wire]])

section \<open>Confirmations\<close>

lemma handle_failed_total:
  assumes "\<forall>sw e. resolve sw \<noteq> Inl (Panic e)"
  shows "\<exists>s'. handle_failed_execution resolve request s d = Inr s'"
proof -
  have "resolve sw = Inl x \<Longrightarrow> \<exists>e. x = Error e" for sw x using assms by (cases x) auto
  then show ?thesis
    by (auto simp: handle_failed_execution_def Let_def split: option.splits sum.splits failure.splits)
qed

lemma quote_ready_decimals:
  assumes "quote_ready d"
  obtains q td ct x y where "d_quote_output d = Some q" and "rs_token_decimals (d_origin_swap d) = Some td"
    and "d_copy_type d = Some ct" and "in_decimals q d td = Some x" and "out_decimals q d td = Some y"
proof -
  obtain q td ct where q: "d_quote_output d = Some q" "rs_token_decimals (d_origin_swap d) = Some td"
    "d_copy_type d = Some ct"
    "qd_input_mint q = SOL \<or> qd_input_mint q = rs_input_token_mint (d_origin_swap d)"
    "qd_output_mint q = SOL \<or> qd_output_mint q = rs_output_token_mint (d_origin_swap d)"
    using assms by (auto simp: quote_ready_def)
  have "in_decimals q d td \<noteq> None" "out_decimals q d td \<noteq> None"
    using q(4,5) by (auto simp: in_decimals_def out_decimals_def split: option.splits)
  then show ?thesis using that q(1-3) by blast
qed

lemma handle_success_total:
  assumes "quote_ready d" and "\<forall>sg m f e. amount_out sg m f \<noteq> Inl (Panic e)"
  shows "\<exists>s'. handle_success_txn request amount_out s d sig = Inr s'"
  by (rule quote_ready_decimals [OF assms(1)])
    (auto simp: handle_success_txn_def assms(2) Let_def split: sum.splits failure.splits prod.splits)

lemma handle_unconfirmed_total:
  assumes "pending_ok (sv_pending s)" and "\<forall>sw e. resolve sw \<noteq> Inl (Panic e)"
  shows "\<exists>s'. handle_unconfirmed resolve request resend now s k d = Inr s'"
proof -
  obtain p old where "pending_insert (sv_pending s) now k (next_send_retry (sv_config s) d) = Inr (p, old)"
    by (rule pending_insert_okE [OF assms(1)]) blast
  then show ?thesis
    using handle_failed_total [OF assms(2)]
    by (auto simp: handle_unconfirmed_def Let_def split: retry_strategy.splits sum.splits)
qed


lemma sample_service_ok: "service_ok sample_service"
  by (rule service_ok_start [OF sample_service_start])


text \<open>The copies a service holds: in the execution queue or waiting for a confirmation.\<close>

definition held_copies :: "copy_service \<Rightarrow> copy_details set" where
  "held_copies s = set (sv_queue s) \<union> (\<lambda>(k, d, t). d) ` set (pm_m (sv_pending s))"

lemma held_cong:
  "sv_queue s' = sv_queue s \<Longrightarrow> sv_pending s' = sv_pending s \<Longrightarrow> held_copies s' = held_copies s"
  by (simp add: held_copies_def)

lemma held_mono:
  "sv_queue s' = sv_queue s \<Longrightarrow> set (pm_m (sv_pending s')) \<subseteq> set (pm_m (sv_pending s)) \<Longrightarrow>
     held_copies s' \<subseteq> held_copies s"
  unfolding held_copies_def by (metis Un_mono image_mono order_refl)

lemma held_try_send: "d' \<in> held_copies (try_send s d) \<Longrightarrow> d' \<in> held_copies s \<or> d' = d"
  by (auto simp: held_copies_def dest: set_try_send)

lemma set_store_insert: "set (store_insert m k v) \<subseteq> insert (k, v) (set m)"
  by (induction m) (auto simp: store_insert_def)

lemma held_pending_insert:
  assumes "pending_ok (sv_pending s)" and "pending_insert (sv_pending s) now k d = Inr (p, old)"
    and "d' \<in> held_copies (s\<lparr>sv_pending := p\<rparr>)"
  shows "d' \<in> held_copies s \<or> d' = d"
proof -
  obtain m where ins: "pending_insert (sv_pending s) now k d
      = Inr ((sv_pending s)\<lparr>pm_m := store_insert m k (d, now)\<rparr>, map_option fst (store_get m k))"
    and m: "set m \<subseteq> set (pm_m (sv_pending s))"
    by (rule pending_insert_okE [OF assms(1)])
  have p: "p = (sv_pending s)\<lparr>pm_m := store_insert m k (d, now)\<rparr>" using ins assms(2) by simp
  let ?f = "\<lambda>(k, d, t). d"
  have "set (store_insert m k (d, now)) \<subseteq> insert (k, d, now) (set (pm_m (sv_pending s)))"
    using m set_store_insert [of m k "(d, now)"] by blast
  then have "?f ` set (store_insert m k (d, now)) \<subseteq> ?f ` insert (k, d, now) (set (pm_m (sv_pending s)))"
    by (rule image_mono)
  then show ?thesis using assms(3) unfolding held_copies_def p image_insert by auto
qed

lemma held_failed:
  "handle_failed_execution resolve request s d = Inr s' \<Longrightarrow> held_copies s' = held_copies s"
  by (rule held_cong) (auto dest!: handle_failed_frame)

lemma held_record_copy: "held_copies (record_copy s d sig q ct amount i o' ep op) = held_copies s"
proof -
  have side: "held_copies s2 = held_copies s1"
    if "record_side s1 d sig dir tok dec x y a b c e = Some s2" for s1 s2 dir tok dec x y a b c e
    by (rule held_cong) (use record_side_frame [OF that] in auto)
  show ?thesis
    unfolding record_copy_def record_sell_def record_buy_def
    by (auto split: option.splits if_splits dest!: side)
qed

lemma held_updates:
  "held_copies (s\<lparr>sv_metrics := m\<rparr>) = held_copies s"
  "held_copies (s\<lparr>sv_metrics := m, sv_buy_disabled := b\<rparr>) = held_copies s"
  by (rule held_cong; simp)+

lemma held_success:
  "handle_success_txn request amount_out s d sig = Inr s' \<Longrightarrow> held_copies s' = held_copies s"
  by (auto simp: handle_success_txn_def Let_def held_record_copy held_updates
      split: option.splits prod.splits sum.splits failure.splits)

lemma held_counted:
  "held_copies (s\<lparr>sv_metrics := f (sv_metrics s)\<rparr>) = held_copies s"
  by (rule held_cong) simp_all

lemma unconfirmed_adds_send_retry:
  assumes "handle_unconfirmed resolve request resend now s k d = Inr s'" and "pending_ok (sv_pending s)"
    and "d' \<in> held_copies s'" and "d' \<notin> held_copies s"
  shows "d' = next_send_retry (sv_config s) d \<and> d_send_txn_retries d < cfg_send_txn_retries (sv_config s)"
proof (cases "d_send_txn_retries d < cfg_send_txn_retries (sv_config s)")
  case True
  have "d' \<in> held_copies s \<or> d' = next_send_retry (sv_config s) d"
    using assms(1-3) True held_try_send [of d' s "next_send_retry (sv_config s) d"]
      held_pending_insert [of s now k "next_send_retry (sv_config s) d"]
    by (auto simp: handle_unconfirmed_def Let_def split: retry_strategy.splits sum.splits prod.splits)
  then show ?thesis using True assms(4) by blast
next
  case False
  then have "held_copies s' = held_copies s"
    using assms(1) held_failed held_counted [where s = s and f = "\<lambda>m. m\<lparr>mt_total_unconfirmed_txns := mt_total_unconfirmed_txns m + 1\<rparr>"]
    by (simp add: handle_unconfirmed_def)
  then show ?thesis using assms(3,4) by blast
qed

lemma confirmed_adds_error_retry:
  assumes "handle_confirmation resolve request amount_out resend now s item = Inr s'"
    and "pending_remove (sv_pending s) (cd_txn_id item) = (p, Some (k, d))"
    and "cd_response item = TxConfirmed err slot"
    and "d' \<in> held_copies s'" and "d' \<notin> held_copies (s\<lparr>sv_pending := p\<rparr>)"
  shows "d' = next_error_retry d \<and> d_confirmed_error_retries d < cfg_confirmed_error_retries (sv_config s)"
proof -
  define s1 where "s1 = s\<lparr>sv_pending := p\<rparr>"
  define s2 where "s2 = s1\<lparr>sv_metrics := (sv_metrics s1)\<lparr>mt_total_confirmed_txns := mt_total_confirmed_txns (sv_metrics s1) + 1\<rparr>\<rparr>"
  have s2: "held_copies s2 = held_copies s1" "sv_config s2 = sv_config s"
    by (simp_all add: s2_def s1_def held_copies_def)
  note h = assms(1) [unfolded handle_confirmation_def assms(2) prod.case option.case Let_def, folded s1_def]
  have new: "d' \<notin> held_copies s2" using assms(5) s2(1) by (simp add: s1_def)
  show ?thesis
  proof (cases err)
    case None
    then have "handle_success_txn request amount_out s2 d (cd_signature item) = Inr s'"
      using h assms(3) by (simp add: s2_def)
    then show ?thesis using held_success new assms(4) by blast
  next
    case (Some e)
    then show ?thesis
      using h assms(3,4) s2(2) new held_failed [of resolve request s2 d s']
        held_try_send [of d' s2 "next_error_retry d"]
      by (auto simp: s2_def split: if_splits)
  qed
qed

text \<open>C2. Retries end. A confirmation takes the copy it belongs to out of the pending map; what it
  puts back, if anything, is the same trade further along in its budget of
  \<open>(confirmed_error_retries + 1) * (send_txn_retries + 1)\<close> executions: its place strictly increases and
  stays below the budget. No other copy appears.\<close>

theorem confirmation_advances_budget:
  assumes "service_ok s"
    and "handle_confirmation resolve request amount_out resend now s item = Inr s'"
    and "d' \<in> held_copies s'" and "d' \<notin> held_copies s"
  shows "\<exists>d t. store_get (pm_m (sv_pending s)) (cd_txn_id item) = Some (d, t)
    \<and> d_origin_signature d' = d_origin_signature d
    \<and> retry_rank (sv_config s) d < retry_rank (sv_config s) d'
    \<and> retry_rank (sv_config s) d' < retry_budget (sv_config s)"
proof -
  obtain p r where pr: "pending_remove (sv_pending s) (cd_txn_id item) = (p, r)" by force
  define s1 where "s1 = s\<lparr>sv_pending := p\<rparr>"
  have p: "pending_ok p"
    using assms(1) pending_remove_ok [of "sv_pending s" "cd_txn_id item"] pr by (simp add: service_ok_def)
  have "set (pm_m p) \<subseteq> set (pm_m (sv_pending s))"
    using pr by (auto simp: pending_remove_def store_remove_def AList.delete_eq)
  then have sub: "held_copies s1 \<subseteq> held_copies s" by (intro held_mono) (simp_all add: s1_def)
  obtain k d where r: "r = Some (k, d)"
    using assms(2-4) pr sub by (cases r) (auto simp: handle_confirmation_def s1_def)
  obtain t where t: "store_get (pm_m (sv_pending s)) (cd_txn_id item) = Some (d, t)"
    using pr r by (auto simp: pending_remove_def)
  then have d: "retries_ok (sv_config s) d" using service_ok_pendingD [OF assms(1)] by blast
  let ?c = "sv_config s"
  have new: "d' \<notin> held_copies s1" using assms(4) sub by blast
  have cases: "(d' = next_send_retry ?c d \<and> d_send_txn_retries d < cfg_send_txn_retries ?c)
      \<or> (d' = next_error_retry d \<and> d_confirmed_error_retries d < cfg_confirmed_error_retries ?c)"
  proof (cases "cd_response item")
    case (TxConfirmed err slot)
    then show ?thesis
      using confirmed_adds_error_retry [OF assms(2) pr [unfolded r] TxConfirmed assms(3)] new
      by (simp add: s1_def)
  next
    case (TxUnconfirmed reason)
    then have "handle_unconfirmed resolve request resend now s1 k d = Inr s'"
      using assms(2) by (simp add: handle_confirmation_def pr r s1_def)
    then show ?thesis
      using unconfirmed_adds_send_retry [of resolve request resend now s1 k d s' d'] p new assms(3)
      by (simp add: s1_def)
  qed
  have "retry_rank ?c d < retry_rank ?c d' \<and> retries_ok ?c d' \<and> d_origin_signature d' = d_origin_signature d"
    using cases next_send_retry_ok [OF d] next_error_retry_ok [OF d]
    by (auto simp: next_send_retry_simps next_error_retry_def)
  then show ?thesis using t retry_rank_within_budget by blast
qed

definition sample_sent :: copy_details where
  "sample_sent = sample_details\<lparr>d_copy_type := Some CopyBuy,
     d_quote_output := Some \<lparr>qd_input_token_decimals = None, qd_output_token_decimals = None,
       qd_input_mint = SOL, qd_output_mint = 77, qd_amount_specified_is_input = True,
       qd_amount = 200000000, qd_other_amount = 500, qd_other_amount_threshold = 450\<rparr>\<rparr>"

definition sample_waiting :: copy_service where
  "sample_waiting = sample_service\<lparr>sv_pending := \<lparr>pm_m = [(1, sample_sent, 0)], pm_b = DropNWhenFull 500 100\<rparr>\<rparr>"

lemma sample_waiting_ok: "service_ok sample_waiting"
proof -
  have "quote_ready sample_sent" "retries_ok copy_config_default sample_sent"
    by (simp_all add: quote_ready_def sample_sent_def sample_details_def resolved_swap_plain_def
        retries_ok_def)
  then show ?thesis
    using sample_service_ok
    by (auto simp: service_ok_def sample_waiting_def sample_service_def pending_ok_def store_ok_def
        pending_bound_def store_get_def split: if_splits)
qed

theorem confirmation_advances_budget_witness:
  "\<exists>s' d'. handle_confirmation (\<lambda>_. Inr (9, 6)) (\<lambda>_ _. None) (\<lambda>_ _ _. Inr (5, 5)) (\<lambda>_ _ _. Inr ()) 7
     sample_waiting \<lparr>cd_txn_id = 1, cd_signature = 2, cd_response = TxUnconfirmed Expired\<rparr> = Inr s'
   \<and> d' \<in> held_copies s' \<and> retry_rank copy_config_default d' < retry_budget copy_config_default"
proof -
  let ?d = "next_send_retry copy_config_default sample_sent"
  let ?s = "try_send (sample_waiting\<lparr>sv_pending := \<lparr>pm_m = [], pm_b = DropNWhenFull 500 100\<rparr>\<rparr>) ?d"
  have cfg: "sv_config sample_waiting = copy_config_default" "sv_queue sample_waiting = []"
    by (simp_all add: sample_waiting_def sample_service_def)
  have h: "handle_confirmation (\<lambda>_. Inr (9, 6)) (\<lambda>_ _. None) (\<lambda>_ _ _. Inr (5, 5)) (\<lambda>_ _ _. Inr ()) 7
     sample_waiting \<lparr>cd_txn_id = 1, cd_signature = 2, cd_response = TxUnconfirmed Expired\<rparr> = Inr ?s"
    by (simp add: handle_confirmation_def pending_remove_def handle_unconfirmed_def next_send_retry_simps
        sample_waiting_def sample_service_def sample_sent_def sample_details_def store_get_def
        store_remove_def copy_config_default_def Let_def)
  have new: "?d \<in> held_copies ?s" "?d \<noteq> sample_sent"
    using next_send_retry_simps(1) [of copy_config_default sample_sent]
    by (auto simp: held_copies_def try_send_def cfg copy_config_default_def sample_sent_def sample_details_def)
  then have "?d \<notin> held_copies sample_waiting"
    by (simp add: held_copies_def sample_waiting_def sample_service_def)
  from confirmation_advances_budget [OF sample_waiting_ok h new(1) this] h new(1)
  show ?thesis by (auto simp: cfg)
qed

section \<open>Outcomes\<close>

text \<open>C11. A confirmed buy of a directly copied wallet: exactly one trade goes to the storage task, for
  the token that the wallet bought, with at least the quoted minimum as the volume that the bot
  received; no history but that of this wallet and token changes, and the ping tracker is left alone.
  Buys are disabled from then on exactly if the bot's SOL balance after the trade, where it is known,
  is at or below the configured threshold.\<close>

theorem successful_buy_recorded:
  assumes "handle_success_txn request amount_out s d sig = Inr s'"
    and "rs_token_decimals (d_origin_swap d) \<noteq> None" and "d_quote_output d = Some q"
    and "d_copy_type d = Some CopyBuy" and "wc_mode (d_wallet_config d) = ModeDirect"
    and "\<not> is_static_token (rs_output_token_mint (d_origin_swap d))"
    and "cfg_moonbag_bps (sv_config s) \<le> 10000"
  shows "(\<exists>v. sv_trades s' = sv_trades s @ [v] \<and> ct_direction v = DirBuy
      \<and> ct_token v = rs_output_token_mint (d_origin_swap d) \<and> ct_exec_signature v = sig
      \<and> qd_other_amount_threshold q \<le> tv_exec_volume_token (ct_volume v)
      \<and> tv_origin_volume_token (ct_volume v) = rs_output_amount (d_origin_swap d))
    \<and> (\<forall>k. k \<noteq> (d_origin_signer d, rs_output_token_mint (d_origin_swap d)) \<longrightarrow>
         store_get (sv_trade_history s') k = store_get (sv_trade_history s) k)
    \<and> sv_ping_tracker s' = sv_ping_tracker s
    \<and> (sv_buy_disabled s' \<longleftrightarrow>
         (case amount_out sig (qd_output_mint q) (d_last_fee_lamports d) of
            Inr (_, lamports) \<Rightarrow> lamports \<le> cfg_disable_buy_lamports (sv_config s)
          | Inl _ \<Rightarrow> sv_buy_disabled s))"
  using assms
  by (auto simp: handle_success_txn_def record_copy_def record_buy_def record_side_def insert_trade_def
      trade_dust_def insert_trade_inner_def actual_amount_out_def update_buy_disabled_def Let_def not_le
      split: prod.splits sum.splits failure.splits option.splits if_splits)

theorem successful_buy_recorded_witness:
  "\<exists>s' v. handle_success_txn (\<lambda>_ _. None) (\<lambda>_ _ _. Inr (480, 50000000)) sample_service sample_sent 3 = Inr s'
     \<and> sv_trades s' = [v] \<and> 450 \<le> tv_exec_volume_token (ct_volume v) \<and> sv_buy_disabled s'"
proof -
  have ready: "quote_ready sample_sent"
    by (simp add: quote_ready_def sample_sent_def sample_details_def resolved_swap_plain_def)
  obtain s' where s': "handle_success_txn (\<lambda>_ _. None) (\<lambda>_ _ _. Inr (480, 50000000)) sample_service sample_sent 3 = Inr s'"
    using handle_success_total [OF ready, of "\<lambda>_ _ _. Inr (480, 50000000)"] by fastforce
  have hyps: "rs_token_decimals (d_origin_swap sample_sent) \<noteq> None"
    "d_copy_type sample_sent = Some CopyBuy" "wc_mode (d_wallet_config sample_sent) = ModeDirect"
    "\<not> is_static_token (rs_output_token_mint (d_origin_swap sample_sent))"
    "cfg_moonbag_bps (sv_config sample_service) \<le> 10000"
    by (simp_all add: sample_sent_def sample_details_def resolved_swap_plain_def sample_wallet_config_def
        is_static_token_def mint_defs sample_service_def copy_config_default_def)
  have q: "d_quote_output sample_sent = Some \<lparr>qd_input_token_decimals = None, qd_output_token_decimals = None,
       qd_input_mint = SOL, qd_output_mint = 77, qd_amount_specified_is_input = True,
       qd_amount = 200000000, qd_other_amount = 500, qd_other_amount_threshold = 450\<rparr>"
    by (simp add: sample_sent_def)
  from successful_buy_recorded [OF s' hyps(1) q hyps(2-5)] s' show ?thesis
    by (auto simp: sample_service_def copy_config_default_def)
qed

text \<open>A copy that finally failed is remembered on the side of the copied wallet only: where the
  bot tracks the token that the wallet sold, the wallet's sold volume grows by the amount it sold and
  everything else stays, the bot's own volumes included; otherwise nothing changes at all, and no
  entry is ever created.\<close>

theorem failed_execution_recorded:
  assumes "handle_failed_execution resolve request s d = Inr s'"
    and "\<forall>sw e. resolve sw \<noteq> Inl e"
  shows "(\<exists>h. s' = s\<lparr>sv_trade_history := h\<rparr>)
    \<and> (\<forall>k. k \<noteq> (d_origin_signer d, rs_input_token_mint (d_origin_swap d)) \<longrightarrow>
         store_get (sv_trade_history s') k = store_get (sv_trade_history s) k)
    \<and> (let k = (d_origin_signer d, rs_input_token_mint (d_origin_swap d)) in
       case store_get (sv_trade_history s) k of
         None \<Rightarrow> s' = s
       | Some c \<Rightarrow> \<exists>c'. store_get (sv_trade_history s') k = Some c'
           \<and> ch_exec c' = ch_exec c \<and> ch_token c' = ch_token c
           \<and> buy_volume_token (ch_origin c') = buy_volume_token (ch_origin c)
           \<and> sell_volume_token (ch_origin c')
             = sell_volume_token (ch_origin c) + rs_input_amount (d_origin_swap d))"
proof -
  have "\<exists>p. resolve sw = Inr p" for sw using assms(2) by (cases "resolve sw") auto
  then obtain x y where "resolve (d_origin_swap d) = Inr (x, y)" by (metis surj_pair)
  then show ?thesis
    using assms(1)
    by (intro conjI handle_failed_frame [OF assms(1)])
      (auto simp: handle_failed_execution_def Let_def add_sell_def split: option.splits)
qed

theorem failed_execution_recorded_witness:
  "\<exists>s' c'. handle_failed_execution (\<lambda>_. Inr (9, 6)) (\<lambda>_ _. None)
      (sample_service\<lparr>sv_trade_history := [((10, SOL), sample_history)]\<rparr>) sample_details = Inr s'
    \<and> store_get (sv_trade_history s') (10, SOL) = Some c' \<and> ch_exec c' = ch_exec sample_history"
proof -
  let ?s = "sample_service\<lparr>sv_trade_history := [((10, SOL), sample_history)]\<rparr>"
  have key: "(d_origin_signer sample_details, rs_input_token_mint (d_origin_swap sample_details)) = (10, SOL)"
    by (simp add: sample_details_def resolved_swap_plain_def)
  obtain s' where s': "handle_failed_execution (\<lambda>_. Inr (9, 6)) (\<lambda>_ _. None) ?s sample_details = Inr s'"
    using handle_failed_total [of "\<lambda>_. Inr (9, 6)" "\<lambda>_ _. None" ?s sample_details] by auto
  from failed_execution_recorded [OF s'] s' show ?thesis
    unfolding key by (auto simp: store_get_def Let_def)
qed

text \<open>A detected transaction leads to a copy only if it succeeded, its first signer is a wallet the
  service copies and the parser found a swap in it; then exactly one copy is queued, with no retries
  made and the wallet's configuration, unless the queue is full, in which case it is dropped. No
  detected transaction touches the histories or the pending transactions.\<close>

theorem wire_txn_queues_copied_swaps:
  assumes "s' = handle_wire_txn to_string load_keys parse s txn"
  shows "(sv_queue s' = sv_queue s \<or> (\<exists>d. sv_queue s' = sv_queue s @ [d] \<and> is_first_execution d
      \<and> (\<exists>tx wc swap. bind_res txn load_keys = Inr tx \<and> tx_err tx = None
           \<and> tx_static_account_keys tx \<noteq> [] \<and> d_origin_signer d = hd (tx_static_account_keys tx)
           \<and> store_get (sv_wallet_config s) (d_origin_signer d) = Some wc \<and> d_wallet_config d = wc
           \<and> parse tx = Inr (Some swap) \<and> d_origin_swap d = swap)
      \<and> length (sv_queue s) < unat (cfg_max_execution_queue_length (sv_config s))))
    \<and> sv_pending s' = sv_pending s \<and> sv_trade_history s' = sv_trade_history s
    \<and> sv_wallet_config s' = sv_wallet_config s"
  unfolding assms
  by (auto simp: handle_wire_txn_def try_send_def copy_details_of_def is_first_execution_def
      split: sum.splits if_splits list.splits option.splits)

definition sample_tx :: itransaction where
  "sample_tx = plain_tx 5 [10] [] [] None"

theorem wire_txn_queues_copied_swaps_witness:
  "\<exists>d. sv_queue (handle_wire_txn (\<lambda>_. ''w'') Inr (\<lambda>_. Inr (Some (resolved_swap_plain Pump 1 2 SOL 77)))
     sample_service (Inr sample_tx)) = [d] \<and> is_first_execution d"
proof -
  let ?s = "handle_wire_txn (\<lambda>_. ''w'') Inr (\<lambda>_. Inr (Some (resolved_swap_plain Pump 1 2 SOL 77)))
     sample_service (Inr sample_tx)"
  have "sv_queue ?s \<noteq> sv_queue sample_service" "sv_queue sample_service = []"
    by (simp_all add: handle_wire_txn_def sample_tx_def sample_service_def try_send_def store_get_def
        copy_config_default_def)
  then show ?thesis
    using wire_txn_queues_copied_swaps [OF refl, where to_string = "\<lambda>_. ''w''" and load_keys = Inr
        and parse = "\<lambda>_. Inr (Some (resolved_swap_plain Pump 1 2 SOL 77))" and s = sample_service
        and txn = "Inr sample_tx"]
    by auto
qed

end
