(* ===== verification/Builder.thy ===== *)
theory Builder
  imports Execution
begin

text \<open>
  The instructions around a swap (\<^verbatim>\<open>swap/builder.rs\<close>): creating the token accounts, wrapping SOL,
  the priority fee, the compute limit, and the order of the final instruction list. Instructions are
  symbolic: one constructor per constructor function of the SDK that the source calls, with its
  arguments; the executor's own swap instruction is a type parameter. The address of an associated
  token account, the addresses of the token program and of the native mint, the Jito tip account that
  is picked at random, the reported priority fee and the simulation are arguments.
\<close>

datatype 's instruction =
  CreateAtaIdempotent (ca_funder: pubkey) (ca_wallet: pubkey) (ca_mint: pubkey) (ca_program: pubkey)
| SystemTransfer (tr_from: pubkey) (tr_to: pubkey) (tr_lamports: u64)
| SyncNative (sn_program: pubkey) (sn_account: pubkey)
| CloseAccount (cl_program: pubkey) (cl_account: pubkey) (cl_destination: pubkey) (cl_owner: pubkey)
| TokenTransfer (tt_program: pubkey) (tt_source: pubkey) (tt_destination: pubkey) (tt_owner: pubkey) (tt_amount: u64)
| SetComputeUnitPrice u64
| SetComputeUnitLimit u32
| SwapIx 's

record 's swap_instructions_builder =
  sb_compute_budget_instructions :: "'s instruction list"
  sb_setup_instructions :: "'s instruction list"
  sb_swap_instruction :: "'s instruction option"
  sb_cleanup_instruction :: "'s instruction option"
  sb_address_lookup_table_addresses :: "pubkey list"

definition builder_default :: "'s swap_instructions_builder" where
  "builder_default = \<lparr>sb_compute_budget_instructions = [], sb_setup_instructions = [],
     sb_swap_instruction = None, sb_cleanup_instruction = None,
     sb_address_lookup_table_addresses = []\<rparr>"

record user_associated_token_accounts =
  ua_input_ata :: pubkey
  ua_output_ata :: pubkey

record token_sdk =
  ts_ata :: "pubkey \<Rightarrow> pubkey \<Rightarrow> pubkey \<Rightarrow> pubkey"
  ts_token_program :: pubkey
  ts_native :: pubkey

definition push_setup :: "'s instruction list \<Rightarrow> 's swap_instructions_builder \<Rightarrow> 's swap_instructions_builder" where
  "push_setup ixs b = b\<lparr>sb_setup_instructions := sb_setup_instructions b @ ixs\<rparr>"

definition push_budget :: "'s instruction \<Rightarrow> 's swap_instructions_builder \<Rightarrow> 's swap_instructions_builder" where
  "push_budget ix b = b\<lparr>sb_compute_budget_instructions := sb_compute_budget_instructions b @ [ix]\<rparr>"

text \<open>The input side (line 69 to 98) and the output side (line 100 to 124) of the token accounts.\<close>

definition handle_input_account ::
  "token_sdk \<Rightarrow> pubkey \<Rightarrow> bool \<Rightarrow> u64 \<Rightarrow> pubkey \<Rightarrow> pubkey
     \<Rightarrow> 's swap_instructions_builder \<Rightarrow> 's swap_instructions_builder" where
  "handle_input_account sdk user wrap input_amount input_mint user_input_ata b =
     (if input_mint = ts_native sdk then
        let b = push_setup [CreateAtaIdempotent user user input_mint (ts_token_program sdk)] b
        in if wrap then
             (push_setup [SystemTransfer user user_input_ata input_amount,
                SyncNative (ts_token_program sdk) user_input_ata] b)
             \<lparr>sb_cleanup_instruction := Some (CloseAccount (ts_token_program sdk) user_input_ata user user)\<rparr>
           else b
      else b)"

definition handle_output_account ::
  "token_sdk \<Rightarrow> pubkey \<Rightarrow> bool \<Rightarrow> pubkey \<Rightarrow> pubkey \<Rightarrow> pubkey \<Rightarrow> pubkey option
     \<Rightarrow> 's swap_instructions_builder \<Rightarrow> 's swap_instructions_builder" where
  "handle_output_account sdk user wrap output_mint output_token_program user_output_ata destination b =
     (if destination = None then
        let b = push_setup [CreateAtaIdempotent user user output_mint output_token_program] b
        in if wrap \<and> output_mint = ts_native sdk
           then b\<lparr>sb_cleanup_instruction := Some (CloseAccount (ts_token_program sdk) user_output_ata user user)\<rparr>
           else b
      else b)"

definition handle_token_wrapping_and_accounts_creation ::
  "token_sdk \<Rightarrow> pubkey \<Rightarrow> bool \<Rightarrow> u64 \<Rightarrow> pubkey \<Rightarrow> pubkey \<Rightarrow> pubkey \<Rightarrow> pubkey \<Rightarrow> pubkey option
     \<Rightarrow> 's swap_instructions_builder
     \<Rightarrow> ('s swap_instructions_builder \<times> user_associated_token_accounts) result" where
  "handle_token_wrapping_and_accounts_creation sdk user wrap input_amount input_mint output_mint
     input_token_program output_token_program destination b =
     (let user_input_ata = ts_ata sdk user input_mint input_token_program;
          user_output_ata = ts_ata sdk user output_mint output_token_program;
          b = handle_input_account sdk user wrap input_amount input_mint user_input_ata b;
          b = handle_output_account sdk user wrap output_mint output_token_program user_output_ata destination b
      in Inr (b, \<lparr>ua_input_ata = user_input_ata, ua_output_ata = user_output_ata\<rparr>))"

section \<open>Fees and limits\<close>

definition DEFAULT_INSTRUCTION_COMPUTE_UNIT :: u32 where
  "DEFAULT_INSTRUCTION_COMPUTE_UNIT = 200000"

definition MIN_CU_PRICE :: u64 where
  "MIN_CU_PRICE = 20000"

text \<open>The module has its own copy of the function of the execution handler.\<close>

definition builder_calculate_cu_price :: "u64 \<Rightarrow> u32 \<Rightarrow> u64 result" where
  "builder_calculate_cu_price priority_fee compute_units =
     bind_res (expect (checked_mul (ucast priority_fee :: u128) (ucast MICRO_LAMPORTS_PER_LAMPORT))
       ''u128 multiplication shouldn't overflow'') (\<lambda>x.
     bind_res (expect (checked_div (saturating_sub x (ucast MICRO_LAMPORTS_PER_LAMPORT - 1))
                        (ucast compute_units + 1)) ''non-zero compute units'') (\<lambda>cu_price.
     Inr (unwrap_or (try_from cu_price) (- 1))))"

text \<open>\<open>high_fee\<close> is the handle's fee of level \<open>High\<close>, \<open>None\<close> without a handle or an estimate.\<close>

fun handle_priority_fee_params ::
  "pubkey \<Rightarrow> f64 option \<Rightarrow> priority_fee_config option \<Rightarrow> u32 option \<Rightarrow> pubkey
     \<Rightarrow> 's swap_instructions_builder \<Rightarrow> 's swap_instructions_builder result" where
  "handle_priority_fee_params jito_recipient high_fee (Some (FixedCuPrice cu_price)) compute_units funder b =
     Inr (push_budget (SetComputeUnitPrice cu_price) b)"
| "handle_priority_fee_params jito_recipient high_fee (Some FeeDynamic) compute_units funder b =
     (let cu_price = (case high_fee of
            Some cu_price \<Rightarrow> max MIN_CU_PRICE (f64_as_u64 cu_price)
          | None \<Rightarrow> MIN_CU_PRICE)
      in Inr (push_budget (SetComputeUnitPrice cu_price) b))"
| "handle_priority_fee_params jito_recipient high_fee (Some (DynamicMultiplier multiplier)) compute_units funder b =
     bind_res (ok_or (checked_mul multiplier 100000)
       ''Overflow error while calculating priofee auto-multiplier'') (\<lambda>priofee.
     bind_res (builder_calculate_cu_price priofee
       (unwrap_or compute_units DEFAULT_INSTRUCTION_COMPUTE_UNIT)) (\<lambda>cu_price.
     Inr (push_budget (SetComputeUnitPrice cu_price) b)))"
| "handle_priority_fee_params jito_recipient high_fee (Some (JitoTip jito_tip)) compute_units funder b =
     Inr (push_setup [SystemTransfer funder jito_recipient jito_tip] b)"
| "handle_priority_fee_params jito_recipient high_fee None compute_units funder b = Inr b"

definition build_instructions :: "'s swap_instructions_builder \<Rightarrow> 's instruction list result" where
  "build_instructions b =
     bind_res (ok_or (sb_swap_instruction b) ''Swap instruction not set'') (\<lambda>swap_instruction.
     Inr (sb_compute_budget_instructions b @ sb_setup_instructions b @ [swap_instruction]
          @ (case sb_cleanup_instruction b of Some ix \<Rightarrow> [ix] | None \<Rightarrow> [])))"

text \<open>The SDK compiles a message from instructions and a payer, and sets its blockhash.\<close>

record ('s, 'msg) message_sdk =
  ms_new :: "'s instruction list \<Rightarrow> pubkey option \<Rightarrow> 'msg"
  ms_set_recent_blockhash :: "hash \<Rightarrow> 'msg \<Rightarrow> 'msg"

record 'msg built_transaction =
  bt_signatures :: "signature list"
  bt_message :: 'msg

definition build_transaction ::
  "('s, 'msg) message_sdk \<Rightarrow> pubkey option \<Rightarrow> hash option \<Rightarrow> 's swap_instructions_builder
     \<Rightarrow> 'msg built_transaction result" where
  "build_transaction sdk payer blockhash b =
     bind_res (build_instructions b) (\<lambda>instructions.
     let message = ms_new sdk instructions payer;
         message = (case blockhash of Some h \<Rightarrow> ms_set_recent_blockhash sdk h message | None \<Rightarrow> message)
     in Inr \<lparr>bt_signatures = [0], bt_message = message\<rparr>)"

text \<open>\<open>simulate\<close> is the RPC call; it answers the consumed units, if any.\<close>

definition simulated_limit :: "u64 option \<Rightarrow> u32 option" where
  "simulated_limit units_consumed =
     Option.bind units_consumed (\<lambda>compute_units.
     Option.bind (try_from compute_units) (\<lambda>u. checked_add u 50000))"

definition cu_limit_of ::
  "('s, 'msg) message_sdk \<Rightarrow> ('msg built_transaction \<Rightarrow> u64 option result) \<Rightarrow> compute_unit_limits option
     \<Rightarrow> pubkey \<Rightarrow> 's swap_instructions_builder \<Rightarrow> u32 option result" where
  "cu_limit_of sdk simulate compute_limits payer b = (case compute_limits of
       None \<Rightarrow> Inr None
     | Some CuDynamic \<Rightarrow>
         bind_res (build_transaction sdk (Some payer) None b) (\<lambda>simulate_txn.
         bind_res (simulate simulate_txn) (\<lambda>units_consumed.
         Inr (simulated_limit units_consumed)))
     | Some (CuFixed cu_limits) \<Rightarrow>
         bind_res (ok_or (try_from cu_limits) ''out of range integral type conversion attempted'')
           (\<lambda>l. Inr (Some l)))"

definition handle_compute_units_params ::
  "('s, 'msg) message_sdk \<Rightarrow> ('msg built_transaction \<Rightarrow> u64 option result) \<Rightarrow> compute_unit_limits option
     \<Rightarrow> pubkey \<Rightarrow> 's swap_instructions_builder \<Rightarrow> ('s swap_instructions_builder \<times> u32 option) result" where
  "handle_compute_units_params sdk simulate compute_limits payer b =
     bind_res (cu_limit_of sdk simulate compute_limits payer b) (\<lambda>cu_limit.
     Inr (case cu_limit of
            Some l \<Rightarrow> (push_budget (SetComputeUnitLimit l) b, cu_limit)
          | None \<Rightarrow> (b, cu_limit)))"

section \<open>What the handlers guarantee\<close>

lemma builder_cu_price_same: "builder_calculate_cu_price = calculate_cu_price"
  by (intro ext) (simp only: builder_calculate_cu_price_def calculate_cu_price_def)

lemma push_simps [simp]:
  "sb_compute_budget_instructions (push_setup ixs b) = sb_compute_budget_instructions b"
  "sb_setup_instructions (push_setup ixs b) = sb_setup_instructions b @ ixs"
  "sb_swap_instruction (push_setup ixs b) = sb_swap_instruction b"
  "sb_cleanup_instruction (push_setup ixs b) = sb_cleanup_instruction b"
  "sb_compute_budget_instructions (push_budget ix b) = sb_compute_budget_instructions b @ [ix]"
  "sb_setup_instructions (push_budget ix b) = sb_setup_instructions b"
  "sb_swap_instruction (push_budget ix b) = sb_swap_instruction b"
  "sb_cleanup_instruction (push_budget ix b) = sb_cleanup_instruction b"
  by (simp_all add: push_setup_def push_budget_def)

text \<open>The instructions that the handlers of the priority fee and of the compute limit add.\<close>

lemma handle_priority_fee_params_adds:
  assumes "handle_priority_fee_params r high cfg units funder b = Inr b'"
  obtains price tip where "sb_compute_budget_instructions b' = sb_compute_budget_instructions b @ price"
    and "sb_setup_instructions b' = sb_setup_instructions b @ tip"
    and "sb_swap_instruction b' = sb_swap_instruction b"
    and "sb_cleanup_instruction b' = sb_cleanup_instruction b"
    and "price = [] \<or> (\<exists>p. price = [SetComputeUnitPrice p])"
    and "tip = (case cfg of Some (JitoTip t) \<Rightarrow> [SystemTransfer funder r t] | _ \<Rightarrow> [])"
  using assms by (cases "(r, high, cfg, units, funder, b)" rule: handle_priority_fee_params.cases)
    (auto simp: Let_def)

lemma handle_compute_units_params_adds:
  assumes "handle_compute_units_params sdk simulate limits payer b = Inr (b', units)"
  obtains "sb_compute_budget_instructions b' = sb_compute_budget_instructions b
      @ (case units of Some l \<Rightarrow> [SetComputeUnitLimit l] | None \<Rightarrow> [])"
    and "sb_setup_instructions b' = sb_setup_instructions b"
    and "sb_swap_instruction b' = sb_swap_instruction b"
    and "sb_cleanup_instruction b' = sb_cleanup_instruction b"
  using assms by (cases units) (auto simp: handle_compute_units_params_def split: option.splits)

text \<open>The last steps of every executor: the compute limit, the priority fee and the list.\<close>

lemma finished_layout:
  assumes 2: "handle_compute_units_params sdk simulate limits user b1 = Inr (b2, units)"
    and 3: "handle_priority_fee_params r high fee units user b2 = Inr b3"
    and 4: "build_instructions b3 = Inr ixs"
    and "sb_compute_budget_instructions b1 = []" and "sb_swap_instruction b1 = Some sw"
  obtains budget tip where "ixs = budget @ sb_setup_instructions b1 @ tip @ [sw]
      @ (case sb_cleanup_instruction b1 of Some ix \<Rightarrow> [ix] | None \<Rightarrow> [])"
    and "set budget \<subseteq> range SetComputeUnitLimit \<union> range SetComputeUnitPrice"
    and "tip = [] \<or> (\<exists>t. tip = [SystemTransfer user r t])"
proof -
  obtain price tip where c: "sb_compute_budget_instructions b3 = sb_compute_budget_instructions b2 @ price"
      "sb_setup_instructions b3 = sb_setup_instructions b2 @ tip"
      "sb_swap_instruction b3 = sb_swap_instruction b2"
      "sb_cleanup_instruction b3 = sb_cleanup_instruction b2"
      "price = [] \<or> (\<exists>p. price = [SetComputeUnitPrice p])"
      "tip = (case fee of Some (JitoTip t) \<Rightarrow> [SystemTransfer user r t] | _ \<Rightarrow> [])"
    using handle_priority_fee_params_adds [OF 3] .
  note l = handle_compute_units_params_adds [OF 2]
  let ?limit = "case units of Some l \<Rightarrow> [SetComputeUnitLimit l] | None \<Rightarrow> []"
  have "sb_compute_budget_instructions b3 = ?limit @ price"
    "sb_setup_instructions b3 = sb_setup_instructions b1 @ tip"
    "sb_swap_instruction b3 = Some sw" "sb_cleanup_instruction b3 = sb_cleanup_instruction b1"
    using l c(1-4) assms(4,5) by auto
  then have "ixs = (?limit @ price) @ sb_setup_instructions b1 @ tip @ [sw]
      @ (case sb_cleanup_instruction b1 of Some ix \<Rightarrow> [ix] | None \<Rightarrow> [])"
    using 4 by (simp add: build_instructions_def)
  moreover have "set (?limit @ price) \<subseteq> range SetComputeUnitLimit \<union> range SetComputeUnitPrice"
    using c(5) by (auto split: option.splits)
  moreover have "tip = [] \<or> (\<exists>t. tip = [SystemTransfer user r t])"
    using c(6) by (auto split: option.splits priority_fee_config.splits)
  ultimately show ?thesis using that by blast
qed

lemma wrapping_default:
  assumes "handle_token_wrapping_and_accounts_creation tok user wrap amount i j ip op None
      (builder_default\<lparr>sb_swap_instruction := sw\<rparr>) = Inr (b, u)"
  shows "sb_compute_budget_instructions b = []" and "sb_swap_instruction b = sw"
    and "sb_setup_instructions b =
      (if i = ts_native tok then CreateAtaIdempotent user user i (ts_token_program tok)
         # (if wrap then [SystemTransfer user (ts_ata tok user i ip) amount,
              SyncNative (ts_token_program tok) (ts_ata tok user i ip)] else []) else [])
      @ [CreateAtaIdempotent user user j op]"
    and "sb_cleanup_instruction b =
      (if wrap \<and> j = ts_native tok then Some (CloseAccount (ts_token_program tok) (ts_ata tok user j op) user user)
       else if wrap \<and> i = ts_native tok then Some (CloseAccount (ts_token_program tok) (ts_ata tok user i ip) user user)
       else None)"
  using assms
  by (auto simp: handle_token_wrapping_and_accounts_creation_def handle_input_account_def
      handle_output_account_def Let_def builder_default_def push_setup_def split: if_splits)

text \<open>The dynamic fee multiplier sets a compute unit price exactly when the fee, 100000 lamports
  per unit of the multiplier, fits in 64 bits, and then the network charges at most that fee for the
  compute limit of the transaction; otherwise the handler fails with an error, never a panic.\<close>

theorem multiplier_fee_bounded:
  "case handle_priority_fee_params r high (Some (DynamicMultiplier m)) units funder b of
     Inl e \<Rightarrow> 2 ^ 64 \<le> unat m * 100000
       \<and> e = Error ''Overflow error while calculating priofee auto-multiplier''
   | Inr b' \<Rightarrow> unat m * 100000 < 2 ^ 64 \<and> (\<exists>p. b' = push_budget (SetComputeUnitPrice p) b
       \<and> (unat p * unat (unwrap_or units DEFAULT_INSTRUCTION_COMPUTE_UNIT) + 999999) div 1000000
         \<le> unat m * 100000)"
proof (cases "unat m * 100000 < 2 ^ 64")
  case True
  let ?u = "unwrap_or units DEFAULT_INSTRUCTION_COMPUTE_UNIT"
  have n: "unat (m * 100000) = unat m * 100000" using True by (subst unat_times_no_wrap) simp_all
  have m: "checked_mul m 100000 = Some (m * 100000)" using True by (simp add: checked_mul_def)
  obtain p where "calculate_cu_price (m * 100000) ?u = Inr p"
      "(unat p * unat ?u + 999999) div 1000000 \<le> unat m * 100000"
    using cu_price_charges [of "m * 100000" ?u] unfolding n by blast
  then show ?thesis using True m by (auto simp: builder_cu_price_same ok_or_def)
next
  case False
  then show ?thesis by (simp add: checked_mul_def ok_or_def)
qed

text \<open>A simulated compute limit leaves a margin of exactly 50000 units above what the simulation
  consumed, and no limit is set exactly when that sum does not fit in 32 bits (or nothing was
  reported): the limit never wraps below the consumption.\<close>

theorem simulated_limit_margin:
  "(case simulated_limit (Some units) of
      Some l \<Rightarrow> unat l = unat units + 50000
    | None \<Rightarrow> 2 ^ 32 \<le> unat units + 50000)
   \<and> simulated_limit None = None"
proof -
  have "unat (ucast units :: u32) = unat units" if "unat units < 2 ^ 32"
    using that by (simp add: unsigned_ucast_eq take_bit_nat_eq_self)
  then show ?thesis
    by (auto simp: simulated_limit_def try_from_def checked_add_def unat_plus_no_wrap)
qed

end
