(* ===== verification/Accounts.thy ===== *)
theory Accounts
  imports Swap_Types
begin

text \<open>
  Reading many accounts from a node: the requests are made in chunks of a hundred and their answers
  put together in order (\<^verbatim>\<open>swap/utils.rs\<close>, \<^verbatim>\<open>wire/rpc/utils.rs\<close>), and the mints among them
  (\<^verbatim>\<open>utils/token.rs\<close>). One request of the RPC client, the SPL library's mint and the metadata program
  are arguments.
\<close>

record raw_account =
  ra_owner :: pubkey
  ra_data :: "u8 list"

type_synonym account_rpc = "pubkey list \<Rightarrow> raw_account option list result"

definition get_multiple_accounts :: "account_rpc \<Rightarrow> account_rpc" where
  "get_multiple_accounts rpc accounts =
     bind_res (collect_results rpc (chunks 100 accounts)) (\<lambda>results. Inr (concat results))"

text \<open>The same in \<^verbatim>\<open>wire/rpc/utils.rs\<close>, with a configured request.\<close>

definition get_multiple_account_data :: "account_rpc \<Rightarrow> account_rpc" where
  "get_multiple_account_data rpc keys =
     bind_res (collect_results rpc (chunks 100 keys)) (\<lambda>results. Inr (concat results))"

section \<open>Mints\<close>

text \<open>\<open>Mint::unpack\<close>; what the bot reads of a mint.\<close>

record mint_state =
  mst_decimals :: u8
  mst_supply :: u64
  mst_mint_authority :: "pubkey option"
  mst_freeze_authority :: "pubkey option"

definition unpack_mint :: "(u8 list \<Rightarrow> mint_state option) \<Rightarrow> raw_account \<Rightarrow> mint_state option result" where
  "unpack_mint unpack account =
     (if length (ra_data account) < MINT_LEN then Inl (Panic ''range end index out of range'')
      else Inr (unpack (take MINT_LEN (ra_data account))))"

definition get_mint_accounts ::
  "account_rpc \<Rightarrow> (u8 list \<Rightarrow> mint_state option) \<Rightarrow> pubkey list \<Rightarrow> mint_state option list result" where
  "get_mint_accounts rpc unpack mints =
     bind_res (get_multiple_accounts rpc mints) (\<lambda>accounts.
     collect_results (\<lambda>opt_account. case opt_account of
       None \<Rightarrow> Inr None | Some acc \<Rightarrow> unpack_mint unpack acc) accounts)"

record raw_mint_info =
  rm_pubkey :: pubkey
  rm_decimals :: u8
  rm_supply :: u64
  rm_program_id :: pubkey
  rm_token_2022 :: bool
  rm_mint_authority :: "pubkey option"
  rm_freeze_authority :: "pubkey option"
  rm_name :: "string option"
  rm_symbol :: "string option"
  rm_uri :: "string option"

record metadata =
  md_name :: string
  md_symbol :: string
  md_uri :: string

record mint_sdk =
  mk_unpack :: "u8 list \<Rightarrow> mint_state option"
  mk_metadata_pda :: "pubkey \<Rightarrow> pubkey"
  mk_metadata_from_bytes :: "u8 list \<Rightarrow> metadata option"
  mk_token_2022_program :: pubkey

text \<open>\<open>trim_end_matches('\u{0000}')\<close>\<close>

definition trim_nul :: "string \<Rightarrow> string" where
  "trim_nul s = rev (dropWhile (\<lambda>c. c = CHR 0x00) (rev s))"

definition info_for_mint ::
  "mint_sdk \<Rightarrow> (raw_account option \<times> raw_account option) \<times> pubkey \<Rightarrow> raw_mint_info option result" where
  "info_for_mint sdk = (\<lambda>((mint_account, metadata_account), mint). case mint_account of
       None \<Rightarrow> Inr None
     | Some acc \<Rightarrow>
         bind_res (unpack_mint (mk_unpack sdk) acc) (\<lambda>state. case state of
           None \<Rightarrow> Inr None
         | Some state \<Rightarrow>
             let md = Option.bind metadata_account (\<lambda>a. mk_metadata_from_bytes sdk (ra_data a))
             in Inr (Some \<lparr>rm_pubkey = mint, rm_decimals = mst_decimals state, rm_supply = mst_supply state,
                  rm_program_id = ra_owner acc, rm_token_2022 = (ra_owner acc = mk_token_2022_program sdk),
                  rm_mint_authority = mst_mint_authority state, rm_freeze_authority = mst_freeze_authority state,
                  rm_name = map_option (\<lambda>m. trim_nul (md_name m)) md,
                  rm_symbol = map_option (\<lambda>m. trim_nul (md_symbol m)) md,
                  rm_uri = map_option (\<lambda>m. trim_nul (md_uri m)) md\<rparr>)))"

definition get_info_for_mints :: "account_rpc \<Rightarrow> mint_sdk \<Rightarrow> pubkey list \<Rightarrow> raw_mint_info option list result" where
  "get_info_for_mints rpc sdk mints =
     bind_res (get_multiple_account_data rpc mints) (\<lambda>mint_accounts.
     bind_res (get_multiple_account_data rpc (map (mk_metadata_pda sdk) mints)) (\<lambda>metadata_accounts.
     collect_results (info_for_mint sdk) (zip (zip mint_accounts metadata_accounts) mints)))"

text \<open>\<open>From<RawMintInfo> for MintInfo\<close> (\<^verbatim>\<open>analytics/dump.rs\<close>); the freeze authority is filled from the
  mint authority.\<close>

definition mint_info_of :: "raw_mint_info \<Rightarrow> mint_info" where
  "mint_info_of v = \<lparr>mi_pubkey = rm_pubkey v, mi_decimals = rm_decimals v, mi_supply = Some (rm_supply v),
     mi_program_id = Some (rm_program_id v), mi_mint_authority = rm_mint_authority v,
     mi_freeze_authority = rm_mint_authority v, mi_name = rm_name v, mi_symbol = rm_symbol v, mi_uri = rm_uri v\<rparr>"

section \<open>Chunked requests\<close>

lemma collect_chunks:
  assumes "0 < n" and "\<And>c. c \<in> set (chunks n keys) \<Longrightarrow> rpc c = Inr (map f c)"
  shows "bind_res (collect_results rpc (chunks n keys)) (\<lambda>results. Inr (concat results)) = Inr (map f keys)"
proof -
  have "collect_results rpc (chunks n keys) = Inr (map (map f) (chunks n keys))"
    using assms(2) by (intro collect_results_total)
  moreover have "concat (map (map f) (chunks n keys)) = map f keys"
    using concat_chunks [OF assms(1), of keys] by (simp add: map_concat [symmetric])
  ultimately show ?thesis by simp
qed

text \<open>A node that answers requests of up to a hundred keys, one account per key, answers requests of
  any length through the chunks, in the order of the keys, whatever it does with requests above the
  limit.\<close>

theorem chunked_accounts_exact:
  assumes "\<And>ks. ks \<noteq> [] \<Longrightarrow> length ks \<le> 100 \<Longrightarrow> rpc ks = Inr (map account_of ks)"
  shows "get_multiple_accounts rpc keys = Inr (map account_of keys)
    \<and> get_multiple_account_data rpc keys = Inr (map account_of keys)"
proof -
  have "rpc c = Inr (map account_of c)" if "c \<in> set (chunks 100 keys)" for c
    using chunks_length [OF that] by (intro assms) auto
  then show ?thesis
    unfolding get_multiple_accounts_def get_multiple_account_data_def
    using collect_chunks [of 100 keys rpc account_of] by simp
qed

theorem chunked_accounts_exact_witness:
  "get_multiple_accounts (\<lambda>ks. if length ks \<le> 100 then Inr (map (\<lambda>_. None) ks) else Inl (Error ''Too many inputs''))
     (replicate 250 7) = Inr (replicate 250 None)"
  using chunked_accounts_exact [where keys = "replicate 250 7" and account_of = "\<lambda>_. None"
      and rpc = "\<lambda>ks. if length ks \<le> 100 then Inr (map (\<lambda>_. None) ks) else Inl (Error ''Too many inputs'')"]
  by (simp add: map_replicate_const)

definition mint_described :: "mint_sdk \<Rightarrow> (pubkey \<Rightarrow> raw_account option) \<Rightarrow> pubkey \<Rightarrow> raw_mint_info option \<Rightarrow> bool" where
  "mint_described sdk account_of m info \<longleftrightarrow>
     (case Option.bind (account_of m) (\<lambda>acc. mk_unpack sdk (take MINT_LEN (ra_data acc))) of
        None \<Rightarrow> info = None
      | Some st \<Rightarrow> \<exists>i. info = Some i \<and> rm_pubkey i = m \<and> rm_decimals i = mst_decimals st \<and> rm_supply i = mst_supply st
          \<and> rm_token_2022 i = (rm_program_id i = mk_token_2022_program sdk))"

text \<open>The answer lists one entry per mint, in the order of the mints; an entry describes its own mint
  and is absent exactly when the mint's account is missing or does not unpack.\<close>

theorem mint_infos_exact:
  assumes "\<And>ks. ks \<noteq> [] \<Longrightarrow> length ks \<le> 100 \<Longrightarrow> rpc ks = Inr (map account_of ks)"
    and "\<And>m acc. m \<in> set mints \<Longrightarrow> account_of m = Some acc \<Longrightarrow> MINT_LEN \<le> length (ra_data acc)"
  shows "\<exists>infos. get_info_for_mints rpc sdk mints = Inr infos 
    \<and> list_all2 (mint_described sdk account_of) mints infos"
proof -
  let ?zip = "zip (zip (map account_of mints) (map account_of (map (mk_metadata_pda sdk) mints))) mints"
  have data: "get_multiple_account_data rpc ks = Inr (map account_of ks)" for ks
    using assms(1) chunks_length [of _ 100 ks] unfolding get_multiple_account_data_def
    by (intro collect_chunks) auto
  define entry where "entry = (\<lambda>m. case Option.bind (account_of m) (\<lambda>acc. mk_unpack sdk (take MINT_LEN (ra_data acc))) of
      None \<Rightarrow> None
    | Some st \<Rightarrow> case info_for_mint sdk ((account_of m, account_of (mk_metadata_pda sdk m)), m) of Inr i \<Rightarrow> i | Inl _ \<Rightarrow> None)"
  have each: "info_for_mint sdk ((account_of m, account_of (mk_metadata_pda sdk m)), m) = Inr (entry m)"
    if "m \<in> set mints" for m
    using assms(2) [OF that] by (auto simp: entry_def info_for_mint_def unpack_mint_def Let_def split: option.splits)
  have "?zip = map (\<lambda>m. ((account_of m, account_of (mk_metadata_pda sdk m)), m)) mints"
    by (induction mints) auto
  then have "collect_results (info_for_mint sdk) ?zip = Inr (map entry mints)"
    using each by (simp add: collect_results_Inr_iff list_all2_conv_all_nth)
  then have r: "get_info_for_mints rpc sdk mints = Inr (map entry mints)"
    by (simp add: get_info_for_mints_def data)
  have "mint_described sdk account_of m (entry m)" if "m \<in> set mints" for m
    using assms(2) [OF that]
    by (auto simp: mint_described_def entry_def info_for_mint_def unpack_mint_def Let_def split: option.splits)
  then show ?thesis using r by (intro exI [of _ "map entry mints"]) (simp add: list_all2_conv_all_nth)
qed

definition example_mint_sdk :: mint_sdk where
  "example_mint_sdk = \<lparr>mk_unpack = (\<lambda>_. Some \<lparr>mst_decimals = 6, mst_supply = 1000, mst_mint_authority = None,
       mst_freeze_authority = None\<rparr>),
     mk_metadata_pda = (\<lambda>k. k + 1), mk_metadata_from_bytes = (\<lambda>_. None), mk_token_2022_program = 22\<rparr>"

definition example_accounts :: "pubkey \<Rightarrow> raw_account option" where
  "example_accounts k = (if k = 5 then Some \<lparr>ra_owner = 22, ra_data = replicate 82 0\<rparr> else None)"

theorem mint_infos_exact_witness:
  "\<exists>i. get_info_for_mints (\<lambda>ks. Inr (map example_accounts ks)) example_mint_sdk [5, 9] = Inr [Some i, None]
    \<and> rm_pubkey i = 5 \<and> rm_decimals i = 6"
proof -
  have "\<exists>infos. get_info_for_mints (\<lambda>ks. Inr (map example_accounts ks)) example_mint_sdk [5, 9] = Inr infos
      \<and> list_all2 (mint_described example_mint_sdk example_accounts) [5, 9] infos"
    by (rule mint_infos_exact) (auto simp: example_accounts_def MINT_LEN_def split: if_splits)
  then show ?thesis
    by (auto simp: list_all2_Cons1 mint_described_def example_accounts_def example_mint_sdk_def)
qed

end
