(* ===== verification/Logs.thy ===== *)
theory Logs
  imports Transaction
begin

text \<open>
  The program logs of a transaction (\<^verbatim>\<open>parser/v1/logs/mod.rs\<close>), the call stack they imply, and the
  events of Pump and Jupiter in them (\<^verbatim>\<open>logs/pump.rs\<close>, \<^verbatim>\<open>logs/jupiter_v6.rs\<close>). The two regular
  expressions of the stack are written out as matchers on strings: \<open>.\<close> does not match a line feed and
  \<open>(.*)\<close> is greedy. Base64, the base58 form of an address and Borsh are arguments.
\<close>

section \<open>System logs\<close>

definition strip_prefix :: "string \<Rightarrow> string \<Rightarrow> string option" where
  "strip_prefix p s = (if take (length p) s = p then Some (drop (length p) s) else None)"

text \<open>What stands before the last occurrence of \<open>pat\<close>.\<close>

fun greedy_before :: "string \<Rightarrow> string \<Rightarrow> string option" where
  "greedy_before pat [] = (if pat = [] then Some [] else None)"
| "greedy_before pat (c # s) = (case greedy_before pat s of
     Some u \<Rightarrow> Some (c # u)
   | None \<Rightarrow> if strip_prefix pat (c # s) \<noteq> None then Some [] else None)"

definition one_line :: "string \<Rightarrow> bool" where
  "one_line l \<longleftrightarrow> list_all (\<lambda>c. c \<noteq> CHR 0x0A) l"

definition CPI_PUSH_RE :: "string \<Rightarrow> string option" where
  "CPI_PUSH_RE l = (if one_line l
     then Option.bind (strip_prefix ''Program '' l) (greedy_before '' invoke'') else None)"

definition ends_in_success :: "string \<Rightarrow> bool" where
  "ends_in_success s \<longleftrightarrow> s \<noteq> [] \<and> last s = CHR ''s''
     \<and> strip_prefix (rev '' succe'') (dropWhile (\<lambda>c. c = CHR ''s'') (rev s)) \<noteq> None"

definition CPI_POP_RE :: "string \<Rightarrow> bool" where
  "CPI_POP_RE l \<longleftrightarrow> one_line l \<and> (case strip_prefix ''Program '' l of
     Some s \<Rightarrow> ends_in_success s | None \<Rightarrow> False)"

datatype cpi_stack_manipulation = CpiPush string | CpiPop | CpiNone

definition handle_system_log :: "string \<Rightarrow> cpi_stack_manipulation" where
  "handle_system_log l = (case CPI_PUSH_RE l of
     Some program \<Rightarrow> CpiPush program
   | None \<Rightarrow> if CPI_POP_RE l then CpiPop else CpiNone)"

section \<open>Program logs\<close>

definition PROGRAM_LOG :: string where
  "PROGRAM_LOG = ''Program log: ''"

definition PROGRAM_DATA :: string where
  "PROGRAM_DATA = ''Program data: ''"

type_synonym bytes = "u8 list"

definition handle_program_log :: "(string \<Rightarrow> bytes option) \<Rightarrow> string \<Rightarrow> bytes option \<times> cpi_stack_manipulation" where
  "handle_program_log decode l =
     (case or_else (strip_prefix PROGRAM_LOG l) (strip_prefix PROGRAM_DATA l) of
        Some msg \<Rightarrow> (decode msg, CpiNone)
      | None \<Rightarrow> (None, handle_system_log l))"

record text_sdk =
  xt_base64 :: "string \<Rightarrow> bytes option"
  xt_to_string :: "pubkey \<Rightarrow> string"
  xt_from_str :: "string \<Rightarrow> pubkey option"

text \<open>\<open>ProgramCpiStack\<close>: the top of the stack is the head of the list.\<close>

definition cpi_stack_new :: "string list \<Rightarrow> string list result" where
  "cpi_stack_new logs = (case logs of
     [] \<Rightarrow> Inl (Panic ''index out of bounds'')
   | l # _ \<Rightarrow> bind_res (ok_or (CPI_PUSH_RE l) ''Failed to parse a program ID from Solana program log'')
       (\<lambda>program. Inr [program]))"

definition emit_event ::
  "text_sdk \<Rightarrow> (string \<times> bytes) option \<Rightarrow> (pubkey, bytes list) store \<Rightarrow> (pubkey, bytes list) store result" where
  "emit_event sdk event events = (case event of
     None \<Rightarrow> Inr events
   | Some (program, e) \<Rightarrow>
       bind_res (expect (xt_from_str sdk program) ''called `Result::unwrap()` on an `Err` value'') (\<lambda>program.
       Inr (case store_get events program of
              Some v \<Rightarrow> store_insert events program (v @ [e])
            | None \<Rightarrow> store_insert events program [e])))"

definition log_event ::
  "text_sdk \<Rightarrow> pubkey option \<Rightarrow> string \<Rightarrow> string \<Rightarrow> (string \<times> bytes) option \<times> cpi_stack_manipulation" where
  "log_event sdk target execution_program l =
     (if (case target of Some program \<Rightarrow> xt_to_string sdk program = execution_program | None \<Rightarrow> True)
      then case handle_program_log (xt_base64 sdk) l of
             (logs, stack) \<Rightarrow> (map_option (Pair execution_program) logs, stack)
      else (None, handle_system_log l))"

fun parse_log_lines ::
  "text_sdk \<Rightarrow> pubkey option \<Rightarrow> string list \<Rightarrow> (pubkey, bytes list) store \<Rightarrow> string list
     \<Rightarrow> (pubkey, bytes list) store result" where
  "parse_log_lines sdk target execution events [] = Inr events"
| "parse_log_lines sdk target execution events (l # logs) = (case execution of
     [] \<Rightarrow> Inl (Panic ''assertion failed: !self.stack.is_empty()'')
   | execution_program # below \<Rightarrow>
       (case log_event sdk target execution_program l of (event, push_or_pop) \<Rightarrow>
        bind_res (emit_event sdk event events) (\<lambda>events.
        parse_log_lines sdk target
          (case push_or_pop of
             CpiPush new_program \<Rightarrow> new_program # execution
           | CpiPop \<Rightarrow> below
           | CpiNone \<Rightarrow> execution) events logs)))"

text \<open>The constructor of the stack drops the first line only from its own view of the logs: the loop
  starts at the first line again, which pushes the first program a second time.\<close>

definition parse_transaction_logs ::
  "text_sdk \<Rightarrow> string list \<Rightarrow> pubkey option \<Rightarrow> (pubkey, bytes list) store result" where
  "parse_transaction_logs sdk logs target =
     (if logs = [] then Inr []
      else case cpi_stack_new logs of
             Inl (Panic e) \<Rightarrow> Inl (Panic e)
           | Inl (Error e) \<Rightarrow> Inr []
           | Inr execution \<Rightarrow> parse_log_lines sdk target execution [] logs)"

definition tx_logs :: "itransaction \<Rightarrow> string list" where
  "tx_logs tx = unwrap_or (Option.bind (tx_meta_opt tx) tm_log_messages) []"

definition get_logs :: "text_sdk \<Rightarrow> itransaction \<Rightarrow> (pubkey, bytes list) store result" where
  "get_logs sdk tx = parse_transaction_logs sdk (tx_logs tx) None"

definition get_logs_for_program :: "text_sdk \<Rightarrow> itransaction \<Rightarrow> pubkey \<Rightarrow> bytes list result" where
  "get_logs_for_program sdk tx target_program =
     bind_res (parse_transaction_logs sdk (tx_logs tx) (Some target_program)) (\<lambda>events.
     Inr (case events of [] \<Rightarrow> [] | (_, v) # _ \<Rightarrow> v))"

section \<open>Events\<close>

definition EVENT_IX_TAG_LE :: bytes where
  "EVENT_IX_TAG_LE = [228, 69, 165, 46, 81, 203, 154, 29]"

definition anchor_event_cpi_filter :: "compiled_instruction \<Rightarrow> bytes option" where
  "anchor_event_cpi_filter ix =
     (if length (ci_data ix) < length EVENT_IX_TAG_LE then None
      else let discriminator = take (length EVENT_IX_TAG_LE) (ci_data ix);
               rest = drop (length EVENT_IX_TAG_LE) (ci_data ix)
           in if discriminator = EVENT_IX_TAG_LE then Some rest else None)"

definition get_cpi_logs_for_instruction :: "itransaction \<Rightarrow> usize \<Rightarrow> bytes list option" where
  "get_cpi_logs_for_instruction tx instruction_idx =
     Option.bind (tx_inner_instructions tx) (\<lambda>inner.
     Option.bind (store_get inner (ucast instruction_idx)) (\<lambda>inner_instructions.
     Some (List.map_filter anchor_event_cpi_filter inner_instructions)))"

definition split_discriminator :: "bytes \<Rightarrow> (bytes \<times> bytes) result" where
  "split_discriminator data =
     (if length data < 8 then Inl (Panic ''range end index 8 out of range'')
      else Inr (take 8 data, drop 8 data))"

text \<open>The loop of the event parsers: the events with one discriminator that deserialize, in order.\<close>

fun events_with :: "bytes \<Rightarrow> (bytes \<Rightarrow> 'e option) \<Rightarrow> bytes list \<Rightarrow> 'e list result" where
  "events_with tag deserialize [] = Inr []"
| "events_with tag deserialize (byte_vec # logs) =
     bind_res (split_discriminator byte_vec) (\<lambda>(discriminator, rest).
     bind_res (events_with tag deserialize logs) (\<lambda>parsed.
     Inr (if discriminator = tag
          then (case deserialize rest of Some event \<Rightarrow> event # parsed | None \<Rightarrow> parsed)
          else parsed)))"

record trade_event =
  te_mint :: pubkey
  te_sol_amount :: u64
  te_token_amount :: u64
  te_is_buy :: bool
  te_user :: pubkey
  te_timestamp :: "64 word"
  te_virtual_sol_reserves :: u64
  te_virtual_token_reserves :: u64
  te_real_sol_reserves :: u64
  te_real_token_reserves :: u64

record swap_event =
  se_amm :: pubkey
  se_input_mint :: pubkey
  se_input_amount :: u64
  se_output_mint :: pubkey
  se_output_amount :: u64

definition TRADE_EVENT_DISCRIMINATOR :: bytes where
  "TRADE_EVENT_DISCRIMINATOR = [189, 219, 127, 211, 78, 230, 97, 238]"

definition SWAP_EVENT_DISCRIMINATOR :: bytes where
  "SWAP_EVENT_DISCRIMINATOR = [64, 198, 205, 232, 38, 8, 113, 226]"

definition parse_pumpfun_swap_events :: "(bytes \<Rightarrow> trade_event option) \<Rightarrow> bytes list \<Rightarrow> trade_event list result" where
  "parse_pumpfun_swap_events deserialize logs = events_with TRADE_EVENT_DISCRIMINATOR deserialize logs"

definition parse_jupiter_swap_events :: "(bytes \<Rightarrow> swap_event option) \<Rightarrow> bytes list \<Rightarrow> swap_event list result" where
  "parse_jupiter_swap_events deserialize logs = events_with SWAP_EVENT_DISCRIMINATOR deserialize logs"

definition merge_jupiter_events :: "swap_event list \<Rightarrow> swap_event option" where
  "merge_jupiter_events events = (case events of
     [] \<Rightarrow> None
   | e # _ \<Rightarrow> Some (e\<lparr>se_output_mint := se_output_mint (last events),
                  se_output_amount := se_output_amount (last events)\<rparr>))"

section \<open>Well-nested logs\<close>

text \<open>The logs of an execution as a tree: a line logged by the running program, or the invocation of
  a program between its opening and its closing line.\<close>

datatype log_item =
  LogLine string
| Invoke string string "log_item list" string

fun render :: "log_item \<Rightarrow> string list" where
  "render (LogLine l) = [l]"
| "render (Invoke op p items cl) = op # concat (map render items) @ [cl]"

text \<open>The opening and closing lines move the stack and no other line does.\<close>

fun log_item_ok :: "(string \<Rightarrow> bytes option) \<Rightarrow> log_item \<Rightarrow> bool" where
  "log_item_ok decode (LogLine l) \<longleftrightarrow> handle_system_log l = CpiNone"
| "log_item_ok decode (Invoke op p items cl) \<longleftrightarrow>
     handle_system_log op = CpiPush p \<and> handle_program_log decode op = (None, CpiPush p)
     \<and> handle_system_log cl = CpiPop \<and> handle_program_log decode cl = (None, CpiPop)
     \<and> list_all (log_item_ok decode) items"

text \<open>What a program itself logged, directly in one of its own invocations, as decoded bytes.\<close>

fun own_events :: "(string \<Rightarrow> bytes option) \<Rightarrow> string \<Rightarrow> string \<Rightarrow> log_item \<Rightarrow> bytes list" where
  "own_events decode target running (LogLine l) =
     (if running = target
      then (case fst (handle_program_log decode l) of Some e \<Rightarrow> [e] | None \<Rightarrow> []) else [])"
| "own_events decode target running (Invoke op p items cl) = concat (map (own_events decode target p) items)"

fun is_invoke :: "log_item \<Rightarrow> bool" where
  "is_invoke (LogLine l) = False"
| "is_invoke (Invoke op p items cl) = True"

lemma handle_program_log_plain:
  "handle_system_log l = CpiNone \<Longrightarrow> snd (handle_program_log decode l) = CpiNone"
  by (simp add: handle_program_log_def split: option.splits)

definition events_entry :: "pubkey \<Rightarrow> bytes list \<Rightarrow> (pubkey, bytes list) store" where
  "events_entry t es = (if es = [] then [] else [(t, es)])"

lemma emit_event_entry:
  assumes "xt_from_str sdk p = Some t"
  shows "emit_event sdk (Some (p, e)) (events_entry t es) = Inr (events_entry t (es @ [e]))"
  using assms by (simp add: emit_event_def events_entry_def expect_def store_get_def store_insert_def)

lemma emit_event_None [simp]: "emit_event sdk None events = Inr events"
  by (simp add: emit_event_def)

lemma parse_log_lines_item:
  assumes "log_item_ok (xt_base64 sdk) x" and "xt_from_str sdk (xt_to_string sdk t) = Some t"
  shows "parse_log_lines sdk (Some t) (p # below) (events_entry t es) (render x @ ls)
    = parse_log_lines sdk (Some t) (p # below)
        (events_entry t (es @ own_events (xt_base64 sdk) (xt_to_string sdk t) p x)) ls"
  using assms(1)
proof (induction x arbitrary: p below es ls)
  case (LogLine l)
  have "snd (handle_program_log (xt_base64 sdk) l) = CpiNone"
    using LogLine by (intro handle_program_log_plain) simp
  then obtain e where e: "handle_program_log (xt_base64 sdk) l = (e, CpiNone)"
    by (metis prod.collapse)
  show ?case
    using LogLine e emit_event_entry [where p = "xt_to_string sdk t", OF assms(2)]
    by (cases e) (auto simp: log_event_def)
next
  case (Invoke op q items cl)
  have items: "parse_log_lines sdk (Some t) (q # p # below) (events_entry t es) (concat (map render items) @ ls)
      = parse_log_lines sdk (Some t) (q # p # below)
          (events_entry t (es @ concat (map (own_events (xt_base64 sdk) (xt_to_string sdk t) q) items))) ls" for es ls
    using Invoke.IH Invoke.prems by (induction items arbitrary: es) auto
  show ?case
    using Invoke.prems items [of es "cl # ls"] by (auto simp: log_event_def)
qed

lemma parse_log_lines_items:
  assumes "list_all (log_item_ok (xt_base64 sdk)) xs" and "xt_from_str sdk (xt_to_string sdk t) = Some t"
  shows "parse_log_lines sdk (Some t) (p # below) (events_entry t es) (concat (map render xs))
    = Inr (events_entry t (es @ concat (map (own_events (xt_base64 sdk) (xt_to_string sdk t) p) xs)))"
  using assms(1)
proof (induction xs arbitrary: es)
  case (Cons x xs)
  then show ?case using parse_log_lines_item [OF _ assms(2), of x] by simp
qed simp

lemma parse_well_nested_logs:
  assumes "list_all (log_item_ok (xt_base64 sdk)) xs" and "list_all is_invoke xs"
    and "xt_from_str sdk (xt_to_string sdk t) = Some t"
  shows "parse_transaction_logs sdk (concat (map render xs)) (Some t)
    = Inr (events_entry t (concat (map (own_events (xt_base64 sdk) (xt_to_string sdk t) []) xs)))"
proof (cases xs)
  case Nil
  then show ?thesis by (simp add: parse_transaction_logs_def events_entry_def)
next
  case (Cons x ys)
  then obtain op p items cl where x: "x = Invoke op p items cl"
    using assms(2) by (cases x) auto
  have "handle_system_log op = CpiPush p" using assms(1) Cons x by simp
  then have "CPI_PUSH_RE op = Some p" by (auto simp: handle_system_log_def split: option.splits if_splits)
  then have "cpi_stack_new (concat (map render xs)) = Inr [p]"
    by (simp add: Cons x cpi_stack_new_def ok_or_def)
  moreover have "own_events d c r i = own_events d c r' i" if "is_invoke i" for d c r r' i
    using that by (cases i) auto
  then have "map (own_events (xt_base64 sdk) (xt_to_string sdk t) p) xs
      = map (own_events (xt_base64 sdk) (xt_to_string sdk t) []) xs"
    using assms(2) by (simp add: list_all_iff)
  moreover have "concat (map render xs) \<noteq> []" by (simp add: Cons x)
  moreover have "events_entry t [] = []" by (simp add: events_entry_def)
  ultimately show ?thesis
    using parse_log_lines_items [OF assms(1,3), of p "[]" "[]"]
    by (simp only: parse_transaction_logs_def if_False sum.case append_Nil)
qed

lemma get_logs_well_nested:
  assumes "list_all (log_item_ok (xt_base64 sdk)) xs" and "list_all is_invoke xs"
    and "xt_from_str sdk (xt_to_string sdk t) = Some t" and "tx_logs tx = concat (map render xs)"
  shows "get_logs_for_program sdk tx t
    = Inr (concat (map (own_events (xt_base64 sdk) (xt_to_string sdk t) []) xs))"
  using parse_well_nested_logs [OF assms(1-3)]
  by (simp only: get_logs_for_program_def assms(4) bind_res_simps) (simp add: events_entry_def)

text \<open>C16. On well-nested logs the stack of programs is followed exactly: the parser never panics, and
  what it returns for a program is, in order, the decoded bytes of the lines that this program logged
  itself, in whatever depth of the call tree, and of no line of a program it calls or is called by.\<close>

theorem program_logs_exact:
  assumes "list_all (log_item_ok (xt_base64 sdk)) xs" and "list_all is_invoke xs"
    and "xt_from_str sdk (xt_to_string sdk t) = Some t" and "tx_logs tx = concat (map render xs)"
  shows "get_logs_for_program sdk tx t
    = Inr (concat (map (own_events (xt_base64 sdk) (xt_to_string sdk t) []) xs))"
  using assms by (rule get_logs_well_nested)

text \<open>A router that logs, calls the target program, which logs data and calls the token program.\<close>

definition example_text_sdk :: text_sdk where
  "example_text_sdk = \<lparr>xt_base64 = (\<lambda>s. if s = ''AQID'' then Some [1, 2, 3] else None),
     xt_to_string = (\<lambda>p. if p = 7 then ''Pump'' else ''Other''),
     xt_from_str = (\<lambda>s. if s = ''Pump'' then Some 7 else Some 0)\<rparr>"

definition example_logs :: "log_item list" where
  "example_logs = [Invoke ''Program Router invoke [1]'' ''Router''
     [LogLine ''Program data: AQID'',
      Invoke ''Program Pump invoke [2]'' ''Pump''
        [LogLine ''Program log: Instruction: Buy'',
         Invoke ''Program Token invoke [3]'' ''Token'' [LogLine ''Program data: AQID''] ''Program Token success'',
         LogLine ''Program data: AQID''] ''Program Pump success'',
      LogLine ''Program Router consumed 9 of 10 compute units''] ''Program Router success'']"

lemmas log_eval = handle_system_log_def handle_program_log_def CPI_PUSH_RE_def CPI_POP_RE_def
  strip_prefix_def one_line_def ends_in_success_def PROGRAM_LOG_def PROGRAM_DATA_def or_else_def

theorem program_logs_exact_witness:
  "get_logs_for_program example_text_sdk
     (plain_tx 0 [] [] [] (Some (tx_meta_empty\<lparr>tm_log_messages := Some (concat (map render example_logs))\<rparr>)))
     7 = Inr [[1, 2, 3]]"
  by (subst program_logs_exact [where xs = example_logs])
    (simp_all add: example_logs_def example_text_sdk_def tx_logs_def log_eval)

lemma greedy_before_short: "length s < length pat \<Longrightarrow> greedy_before pat s = None"
  by (induction s) (auto simp: strip_prefix_def)

lemma greedy_before_end: "pat \<noteq> [] \<Longrightarrow> greedy_before pat (u @ pat) = Some u"
proof (induction u)
  case Nil
  then obtain c p where "pat = c # p" by (cases pat) auto
  then show ?case using greedy_before_short [of p pat] by (simp add: strip_prefix_def)
qed simp

text \<open>The stack is read from the lines of every program but the target, its own messages
  included: whatever a program logs that ends in the word \<open>invoke\<close> is taken for the invocation of a program
  that was never called.\<close>

theorem message_taken_for_invocation:
  assumes "one_line m"
  shows "handle_system_log (PROGRAM_LOG @ m @ '' invoke'') = CpiPush (''log: '' @ m)"
proof -
  have "greedy_before '' invoke'' ((''log: '' @ m) @ '' invoke'') = Some (''log: '' @ m)"
    by (rule greedy_before_end) simp
  then show ?thesis
    using assms by (simp add: handle_system_log_def CPI_PUSH_RE_def PROGRAM_LOG_def strip_prefix_def
        one_line_def del: greedy_before.simps)
qed

theorem message_taken_for_invocation_witness:
  "handle_system_log ''Program log: before invoke'' = CpiPush ''log: before''"
  using message_taken_for_invocation [of "''before''"] by (simp add: PROGRAM_LOG_def one_line_def)

end
