(* ===== verification/Raydium_V4.thy ===== *)
theory Raydium_V4
  imports Logs
begin

text \<open>
  The instructions of Raydium's liquidity pool program (\<^verbatim>\<open>parser/v1/raydium_v4.rs\<close>) and the window
  through which every decoder reads the accounts of an instruction (\<open>KeysWindow\<close> of
  \<^verbatim>\<open>parser/v1/mod.rs\<close>). Unpacking the instruction data is code of the \<open>raydium_amm\<close> crate, an
  argument; of its instructions the model keeps the arguments that the parser reads, the others are a
  type parameter. Indexing out of range panics, a missing key is an error.
\<close>

section \<open>The accounts of an instruction\<close>

record keys_window =
  kw_keys :: "pubkey list"
  kw_accounts :: "u8 list"
  kw_index :: nat
  kw_program_id :: pubkey

definition keys_window_new :: "pubkey list \<Rightarrow> u8 list \<Rightarrow> u8 \<Rightarrow> keys_window result" where
  "keys_window_new keys accounts program_id_idx =
     (if unat program_id_idx < length keys
      then Inr \<lparr>kw_keys = keys, kw_accounts = accounts, kw_index = 0,
                kw_program_id = keys ! unat program_id_idx\<rparr>
      else Inl (Panic ''index out of bounds''))"

definition new_from_instruction :: "pubkey list \<Rightarrow> compiled_instruction \<Rightarrow> keys_window result" where
  "new_from_instruction keys ix =
     (if unat (ci_program_id_index ix) < length keys
      then Inr \<lparr>kw_keys = keys, kw_accounts = ci_accounts ix, kw_index = 0,
                kw_program_id = keys ! unat (ci_program_id_index ix)\<rparr>
      else Inl (Panic ''index out of bounds''))"

definition next_account_key :: "keys_window \<Rightarrow> (keys_window \<times> pubkey) result" where
  "next_account_key w =
     (if length (kw_accounts w) \<le> kw_index w then Inl (Panic ''index out of bounds'')
      else let i = unat (kw_accounts w ! kw_index w)
           in if i < length (kw_keys w)
              then Inr (w\<lparr>kw_index := kw_index w + 1\<rparr>, kw_keys w ! i)
              else Inl (Error ''KeysWindow tried to access out-of-bounds index''))"

definition next_anchor_opt_account_key :: "keys_window \<Rightarrow> (keys_window \<times> pubkey option) result" where
  "next_anchor_opt_account_key w =
     bind_res (next_account_key w) (\<lambda>(w, ret).
     Inr (w, if ret = kw_program_id w then None else Some ret))"

section \<open>Decoding\<close>

record initialize_accounts2 =
  i2_token_program :: pubkey
  i2_associated_token_program :: pubkey
  i2_system_program :: pubkey
  i2_rent :: pubkey
  i2_amm_account :: pubkey
  i2_amm_authority :: pubkey
  i2_amm_open_orders :: pubkey
  i2_amm_lp_mint :: pubkey
  i2_amm_coin_mint :: pubkey
  i2_amm_pc_mint :: pubkey
  i2_amm_coin_vault :: pubkey
  i2_amm_pc_vault :: pubkey
  i2_amm_target_orders :: pubkey
  i2_amm_config :: pubkey
  i2_amm_fee_destination_account :: pubkey
  i2_market_program :: pubkey
  i2_market_account :: pubkey
  i2_user_account :: pubkey
  i2_user_token_coin_account :: pubkey
  i2_user_token_pc_account :: pubkey
  i2_user_destination_lp_token_account :: pubkey

record deposit_accounts =
  dp_token_program :: pubkey
  dp_amm_account :: pubkey
  dp_amm_authority :: pubkey
  dp_amm_open_orders :: pubkey
  dp_amm_target_orders :: pubkey
  dp_amm_lp_mint :: pubkey
  dp_amm_coin_vault :: pubkey
  dp_amm_pc_vault :: pubkey
  dp_market_account :: pubkey
  dp_user_coin_token_account :: pubkey
  dp_user_pc_token_account :: pubkey
  dp_user_lp_token :: pubkey
  dp_user_wallet :: pubkey
  dp_market_event_queue :: pubkey

record withdraw_accounts =
  wd_token_program :: pubkey
  wd_amm_account :: pubkey
  wd_amm_authority :: pubkey
  wd_amm_open_orders :: pubkey
  wd_amm_target_orders :: pubkey
  wd_amm_lp_mint :: pubkey
  wd_amm_coin_vault :: pubkey
  wd_amm_pc_vault :: pubkey
  wd_market_program :: pubkey
  wd_market_account :: pubkey
  wd_market_coin_vault :: pubkey
  wd_market_pc_vault :: pubkey
  wd_market_vault_signer :: pubkey
  wd_user_lp_token_account :: pubkey
  wd_user_coin_token_account :: pubkey
  wd_user_pc_token_account :: pubkey
  wd_user_wallet :: pubkey
  wd_market_event_queue :: pubkey
  wd_market_bids :: pubkey
  wd_market_asks :: pubkey

record swap_base_in_accounts =
  bi_token_program :: pubkey
  bi_amm_account :: pubkey
  bi_amm_authority :: pubkey
  bi_amm_open_orders :: pubkey
  bi_amm_target_orders :: "pubkey option"
  bi_amm_coin_vault :: pubkey
  bi_amm_pc_vault :: pubkey
  bi_market_program :: pubkey
  bi_market_account :: pubkey
  bi_market_bids :: pubkey
  bi_market_asks :: pubkey
  bi_market_event_queue :: pubkey
  bi_market_coin_vault :: pubkey
  bi_market_pc_vault :: pubkey
  bi_market_vault_signer :: pubkey
  bi_user_source_token_account :: pubkey
  bi_user_destination_token_account :: pubkey
  bi_user_wallet_account :: pubkey

record swap_base_out_accounts =
  bo_token_program :: pubkey
  bo_amm_account :: pubkey
  bo_amm_authority :: pubkey
  bo_amm_open_orders :: pubkey
  bo_amm_target_orders :: "pubkey option"
  bo_amm_coin_vault :: pubkey
  bo_amm_pc_vault :: pubkey
  bo_market_program :: pubkey
  bo_market_account :: pubkey
  bo_market_bids :: pubkey
  bo_market_asks :: pubkey
  bo_market_event_queue :: pubkey
  bo_market_coin_vault :: pubkey
  bo_market_pc_vault :: pubkey
  bo_market_vault_signer :: pubkey
  bo_user_source_token_account :: pubkey
  bo_user_destination_token_account :: pubkey
  bo_user_wallet_account :: pubkey

datatype 'x amm_instruction =
  AmmInitialize2 'x
| AmmSwapBaseIn (base_in_amount: u64) (base_in_minimum_out: u64)
| AmmSwapBaseOut (base_out_max_in: u64) (base_out_amount: u64)
| AmmDeposit 'x
| AmmWithdraw 'x
| AmmOther 'x

datatype 'x parsed_raydium_v4_instruction =
  RayInitialize2 'x initialize_accounts2
| RaySwapBaseIn u64 u64 swap_base_in_accounts
| RaySwapBaseOut u64 u64 swap_base_out_accounts
| RayDeposit 'x deposit_accounts
| RayWithdraw 'x withdraw_accounts
| RayUnknown "'x amm_instruction"

fun get_pool_state :: "'x parsed_raydium_v4_instruction \<Rightarrow> pubkey option" where
  "get_pool_state (RayInitialize2 args accounts) = Some (i2_amm_account accounts)"
| "get_pool_state (RayDeposit args accounts) = Some (dp_amm_account accounts)"
| "get_pool_state (RaySwapBaseIn a b accounts) = Some (bi_amm_account accounts)"
| "get_pool_state (RaySwapBaseOut a b accounts) = Some (bo_amm_account accounts)"
| "get_pool_state (RayWithdraw args accounts) = Some (wd_amm_account accounts)"
| "get_pool_state (RayUnknown args) = None"

definition SWAP_INSTRUCTIONS_ACCOUNT_LENGTH :: nat where
  "SWAP_INSTRUCTIONS_ACCOUNT_LENGTH = 17"

definition decode_initialize_accounts2 :: "keys_window \<Rightarrow> initialize_accounts2 result" where
  "decode_initialize_accounts2 window =
     bind_res (next_account_key window) (\<lambda>(window, token_program).
     bind_res (next_account_key window) (\<lambda>(window, associated_token_program).
     bind_res (next_account_key window) (\<lambda>(window, system_program).
     bind_res (next_account_key window) (\<lambda>(window, rent).
     bind_res (next_account_key window) (\<lambda>(window, amm_account).
     bind_res (next_account_key window) (\<lambda>(window, amm_authority).
     bind_res (next_account_key window) (\<lambda>(window, amm_open_orders).
     bind_res (next_account_key window) (\<lambda>(window, amm_lp_mint).
     bind_res (next_account_key window) (\<lambda>(window, amm_coin_mint).
     bind_res (next_account_key window) (\<lambda>(window, amm_pc_mint).
     bind_res (next_account_key window) (\<lambda>(window, amm_coin_vault).
     bind_res (next_account_key window) (\<lambda>(window, amm_pc_vault).
     bind_res (next_account_key window) (\<lambda>(window, amm_target_orders).
     bind_res (next_account_key window) (\<lambda>(window, amm_config).
     bind_res (next_account_key window) (\<lambda>(window, amm_fee_destination_account).
     bind_res (next_account_key window) (\<lambda>(window, market_program).
     bind_res (next_account_key window) (\<lambda>(window, market_account).
     bind_res (next_account_key window) (\<lambda>(window, user_account).
     bind_res (next_account_key window) (\<lambda>(window, user_token_coin_account).
     bind_res (next_account_key window) (\<lambda>(window, user_token_pc_account).
     bind_res (next_account_key window) (\<lambda>(window, user_destination_lp_token_account).
     Inr \<lparr>i2_token_program = token_program, i2_associated_token_program = associated_token_program,
       i2_system_program = system_program, i2_rent = rent,
       i2_amm_account = amm_account, i2_amm_authority = amm_authority,
       i2_amm_open_orders = amm_open_orders, i2_amm_lp_mint = amm_lp_mint,
       i2_amm_coin_mint = amm_coin_mint, i2_amm_pc_mint = amm_pc_mint,
       i2_amm_coin_vault = amm_coin_vault, i2_amm_pc_vault = amm_pc_vault,
       i2_amm_target_orders = amm_target_orders, i2_amm_config = amm_config,
       i2_amm_fee_destination_account = amm_fee_destination_account, i2_market_program = market_program,
       i2_market_account = market_account, i2_user_account = user_account,
       i2_user_token_coin_account = user_token_coin_account, i2_user_token_pc_account = user_token_pc_account,
       i2_user_destination_lp_token_account = user_destination_lp_token_account\<rparr>)))))))))))))))))))))"

definition decode_deposit_accounts :: "keys_window \<Rightarrow> deposit_accounts result" where
  "decode_deposit_accounts window =
     bind_res (next_account_key window) (\<lambda>(window, token_program).
     bind_res (next_account_key window) (\<lambda>(window, amm_account).
     bind_res (next_account_key window) (\<lambda>(window, amm_authority).
     bind_res (next_account_key window) (\<lambda>(window, amm_open_orders).
     bind_res (next_account_key window) (\<lambda>(window, amm_target_orders).
     bind_res (next_account_key window) (\<lambda>(window, amm_lp_mint).
     bind_res (next_account_key window) (\<lambda>(window, amm_coin_vault).
     bind_res (next_account_key window) (\<lambda>(window, amm_pc_vault).
     bind_res (next_account_key window) (\<lambda>(window, market_account).
     bind_res (next_account_key window) (\<lambda>(window, user_coin_token_account).
     bind_res (next_account_key window) (\<lambda>(window, user_pc_token_account).
     bind_res (next_account_key window) (\<lambda>(window, user_lp_token).
     bind_res (next_account_key window) (\<lambda>(window, user_wallet).
     bind_res (next_account_key window) (\<lambda>(window, market_event_queue).
     Inr \<lparr>dp_token_program = token_program, dp_amm_account = amm_account,
       dp_amm_authority = amm_authority, dp_amm_open_orders = amm_open_orders,
       dp_amm_target_orders = amm_target_orders, dp_amm_lp_mint = amm_lp_mint,
       dp_amm_coin_vault = amm_coin_vault, dp_amm_pc_vault = amm_pc_vault,
       dp_market_account = market_account, dp_user_coin_token_account = user_coin_token_account,
       dp_user_pc_token_account = user_pc_token_account, dp_user_lp_token = user_lp_token,
       dp_user_wallet = user_wallet, dp_market_event_queue = market_event_queue\<rparr>))))))))))))))"

definition decode_withdraw_accounts :: "keys_window \<Rightarrow> withdraw_accounts result" where
  "decode_withdraw_accounts window =
     bind_res (next_account_key window) (\<lambda>(window, token_program).
     bind_res (next_account_key window) (\<lambda>(window, amm_account).
     bind_res (next_account_key window) (\<lambda>(window, amm_authority).
     bind_res (next_account_key window) (\<lambda>(window, amm_open_orders).
     bind_res (next_account_key window) (\<lambda>(window, amm_target_orders).
     bind_res (next_account_key window) (\<lambda>(window, amm_lp_mint).
     bind_res (next_account_key window) (\<lambda>(window, amm_coin_vault).
     bind_res (next_account_key window) (\<lambda>(window, amm_pc_vault).
     bind_res (next_account_key window) (\<lambda>(window, market_program).
     bind_res (next_account_key window) (\<lambda>(window, market_account).
     bind_res (next_account_key window) (\<lambda>(window, market_coin_vault).
     bind_res (next_account_key window) (\<lambda>(window, market_pc_vault).
     bind_res (next_account_key window) (\<lambda>(window, market_vault_signer).
     bind_res (next_account_key window) (\<lambda>(window, user_lp_token_account).
     bind_res (next_account_key window) (\<lambda>(window, user_coin_token_account).
     bind_res (next_account_key window) (\<lambda>(window, user_pc_token_account).
     bind_res (next_account_key window) (\<lambda>(window, user_wallet).
     bind_res (next_account_key window) (\<lambda>(window, market_event_queue).
     bind_res (next_account_key window) (\<lambda>(window, market_bids).
     bind_res (next_account_key window) (\<lambda>(window, market_asks).
     Inr \<lparr>wd_token_program = token_program, wd_amm_account = amm_account,
       wd_amm_authority = amm_authority, wd_amm_open_orders = amm_open_orders,
       wd_amm_target_orders = amm_target_orders, wd_amm_lp_mint = amm_lp_mint,
       wd_amm_coin_vault = amm_coin_vault, wd_amm_pc_vault = amm_pc_vault,
       wd_market_program = market_program, wd_market_account = market_account,
       wd_market_coin_vault = market_coin_vault, wd_market_pc_vault = market_pc_vault,
       wd_market_vault_signer = market_vault_signer, wd_user_lp_token_account = user_lp_token_account,
       wd_user_coin_token_account = user_coin_token_account, wd_user_pc_token_account = user_pc_token_account,
       wd_user_wallet = user_wallet, wd_market_event_queue = market_event_queue,
       wd_market_bids = market_bids, wd_market_asks = market_asks\<rparr>))))))))))))))))))))"

definition decode_swap_base_in_accounts :: "bool \<Rightarrow> keys_window \<Rightarrow> swap_base_in_accounts result" where
  "decode_swap_base_in_accounts include_target_orders window =
     bind_res (next_account_key window) (\<lambda>(window, token_program).
     bind_res (next_account_key window) (\<lambda>(window, amm_account).
     bind_res (next_account_key window) (\<lambda>(window, amm_authority).
     bind_res (next_account_key window) (\<lambda>(window, amm_open_orders).
     bind_res (if include_target_orders
         then bind_res (next_account_key window) (\<lambda>(window, key). Inr (window, Some key))
         else Inr (window, None)) (\<lambda>(window, amm_target_orders).
     bind_res (next_account_key window) (\<lambda>(window, amm_coin_vault).
     bind_res (next_account_key window) (\<lambda>(window, amm_pc_vault).
     bind_res (next_account_key window) (\<lambda>(window, market_program).
     bind_res (next_account_key window) (\<lambda>(window, market_account).
     bind_res (next_account_key window) (\<lambda>(window, market_bids).
     bind_res (next_account_key window) (\<lambda>(window, market_asks).
     bind_res (next_account_key window) (\<lambda>(window, market_event_queue).
     bind_res (next_account_key window) (\<lambda>(window, market_coin_vault).
     bind_res (next_account_key window) (\<lambda>(window, market_pc_vault).
     bind_res (next_account_key window) (\<lambda>(window, market_vault_signer).
     bind_res (next_account_key window) (\<lambda>(window, user_source_token_account).
     bind_res (next_account_key window) (\<lambda>(window, user_destination_token_account).
     bind_res (next_account_key window) (\<lambda>(window, user_wallet_account).
     Inr \<lparr>bi_token_program = token_program, bi_amm_account = amm_account,
       bi_amm_authority = amm_authority, bi_amm_open_orders = amm_open_orders,
       bi_amm_target_orders = amm_target_orders, bi_amm_coin_vault = amm_coin_vault,
       bi_amm_pc_vault = amm_pc_vault, bi_market_program = market_program,
       bi_market_account = market_account, bi_market_bids = market_bids,
       bi_market_asks = market_asks, bi_market_event_queue = market_event_queue,
       bi_market_coin_vault = market_coin_vault, bi_market_pc_vault = market_pc_vault,
       bi_market_vault_signer = market_vault_signer, bi_user_source_token_account = user_source_token_account,
       bi_user_destination_token_account = user_destination_token_account, bi_user_wallet_account = user_wallet_account\<rparr>))))))))))))))))))"

definition decode_swap_base_out_accounts :: "bool \<Rightarrow> keys_window \<Rightarrow> swap_base_out_accounts result" where
  "decode_swap_base_out_accounts include_target_orders window =
     bind_res (next_account_key window) (\<lambda>(window, token_program).
     bind_res (next_account_key window) (\<lambda>(window, amm_account).
     bind_res (next_account_key window) (\<lambda>(window, amm_authority).
     bind_res (next_account_key window) (\<lambda>(window, amm_open_orders).
     bind_res (if include_target_orders
         then bind_res (next_account_key window) (\<lambda>(window, key). Inr (window, Some key))
         else Inr (window, None)) (\<lambda>(window, amm_target_orders).
     bind_res (next_account_key window) (\<lambda>(window, amm_coin_vault).
     bind_res (next_account_key window) (\<lambda>(window, amm_pc_vault).
     bind_res (next_account_key window) (\<lambda>(window, market_program).
     bind_res (next_account_key window) (\<lambda>(window, market_account).
     bind_res (next_account_key window) (\<lambda>(window, market_bids).
     bind_res (next_account_key window) (\<lambda>(window, market_asks).
     bind_res (next_account_key window) (\<lambda>(window, market_event_queue).
     bind_res (next_account_key window) (\<lambda>(window, market_coin_vault).
     bind_res (next_account_key window) (\<lambda>(window, market_pc_vault).
     bind_res (next_account_key window) (\<lambda>(window, market_vault_signer).
     bind_res (next_account_key window) (\<lambda>(window, user_source_token_account).
     bind_res (next_account_key window) (\<lambda>(window, user_destination_token_account).
     bind_res (next_account_key window) (\<lambda>(window, user_wallet_account).
     Inr \<lparr>bo_token_program = token_program, bo_amm_account = amm_account,
       bo_amm_authority = amm_authority, bo_amm_open_orders = amm_open_orders,
       bo_amm_target_orders = amm_target_orders, bo_amm_coin_vault = amm_coin_vault,
       bo_amm_pc_vault = amm_pc_vault, bo_market_program = market_program,
       bo_market_account = market_account, bo_market_bids = market_bids,
       bo_market_asks = market_asks, bo_market_event_queue = market_event_queue,
       bo_market_coin_vault = market_coin_vault, bo_market_pc_vault = market_pc_vault,
       bo_market_vault_signer = market_vault_signer, bo_user_source_token_account = user_source_token_account,
       bo_user_destination_token_account = user_destination_token_account, bo_user_wallet_account = user_wallet_account\<rparr>))))))))))))))))))"

definition decode_raydium_v4_instruction ::
  "(u8 list \<Rightarrow> 'x amm_instruction result) \<Rightarrow> compiled_instruction \<Rightarrow> pubkey list
     \<Rightarrow> 'x parsed_raydium_v4_instruction result" where
  "decode_raydium_v4_instruction unpack ix keys =
     bind_res (unpack (ci_data ix)) (\<lambda>unpacked.
     bind_res (new_from_instruction keys ix) (\<lambda>window.
     let include_target_orders = SWAP_INSTRUCTIONS_ACCOUNT_LENGTH < length (ci_accounts ix)
     in case unpacked of
          AmmInitialize2 args \<Rightarrow>
            bind_res (decode_initialize_accounts2 window) (\<lambda>accounts. Inr (RayInitialize2 args accounts))
        | AmmSwapBaseIn a b \<Rightarrow>
            bind_res (decode_swap_base_in_accounts include_target_orders window) (\<lambda>accounts.
            Inr (RaySwapBaseIn a b accounts))
        | AmmSwapBaseOut a b \<Rightarrow>
            bind_res (decode_swap_base_out_accounts include_target_orders window) (\<lambda>accounts.
            Inr (RaySwapBaseOut a b accounts))
        | AmmDeposit args \<Rightarrow>
            bind_res (decode_deposit_accounts window) (\<lambda>accounts. Inr (RayDeposit args accounts))
        | AmmWithdraw args \<Rightarrow>
            bind_res (decode_withdraw_accounts window) (\<lambda>accounts. Inr (RayWithdraw args accounts))
        | AmmOther args \<Rightarrow> Inr (RayUnknown (AmmOther args))))"

section \<open>The accounts of a swap\<close>

lemma next_account_key_ok:
  assumes "kw_index w < length (kw_accounts w)" and "list_all (\<lambda>i. unat i < length (kw_keys w)) (kw_accounts w)"
  shows "next_account_key w
    = Inr (w\<lparr>kw_index := kw_index w + 1\<rparr>, kw_keys w ! unat (kw_accounts w ! kw_index w))"
  using assms by (simp add: next_account_key_def list_all_length)

lemmas decode_eval = next_account_key_ok Let_def SWAP_INSTRUCTIONS_ACCOUNT_LENGTH_def

lemma decode_swap_base_in_ok:
  assumes "list_all (\<lambda>i. unat i < length keys) accounts"
    and "if tgt then 18 \<le> length accounts else 17 \<le> length accounts"
  shows "\<exists>a. decode_swap_base_in_accounts tgt
      \<lparr>kw_keys = keys, kw_accounts = accounts, kw_index = 0, kw_program_id = p\<rparr> = Inr a
    \<and> bi_amm_account a = keys ! unat (accounts ! 1)
    \<and> bi_amm_coin_vault a = keys ! unat (accounts ! (if tgt then 5 else 4))
    \<and> bi_amm_pc_vault a = keys ! unat (accounts ! (if tgt then 6 else 5))
    \<and> bi_user_source_token_account a = keys ! unat (accounts ! (if tgt then 15 else 14))
    \<and> bi_user_destination_token_account a = keys ! unat (accounts ! (if tgt then 16 else 15))
    \<and> bi_user_wallet_account a = keys ! unat (accounts ! (if tgt then 17 else 16))"
proof -
  have "accounts \<noteq> []" using assms(2) by (auto split: if_splits)
  then show ?thesis
    using assms by (cases tgt) (simp_all add: decode_swap_base_in_accounts_def decode_eval, simp_all add: eval_nat_numeral)
qed

lemma decode_swap_base_out_ok:
  assumes "list_all (\<lambda>i. unat i < length keys) accounts"
    and "if tgt then 18 \<le> length accounts else 17 \<le> length accounts"
  shows "\<exists>a. decode_swap_base_out_accounts tgt
      \<lparr>kw_keys = keys, kw_accounts = accounts, kw_index = 0, kw_program_id = p\<rparr> = Inr a
    \<and> bo_amm_account a = keys ! unat (accounts ! 1)
    \<and> bo_amm_coin_vault a = keys ! unat (accounts ! (if tgt then 5 else 4))
    \<and> bo_amm_pc_vault a = keys ! unat (accounts ! (if tgt then 6 else 5))
    \<and> bo_user_source_token_account a = keys ! unat (accounts ! (if tgt then 15 else 14))
    \<and> bo_user_destination_token_account a = keys ! unat (accounts ! (if tgt then 16 else 15))
    \<and> bo_user_wallet_account a = keys ! unat (accounts ! (if tgt then 17 else 16))"
proof -
  have "accounts \<noteq> []" using assms(2) by (auto split: if_splits)
  then show ?thesis
    using assms by (cases tgt) (simp_all add: decode_swap_base_out_accounts_def decode_eval, simp_all add: eval_nat_numeral)
qed

text \<open>A Raydium swap instruction with the 17 accounts of the current layout or the 18 of the old
  one, all of them loaded, is decoded without error or panic, and the pool, the two vaults, the two
  token accounts of the user and the wallet are the keys at the positions of that layout.\<close>

theorem swap_base_in_layout:
  assumes "unpack (ci_data ix) = Inr (AmmSwapBaseIn amount_in minimum_out)"
    and "unat (ci_program_id_index ix) < length keys"
    and "list_all (\<lambda>i. unat i < length keys) (ci_accounts ix)"
    and "length (ci_accounts ix) = 17 \<or> length (ci_accounts ix) = 18"
  defines "key \<equiv> \<lambda>i. keys ! unat (ci_accounts ix ! i)" and "old \<equiv> length (ci_accounts ix) = 18"
  shows "\<exists>a. decode_raydium_v4_instruction unpack ix keys = Inr (RaySwapBaseIn amount_in minimum_out a)
    \<and> bi_amm_account a = key 1 \<and> bi_user_wallet_account a = last (map (\<lambda>i. keys ! unat i) (ci_accounts ix))
    \<and> bi_amm_coin_vault a = key (if old then 5 else 4) \<and> bi_amm_pc_vault a = key (if old then 6 else 5)
    \<and> bi_user_source_token_account a = key (if old then 15 else 14)
    \<and> bi_user_destination_token_account a = key (if old then 16 else 15)"
proof -
  have old: "SWAP_INSTRUCTIONS_ACCOUNT_LENGTH < length (ci_accounts ix) \<longleftrightarrow> old"
    using assms(4) by (auto simp: old_def SWAP_INSTRUCTIONS_ACCOUNT_LENGTH_def)
  have "ci_accounts ix \<noteq> []" using assms(4) by auto
  then have "last (map (\<lambda>i. keys ! unat i) (ci_accounts ix)) = key (if old then 17 else 16)"
    using assms(4) by (auto simp: last_conv_nth old_def key_def)
  moreover have "if old then 18 \<le> length (ci_accounts ix) else 17 \<le> length (ci_accounts ix)"
    using assms(4) by (auto simp: old_def)
  ultimately show ?thesis
    using decode_swap_base_in_ok [OF assms(3), of old "keys ! unat (ci_program_id_index ix)"] assms(1,2)
    by (auto simp: decode_raydium_v4_instruction_def new_from_instruction_def Let_def old key_def)
qed

theorem swap_base_in_layout_witness:
  "\<exists>a. decode_raydium_v4_instruction (\<lambda>_. Inr (AmmSwapBaseIn 100 7 :: unit amm_instruction))
      \<lparr>ci_program_id_index = 0, ci_accounts = map of_nat [0..<17], ci_data = [9]\<rparr>
      (map of_nat [100..<117]) = Inr (RaySwapBaseIn 100 7 a)
    \<and> bi_amm_account a = 101 \<and> bi_user_wallet_account a = 116"
proof -
  let ?ix = "\<lparr>ci_program_id_index = 0, ci_accounts = map of_nat [0..<17], ci_data = [9]\<rparr>"
  have "\<exists>a. decode_raydium_v4_instruction (\<lambda>_. Inr (AmmSwapBaseIn 100 7 :: unit amm_instruction)) ?ix
      (map of_nat [100..<117]) = Inr (RaySwapBaseIn 100 7 a)
    \<and> bi_amm_account a = (map of_nat [100..<117]) ! unat (ci_accounts ?ix ! 1)
    \<and> bi_user_wallet_account a = last (map (\<lambda>i. (map of_nat [100..<117]) ! unat i) (ci_accounts ?ix))"
    using swap_base_in_layout [where ix = ?ix and keys = "map of_nat [100..<117]"
        and unpack = "\<lambda>_. Inr (AmmSwapBaseIn 100 7 :: unit amm_instruction)"]
    by (simp add: upt_rec) blast
  then show ?thesis by (simp add: upt_rec)
qed

end
