(* ===== verification/Wire_Ix.thy ===== *)
theory Wire_Ix
  imports Raydium_V4
begin

text \<open>
  Instructions as the generated clients build them (\<^verbatim>\<open>parser/generated\<close>) and as the parser reads them
  back. The byte format of the arguments is that of the borsh library, of which the model has only a
  pair of functions per argument type, a \<open>codec\<close>; what the round trips rely on is \<open>faithful\<close>, that
  the bytes of a value are read back to the value, whatever follows them. Compiling an instruction into
  a message is code of the Solana SDK; \<open>compiled\<close> states what it promises: the same data and the same
  keys, through indices into the keys of the message.
\<close>

record account_meta =
  am_pubkey :: pubkey
  am_is_signer :: bool
  am_is_writable :: bool

record wire_instruction =
  wi_program_id :: pubkey
  wi_accounts :: "account_meta list"
  wi_data :: bytes

definition meta_new :: "pubkey \<Rightarrow> bool \<Rightarrow> account_meta" where
  "meta_new key is_signer = \<lparr>am_pubkey = key, am_is_signer = is_signer, am_is_writable = True\<rparr>"

definition meta_new_readonly :: "pubkey \<Rightarrow> bool \<Rightarrow> account_meta" where
  "meta_new_readonly key is_signer = \<lparr>am_pubkey = key, am_is_signer = is_signer, am_is_writable = False\<rparr>"

lemma meta_pubkey [simp]: "am_pubkey (meta_new k s) = k" "am_pubkey (meta_new_readonly k s) = k"
  by (simp_all add: meta_new_def meta_new_readonly_def)

record 'a codec =
  cd_put :: "'a \<Rightarrow> bytes option"
  cd_get :: "bytes \<Rightarrow> ('a \<times> bytes) option"

definition faithful :: "'a codec \<Rightarrow> 'a \<Rightarrow> bool" where
  "faithful c x \<longleftrightarrow> (\<forall>bs rest. cd_put c x = Some bs \<longrightarrow> cd_get c (bs @ rest) = Some (x, rest))"

definition decode_instruction :: "'a codec \<Rightarrow> bytes \<Rightarrow> 'a result" where
  "decode_instruction c rest = (case cd_get c rest of
     None \<Rightarrow> Inl (Error ''InstructionDidNotDeserialize'')
   | Some (args, _) \<Rightarrow> Inr args)"

lemma decode_instruction_put:
  assumes "faithful c args" and "cd_put c args = Some bs"
  shows "decode_instruction c bs = Inr args"
  using assms(1) [unfolded faithful_def, rule_format, OF assms(2), of "[]"]
  by (simp add: decode_instruction_def)

section \<open>Compiled instructions\<close>

definition compiled :: "pubkey list \<Rightarrow> wire_instruction \<Rightarrow> compiled_instruction \<Rightarrow> bool" where
  "compiled keys ins ix \<longleftrightarrow>
     ci_data ix = wi_data ins
   \<and> unat (ci_program_id_index ix) < length keys \<and> keys ! unat (ci_program_id_index ix) = wi_program_id ins
   \<and> list_all2 (\<lambda>i meta. unat i < length keys \<and> keys ! unat i = am_pubkey meta) (ci_accounts ix) (wi_accounts ins)"

lemma compiledI:
  assumes "ci_data ix = wi_data ins" and "unat (ci_program_id_index ix) < length keys"
    and "keys ! unat (ci_program_id_index ix) = wi_program_id ins"
    and "list_all (\<lambda>i. unat i < length keys) (ci_accounts ix)"
    and "map (\<lambda>i. keys ! unat i) (ci_accounts ix) = map am_pubkey (wi_accounts ins)"
  shows "compiled keys ins ix"
proof -
  have "length (ci_accounts ix) = length (wi_accounts ins)"
    using arg_cong [OF assms(5), of length] by simp
  then show ?thesis
    using assms by (auto simp: compiled_def list_all2_conv_all_nth list_all_length dest!: arg_cong [of _ _ "\<lambda>xs. xs ! _"]
      list_eq_iff_nth_eq [THEN iffD1])
qed

text \<open>What a window has still to read, and that every index it holds is one of a key.\<close>

definition remaining_keys :: "keys_window \<Rightarrow> pubkey list" where
  "remaining_keys w = map (\<lambda>i. kw_keys w ! unat i) (drop (kw_index w) (kw_accounts w))"

definition valid_window :: "keys_window \<Rightarrow> bool" where
  "valid_window w \<longleftrightarrow> list_all (\<lambda>i. unat i < length (kw_keys w)) (kw_accounts w)"

definition advance_window :: "keys_window \<Rightarrow> keys_window" where
  "advance_window w = w\<lparr>kw_index := kw_index w + 1\<rparr>"

lemma advance_window_simps [simp]:
  "valid_window (advance_window w) = valid_window w"
  "remaining_keys (advance_window w) = tl (remaining_keys w)"
  "kw_program_id (advance_window w) = kw_program_id w"
  by (simp_all add: advance_window_def valid_window_def remaining_keys_def drop_Suc tl_drop flip: map_tl)

lemma next_account_key_remaining:
  assumes "valid_window w" and "remaining_keys w \<noteq> []"
  shows "next_account_key w = Inr (advance_window w, hd (remaining_keys w))"
proof -
  have less: "kw_index w < length (kw_accounts w)"
    using assms(2) by (simp add: remaining_keys_def)
  have "hd (remaining_keys w) = kw_keys w ! unat (kw_accounts w ! kw_index w)"
    using less by (simp add: remaining_keys_def hd_map hd_drop_conv_nth)
  then show ?thesis
    using less assms(1) by (simp add: next_account_key_ok valid_window_def advance_window_def)
qed

lemma next_anchor_opt_account_key_remaining:
  assumes "valid_window w" and "remaining_keys w \<noteq> []"
  shows "next_anchor_opt_account_key w = Inr (advance_window w,
    if hd (remaining_keys w) = kw_program_id w then None else Some (hd (remaining_keys w)))"
  by (simp add: next_anchor_opt_account_key_def next_account_key_remaining [OF assms])

lemmas window_reads = next_account_key_remaining next_anchor_opt_account_key_remaining

lemma compiled_window:
  assumes "compiled keys ins ix"
  obtains w where "new_from_instruction keys ix = Inr w" and "valid_window w"
    and "remaining_keys w = map am_pubkey (wi_accounts ins)" and "kw_program_id w = wi_program_id ins"
proof -
  let ?w = "\<lparr>kw_keys = keys, kw_accounts = ci_accounts ix, kw_index = 0,
    kw_program_id = keys ! unat (ci_program_id_index ix)\<rparr>"
  have all: "list_all2 (\<lambda>i meta. unat i < length keys \<and> keys ! unat i = am_pubkey meta) (ci_accounts ix) (wi_accounts ins)"
    using assms by (simp add: compiled_def)
  have "new_from_instruction keys ix = Inr ?w" "kw_program_id ?w = wi_program_id ins"
    using assms by (simp_all add: compiled_def new_from_instruction_def)
  moreover have "valid_window ?w"
    using all by (auto simp: valid_window_def list_all_length list_all2_conv_all_nth)
  moreover have "remaining_keys ?w = map am_pubkey (wi_accounts ins)"
    using all by (auto simp: remaining_keys_def list_all2_conv_all_nth intro: nth_equalityI)
  ultimately show ?thesis using that by blast
qed

text \<open>The eight bytes of a discriminator are split off again.\<close>

lemma split_discriminator_append:
  "length d = 8 \<Longrightarrow> split_discriminator (d @ bs) = Inr (d, bs)"
  by (simp add: split_discriminator_def)

lemma compiled_data: "compiled keys ins ix \<Longrightarrow> ci_data ix = wi_data ins"
  by (simp add: compiled_def)

text \<open>What a decoder finds in a compiled instruction: the discriminator, the bytes of the arguments
  and a window on the keys of its accounts.\<close>

lemma compiled_reads:
  assumes "compiled keys ins ix" and "wi_data ins = d @ bs" and "length d = 8"
  obtains w where "split_discriminator (ci_data ix) = Inr (d, bs)" and "new_from_instruction keys ix = Inr w"
    and "valid_window w" and "remaining_keys w = map am_pubkey (wi_accounts ins)"
    and "kw_program_id w = wi_program_id ins"
  using compiled_window [OF assms(1)] split_discriminator_append [OF assms(3), of bs]
  by (metis assms(1,2) compiled_data)

text \<open>Every window that is too short makes the reading of the next account panic, whatever the keys are.\<close>

lemma next_account_key_exhausted:
  "remaining_keys w = [] \<Longrightarrow> next_account_key w = Inl (Panic ''index out of bounds'')"
  by (simp add: remaining_keys_def next_account_key_def)

end
