(* ===== verification/Pump_Ix.thy ===== *)
theory Pump_Ix
  imports Wire_Ix
begin

text \<open>
  The generated client of the pump program (\<^verbatim>\<open>parser/generated/pump/instructions/buy.rs\<close>, \<^verbatim>\<open>sell.rs\<close>):
  the accounts and arguments of its two trades, the instruction of each, and the builders. A builder
  holds every account and argument as an option; its setters fill one in, and \<open>instruction\<close> panics at
  the first required one that is missing, in the order in which the instruction lists them.
\<close>

definition PUMP_ID :: pubkey where
  "PUMP_ID = 605814335005781813025241542787157911726959411820757128006101511735853521072"

section \<open>Buying\<close>

record pump_buy =
  pby_global :: pubkey
  pby_fee_recipient :: pubkey
  pby_mint :: pubkey
  pby_bonding_curve :: pubkey
  pby_associated_bonding_curve :: pubkey
  pby_associated_user :: pubkey
  pby_user :: pubkey
  pby_system_program :: pubkey
  pby_token_program :: pubkey
  pby_rent :: pubkey
  pby_event_authority :: pubkey
  pby_program :: pubkey

record pump_buy_args =
  pba_amount :: u64
  pba_max_sol_cost :: u64

definition pump_buy_data :: bytes where
  "pump_buy_data = [102, 6, 61, 18, 1, 218, 235, 234]"

definition pump_buy_instruction_with_remaining_accounts ::
  "pump_buy_args codec \<Rightarrow> pump_buy \<Rightarrow> pump_buy_args \<Rightarrow> account_meta list
     \<Rightarrow> wire_instruction result" where
  "pump_buy_instruction_with_remaining_accounts c self args remaining_accounts =
     (let accounts =
       [meta_new_readonly (pby_global self) False,
        meta_new (pby_fee_recipient self) False,
        meta_new_readonly (pby_mint self) False,
        meta_new (pby_bonding_curve self) False,
        meta_new (pby_associated_bonding_curve self) False,
        meta_new (pby_associated_user self) False,
        meta_new (pby_user self) True,
        meta_new_readonly (pby_system_program self) False,
        meta_new_readonly (pby_token_program self) False,
        meta_new_readonly (pby_rent self) False,
        meta_new_readonly (pby_event_authority self) False,
        meta_new_readonly (pby_program self) False] @ remaining_accounts;
          data = pump_buy_data
      in bind_res (expect (cd_put c args) ''called `Result::unwrap()` on an `Err` value'') (\<lambda>args.
         Inr \<lparr>wi_program_id = PUMP_ID, wi_accounts = accounts, wi_data = data @ args\<rparr>))"

definition pump_buy_instruction ::
  "pump_buy_args codec \<Rightarrow> pump_buy \<Rightarrow> pump_buy_args \<Rightarrow> wire_instruction result" where
  "pump_buy_instruction c self args = pump_buy_instruction_with_remaining_accounts c self args []"

record pump_buy_builder =
  bb_global :: "pubkey option"
  bb_fee_recipient :: "pubkey option"
  bb_mint :: "pubkey option"
  bb_bonding_curve :: "pubkey option"
  bb_associated_bonding_curve :: "pubkey option"
  bb_associated_user :: "pubkey option"
  bb_user :: "pubkey option"
  bb_system_program :: "pubkey option"
  bb_token_program :: "pubkey option"
  bb_rent :: "pubkey option"
  bb_event_authority :: "pubkey option"
  bb_program :: "pubkey option"
  bb_amount :: "u64 option"
  bb_max_sol_cost :: "u64 option"
  bb_remaining_accounts :: "account_meta list"

definition pump_buy_builder_new :: pump_buy_builder where
  "pump_buy_builder_new = \<lparr>bb_global = None,
     bb_fee_recipient = None,
     bb_mint = None,
     bb_bonding_curve = None,
     bb_associated_bonding_curve = None,
     bb_associated_user = None,
     bb_user = None,
     bb_system_program = None,
     bb_token_program = None,
     bb_rent = None,
     bb_event_authority = None,
     bb_program = None,
     bb_amount = None,
     bb_max_sol_cost = None,
     bb_remaining_accounts = []\<rparr>"

definition pump_buy_global :: "pubkey \<Rightarrow> pump_buy_builder \<Rightarrow> pump_buy_builder" where
  "pump_buy_global global b = b\<lparr>bb_global := Some global\<rparr>"

definition pump_buy_fee_recipient :: "pubkey \<Rightarrow> pump_buy_builder \<Rightarrow> pump_buy_builder" where
  "pump_buy_fee_recipient fee_recipient b = b\<lparr>bb_fee_recipient := Some fee_recipient\<rparr>"

definition pump_buy_mint :: "pubkey \<Rightarrow> pump_buy_builder \<Rightarrow> pump_buy_builder" where
  "pump_buy_mint mint b = b\<lparr>bb_mint := Some mint\<rparr>"

definition pump_buy_bonding_curve :: "pubkey \<Rightarrow> pump_buy_builder \<Rightarrow> pump_buy_builder" where
  "pump_buy_bonding_curve bonding_curve b = b\<lparr>bb_bonding_curve := Some bonding_curve\<rparr>"

definition pump_buy_associated_bonding_curve :: "pubkey \<Rightarrow> pump_buy_builder \<Rightarrow> pump_buy_builder" where
  "pump_buy_associated_bonding_curve associated_bonding_curve b = b\<lparr>bb_associated_bonding_curve := Some associated_bonding_curve\<rparr>"

definition pump_buy_associated_user :: "pubkey \<Rightarrow> pump_buy_builder \<Rightarrow> pump_buy_builder" where
  "pump_buy_associated_user associated_user b = b\<lparr>bb_associated_user := Some associated_user\<rparr>"

definition pump_buy_user :: "pubkey \<Rightarrow> pump_buy_builder \<Rightarrow> pump_buy_builder" where
  "pump_buy_user user b = b\<lparr>bb_user := Some user\<rparr>"

definition pump_buy_system_program :: "pubkey \<Rightarrow> pump_buy_builder \<Rightarrow> pump_buy_builder" where
  "pump_buy_system_program system_program b = b\<lparr>bb_system_program := Some system_program\<rparr>"

definition pump_buy_token_program :: "pubkey \<Rightarrow> pump_buy_builder \<Rightarrow> pump_buy_builder" where
  "pump_buy_token_program token_program b = b\<lparr>bb_token_program := Some token_program\<rparr>"

definition pump_buy_rent :: "pubkey \<Rightarrow> pump_buy_builder \<Rightarrow> pump_buy_builder" where
  "pump_buy_rent rent b = b\<lparr>bb_rent := Some rent\<rparr>"

definition pump_buy_event_authority :: "pubkey \<Rightarrow> pump_buy_builder \<Rightarrow> pump_buy_builder" where
  "pump_buy_event_authority event_authority b = b\<lparr>bb_event_authority := Some event_authority\<rparr>"

definition pump_buy_program :: "pubkey \<Rightarrow> pump_buy_builder \<Rightarrow> pump_buy_builder" where
  "pump_buy_program program b = b\<lparr>bb_program := Some program\<rparr>"

definition pump_buy_amount :: "u64 \<Rightarrow> pump_buy_builder \<Rightarrow> pump_buy_builder" where
  "pump_buy_amount amount b = b\<lparr>bb_amount := Some amount\<rparr>"

definition pump_buy_max_sol_cost :: "u64 \<Rightarrow> pump_buy_builder \<Rightarrow> pump_buy_builder" where
  "pump_buy_max_sol_cost max_sol_cost b = b\<lparr>bb_max_sol_cost := Some max_sol_cost\<rparr>"

definition pump_buy_add_remaining_account :: "account_meta \<Rightarrow> pump_buy_builder \<Rightarrow> pump_buy_builder" where
  "pump_buy_add_remaining_account account b =
     b\<lparr>bb_remaining_accounts := bb_remaining_accounts b @ [account]\<rparr>"

definition pump_buy_add_remaining_accounts :: "account_meta list \<Rightarrow> pump_buy_builder \<Rightarrow> pump_buy_builder" where
  "pump_buy_add_remaining_accounts accounts b =
     b\<lparr>bb_remaining_accounts := bb_remaining_accounts b @ accounts\<rparr>"

definition pump_buy_builder_instruction :: "pump_buy_args codec \<Rightarrow> pump_buy_builder \<Rightarrow> wire_instruction result" where
  "pump_buy_builder_instruction c b =
     bind_res (expect (bb_global b) ''global is not set'') (\<lambda>global.
     bind_res (expect (bb_fee_recipient b) ''fee_recipient is not set'') (\<lambda>fee_recipient.
     bind_res (expect (bb_mint b) ''mint is not set'') (\<lambda>mint.
     bind_res (expect (bb_bonding_curve b) ''bonding_curve is not set'') (\<lambda>bonding_curve.
     bind_res (expect (bb_associated_bonding_curve b) ''associated_bonding_curve is not set'') (\<lambda>associated_bonding_curve.
     bind_res (expect (bb_associated_user b) ''associated_user is not set'') (\<lambda>associated_user.
     bind_res (expect (bb_user b) ''user is not set'') (\<lambda>user.
     bind_res (Inr (unwrap_or (bb_system_program b) 0)) (\<lambda>system_program.
     bind_res (Inr (unwrap_or (bb_token_program b) 3106054211088883198575105191760876350940303353676611666299516346430146937001)) (\<lambda>token_program.
     bind_res (Inr (unwrap_or (bb_rent b) 3010411246019284437244212147455409835011261068170932596721577831542904848384)) (\<lambda>rent.
     bind_res (expect (bb_event_authority b) ''event_authority is not set'') (\<lambda>event_authority.
     bind_res (expect (bb_program b) ''program is not set'') (\<lambda>program.
     bind_res (expect (bb_amount b) ''amount is not set'') (\<lambda>amount.
     bind_res (expect (bb_max_sol_cost b) ''max_sol_cost is not set'') (\<lambda>max_sol_cost.
     pump_buy_instruction_with_remaining_accounts c
       \<lparr>pby_global = global,
        pby_fee_recipient = fee_recipient,
        pby_mint = mint,
        pby_bonding_curve = bonding_curve,
        pby_associated_bonding_curve = associated_bonding_curve,
        pby_associated_user = associated_user,
        pby_user = user,
        pby_system_program = system_program,
        pby_token_program = token_program,
        pby_rent = rent,
        pby_event_authority = event_authority,
        pby_program = program\<rparr>
       \<lparr>pba_amount = amount, pba_max_sol_cost = max_sol_cost\<rparr>
       (bb_remaining_accounts b)))))))))))))))"

section \<open>Selling\<close>

record pump_sell =
  psl_global :: pubkey
  psl_fee_recipient :: pubkey
  psl_mint :: pubkey
  psl_bonding_curve :: pubkey
  psl_associated_bonding_curve :: pubkey
  psl_associated_user :: pubkey
  psl_user :: pubkey
  psl_system_program :: pubkey
  psl_associated_token_program :: pubkey
  psl_token_program :: pubkey
  psl_event_authority :: pubkey
  psl_program :: pubkey

record pump_sell_args =
  psa_amount :: u64
  psa_min_sol_output :: u64

definition pump_sell_data :: bytes where
  "pump_sell_data = [51, 230, 133, 164, 1, 127, 131, 173]"

definition pump_sell_instruction_with_remaining_accounts ::
  "pump_sell_args codec \<Rightarrow> pump_sell \<Rightarrow> pump_sell_args \<Rightarrow> account_meta list
     \<Rightarrow> wire_instruction result" where
  "pump_sell_instruction_with_remaining_accounts c self args remaining_accounts =
     (let accounts =
       [meta_new_readonly (psl_global self) False,
        meta_new (psl_fee_recipient self) False,
        meta_new_readonly (psl_mint self) False,
        meta_new (psl_bonding_curve self) False,
        meta_new (psl_associated_bonding_curve self) False,
        meta_new (psl_associated_user self) False,
        meta_new (psl_user self) True,
        meta_new_readonly (psl_system_program self) False,
        meta_new_readonly (psl_associated_token_program self) False,
        meta_new_readonly (psl_token_program self) False,
        meta_new_readonly (psl_event_authority self) False,
        meta_new_readonly (psl_program self) False] @ remaining_accounts;
          data = pump_sell_data
      in bind_res (expect (cd_put c args) ''called `Result::unwrap()` on an `Err` value'') (\<lambda>args.
         Inr \<lparr>wi_program_id = PUMP_ID, wi_accounts = accounts, wi_data = data @ args\<rparr>))"

definition pump_sell_instruction ::
  "pump_sell_args codec \<Rightarrow> pump_sell \<Rightarrow> pump_sell_args \<Rightarrow> wire_instruction result" where
  "pump_sell_instruction c self args = pump_sell_instruction_with_remaining_accounts c self args []"

record pump_sell_builder =
  slb_global :: "pubkey option"
  slb_fee_recipient :: "pubkey option"
  slb_mint :: "pubkey option"
  slb_bonding_curve :: "pubkey option"
  slb_associated_bonding_curve :: "pubkey option"
  slb_associated_user :: "pubkey option"
  slb_user :: "pubkey option"
  slb_system_program :: "pubkey option"
  slb_associated_token_program :: "pubkey option"
  slb_token_program :: "pubkey option"
  slb_event_authority :: "pubkey option"
  slb_program :: "pubkey option"
  slb_amount :: "u64 option"
  slb_min_sol_output :: "u64 option"
  slb_remaining_accounts :: "account_meta list"

definition pump_sell_builder_new :: pump_sell_builder where
  "pump_sell_builder_new = \<lparr>slb_global = None,
     slb_fee_recipient = None,
     slb_mint = None,
     slb_bonding_curve = None,
     slb_associated_bonding_curve = None,
     slb_associated_user = None,
     slb_user = None,
     slb_system_program = None,
     slb_associated_token_program = None,
     slb_token_program = None,
     slb_event_authority = None,
     slb_program = None,
     slb_amount = None,
     slb_min_sol_output = None,
     slb_remaining_accounts = []\<rparr>"

definition pump_sell_global :: "pubkey \<Rightarrow> pump_sell_builder \<Rightarrow> pump_sell_builder" where
  "pump_sell_global global b = b\<lparr>slb_global := Some global\<rparr>"

definition pump_sell_fee_recipient :: "pubkey \<Rightarrow> pump_sell_builder \<Rightarrow> pump_sell_builder" where
  "pump_sell_fee_recipient fee_recipient b = b\<lparr>slb_fee_recipient := Some fee_recipient\<rparr>"

definition pump_sell_mint :: "pubkey \<Rightarrow> pump_sell_builder \<Rightarrow> pump_sell_builder" where
  "pump_sell_mint mint b = b\<lparr>slb_mint := Some mint\<rparr>"

definition pump_sell_bonding_curve :: "pubkey \<Rightarrow> pump_sell_builder \<Rightarrow> pump_sell_builder" where
  "pump_sell_bonding_curve bonding_curve b = b\<lparr>slb_bonding_curve := Some bonding_curve\<rparr>"

definition pump_sell_associated_bonding_curve :: "pubkey \<Rightarrow> pump_sell_builder \<Rightarrow> pump_sell_builder" where
  "pump_sell_associated_bonding_curve associated_bonding_curve b = b\<lparr>slb_associated_bonding_curve := Some associated_bonding_curve\<rparr>"

definition pump_sell_associated_user :: "pubkey \<Rightarrow> pump_sell_builder \<Rightarrow> pump_sell_builder" where
  "pump_sell_associated_user associated_user b = b\<lparr>slb_associated_user := Some associated_user\<rparr>"

definition pump_sell_user :: "pubkey \<Rightarrow> pump_sell_builder \<Rightarrow> pump_sell_builder" where
  "pump_sell_user user b = b\<lparr>slb_user := Some user\<rparr>"

definition pump_sell_system_program :: "pubkey \<Rightarrow> pump_sell_builder \<Rightarrow> pump_sell_builder" where
  "pump_sell_system_program system_program b = b\<lparr>slb_system_program := Some system_program\<rparr>"

definition pump_sell_associated_token_program :: "pubkey \<Rightarrow> pump_sell_builder \<Rightarrow> pump_sell_builder" where
  "pump_sell_associated_token_program associated_token_program b = b\<lparr>slb_associated_token_program := Some associated_token_program\<rparr>"

definition pump_sell_token_program :: "pubkey \<Rightarrow> pump_sell_builder \<Rightarrow> pump_sell_builder" where
  "pump_sell_token_program token_program b = b\<lparr>slb_token_program := Some token_program\<rparr>"

definition pump_sell_event_authority :: "pubkey \<Rightarrow> pump_sell_builder \<Rightarrow> pump_sell_builder" where
  "pump_sell_event_authority event_authority b = b\<lparr>slb_event_authority := Some event_authority\<rparr>"

definition pump_sell_program :: "pubkey \<Rightarrow> pump_sell_builder \<Rightarrow> pump_sell_builder" where
  "pump_sell_program program b = b\<lparr>slb_program := Some program\<rparr>"

definition pump_sell_amount :: "u64 \<Rightarrow> pump_sell_builder \<Rightarrow> pump_sell_builder" where
  "pump_sell_amount amount b = b\<lparr>slb_amount := Some amount\<rparr>"

definition pump_sell_min_sol_output :: "u64 \<Rightarrow> pump_sell_builder \<Rightarrow> pump_sell_builder" where
  "pump_sell_min_sol_output min_sol_output b = b\<lparr>slb_min_sol_output := Some min_sol_output\<rparr>"

definition pump_sell_add_remaining_account :: "account_meta \<Rightarrow> pump_sell_builder \<Rightarrow> pump_sell_builder" where
  "pump_sell_add_remaining_account account b =
     b\<lparr>slb_remaining_accounts := slb_remaining_accounts b @ [account]\<rparr>"

definition pump_sell_add_remaining_accounts :: "account_meta list \<Rightarrow> pump_sell_builder \<Rightarrow> pump_sell_builder" where
  "pump_sell_add_remaining_accounts accounts b =
     b\<lparr>slb_remaining_accounts := slb_remaining_accounts b @ accounts\<rparr>"

definition pump_sell_builder_instruction :: "pump_sell_args codec \<Rightarrow> pump_sell_builder \<Rightarrow> wire_instruction result" where
  "pump_sell_builder_instruction c b =
     bind_res (expect (slb_global b) ''global is not set'') (\<lambda>global.
     bind_res (expect (slb_fee_recipient b) ''fee_recipient is not set'') (\<lambda>fee_recipient.
     bind_res (expect (slb_mint b) ''mint is not set'') (\<lambda>mint.
     bind_res (expect (slb_bonding_curve b) ''bonding_curve is not set'') (\<lambda>bonding_curve.
     bind_res (expect (slb_associated_bonding_curve b) ''associated_bonding_curve is not set'') (\<lambda>associated_bonding_curve.
     bind_res (expect (slb_associated_user b) ''associated_user is not set'') (\<lambda>associated_user.
     bind_res (expect (slb_user b) ''user is not set'') (\<lambda>user.
     bind_res (Inr (unwrap_or (slb_system_program b) 0)) (\<lambda>system_program.
     bind_res (expect (slb_associated_token_program b) ''associated_token_program is not set'') (\<lambda>associated_token_program.
     bind_res (Inr (unwrap_or (slb_token_program b) 3106054211088883198575105191760876350940303353676611666299516346430146937001)) (\<lambda>token_program.
     bind_res (expect (slb_event_authority b) ''event_authority is not set'') (\<lambda>event_authority.
     bind_res (expect (slb_program b) ''program is not set'') (\<lambda>program.
     bind_res (expect (slb_amount b) ''amount is not set'') (\<lambda>amount.
     bind_res (expect (slb_min_sol_output b) ''min_sol_output is not set'') (\<lambda>min_sol_output.
     pump_sell_instruction_with_remaining_accounts c
       \<lparr>psl_global = global,
        psl_fee_recipient = fee_recipient,
        psl_mint = mint,
        psl_bonding_curve = bonding_curve,
        psl_associated_bonding_curve = associated_bonding_curve,
        psl_associated_user = associated_user,
        psl_user = user,
        psl_system_program = system_program,
        psl_associated_token_program = associated_token_program,
        psl_token_program = token_program,
        psl_event_authority = event_authority,
        psl_program = program\<rparr>
       \<lparr>psa_amount = amount, psa_min_sol_output = min_sol_output\<rparr>
       (slb_remaining_accounts b)))))))))))))))"

section \<open>Builders\<close>

lemmas pump_buy_setters = pump_buy_builder_new_def pump_buy_global_def
  pump_buy_fee_recipient_def
  pump_buy_mint_def
  pump_buy_bonding_curve_def
  pump_buy_associated_bonding_curve_def
  pump_buy_associated_user_def
  pump_buy_user_def
  pump_buy_system_program_def
  pump_buy_token_program_def
  pump_buy_rent_def
  pump_buy_event_authority_def
  pump_buy_program_def
  pump_buy_amount_def
  pump_buy_max_sol_cost_def

lemmas pump_sell_setters = pump_sell_builder_new_def pump_sell_global_def
  pump_sell_fee_recipient_def
  pump_sell_mint_def
  pump_sell_bonding_curve_def
  pump_sell_associated_bonding_curve_def
  pump_sell_associated_user_def
  pump_sell_user_def
  pump_sell_system_program_def
  pump_sell_associated_token_program_def
  pump_sell_token_program_def
  pump_sell_event_authority_def
  pump_sell_program_def
  pump_sell_amount_def
  pump_sell_min_sol_output_def

text \<open>A builder gives an instruction exactly when nothing required is missing; a missing program is
  the last account looked at, so it shows only when the accounts before it are there.\<close>

lemma pump_buy_builder_complete:
  "(\<exists>e. pump_buy_builder_instruction c b = Inl (Panic e) \<and> e \<noteq> ''called `Result::unwrap()` on an `Err` value'') \<longleftrightarrow>
     None \<in> {bb_global b, bb_fee_recipient b, bb_mint b, bb_bonding_curve b, bb_associated_bonding_curve b,
        bb_associated_user b, bb_user b, bb_event_authority b, bb_program b}
   \<or> bb_amount b = None \<or> bb_max_sol_cost b = None"
  by (auto simp: pump_buy_builder_instruction_def pump_buy_instruction_with_remaining_accounts_def
      expect_def Let_def split: option.splits)

lemma pump_sell_builder_complete:
  "(\<exists>e. pump_sell_builder_instruction c b = Inl (Panic e) \<and> e \<noteq> ''called `Result::unwrap()` on an `Err` value'') \<longleftrightarrow>
     None \<in> {slb_global b, slb_fee_recipient b, slb_mint b, slb_bonding_curve b, slb_associated_bonding_curve b,
        slb_associated_user b, slb_user b, slb_associated_token_program b, slb_event_authority b, slb_program b}
   \<or> slb_amount b = None \<or> slb_min_sol_output b = None"
  by (auto simp: pump_sell_builder_instruction_def pump_sell_instruction_with_remaining_accounts_def
      expect_def Let_def split: option.splits)

end
