(* ===== verification/Pump.thy ===== *)
theory Pump
  imports Builder Accounts Pump_Ix
begin

text \<open>
  Pump.fun: the bonding curve (\<^verbatim>\<open>swap/pump/bonding_curve.rs\<close>), the client's quotes
  (\<^verbatim>\<open>swap/pump/mod.rs\<close>) and the quotes of its swap executor (\<^verbatim>\<open>swap/pump/executor.rs\<close>). The
  accounts come from the RPC client; reading them (generated code and the SPL library), the program
  derived addresses and the address of the native mint are arguments. Division by zero panics.
\<close>

record bonding_curve =
  bc_discriminator :: "u8 list"
  bc_virtual_token_reserves :: u64
  bc_virtual_sol_reserves :: u64
  bc_real_token_reserves :: u64
  bc_real_sol_reserves :: u64
  bc_token_total_supply :: u64
  bc_complete :: bool

record global_config =
  gl_discriminator :: "u8 list"
  gl_initialized :: bool
  gl_authority :: pubkey
  gl_fee_recipient :: pubkey
  gl_initial_virtual_token_reserves :: u64
  gl_initial_virtual_sol_reserves :: u64
  gl_initial_real_token_reserves :: u64
  gl_token_total_supply :: u64
  gl_fee_basis_points :: u64

definition div_panic :: "'a::len word \<Rightarrow> 'a word \<Rightarrow> 'a word result" where
  "div_panic a b = (if b = 0 then Inl (Panic ''attempt to divide by zero'') else Inr (a div b))"

definition bonding_curve_complete :: failure where
  "bonding_curve_complete = Error ''Bonding curve complete''"

definition get_buy_price :: "bonding_curve \<Rightarrow> u64 \<Rightarrow> u64 result" where
  "get_buy_price c amount =
     (if bc_complete c then Inl bonding_curve_complete
      else if amount = 0 then Inr 0
      else
        let n = ucast (bc_virtual_sol_reserves c) * ucast (bc_virtual_token_reserves c) :: u128;
            i = ucast (bc_virtual_sol_reserves c + amount)
        in bind_res (div_panic n i) (\<lambda>q.
           let r = ucast q + 1 :: u64;
               s = bc_virtual_token_reserves c - r
           in Inr (min (bc_real_token_reserves c) s)))"

definition get_sell_price :: "bonding_curve \<Rightarrow> u64 \<Rightarrow> u64 \<Rightarrow> u64 result" where
  "get_sell_price c amount fee_bps =
     (if bc_complete c then Inl bonding_curve_complete
      else if amount = 0 then Inr 0
      else
        bind_res (div_panic (ucast amount * ucast (bc_virtual_sol_reserves c) :: u128)
                    (ucast (bc_virtual_token_reserves c) + ucast amount)) (\<lambda>q.
        let n = ucast q :: u64;
            a = (n * fee_bps) div 10000
        in Inr (n - a)))"

definition get_market_cap_sol :: "bonding_curve \<Rightarrow> u64" where
  "get_market_cap_sol c =
     (if bc_virtual_token_reserves c = 0 then 0
      else ucast ((ucast (bc_token_total_supply c) * ucast (bc_virtual_sol_reserves c) :: u128)
                  div ucast (bc_virtual_token_reserves c)))"

definition get_buy_out_price :: "bonding_curve \<Rightarrow> u64 \<Rightarrow> u64 \<Rightarrow> u64 result" where
  "get_buy_out_price c amount fee_bps =
     (let sol_tokens = ucast (min amount (bc_real_sol_reserves c)) :: u128
      in bind_res (div_panic (sol_tokens * ucast (bc_virtual_sol_reserves c))
                     (ucast (bc_virtual_token_reserves c) - sol_tokens)) (\<lambda>q.
         let total_sell_value = ucast (q + 1) :: u64;
             fee = total_sell_value * fee_bps div 10000
         in Inr (total_sell_value + fee)))"

definition final_market_cap_sol :: "bonding_curve \<Rightarrow> u64 \<Rightarrow> u64 result" where
  "final_market_cap_sol c fee_bps =
     bind_res (get_buy_out_price c (bc_real_token_reserves c) fee_bps) (\<lambda>total_sell_value.
     let total_virtual_value = bc_virtual_sol_reserves c + total_sell_value;
         total_virtual_tokens = bc_virtual_token_reserves c - bc_real_token_reserves c
     in if total_virtual_tokens = 0 then Inr 0
        else Inr (ucast ((ucast (bc_token_total_supply c) * ucast total_virtual_value :: u128)
                         div ucast total_virtual_tokens)))"

definition get_initial_buy_price :: "global_config \<Rightarrow> u64 \<Rightarrow> u64 result" where
  "get_initial_buy_price g amount =
     (if amount = 0 then Inr 0
      else
        let n = ucast (gl_initial_virtual_sol_reserves g) * ucast (gl_initial_virtual_sol_reserves g) :: u128;
            i = ucast (gl_initial_virtual_sol_reserves g + amount)
        in bind_res (div_panic n i) (\<lambda>q.
           let r = ucast q + 1 :: u64;
               s = gl_initial_virtual_token_reserves g - r
           in Inr (min s (gl_initial_real_token_reserves g))))"

definition buy_with_slippage :: "u64 \<Rightarrow> u16 \<Rightarrow> u64" where
  "buy_with_slippage amount slippage_bps = amount + (amount * ucast slippage_bps) div 10000"

definition sell_with_slippage :: "u64 \<Rightarrow> u16 \<Rightarrow> u64" where
  "sell_with_slippage amount slippage_bps = amount - (amount * ucast slippage_bps) div 10000"

section \<open>The client's quotes\<close>

record pf_client_quote =
  cq_amount :: u64
  cq_sol_amount :: u64
  cq_sol_amount_with_slippage :: u64
  cq_input_mint :: pubkey
  cq_output_mint :: pubkey

definition get_buy_quote ::
  "(pubkey \<Rightarrow> bonding_curve result) \<Rightarrow> pubkey \<Rightarrow> pubkey \<Rightarrow> u64 \<Rightarrow> u16 \<Rightarrow> pf_client_quote result" where
  "get_buy_quote curve_for_mint native_mint mint sol_amount slippage_bps =
     bind_res (curve_for_mint mint) (\<lambda>curve.
     bind_res (get_buy_price curve sol_amount) (\<lambda>amount.
     Inr \<lparr>cq_amount = amount, cq_sol_amount = sol_amount,
          cq_sol_amount_with_slippage = buy_with_slippage sol_amount slippage_bps,
          cq_input_mint = native_mint, cq_output_mint = mint\<rparr>))"

definition get_sell_quote ::
  "(pubkey \<Rightarrow> bonding_curve result) \<Rightarrow> global_config \<Rightarrow> pubkey \<Rightarrow> pubkey \<Rightarrow> u64 \<Rightarrow> u16
     \<Rightarrow> pf_client_quote result" where
  "get_sell_quote curve_for_mint protocol native_mint mint token_amount slippage_bps =
     bind_res (curve_for_mint mint) (\<lambda>curve.
     bind_res (get_sell_price curve token_amount (gl_fee_basis_points protocol)) (\<lambda>sol_amount.
     Inr \<lparr>cq_amount = token_amount, cq_sol_amount = sol_amount,
          cq_sol_amount_with_slippage = sell_with_slippage sol_amount slippage_bps,
          cq_input_mint = mint, cq_output_mint = native_mint\<rparr>))"

section \<open>The executor's quotes\<close>

record pf_quote =
  pf_is_buy :: bool
  pf_token_amount :: u64
  pf_sol_amount :: u64
  pf_sol_amount_with_slippage :: u64
  pf_mint :: pubkey
  pf_mint_decimals :: u8
  pf_fee_recipient :: pubkey
  pf_protocol_address :: pubkey
  pf_input_token_program :: pubkey
  pf_output_token_program :: pubkey

text \<open>What the executor takes from the SDK, the SPL library and the generated account types.\<close>

record pump_sdk =
  pk_get_multiple_accounts :: "pubkey list \<Rightarrow> raw_account option list result"
  pk_bonding_curve_pda :: "pubkey \<Rightarrow> pubkey"
  pk_global_pda :: pubkey
  pk_token_program :: pubkey
  pk_token_2022_program :: pubkey
  pk_native_mint :: pubkey
  pk_native_decimals :: u8
  pk_unpack_mint_decimals :: "u8 list \<Rightarrow> u8 result"
  pk_curve_from_bytes :: "u8 list \<Rightarrow> bonding_curve result"
  pk_global_from_bytes :: "u8 list \<Rightarrow> global_config result"
  pk_buy_codec :: "pump_buy_args codec"
  pk_sell_codec :: "pump_sell_args codec"

fun take_account :: "string \<Rightarrow> 'a option list \<Rightarrow> ('a \<times> 'a option list) result" where
  "take_account msg [] = Inl (Panic ''removal index out of range'')"
| "take_account msg (None # xs) = Inl (Error msg)"
| "take_account msg (Some a # xs) = Inr (a, xs)"

definition pump_side :: "swap_input \<Rightarrow> (pubkey \<times> bool) result" where
  "pump_side i =
     (if si_input_token_mint i = si_output_token_mint i
      then Inl (Error ''Input token cannot equal output token'')
      else if si_mode i \<noteq> ExactIn
      then Inl (Error ''Pumpfun execution mode is always `exact-in`'')
      else if si_input_token_mint i = SOL then Inr (si_output_token_mint i, True)
      else if si_output_token_mint i = SOL then Inr (si_input_token_mint i, False)
      else Inl (Error ''Input or output for pump swap must be SOL''))"

definition pump_quote :: "pump_sdk \<Rightarrow> swap_input \<Rightarrow> pf_quote result" where
  "pump_quote sdk i =
     bind_res (pump_side i) (\<lambda>(mint, is_buy).
     bind_res (pk_get_multiple_accounts sdk [mint, pk_bonding_curve_pda sdk mint, pk_global_pda sdk])
       (\<lambda>accounts.
     bind_res (take_account ''mint does not exist'' accounts) (\<lambda>(raw_mint, accounts).
     if ra_owner raw_mint \<noteq> pk_token_program sdk \<and> ra_owner raw_mint \<noteq> pk_token_2022_program sdk
     then Inl (Error ''Unknown owner for mint'')
     else
     bind_res (take_account ''bonding curve does not exist for token'' accounts) (\<lambda>(raw_curve, accounts).
     bind_res (take_account ''protocol config does not exist'' accounts) (\<lambda>(raw_protocol, _).
     bind_res (mint_decimals_of (pk_unpack_mint_decimals sdk) (ra_data raw_mint)) (\<lambda>decimals.
     bind_res (pk_curve_from_bytes sdk (ra_data raw_curve)) (\<lambda>curve.
     bind_res (pk_global_from_bytes sdk (ra_data raw_protocol)) (\<lambda>protocol.
     if is_buy then
       bind_res (get_buy_price curve (si_amount i)) (\<lambda>token_amount.
       Inr \<lparr>pf_is_buy = True, pf_token_amount = token_amount, pf_sol_amount = si_amount i,
            pf_sol_amount_with_slippage = buy_with_slippage (si_amount i) (si_slippage_bps i),
            pf_mint = mint, pf_mint_decimals = decimals, pf_fee_recipient = gl_fee_recipient protocol,
            pf_protocol_address = pk_global_pda sdk, pf_input_token_program = pk_token_program sdk,
            pf_output_token_program = ra_owner raw_mint\<rparr>)
     else
       bind_res (get_sell_price curve (si_amount i) (gl_fee_basis_points protocol)) (\<lambda>sol_amount.
       Inr \<lparr>pf_is_buy = False, pf_token_amount = si_amount i, pf_sol_amount = sol_amount,
            pf_sol_amount_with_slippage = sell_with_slippage sol_amount (si_slippage_bps i),
            pf_mint = mint, pf_mint_decimals = decimals, pf_fee_recipient = gl_fee_recipient protocol,
            pf_protocol_address = pk_global_pda sdk, pf_input_token_program = ra_owner raw_mint,
            pf_output_token_program = pk_token_program sdk\<rparr>)))))))))"

text \<open>\<open>impl SwapQuote for PFQuote\<close>\<close>

definition pf_swap_quote :: "pump_sdk \<Rightarrow> pf_quote \<Rightarrow> swap_quote" where
  "pf_swap_quote sdk q = \<lparr>
     q_input_token = (if pf_is_buy q then pk_native_mint sdk else pf_mint q),
     q_output_token = (if pf_is_buy q then pf_mint q else pk_native_mint sdk),
     q_input_token_decimals = Some (if pf_is_buy q then pk_native_decimals sdk else pf_mint_decimals q),
     q_output_token_decimals = Some (if pf_is_buy q then pf_mint_decimals q else pk_native_decimals sdk),
     q_amount = pf_token_amount q,
     q_other_amount = pf_sol_amount q,
     q_other_amount_threshold = pf_sol_amount_with_slippage q,
     q_amount_specified_is_input = (if pf_is_buy q then False else True)\<rparr>"

definition pump_executor_quote :: "pump_sdk \<Rightarrow> swap_input \<Rightarrow> swap_quote result" where
  "pump_executor_quote sdk i = bind_res (pump_quote sdk i) (\<lambda>q. Inr (pf_swap_quote sdk q))"

section \<open>The curve\<close>

definition curve_product :: "bonding_curve \<Rightarrow> nat" where
  "curve_product c = unat (bc_virtual_sol_reserves c) * unat (bc_virtual_token_reserves c)"

lemma unat_u64_times_u64: "unat (ucast (a :: u64) * ucast (b :: u64) :: u128) = unat a * unat b"
proof -
  have "unat a * unat b < 2 ^ 64 * 2 ^ 64"
    using unat_u64_less [of a] unat_u64_less [of b] by (intro mult_strict_mono') auto
  then show ?thesis by (subst unat_times_no_wrap) (simp_all add: unat_u64_as_u128)
qed

lemma get_buy_price_nat:
  assumes "\<not> bc_complete c" and "amount \<noteq> 0" and "bc_virtual_token_reserves c \<noteq> 0"
    and "unat (bc_virtual_sol_reserves c) + unat amount < 2 ^ 64"
  obtains s where "get_buy_price c amount = Inr s"
    and "curve_product c div (unat (bc_virtual_sol_reserves c) + unat amount) + 1 \<le> unat (bc_virtual_token_reserves c)"
    and "unat s = min (unat (bc_real_token_reserves c))
      (unat (bc_virtual_token_reserves c) - (curve_product c div (unat (bc_virtual_sol_reserves c) + unat amount) + 1))"
proof -
  let ?v = "bc_virtual_sol_reserves c" and ?t = "bc_virtual_token_reserves c"
  let ?q = "curve_product c div (unat ?v + unat amount)"
  have a: "0 < unat amount" "0 < unat ?t" using assms(2,3) by (simp_all add: unat_gt_0)
  have i: "unat (?v + amount) = unat ?v + unat amount" using assms(4) by (simp add: unat_plus_no_wrap)
  have lt: "curve_product c < (unat ?v + unat amount) * unat ?t"
    using a by (simp add: curve_product_def add_mult_distrib)
  then have qlt: "?q < unat ?t" by (simp add: less_mult_imp_div_less mult.commute)
  then have le: "?q + 1 \<le> unat ?t" by simp
  have n: "unat (ucast ?v * ucast ?t :: u128) = curve_product c"
    by (simp add: unat_u64_times_u64 curve_product_def)
  have i0: "(ucast (?v + amount) :: u128) \<noteq> 0"
    using a(1) i by (metis add_is_0 less_numeral_extra(3) unat_0 unat_u64_as_u128)
  let ?d = "(ucast ?v * ucast ?t :: u128) div ucast (?v + amount)"
  have d: "unat ?d = ?q" by (simp only: unat_div n unat_u64_as_u128 i)
  then have ud: "unat (ucast ?d :: u64) = ?q"
    using qlt unat_u64_less [of ?t] by (simp add: unat_u128_as_u64)
  then have r: "unat (ucast ?d + 1 :: u64) = ?q + 1"
    using le unat_u64_less [of ?t] by (subst unat_plus_no_wrap) simp_all
  have s: "unat (?t - (ucast ?d + 1)) = unat ?t - (?q + 1)"
    using le r by (subst unat_minus_no_wrap) simp_all
  have "get_buy_price c amount = Inr (min (bc_real_token_reserves c) (?t - (ucast ?d + 1)))"
    using assms(1,2) i0 by (simp add: get_buy_price_def div_panic_def Let_def)
  then show ?thesis by (rule that [OF _ le]) (simp only: unat_min s)
qed

lemma get_sell_price_nat:
  assumes "\<not> bc_complete c" and "amount \<noteq> 0"
    and "unat (bc_virtual_sol_reserves c) * unat fee_bps < 2 ^ 64" and "unat fee_bps \<le> 10000"
  defines "n \<equiv> unat amount * unat (bc_virtual_sol_reserves c)
      div (unat (bc_virtual_token_reserves c) + unat amount)"
  obtains s where "get_sell_price c amount fee_bps = Inr s"
    and "n \<le> unat (bc_virtual_sol_reserves c)"
    and "n * unat fee_bps div 10000 \<le> n"
    and "unat s = n - n * unat fee_bps div 10000"
proof -
  let ?v = "bc_virtual_sol_reserves c" and ?t = "bc_virtual_token_reserves c"
  have a: "0 < unat amount" using assms(2) by (simp add: unat_gt_0)
  have "unat amount * unat ?v \<le> unat ?v * (unat ?t + unat amount)" by (simp add: algebra_simps)
  then have nv: "n \<le> unat ?v"
    unfolding n_def using a by (metis add_gr_0 div_le_mono nonzero_mult_div_cancel_right less_numeral_extra(3))
  then have "n * unat fee_bps \<le> unat ?v * unat fee_bps" by (rule mult_le_mono1)
  then have nf: "n * unat fee_bps < 2 ^ 64" using assms(3) by (rule le_less_trans)
  have fee: "n * unat fee_bps div 10000 \<le> n"
    using assms(4) mult_le_mono2 [OF assms(4), of n] by linarith
  have t: "unat (ucast ?t + ucast amount :: u128) = unat ?t + unat amount"
    using unat_u64_less [of ?t] unat_u64_less [of amount]
    by (subst unat_plus_no_wrap) (simp_all add: unat_u64_as_u128)
  have t0: "(ucast ?t + ucast amount :: u128) \<noteq> 0"
    using a t by (metis add_is_0 less_numeral_extra(3) unat_0)
  let ?d = "(ucast amount * ucast ?v :: u128) div (ucast ?t + ucast amount)"
  have "unat ?d = n" by (simp only: unat_div unat_u64_times_u64 t n_def)
  then have d: "unat (ucast ?d :: u64) = n"
    using nv unat_u64_less [of ?v] by (simp add: unat_u128_as_u64)
  have f: "unat (ucast ?d * fee_bps div 10000) = n * unat fee_bps div 10000"
    using nf d by (simp add: unat_div unat_times_no_wrap)
  have s: "unat (ucast ?d - ucast ?d * fee_bps div 10000) = n - n * unat fee_bps div 10000"
    using d f fee by (subst unat_minus_no_wrap) simp_all
  have "get_sell_price c amount fee_bps = Inr (ucast ?d - ucast ?d * fee_bps div 10000)"
    using assms(1,2) t0 by (simp add: get_sell_price_def div_panic_def Let_def)
  then show ?thesis using nv fee s by (rule that)
qed

lemma buy_keeps_product:
  assumes "get_buy_price c amount = Inr s" and "\<not> bc_complete c" and "amount \<noteq> 0"
    and "bc_virtual_token_reserves c \<noteq> 0"
    and "unat (bc_virtual_sol_reserves c) + unat amount < 2 ^ 64"
  shows "s \<le> bc_real_token_reserves c" and "unat s < unat (bc_virtual_token_reserves c)"
    and "curve_product c
      < (unat (bc_virtual_sol_reserves c) + unat amount) * (unat (bc_virtual_token_reserves c) - unat s)"
proof -
  let ?i = "unat (bc_virtual_sol_reserves c) + unat amount" and ?t = "unat (bc_virtual_token_reserves c)"
  let ?q = "curve_product c div ?i"
  obtain s' where s': "get_buy_price c amount = Inr s'" and q: "?q + 1 \<le> ?t"
      and us: "unat s' = min (unat (bc_real_token_reserves c)) (?t - (?q + 1))"
    using get_buy_price_nat [OF assms(2-5)] .
  have [simp]: "s' = s" using s' assms(1) by simp
  show "s \<le> bc_real_token_reserves c" using us by (simp add: word_le_nat_alt)
  show "unat s < ?t" using us q by simp
  have "0 < ?i" using assms(3) by (simp add: unat_gt_0)
  then have "curve_product c < ?i * (?q + 1)" using dividend_less_times_div [of ?i "curve_product c"] by simp
  also have "\<dots> \<le> ?i * (?t - unat s)" using us q by (intro mult_le_mono2) simp
  finally show "curve_product c < ?i * (?t - unat s)" .
qed

text \<open>C19. On an open curve whose reserves do not overflow, buying with any amount of lamports returns
  an amount of tokens that the curve holds and that leaves virtual tokens behind, and the product of
  the virtual reserves strictly grows: rounding is in favour of the curve and nothing wraps.\<close>

theorem buy_price_sound:
  assumes "\<not> bc_complete c" and "amount \<noteq> 0" and "bc_virtual_token_reserves c \<noteq> 0"
    and "unat (bc_virtual_sol_reserves c) + unat amount < 2 ^ 64"
  shows "\<exists>s. get_buy_price c amount = Inr s \<and> s \<le> bc_real_token_reserves c
    \<and> unat s < unat (bc_virtual_token_reserves c)
    \<and> curve_product c
      < (unat (bc_virtual_sol_reserves c) + unat amount) * (unat (bc_virtual_token_reserves c) - unat s)"
proof -
  obtain s where s: "get_buy_price c amount = Inr s" using get_buy_price_nat [OF assms] by blast
  show ?thesis using s buy_keeps_product [OF s assms] by (intro exI conjI)
qed

definition example_curve :: bonding_curve where
  "example_curve = \<lparr>bc_discriminator = replicate 8 0, bc_virtual_token_reserves = 1073000000000000, bc_virtual_sol_reserves = 30000000000,
     bc_real_token_reserves = 793100000000000, bc_real_sol_reserves = 0,
     bc_token_total_supply = 1000000000000000, bc_complete = False\<rparr>"

theorem buy_price_sound_witness:
  "\<exists>s. get_buy_price example_curve 1000000000 = Inr s \<and> s \<le> bc_real_token_reserves example_curve
    \<and> unat s < unat (bc_virtual_token_reserves example_curve)
    \<and> curve_product example_curve
      < (unat (bc_virtual_sol_reserves example_curve) + unat (1000000000 :: u64))
        * (unat (bc_virtual_token_reserves example_curve) - unat s)"
  by (rule buy_price_sound) (simp_all add: example_curve_def)

text \<open>On an open curve, selling any amount of tokens returns at most the virtual SOL reserves,
  and what leaves the curve before the fee never decreases the product of the virtual reserves; the
  fee is exactly the whole basis points of that amount. No product wraps when the reserves times the
  fee rate fit in 64 bits.\<close>

theorem sell_price_sound:
  assumes "\<not> bc_complete c" and "amount \<noteq> 0"
    and "unat (bc_virtual_sol_reserves c) * unat fee_bps < 2 ^ 64" and "unat fee_bps \<le> 10000"
  shows "\<exists>s n. get_sell_price c amount fee_bps = Inr s \<and> unat s + n * unat fee_bps div 10000 = n
    \<and> n \<le> unat (bc_virtual_sol_reserves c)
    \<and> curve_product c
      \<le> (unat (bc_virtual_sol_reserves c) - n) * (unat (bc_virtual_token_reserves c) + unat amount)"
proof -
  let ?v = "unat (bc_virtual_sol_reserves c)" and ?i = "unat (bc_virtual_token_reserves c) + unat amount"
  let ?n = "unat amount * ?v div ?i"
  obtain s where s: "get_sell_price c amount fee_bps = Inr s" and n: "?n \<le> ?v"
      and f: "?n * unat fee_bps div 10000 \<le> ?n" "unat s = ?n - ?n * unat fee_bps div 10000"
    using get_sell_price_nat [OF assms] .
  have "?n * ?i \<le> unat amount * ?v" by (rule div_times_less_eq_dividend)
  moreover have "?v * ?i = curve_product c + unat amount * ?v"
    by (simp add: curve_product_def algebra_simps)
  moreover have "(?v - ?n) * ?i = ?v * ?i - ?n * ?i" by (rule diff_mult_distrib)
  ultimately have "curve_product c \<le> (?v - ?n) * ?i" by linarith
  then show ?thesis using s n f by (intro exI [of _ s] exI [of _ ?n]) simp
qed

theorem sell_price_sound_witness:
  "\<exists>s n. get_sell_price example_curve 1000000 100 = Inr s \<and> unat s + n * unat (100 :: u64) div 10000 = n
    \<and> n \<le> unat (bc_virtual_sol_reserves example_curve)
    \<and> curve_product example_curve
      \<le> (unat (bc_virtual_sol_reserves example_curve) - n)
        * (unat (bc_virtual_token_reserves example_curve) + unat (1000000 :: u64))"
  by (rule sell_price_sound) (simp_all add: example_curve_def)

text \<open>C18. Buying tokens and selling all of them back on the curve as the purchase leaves it returns
  strictly fewer lamports than were paid, whatever the fee.\<close>

theorem buy_then_sell_loses:
  assumes "get_buy_price c amount = Inr tokens" and "\<not> bc_complete c" and "amount \<noteq> 0"
    and "bc_virtual_token_reserves c \<noteq> 0"
    and "unat (bc_virtual_sol_reserves c) + unat amount < 2 ^ 64"
    and "(unat (bc_virtual_sol_reserves c) + unat amount) * unat fee_bps < 2 ^ 64"
    and "unat fee_bps \<le> 10000"
  shows "\<exists>paid_out. get_sell_price (c\<lparr>bc_virtual_sol_reserves := bc_virtual_sol_reserves c + amount,
        bc_virtual_token_reserves := bc_virtual_token_reserves c - tokens\<rparr>) tokens fee_bps = Inr paid_out
    \<and> paid_out < amount"
proof (cases "tokens = 0")
  case True
  then show ?thesis using assms(2,3) by (simp add: get_sell_price_def word_gt_0)
next
  case False
  let ?c = "c\<lparr>bc_virtual_sol_reserves := bc_virtual_sol_reserves c + amount,
    bc_virtual_token_reserves := bc_virtual_token_reserves c - tokens\<rparr>"
  let ?i = "unat (bc_virtual_sol_reserves c) + unat amount" and ?t = "unat (bc_virtual_token_reserves c)"
  note buy = buy_keeps_product [OF assms(1-5)]
  have i: "unat (bc_virtual_sol_reserves c + amount) = ?i"
    using assms(5) by (simp add: unat_plus_no_wrap)
  have t: "unat (bc_virtual_token_reserves c - tokens) + unat tokens = ?t"
    using buy(2) by (simp add: unat_minus_no_wrap)
  have "unat tokens * ?i < ?t * unat amount"
    using buy(2,3) by (simp add: curve_product_def diff_mult_distrib2 algebra_simps)
  then have n: "unat tokens * ?i div ?t < unat amount"
    by (simp add: less_mult_imp_div_less mult.commute)
  obtain paid_out where "get_sell_price ?c tokens fee_bps = Inr paid_out"
      and "unat paid_out = unat tokens * ?i div ?t - unat tokens * ?i div ?t * unat fee_bps div 10000"
    using get_sell_price_nat [of ?c tokens fee_bps] assms(2,6,7) False by (auto simp: i t)
  then show ?thesis using n by (intro exI [of _ paid_out]) (simp add: word_less_nat_alt)
qed

theorem buy_then_sell_loses_witness:
  "\<exists>tokens paid_out. get_buy_price example_curve 1000000000 = Inr tokens
    \<and> get_sell_price (example_curve\<lparr>bc_virtual_sol_reserves := bc_virtual_sol_reserves example_curve + 1000000000,
        bc_virtual_token_reserves := bc_virtual_token_reserves example_curve - tokens\<rparr>) tokens 100 = Inr paid_out
    \<and> paid_out < 1000000000"
proof -
  have "\<exists>tokens. get_buy_price example_curve 1000000000 = Inr tokens"
    by (rule get_buy_price_nat [of example_curve 1000000000]) (simp_all add: example_curve_def)
  then obtain tokens where t: "get_buy_price example_curve 1000000000 = Inr tokens" ..
  have "\<exists>paid_out. get_sell_price (example_curve\<lparr>bc_virtual_sol_reserves := bc_virtual_sol_reserves example_curve + 1000000000,
        bc_virtual_token_reserves := bc_virtual_token_reserves example_curve - tokens\<rparr>) tokens 100 = Inr paid_out
    \<and> paid_out < 1000000000"
    by (rule buy_then_sell_loses [OF t]) (simp_all add: example_curve_def)
  then show ?thesis using t by blast
qed

section \<open>Quotes\<close>

lemma pump_side_Inr:
  "pump_side i = Inr (mint, is_buy) \<Longrightarrow>
     si_mode i = ExactIn \<and> si_input_token_mint i \<noteq> si_output_token_mint i
     \<and> (is_buy \<and> si_input_token_mint i = SOL \<and> si_output_token_mint i = mint
        \<or> \<not> is_buy \<and> si_output_token_mint i = SOL \<and> si_input_token_mint i = mint)"
  by (auto simp: pump_side_def split: if_splits)

text \<open>The quote on either side of the curve.\<close>

lemma pump_quote_buy:
  assumes "pump_quote sdk i = Inr q" and "pf_is_buy q"
  obtains c where "get_buy_price c (si_amount i) = Inr (pf_token_amount q)"
    and "si_input_token_mint i = SOL" and "pf_mint q = si_output_token_mint i"
    and "pf_sol_amount q = si_amount i"
    and "pf_sol_amount_with_slippage q = buy_with_slippage (si_amount i) (si_slippage_bps i)"
  using assms unfolding pump_quote_def by (auto dest!: pump_side_Inr split: if_splits)

lemma pump_quote_sell:
  assumes "pump_quote sdk i = Inr q" and "\<not> pf_is_buy q"
  obtains c fee_bps where "get_sell_price c (si_amount i) fee_bps = Inr (pf_sol_amount q)"
    and "si_output_token_mint i = SOL" and "pf_mint q = si_input_token_mint i"
    and "pf_token_amount q = si_amount i"
    and "pf_sol_amount_with_slippage q = sell_with_slippage (pf_sol_amount q) (si_slippage_bps i)"
  using assms unfolding pump_quote_def by (auto dest!: pump_side_Inr split: if_splits)

lemma pump_quote_sell_side:
  "pump_quote sdk i = Inr q \<Longrightarrow> \<not> pf_is_buy q \<Longrightarrow> si_input_token_mint i \<noteq> SOL"
  unfolding pump_quote_def by (auto dest!: pump_side_Inr split: if_splits)

lemma pump_executor_quote_tokens:
  assumes "pump_executor_quote sdk i = Inr q" and "pk_native_mint sdk = SOL"
  shows "q_input_token q = si_input_token_mint i" and "q_output_token q = si_output_token_mint i"
    and "quote_input_amount q = si_amount i"
proof -
  obtain p where p: "pump_quote sdk i = Inr p" "q = pf_swap_quote sdk p"
    using assms(1) by (auto simp: pump_executor_quote_def)
  have "q_input_token q = si_input_token_mint i \<and> q_output_token q = si_output_token_mint i
    \<and> quote_input_amount q = si_amount i"
  proof (cases "pf_is_buy p")
    case True
    with p(1) show ?thesis
      by (rule pump_quote_buy) (simp add: p(2) True assms(2) pf_swap_quote_def quote_input_amount_def)
  next
    case False
    with p(1) show ?thesis
      by (rule pump_quote_sell) (simp add: p(2) False assms(2) pf_swap_quote_def quote_input_amount_def)
  qed
  then show "q_input_token q = si_input_token_mint i" "q_output_token q = si_output_token_mint i"
    "quote_input_amount q = si_amount i" by simp_all
qed

interpretation pump: quote_provider "pump_executor_quote (sdk\<lparr>pk_native_mint := SOL\<rparr>)" for sdk
  by unfold_locales (auto dest: pump_executor_quote_tokens)

lemma buy_with_slippage_nat:
  assumes "unat amount * (10000 + unat bps) < 2 ^ 64"
  shows "unat (buy_with_slippage amount bps) = unat amount + unat amount * unat bps div 10000"
proof -
  have m: "unat amount * unat bps < 2 ^ 64" using assms by (simp add: algebra_simps)
  then have d: "unat (amount * ucast bps div 10000) = unat amount * unat bps div 10000"
    by (simp add: unat_div unat_times_no_wrap unat_ucast_up)
  have "unat amount * unat bps div 10000 \<le> unat amount * unat bps" by (rule div_le_dividend)
  then have "unat amount + unat amount * unat bps div 10000 < 2 ^ 64"
    using assms by (simp add: algebra_simps)
  then show ?thesis by (simp add: buy_with_slippage_def unat_plus_no_wrap d)
qed

lemma sell_with_slippage_nat:
  assumes "unat amount * unat bps < 2 ^ 64" and "unat bps \<le> 10000"
  shows "unat (sell_with_slippage amount bps) = unat amount - unat amount * unat bps div 10000"
    and "unat amount * unat bps div 10000 \<le> unat amount"
proof -
  have d: "unat (amount * ucast bps div 10000) = unat amount * unat bps div 10000"
    using assms(1) by (simp add: unat_div unat_times_no_wrap unat_ucast_up)
  show le: "unat amount * unat bps div 10000 \<le> unat amount"
    using mult_le_mono2 [OF assms(2), of "unat amount"] by linarith
  then show "unat (sell_with_slippage amount bps) = unat amount - unat amount * unat bps div 10000"
    by (simp add: sell_with_slippage_def unat_minus_no_wrap d)
qed

text \<open>C20. A quote of the pump executor is for the two tokens and the input amount it was asked for,
  and its threshold protects the trader on the right side: the SOL cost of a buy is raised by the
  slippage, the SOL proceeds of a sell are lowered by it, by exactly the whole basis points when the
  products fit in 64 bits.\<close>

theorem pump_quote_protects:
  assumes "pump_executor_quote sdk i = Inr q" and "pk_native_mint sdk = SOL"
    and "unat (si_slippage_bps i) \<le> 10000" and "unat (q_other_amount q) * 20000 < 2 ^ 64"
  shows "q_input_token q = si_input_token_mint i \<and> q_output_token q = si_output_token_mint i
    \<and> quote_input_amount q = si_amount i
    \<and> unat (q_other_amount_threshold q) =
      (let slip = unat (q_other_amount q) * unat (si_slippage_bps i) div 10000
       in if si_input_token_mint i = SOL then unat (q_other_amount q) + slip else unat (q_other_amount q) - slip)"
proof -
  obtain p where p: "pump_quote sdk i = Inr p" "q = pf_swap_quote sdk p"
    using assms(1) by (auto simp: pump_executor_quote_def)
  have o: "q_other_amount q = pf_sol_amount p" by (simp add: p(2) pf_swap_quote_def)
  have "unat (pf_sol_amount p) * (10000 + unat (si_slippage_bps i)) \<le> unat (pf_sol_amount p) * 20000"
    using assms(3) by (intro mult_le_mono2) simp
  then have w: "unat (pf_sol_amount p) * (10000 + unat (si_slippage_bps i)) < 2 ^ 64"
    using assms(4) unfolding o by (rule le_less_trans)
  then have w': "unat (pf_sol_amount p) * unat (si_slippage_bps i) < 2 ^ 64"
    by (simp add: algebra_simps)
  have "unat (q_other_amount_threshold q) =
      (let slip = unat (q_other_amount q) * unat (si_slippage_bps i) div 10000
       in if si_input_token_mint i = SOL then unat (q_other_amount q) + slip else unat (q_other_amount q) - slip)"
  proof (cases "pf_is_buy p")
    case True
    with p(1) show ?thesis
      by (rule pump_quote_buy) (use w in \<open>simp add: p(2) pf_swap_quote_def buy_with_slippage_nat\<close>)
  next
    case False
    have "si_input_token_mint i \<noteq> SOL" using p(1) False by (rule pump_quote_sell_side)
    moreover have "pf_sol_amount_with_slippage p = sell_with_slippage (pf_sol_amount p) (si_slippage_bps i)"
      using p(1) False by (rule pump_quote_sell)
    ultimately show ?thesis
      using w' assms(3) by (simp add: p(2) pf_swap_quote_def sell_with_slippage_nat)
  qed
  then show ?thesis using pump_executor_quote_tokens [OF assms(1,2)] by (intro conjI)
qed

definition example_pump_sdk :: pump_sdk where
  "example_pump_sdk = \<lparr>
     pk_get_multiple_accounts = (\<lambda>keys. Inr [Some \<lparr>ra_owner = 6, ra_data = replicate 82 0\<rparr>,
       Some \<lparr>ra_owner = PUMPFUN_PROGRAM_ID, ra_data = []\<rparr>,
       Some \<lparr>ra_owner = PUMPFUN_PROGRAM_ID, ra_data = []\<rparr>]),
     pk_bonding_curve_pda = (\<lambda>m. m + 1), pk_global_pda = 8,
     pk_token_program = 6, pk_token_2022_program = 7,
     pk_native_mint = SOL, pk_native_decimals = 9,
     pk_unpack_mint_decimals = (\<lambda>_. Inr 6), pk_curve_from_bytes = (\<lambda>_. Inr example_curve),
     pk_global_from_bytes = (\<lambda>_. Inr \<lparr>gl_discriminator = replicate 8 0,
       gl_initialized = True, gl_authority = 0, gl_fee_recipient = 9,
       gl_initial_virtual_token_reserves = 1073000000000000, gl_initial_virtual_sol_reserves = 30000000000,
       gl_initial_real_token_reserves = 793100000000000,
       gl_token_total_supply = 1000000000000000, gl_fee_basis_points = 100\<rparr>),
     pk_buy_codec = \<lparr>cd_put = (\<lambda>_. None), cd_get = (\<lambda>_. None)\<rparr>,
     pk_sell_codec = \<lparr>cd_put = (\<lambda>_. None), cd_get = (\<lambda>_. None)\<rparr>\<rparr>"

definition example_pump_input :: swap_input where
  "example_pump_input = \<lparr>si_input_token_mint = SOL, si_output_token_mint = 42,
     si_slippage_bps = 500, si_amount = 1000000000, si_mode = ExactIn, si_market = None\<rparr>"

theorem pump_quote_protects_witness:
  "\<exists>q. pump_executor_quote example_pump_sdk example_pump_input = Inr q
     \<and> q_input_token q = SOL \<and> q_output_token q = 42 \<and> quote_input_amount q = 1000000000
     \<and> unat (q_other_amount_threshold q) = 1050000000"
proof -
  obtain t where t: "get_buy_price example_curve 1000000000 = Inr t"
    by (rule get_buy_price_nat [of example_curve 1000000000]) (simp_all add: example_curve_def)
  then have "\<exists>q. pump_executor_quote example_pump_sdk example_pump_input = Inr q \<and> q_other_amount q = 1000000000"
    by (simp add: pump_executor_quote_def pump_quote_def pump_side_def example_pump_sdk_def
        example_pump_input_def SOL_def mint_decimals_of_def MINT_LEN_def pf_swap_quote_def)
  then obtain q where q: "pump_executor_quote example_pump_sdk example_pump_input = Inr q"
    "q_other_amount q = 1000000000" by blast
  have "pk_native_mint example_pump_sdk = SOL" "unat (si_slippage_bps example_pump_input) \<le> 10000"
    "unat (q_other_amount q) * 20000 < 2 ^ 64"
    by (simp_all add: example_pump_sdk_def example_pump_input_def q(2))
  note pump_quote_protects [OF q(1) this]
  then show ?thesis using q by (intro exI [of _ q]) (simp add: example_pump_input_def)
qed

lemma u64_as_u128_eq_0: "(ucast w :: u128) = 0 \<longleftrightarrow> w = 0" for w :: u64
  by (metis unat_0 unat_eq_zero unat_u64_as_u128)

lemma u64_plus_as_u128_eq_0: "(ucast a + ucast b :: u128) = 0 \<longleftrightarrow> a = 0 \<and> b = 0" for a b :: u64
proof -
  have "unat (ucast a + ucast b :: u128) = unat a + unat b"
    using unat_u64_less [of a] unat_u64_less [of b]
    by (subst unat_plus_no_wrap) (simp_all add: unat_u64_as_u128)
  then show ?thesis by (metis add_is_0 unat_0 unat_eq_zero)
qed

text \<open>Both sides of the curve fail exactly when they must: a buy when the curve is complete or
  when the sum of the SOL reserves and the amount wraps to zero (the division panics), a sell exactly
  when the curve is complete and then with the curve's own error.\<close>

theorem curve_errors_iff:
  "((\<exists>e. get_buy_price c amount = Inl e) \<longleftrightarrow>
      bc_complete c \<or> amount \<noteq> 0 \<and> bc_virtual_sol_reserves c + amount = 0)
   \<and> (get_sell_price c amount fee_bps = Inl e \<longleftrightarrow> bc_complete c \<and> e = bonding_curve_complete)"
  by (auto simp: get_buy_price_def get_sell_price_def div_panic_def Let_def u64_as_u128_eq_0
      u64_plus_as_u128_eq_0)

section \<open>Building the swap\<close>

definition EVENT_AUTHORITY :: pubkey where
  "EVENT_AUTHORITY = 78223999129032627460485737577763836544654344427451066158734794804030640184420"

definition pump_instruction_of :: "pump_sdk \<Rightarrow> token_sdk \<Rightarrow> pubkey \<Rightarrow> pf_quote \<Rightarrow> wire_instruction result" where
  "pump_instruction_of sdk tok input_pubkey q =
     (let bonding_curve = pk_bonding_curve_pda sdk (pf_mint q);
          bonding_curve_ata = ts_ata tok bonding_curve (pf_mint q) (ts_token_program tok);
          user_ata = ts_ata tok input_pubkey (pf_mint q) (ts_token_program tok)
      in if pf_is_buy q
         then pump_buy_builder_instruction (pk_buy_codec sdk)
                (pump_buy_event_authority EVENT_AUTHORITY
                (pump_buy_bonding_curve bonding_curve
                (pump_buy_global (pf_protocol_address q)
                (pump_buy_user input_pubkey
                (pump_buy_associated_user user_ata
                (pump_buy_associated_bonding_curve bonding_curve_ata
                (pump_buy_mint (pf_mint q)
                (pump_buy_fee_recipient (pf_fee_recipient q)
                (pump_buy_max_sol_cost (pf_sol_amount_with_slippage q)
                (pump_buy_amount (pf_token_amount q) pump_buy_builder_new))))))))))
         else pump_sell_builder_instruction (pk_sell_codec sdk)
                (pump_sell_event_authority EVENT_AUTHORITY
                (pump_sell_bonding_curve bonding_curve
                (pump_sell_global (pf_protocol_address q)
                (pump_sell_user input_pubkey
                (pump_sell_associated_user user_ata
                (pump_sell_associated_bonding_curve bonding_curve_ata
                (pump_sell_mint (pf_mint q)
                (pump_sell_fee_recipient (pf_fee_recipient q)
                (pump_sell_min_sol_output (pf_sol_amount_with_slippage q)
                (pump_sell_amount (pf_token_amount q) pump_sell_builder_new)))))))))))"

text \<open>The instructions of the client, which sets the same fields of the builders.\<close>

definition pump_client_buy_instruction ::
  "pump_sdk \<Rightarrow> token_sdk \<Rightarrow> pubkey \<Rightarrow> global_config \<Rightarrow> pubkey \<Rightarrow> pubkey \<Rightarrow> u64 \<Rightarrow> u64 \<Rightarrow> wire_instruction result" where
  "pump_client_buy_instruction sdk tok address protocol user mint amount sol_amount =
     (let bonding_curve = pk_bonding_curve_pda sdk mint;
          bonding_curve_ata = ts_ata tok bonding_curve mint (ts_token_program tok);
          user_ata = ts_ata tok user mint (ts_token_program tok)
      in pump_buy_builder_instruction (pk_buy_codec sdk)
           (pump_buy_event_authority EVENT_AUTHORITY
           (pump_buy_bonding_curve bonding_curve
           (pump_buy_global address
           (pump_buy_user user
           (pump_buy_associated_user user_ata
           (pump_buy_associated_bonding_curve bonding_curve_ata
           (pump_buy_mint mint
           (pump_buy_fee_recipient (gl_fee_recipient protocol)
           (pump_buy_max_sol_cost sol_amount
           (pump_buy_amount amount pump_buy_builder_new)))))))))))"

definition pump_client_sell_instruction ::
  "pump_sdk \<Rightarrow> token_sdk \<Rightarrow> pubkey \<Rightarrow> global_config \<Rightarrow> pubkey \<Rightarrow> pubkey \<Rightarrow> u64 \<Rightarrow> u64 \<Rightarrow> wire_instruction result" where
  "pump_client_sell_instruction sdk tok address protocol user mint amount minimum_sol_out =
     (let bonding_curve = pk_bonding_curve_pda sdk mint;
          bonding_curve_ata = ts_ata tok bonding_curve mint (ts_token_program tok);
          user_ata = ts_ata tok user mint (ts_token_program tok)
      in pump_sell_builder_instruction (pk_sell_codec sdk)
           (pump_sell_event_authority EVENT_AUTHORITY
           (pump_sell_bonding_curve bonding_curve
           (pump_sell_global address
           (pump_sell_user user
           (pump_sell_associated_user user_ata
           (pump_sell_associated_bonding_curve bonding_curve_ata
           (pump_sell_mint mint
           (pump_sell_fee_recipient (gl_fee_recipient protocol)
           (pump_sell_min_sol_output minimum_sol_out
           (pump_sell_amount amount pump_sell_builder_new)))))))))))"

text \<open>What \<open>make_swap\<close> does with its swap instruction: the token accounts, the compute budget and the
  priority fee around it.\<close>

definition pump_finish_swap ::
  "pump_sdk \<Rightarrow> token_sdk \<Rightarrow> (wire_instruction, 'msg) message_sdk \<Rightarrow> ('msg built_transaction \<Rightarrow> u64 option result)
     \<Rightarrow> pubkey \<Rightarrow> f64 option \<Rightarrow> swap_config \<Rightarrow> pubkey \<Rightarrow> pf_quote \<Rightarrow> swap_config_overrides option
     \<Rightarrow> wire_instruction \<Rightarrow> wire_instruction swap_instructions_builder result" where
  "pump_finish_swap sdk tok msg simulate jito_recipient high_fee config input_pubkey q overrides ix =
     (let priority_fee = or_else (Option.bind overrides so_priority_fee) (sc_priority_fee config);
          cu_limits = or_else (Option.bind overrides so_cu_limits) (sc_cu_limits config);
          wrap_and_unwrap_sol = unwrap_or (or_else (Option.bind overrides so_wrap_and_unwrap_sol)
            (sc_wrap_and_unwrap_sol config)) True;
          output = pf_swap_quote sdk q;
          builder = builder_default\<lparr>sb_swap_instruction := Some (SwapIx ix)\<rparr>
      in bind_res (handle_token_wrapping_and_accounts_creation tok input_pubkey wrap_and_unwrap_sol
             (if q_amount_specified_is_input output then q_amount output else q_other_amount output)
             (q_input_token output) (q_output_token output)
             (pf_input_token_program q) (pf_output_token_program q) None builder) (\<lambda>(builder, associated_accounts).
         bind_res (handle_compute_units_params msg simulate cu_limits input_pubkey builder)
           (\<lambda>(builder, compute_units).
         handle_priority_fee_params jito_recipient high_fee priority_fee compute_units input_pubkey builder)))"

definition make_swap ::
  "pump_sdk \<Rightarrow> token_sdk \<Rightarrow> (wire_instruction, 'msg) message_sdk \<Rightarrow> ('msg built_transaction \<Rightarrow> u64 option result)
     \<Rightarrow> pubkey \<Rightarrow> f64 option \<Rightarrow> swap_config \<Rightarrow> pubkey \<Rightarrow> pf_quote \<Rightarrow> swap_config_overrides option
     \<Rightarrow> wire_instruction swap_instructions_builder result" where
  "make_swap sdk tok msg simulate jito_recipient high_fee config input_pubkey q overrides =
     bind_res (pump_instruction_of sdk tok input_pubkey q)
       (pump_finish_swap sdk tok msg simulate jito_recipient high_fee config input_pubkey q overrides)"

text \<open>\<open>swap_transaction\<close>: \<open>None\<close> for the blockhash stands for an executor without a blockhash feed.\<close>

definition pump_swap_transaction ::
  "pump_sdk \<Rightarrow> token_sdk \<Rightarrow> (wire_instruction, 'msg) message_sdk \<Rightarrow> ('msg built_transaction \<Rightarrow> u64 option result)
     \<Rightarrow> pubkey \<Rightarrow> f64 option \<Rightarrow> (hash \<times> u64) option \<Rightarrow> swap_config \<Rightarrow> pubkey \<Rightarrow> pf_quote
     \<Rightarrow> swap_config_overrides option \<Rightarrow> ('msg built_transaction transaction_variant \<times> u64) result" where
  "pump_swap_transaction sdk tok msg simulate jito_recipient high_fee latest config input_pubkey q overrides =
     bind_res (make_swap sdk tok msg simulate jito_recipient high_fee config input_pubkey q overrides) (\<lambda>builder.
     let (blockhash, last_valid_blockheight) = (case latest of None \<Rightarrow> (0, 0) | Some b \<Rightarrow> b)
     in bind_res (build_transaction msg (Some input_pubkey) (Some blockhash) builder) (\<lambda>tx.
        Inr (TxVersioned tx, last_valid_blockheight)))"

definition pump_swap_instructions ::
  "pump_sdk \<Rightarrow> token_sdk \<Rightarrow> (wire_instruction, 'msg) message_sdk \<Rightarrow> ('msg built_transaction \<Rightarrow> u64 option result)
     \<Rightarrow> pubkey \<Rightarrow> f64 option \<Rightarrow> swap_config \<Rightarrow> pubkey \<Rightarrow> pf_quote \<Rightarrow> swap_config_overrides option
     \<Rightarrow> wire_instruction instruction list result" where
  "pump_swap_instructions sdk tok msg simulate jito_recipient high_fee config input_pubkey q overrides =
     bind_res (make_swap sdk tok msg simulate jito_recipient high_fee config input_pubkey q overrides)
       build_instructions"

text \<open>What is built around a swap instruction: the compute budget first, then the token accounts and the
  Jito tip, then the swap instruction, and last, exactly when SOL is wrapped, the closing of the wrapped
  SOL account of the user. A buy transfers exactly the quoted SOL amount into the very account that is closed.\<close>

theorem pump_swap_layout:
  assumes "bind_res (pump_finish_swap sdk tok msg simulate r high config user q overrides ix) build_instructions = Inr ixs"
    and "ts_native tok = pk_native_mint sdk" and "pf_mint q \<noteq> pk_native_mint sdk"
  defines "wrap \<equiv> unwrap_or (or_else (Option.bind overrides so_wrap_and_unwrap_sol)
      (sc_wrap_and_unwrap_sol config)) True"
    and "wsol \<equiv> ts_ata tok user (pk_native_mint sdk)
      (if pf_is_buy q then pf_input_token_program q else pf_output_token_program q)"
  shows "\<exists>budget accounts tip cleanup.
      ixs = budget @ accounts @ tip @ [SwapIx ix] @ cleanup
    \<and> set budget \<subseteq> range SetComputeUnitLimit \<union> range SetComputeUnitPrice
    \<and> accounts = (if pf_is_buy q
        then [CreateAtaIdempotent user user (pk_native_mint sdk) (ts_token_program tok)]
          @ (if wrap then [SystemTransfer user wsol (pf_sol_amount q), SyncNative (ts_token_program tok) wsol] else [])
          @ [CreateAtaIdempotent user user (pf_mint q) (pf_output_token_program q)]
        else [CreateAtaIdempotent user user (pk_native_mint sdk) (pf_output_token_program q)])
    \<and> (tip = [] \<or> (\<exists>t. tip = [SystemTransfer user r t]))
    \<and> cleanup = (if wrap then [CloseAccount (ts_token_program tok) wsol user user] else [])"
proof -
  let ?out = "pf_swap_quote sdk q"
  let ?sw = "Some (SwapIx ix)"
  obtain b1 u b2 units b3 where
    1: "handle_token_wrapping_and_accounts_creation tok user wrap
             (if q_amount_specified_is_input ?out then q_amount ?out else q_other_amount ?out)
             (q_input_token ?out) (q_output_token ?out)
             (pf_input_token_program q) (pf_output_token_program q) None
             (builder_default\<lparr>sb_swap_instruction := ?sw\<rparr>) = Inr (b1, u)"
    and 2: "handle_compute_units_params msg simulate
        (or_else (Option.bind overrides so_cu_limits) (sc_cu_limits config)) user b1 = Inr (b2, units)"
    and 3: "handle_priority_fee_params r high
        (or_else (Option.bind overrides so_priority_fee) (sc_priority_fee config)) units user b2 = Inr b3"
    and 4: "build_instructions b3 = Inr ixs"
    using assms(1) unfolding pump_finish_swap_def wrap_def Let_def
    by (clarsimp elim!: bind_res_InrE simp del: handle_priority_fee_params.simps)
  note w = wrapping_default [OF 1]
  obtain budget tip where ixs: "ixs = budget @ sb_setup_instructions b1 @ tip @ [SwapIx ix]
      @ (case sb_cleanup_instruction b1 of Some ix \<Rightarrow> [ix] | None \<Rightarrow> [])"
      and budget: "set budget \<subseteq> range SetComputeUnitLimit \<union> range SetComputeUnitPrice"
      and tip: "tip = [] \<or> (\<exists>t. tip = [SystemTransfer user r t])"
    using finished_layout [OF 2 3 4 w(1,2)] .
  show ?thesis
    by (intro exI conjI, rule ixs, rule budget)
      (use tip assms(2,3) in \<open>simp_all add: w(3,4) pf_swap_quote_def wsol_def\<close>)
qed

definition example_token_sdk :: token_sdk where
  "example_token_sdk = \<lparr>ts_ata = (\<lambda>w m p. w + m + p), ts_token_program = 6, ts_native = SOL\<rparr>"

definition example_message_sdk :: "(wire_instruction, wire_instruction instruction list) message_sdk" where
  "example_message_sdk = \<lparr>ms_new = (\<lambda>ixs payer. ixs), ms_set_recent_blockhash = (\<lambda>h m. m)\<rparr>"

definition example_pf_quote :: pf_quote where
  "example_pf_quote = \<lparr>pf_is_buy = True, pf_token_amount = 34612903225806, pf_sol_amount = 1000000000,
     pf_sol_amount_with_slippage = 1050000000, pf_mint = 42, pf_mint_decimals = 6, pf_fee_recipient = 9,
     pf_protocol_address = 8, pf_input_token_program = 6, pf_output_token_program = 6\<rparr>"

definition example_swap_config :: swap_config where
  "example_swap_config = \<lparr>sc_priority_fee = Some (FixedCuPrice 1000), sc_cu_limits = Some CuDynamic,
     sc_wrap_and_unwrap_sol = None, sc_as_legacy_transaction = Some True\<rparr>"

definition example_wire_ix :: wire_instruction where
  "example_wire_ix = \<lparr>wi_program_id = PUMP_ID, wi_accounts = [meta_new 77 True], wi_data = pump_buy_data\<rparr>"

theorem pump_swap_layout_witness:
  "\<exists>ixs budget tip. bind_res (pump_finish_swap example_pump_sdk example_token_sdk example_message_sdk
       (\<lambda>tx. Inr (Some 90000)) 5 None example_swap_config 77 example_pf_quote None example_wire_ix) build_instructions = Inr ixs
     \<and> ixs = budget @ [CreateAtaIdempotent 77 77 SOL 6, SystemTransfer 77 (77 + SOL + 6) 1000000000,
          SyncNative 6 (77 + SOL + 6), CreateAtaIdempotent 77 77 42 6] @ tip
        @ [SwapIx example_wire_ix]
        @ [CloseAccount 6 (77 + SOL + 6) 77 77]"
proof -
  let ?f = "bind_res (pump_finish_swap example_pump_sdk example_token_sdk example_message_sdk
       (\<lambda>tx. Inr (Some 90000)) 5 None example_swap_config 77 example_pf_quote None example_wire_ix) build_instructions"
  have "\<exists>ixs. ?f = Inr ixs"
    by (simp add: pump_finish_swap_def example_swap_config_def or_else_def
        handle_token_wrapping_and_accounts_creation_def handle_input_account_def handle_output_account_def
        handle_compute_units_params_def cu_limit_of_def build_transaction_def build_instructions_def
        ok_or_def simulated_limit_def try_from_def checked_add_def Let_def)
  then obtain ixs where f: "?f = Inr ixs" ..
  have "ts_native example_token_sdk = pk_native_mint example_pump_sdk"
    "pf_mint example_pf_quote \<noteq> pk_native_mint example_pump_sdk"
    by (simp_all add: example_token_sdk_def example_pump_sdk_def example_pf_quote_def SOL_def)
  from pump_swap_layout [OF f this] f show ?thesis
    by (auto simp: example_token_sdk_def example_pump_sdk_def example_pf_quote_def
        example_swap_config_def or_else_def)
qed

section \<open>No trade is ever built\<close>

text \<open>C21. The program account of a pump trade has no default in the generated builders, nor has the
  associated token program of a sale, and neither the executor nor the client sets them: whatever the
  quote, the accounts and the configuration are, building a purchase panics with the missing program and
  building a sale with the missing associated token program, and with them every swap of the executor,
  as instructions or as a transaction.\<close>

theorem pump_swaps_panic:
  fixes msg :: "(wire_instruction, 'msg) message_sdk"
  shows "make_swap sdk tok msg simulate r high config user q overrides
       = Inl (Panic (if pf_is_buy q then ''program is not set'' else ''associated_token_program is not set''))
   \<and> (\<exists>e. pump_swap_instructions sdk tok msg simulate r high config user q overrides = Inl (Panic e))
   \<and> (\<exists>e. pump_swap_transaction sdk tok msg simulate r high latest config user q overrides = Inl (Panic e))
   \<and> pump_client_buy_instruction sdk tok address protocol user mint amount limit = Inl (Panic ''program is not set'')
   \<and> pump_client_sell_instruction sdk tok address protocol user mint amount limit
       = Inl (Panic ''associated_token_program is not set'')"
proof -
  have client: "pump_client_buy_instruction sdk tok address protocol user mint amount limit = Inl (Panic ''program is not set'')"
    "pump_client_sell_instruction sdk tok address protocol user mint amount limit
       = Inl (Panic ''associated_token_program is not set'')"
    by (simp_all add: pump_client_buy_instruction_def pump_client_sell_instruction_def
        pump_buy_builder_instruction_def pump_sell_builder_instruction_def pump_buy_setters pump_sell_setters)
  have "pump_instruction_of sdk tok user q
      = Inl (Panic (if pf_is_buy q then ''program is not set'' else ''associated_token_program is not set''))"
    by (simp add: pump_instruction_of_def pump_buy_builder_instruction_def pump_sell_builder_instruction_def
        pump_buy_setters pump_sell_setters)
  then have "make_swap sdk tok msg simulate r high config user q overrides
       = Inl (Panic (if pf_is_buy q then ''program is not set'' else ''associated_token_program is not set''))"
    by (simp add: make_swap_def)
  then show ?thesis
    by (simp add: pump_swap_instructions_def pump_swap_transaction_def client)
qed

end
