(* ===== verification/Parser.thy ===== *)
theory Parser
  imports Raydium_V4
begin

text \<open>
  The swap parser (\<open>V1Parser\<close> of \<^verbatim>\<open>parser/v1/mod.rs\<close>): the first instruction of a transaction that is a
  swap of Jupiter, Pump or Raydium, with the amounts that moved. The Borsh and AMM decoders, the base58
  and base64 forms and the address of the native mint are arguments.
\<close>

record 'x parser_sdk =
  ps_text :: text_sdk
  ps_trade_event :: "bytes \<Rightarrow> trade_event option"
  ps_swap_event :: "bytes \<Rightarrow> swap_event option"
  ps_amm_unpack :: "bytes \<Rightarrow> 'x amm_instruction result"
  ps_native_mint :: pubkey

definition decode_jupiter :: "'x parser_sdk \<Rightarrow> itransaction \<Rightarrow> usize \<Rightarrow> resolved_swap option result" where
  "decode_jupiter sdk tx idx =
     (let cpi_logs = unwrap_or (get_cpi_logs_for_instruction tx idx) []
      in bind_res (parse_jupiter_swap_events (ps_swap_event sdk) cpi_logs) (\<lambda>events.
         Inr (case merge_jupiter_events events of
                None \<Rightarrow> None
              | Some event \<Rightarrow> Some (resolved_swap_plain Jupiter (se_input_amount event)
                  (se_output_amount event) (se_input_mint event) (se_output_mint event)))))"

definition decode_pumpfun :: "'x parser_sdk \<Rightarrow> itransaction \<Rightarrow> resolved_swap option result" where
  "decode_pumpfun sdk tx =
     bind_res (get_logs_for_program (ps_text sdk) tx PUMPFUN_PROGRAM_ID) (\<lambda>logs.
     bind_res (parse_pumpfun_swap_events (ps_trade_event sdk) logs) (\<lambda>events.
     Inr (case events of
            [] \<Rightarrow> None
          | event # _ \<Rightarrow> Some (if te_is_buy event
              then resolved_swap_plain Pump (te_sol_amount event) (te_token_amount event)
                     (ps_native_mint sdk) (te_mint event)
              else resolved_swap_plain Pump (te_token_amount event) (te_sol_amount event)
                     (te_mint event) (ps_native_mint sdk)))))"

section \<open>Raydium\<close>

record raydium_accounts =
  ry_amm_coin_pre :: u64
  ry_amm_coin_post :: u64
  ry_amm_coin_mint :: pubkey
  ry_amm_pc_pre :: u64
  ry_amm_pc_post :: u64
  ry_amm_pc_mint :: pubkey
  ry_coin_to_pc :: bool

definition key_at :: "pubkey list \<Rightarrow> u8 \<Rightarrow> pubkey option" where
  "key_at keys i = (if unat i < length keys then Some (keys ! unat i) else None)"

definition find_balance :: "pubkey list \<Rightarrow> pubkey \<Rightarrow> token_balance list \<Rightarrow> token_balance option" where
  "find_balance keys account balances =
     find_map (\<lambda>b. if key_at keys (tb_account_index b) = Some account then Some b else None) balances"

definition get_balances_for_token_account ::
  "tx_meta \<Rightarrow> pubkey list \<Rightarrow> pubkey \<Rightarrow> token_balance option \<times> token_balance option" where
  "get_balances_for_token_account meta keys account =
     (find_balance keys account (unwrap_or (tm_pre_token_balances meta) []),
      find_balance keys account (unwrap_or (tm_post_token_balances meta) []))"

definition calc_amount :: "token_balance \<Rightarrow> u64" where
  "calc_amount b = f64_as_u64 (f_trunc (f_mul (unwrap_or (tb_ui_amount b) f64_zero)
     (u32_as_f64 (pow10_u32 (tb_decimals b)))))"

text \<open>The first balance of the user that is known, the source account first.\<close>

definition user_account_item ::
  "tx_meta \<Rightarrow> pubkey list \<Rightarrow> pubkey \<Rightarrow> pubkey \<Rightarrow> (token_balance \<times> bool) option" where
  "user_account_item meta keys user_source user_destination =
     (case get_balances_for_token_account meta keys user_source of (input_pre, input_post) \<Rightarrow>
      case get_balances_for_token_account meta keys user_destination of (output_pre, output_post) \<Rightarrow>
      find_map (\<lambda>(b, is_input). map_option (\<lambda>balance. (balance, is_input)) b)
        [(input_pre, True), (input_post, True), (output_pre, False), (output_post, False)])"

definition resolve_raydium_accounts ::
  "(string \<Rightarrow> pubkey option) \<Rightarrow> tx_meta \<Rightarrow> pubkey list \<Rightarrow> pubkey \<Rightarrow> pubkey \<Rightarrow> pubkey \<Rightarrow> pubkey
     \<Rightarrow> raydium_accounts result" where
  "resolve_raydium_accounts from_str meta keys user_source user_destination amm_coin_vault amm_pc_vault =
     bind_res (ok_or (user_account_item meta keys user_source user_destination)
       ''Failed to get info for any user account'') (\<lambda>(user_account, is_input).
     bind_res (ok_or (from_str (tb_mint user_account)) ''Invalid Base58 string'') (\<lambda>user_account_mint.
     case get_balances_for_token_account meta keys amm_coin_vault of (coin_pre, coin_post) \<Rightarrow>
     case get_balances_for_token_account meta keys amm_pc_vault of (pc_pre, pc_post) \<Rightarrow>
     bind_res (ok_or coin_pre ''failed getting pre info for amm coin vault'') (\<lambda>coin_pre.
     bind_res (ok_or coin_post ''failed getting post info for amm coin vault'') (\<lambda>coin_post.
     bind_res (ok_or pc_pre ''failed getting pre info for amm pc vault'') (\<lambda>pc_pre.
     bind_res (ok_or pc_post ''failed getting post info for amm pc vault'') (\<lambda>pc_post.
     bind_res (ok_or (from_str (tb_mint coin_post)) ''Invalid Base58 string'') (\<lambda>amm_coin_mint.
     bind_res (ok_or (from_str (tb_mint pc_post)) ''Invalid Base58 string'') (\<lambda>amm_pc_mint.
     Inr \<lparr>ry_amm_coin_pre = calc_amount coin_pre, ry_amm_coin_post = calc_amount coin_post,
          ry_amm_coin_mint = amm_coin_mint,
          ry_amm_pc_pre = calc_amount pc_pre, ry_amm_pc_post = calc_amount pc_post,
          ry_amm_pc_mint = amm_pc_mint,
          ry_coin_to_pc = ((amm_coin_mint = user_account_mint) = is_input)\<rparr>))))))))"

definition raydium_plain :: "pubkey \<Rightarrow> pubkey \<Rightarrow> u64 \<Rightarrow> u64 \<Rightarrow> pubkey \<Rightarrow> pubkey \<Rightarrow> resolved_swap" where
  "raydium_plain pool wallet x y i j =
     (resolved_swap_plain (RaydiumV4 (Some pool)) x y i j)\<lparr>rs_owner := Some wallet\<rparr>"

definition raydium_base_in ::
  "raydium_accounts \<Rightarrow> u64 \<Rightarrow> swap_base_in_accounts \<Rightarrow> resolved_swap result" where
  "raydium_base_in r amount_in accounts =
     (let (input_token_mint, output_token_mint, output_amount) =
            (if ry_coin_to_pc r
             then (ry_amm_coin_mint r, ry_amm_pc_mint r, checked_sub (ry_amm_pc_pre r) (ry_amm_pc_post r))
             else (ry_amm_pc_mint r, ry_amm_coin_mint r, checked_sub (ry_amm_coin_pre r) (ry_amm_coin_post r)))
      in bind_res (ok_or output_amount ''amm output vault should decrease in balance'') (\<lambda>output_amount.
         Inr (raydium_plain (bi_amm_account accounts) (bi_user_wallet_account accounts)
                amount_in output_amount input_token_mint output_token_mint)))"

definition raydium_base_out ::
  "raydium_accounts \<Rightarrow> u64 \<Rightarrow> swap_base_out_accounts \<Rightarrow> resolved_swap result" where
  "raydium_base_out r amount_out accounts =
     (let (input_token_mint, output_token_mint, input_amount) =
            (if ry_coin_to_pc r
             then (ry_amm_coin_mint r, ry_amm_pc_mint r, checked_sub (ry_amm_coin_post r) (ry_amm_coin_pre r))
             else (ry_amm_pc_mint r, ry_amm_coin_mint r, checked_sub (ry_amm_pc_post r) (ry_amm_pc_pre r)))
      in bind_res (ok_or input_amount ''amm input vault should increase in balance'') (\<lambda>input_amount.
         Inr (raydium_plain (bo_amm_account accounts) (bo_user_wallet_account accounts)
                input_amount amount_out input_token_mint output_token_mint)))"

definition decode_raydium_v4 ::
  "'x parser_sdk \<Rightarrow> itransaction \<Rightarrow> compiled_instruction \<Rightarrow> resolved_swap option result" where
  "decode_raydium_v4 sdk tx ix =
     bind_res (decode_raydium_v4_instruction (ps_amm_unpack sdk) ix (tx_account_keys tx)) (\<lambda>parsed.
     bind_res (ok_or (tx_meta_opt tx) ''transaction meta is null'') (\<lambda>meta.
     let resolve = resolve_raydium_accounts (xt_from_str (ps_text sdk)) meta (tx_account_keys tx)
     in case parsed of
          RaySwapBaseIn amount_in minimum_out accounts \<Rightarrow>
            bind_res (resolve (bi_user_source_token_account accounts) (bi_user_destination_token_account accounts)
                (bi_amm_coin_vault accounts) (bi_amm_pc_vault accounts)) (\<lambda>r.
            bind_res (raydium_base_in r amount_in accounts) (\<lambda>swap. Inr (Some swap)))
        | RaySwapBaseOut max_in amount_out accounts \<Rightarrow>
            bind_res (resolve (bo_user_source_token_account accounts) (bo_user_destination_token_account accounts)
                (bo_amm_coin_vault accounts) (bo_amm_pc_vault accounts)) (\<lambda>r.
            bind_res (raydium_base_out r amount_out accounts) (\<lambda>swap. Inr (Some swap)))
        | _ \<Rightarrow> Inr None))"

section \<open>Transactions\<close>

definition parse_swap_instruction ::
  "'x parser_sdk \<Rightarrow> itransaction \<Rightarrow> compiled_instruction \<Rightarrow> usize option \<Rightarrow> resolved_swap option result" where
  "parse_swap_instruction sdk tx ix idx =
     bind_res (ok_or (key_at (tx_account_keys tx) (ci_program_id_index ix))
       ''Failed getting program-id. Invalid index?'') (\<lambda>program_id.
     if program_id = JUPITER_AGGREGATOR_V6_PROGRAM_ID
     then (case idx of Some idx \<Rightarrow> decode_jupiter sdk tx idx | None \<Rightarrow> Inr None)
     else if program_id = PUMPFUN_PROGRAM_ID then decode_pumpfun sdk tx
     else if program_id = RAYDIUM_LIQUIDITY_POOL_V4_PROGRAM_ID then decode_raydium_v4 sdk tx ix
     else Inr None)"

text \<open>Both loops return the first swap; an error of an instruction before it ends them.\<close>

fun first_swap :: "('i \<Rightarrow> resolved_swap option result) \<Rightarrow> 'i list \<Rightarrow> resolved_swap option result" where
  "first_swap parse [] = Inr None"
| "first_swap parse (ix # ixs) = bind_res (parse ix) (\<lambda>swap. case swap of
     Some s \<Rightarrow> Inr (Some s) | None \<Rightarrow> first_swap parse ixs)"

definition parse_swap_transaction :: "'x parser_sdk \<Rightarrow> itransaction \<Rightarrow> resolved_swap option result" where
  "parse_swap_transaction sdk tx =
     bind_res (first_swap (\<lambda>(i, ix). parse_swap_instruction sdk tx ix (Some (of_nat i)))
       (enumerate 0 (tx_instructions tx))) (\<lambda>swap. case swap of
       Some s \<Rightarrow> Inr (Some s)
     | None \<Rightarrow> (case tx_inner_instructions tx of
         None \<Rightarrow> Inr None
       | Some instructions \<Rightarrow>
           first_swap (\<lambda>ix. parse_swap_instruction sdk tx ix None) (concat (map snd instructions))))"

section \<open>Raydium swaps\<close>

text \<open>The user's token settles the direction of the swap.\<close>

lemma resolve_raydium_direction:
  assumes "resolve_raydium_accounts from_str meta keys src dst coin_vault pc_vault = Inr r"
    and "user_account_item meta keys src dst = Some (b, is_input)" and "from_str (tb_mint b) = Some m"
    and "ry_amm_coin_mint r \<noteq> ry_amm_pc_mint r" and "m = ry_amm_coin_mint r \<or> m = ry_amm_pc_mint r"
  shows "m = (if ry_coin_to_pc r = is_input then ry_amm_coin_mint r else ry_amm_pc_mint r)"
  using assms by (auto simp: resolve_raydium_accounts_def ok_or_def split: option.splits prod.splits)

text \<open>The balances of the vaults as the meta data of the transaction reports them.\<close>

lemma resolve_raydium_vaults:
  assumes "resolve_raydium_accounts from_str meta keys src dst coin_vault pc_vault = Inr r"
  obtains cpre cpost ppre ppost
  where "get_balances_for_token_account meta keys coin_vault = (Some cpre, Some cpost)"
    and "get_balances_for_token_account meta keys pc_vault = (Some ppre, Some ppost)"
    and "from_str (tb_mint cpost) = Some (ry_amm_coin_mint r)" and "from_str (tb_mint ppost) = Some (ry_amm_pc_mint r)"
    and "ry_amm_coin_pre r = calc_amount cpre" and "ry_amm_coin_post r = calc_amount cpost"
    and "ry_amm_pc_pre r = calc_amount ppre" and "ry_amm_pc_post r = calc_amount ppost"
  using assms by (auto simp: resolve_raydium_accounts_def ok_or_def split: option.splits prod.splits)

lemma checked_sub_balance: "checked_sub a b = Some c \<Longrightarrow> unat c + unat b = unat a" for a b c :: "'a::len word"
  by (auto simp: checked_sub_def unat_minus_no_wrap word_less_nat_alt not_less split: if_splits)

definition vault_paid :: "(string \<Rightarrow> pubkey option) \<Rightarrow> tx_meta \<Rightarrow> pubkey list \<Rightarrow> pubkey \<Rightarrow> pubkey \<Rightarrow> u64 \<Rightarrow> bool" where
  "vault_paid from_str meta keys vault mint amount \<longleftrightarrow>
     (case get_balances_for_token_account meta keys vault of
        (Some pre, Some post) \<Rightarrow> from_str (tb_mint post) = Some mint
          \<and> unat amount + unat (calc_amount post) = unat (calc_amount pre)
      | _ \<Rightarrow> False)"


lemma calc_amount_exact:
  assumes "tb_ui_amount b = Some (Finite False x)" and "unat (tb_decimals b) \<le> 9"
    and "x * 10 ^ unat (tb_decimals b) = of_nat n" and "n \<le> 2 ^ 53"
  shows "calc_amount b = of_nat n"
proof -
  have "round64 False (x * of_nat (unat (pow10_u32 (tb_decimals b)))) = Finite False (of_nat n)"
    using assms(2-4) round64_of_nat [of n False] by (simp add: unat_pow10_u32 fl_exact)
  moreover have "f64_as_u64 (Finite False (of_nat n)) = of_nat n" using assms(4) by simp
  ultimately show ?thesis
    using assms(1) by (simp add: calc_amount_def u32_as_f64_Finite)
qed

definition example_balance :: "u8 \<Rightarrow> string \<Rightarrow> nat \<Rightarrow> token_balance" where
  "example_balance i mint n = \<lparr>tb_account_index = i, tb_mint = mint, tb_owner = None,
     tb_ui_amount = Some (Finite False (of_nat n)), tb_decimals = 0\<rparr>"

lemma calc_example_balance: "n \<le> 2 ^ 53 \<Longrightarrow> calc_amount (example_balance i mint n) = of_nat n"
  by (rule calc_amount_exact) (simp_all add: example_balance_def)

definition example_raydium_ix :: compiled_instruction where
  "example_raydium_ix = \<lparr>ci_program_id_index = 0, ci_accounts = map of_nat [0..<17], ci_data = [9]\<rparr>"

definition example_raydium_meta :: tx_meta where
  "example_raydium_meta = tx_meta_empty\<lparr>
     tm_pre_token_balances := Some [example_balance 4 ''C'' 500, example_balance 5 ''P'' 900, example_balance 14 ''C'' 30],
     tm_post_token_balances := Some [example_balance 4 ''C'' 520, example_balance 5 ''P'' 850, example_balance 14 ''C'' 10]\<rparr>"

definition example_raydium_keys :: "pubkey list" where
  "example_raydium_keys = map of_nat [100..<117]"

definition example_raydium_tx :: itransaction where
  "example_raydium_tx = plain_tx 0 [] example_raydium_keys [example_raydium_ix] (Some example_raydium_meta)"

definition example_parser_sdk :: "unit parser_sdk" where
  "example_parser_sdk = \<lparr>ps_text = \<lparr>xt_base64 = (\<lambda>s. if s = ''AQID'' then Some (TRADE_EVENT_DISCRIMINATOR @ [7]) else None),
       xt_to_string = (\<lambda>p. if p = PUMPFUN_PROGRAM_ID then ''Pump'' else ''Other''),
       xt_from_str = (\<lambda>s. if s = ''Pump'' then Some PUMPFUN_PROGRAM_ID else if s = ''C'' then Some 1 else Some 2)\<rparr>,
     ps_trade_event = (\<lambda>b. if b = [7] then Some \<lparr>te_mint = 42, te_sol_amount = 1000, te_token_amount = 77,
       te_is_buy = True, te_user = 5, te_timestamp = 0, te_virtual_sol_reserves = 0, te_virtual_token_reserves = 0,
       te_real_sol_reserves = 0, te_real_token_reserves = 0\<rparr> else None),
     ps_swap_event = (\<lambda>_. None), ps_amm_unpack = (\<lambda>_. Inr (AmmSwapBaseIn 20 40)), ps_native_mint = SOL\<rparr>"

lemmas example_raydium = example_raydium_ix_def example_raydium_meta_def example_raydium_tx_def
  example_parser_sdk_def

lemma example_raydium_decoded:
  obtains a where "decode_raydium_v4_instruction (ps_amm_unpack example_parser_sdk) example_raydium_ix
      (tx_account_keys example_raydium_tx) = Inr (RaySwapBaseIn 20 40 a)"
    and "bi_amm_account a = 101" and "bi_amm_coin_vault a = 104" and "bi_amm_pc_vault a = 105"
    and "bi_user_source_token_account a = 114" and "bi_user_destination_token_account a = 115"
    and "bi_user_wallet_account a = 116"
proof -
  have "\<exists>a. decode_swap_base_in_accounts False \<lparr>kw_keys = map of_nat [100..<117],
      kw_accounts = map of_nat [0..<17], kw_index = 0, kw_program_id = 100\<rparr> = Inr a
    \<and> bi_amm_account a = 101 \<and> bi_amm_coin_vault a = 104 \<and> bi_amm_pc_vault a = 105
    \<and> bi_user_source_token_account a = 114 \<and> bi_user_destination_token_account a = 115
    \<and> bi_user_wallet_account a = 116"
    using decode_swap_base_in_ok [of "map of_nat [100..<117]" "map of_nat [0..<17]" False 100]
    by (simp add: upt_rec)
  then obtain a where a: "decode_swap_base_in_accounts False \<lparr>kw_keys = map of_nat [100..<117],
      kw_accounts = map of_nat [0..<17], kw_index = 0, kw_program_id = 100\<rparr> = Inr a"
    and k: "bi_amm_account a = 101" "bi_amm_coin_vault a = 104" "bi_amm_pc_vault a = 105"
      "bi_user_source_token_account a = 114" "bi_user_destination_token_account a = 115"
      "bi_user_wallet_account a = 116" by blast
  show ?thesis
    by (rule that [OF _ k]) (use a in \<open>simp add: decode_raydium_v4_instruction_def new_from_instruction_def
      example_raydium example_raydium_keys_def SWAP_INSTRUCTIONS_ACCOUNT_LENGTH_def Let_def upt_rec\<close>)
qed

lemma example_raydium_balances:
  "get_balances_for_token_account example_raydium_meta example_raydium_keys 104
    = (Some (example_balance 4 ''C'' 500), Some (example_balance 4 ''C'' 520))"
  "get_balances_for_token_account example_raydium_meta example_raydium_keys 105
    = (Some (example_balance 5 ''P'' 900), Some (example_balance 5 ''P'' 850))"
  "get_balances_for_token_account example_raydium_meta example_raydium_keys 114
    = (Some (example_balance 14 ''C'' 30), Some (example_balance 14 ''C'' 10))"
  by (simp_all add: get_balances_for_token_account_def find_balance_def key_at_def example_raydium_meta_def
      example_balance_def example_raydium_keys_def upt_rec)

lemma example_balance_mint [simp]: "tb_mint (example_balance i mint n) = mint"
  by (simp add: example_balance_def)

lemma example_raydium_resolved:
  assumes "bi_amm_coin_vault a = 104" and "bi_amm_pc_vault a = 105" and "bi_user_source_token_account a = 114"
  shows "\<exists>r. resolve_raydium_accounts (xt_from_str (ps_text example_parser_sdk)) example_raydium_meta
      example_raydium_keys 114 dst 104 105 = Inr r
    \<and> ry_amm_coin_mint r = 1 \<and> ry_amm_pc_mint r = 2 \<and> ry_coin_to_pc r
    \<and> ry_amm_pc_pre r = 900 \<and> ry_amm_pc_post r = 850"
    and "user_account_item example_raydium_meta example_raydium_keys 114 dst
      = Some (example_balance 14 ''C'' 30, True)"
  by (simp_all add: resolve_raydium_accounts_def user_account_item_def example_raydium_balances ok_or_def
      calc_example_balance example_parser_sdk_def split: prod.splits)


section \<open>Events\<close>

lemma events_with_eq:
  "events_with tag deserialize logs =
     (if list_all (\<lambda>l. 8 \<le> length l) logs
      then Inr (List.map_filter (\<lambda>l. if take 8 l = tag then deserialize (drop 8 l) else None) logs)
      else Inl (Panic ''range end index 8 out of range''))"
  by (induction logs) (auto simp: split_discriminator_def map_filter_simps split: option.splits)

text \<open>Reading the trades of Pump from the logs of a program fails only by a panic, exactly when
  one of the decoded log lines is shorter than a discriminator; otherwise the result is the list of
  the trade events that decode, in order, whatever else was logged.\<close>

theorem pump_events_panic_iff:
  "parse_pumpfun_swap_events deserialize logs =
     (if list_all (\<lambda>l. 8 \<le> length l) logs
      then Inr (List.map_filter (\<lambda>l. if take 8 l = TRADE_EVENT_DISCRIMINATOR
        then deserialize (drop 8 l) else None) logs)
      else Inl (Panic ''range end index 8 out of range''))"
  by (simp add: parse_pumpfun_swap_events_def events_with_eq)

definition trade_swap :: "pubkey \<Rightarrow> trade_event \<Rightarrow> resolved_swap" where
  "trade_swap native event = (if te_is_buy event
     then resolved_swap_plain Pump (te_sol_amount event) (te_token_amount event) native (te_mint event)
     else resolved_swap_plain Pump (te_token_amount event) (te_sol_amount event) (te_mint event) native)"

lemma first_swap_skip:
  assumes "\<forall>x \<in> set xs. parse x = Inr None"
  shows "first_swap parse (xs @ ys) = first_swap parse ys"
  using assms by (induction xs) simp_all

definition not_a_swap_program :: "itransaction \<Rightarrow> compiled_instruction \<Rightarrow> bool" where
  "not_a_swap_program tx ix \<longleftrightarrow> (case key_at (tx_account_keys tx) (ci_program_id_index ix) of
     None \<Rightarrow> False
   | Some p \<Rightarrow> p \<notin> {JUPITER_AGGREGATOR_V6_PROGRAM_ID, PUMPFUN_PROGRAM_ID, RAYDIUM_LIQUIDITY_POOL_V4_PROGRAM_ID})"

lemma parse_other_program: "not_a_swap_program tx ix \<Longrightarrow> parse_swap_instruction sdk tx ix idx = Inr None"
  by (auto simp: not_a_swap_program_def parse_swap_instruction_def ok_or_def split: option.splits)

lemma parse_pump_instruction:
  assumes "key_at (tx_account_keys tx) (ci_program_id_index ix) = Some PUMPFUN_PROGRAM_ID"
  shows "parse_swap_instruction sdk tx ix idx = decode_pumpfun sdk tx"
  using assms by (simp add: parse_swap_instruction_def ok_or_def JUPITER_AGGREGATOR_V6_PROGRAM_ID_def
      PUMPFUN_PROGRAM_ID_def)

lemma decode_pump_trade:
  assumes "list_all (log_item_ok (xt_base64 (ps_text sdk))) logs" and "list_all is_invoke logs"
    and "xt_from_str (ps_text sdk) (xt_to_string (ps_text sdk) PUMPFUN_PROGRAM_ID) = Some PUMPFUN_PROGRAM_ID"
    and "tx_logs tx = concat (map render logs)"
    and "parse_pumpfun_swap_events (ps_trade_event sdk) (concat (map (own_events (xt_base64 (ps_text sdk))
      (xt_to_string (ps_text sdk) PUMPFUN_PROGRAM_ID) []) logs)) = Inr (event # events)"
  shows "decode_pumpfun sdk tx = Inr (Some (trade_swap (ps_native_mint sdk) event))"
  using get_logs_well_nested [OF assms(1-4)] assms(5) by (simp add: decode_pumpfun_def trade_swap_def)

lemma parse_pump_trade:
  assumes "tx_instructions tx = xs @ ix # ys" and "list_all (not_a_swap_program tx) xs"
    and "key_at (tx_account_keys tx) (ci_program_id_index ix) = Some PUMPFUN_PROGRAM_ID"
    and "decode_pumpfun sdk tx = Inr (Some swap)"
  shows "parse_swap_transaction sdk tx = Inr (Some swap)"
proof -
  have "enumerate 0 (xs @ ix # ys) = enumerate 0 xs @ (length xs, ix) # enumerate (Suc (length xs)) ys"
    by (simp add: enumerate_append_eq)
  moreover have "\<forall>(i, x) \<in> set (enumerate 0 xs). parse_swap_instruction sdk tx x (Some (of_nat i)) = Inr None"
    using assms(2) by (auto simp: in_set_enumerate_eq list_all_length intro!: parse_other_program)
  ultimately show ?thesis
    using first_swap_skip [of "enumerate 0 xs" "\<lambda>(i, ix). parse_swap_instruction sdk tx ix (Some (of_nat i))"]
    by (auto simp: parse_swap_transaction_def assms(1) parse_pump_instruction [OF assms(3)] assms(4) split_beta)
qed

text \<open>In a transaction whose first instruction of a known swap program is one of Pump and whose
  logs are well-nested, the parser finds the trade that Pump itself logged first, at whatever depth:
  SOL against tokens for a buy and tokens against SOL for a sell, with the amounts of the event.\<close>

theorem pump_trade_parsed:
  assumes "tx_instructions tx = xs @ ix # ys" and "list_all (not_a_swap_program tx) xs"
    and "key_at (tx_account_keys tx) (ci_program_id_index ix) = Some PUMPFUN_PROGRAM_ID"
    and "list_all (log_item_ok (xt_base64 (ps_text sdk))) logs" and "list_all is_invoke logs"
    and "xt_from_str (ps_text sdk) (xt_to_string (ps_text sdk) PUMPFUN_PROGRAM_ID) = Some PUMPFUN_PROGRAM_ID"
    and "tx_logs tx = concat (map render logs)"
    and "parse_pumpfun_swap_events (ps_trade_event sdk) (concat (map (own_events (xt_base64 (ps_text sdk))
      (xt_to_string (ps_text sdk) PUMPFUN_PROGRAM_ID) []) logs)) = Inr (event # events)"
  shows "parse_swap_transaction sdk tx = Inr (Some (trade_swap (ps_native_mint sdk) event))"
  using parse_pump_trade [OF assms(1-3) decode_pump_trade [OF assms(4-8)]] .

definition example_pump_tx :: itransaction where
  "example_pump_tx = plain_tx 5 [10] [PUMPFUN_PROGRAM_ID, 3]
     [\<lparr>ci_program_id_index = 2, ci_accounts = [], ci_data = []\<rparr>,
      \<lparr>ci_program_id_index = 1, ci_accounts = [], ci_data = []\<rparr>]
     (Some (tx_meta_empty\<lparr>tm_log_messages := Some (concat (map render example_logs))\<rparr>))"

definition example_trade :: trade_event where
  "example_trade = \<lparr>te_mint = 42, te_sol_amount = 1000, te_token_amount = 77, te_is_buy = True, te_user = 5,
     te_timestamp = 0, te_virtual_sol_reserves = 0, te_virtual_token_reserves = 0, te_real_sol_reserves = 0,
     te_real_token_reserves = 0\<rparr>"

lemmas example_pump = example_pump_tx_def example_parser_sdk_def example_logs_def example_trade_def

lemma example_pump_logs:
  "list_all (log_item_ok (xt_base64 (ps_text example_parser_sdk))) example_logs"
  "list_all is_invoke example_logs"
  "tx_logs example_pump_tx = concat (map render example_logs)"
  "parse_pumpfun_swap_events (ps_trade_event example_parser_sdk)
     (concat (map (own_events (xt_base64 (ps_text example_parser_sdk))
      (xt_to_string (ps_text example_parser_sdk) PUMPFUN_PROGRAM_ID) []) example_logs)) = Inr [example_trade]"
  by (simp_all add: example_pump log_eval tx_logs_def parse_pumpfun_swap_events_def split_discriminator_def
      TRADE_EVENT_DISCRIMINATOR_def)

theorem pump_trade_parsed_witness:
  "parse_swap_transaction example_parser_sdk example_pump_tx = Inr (Some (resolved_swap_plain Pump 1000 77 SOL 42))"
proof -
  have "parse_swap_transaction example_parser_sdk example_pump_tx
      = Inr (Some (trade_swap (ps_native_mint example_parser_sdk) example_trade))"
    by (rule pump_trade_parsed [OF _ _ _ example_pump_logs(1,2) _ example_pump_logs(3,4),
          where xs = "[\<lparr>ci_program_id_index = 2, ci_accounts = [], ci_data = []\<rparr>]"
            and ix = "\<lparr>ci_program_id_index = 1, ci_accounts = [], ci_data = []\<rparr>" and ys = "[]"])
      (simp_all add: example_pump_tx_def example_parser_sdk_def not_a_swap_program_def key_at_def
        JUPITER_AGGREGATOR_V6_PROGRAM_ID_def PUMPFUN_PROGRAM_ID_def RAYDIUM_LIQUIDITY_POOL_V4_PROGRAM_ID_def)
  then show ?thesis by (simp add: trade_swap_def example_trade_def example_parser_sdk_def)
qed

end
