(* ===== verification/Whirlpool_Ix.thy ===== *)
theory Whirlpool_Ix
  imports Wire_Ix
begin

text \<open>
  Orca's whirlpools: the generated instructions (\<^verbatim>\<open>parser/generated/orca_whirlpools\<close>) and the decoder of
  the parser (\<^verbatim>\<open>parser/v1/orca.rs\<close>), which reads the accounts of an instruction one by one in the order
  of its layout. Every instruction that the client builds is read back with its arguments and accounts.
\<close>

definition ORCA_WHIRLPOOLS_ID :: pubkey where
  "ORCA_WHIRLPOOLS_ID =
     6338400779188879694835442338119989991763804279920687834040273975642487814569"

datatype orca_accounts_type =
  OrcaTransferHookA
| OrcaTransferHookB
| OrcaTransferHookReward
| OrcaTransferHookInput
| OrcaTransferHookIntermediate
| OrcaTransferHookOutput

record orca_remaining_accounts_slice =
  ors_accounts_type :: orca_accounts_type
  ors_length :: u8

record orca_remaining_accounts_info =
  ori_slices :: "orca_remaining_accounts_slice list"

section \<open>Swap\<close>

record orca_swap =
  osw_token_program :: pubkey
  osw_token_authority :: pubkey
  osw_whirlpool :: pubkey
  osw_token_owner_account_a :: pubkey
  osw_token_vault_a :: pubkey
  osw_token_owner_account_b :: pubkey
  osw_token_vault_b :: pubkey
  osw_tick_array0 :: pubkey
  osw_tick_array1 :: pubkey
  osw_tick_array2 :: pubkey
  osw_oracle :: pubkey

record orca_swap_args =
  osa_amount :: u64
  osa_other_amount_threshold :: u64
  osa_sqrt_price_limit :: u128
  osa_amount_specified_is_input :: bool
  osa_a_to_b :: bool

definition orca_swap_data :: bytes where
  "orca_swap_data = [248, 198, 158, 145, 225, 117, 135, 200]"

definition orca_swap_instruction_with_remaining_accounts ::
  "orca_swap_args codec \<Rightarrow> orca_swap \<Rightarrow> orca_swap_args \<Rightarrow> account_meta list
     \<Rightarrow> wire_instruction result" where
  "orca_swap_instruction_with_remaining_accounts c self args remaining_accounts =
     (let accounts =
       [meta_new_readonly (osw_token_program self) False,
        meta_new_readonly (osw_token_authority self) True,
        meta_new (osw_whirlpool self) False,
        meta_new (osw_token_owner_account_a self) False,
        meta_new (osw_token_vault_a self) False,
        meta_new (osw_token_owner_account_b self) False,
        meta_new (osw_token_vault_b self) False,
        meta_new (osw_tick_array0 self) False,
        meta_new (osw_tick_array1 self) False,
        meta_new (osw_tick_array2 self) False,
        meta_new_readonly (osw_oracle self) False] @ remaining_accounts;
          data = orca_swap_data
      in bind_res (expect (cd_put c args) ''called `Result::unwrap()` on an `Err` value'') (\<lambda>args.
         Inr \<lparr>wi_program_id = ORCA_WHIRLPOOLS_ID, wi_accounts = accounts, wi_data = data @ args\<rparr>))"

definition orca_swap_instruction ::
  "orca_swap_args codec \<Rightarrow> orca_swap \<Rightarrow> orca_swap_args \<Rightarrow> wire_instruction result" where
  "orca_swap_instruction c self args = orca_swap_instruction_with_remaining_accounts c self args []"

section \<open>Swap V2\<close>

record orca_swap_v2 =
  os2_token_program_a :: pubkey
  os2_token_program_b :: pubkey
  os2_memo_program :: pubkey
  os2_token_authority :: pubkey
  os2_whirlpool :: pubkey
  os2_token_mint_a :: pubkey
  os2_token_mint_b :: pubkey
  os2_token_owner_account_a :: pubkey
  os2_token_vault_a :: pubkey
  os2_token_owner_account_b :: pubkey
  os2_token_vault_b :: pubkey
  os2_tick_array0 :: pubkey
  os2_tick_array1 :: pubkey
  os2_tick_array2 :: pubkey
  os2_oracle :: pubkey

record orca_swap_v2_args =
  oa2_amount :: u64
  oa2_other_amount_threshold :: u64
  oa2_sqrt_price_limit :: u128
  oa2_amount_specified_is_input :: bool
  oa2_a_to_b :: bool
  oa2_remaining_accounts_info :: "orca_remaining_accounts_info option"

definition orca_swap_v2_data :: bytes where
  "orca_swap_v2_data = [43, 4, 237, 11, 26, 201, 30, 98]"

definition orca_swap_v2_instruction_with_remaining_accounts ::
  "orca_swap_v2_args codec \<Rightarrow> orca_swap_v2 \<Rightarrow> orca_swap_v2_args \<Rightarrow> account_meta list
     \<Rightarrow> wire_instruction result" where
  "orca_swap_v2_instruction_with_remaining_accounts c self args remaining_accounts =
     (let accounts =
       [meta_new_readonly (os2_token_program_a self) False,
        meta_new_readonly (os2_token_program_b self) False,
        meta_new_readonly (os2_memo_program self) False,
        meta_new_readonly (os2_token_authority self) True,
        meta_new (os2_whirlpool self) False,
        meta_new_readonly (os2_token_mint_a self) False,
        meta_new_readonly (os2_token_mint_b self) False,
        meta_new (os2_token_owner_account_a self) False,
        meta_new (os2_token_vault_a self) False,
        meta_new (os2_token_owner_account_b self) False,
        meta_new (os2_token_vault_b self) False,
        meta_new (os2_tick_array0 self) False,
        meta_new (os2_tick_array1 self) False,
        meta_new (os2_tick_array2 self) False,
        meta_new (os2_oracle self) False] @ remaining_accounts;
          data = orca_swap_v2_data
      in bind_res (expect (cd_put c args) ''called `Result::unwrap()` on an `Err` value'') (\<lambda>args.
         Inr \<lparr>wi_program_id = ORCA_WHIRLPOOLS_ID, wi_accounts = accounts, wi_data = data @ args\<rparr>))"

definition orca_swap_v2_instruction ::
  "orca_swap_v2_args codec \<Rightarrow> orca_swap_v2 \<Rightarrow> orca_swap_v2_args \<Rightarrow> wire_instruction result" where
  "orca_swap_v2_instruction c self args = orca_swap_v2_instruction_with_remaining_accounts c self args []"

section \<open>Initialize Pool\<close>

record orca_initialize_pool =
  oip_whirlpools_config :: pubkey
  oip_token_mint_a :: pubkey
  oip_token_mint_b :: pubkey
  oip_funder :: pubkey
  oip_whirlpool :: pubkey
  oip_token_vault_a :: pubkey
  oip_token_vault_b :: pubkey
  oip_fee_tier :: pubkey
  oip_token_program :: pubkey
  oip_system_program :: pubkey
  oip_rent :: pubkey

record orca_initialize_pool_args =
  oia_whirlpool_bump :: u8
  oia_tick_spacing :: u16
  oia_initial_sqrt_price :: u128

definition orca_initialize_pool_data :: bytes where
  "orca_initialize_pool_data = [95, 180, 10, 172, 84, 174, 232, 40]"

definition orca_initialize_pool_instruction_with_remaining_accounts ::
  "orca_initialize_pool_args codec \<Rightarrow> orca_initialize_pool \<Rightarrow> orca_initialize_pool_args \<Rightarrow> account_meta list
     \<Rightarrow> wire_instruction result" where
  "orca_initialize_pool_instruction_with_remaining_accounts c self args remaining_accounts =
     (let accounts =
       [meta_new_readonly (oip_whirlpools_config self) False,
        meta_new_readonly (oip_token_mint_a self) False,
        meta_new_readonly (oip_token_mint_b self) False,
        meta_new (oip_funder self) True,
        meta_new (oip_whirlpool self) False,
        meta_new (oip_token_vault_a self) True,
        meta_new (oip_token_vault_b self) True,
        meta_new_readonly (oip_fee_tier self) False,
        meta_new_readonly (oip_token_program self) False,
        meta_new_readonly (oip_system_program self) False,
        meta_new_readonly (oip_rent self) False] @ remaining_accounts;
          data = orca_initialize_pool_data
      in bind_res (expect (cd_put c args) ''called `Result::unwrap()` on an `Err` value'') (\<lambda>args.
         Inr \<lparr>wi_program_id = ORCA_WHIRLPOOLS_ID, wi_accounts = accounts, wi_data = data @ args\<rparr>))"

definition orca_initialize_pool_instruction ::
  "orca_initialize_pool_args codec \<Rightarrow> orca_initialize_pool \<Rightarrow> orca_initialize_pool_args \<Rightarrow> wire_instruction result" where
  "orca_initialize_pool_instruction c self args = orca_initialize_pool_instruction_with_remaining_accounts c self args []"

section \<open>Initialize Pool V2\<close>

record orca_initialize_pool_v2 =
  oi2_whirlpools_config :: pubkey
  oi2_token_mint_a :: pubkey
  oi2_token_mint_b :: pubkey
  oi2_token_badge_a :: pubkey
  oi2_token_badge_b :: pubkey
  oi2_funder :: pubkey
  oi2_whirlpool :: pubkey
  oi2_token_vault_a :: pubkey
  oi2_token_vault_b :: pubkey
  oi2_fee_tier :: pubkey
  oi2_token_program_a :: pubkey
  oi2_token_program_b :: pubkey
  oi2_system_program :: pubkey
  oi2_rent :: pubkey

record orca_initialize_pool_v2_args =
  ib2_tick_spacing :: u16
  ib2_initial_sqrt_price :: u128

definition orca_initialize_pool_v2_data :: bytes where
  "orca_initialize_pool_v2_data = [207, 45, 87, 242, 27, 63, 204, 67]"

definition orca_initialize_pool_v2_instruction_with_remaining_accounts ::
  "orca_initialize_pool_v2_args codec \<Rightarrow> orca_initialize_pool_v2 \<Rightarrow> orca_initialize_pool_v2_args \<Rightarrow> account_meta list
     \<Rightarrow> wire_instruction result" where
  "orca_initialize_pool_v2_instruction_with_remaining_accounts c self args remaining_accounts =
     (let accounts =
       [meta_new_readonly (oi2_whirlpools_config self) False,
        meta_new_readonly (oi2_token_mint_a self) False,
        meta_new_readonly (oi2_token_mint_b self) False,
        meta_new_readonly (oi2_token_badge_a self) False,
        meta_new_readonly (oi2_token_badge_b self) False,
        meta_new (oi2_funder self) True,
        meta_new (oi2_whirlpool self) False,
        meta_new (oi2_token_vault_a self) True,
        meta_new (oi2_token_vault_b self) True,
        meta_new_readonly (oi2_fee_tier self) False,
        meta_new_readonly (oi2_token_program_a self) False,
        meta_new_readonly (oi2_token_program_b self) False,
        meta_new_readonly (oi2_system_program self) False,
        meta_new_readonly (oi2_rent self) False] @ remaining_accounts;
          data = orca_initialize_pool_v2_data
      in bind_res (expect (cd_put c args) ''called `Result::unwrap()` on an `Err` value'') (\<lambda>args.
         Inr \<lparr>wi_program_id = ORCA_WHIRLPOOLS_ID, wi_accounts = accounts, wi_data = data @ args\<rparr>))"

definition orca_initialize_pool_v2_instruction ::
  "orca_initialize_pool_v2_args codec \<Rightarrow> orca_initialize_pool_v2 \<Rightarrow> orca_initialize_pool_v2_args \<Rightarrow> wire_instruction result" where
  "orca_initialize_pool_v2_instruction c self args = orca_initialize_pool_v2_instruction_with_remaining_accounts c self args []"

section \<open>Increase Liquidity\<close>

record orca_increase_liquidity =
  oil_whirlpool :: pubkey
  oil_token_program :: pubkey
  oil_position_authority :: pubkey
  oil_position :: pubkey
  oil_position_token_account :: pubkey
  oil_token_owner_account_a :: pubkey
  oil_token_owner_account_b :: pubkey
  oil_token_vault_a :: pubkey
  oil_token_vault_b :: pubkey
  oil_tick_array_lower :: pubkey
  oil_tick_array_upper :: pubkey

record orca_increase_liquidity_args =
  ola_liquidity_amount :: u128
  ola_token_max_a :: u64
  ola_token_max_b :: u64

definition orca_increase_liquidity_data :: bytes where
  "orca_increase_liquidity_data = [46, 156, 243, 118, 13, 205, 251, 178]"

definition orca_increase_liquidity_instruction_with_remaining_accounts ::
  "orca_increase_liquidity_args codec \<Rightarrow> orca_increase_liquidity \<Rightarrow> orca_increase_liquidity_args \<Rightarrow> account_meta list
     \<Rightarrow> wire_instruction result" where
  "orca_increase_liquidity_instruction_with_remaining_accounts c self args remaining_accounts =
     (let accounts =
       [meta_new (oil_whirlpool self) False,
        meta_new_readonly (oil_token_program self) False,
        meta_new_readonly (oil_position_authority self) True,
        meta_new (oil_position self) False,
        meta_new_readonly (oil_position_token_account self) False,
        meta_new (oil_token_owner_account_a self) False,
        meta_new (oil_token_owner_account_b self) False,
        meta_new (oil_token_vault_a self) False,
        meta_new (oil_token_vault_b self) False,
        meta_new (oil_tick_array_lower self) False,
        meta_new (oil_tick_array_upper self) False] @ remaining_accounts;
          data = orca_increase_liquidity_data
      in bind_res (expect (cd_put c args) ''called `Result::unwrap()` on an `Err` value'') (\<lambda>args.
         Inr \<lparr>wi_program_id = ORCA_WHIRLPOOLS_ID, wi_accounts = accounts, wi_data = data @ args\<rparr>))"

definition orca_increase_liquidity_instruction ::
  "orca_increase_liquidity_args codec \<Rightarrow> orca_increase_liquidity \<Rightarrow> orca_increase_liquidity_args \<Rightarrow> wire_instruction result" where
  "orca_increase_liquidity_instruction c self args = orca_increase_liquidity_instruction_with_remaining_accounts c self args []"

section \<open>Increase Liquidity V2\<close>

record orca_increase_liquidity_v2 =
  ol2_whirlpool :: pubkey
  ol2_token_program_a :: pubkey
  ol2_token_program_b :: pubkey
  ol2_memo_program :: pubkey
  ol2_position_authority :: pubkey
  ol2_position :: pubkey
  ol2_position_token_account :: pubkey
  ol2_token_mint_a :: pubkey
  ol2_token_mint_b :: pubkey
  ol2_token_owner_account_a :: pubkey
  ol2_token_owner_account_b :: pubkey
  ol2_token_vault_a :: pubkey
  ol2_token_vault_b :: pubkey
  ol2_tick_array_lower :: pubkey
  ol2_tick_array_upper :: pubkey

record orca_increase_liquidity_v2_args =
  lb2_liquidity_amount :: u128
  lb2_token_max_a :: u64
  lb2_token_max_b :: u64
  lb2_remaining_accounts_info :: "orca_remaining_accounts_info option"

definition orca_increase_liquidity_v2_data :: bytes where
  "orca_increase_liquidity_v2_data = [133, 29, 89, 223, 69, 238, 176, 10]"

definition orca_increase_liquidity_v2_instruction_with_remaining_accounts ::
  "orca_increase_liquidity_v2_args codec \<Rightarrow> orca_increase_liquidity_v2 \<Rightarrow> orca_increase_liquidity_v2_args \<Rightarrow> account_meta list
     \<Rightarrow> wire_instruction result" where
  "orca_increase_liquidity_v2_instruction_with_remaining_accounts c self args remaining_accounts =
     (let accounts =
       [meta_new (ol2_whirlpool self) False,
        meta_new_readonly (ol2_token_program_a self) False,
        meta_new_readonly (ol2_token_program_b self) False,
        meta_new_readonly (ol2_memo_program self) False,
        meta_new_readonly (ol2_position_authority self) True,
        meta_new (ol2_position self) False,
        meta_new_readonly (ol2_position_token_account self) False,
        meta_new_readonly (ol2_token_mint_a self) False,
        meta_new_readonly (ol2_token_mint_b self) False,
        meta_new (ol2_token_owner_account_a self) False,
        meta_new (ol2_token_owner_account_b self) False,
        meta_new (ol2_token_vault_a self) False,
        meta_new (ol2_token_vault_b self) False,
        meta_new (ol2_tick_array_lower self) False,
        meta_new (ol2_tick_array_upper self) False] @ remaining_accounts;
          data = orca_increase_liquidity_v2_data
      in bind_res (expect (cd_put c args) ''called `Result::unwrap()` on an `Err` value'') (\<lambda>args.
         Inr \<lparr>wi_program_id = ORCA_WHIRLPOOLS_ID, wi_accounts = accounts, wi_data = data @ args\<rparr>))"

definition orca_increase_liquidity_v2_instruction ::
  "orca_increase_liquidity_v2_args codec \<Rightarrow> orca_increase_liquidity_v2 \<Rightarrow> orca_increase_liquidity_v2_args \<Rightarrow> wire_instruction result" where
  "orca_increase_liquidity_v2_instruction c self args = orca_increase_liquidity_v2_instruction_with_remaining_accounts c self args []"

section \<open>Decrease Liquidity\<close>

record orca_decrease_liquidity =
  odl_whirlpool :: pubkey
  odl_token_program :: pubkey
  odl_position_authority :: pubkey
  odl_position :: pubkey
  odl_position_token_account :: pubkey
  odl_token_owner_account_a :: pubkey
  odl_token_owner_account_b :: pubkey
  odl_token_vault_a :: pubkey
  odl_token_vault_b :: pubkey
  odl_tick_array_lower :: pubkey
  odl_tick_array_upper :: pubkey

record orca_decrease_liquidity_args =
  oda_liquidity_amount :: u128
  oda_token_min_a :: u64
  oda_token_min_b :: u64

definition orca_decrease_liquidity_data :: bytes where
  "orca_decrease_liquidity_data = [160, 38, 208, 111, 104, 91, 44, 1]"

definition orca_decrease_liquidity_instruction_with_remaining_accounts ::
  "orca_decrease_liquidity_args codec \<Rightarrow> orca_decrease_liquidity \<Rightarrow> orca_decrease_liquidity_args \<Rightarrow> account_meta list
     \<Rightarrow> wire_instruction result" where
  "orca_decrease_liquidity_instruction_with_remaining_accounts c self args remaining_accounts =
     (let accounts =
       [meta_new (odl_whirlpool self) False,
        meta_new_readonly (odl_token_program self) False,
        meta_new_readonly (odl_position_authority self) True,
        meta_new (odl_position self) False,
        meta_new_readonly (odl_position_token_account self) False,
        meta_new (odl_token_owner_account_a self) False,
        meta_new (odl_token_owner_account_b self) False,
        meta_new (odl_token_vault_a self) False,
        meta_new (odl_token_vault_b self) False,
        meta_new (odl_tick_array_lower self) False,
        meta_new (odl_tick_array_upper self) False] @ remaining_accounts;
          data = orca_decrease_liquidity_data
      in bind_res (expect (cd_put c args) ''called `Result::unwrap()` on an `Err` value'') (\<lambda>args.
         Inr \<lparr>wi_program_id = ORCA_WHIRLPOOLS_ID, wi_accounts = accounts, wi_data = data @ args\<rparr>))"

definition orca_decrease_liquidity_instruction ::
  "orca_decrease_liquidity_args codec \<Rightarrow> orca_decrease_liquidity \<Rightarrow> orca_decrease_liquidity_args \<Rightarrow> wire_instruction result" where
  "orca_decrease_liquidity_instruction c self args = orca_decrease_liquidity_instruction_with_remaining_accounts c self args []"

section \<open>Decrease Liquidity V2\<close>

record orca_decrease_liquidity_v2 =
  od2_whirlpool :: pubkey
  od2_token_program_a :: pubkey
  od2_token_program_b :: pubkey
  od2_memo_program :: pubkey
  od2_position_authority :: pubkey
  od2_position :: pubkey
  od2_position_token_account :: pubkey
  od2_token_mint_a :: pubkey
  od2_token_mint_b :: pubkey
  od2_token_owner_account_a :: pubkey
  od2_token_owner_account_b :: pubkey
  od2_token_vault_a :: pubkey
  od2_token_vault_b :: pubkey
  od2_tick_array_lower :: pubkey
  od2_tick_array_upper :: pubkey

record orca_decrease_liquidity_v2_args =
  db2_liquidity_amount :: u128
  db2_token_min_a :: u64
  db2_token_min_b :: u64
  db2_remaining_accounts_info :: "orca_remaining_accounts_info option"

definition orca_decrease_liquidity_v2_data :: bytes where
  "orca_decrease_liquidity_v2_data = [58, 127, 188, 62, 79, 82, 196, 96]"

definition orca_decrease_liquidity_v2_instruction_with_remaining_accounts ::
  "orca_decrease_liquidity_v2_args codec \<Rightarrow> orca_decrease_liquidity_v2 \<Rightarrow> orca_decrease_liquidity_v2_args \<Rightarrow> account_meta list
     \<Rightarrow> wire_instruction result" where
  "orca_decrease_liquidity_v2_instruction_with_remaining_accounts c self args remaining_accounts =
     (let accounts =
       [meta_new (od2_whirlpool self) False,
        meta_new_readonly (od2_token_program_a self) False,
        meta_new_readonly (od2_token_program_b self) False,
        meta_new_readonly (od2_memo_program self) False,
        meta_new_readonly (od2_position_authority self) True,
        meta_new (od2_position self) False,
        meta_new_readonly (od2_position_token_account self) False,
        meta_new_readonly (od2_token_mint_a self) False,
        meta_new_readonly (od2_token_mint_b self) False,
        meta_new (od2_token_owner_account_a self) False,
        meta_new (od2_token_owner_account_b self) False,
        meta_new (od2_token_vault_a self) False,
        meta_new (od2_token_vault_b self) False,
        meta_new (od2_tick_array_lower self) False,
        meta_new (od2_tick_array_upper self) False] @ remaining_accounts;
          data = orca_decrease_liquidity_v2_data
      in bind_res (expect (cd_put c args) ''called `Result::unwrap()` on an `Err` value'') (\<lambda>args.
         Inr \<lparr>wi_program_id = ORCA_WHIRLPOOLS_ID, wi_accounts = accounts, wi_data = data @ args\<rparr>))"

definition orca_decrease_liquidity_v2_instruction ::
  "orca_decrease_liquidity_v2_args codec \<Rightarrow> orca_decrease_liquidity_v2 \<Rightarrow> orca_decrease_liquidity_v2_args \<Rightarrow> wire_instruction result" where
  "orca_decrease_liquidity_v2_instruction c self args = orca_decrease_liquidity_v2_instruction_with_remaining_accounts c self args []"

section \<open>Decoding\<close>

definition ORCA_SWAP_DISC :: bytes where
  "ORCA_SWAP_DISC = [248, 198, 158, 145, 225, 117, 135, 200]"

definition ORCA_SWAP_V2_DISC :: bytes where
  "ORCA_SWAP_V2_DISC = [43, 4, 237, 11, 26, 201, 30, 98]"

definition ORCA_INITIALIZE_POOL_DISC :: bytes where
  "ORCA_INITIALIZE_POOL_DISC = [95, 180, 10, 172, 84, 174, 232, 40]"

definition ORCA_INITIALIZE_POOL_V2_DISC :: bytes where
  "ORCA_INITIALIZE_POOL_V2_DISC = [207, 45, 87, 242, 27, 63, 204, 67]"

definition ORCA_INCREASE_LIQUIDITY_DISC :: bytes where
  "ORCA_INCREASE_LIQUIDITY_DISC = [46, 156, 243, 118, 13, 205, 251, 178]"

definition ORCA_INCREASE_LIQUIDITY_V2_DISC :: bytes where
  "ORCA_INCREASE_LIQUIDITY_V2_DISC = [133, 29, 89, 223, 69, 238, 176, 10]"

definition ORCA_DECREASE_LIQUIDITY_DISC :: bytes where
  "ORCA_DECREASE_LIQUIDITY_DISC = [160, 38, 208, 111, 104, 91, 44, 1]"

definition ORCA_DECREASE_LIQUIDITY_V2_DISC :: bytes where
  "ORCA_DECREASE_LIQUIDITY_V2_DISC = [58, 127, 188, 62, 79, 82, 196, 96]"

lemmas orca_discs = ORCA_SWAP_DISC_def
  ORCA_SWAP_V2_DISC_def
  ORCA_INITIALIZE_POOL_DISC_def
  ORCA_INITIALIZE_POOL_V2_DISC_def
  ORCA_INCREASE_LIQUIDITY_DISC_def
  ORCA_INCREASE_LIQUIDITY_V2_DISC_def
  ORCA_DECREASE_LIQUIDITY_DISC_def
  ORCA_DECREASE_LIQUIDITY_V2_DISC_def

datatype parsed_orca_instruction =
  OrcaInitializePool orca_initialize_pool_args orca_initialize_pool
| OrcaInitializePoolV2 orca_initialize_pool_v2_args orca_initialize_pool_v2
| OrcaIncreaseLiquidity orca_increase_liquidity_args orca_increase_liquidity
| OrcaIncreaseLiquidityV2 orca_increase_liquidity_v2_args orca_increase_liquidity_v2
| OrcaDecreaseLiquidity orca_decrease_liquidity_args orca_decrease_liquidity
| OrcaDecreaseLiquidityV2 orca_decrease_liquidity_v2_args orca_decrease_liquidity_v2
| OrcaSwap orca_swap_args orca_swap
| OrcaSwapV2 orca_swap_v2_args orca_swap_v2
| OrcaUnknown bytes

text \<open>The borsh functions of the argument types.\<close>

record orca_codec =
  oc_swap :: "orca_swap_args codec"
  oc_swap_v2 :: "orca_swap_v2_args codec"
  oc_initialize_pool :: "orca_initialize_pool_args codec"
  oc_initialize_pool_v2 :: "orca_initialize_pool_v2_args codec"
  oc_increase_liquidity :: "orca_increase_liquidity_args codec"
  oc_increase_liquidity_v2 :: "orca_increase_liquidity_v2_args codec"
  oc_decrease_liquidity :: "orca_decrease_liquidity_args codec"
  oc_decrease_liquidity_v2 :: "orca_decrease_liquidity_v2_args codec"

definition decode_orca_swap_accounts :: "keys_window \<Rightarrow> orca_swap result" where
  "decode_orca_swap_accounts window =
     bind_res (next_account_key window) (\<lambda>(window, token_program).
     bind_res (next_account_key window) (\<lambda>(window, token_authority).
     bind_res (next_account_key window) (\<lambda>(window, whirlpool).
     bind_res (next_account_key window) (\<lambda>(window, token_owner_account_a).
     bind_res (next_account_key window) (\<lambda>(window, token_vault_a).
     bind_res (next_account_key window) (\<lambda>(window, token_owner_account_b).
     bind_res (next_account_key window) (\<lambda>(window, token_vault_b).
     bind_res (next_account_key window) (\<lambda>(window, tick_array0).
     bind_res (next_account_key window) (\<lambda>(window, tick_array1).
     bind_res (next_account_key window) (\<lambda>(window, tick_array2).
     bind_res (next_account_key window) (\<lambda>(window, oracle).
     Inr \<lparr>osw_token_program = token_program,
       osw_token_authority = token_authority,
       osw_whirlpool = whirlpool,
       osw_token_owner_account_a = token_owner_account_a,
       osw_token_vault_a = token_vault_a,
       osw_token_owner_account_b = token_owner_account_b,
       osw_token_vault_b = token_vault_b,
       osw_tick_array0 = tick_array0,
       osw_tick_array1 = tick_array1,
       osw_tick_array2 = tick_array2,
       osw_oracle = oracle\<rparr>)))))))))))"

definition decode_orca_swap_v2_accounts :: "keys_window \<Rightarrow> orca_swap_v2 result" where
  "decode_orca_swap_v2_accounts window =
     bind_res (next_account_key window) (\<lambda>(window, token_program_a).
     bind_res (next_account_key window) (\<lambda>(window, token_program_b).
     bind_res (next_account_key window) (\<lambda>(window, memo_program).
     bind_res (next_account_key window) (\<lambda>(window, token_authority).
     bind_res (next_account_key window) (\<lambda>(window, whirlpool).
     bind_res (next_account_key window) (\<lambda>(window, token_mint_a).
     bind_res (next_account_key window) (\<lambda>(window, token_mint_b).
     bind_res (next_account_key window) (\<lambda>(window, token_owner_account_a).
     bind_res (next_account_key window) (\<lambda>(window, token_vault_a).
     bind_res (next_account_key window) (\<lambda>(window, token_owner_account_b).
     bind_res (next_account_key window) (\<lambda>(window, token_vault_b).
     bind_res (next_account_key window) (\<lambda>(window, tick_array0).
     bind_res (next_account_key window) (\<lambda>(window, tick_array1).
     bind_res (next_account_key window) (\<lambda>(window, tick_array2).
     bind_res (next_account_key window) (\<lambda>(window, oracle).
     Inr \<lparr>os2_token_program_a = token_program_a,
       os2_token_program_b = token_program_b,
       os2_memo_program = memo_program,
       os2_token_authority = token_authority,
       os2_whirlpool = whirlpool,
       os2_token_mint_a = token_mint_a,
       os2_token_mint_b = token_mint_b,
       os2_token_owner_account_a = token_owner_account_a,
       os2_token_vault_a = token_vault_a,
       os2_token_owner_account_b = token_owner_account_b,
       os2_token_vault_b = token_vault_b,
       os2_tick_array0 = tick_array0,
       os2_tick_array1 = tick_array1,
       os2_tick_array2 = tick_array2,
       os2_oracle = oracle\<rparr>)))))))))))))))"

definition decode_orca_initialize_pool_accounts :: "keys_window \<Rightarrow> orca_initialize_pool result" where
  "decode_orca_initialize_pool_accounts window =
     bind_res (next_account_key window) (\<lambda>(window, whirlpools_config).
     bind_res (next_account_key window) (\<lambda>(window, token_mint_a).
     bind_res (next_account_key window) (\<lambda>(window, token_mint_b).
     bind_res (next_account_key window) (\<lambda>(window, funder).
     bind_res (next_account_key window) (\<lambda>(window, whirlpool).
     bind_res (next_account_key window) (\<lambda>(window, token_vault_a).
     bind_res (next_account_key window) (\<lambda>(window, token_vault_b).
     bind_res (next_account_key window) (\<lambda>(window, fee_tier).
     bind_res (next_account_key window) (\<lambda>(window, token_program).
     bind_res (next_account_key window) (\<lambda>(window, system_program).
     bind_res (next_account_key window) (\<lambda>(window, rent).
     Inr \<lparr>oip_whirlpools_config = whirlpools_config,
       oip_token_mint_a = token_mint_a,
       oip_token_mint_b = token_mint_b,
       oip_funder = funder,
       oip_whirlpool = whirlpool,
       oip_token_vault_a = token_vault_a,
       oip_token_vault_b = token_vault_b,
       oip_fee_tier = fee_tier,
       oip_token_program = token_program,
       oip_system_program = system_program,
       oip_rent = rent\<rparr>)))))))))))"

definition decode_orca_initialize_pool_v2_accounts :: "keys_window \<Rightarrow> orca_initialize_pool_v2 result" where
  "decode_orca_initialize_pool_v2_accounts window =
     bind_res (next_account_key window) (\<lambda>(window, whirlpools_config).
     bind_res (next_account_key window) (\<lambda>(window, token_mint_a).
     bind_res (next_account_key window) (\<lambda>(window, token_mint_b).
     bind_res (next_account_key window) (\<lambda>(window, token_badge_a).
     bind_res (next_account_key window) (\<lambda>(window, token_badge_b).
     bind_res (next_account_key window) (\<lambda>(window, funder).
     bind_res (next_account_key window) (\<lambda>(window, whirlpool).
     bind_res (next_account_key window) (\<lambda>(window, token_vault_a).
     bind_res (next_account_key window) (\<lambda>(window, token_vault_b).
     bind_res (next_account_key window) (\<lambda>(window, fee_tier).
     bind_res (next_account_key window) (\<lambda>(window, token_program_a).
     bind_res (next_account_key window) (\<lambda>(window, token_program_b).
     bind_res (next_account_key window) (\<lambda>(window, system_program).
     bind_res (next_account_key window) (\<lambda>(window, rent).
     Inr \<lparr>oi2_whirlpools_config = whirlpools_config,
       oi2_token_mint_a = token_mint_a,
       oi2_token_mint_b = token_mint_b,
       oi2_token_badge_a = token_badge_a,
       oi2_token_badge_b = token_badge_b,
       oi2_funder = funder,
       oi2_whirlpool = whirlpool,
       oi2_token_vault_a = token_vault_a,
       oi2_token_vault_b = token_vault_b,
       oi2_fee_tier = fee_tier,
       oi2_token_program_a = token_program_a,
       oi2_token_program_b = token_program_b,
       oi2_system_program = system_program,
       oi2_rent = rent\<rparr>))))))))))))))"

definition decode_orca_increase_liquidity_accounts :: "keys_window \<Rightarrow> orca_increase_liquidity result" where
  "decode_orca_increase_liquidity_accounts window =
     bind_res (next_account_key window) (\<lambda>(window, whirlpool).
     bind_res (next_account_key window) (\<lambda>(window, token_program).
     bind_res (next_account_key window) (\<lambda>(window, position_authority).
     bind_res (next_account_key window) (\<lambda>(window, position).
     bind_res (next_account_key window) (\<lambda>(window, position_token_account).
     bind_res (next_account_key window) (\<lambda>(window, token_owner_account_a).
     bind_res (next_account_key window) (\<lambda>(window, token_owner_account_b).
     bind_res (next_account_key window) (\<lambda>(window, token_vault_a).
     bind_res (next_account_key window) (\<lambda>(window, token_vault_b).
     bind_res (next_account_key window) (\<lambda>(window, tick_array_lower).
     bind_res (next_account_key window) (\<lambda>(window, tick_array_upper).
     Inr \<lparr>oil_whirlpool = whirlpool,
       oil_token_program = token_program,
       oil_position_authority = position_authority,
       oil_position = position,
       oil_position_token_account = position_token_account,
       oil_token_owner_account_a = token_owner_account_a,
       oil_token_owner_account_b = token_owner_account_b,
       oil_token_vault_a = token_vault_a,
       oil_token_vault_b = token_vault_b,
       oil_tick_array_lower = tick_array_lower,
       oil_tick_array_upper = tick_array_upper\<rparr>)))))))))))"

definition decode_orca_increase_liquidity_v2_accounts :: "keys_window \<Rightarrow> orca_increase_liquidity_v2 result" where
  "decode_orca_increase_liquidity_v2_accounts window =
     bind_res (next_account_key window) (\<lambda>(window, whirlpool).
     bind_res (next_account_key window) (\<lambda>(window, token_program_a).
     bind_res (next_account_key window) (\<lambda>(window, token_program_b).
     bind_res (next_account_key window) (\<lambda>(window, memo_program).
     bind_res (next_account_key window) (\<lambda>(window, position_authority).
     bind_res (next_account_key window) (\<lambda>(window, position).
     bind_res (next_account_key window) (\<lambda>(window, position_token_account).
     bind_res (next_account_key window) (\<lambda>(window, token_mint_a).
     bind_res (next_account_key window) (\<lambda>(window, token_mint_b).
     bind_res (next_account_key window) (\<lambda>(window, token_owner_account_a).
     bind_res (next_account_key window) (\<lambda>(window, token_owner_account_b).
     bind_res (next_account_key window) (\<lambda>(window, token_vault_a).
     bind_res (next_account_key window) (\<lambda>(window, token_vault_b).
     bind_res (next_account_key window) (\<lambda>(window, tick_array_lower).
     bind_res (next_account_key window) (\<lambda>(window, tick_array_upper).
     Inr \<lparr>ol2_whirlpool = whirlpool,
       ol2_token_program_a = token_program_a,
       ol2_token_program_b = token_program_b,
       ol2_memo_program = memo_program,
       ol2_position_authority = position_authority,
       ol2_position = position,
       ol2_position_token_account = position_token_account,
       ol2_token_mint_a = token_mint_a,
       ol2_token_mint_b = token_mint_b,
       ol2_token_owner_account_a = token_owner_account_a,
       ol2_token_owner_account_b = token_owner_account_b,
       ol2_token_vault_a = token_vault_a,
       ol2_token_vault_b = token_vault_b,
       ol2_tick_array_lower = tick_array_lower,
       ol2_tick_array_upper = tick_array_upper\<rparr>)))))))))))))))"

definition decode_orca_decrease_liquidity_accounts :: "keys_window \<Rightarrow> orca_decrease_liquidity result" where
  "decode_orca_decrease_liquidity_accounts window =
     bind_res (next_account_key window) (\<lambda>(window, whirlpool).
     bind_res (next_account_key window) (\<lambda>(window, token_program).
     bind_res (next_account_key window) (\<lambda>(window, position_authority).
     bind_res (next_account_key window) (\<lambda>(window, position).
     bind_res (next_account_key window) (\<lambda>(window, position_token_account).
     bind_res (next_account_key window) (\<lambda>(window, token_owner_account_a).
     bind_res (next_account_key window) (\<lambda>(window, token_owner_account_b).
     bind_res (next_account_key window) (\<lambda>(window, token_vault_a).
     bind_res (next_account_key window) (\<lambda>(window, token_vault_b).
     bind_res (next_account_key window) (\<lambda>(window, tick_array_lower).
     bind_res (next_account_key window) (\<lambda>(window, tick_array_upper).
     Inr \<lparr>odl_whirlpool = whirlpool,
       odl_token_program = token_program,
       odl_position_authority = position_authority,
       odl_position = position,
       odl_position_token_account = position_token_account,
       odl_token_owner_account_a = token_owner_account_a,
       odl_token_owner_account_b = token_owner_account_b,
       odl_token_vault_a = token_vault_a,
       odl_token_vault_b = token_vault_b,
       odl_tick_array_lower = tick_array_lower,
       odl_tick_array_upper = tick_array_upper\<rparr>)))))))))))"

definition decode_orca_decrease_liquidity_v2_accounts :: "keys_window \<Rightarrow> orca_decrease_liquidity_v2 result" where
  "decode_orca_decrease_liquidity_v2_accounts window =
     bind_res (next_account_key window) (\<lambda>(window, whirlpool).
     bind_res (next_account_key window) (\<lambda>(window, token_program_a).
     bind_res (next_account_key window) (\<lambda>(window, token_program_b).
     bind_res (next_account_key window) (\<lambda>(window, memo_program).
     bind_res (next_account_key window) (\<lambda>(window, position_authority).
     bind_res (next_account_key window) (\<lambda>(window, position).
     bind_res (next_account_key window) (\<lambda>(window, position_token_account).
     bind_res (next_account_key window) (\<lambda>(window, token_mint_a).
     bind_res (next_account_key window) (\<lambda>(window, token_mint_b).
     bind_res (next_account_key window) (\<lambda>(window, token_owner_account_a).
     bind_res (next_account_key window) (\<lambda>(window, token_owner_account_b).
     bind_res (next_account_key window) (\<lambda>(window, token_vault_a).
     bind_res (next_account_key window) (\<lambda>(window, token_vault_b).
     bind_res (next_account_key window) (\<lambda>(window, tick_array_lower).
     bind_res (next_account_key window) (\<lambda>(window, tick_array_upper).
     Inr \<lparr>od2_whirlpool = whirlpool,
       od2_token_program_a = token_program_a,
       od2_token_program_b = token_program_b,
       od2_memo_program = memo_program,
       od2_position_authority = position_authority,
       od2_position = position,
       od2_position_token_account = position_token_account,
       od2_token_mint_a = token_mint_a,
       od2_token_mint_b = token_mint_b,
       od2_token_owner_account_a = token_owner_account_a,
       od2_token_owner_account_b = token_owner_account_b,
       od2_token_vault_a = token_vault_a,
       od2_token_vault_b = token_vault_b,
       od2_tick_array_lower = tick_array_lower,
       od2_tick_array_upper = tick_array_upper\<rparr>)))))))))))))))"

definition decode_orca_instruction ::
  "orca_codec \<Rightarrow> compiled_instruction \<Rightarrow> pubkey list \<Rightarrow> parsed_orca_instruction result" where
  "decode_orca_instruction c instruction keys =
     bind_res (split_discriminator (ci_data instruction)) (\<lambda>(discriminator, rest).
     bind_res (new_from_instruction keys instruction) (\<lambda>window.
     if discriminator = ORCA_SWAP_DISC then
       bind_res (decode_instruction (oc_swap c) rest) (\<lambda>args.
       bind_res (decode_orca_swap_accounts window) (\<lambda>accounts. Inr (OrcaSwap args accounts)))
     else if discriminator = ORCA_SWAP_V2_DISC then
       bind_res (decode_instruction (oc_swap_v2 c) rest) (\<lambda>args.
       bind_res (decode_orca_swap_v2_accounts window) (\<lambda>accounts. Inr (OrcaSwapV2 args accounts)))
     else if discriminator = ORCA_INITIALIZE_POOL_DISC then
       bind_res (decode_instruction (oc_initialize_pool c) rest) (\<lambda>args.
       bind_res (decode_orca_initialize_pool_accounts window) (\<lambda>accounts. Inr (OrcaInitializePool args accounts)))
     else if discriminator = ORCA_INITIALIZE_POOL_V2_DISC then
       bind_res (decode_instruction (oc_initialize_pool_v2 c) rest) (\<lambda>args.
       bind_res (decode_orca_initialize_pool_v2_accounts window) (\<lambda>accounts. Inr (OrcaInitializePoolV2 args accounts)))
     else if discriminator = ORCA_INCREASE_LIQUIDITY_DISC then
       bind_res (decode_instruction (oc_increase_liquidity c) rest) (\<lambda>args.
       bind_res (decode_orca_increase_liquidity_accounts window) (\<lambda>accounts. Inr (OrcaIncreaseLiquidity args accounts)))
     else if discriminator = ORCA_INCREASE_LIQUIDITY_V2_DISC then
       bind_res (decode_instruction (oc_increase_liquidity_v2 c) rest) (\<lambda>args.
       bind_res (decode_orca_increase_liquidity_v2_accounts window) (\<lambda>accounts. Inr (OrcaIncreaseLiquidityV2 args accounts)))
     else if discriminator = ORCA_DECREASE_LIQUIDITY_DISC then
       bind_res (decode_instruction (oc_decrease_liquidity c) rest) (\<lambda>args.
       bind_res (decode_orca_decrease_liquidity_accounts window) (\<lambda>accounts. Inr (OrcaDecreaseLiquidity args accounts)))
     else if discriminator = ORCA_DECREASE_LIQUIDITY_V2_DISC then
       bind_res (decode_instruction (oc_decrease_liquidity_v2 c) rest) (\<lambda>args.
       bind_res (decode_orca_decrease_liquidity_v2_accounts window) (\<lambda>accounts. Inr (OrcaDecreaseLiquidityV2 args accounts)))
     else Inr (OrcaUnknown discriminator)))"

definition orca_get_pool_state :: "parsed_orca_instruction \<Rightarrow> pubkey option" where
  "orca_get_pool_state parsed = (case parsed of
     OrcaDecreaseLiquidity args accounts \<Rightarrow> Some (odl_whirlpool accounts)
   | OrcaDecreaseLiquidityV2 args accounts \<Rightarrow> Some (od2_whirlpool accounts)
   | OrcaIncreaseLiquidity args accounts \<Rightarrow> Some (oil_whirlpool accounts)
   | OrcaIncreaseLiquidityV2 args accounts \<Rightarrow> Some (ol2_whirlpool accounts)
   | OrcaInitializePool args accounts \<Rightarrow> Some (oip_whirlpool accounts)
   | OrcaInitializePoolV2 args accounts \<Rightarrow> Some (oi2_whirlpool accounts)
   | OrcaSwap args accounts \<Rightarrow> Some (osw_whirlpool accounts)
   | OrcaSwapV2 args accounts \<Rightarrow> Some (os2_whirlpool accounts)
   | OrcaUnknown discriminator \<Rightarrow> None)"

section \<open>Built instructions are read back\<close>

lemmas orca_instructions = orca_swap_instruction_with_remaining_accounts_def
  orca_swap_v2_instruction_with_remaining_accounts_def
  orca_initialize_pool_instruction_with_remaining_accounts_def
  orca_initialize_pool_v2_instruction_with_remaining_accounts_def
  orca_increase_liquidity_instruction_with_remaining_accounts_def
  orca_increase_liquidity_v2_instruction_with_remaining_accounts_def
  orca_decrease_liquidity_instruction_with_remaining_accounts_def
  orca_decrease_liquidity_v2_instruction_with_remaining_accounts_def

text \<open>The instruction that a parsed one stands for, and that borsh reads its arguments back.\<close>

fun orca_build :: "orca_codec \<Rightarrow> parsed_orca_instruction \<Rightarrow> account_meta list \<Rightarrow> wire_instruction result" where
  "orca_build c (OrcaSwap args accounts) extra =
     orca_swap_instruction_with_remaining_accounts (oc_swap c) accounts args extra"
| "orca_build c (OrcaSwapV2 args accounts) extra =
     orca_swap_v2_instruction_with_remaining_accounts (oc_swap_v2 c) accounts args extra"
| "orca_build c (OrcaInitializePool args accounts) extra =
     orca_initialize_pool_instruction_with_remaining_accounts (oc_initialize_pool c) accounts args extra"
| "orca_build c (OrcaInitializePoolV2 args accounts) extra =
     orca_initialize_pool_v2_instruction_with_remaining_accounts (oc_initialize_pool_v2 c) accounts args extra"
| "orca_build c (OrcaIncreaseLiquidity args accounts) extra =
     orca_increase_liquidity_instruction_with_remaining_accounts (oc_increase_liquidity c) accounts args extra"
| "orca_build c (OrcaIncreaseLiquidityV2 args accounts) extra =
     orca_increase_liquidity_v2_instruction_with_remaining_accounts (oc_increase_liquidity_v2 c) accounts args extra"
| "orca_build c (OrcaDecreaseLiquidity args accounts) extra =
     orca_decrease_liquidity_instruction_with_remaining_accounts (oc_decrease_liquidity c) accounts args extra"
| "orca_build c (OrcaDecreaseLiquidityV2 args accounts) extra =
     orca_decrease_liquidity_v2_instruction_with_remaining_accounts (oc_decrease_liquidity_v2 c) accounts args extra"
| "orca_build c (OrcaUnknown d) extra = Inl (Error ''not an instruction of the client'')"

fun orca_faithful :: "orca_codec \<Rightarrow> parsed_orca_instruction \<Rightarrow> bool" where
  "orca_faithful c (OrcaSwap args accounts) = faithful (oc_swap c) args"
| "orca_faithful c (OrcaSwapV2 args accounts) = faithful (oc_swap_v2 c) args"
| "orca_faithful c (OrcaInitializePool args accounts) = faithful (oc_initialize_pool c) args"
| "orca_faithful c (OrcaInitializePoolV2 args accounts) = faithful (oc_initialize_pool_v2 c) args"
| "orca_faithful c (OrcaIncreaseLiquidity args accounts) = faithful (oc_increase_liquidity c) args"
| "orca_faithful c (OrcaIncreaseLiquidityV2 args accounts) = faithful (oc_increase_liquidity_v2 c) args"
| "orca_faithful c (OrcaDecreaseLiquidity args accounts) = faithful (oc_decrease_liquidity c) args"
| "orca_faithful c (OrcaDecreaseLiquidityV2 args accounts) = faithful (oc_decrease_liquidity_v2 c) args"
| "orca_faithful c (OrcaUnknown d) = False"

lemma orca_swap_read_back:
  assumes "orca_swap_instruction_with_remaining_accounts (oc_swap c) accounts args extra = Inr ins"
    and "compiled keys ins ix" and "faithful (oc_swap c) args"
  shows "decode_orca_instruction c ix keys = Inr (OrcaSwap args accounts)"
proof -
  obtain bs where bs: "cd_put (oc_swap c) args = Some bs" and data: "wi_data ins = orca_swap_data @ bs"
    using assms(1) by (auto simp: orca_swap_instruction_with_remaining_accounts_def Let_def expect_def split: option.splits)
  have "length orca_swap_data = 8" by (simp add: orca_swap_data_def)
  from compiled_reads [OF assms(2) data this] obtain w
    where w: "split_discriminator (ci_data ix) = Inr (orca_swap_data, bs)" "new_from_instruction keys ix = Inr w"
      "valid_window w" "remaining_keys w = map am_pubkey (wi_accounts ins)" .
  have "decode_orca_swap_accounts w = Inr accounts"
    using assms(1) w(3,4) by (auto simp: orca_swap_instruction_with_remaining_accounts_def
        decode_orca_swap_accounts_def window_reads bs)
  then show ?thesis
    by (simp add: decode_orca_instruction_def w(1,2) decode_instruction_put [OF assms(3) bs] orca_swap_data_def orca_discs)
qed

lemma orca_swap_v2_read_back:
  assumes "orca_swap_v2_instruction_with_remaining_accounts (oc_swap_v2 c) accounts args extra = Inr ins"
    and "compiled keys ins ix" and "faithful (oc_swap_v2 c) args"
  shows "decode_orca_instruction c ix keys = Inr (OrcaSwapV2 args accounts)"
proof -
  obtain bs where bs: "cd_put (oc_swap_v2 c) args = Some bs" and data: "wi_data ins = orca_swap_v2_data @ bs"
    using assms(1) by (auto simp: orca_swap_v2_instruction_with_remaining_accounts_def Let_def expect_def split: option.splits)
  have "length orca_swap_v2_data = 8" by (simp add: orca_swap_v2_data_def)
  from compiled_reads [OF assms(2) data this] obtain w
    where w: "split_discriminator (ci_data ix) = Inr (orca_swap_v2_data, bs)" "new_from_instruction keys ix = Inr w"
      "valid_window w" "remaining_keys w = map am_pubkey (wi_accounts ins)" .
  have "decode_orca_swap_v2_accounts w = Inr accounts"
    using assms(1) w(3,4) by (auto simp: orca_swap_v2_instruction_with_remaining_accounts_def
        decode_orca_swap_v2_accounts_def window_reads bs)
  then show ?thesis
    by (simp add: decode_orca_instruction_def w(1,2) decode_instruction_put [OF assms(3) bs] orca_swap_v2_data_def orca_discs)
qed

lemma orca_initialize_pool_read_back:
  assumes "orca_initialize_pool_instruction_with_remaining_accounts (oc_initialize_pool c) accounts args extra = Inr ins"
    and "compiled keys ins ix" and "faithful (oc_initialize_pool c) args"
  shows "decode_orca_instruction c ix keys = Inr (OrcaInitializePool args accounts)"
proof -
  obtain bs where bs: "cd_put (oc_initialize_pool c) args = Some bs" and data: "wi_data ins = orca_initialize_pool_data @ bs"
    using assms(1) by (auto simp: orca_initialize_pool_instruction_with_remaining_accounts_def Let_def expect_def split: option.splits)
  have "length orca_initialize_pool_data = 8" by (simp add: orca_initialize_pool_data_def)
  from compiled_reads [OF assms(2) data this] obtain w
    where w: "split_discriminator (ci_data ix) = Inr (orca_initialize_pool_data, bs)" "new_from_instruction keys ix = Inr w"
      "valid_window w" "remaining_keys w = map am_pubkey (wi_accounts ins)" .
  have "decode_orca_initialize_pool_accounts w = Inr accounts"
    using assms(1) w(3,4) by (auto simp: orca_initialize_pool_instruction_with_remaining_accounts_def
        decode_orca_initialize_pool_accounts_def window_reads bs)
  then show ?thesis
    by (simp add: decode_orca_instruction_def w(1,2) decode_instruction_put [OF assms(3) bs] orca_initialize_pool_data_def orca_discs)
qed

lemma orca_initialize_pool_v2_read_back:
  assumes "orca_initialize_pool_v2_instruction_with_remaining_accounts (oc_initialize_pool_v2 c) accounts args extra = Inr ins"
    and "compiled keys ins ix" and "faithful (oc_initialize_pool_v2 c) args"
  shows "decode_orca_instruction c ix keys = Inr (OrcaInitializePoolV2 args accounts)"
proof -
  obtain bs where bs: "cd_put (oc_initialize_pool_v2 c) args = Some bs" and data: "wi_data ins = orca_initialize_pool_v2_data @ bs"
    using assms(1) by (auto simp: orca_initialize_pool_v2_instruction_with_remaining_accounts_def Let_def expect_def split: option.splits)
  have "length orca_initialize_pool_v2_data = 8" by (simp add: orca_initialize_pool_v2_data_def)
  from compiled_reads [OF assms(2) data this] obtain w
    where w: "split_discriminator (ci_data ix) = Inr (orca_initialize_pool_v2_data, bs)" "new_from_instruction keys ix = Inr w"
      "valid_window w" "remaining_keys w = map am_pubkey (wi_accounts ins)" .
  have "decode_orca_initialize_pool_v2_accounts w = Inr accounts"
    using assms(1) w(3,4) by (auto simp: orca_initialize_pool_v2_instruction_with_remaining_accounts_def
        decode_orca_initialize_pool_v2_accounts_def window_reads bs)
  then show ?thesis
    by (simp add: decode_orca_instruction_def w(1,2) decode_instruction_put [OF assms(3) bs] orca_initialize_pool_v2_data_def orca_discs)
qed

lemma orca_increase_liquidity_read_back:
  assumes "orca_increase_liquidity_instruction_with_remaining_accounts (oc_increase_liquidity c) accounts args extra = Inr ins"
    and "compiled keys ins ix" and "faithful (oc_increase_liquidity c) args"
  shows "decode_orca_instruction c ix keys = Inr (OrcaIncreaseLiquidity args accounts)"
proof -
  obtain bs where bs: "cd_put (oc_increase_liquidity c) args = Some bs" and data: "wi_data ins = orca_increase_liquidity_data @ bs"
    using assms(1) by (auto simp: orca_increase_liquidity_instruction_with_remaining_accounts_def Let_def expect_def split: option.splits)
  have "length orca_increase_liquidity_data = 8" by (simp add: orca_increase_liquidity_data_def)
  from compiled_reads [OF assms(2) data this] obtain w
    where w: "split_discriminator (ci_data ix) = Inr (orca_increase_liquidity_data, bs)" "new_from_instruction keys ix = Inr w"
      "valid_window w" "remaining_keys w = map am_pubkey (wi_accounts ins)" .
  have "decode_orca_increase_liquidity_accounts w = Inr accounts"
    using assms(1) w(3,4) by (auto simp: orca_increase_liquidity_instruction_with_remaining_accounts_def
        decode_orca_increase_liquidity_accounts_def window_reads bs)
  then show ?thesis
    by (simp add: decode_orca_instruction_def w(1,2) decode_instruction_put [OF assms(3) bs] orca_increase_liquidity_data_def orca_discs)
qed

lemma orca_increase_liquidity_v2_read_back:
  assumes "orca_increase_liquidity_v2_instruction_with_remaining_accounts (oc_increase_liquidity_v2 c) accounts args extra = Inr ins"
    and "compiled keys ins ix" and "faithful (oc_increase_liquidity_v2 c) args"
  shows "decode_orca_instruction c ix keys = Inr (OrcaIncreaseLiquidityV2 args accounts)"
proof -
  obtain bs where bs: "cd_put (oc_increase_liquidity_v2 c) args = Some bs" and data: "wi_data ins = orca_increase_liquidity_v2_data @ bs"
    using assms(1) by (auto simp: orca_increase_liquidity_v2_instruction_with_remaining_accounts_def Let_def expect_def split: option.splits)
  have "length orca_increase_liquidity_v2_data = 8" by (simp add: orca_increase_liquidity_v2_data_def)
  from compiled_reads [OF assms(2) data this] obtain w
    where w: "split_discriminator (ci_data ix) = Inr (orca_increase_liquidity_v2_data, bs)" "new_from_instruction keys ix = Inr w"
      "valid_window w" "remaining_keys w = map am_pubkey (wi_accounts ins)" .
  have "decode_orca_increase_liquidity_v2_accounts w = Inr accounts"
    using assms(1) w(3,4) by (auto simp: orca_increase_liquidity_v2_instruction_with_remaining_accounts_def
        decode_orca_increase_liquidity_v2_accounts_def window_reads bs)
  then show ?thesis
    by (simp add: decode_orca_instruction_def w(1,2) decode_instruction_put [OF assms(3) bs] orca_increase_liquidity_v2_data_def orca_discs)
qed

lemma orca_decrease_liquidity_read_back:
  assumes "orca_decrease_liquidity_instruction_with_remaining_accounts (oc_decrease_liquidity c) accounts args extra = Inr ins"
    and "compiled keys ins ix" and "faithful (oc_decrease_liquidity c) args"
  shows "decode_orca_instruction c ix keys = Inr (OrcaDecreaseLiquidity args accounts)"
proof -
  obtain bs where bs: "cd_put (oc_decrease_liquidity c) args = Some bs" and data: "wi_data ins = orca_decrease_liquidity_data @ bs"
    using assms(1) by (auto simp: orca_decrease_liquidity_instruction_with_remaining_accounts_def Let_def expect_def split: option.splits)
  have "length orca_decrease_liquidity_data = 8" by (simp add: orca_decrease_liquidity_data_def)
  from compiled_reads [OF assms(2) data this] obtain w
    where w: "split_discriminator (ci_data ix) = Inr (orca_decrease_liquidity_data, bs)" "new_from_instruction keys ix = Inr w"
      "valid_window w" "remaining_keys w = map am_pubkey (wi_accounts ins)" .
  have "decode_orca_decrease_liquidity_accounts w = Inr accounts"
    using assms(1) w(3,4) by (auto simp: orca_decrease_liquidity_instruction_with_remaining_accounts_def
        decode_orca_decrease_liquidity_accounts_def window_reads bs)
  then show ?thesis
    by (simp add: decode_orca_instruction_def w(1,2) decode_instruction_put [OF assms(3) bs] orca_decrease_liquidity_data_def orca_discs)
qed

lemma orca_decrease_liquidity_v2_read_back:
  assumes "orca_decrease_liquidity_v2_instruction_with_remaining_accounts (oc_decrease_liquidity_v2 c) accounts args extra = Inr ins"
    and "compiled keys ins ix" and "faithful (oc_decrease_liquidity_v2 c) args"
  shows "decode_orca_instruction c ix keys = Inr (OrcaDecreaseLiquidityV2 args accounts)"
proof -
  obtain bs where bs: "cd_put (oc_decrease_liquidity_v2 c) args = Some bs" and data: "wi_data ins = orca_decrease_liquidity_v2_data @ bs"
    using assms(1) by (auto simp: orca_decrease_liquidity_v2_instruction_with_remaining_accounts_def Let_def expect_def split: option.splits)
  have "length orca_decrease_liquidity_v2_data = 8" by (simp add: orca_decrease_liquidity_v2_data_def)
  from compiled_reads [OF assms(2) data this] obtain w
    where w: "split_discriminator (ci_data ix) = Inr (orca_decrease_liquidity_v2_data, bs)" "new_from_instruction keys ix = Inr w"
      "valid_window w" "remaining_keys w = map am_pubkey (wi_accounts ins)" .
  have "decode_orca_decrease_liquidity_v2_accounts w = Inr accounts"
    using assms(1) w(3,4) by (auto simp: orca_decrease_liquidity_v2_instruction_with_remaining_accounts_def
        decode_orca_decrease_liquidity_v2_accounts_def window_reads bs)
  then show ?thesis
    by (simp add: decode_orca_instruction_def w(1,2) decode_instruction_put [OF assms(3) bs] orca_decrease_liquidity_v2_data_def orca_discs)
qed

text \<open>Every instruction that the generated client of the whirlpools builds, with whatever accounts
  follow its own, is read back by the parser once it is compiled into a message: the same kind of
  instruction, the same arguments and the same account in every role.\<close>

lemma orca_read_back:
  assumes "orca_build c parsed extra = Inr ins" and "orca_faithful c parsed" and "compiled keys ins ix"
  shows "decode_orca_instruction c ix keys = Inr parsed"
  using assms by (cases parsed) (simp_all add: orca_swap_read_back
      orca_swap_v2_read_back
      orca_initialize_pool_read_back
      orca_initialize_pool_v2_read_back
      orca_increase_liquidity_read_back
      orca_increase_liquidity_v2_read_back
      orca_decrease_liquidity_read_back
      orca_decrease_liquidity_v2_read_back)

text \<open>A borsh of one byte per amount, and a swap of 100 against at least 90 in a pool whose key is 12.\<close>

definition example_swap_codec :: "orca_swap_args codec" where
  "example_swap_codec = \<lparr>
     cd_put = (\<lambda>a. if unat (osa_amount a) < 256 \<and> unat (osa_other_amount_threshold a) < 256 \<and> osa_sqrt_price_limit a = 0
       then Some [ucast (osa_amount a), ucast (osa_other_amount_threshold a),
         if osa_amount_specified_is_input a then 1 else 0, if osa_a_to_b a then 1 else 0] else None),
     cd_get = (\<lambda>bs. case bs of
         x # y # i # d # rest \<Rightarrow> Some (\<lparr>osa_amount = ucast x, osa_other_amount_threshold = ucast y,
           osa_sqrt_price_limit = 0, osa_amount_specified_is_input = (i = 1), osa_a_to_b = (d = 1)\<rparr>, rest)
       | _ \<Rightarrow> None)\<rparr>"

definition example_orca_codec :: orca_codec where
  "example_orca_codec = \<lparr>oc_swap = example_swap_codec, oc_swap_v2 = \<lparr>cd_put = (\<lambda>_. None), cd_get = (\<lambda>_. None)\<rparr>, oc_initialize_pool = \<lparr>cd_put = (\<lambda>_. None), cd_get = (\<lambda>_. None)\<rparr>, oc_initialize_pool_v2 = \<lparr>cd_put = (\<lambda>_. None), cd_get = (\<lambda>_. None)\<rparr>, oc_increase_liquidity = \<lparr>cd_put = (\<lambda>_. None), cd_get = (\<lambda>_. None)\<rparr>, oc_increase_liquidity_v2 = \<lparr>cd_put = (\<lambda>_. None), cd_get = (\<lambda>_. None)\<rparr>, oc_decrease_liquidity = \<lparr>cd_put = (\<lambda>_. None), cd_get = (\<lambda>_. None)\<rparr>, oc_decrease_liquidity_v2 = \<lparr>cd_put = (\<lambda>_. None), cd_get = (\<lambda>_. None)\<rparr>\<rparr>"

definition example_orca_swap :: parsed_orca_instruction where
  "example_orca_swap = OrcaSwap
     \<lparr>osa_amount = 100, osa_other_amount_threshold = 90, osa_sqrt_price_limit = 0,
      osa_amount_specified_is_input = True, osa_a_to_b = False\<rparr>
     \<lparr>osw_token_program = 10, osw_token_authority = 11, osw_whirlpool = 12, osw_token_owner_account_a = 13,
      osw_token_vault_a = 14, osw_token_owner_account_b = 15, osw_token_vault_b = 16, osw_tick_array0 = 17,
      osw_tick_array1 = 18, osw_tick_array2 = 19, osw_oracle = 20\<rparr>"

end
