(* ===== verification/Jupiter_Ix.thy ===== *)
theory Jupiter_Ix
  imports Wire_Ix
begin

text \<open>
  The Jupiter aggregator: the generated instructions (\<^verbatim>\<open>parser/generated/jupiter_aggregator_v6\<close>) and the
  decoder of the parser (\<^verbatim>\<open>parser/v1/jupiter_v6.rs\<close>). An optional account that is absent is passed as
  the program itself, in both directions. What the parsed instruction says of the swap (its side, its
  mints, its user and its threshold) is read off the kind of route.
\<close>

definition JUPITER_AGGREGATOR_V6_ID :: pubkey where
  "JUPITER_AGGREGATOR_V6_ID =
     2024512440004304401218460610310738430137902625605816137218628783959189492623"

datatype jup_accounts_type =
  JupTransferHookA
| JupTransferHookB

record jup_remaining_accounts_slice =
  jrs_accounts_type :: jup_accounts_type
  jrs_length :: u8

record jup_remaining_accounts_info =
  jri_slices :: "jup_remaining_accounts_slice list"

datatype jup_side =
  SideBid
| SideAsk

datatype jup_swap =
  ViaSaber
| ViaSaberAddDecimalsDeposit
| ViaSaberAddDecimalsWithdraw
| ViaTokenSwap
| ViaSencha
| ViaStep
| ViaCropper
| ViaRaydium
| ViaCrema bool
| ViaLifinity
| ViaMercurial
| ViaCykura
| ViaSerum jup_side
| ViaMarinadeDeposit
| ViaMarinadeUnstake
| ViaAldrin jup_side
| ViaAldrinV2 jup_side
| ViaWhirlpool bool
| ViaInvariant bool
| ViaMeteora
| ViaGooseFX
| ViaDeltaFi bool
| ViaBalansol
| ViaMarcoPolo bool
| ViaDradex jup_side
| ViaLifinityV2
| ViaRaydiumClmm
| ViaOpenbook jup_side
| ViaPhoenix jup_side
| ViaSymmetry u64 u64
| ViaTokenSwapV2
| ViaHeliumTreasuryManagementRedeemV0
| ViaStakeDexStakeWrappedSol
| ViaStakeDexSwapViaStake u32
| ViaGooseFXV2
| ViaPerps
| ViaPerpsAddLiquidity
| ViaPerpsRemoveLiquidity
| ViaMeteoraDlmm
| ViaOpenBookV2 jup_side
| ViaRaydiumClmmV2
| ViaClone u8 bool bool
| ViaWhirlpoolSwapV2 bool "jup_remaining_accounts_info option"
| ViaOneIntro
| ViaPumpdotfunWrappedBuy
| ViaPumpdotfunWrappedSell
| ViaPerpsV2
| ViaPerpsV2AddLiquidity
| ViaPerpsV2RemoveLiquidity
| ViaMoonshotWrappedBuy
| ViaMoonshotWrappedSell
| ViaStabbleStableSwap
| ViaStabbleWeightedSwap
| ViaObric bool

record jup_route_plan_step =
  jp_swap :: jup_swap
  jp_percent :: u8
  jp_input_index :: u8
  jp_output_index :: u8

section \<open>Route\<close>

record jup_route =
  jr_token_program :: pubkey
  jr_user_transfer_authority :: pubkey
  jr_user_source_token_account :: pubkey
  jr_user_destination_token_account :: pubkey
  jr_destination_token_account :: "pubkey option"
  jr_destination_mint :: pubkey
  jr_platform_fee_account :: "pubkey option"
  jr_event_authority :: pubkey
  jr_program :: pubkey

record jup_route_args =
  jra_route_plan :: "jup_route_plan_step list"
  jra_in_amount :: u64
  jra_quoted_out_amount :: u64
  jra_slippage_bps :: u16
  jra_platform_fee_bps :: u8

definition jup_route_data :: bytes where
  "jup_route_data = [229, 23, 203, 151, 122, 227, 173, 42]"

definition jup_route_instruction_with_remaining_accounts ::
  "jup_route_args codec \<Rightarrow> jup_route \<Rightarrow> jup_route_args \<Rightarrow> account_meta list
     \<Rightarrow> wire_instruction result" where
  "jup_route_instruction_with_remaining_accounts c self args remaining_accounts =
     (let accounts =
       [meta_new_readonly (jr_token_program self) False,
        meta_new_readonly (jr_user_transfer_authority self) True,
        meta_new (jr_user_source_token_account self) False,
        meta_new (jr_user_destination_token_account self) False,
        (case jr_destination_token_account self of Some k \<Rightarrow> meta_new k False
         | None \<Rightarrow> meta_new_readonly JUPITER_AGGREGATOR_V6_ID False),
        meta_new_readonly (jr_destination_mint self) False,
        (case jr_platform_fee_account self of Some k \<Rightarrow> meta_new k False
         | None \<Rightarrow> meta_new_readonly JUPITER_AGGREGATOR_V6_ID False),
        meta_new_readonly (jr_event_authority self) False,
        meta_new_readonly (jr_program self) False] @ remaining_accounts;
          data = jup_route_data
      in bind_res (expect (cd_put c args) ''called `Result::unwrap()` on an `Err` value'') (\<lambda>args.
         Inr \<lparr>wi_program_id = JUPITER_AGGREGATOR_V6_ID, wi_accounts = accounts, wi_data = data @ args\<rparr>))"

definition jup_route_instruction ::
  "jup_route_args codec \<Rightarrow> jup_route \<Rightarrow> jup_route_args \<Rightarrow> wire_instruction result" where
  "jup_route_instruction c self args = jup_route_instruction_with_remaining_accounts c self args []"

section \<open>Exact Out Route\<close>

record jup_exact_out_route =
  je_token_program :: pubkey
  je_user_transfer_authority :: pubkey
  je_user_source_token_account :: pubkey
  je_user_destination_token_account :: pubkey
  je_destination_token_account :: "pubkey option"
  je_source_mint :: pubkey
  je_destination_mint :: pubkey
  je_platform_fee_account :: "pubkey option"
  je_token2022_program :: "pubkey option"
  je_event_authority :: pubkey
  je_program :: pubkey

record jup_exact_out_route_args =
  jea_route_plan :: "jup_route_plan_step list"
  jea_out_amount :: u64
  jea_quoted_in_amount :: u64
  jea_slippage_bps :: u16
  jea_platform_fee_bps :: u8

definition jup_exact_out_route_data :: bytes where
  "jup_exact_out_route_data = [208, 51, 239, 151, 123, 43, 237, 92]"

definition jup_exact_out_route_instruction_with_remaining_accounts ::
  "jup_exact_out_route_args codec \<Rightarrow> jup_exact_out_route \<Rightarrow> jup_exact_out_route_args \<Rightarrow> account_meta list
     \<Rightarrow> wire_instruction result" where
  "jup_exact_out_route_instruction_with_remaining_accounts c self args remaining_accounts =
     (let accounts =
       [meta_new_readonly (je_token_program self) False,
        meta_new_readonly (je_user_transfer_authority self) True,
        meta_new (je_user_source_token_account self) False,
        meta_new (je_user_destination_token_account self) False,
        (case je_destination_token_account self of Some k \<Rightarrow> meta_new k False
         | None \<Rightarrow> meta_new_readonly JUPITER_AGGREGATOR_V6_ID False),
        meta_new_readonly (je_source_mint self) False,
        meta_new_readonly (je_destination_mint self) False,
        (case je_platform_fee_account self of Some k \<Rightarrow> meta_new k False
         | None \<Rightarrow> meta_new_readonly JUPITER_AGGREGATOR_V6_ID False),
        (case je_token2022_program self of Some k \<Rightarrow> meta_new_readonly k False
         | None \<Rightarrow> meta_new_readonly JUPITER_AGGREGATOR_V6_ID False),
        meta_new_readonly (je_event_authority self) False,
        meta_new_readonly (je_program self) False] @ remaining_accounts;
          data = jup_exact_out_route_data
      in bind_res (expect (cd_put c args) ''called `Result::unwrap()` on an `Err` value'') (\<lambda>args.
         Inr \<lparr>wi_program_id = JUPITER_AGGREGATOR_V6_ID, wi_accounts = accounts, wi_data = data @ args\<rparr>))"

definition jup_exact_out_route_instruction ::
  "jup_exact_out_route_args codec \<Rightarrow> jup_exact_out_route \<Rightarrow> jup_exact_out_route_args \<Rightarrow> wire_instruction result" where
  "jup_exact_out_route_instruction c self args = jup_exact_out_route_instruction_with_remaining_accounts c self args []"

section \<open>Route With Token Ledger\<close>

record jup_route_with_token_ledger =
  jl_token_program :: pubkey
  jl_user_transfer_authority :: pubkey
  jl_user_source_token_account :: pubkey
  jl_user_destination_token_account :: pubkey
  jl_destination_token_account :: "pubkey option"
  jl_destination_mint :: pubkey
  jl_platform_fee_account :: "pubkey option"
  jl_token_ledger :: pubkey
  jl_event_authority :: pubkey
  jl_program :: pubkey

record jup_route_with_token_ledger_args =
  jla_route_plan :: "jup_route_plan_step list"
  jla_quoted_out_amount :: u64
  jla_slippage_bps :: u16
  jla_platform_fee_bps :: u8

definition jup_route_with_token_ledger_data :: bytes where
  "jup_route_with_token_ledger_data = [150, 86, 71, 116, 167, 93, 14, 104]"

definition jup_route_with_token_ledger_instruction_with_remaining_accounts ::
  "jup_route_with_token_ledger_args codec \<Rightarrow> jup_route_with_token_ledger \<Rightarrow> jup_route_with_token_ledger_args \<Rightarrow> account_meta list
     \<Rightarrow> wire_instruction result" where
  "jup_route_with_token_ledger_instruction_with_remaining_accounts c self args remaining_accounts =
     (let accounts =
       [meta_new_readonly (jl_token_program self) False,
        meta_new_readonly (jl_user_transfer_authority self) True,
        meta_new (jl_user_source_token_account self) False,
        meta_new (jl_user_destination_token_account self) False,
        (case jl_destination_token_account self of Some k \<Rightarrow> meta_new k False
         | None \<Rightarrow> meta_new_readonly JUPITER_AGGREGATOR_V6_ID False),
        meta_new_readonly (jl_destination_mint self) False,
        (case jl_platform_fee_account self of Some k \<Rightarrow> meta_new k False
         | None \<Rightarrow> meta_new_readonly JUPITER_AGGREGATOR_V6_ID False),
        meta_new_readonly (jl_token_ledger self) False,
        meta_new_readonly (jl_event_authority self) False,
        meta_new_readonly (jl_program self) False] @ remaining_accounts;
          data = jup_route_with_token_ledger_data
      in bind_res (expect (cd_put c args) ''called `Result::unwrap()` on an `Err` value'') (\<lambda>args.
         Inr \<lparr>wi_program_id = JUPITER_AGGREGATOR_V6_ID, wi_accounts = accounts, wi_data = data @ args\<rparr>))"

definition jup_route_with_token_ledger_instruction ::
  "jup_route_with_token_ledger_args codec \<Rightarrow> jup_route_with_token_ledger \<Rightarrow> jup_route_with_token_ledger_args \<Rightarrow> wire_instruction result" where
  "jup_route_with_token_ledger_instruction c self args = jup_route_with_token_ledger_instruction_with_remaining_accounts c self args []"

section \<open>Shared Accounts Exact Out Route\<close>

record jup_shared_accounts_exact_out_route =
  jse_token_program :: pubkey
  jse_program_authority :: pubkey
  jse_user_transfer_authority :: pubkey
  jse_source_token_account :: pubkey
  jse_program_source_token_account :: pubkey
  jse_program_destination_token_account :: pubkey
  jse_destination_token_account :: pubkey
  jse_source_mint :: pubkey
  jse_destination_mint :: pubkey
  jse_platform_fee_account :: "pubkey option"
  jse_token2022_program :: "pubkey option"
  jse_event_authority :: pubkey
  jse_program :: pubkey

record jup_shared_accounts_exact_out_route_args =
  jsea_id :: u8
  jsea_route_plan :: "jup_route_plan_step list"
  jsea_out_amount :: u64
  jsea_quoted_in_amount :: u64
  jsea_slippage_bps :: u16
  jsea_platform_fee_bps :: u8

definition jup_shared_accounts_exact_out_route_data :: bytes where
  "jup_shared_accounts_exact_out_route_data = [176, 209, 105, 168, 154, 125, 69, 62]"

definition jup_shared_accounts_exact_out_route_instruction_with_remaining_accounts ::
  "jup_shared_accounts_exact_out_route_args codec \<Rightarrow> jup_shared_accounts_exact_out_route \<Rightarrow> jup_shared_accounts_exact_out_route_args \<Rightarrow> account_meta list
     \<Rightarrow> wire_instruction result" where
  "jup_shared_accounts_exact_out_route_instruction_with_remaining_accounts c self args remaining_accounts =
     (let accounts =
       [meta_new_readonly (jse_token_program self) False,
        meta_new_readonly (jse_program_authority self) False,
        meta_new_readonly (jse_user_transfer_authority self) True,
        meta_new (jse_source_token_account self) False,
        meta_new (jse_program_source_token_account self) False,
        meta_new (jse_program_destination_token_account self) False,
        meta_new (jse_destination_token_account self) False,
        meta_new_readonly (jse_source_mint self) False,
        meta_new_readonly (jse_destination_mint self) False,
        (case jse_platform_fee_account self of Some k \<Rightarrow> meta_new k False
         | None \<Rightarrow> meta_new_readonly JUPITER_AGGREGATOR_V6_ID False),
        (case jse_token2022_program self of Some k \<Rightarrow> meta_new_readonly k False
         | None \<Rightarrow> meta_new_readonly JUPITER_AGGREGATOR_V6_ID False),
        meta_new_readonly (jse_event_authority self) False,
        meta_new_readonly (jse_program self) False] @ remaining_accounts;
          data = jup_shared_accounts_exact_out_route_data
      in bind_res (expect (cd_put c args) ''called `Result::unwrap()` on an `Err` value'') (\<lambda>args.
         Inr \<lparr>wi_program_id = JUPITER_AGGREGATOR_V6_ID, wi_accounts = accounts, wi_data = data @ args\<rparr>))"

definition jup_shared_accounts_exact_out_route_instruction ::
  "jup_shared_accounts_exact_out_route_args codec \<Rightarrow> jup_shared_accounts_exact_out_route \<Rightarrow> jup_shared_accounts_exact_out_route_args \<Rightarrow> wire_instruction result" where
  "jup_shared_accounts_exact_out_route_instruction c self args = jup_shared_accounts_exact_out_route_instruction_with_remaining_accounts c self args []"

section \<open>Shared Accounts Route\<close>

record jup_shared_accounts_route =
  jsr_token_program :: pubkey
  jsr_program_authority :: pubkey
  jsr_user_transfer_authority :: pubkey
  jsr_source_token_account :: pubkey
  jsr_program_source_token_account :: pubkey
  jsr_program_destination_token_account :: pubkey
  jsr_destination_token_account :: pubkey
  jsr_source_mint :: pubkey
  jsr_destination_mint :: pubkey
  jsr_platform_fee_account :: "pubkey option"
  jsr_token2022_program :: "pubkey option"
  jsr_event_authority :: pubkey
  jsr_program :: pubkey

record jup_shared_accounts_route_args =
  jsra_id :: u8
  jsra_route_plan :: "jup_route_plan_step list"
  jsra_in_amount :: u64
  jsra_quoted_out_amount :: u64
  jsra_slippage_bps :: u16
  jsra_platform_fee_bps :: u8

definition jup_shared_accounts_route_data :: bytes where
  "jup_shared_accounts_route_data = [193, 32, 155, 51, 65, 214, 156, 129]"

definition jup_shared_accounts_route_instruction_with_remaining_accounts ::
  "jup_shared_accounts_route_args codec \<Rightarrow> jup_shared_accounts_route \<Rightarrow> jup_shared_accounts_route_args \<Rightarrow> account_meta list
     \<Rightarrow> wire_instruction result" where
  "jup_shared_accounts_route_instruction_with_remaining_accounts c self args remaining_accounts =
     (let accounts =
       [meta_new_readonly (jsr_token_program self) False,
        meta_new_readonly (jsr_program_authority self) False,
        meta_new_readonly (jsr_user_transfer_authority self) True,
        meta_new (jsr_source_token_account self) False,
        meta_new (jsr_program_source_token_account self) False,
        meta_new (jsr_program_destination_token_account self) False,
        meta_new (jsr_destination_token_account self) False,
        meta_new_readonly (jsr_source_mint self) False,
        meta_new_readonly (jsr_destination_mint self) False,
        (case jsr_platform_fee_account self of Some k \<Rightarrow> meta_new k False
         | None \<Rightarrow> meta_new_readonly JUPITER_AGGREGATOR_V6_ID False),
        (case jsr_token2022_program self of Some k \<Rightarrow> meta_new_readonly k False
         | None \<Rightarrow> meta_new_readonly JUPITER_AGGREGATOR_V6_ID False),
        meta_new_readonly (jsr_event_authority self) False,
        meta_new_readonly (jsr_program self) False] @ remaining_accounts;
          data = jup_shared_accounts_route_data
      in bind_res (expect (cd_put c args) ''called `Result::unwrap()` on an `Err` value'') (\<lambda>args.
         Inr \<lparr>wi_program_id = JUPITER_AGGREGATOR_V6_ID, wi_accounts = accounts, wi_data = data @ args\<rparr>))"

definition jup_shared_accounts_route_instruction ::
  "jup_shared_accounts_route_args codec \<Rightarrow> jup_shared_accounts_route \<Rightarrow> jup_shared_accounts_route_args \<Rightarrow> wire_instruction result" where
  "jup_shared_accounts_route_instruction c self args = jup_shared_accounts_route_instruction_with_remaining_accounts c self args []"

section \<open>Shared Accounts Route With Token Ledger\<close>

record jup_shared_accounts_route_with_token_ledger =
  jsl_token_program :: pubkey
  jsl_program_authority :: pubkey
  jsl_user_transfer_authority :: pubkey
  jsl_source_token_account :: pubkey
  jsl_program_source_token_account :: pubkey
  jsl_program_destination_token_account :: pubkey
  jsl_destination_token_account :: pubkey
  jsl_source_mint :: pubkey
  jsl_destination_mint :: pubkey
  jsl_platform_fee_account :: "pubkey option"
  jsl_token2022_program :: "pubkey option"
  jsl_token_ledger :: pubkey
  jsl_event_authority :: pubkey
  jsl_program :: pubkey

record jup_shared_accounts_route_with_token_ledger_args =
  jsla_id :: u8
  jsla_route_plan :: "jup_route_plan_step list"
  jsla_quoted_out_amount :: u64
  jsla_slippage_bps :: u16
  jsla_platform_fee_bps :: u8

definition jup_shared_accounts_route_with_token_ledger_data :: bytes where
  "jup_shared_accounts_route_with_token_ledger_data = [230, 121, 143, 80, 119, 159, 106, 170]"

definition jup_shared_accounts_route_with_token_ledger_instruction_with_remaining_accounts ::
  "jup_shared_accounts_route_with_token_ledger_args codec \<Rightarrow> jup_shared_accounts_route_with_token_ledger \<Rightarrow> jup_shared_accounts_route_with_token_ledger_args \<Rightarrow> account_meta list
     \<Rightarrow> wire_instruction result" where
  "jup_shared_accounts_route_with_token_ledger_instruction_with_remaining_accounts c self args remaining_accounts =
     (let accounts =
       [meta_new_readonly (jsl_token_program self) False,
        meta_new_readonly (jsl_program_authority self) False,
        meta_new_readonly (jsl_user_transfer_authority self) True,
        meta_new (jsl_source_token_account self) False,
        meta_new (jsl_program_source_token_account self) False,
        meta_new (jsl_program_destination_token_account self) False,
        meta_new (jsl_destination_token_account self) False,
        meta_new_readonly (jsl_source_mint self) False,
        meta_new_readonly (jsl_destination_mint self) False,
        (case jsl_platform_fee_account self of Some k \<Rightarrow> meta_new k False
         | None \<Rightarrow> meta_new_readonly JUPITER_AGGREGATOR_V6_ID False),
        (case jsl_token2022_program self of Some k \<Rightarrow> meta_new_readonly k False
         | None \<Rightarrow> meta_new_readonly JUPITER_AGGREGATOR_V6_ID False),
        meta_new_readonly (jsl_token_ledger self) False,
        meta_new_readonly (jsl_event_authority self) False,
        meta_new_readonly (jsl_program self) False] @ remaining_accounts;
          data = jup_shared_accounts_route_with_token_ledger_data
      in bind_res (expect (cd_put c args) ''called `Result::unwrap()` on an `Err` value'') (\<lambda>args.
         Inr \<lparr>wi_program_id = JUPITER_AGGREGATOR_V6_ID, wi_accounts = accounts, wi_data = data @ args\<rparr>))"

definition jup_shared_accounts_route_with_token_ledger_instruction ::
  "jup_shared_accounts_route_with_token_ledger_args codec \<Rightarrow> jup_shared_accounts_route_with_token_ledger \<Rightarrow> jup_shared_accounts_route_with_token_ledger_args \<Rightarrow> wire_instruction result" where
  "jup_shared_accounts_route_with_token_ledger_instruction c self args = jup_shared_accounts_route_with_token_ledger_instruction_with_remaining_accounts c self args []"

section \<open>Decoding\<close>

definition JUPITER_ROUTE_DISC :: bytes where
  "JUPITER_ROUTE_DISC = [229, 23, 203, 151, 122, 227, 173, 42]"

definition JUPITER_EXACT_OUT_ROUTE_DISC :: bytes where
  "JUPITER_EXACT_OUT_ROUTE_DISC = [208, 51, 239, 151, 123, 43, 237, 92]"

definition JUPITER_ROUTE_WITH_TOKEN_LEDGER_DISC :: bytes where
  "JUPITER_ROUTE_WITH_TOKEN_LEDGER_DISC = [150, 86, 71, 116, 167, 93, 14, 104]"

definition JUPITER_SHARED_ACCOUNTS_EXACT_OUT_ROUTE_DISC :: bytes where
  "JUPITER_SHARED_ACCOUNTS_EXACT_OUT_ROUTE_DISC = [176, 209, 105, 168, 154, 125, 69, 62]"

definition JUPITER_SHARED_ACCOUNTS_ROUTE_DISC :: bytes where
  "JUPITER_SHARED_ACCOUNTS_ROUTE_DISC = [193, 32, 155, 51, 65, 214, 156, 129]"

definition JUPITER_SHARED_ACCOUNTS_ROUTE_WITH_TOKEN_LEDGER_DISC :: bytes where
  "JUPITER_SHARED_ACCOUNTS_ROUTE_WITH_TOKEN_LEDGER_DISC = [230, 121, 143, 80, 119, 159, 106, 170]"

lemmas jup_discs = JUPITER_ROUTE_DISC_def
  JUPITER_EXACT_OUT_ROUTE_DISC_def
  JUPITER_ROUTE_WITH_TOKEN_LEDGER_DISC_def
  JUPITER_SHARED_ACCOUNTS_EXACT_OUT_ROUTE_DISC_def
  JUPITER_SHARED_ACCOUNTS_ROUTE_DISC_def
  JUPITER_SHARED_ACCOUNTS_ROUTE_WITH_TOKEN_LEDGER_DISC_def

datatype parsed_jup_instruction =
  JupRoute jup_route_args jup_route
| JupExactOutRoute jup_exact_out_route_args jup_exact_out_route
| JupRouteWithTokenLedger jup_route_with_token_ledger_args jup_route_with_token_ledger
| JupSharedAccountsExactOutRoute jup_shared_accounts_exact_out_route_args jup_shared_accounts_exact_out_route
| JupSharedAccountsRoute jup_shared_accounts_route_args jup_shared_accounts_route
| JupSharedAccountsRouteWithTokenLedger jup_shared_accounts_route_with_token_ledger_args jup_shared_accounts_route_with_token_ledger
| JupUnknown bytes

text \<open>The borsh functions of the argument types.\<close>

record jup_codec =
  jc_route :: "jup_route_args codec"
  jc_exact_out_route :: "jup_exact_out_route_args codec"
  jc_route_with_token_ledger :: "jup_route_with_token_ledger_args codec"
  jc_shared_accounts_exact_out_route :: "jup_shared_accounts_exact_out_route_args codec"
  jc_shared_accounts_route :: "jup_shared_accounts_route_args codec"
  jc_shared_accounts_route_with_token_ledger :: "jup_shared_accounts_route_with_token_ledger_args codec"

definition decode_jup_route_accounts :: "keys_window \<Rightarrow> jup_route result" where
  "decode_jup_route_accounts window =
     bind_res (next_account_key window) (\<lambda>(window, token_program).
     bind_res (next_account_key window) (\<lambda>(window, user_transfer_authority).
     bind_res (next_account_key window) (\<lambda>(window, user_source_token_account).
     bind_res (next_account_key window) (\<lambda>(window, user_destination_token_account).
     bind_res (next_anchor_opt_account_key window) (\<lambda>(window, destination_token_account).
     bind_res (next_account_key window) (\<lambda>(window, destination_mint).
     bind_res (next_anchor_opt_account_key window) (\<lambda>(window, platform_fee_account).
     bind_res (next_account_key window) (\<lambda>(window, event_authority).
     bind_res (next_account_key window) (\<lambda>(window, program).
     Inr \<lparr>jr_token_program = token_program,
       jr_user_transfer_authority = user_transfer_authority,
       jr_user_source_token_account = user_source_token_account,
       jr_user_destination_token_account = user_destination_token_account,
       jr_destination_token_account = destination_token_account,
       jr_destination_mint = destination_mint,
       jr_platform_fee_account = platform_fee_account,
       jr_event_authority = event_authority,
       jr_program = program\<rparr>)))))))))"

definition decode_jup_exact_out_route_accounts :: "keys_window \<Rightarrow> jup_exact_out_route result" where
  "decode_jup_exact_out_route_accounts window =
     bind_res (next_account_key window) (\<lambda>(window, token_program).
     bind_res (next_account_key window) (\<lambda>(window, user_transfer_authority).
     bind_res (next_account_key window) (\<lambda>(window, user_source_token_account).
     bind_res (next_account_key window) (\<lambda>(window, user_destination_token_account).
     bind_res (next_anchor_opt_account_key window) (\<lambda>(window, destination_token_account).
     bind_res (next_account_key window) (\<lambda>(window, source_mint).
     bind_res (next_account_key window) (\<lambda>(window, destination_mint).
     bind_res (next_anchor_opt_account_key window) (\<lambda>(window, platform_fee_account).
     bind_res (next_anchor_opt_account_key window) (\<lambda>(window, token2022_program).
     bind_res (next_account_key window) (\<lambda>(window, event_authority).
     bind_res (next_account_key window) (\<lambda>(window, program).
     Inr \<lparr>je_token_program = token_program,
       je_user_transfer_authority = user_transfer_authority,
       je_user_source_token_account = user_source_token_account,
       je_user_destination_token_account = user_destination_token_account,
       je_destination_token_account = destination_token_account,
       je_source_mint = source_mint,
       je_destination_mint = destination_mint,
       je_platform_fee_account = platform_fee_account,
       je_token2022_program = token2022_program,
       je_event_authority = event_authority,
       je_program = program\<rparr>)))))))))))"

definition decode_jup_route_with_token_ledger_accounts :: "keys_window \<Rightarrow> jup_route_with_token_ledger result" where
  "decode_jup_route_with_token_ledger_accounts window =
     bind_res (next_account_key window) (\<lambda>(window, token_program).
     bind_res (next_account_key window) (\<lambda>(window, user_transfer_authority).
     bind_res (next_account_key window) (\<lambda>(window, user_source_token_account).
     bind_res (next_account_key window) (\<lambda>(window, user_destination_token_account).
     bind_res (next_anchor_opt_account_key window) (\<lambda>(window, destination_token_account).
     bind_res (next_account_key window) (\<lambda>(window, destination_mint).
     bind_res (next_anchor_opt_account_key window) (\<lambda>(window, platform_fee_account).
     bind_res (next_account_key window) (\<lambda>(window, token_ledger).
     bind_res (next_account_key window) (\<lambda>(window, event_authority).
     bind_res (next_account_key window) (\<lambda>(window, program).
     Inr \<lparr>jl_token_program = token_program,
       jl_user_transfer_authority = user_transfer_authority,
       jl_user_source_token_account = user_source_token_account,
       jl_user_destination_token_account = user_destination_token_account,
       jl_destination_token_account = destination_token_account,
       jl_destination_mint = destination_mint,
       jl_platform_fee_account = platform_fee_account,
       jl_token_ledger = token_ledger,
       jl_event_authority = event_authority,
       jl_program = program\<rparr>))))))))))"

definition decode_jup_shared_accounts_exact_out_route_accounts :: "keys_window \<Rightarrow> jup_shared_accounts_exact_out_route result" where
  "decode_jup_shared_accounts_exact_out_route_accounts window =
     bind_res (next_account_key window) (\<lambda>(window, token_program).
     bind_res (next_account_key window) (\<lambda>(window, program_authority).
     bind_res (next_account_key window) (\<lambda>(window, user_transfer_authority).
     bind_res (next_account_key window) (\<lambda>(window, source_token_account).
     bind_res (next_account_key window) (\<lambda>(window, program_source_token_account).
     bind_res (next_account_key window) (\<lambda>(window, program_destination_token_account).
     bind_res (next_account_key window) (\<lambda>(window, destination_token_account).
     bind_res (next_account_key window) (\<lambda>(window, source_mint).
     bind_res (next_account_key window) (\<lambda>(window, destination_mint).
     bind_res (next_anchor_opt_account_key window) (\<lambda>(window, platform_fee_account).
     bind_res (next_anchor_opt_account_key window) (\<lambda>(window, token2022_program).
     bind_res (next_account_key window) (\<lambda>(window, event_authority).
     bind_res (next_account_key window) (\<lambda>(window, program).
     Inr \<lparr>jse_token_program = token_program,
       jse_program_authority = program_authority,
       jse_user_transfer_authority = user_transfer_authority,
       jse_source_token_account = source_token_account,
       jse_program_source_token_account = program_source_token_account,
       jse_program_destination_token_account = program_destination_token_account,
       jse_destination_token_account = destination_token_account,
       jse_source_mint = source_mint,
       jse_destination_mint = destination_mint,
       jse_platform_fee_account = platform_fee_account,
       jse_token2022_program = token2022_program,
       jse_event_authority = event_authority,
       jse_program = program\<rparr>)))))))))))))"

definition decode_jup_shared_accounts_route_accounts :: "keys_window \<Rightarrow> jup_shared_accounts_route result" where
  "decode_jup_shared_accounts_route_accounts window =
     bind_res (next_account_key window) (\<lambda>(window, token_program).
     bind_res (next_account_key window) (\<lambda>(window, program_authority).
     bind_res (next_account_key window) (\<lambda>(window, user_transfer_authority).
     bind_res (next_account_key window) (\<lambda>(window, source_token_account).
     bind_res (next_account_key window) (\<lambda>(window, program_source_token_account).
     bind_res (next_account_key window) (\<lambda>(window, program_destination_token_account).
     bind_res (next_account_key window) (\<lambda>(window, destination_token_account).
     bind_res (next_account_key window) (\<lambda>(window, source_mint).
     bind_res (next_account_key window) (\<lambda>(window, destination_mint).
     bind_res (next_anchor_opt_account_key window) (\<lambda>(window, platform_fee_account).
     bind_res (next_anchor_opt_account_key window) (\<lambda>(window, token2022_program).
     bind_res (next_account_key window) (\<lambda>(window, event_authority).
     bind_res (next_account_key window) (\<lambda>(window, program).
     Inr \<lparr>jsr_token_program = token_program,
       jsr_program_authority = program_authority,
       jsr_user_transfer_authority = user_transfer_authority,
       jsr_source_token_account = source_token_account,
       jsr_program_source_token_account = program_source_token_account,
       jsr_program_destination_token_account = program_destination_token_account,
       jsr_destination_token_account = destination_token_account,
       jsr_source_mint = source_mint,
       jsr_destination_mint = destination_mint,
       jsr_platform_fee_account = platform_fee_account,
       jsr_token2022_program = token2022_program,
       jsr_event_authority = event_authority,
       jsr_program = program\<rparr>)))))))))))))"

definition decode_jup_shared_accounts_route_with_token_ledger_accounts :: "keys_window \<Rightarrow> jup_shared_accounts_route_with_token_ledger result" where
  "decode_jup_shared_accounts_route_with_token_ledger_accounts window =
     bind_res (next_account_key window) (\<lambda>(window, token_program).
     bind_res (next_account_key window) (\<lambda>(window, program_authority).
     bind_res (next_account_key window) (\<lambda>(window, user_transfer_authority).
     bind_res (next_account_key window) (\<lambda>(window, source_token_account).
     bind_res (next_account_key window) (\<lambda>(window, program_source_token_account).
     bind_res (next_account_key window) (\<lambda>(window, program_destination_token_account).
     bind_res (next_account_key window) (\<lambda>(window, destination_token_account).
     bind_res (next_account_key window) (\<lambda>(window, source_mint).
     bind_res (next_account_key window) (\<lambda>(window, destination_mint).
     bind_res (next_anchor_opt_account_key window) (\<lambda>(window, platform_fee_account).
     bind_res (next_anchor_opt_account_key window) (\<lambda>(window, token2022_program).
     bind_res (next_account_key window) (\<lambda>(window, token_ledger).
     bind_res (next_account_key window) (\<lambda>(window, event_authority).
     bind_res (next_account_key window) (\<lambda>(window, program).
     Inr \<lparr>jsl_token_program = token_program,
       jsl_program_authority = program_authority,
       jsl_user_transfer_authority = user_transfer_authority,
       jsl_source_token_account = source_token_account,
       jsl_program_source_token_account = program_source_token_account,
       jsl_program_destination_token_account = program_destination_token_account,
       jsl_destination_token_account = destination_token_account,
       jsl_source_mint = source_mint,
       jsl_destination_mint = destination_mint,
       jsl_platform_fee_account = platform_fee_account,
       jsl_token2022_program = token2022_program,
       jsl_token_ledger = token_ledger,
       jsl_event_authority = event_authority,
       jsl_program = program\<rparr>))))))))))))))"

definition decode_jupiter_v6_instruction ::
  "jup_codec \<Rightarrow> compiled_instruction \<Rightarrow> pubkey list \<Rightarrow> parsed_jup_instruction result" where
  "decode_jupiter_v6_instruction c instruction keys =
     bind_res (split_discriminator (ci_data instruction)) (\<lambda>(discriminator, rest).
     bind_res (new_from_instruction keys instruction) (\<lambda>window.
     if discriminator = JUPITER_ROUTE_DISC then
       bind_res (decode_instruction (jc_route c) rest) (\<lambda>args.
       bind_res (decode_jup_route_accounts window) (\<lambda>accounts. Inr (JupRoute args accounts)))
     else if discriminator = JUPITER_EXACT_OUT_ROUTE_DISC then
       bind_res (decode_instruction (jc_exact_out_route c) rest) (\<lambda>args.
       bind_res (decode_jup_exact_out_route_accounts window) (\<lambda>accounts. Inr (JupExactOutRoute args accounts)))
     else if discriminator = JUPITER_ROUTE_WITH_TOKEN_LEDGER_DISC then
       bind_res (decode_instruction (jc_route_with_token_ledger c) rest) (\<lambda>args.
       bind_res (decode_jup_route_with_token_ledger_accounts window) (\<lambda>accounts. Inr (JupRouteWithTokenLedger args accounts)))
     else if discriminator = JUPITER_SHARED_ACCOUNTS_EXACT_OUT_ROUTE_DISC then
       bind_res (decode_instruction (jc_shared_accounts_exact_out_route c) rest) (\<lambda>args.
       bind_res (decode_jup_shared_accounts_exact_out_route_accounts window) (\<lambda>accounts. Inr (JupSharedAccountsExactOutRoute args accounts)))
     else if discriminator = JUPITER_SHARED_ACCOUNTS_ROUTE_DISC then
       bind_res (decode_instruction (jc_shared_accounts_route c) rest) (\<lambda>args.
       bind_res (decode_jup_shared_accounts_route_accounts window) (\<lambda>accounts. Inr (JupSharedAccountsRoute args accounts)))
     else if discriminator = JUPITER_SHARED_ACCOUNTS_ROUTE_WITH_TOKEN_LEDGER_DISC then
       bind_res (decode_instruction (jc_shared_accounts_route_with_token_ledger c) rest) (\<lambda>args.
       bind_res (decode_jup_shared_accounts_route_with_token_ledger_accounts window) (\<lambda>accounts. Inr (JupSharedAccountsRouteWithTokenLedger args accounts)))
     else Inr (JupUnknown discriminator)))"

definition jup_is_swap_instruction :: "parsed_jup_instruction \<Rightarrow> bool" where
  "jup_is_swap_instruction parsed = (case parsed of JupUnknown discriminator \<Rightarrow> False | _ \<Rightarrow> True)"

definition jup_base_input :: "parsed_jup_instruction \<Rightarrow> bool result" where
  "jup_base_input parsed = (case parsed of
     JupRoute args accounts \<Rightarrow> Inr True
   | JupRouteWithTokenLedger args accounts \<Rightarrow> Inr True
   | JupSharedAccountsRoute args accounts \<Rightarrow> Inr True
   | JupSharedAccountsRouteWithTokenLedger args accounts \<Rightarrow> Inr True
   | JupUnknown discriminator \<Rightarrow> Inl (Error ''Not a swap instruction'')
   | _ \<Rightarrow> Inr False)"

definition jup_source_mint :: "parsed_jup_instruction \<Rightarrow> pubkey option result" where
  "jup_source_mint parsed = (case parsed of
     JupRoute args accounts \<Rightarrow> Inr None
   | JupRouteWithTokenLedger args accounts \<Rightarrow> Inr None
   | JupSharedAccountsRoute args accounts \<Rightarrow> Inr (Some (jsr_source_mint accounts))
   | JupSharedAccountsRouteWithTokenLedger args accounts \<Rightarrow> Inr (Some (jsl_source_mint accounts))
   | JupExactOutRoute args accounts \<Rightarrow> Inr (Some (je_source_mint accounts))
   | JupSharedAccountsExactOutRoute args accounts \<Rightarrow> Inr (Some (jse_source_mint accounts))
   | JupUnknown discriminator \<Rightarrow> Inl (Error ''Not a swap instruction''))"

definition jup_user :: "parsed_jup_instruction \<Rightarrow> pubkey result" where
  "jup_user parsed = (case parsed of
     JupRoute args accounts \<Rightarrow> Inr (jr_user_transfer_authority accounts)
   | JupRouteWithTokenLedger args accounts \<Rightarrow> Inr (jl_user_transfer_authority accounts)
   | JupSharedAccountsRoute args accounts \<Rightarrow> Inr (jsr_user_transfer_authority accounts)
   | JupSharedAccountsRouteWithTokenLedger args accounts \<Rightarrow> Inr (jsl_user_transfer_authority accounts)
   | JupExactOutRoute args accounts \<Rightarrow> Inr (je_user_transfer_authority accounts)
   | JupSharedAccountsExactOutRoute args accounts \<Rightarrow> Inr (jse_user_transfer_authority accounts)
   | JupUnknown discriminator \<Rightarrow> Inl (Error ''Not a swap instruction''))"

definition jup_destination_mint :: "parsed_jup_instruction \<Rightarrow> pubkey result" where
  "jup_destination_mint parsed = (case parsed of
     JupRoute args accounts \<Rightarrow> Inr (jr_destination_mint accounts)
   | JupRouteWithTokenLedger args accounts \<Rightarrow> Inr (jl_destination_mint accounts)
   | JupSharedAccountsRoute args accounts \<Rightarrow> Inr (jsr_destination_mint accounts)
   | JupSharedAccountsRouteWithTokenLedger args accounts \<Rightarrow> Inr (jsl_destination_mint accounts)
   | JupExactOutRoute args accounts \<Rightarrow> Inr (je_destination_mint accounts)
   | JupSharedAccountsExactOutRoute args accounts \<Rightarrow> Inr (jse_destination_mint accounts)
   | JupUnknown discriminator \<Rightarrow> Inl (Error ''Not a swap instruction''))"

definition jup_other_amount_threshold :: "parsed_jup_instruction \<Rightarrow> u64 result" where
  "jup_other_amount_threshold parsed = (case parsed of
     JupRoute args accounts \<Rightarrow> Inr (jra_quoted_out_amount args)
   | JupRouteWithTokenLedger args accounts \<Rightarrow> Inr (jla_quoted_out_amount args)
   | JupSharedAccountsRoute args accounts \<Rightarrow> Inr (jsra_quoted_out_amount args)
   | JupSharedAccountsRouteWithTokenLedger args accounts \<Rightarrow> Inr (jsla_quoted_out_amount args)
   | JupExactOutRoute args accounts \<Rightarrow> Inr (jea_quoted_in_amount args)
   | JupSharedAccountsExactOutRoute args accounts \<Rightarrow> Inr (jsea_quoted_in_amount args)
   | JupUnknown discriminator \<Rightarrow> Inl (Error ''Not a swap instruction''))"

section \<open>Built instructions are read back\<close>

lemmas jup_instructions = jup_route_instruction_with_remaining_accounts_def
  jup_exact_out_route_instruction_with_remaining_accounts_def
  jup_route_with_token_ledger_instruction_with_remaining_accounts_def
  jup_shared_accounts_exact_out_route_instruction_with_remaining_accounts_def
  jup_shared_accounts_route_instruction_with_remaining_accounts_def
  jup_shared_accounts_route_with_token_ledger_instruction_with_remaining_accounts_def

text \<open>The instruction that a parsed one stands for, that borsh reads its arguments back, and that no
  optional account is the placeholder for an absent one.\<close>

fun jup_build :: "jup_codec \<Rightarrow> parsed_jup_instruction \<Rightarrow> account_meta list \<Rightarrow> wire_instruction result" where
  "jup_build c (JupRoute args accounts) extra =
     jup_route_instruction_with_remaining_accounts (jc_route c) accounts args extra"
| "jup_build c (JupExactOutRoute args accounts) extra =
     jup_exact_out_route_instruction_with_remaining_accounts (jc_exact_out_route c) accounts args extra"
| "jup_build c (JupRouteWithTokenLedger args accounts) extra =
     jup_route_with_token_ledger_instruction_with_remaining_accounts (jc_route_with_token_ledger c) accounts args extra"
| "jup_build c (JupSharedAccountsExactOutRoute args accounts) extra =
     jup_shared_accounts_exact_out_route_instruction_with_remaining_accounts (jc_shared_accounts_exact_out_route c) accounts args extra"
| "jup_build c (JupSharedAccountsRoute args accounts) extra =
     jup_shared_accounts_route_instruction_with_remaining_accounts (jc_shared_accounts_route c) accounts args extra"
| "jup_build c (JupSharedAccountsRouteWithTokenLedger args accounts) extra =
     jup_shared_accounts_route_with_token_ledger_instruction_with_remaining_accounts (jc_shared_accounts_route_with_token_ledger c) accounts args extra"
| "jup_build c (JupUnknown d) extra = Inl (Error ''not an instruction of the client'')"

fun jup_faithful :: "jup_codec \<Rightarrow> parsed_jup_instruction \<Rightarrow> bool" where
  "jup_faithful c (JupRoute args accounts) = faithful (jc_route c) args"
| "jup_faithful c (JupExactOutRoute args accounts) = faithful (jc_exact_out_route c) args"
| "jup_faithful c (JupRouteWithTokenLedger args accounts) = faithful (jc_route_with_token_ledger c) args"
| "jup_faithful c (JupSharedAccountsExactOutRoute args accounts) = faithful (jc_shared_accounts_exact_out_route c) args"
| "jup_faithful c (JupSharedAccountsRoute args accounts) = faithful (jc_shared_accounts_route c) args"
| "jup_faithful c (JupSharedAccountsRouteWithTokenLedger args accounts) = faithful (jc_shared_accounts_route_with_token_ledger c) args"
| "jup_faithful c (JupUnknown d) = False"

fun jup_optional_accounts :: "parsed_jup_instruction \<Rightarrow> pubkey option list" where
  "jup_optional_accounts (JupRoute args accounts) =
     [jr_destination_token_account accounts, jr_platform_fee_account accounts]"
| "jup_optional_accounts (JupExactOutRoute args accounts) =
     [je_destination_token_account accounts, je_platform_fee_account accounts, je_token2022_program accounts]"
| "jup_optional_accounts (JupRouteWithTokenLedger args accounts) =
     [jl_destination_token_account accounts, jl_platform_fee_account accounts]"
| "jup_optional_accounts (JupSharedAccountsExactOutRoute args accounts) =
     [jse_platform_fee_account accounts, jse_token2022_program accounts]"
| "jup_optional_accounts (JupSharedAccountsRoute args accounts) =
     [jsr_platform_fee_account accounts, jsr_token2022_program accounts]"
| "jup_optional_accounts (JupSharedAccountsRouteWithTokenLedger args accounts) =
     [jsl_platform_fee_account accounts, jsl_token2022_program accounts]"
| "jup_optional_accounts (JupUnknown d) = []"

lemma jup_route_read_back:
  assumes "jup_route_instruction_with_remaining_accounts (jc_route c) accounts args extra = Inr ins"
    and "compiled keys ins ix" and "faithful (jc_route c) args"
    and "Some JUPITER_AGGREGATOR_V6_ID \<notin> {jr_destination_token_account accounts, jr_platform_fee_account accounts}"
  shows "decode_jupiter_v6_instruction c ix keys = Inr (JupRoute args accounts)"
proof -
  obtain bs where bs: "cd_put (jc_route c) args = Some bs" and data: "wi_data ins = jup_route_data @ bs"
    and program: "wi_program_id ins = JUPITER_AGGREGATOR_V6_ID"
    using assms(1) by (auto simp: jup_route_instruction_with_remaining_accounts_def Let_def expect_def split: option.splits)
  have "length jup_route_data = 8" by (simp add: jup_route_data_def)
  from compiled_reads [OF assms(2) data this] obtain w
    where w: "split_discriminator (ci_data ix) = Inr (jup_route_data, bs)" "new_from_instruction keys ix = Inr w"
      "valid_window w" "remaining_keys w = map am_pubkey (wi_accounts ins)"
      "kw_program_id w = JUPITER_AGGREGATOR_V6_ID" unfolding program .
  have "decode_jup_route_accounts w = Inr accounts"
    using assms(1,4) w(3,4,5) by (auto simp: jup_route_instruction_with_remaining_accounts_def
        decode_jup_route_accounts_def window_reads bs split: option.splits)
  then show ?thesis
    by (simp add: decode_jupiter_v6_instruction_def w(1,2) decode_instruction_put [OF assms(3) bs] jup_route_data_def jup_discs)
qed

lemma jup_exact_out_route_read_back:
  assumes "jup_exact_out_route_instruction_with_remaining_accounts (jc_exact_out_route c) accounts args extra = Inr ins"
    and "compiled keys ins ix" and "faithful (jc_exact_out_route c) args"
    and "Some JUPITER_AGGREGATOR_V6_ID \<notin> {je_destination_token_account accounts, je_platform_fee_account accounts, je_token2022_program accounts}"
  shows "decode_jupiter_v6_instruction c ix keys = Inr (JupExactOutRoute args accounts)"
proof -
  obtain bs where bs: "cd_put (jc_exact_out_route c) args = Some bs" and data: "wi_data ins = jup_exact_out_route_data @ bs"
    and program: "wi_program_id ins = JUPITER_AGGREGATOR_V6_ID"
    using assms(1) by (auto simp: jup_exact_out_route_instruction_with_remaining_accounts_def Let_def expect_def split: option.splits)
  have "length jup_exact_out_route_data = 8" by (simp add: jup_exact_out_route_data_def)
  from compiled_reads [OF assms(2) data this] obtain w
    where w: "split_discriminator (ci_data ix) = Inr (jup_exact_out_route_data, bs)" "new_from_instruction keys ix = Inr w"
      "valid_window w" "remaining_keys w = map am_pubkey (wi_accounts ins)"
      "kw_program_id w = JUPITER_AGGREGATOR_V6_ID" unfolding program .
  have "decode_jup_exact_out_route_accounts w = Inr accounts"
    using assms(1,4) w(3,4,5) by (auto simp: jup_exact_out_route_instruction_with_remaining_accounts_def
        decode_jup_exact_out_route_accounts_def window_reads bs split: option.splits)
  then show ?thesis
    by (simp add: decode_jupiter_v6_instruction_def w(1,2) decode_instruction_put [OF assms(3) bs] jup_exact_out_route_data_def jup_discs)
qed

lemma jup_route_with_token_ledger_read_back:
  assumes "jup_route_with_token_ledger_instruction_with_remaining_accounts (jc_route_with_token_ledger c) accounts args extra = Inr ins"
    and "compiled keys ins ix" and "faithful (jc_route_with_token_ledger c) args"
    and "Some JUPITER_AGGREGATOR_V6_ID \<notin> {jl_destination_token_account accounts, jl_platform_fee_account accounts}"
  shows "decode_jupiter_v6_instruction c ix keys = Inr (JupRouteWithTokenLedger args accounts)"
proof -
  obtain bs where bs: "cd_put (jc_route_with_token_ledger c) args = Some bs" and data: "wi_data ins = jup_route_with_token_ledger_data @ bs"
    and program: "wi_program_id ins = JUPITER_AGGREGATOR_V6_ID"
    using assms(1) by (auto simp: jup_route_with_token_ledger_instruction_with_remaining_accounts_def Let_def expect_def split: option.splits)
  have "length jup_route_with_token_ledger_data = 8" by (simp add: jup_route_with_token_ledger_data_def)
  from compiled_reads [OF assms(2) data this] obtain w
    where w: "split_discriminator (ci_data ix) = Inr (jup_route_with_token_ledger_data, bs)" "new_from_instruction keys ix = Inr w"
      "valid_window w" "remaining_keys w = map am_pubkey (wi_accounts ins)"
      "kw_program_id w = JUPITER_AGGREGATOR_V6_ID" unfolding program .
  have "decode_jup_route_with_token_ledger_accounts w = Inr accounts"
    using assms(1,4) w(3,4,5) by (auto simp: jup_route_with_token_ledger_instruction_with_remaining_accounts_def
        decode_jup_route_with_token_ledger_accounts_def window_reads bs split: option.splits)
  then show ?thesis
    by (simp add: decode_jupiter_v6_instruction_def w(1,2) decode_instruction_put [OF assms(3) bs] jup_route_with_token_ledger_data_def jup_discs)
qed

lemma jup_shared_accounts_exact_out_route_read_back:
  assumes "jup_shared_accounts_exact_out_route_instruction_with_remaining_accounts (jc_shared_accounts_exact_out_route c) accounts args extra = Inr ins"
    and "compiled keys ins ix" and "faithful (jc_shared_accounts_exact_out_route c) args"
    and "Some JUPITER_AGGREGATOR_V6_ID \<notin> {jse_platform_fee_account accounts, jse_token2022_program accounts}"
  shows "decode_jupiter_v6_instruction c ix keys = Inr (JupSharedAccountsExactOutRoute args accounts)"
proof -
  obtain bs where bs: "cd_put (jc_shared_accounts_exact_out_route c) args = Some bs" and data: "wi_data ins = jup_shared_accounts_exact_out_route_data @ bs"
    and program: "wi_program_id ins = JUPITER_AGGREGATOR_V6_ID"
    using assms(1) by (auto simp: jup_shared_accounts_exact_out_route_instruction_with_remaining_accounts_def Let_def expect_def split: option.splits)
  have "length jup_shared_accounts_exact_out_route_data = 8" by (simp add: jup_shared_accounts_exact_out_route_data_def)
  from compiled_reads [OF assms(2) data this] obtain w
    where w: "split_discriminator (ci_data ix) = Inr (jup_shared_accounts_exact_out_route_data, bs)" "new_from_instruction keys ix = Inr w"
      "valid_window w" "remaining_keys w = map am_pubkey (wi_accounts ins)"
      "kw_program_id w = JUPITER_AGGREGATOR_V6_ID" unfolding program .
  have "decode_jup_shared_accounts_exact_out_route_accounts w = Inr accounts"
    using assms(1,4) w(3,4,5) by (auto simp: jup_shared_accounts_exact_out_route_instruction_with_remaining_accounts_def
        decode_jup_shared_accounts_exact_out_route_accounts_def window_reads bs split: option.splits)
  then show ?thesis
    by (simp add: decode_jupiter_v6_instruction_def w(1,2) decode_instruction_put [OF assms(3) bs] jup_shared_accounts_exact_out_route_data_def jup_discs)
qed

lemma jup_shared_accounts_route_read_back:
  assumes "jup_shared_accounts_route_instruction_with_remaining_accounts (jc_shared_accounts_route c) accounts args extra = Inr ins"
    and "compiled keys ins ix" and "faithful (jc_shared_accounts_route c) args"
    and "Some JUPITER_AGGREGATOR_V6_ID \<notin> {jsr_platform_fee_account accounts, jsr_token2022_program accounts}"
  shows "decode_jupiter_v6_instruction c ix keys = Inr (JupSharedAccountsRoute args accounts)"
proof -
  obtain bs where bs: "cd_put (jc_shared_accounts_route c) args = Some bs" and data: "wi_data ins = jup_shared_accounts_route_data @ bs"
    and program: "wi_program_id ins = JUPITER_AGGREGATOR_V6_ID"
    using assms(1) by (auto simp: jup_shared_accounts_route_instruction_with_remaining_accounts_def Let_def expect_def split: option.splits)
  have "length jup_shared_accounts_route_data = 8" by (simp add: jup_shared_accounts_route_data_def)
  from compiled_reads [OF assms(2) data this] obtain w
    where w: "split_discriminator (ci_data ix) = Inr (jup_shared_accounts_route_data, bs)" "new_from_instruction keys ix = Inr w"
      "valid_window w" "remaining_keys w = map am_pubkey (wi_accounts ins)"
      "kw_program_id w = JUPITER_AGGREGATOR_V6_ID" unfolding program .
  have "decode_jup_shared_accounts_route_accounts w = Inr accounts"
    using assms(1,4) w(3,4,5) by (auto simp: jup_shared_accounts_route_instruction_with_remaining_accounts_def
        decode_jup_shared_accounts_route_accounts_def window_reads bs split: option.splits)
  then show ?thesis
    by (simp add: decode_jupiter_v6_instruction_def w(1,2) decode_instruction_put [OF assms(3) bs] jup_shared_accounts_route_data_def jup_discs)
qed

lemma jup_shared_accounts_route_with_token_ledger_read_back:
  assumes "jup_shared_accounts_route_with_token_ledger_instruction_with_remaining_accounts (jc_shared_accounts_route_with_token_ledger c) accounts args extra = Inr ins"
    and "compiled keys ins ix" and "faithful (jc_shared_accounts_route_with_token_ledger c) args"
    and "Some JUPITER_AGGREGATOR_V6_ID \<notin> {jsl_platform_fee_account accounts, jsl_token2022_program accounts}"
  shows "decode_jupiter_v6_instruction c ix keys = Inr (JupSharedAccountsRouteWithTokenLedger args accounts)"
proof -
  obtain bs where bs: "cd_put (jc_shared_accounts_route_with_token_ledger c) args = Some bs" and data: "wi_data ins = jup_shared_accounts_route_with_token_ledger_data @ bs"
    and program: "wi_program_id ins = JUPITER_AGGREGATOR_V6_ID"
    using assms(1) by (auto simp: jup_shared_accounts_route_with_token_ledger_instruction_with_remaining_accounts_def Let_def expect_def split: option.splits)
  have "length jup_shared_accounts_route_with_token_ledger_data = 8" by (simp add: jup_shared_accounts_route_with_token_ledger_data_def)
  from compiled_reads [OF assms(2) data this] obtain w
    where w: "split_discriminator (ci_data ix) = Inr (jup_shared_accounts_route_with_token_ledger_data, bs)" "new_from_instruction keys ix = Inr w"
      "valid_window w" "remaining_keys w = map am_pubkey (wi_accounts ins)"
      "kw_program_id w = JUPITER_AGGREGATOR_V6_ID" unfolding program .
  have "decode_jup_shared_accounts_route_with_token_ledger_accounts w = Inr accounts"
    using assms(1,4) w(3,4,5) by (auto simp: jup_shared_accounts_route_with_token_ledger_instruction_with_remaining_accounts_def
        decode_jup_shared_accounts_route_with_token_ledger_accounts_def window_reads bs split: option.splits)
  then show ?thesis
    by (simp add: decode_jupiter_v6_instruction_def w(1,2) decode_instruction_put [OF assms(3) bs] jup_shared_accounts_route_with_token_ledger_data_def jup_discs)
qed

text \<open>Every route that the generated client of Jupiter builds is read back by the parser once it is
  compiled into a message, with its arguments, its accounts and its absent accounts, provided that no
  optional account is the Jupiter program, which stands for an absent one.\<close>

lemma jup_read_back:
  assumes "jup_build c parsed extra = Inr ins" and "jup_faithful c parsed" and "compiled keys ins ix"
    and "Some JUPITER_AGGREGATOR_V6_ID \<notin> set (jup_optional_accounts parsed)"
  shows "decode_jupiter_v6_instruction c ix keys = Inr parsed"
  using assms by (cases parsed) (simp_all add: jup_route_read_back
      jup_exact_out_route_read_back
      jup_route_with_token_ledger_read_back
      jup_shared_accounts_exact_out_route_read_back
      jup_shared_accounts_route_read_back
      jup_shared_accounts_route_with_token_ledger_read_back)

text \<open>A borsh for routes without steps, and the instruction of such a route.\<close>

definition example_route_codec :: "jup_route_args codec" where
  "example_route_codec = \<lparr>
     cd_put = (\<lambda>a. if jra_route_plan a = [] \<and> unat (jra_in_amount a) < 256 \<and> unat (jra_quoted_out_amount a) < 256
         \<and> jra_slippage_bps a = 50
       then Some [ucast (jra_in_amount a), ucast (jra_quoted_out_amount a), jra_platform_fee_bps a] else None),
     cd_get = (\<lambda>bs. case bs of
         x # y # f # rest \<Rightarrow> Some (\<lparr>jra_route_plan = [], jra_in_amount = ucast x, jra_quoted_out_amount = ucast y,
           jra_slippage_bps = 50, jra_platform_fee_bps = f\<rparr>, rest)
       | _ \<Rightarrow> None)\<rparr>"

definition example_jup_codec :: jup_codec where
  "example_jup_codec = \<lparr>jc_route = example_route_codec, jc_exact_out_route = \<lparr>cd_put = (\<lambda>_. None), cd_get = (\<lambda>_. None)\<rparr>, jc_route_with_token_ledger = \<lparr>cd_put = (\<lambda>_. None), cd_get = (\<lambda>_. None)\<rparr>, jc_shared_accounts_exact_out_route = \<lparr>cd_put = (\<lambda>_. None), cd_get = (\<lambda>_. None)\<rparr>, jc_shared_accounts_route = \<lparr>cd_put = (\<lambda>_. None), cd_get = (\<lambda>_. None)\<rparr>, jc_shared_accounts_route_with_token_ledger = \<lparr>cd_put = (\<lambda>_. None), cd_get = (\<lambda>_. None)\<rparr>\<rparr>"

definition example_route :: parsed_jup_instruction where
  "example_route = JupRoute
     \<lparr>jra_route_plan = [], jra_in_amount = 100, jra_quoted_out_amount = 90, jra_slippage_bps = 50, jra_platform_fee_bps = 0\<rparr>
     \<lparr>jr_token_program = 10, jr_user_transfer_authority = 11, jr_user_source_token_account = 12,
      jr_user_destination_token_account = 13, jr_destination_token_account = None, jr_destination_mint = 14,
      jr_platform_fee_account = Some 15, jr_event_authority = 16, jr_program = JUPITER_AGGREGATOR_V6_ID\<rparr>"

end
