(* ===== verification/Clmm_Ix.thy ===== *)
theory Clmm_Ix
  imports Wire_Ix
begin

text \<open>
  Raydium's concentrated liquidity program: the decoder of the parser (\<^verbatim>\<open>parser/v1/raydium_v6.rs\<close>). The
  account structures have the fields that the decoder fills in; the argument types, their
  discriminators and their borsh functions belong to the \<open>raydium_amm_v3\<close> crate and are an argument;
  one type stands for the arguments of every instruction.
\<close>

record clmm_create_pool =
  ccp_pool_creator :: pubkey
  ccp_amm_config :: pubkey
  ccp_pool_state :: pubkey
  ccp_token_mint_0 :: pubkey
  ccp_token_mint_1 :: pubkey
  ccp_token_vault_0 :: pubkey
  ccp_token_vault_1 :: pubkey
  ccp_observation_state :: pubkey
  ccp_tick_array_bitmap :: pubkey
  ccp_token_program_0 :: pubkey
  ccp_token_program_1 :: pubkey
  ccp_system_program :: pubkey
  ccp_rent :: pubkey

record clmm_decrease_liquidity =
  cdl_nft_owner :: pubkey
  cdl_nft_account :: pubkey
  cdl_personal_position :: pubkey
  cdl_pool_state :: pubkey
  cdl_protocol_position :: pubkey
  cdl_token_vault_0 :: pubkey
  cdl_token_vault_1 :: pubkey
  cdl_tick_array_lower :: pubkey
  cdl_tick_array_upper :: pubkey
  cdl_recipient_token_account_0 :: pubkey
  cdl_recipient_token_account_1 :: pubkey
  cdl_token_program :: pubkey

record clmm_increase_liquidity =
  cil_nft_owner :: pubkey
  cil_nft_account :: pubkey
  cil_pool_state :: pubkey
  cil_protocol_position :: pubkey
  cil_personal_position :: pubkey
  cil_tick_array_lower :: pubkey
  cil_tick_array_upper :: pubkey
  cil_token_account_0 :: pubkey
  cil_token_account_1 :: pubkey
  cil_token_vault_0 :: pubkey
  cil_token_vault_1 :: pubkey
  cil_token_program :: pubkey

record clmm_increase_liquidity_v2 =
  ci2_nft_owner :: pubkey
  ci2_nft_account :: pubkey
  ci2_pool_state :: pubkey
  ci2_protocol_position :: pubkey
  ci2_personal_position :: pubkey
  ci2_tick_array_lower :: pubkey
  ci2_tick_array_upper :: pubkey
  ci2_token_account_0 :: pubkey
  ci2_token_account_1 :: pubkey
  ci2_token_vault_0 :: pubkey
  ci2_token_vault_1 :: pubkey
  ci2_token_program :: pubkey
  ci2_token_program_2022 :: pubkey
  ci2_vault_0_mint :: pubkey
  ci2_vault_1_mint :: pubkey

record clmm_swap =
  csw_payer :: pubkey
  csw_amm_config :: pubkey
  csw_pool_state :: pubkey
  csw_input_token_account :: pubkey
  csw_output_token_account :: pubkey
  csw_input_vault :: pubkey
  csw_output_vault :: pubkey
  csw_observation_state :: pubkey
  csw_token_program :: pubkey
  csw_tick_array :: pubkey

record clmm_swap_v2 =
  cs2_payer :: pubkey
  cs2_amm_config :: pubkey
  cs2_pool_state :: pubkey
  cs2_input_token_account :: pubkey
  cs2_output_token_account :: pubkey
  cs2_input_vault :: pubkey
  cs2_output_vault :: pubkey
  cs2_observation_state :: pubkey
  cs2_token_program :: pubkey
  cs2_token_program_2022 :: pubkey
  cs2_memo_program :: pubkey
  cs2_input_vault_mint :: pubkey
  cs2_output_vault_mint :: pubkey

text \<open>The accounts of the second version of decreasing the liquidity are never filled in: the model keeps
  of them the pool, which is all that is read.\<close>

record clmm_decrease_liquidity_v2 =
  cd2_pool_state :: pubkey

datatype 'x parsed_raydium_v6_instruction =
  ClmmCreatePool 'x clmm_create_pool
| ClmmIncreaseLiquidity 'x clmm_increase_liquidity
| ClmmDecreaseLiquidity 'x clmm_decrease_liquidity
| ClmmIncreaseLiquidityV2 'x clmm_increase_liquidity_v2
| ClmmDecreaseLiquidityV2 'x clmm_decrease_liquidity_v2
| ClmmSwap 'x clmm_swap
| ClmmSwapV2 'x clmm_swap_v2
| ClmmUnknown bytes

definition clmm_get_pool_state :: "'x parsed_raydium_v6_instruction \<Rightarrow> pubkey option" where
  "clmm_get_pool_state parsed = (case parsed of
     ClmmCreatePool args accounts \<Rightarrow> Some (ccp_pool_state accounts)
   | ClmmDecreaseLiquidity args accounts \<Rightarrow> Some (cdl_pool_state accounts)
   | ClmmDecreaseLiquidityV2 args accounts \<Rightarrow> Some (cd2_pool_state accounts)
   | ClmmIncreaseLiquidity args accounts \<Rightarrow> Some (cil_pool_state accounts)
   | ClmmIncreaseLiquidityV2 args accounts \<Rightarrow> Some (ci2_pool_state accounts)
   | ClmmSwap args accounts \<Rightarrow> Some (csw_pool_state accounts)
   | ClmmSwapV2 args accounts \<Rightarrow> Some (cs2_pool_state accounts)
   | ClmmUnknown discriminator \<Rightarrow> None)"

definition decode_clmm_create_pool_accounts :: "keys_window \<Rightarrow> clmm_create_pool result" where
  "decode_clmm_create_pool_accounts window =
     bind_res (next_account_key window) (\<lambda>(window, pool_creator).
     bind_res (next_account_key window) (\<lambda>(window, amm_config).
     bind_res (next_account_key window) (\<lambda>(window, pool_state).
     bind_res (next_account_key window) (\<lambda>(window, token_mint_0).
     bind_res (next_account_key window) (\<lambda>(window, token_mint_1).
     bind_res (next_account_key window) (\<lambda>(window, token_vault_0).
     bind_res (next_account_key window) (\<lambda>(window, token_vault_1).
     bind_res (next_account_key window) (\<lambda>(window, observation_state).
     bind_res (next_account_key window) (\<lambda>(window, tick_array_bitmap).
     bind_res (next_account_key window) (\<lambda>(window, token_program_0).
     bind_res (next_account_key window) (\<lambda>(window, token_program_1).
     bind_res (next_account_key window) (\<lambda>(window, system_program).
     bind_res (next_account_key window) (\<lambda>(window, rent).
     Inr \<lparr>ccp_pool_creator = pool_creator,
       ccp_amm_config = amm_config,
       ccp_pool_state = pool_state,
       ccp_token_mint_0 = token_mint_0,
       ccp_token_mint_1 = token_mint_1,
       ccp_token_vault_0 = token_vault_0,
       ccp_token_vault_1 = token_vault_1,
       ccp_observation_state = observation_state,
       ccp_tick_array_bitmap = tick_array_bitmap,
       ccp_token_program_0 = token_program_0,
       ccp_token_program_1 = token_program_1,
       ccp_system_program = system_program,
       ccp_rent = rent\<rparr>)))))))))))))"

definition decode_clmm_decrease_liquidity_accounts :: "keys_window \<Rightarrow> clmm_decrease_liquidity result" where
  "decode_clmm_decrease_liquidity_accounts window =
     bind_res (next_account_key window) (\<lambda>(window, nft_owner).
     bind_res (next_account_key window) (\<lambda>(window, nft_account).
     bind_res (next_account_key window) (\<lambda>(window, personal_position).
     bind_res (next_account_key window) (\<lambda>(window, pool_state).
     bind_res (next_account_key window) (\<lambda>(window, protocol_position).
     bind_res (next_account_key window) (\<lambda>(window, token_vault_0).
     bind_res (next_account_key window) (\<lambda>(window, token_vault_1).
     bind_res (next_account_key window) (\<lambda>(window, tick_array_lower).
     bind_res (next_account_key window) (\<lambda>(window, tick_array_upper).
     bind_res (next_account_key window) (\<lambda>(window, recipient_token_account_0).
     bind_res (next_account_key window) (\<lambda>(window, recipient_token_account_1).
     bind_res (next_account_key window) (\<lambda>(window, token_program).
     Inr \<lparr>cdl_nft_owner = nft_owner,
       cdl_nft_account = nft_account,
       cdl_personal_position = personal_position,
       cdl_pool_state = pool_state,
       cdl_protocol_position = protocol_position,
       cdl_token_vault_0 = token_vault_0,
       cdl_token_vault_1 = token_vault_1,
       cdl_tick_array_lower = tick_array_lower,
       cdl_tick_array_upper = tick_array_upper,
       cdl_recipient_token_account_0 = recipient_token_account_0,
       cdl_recipient_token_account_1 = recipient_token_account_1,
       cdl_token_program = token_program\<rparr>))))))))))))"

definition decode_clmm_increase_liquidity_accounts :: "keys_window \<Rightarrow> clmm_increase_liquidity result" where
  "decode_clmm_increase_liquidity_accounts window =
     bind_res (next_account_key window) (\<lambda>(window, nft_owner).
     bind_res (next_account_key window) (\<lambda>(window, nft_account).
     bind_res (next_account_key window) (\<lambda>(window, pool_state).
     bind_res (next_account_key window) (\<lambda>(window, protocol_position).
     bind_res (next_account_key window) (\<lambda>(window, personal_position).
     bind_res (next_account_key window) (\<lambda>(window, tick_array_lower).
     bind_res (next_account_key window) (\<lambda>(window, tick_array_upper).
     bind_res (next_account_key window) (\<lambda>(window, token_account_0).
     bind_res (next_account_key window) (\<lambda>(window, token_account_1).
     bind_res (next_account_key window) (\<lambda>(window, token_vault_0).
     bind_res (next_account_key window) (\<lambda>(window, token_vault_1).
     bind_res (next_account_key window) (\<lambda>(window, token_program).
     Inr \<lparr>cil_nft_owner = nft_owner,
       cil_nft_account = nft_account,
       cil_pool_state = pool_state,
       cil_protocol_position = protocol_position,
       cil_personal_position = personal_position,
       cil_tick_array_lower = tick_array_lower,
       cil_tick_array_upper = tick_array_upper,
       cil_token_account_0 = token_account_0,
       cil_token_account_1 = token_account_1,
       cil_token_vault_0 = token_vault_0,
       cil_token_vault_1 = token_vault_1,
       cil_token_program = token_program\<rparr>))))))))))))"

definition decode_clmm_increase_liquidity_v2_accounts :: "keys_window \<Rightarrow> clmm_increase_liquidity_v2 result" where
  "decode_clmm_increase_liquidity_v2_accounts window =
     bind_res (next_account_key window) (\<lambda>(window, nft_owner).
     bind_res (next_account_key window) (\<lambda>(window, nft_account).
     bind_res (next_account_key window) (\<lambda>(window, pool_state).
     bind_res (next_account_key window) (\<lambda>(window, protocol_position).
     bind_res (next_account_key window) (\<lambda>(window, personal_position).
     bind_res (next_account_key window) (\<lambda>(window, tick_array_lower).
     bind_res (next_account_key window) (\<lambda>(window, tick_array_upper).
     bind_res (next_account_key window) (\<lambda>(window, token_account_0).
     bind_res (next_account_key window) (\<lambda>(window, token_account_1).
     bind_res (next_account_key window) (\<lambda>(window, token_vault_0).
     bind_res (next_account_key window) (\<lambda>(window, token_vault_1).
     bind_res (next_account_key window) (\<lambda>(window, token_program).
     bind_res (next_account_key window) (\<lambda>(window, token_program_2022).
     bind_res (next_account_key window) (\<lambda>(window, vault_0_mint).
     bind_res (next_account_key window) (\<lambda>(window, vault_1_mint).
     Inr \<lparr>ci2_nft_owner = nft_owner,
       ci2_nft_account = nft_account,
       ci2_pool_state = pool_state,
       ci2_protocol_position = protocol_position,
       ci2_personal_position = personal_position,
       ci2_tick_array_lower = tick_array_lower,
       ci2_tick_array_upper = tick_array_upper,
       ci2_token_account_0 = token_account_0,
       ci2_token_account_1 = token_account_1,
       ci2_token_vault_0 = token_vault_0,
       ci2_token_vault_1 = token_vault_1,
       ci2_token_program = token_program,
       ci2_token_program_2022 = token_program_2022,
       ci2_vault_0_mint = vault_0_mint,
       ci2_vault_1_mint = vault_1_mint\<rparr>)))))))))))))))"

definition decode_clmm_swap_accounts :: "keys_window \<Rightarrow> clmm_swap result" where
  "decode_clmm_swap_accounts window =
     bind_res (next_account_key window) (\<lambda>(window, payer).
     bind_res (next_account_key window) (\<lambda>(window, amm_config).
     bind_res (next_account_key window) (\<lambda>(window, pool_state).
     bind_res (next_account_key window) (\<lambda>(window, input_token_account).
     bind_res (next_account_key window) (\<lambda>(window, output_token_account).
     bind_res (next_account_key window) (\<lambda>(window, input_vault).
     bind_res (next_account_key window) (\<lambda>(window, output_vault).
     bind_res (next_account_key window) (\<lambda>(window, observation_state).
     bind_res (next_account_key window) (\<lambda>(window, token_program).
     bind_res (next_account_key window) (\<lambda>(window, tick_array).
     Inr \<lparr>csw_payer = payer,
       csw_amm_config = amm_config,
       csw_pool_state = pool_state,
       csw_input_token_account = input_token_account,
       csw_output_token_account = output_token_account,
       csw_input_vault = input_vault,
       csw_output_vault = output_vault,
       csw_observation_state = observation_state,
       csw_token_program = token_program,
       csw_tick_array = tick_array\<rparr>))))))))))"

definition decode_clmm_swap_v2_accounts :: "keys_window \<Rightarrow> clmm_swap_v2 result" where
  "decode_clmm_swap_v2_accounts window =
     bind_res (next_account_key window) (\<lambda>(window, payer).
     bind_res (next_account_key window) (\<lambda>(window, amm_config).
     bind_res (next_account_key window) (\<lambda>(window, pool_state).
     bind_res (next_account_key window) (\<lambda>(window, input_token_account).
     bind_res (next_account_key window) (\<lambda>(window, output_token_account).
     bind_res (next_account_key window) (\<lambda>(window, input_vault).
     bind_res (next_account_key window) (\<lambda>(window, output_vault).
     bind_res (next_account_key window) (\<lambda>(window, observation_state).
     bind_res (next_account_key window) (\<lambda>(window, token_program).
     bind_res (next_account_key window) (\<lambda>(window, token_program_2022).
     bind_res (next_account_key window) (\<lambda>(window, memo_program).
     bind_res (next_account_key window) (\<lambda>(window, input_vault_mint).
     bind_res (next_account_key window) (\<lambda>(window, output_vault_mint).
     Inr \<lparr>cs2_payer = payer,
       cs2_amm_config = amm_config,
       cs2_pool_state = pool_state,
       cs2_input_token_account = input_token_account,
       cs2_output_token_account = output_token_account,
       cs2_input_vault = input_vault,
       cs2_output_vault = output_vault,
       cs2_observation_state = observation_state,
       cs2_token_program = token_program,
       cs2_token_program_2022 = token_program_2022,
       cs2_memo_program = memo_program,
       cs2_input_vault_mint = input_vault_mint,
       cs2_output_vault_mint = output_vault_mint\<rparr>)))))))))))))"

record 'x clmm_sdk =
  ck_create_pool_disc :: bytes
  ck_decrease_liquidity_disc :: bytes
  ck_decrease_liquidity_v2_disc :: bytes
  ck_increase_liquidity_disc :: bytes
  ck_increase_liquidity_v2_disc :: bytes
  ck_swap_disc :: bytes
  ck_swap_v2_disc :: bytes
  ck_create_pool_args :: "'x codec"
  ck_decrease_liquidity_args :: "'x codec"
  ck_increase_liquidity_args :: "'x codec"
  ck_increase_liquidity_v2_args :: "'x codec"
  ck_swap_args :: "'x codec"
  ck_swap_v2_args :: "'x codec"

definition decode_raydium_v6_instruction ::
  "'x clmm_sdk \<Rightarrow> compiled_instruction \<Rightarrow> pubkey list \<Rightarrow> 'x parsed_raydium_v6_instruction result" where
  "decode_raydium_v6_instruction sdk instruction keys =
     bind_res (split_discriminator (ci_data instruction)) (\<lambda>(discriminator, rest).
     bind_res (new_from_instruction keys instruction) (\<lambda>window.
     if discriminator = ck_create_pool_disc sdk then
       bind_res (decode_instruction (ck_create_pool_args sdk) rest) (\<lambda>args.
       bind_res (decode_clmm_create_pool_accounts window) (\<lambda>accounts. Inr (ClmmCreatePool args accounts)))
     else if discriminator = ck_decrease_liquidity_disc sdk then
       bind_res (decode_instruction (ck_decrease_liquidity_args sdk) rest) (\<lambda>args.
       bind_res (decode_clmm_decrease_liquidity_accounts window) (\<lambda>accounts. Inr (ClmmDecreaseLiquidity args accounts)))
     else if discriminator = ck_decrease_liquidity_v2_disc sdk then
       bind_res (decode_instruction (ck_decrease_liquidity_args sdk) rest) (\<lambda>args.
       bind_res (decode_clmm_decrease_liquidity_accounts window) (\<lambda>accounts. Inr (ClmmDecreaseLiquidity args accounts)))
     else if discriminator = ck_increase_liquidity_disc sdk then
       bind_res (decode_instruction (ck_increase_liquidity_args sdk) rest) (\<lambda>args.
       bind_res (decode_clmm_increase_liquidity_accounts window) (\<lambda>accounts. Inr (ClmmIncreaseLiquidity args accounts)))
     else if discriminator = ck_increase_liquidity_v2_disc sdk then
       bind_res (decode_instruction (ck_increase_liquidity_v2_args sdk) rest) (\<lambda>args.
       bind_res (decode_clmm_increase_liquidity_v2_accounts window) (\<lambda>accounts. Inr (ClmmIncreaseLiquidityV2 args accounts)))
     else if discriminator = ck_swap_disc sdk then
       bind_res (decode_instruction (ck_swap_args sdk) rest) (\<lambda>args.
       bind_res (decode_clmm_swap_accounts window) (\<lambda>accounts. Inr (ClmmSwap args accounts)))
     else if discriminator = ck_swap_v2_disc sdk then
       bind_res (decode_instruction (ck_swap_v2_args sdk) rest) (\<lambda>args.
       bind_res (decode_clmm_swap_v2_accounts window) (\<lambda>accounts. Inr (ClmmSwapV2 args accounts)))
     else Inr (ClmmUnknown discriminator)))"

section \<open>The pool of an instruction\<close>

lemma next_account_key_Inr:
  "next_account_key w = Inr (w', k) \<Longrightarrow>
     w' = advance_window w \<and> k = kw_keys w ! unat (kw_accounts w ! kw_index w)"
  by (auto simp: next_account_key_def Let_def advance_window_def split: if_splits)

lemma advance_window_select [simp]:
  "kw_keys (advance_window w) = kw_keys w" "kw_accounts (advance_window w) = kw_accounts w"
  "kw_index (advance_window w) = Suc (kw_index w)"
  by (simp_all add: advance_window_def)

lemma new_from_instruction_Inr:
  "new_from_instruction keys ix = Inr w \<Longrightarrow> kw_index w = 0 \<and> kw_accounts w = ci_accounts ix \<and> kw_keys w = keys"
  by (auto simp: new_from_instruction_def split: if_splits)

text \<open>Each decoder keeps the key at the position of the pool.\<close>

lemma clmm_create_pool_pool:
  "decode_clmm_create_pool_accounts w = Inr accounts \<Longrightarrow>
     ccp_pool_state accounts = kw_keys w ! unat (kw_accounts w ! (kw_index w + 2))"
  unfolding decode_clmm_create_pool_accounts_def
  by (auto elim!: bind_res_InrE dest!: next_account_key_Inr simp: eval_nat_numeral)

lemma clmm_decrease_liquidity_pool:
  "decode_clmm_decrease_liquidity_accounts w = Inr accounts \<Longrightarrow>
     cdl_pool_state accounts = kw_keys w ! unat (kw_accounts w ! (kw_index w + 3))"
  unfolding decode_clmm_decrease_liquidity_accounts_def
  by (auto elim!: bind_res_InrE dest!: next_account_key_Inr simp: eval_nat_numeral)

lemma clmm_increase_liquidity_pool:
  "decode_clmm_increase_liquidity_accounts w = Inr accounts \<Longrightarrow>
     cil_pool_state accounts = kw_keys w ! unat (kw_accounts w ! (kw_index w + 2))"
  unfolding decode_clmm_increase_liquidity_accounts_def
  by (auto elim!: bind_res_InrE dest!: next_account_key_Inr simp: eval_nat_numeral)

lemma clmm_increase_liquidity_v2_pool:
  "decode_clmm_increase_liquidity_v2_accounts w = Inr accounts \<Longrightarrow>
     ci2_pool_state accounts = kw_keys w ! unat (kw_accounts w ! (kw_index w + 2))"
  unfolding decode_clmm_increase_liquidity_v2_accounts_def
  by (auto elim!: bind_res_InrE dest!: next_account_key_Inr simp: eval_nat_numeral)

lemma clmm_swap_pool:
  "decode_clmm_swap_accounts w = Inr accounts \<Longrightarrow>
     csw_pool_state accounts = kw_keys w ! unat (kw_accounts w ! (kw_index w + 2))"
  unfolding decode_clmm_swap_accounts_def
  by (auto elim!: bind_res_InrE dest!: next_account_key_Inr simp: eval_nat_numeral)

lemma clmm_swap_v2_pool:
  "decode_clmm_swap_v2_accounts w = Inr accounts \<Longrightarrow>
     cs2_pool_state accounts = kw_keys w ! unat (kw_accounts w ! (kw_index w + 2))"
  unfolding decode_clmm_swap_v2_accounts_def
  by (auto elim!: bind_res_InrE dest!: next_account_key_Inr simp: eval_nat_numeral)

lemmas clmm_pools = clmm_create_pool_pool clmm_decrease_liquidity_pool clmm_increase_liquidity_pool clmm_increase_liquidity_v2_pool clmm_swap_pool clmm_swap_v2_pool

text \<open>The pool of a decoded instruction of the concentrated liquidity program is the key at its
  position in the layout of the instruction: the fourth account when liquidity is decreased, the third
  otherwise; and an instruction has a pool exactly when its discriminator is known.\<close>

theorem clmm_pool_state_read:
  assumes "decode_raydium_v6_instruction sdk ix keys = Inr parsed"
  shows "case clmm_get_pool_state parsed of
      None \<Rightarrow> parsed = ClmmUnknown (take 8 (ci_data ix))
    | Some pool \<Rightarrow> pool = keys ! unat (ci_accounts ix ! (case parsed of ClmmDecreaseLiquidity _ _ \<Rightarrow> 3 | _ \<Rightarrow> 2))"
proof -
  obtain d rest w where d: "split_discriminator (ci_data ix) = Inr (d, rest)" and w: "new_from_instruction keys ix = Inr w"
    using assms by (auto simp: decode_raydium_v6_instruction_def)
  then have "d = take 8 (ci_data ix)" by (auto simp: split_discriminator_def split: if_splits)
  then show ?thesis
    using assms new_from_instruction_Inr [OF w]
    by (auto simp: decode_raydium_v6_instruction_def d w clmm_get_pool_state_def numeral_2_eq_2 dest!: clmm_pools split: if_splits)
qed

definition example_clmm_sdk :: "bytes clmm_sdk" where
  "example_clmm_sdk = (let args = \<lparr>cd_put = Some, cd_get = (\<lambda>bs. Some (bs, []))\<rparr> in \<lparr>
     ck_create_pool_disc = [1, 1, 1, 1, 1, 1, 1, 1], ck_decrease_liquidity_disc = [2, 2, 2, 2, 2, 2, 2, 2], ck_decrease_liquidity_v2_disc = [3, 3, 3, 3, 3, 3, 3, 3],
     ck_increase_liquidity_disc = [4, 4, 4, 4, 4, 4, 4, 4], ck_increase_liquidity_v2_disc = [5, 5, 5, 5, 5, 5, 5, 5],
     ck_swap_disc = [6, 6, 6, 6, 6, 6, 6, 6], ck_swap_v2_disc = [7, 7, 7, 7, 7, 7, 7, 7],
     ck_create_pool_args = args, ck_decrease_liquidity_args = args, ck_increase_liquidity_args = args,
     ck_increase_liquidity_v2_args = args, ck_swap_args = args, ck_swap_v2_args = args\<rparr>)"

theorem clmm_pool_state_read_witness:
  "\<exists>parsed. decode_raydium_v6_instruction example_clmm_sdk
      \<lparr>ci_program_id_index = 0, ci_accounts = [1, 2, 3, 4, 5, 6, 7, 8, 9, 10, 11, 12],
       ci_data = [3, 3, 3, 3, 3, 3, 3, 3, 99]\<rparr> [90, 91, 92, 93, 94, 95, 96, 97, 98, 99, 100, 101, 102] = Inr parsed
    \<and> clmm_get_pool_state parsed = Some 94"
proof -
  let ?r = "decode_raydium_v6_instruction example_clmm_sdk
      \<lparr>ci_program_id_index = 0, ci_accounts = [1, 2, 3, 4, 5, 6, 7, 8, 9, 10, 11, 12],
       ci_data = [3, 3, 3, 3, 3, 3, 3, 3, 99]\<rparr> [90, 91, 92, 93, 94, 95, 96, 97, 98, 99, 100, 101, 102]"
  have "\<exists>args accounts. ?r = Inr (ClmmDecreaseLiquidity args accounts)"
    by (simp add: decode_raydium_v6_instruction_def example_clmm_sdk_def split_discriminator_def
        new_from_instruction_def decode_instruction_def decode_clmm_decrease_liquidity_accounts_def
        next_account_key_def Let_def)
  then obtain args accounts where r: "?r = Inr (ClmmDecreaseLiquidity args accounts)" by blast
  show ?thesis
    using clmm_pool_state_read [OF r] r by (simp add: clmm_get_pool_state_def)
qed

text \<open>Decreasing the liquidity with the second version of the instruction is read as the first version:
  the parser never gives the variant of the second version, whatever the instruction is.\<close>

theorem clmm_decrease_v2_never_read:
  "decode_raydium_v6_instruction sdk ix keys \<noteq> Inr (ClmmDecreaseLiquidityV2 args accounts)"
  by (auto simp: decode_raydium_v6_instruction_def elim!: bind_res_InrE split: if_splits)

end
