(* ===== verification/Programs.thy ===== *)
theory Programs
  imports Parser Whirlpool_Ix Jupiter_Ix Clmm_Ix Pump_Ix
begin

text \<open>
  \<open>V1Parser::parse_instruction\<close> (\<^verbatim>\<open>parser/v1/mod.rs\<close>): the decoder of an instruction is chosen by its
  program. The decoders take the libraries they use as arguments, collected in one record.
\<close>

datatype ('x, 'y) parsed_instruction =
  PiJupiter parsed_jup_instruction
| PiRaydiumV6 "'y parsed_raydium_v6_instruction"
| PiRaydiumV4 "'x parsed_raydium_v4_instruction"
| PiOrca parsed_orca_instruction

record ('x, 'y) programs_sdk =
  pr_jupiter :: jup_codec
  pr_clmm :: "'y clmm_sdk"
  pr_amm_unpack :: "bytes \<Rightarrow> 'x amm_instruction result"
  pr_orca :: orca_codec

definition parse_instruction ::
  "('x, 'y) programs_sdk \<Rightarrow> compiled_instruction \<Rightarrow> pubkey list \<Rightarrow> ('x, 'y) parsed_instruction option result" where
  "parse_instruction sdk instruction keys =
     bind_res (ok_or (key_at keys (ci_program_id_index instruction))
       ''Failed getting program-id. Invalid index?'') (\<lambda>program_id.
     if program_id = JUPITER_AGGREGATOR_V6_PROGRAM_ID then
       bind_res (decode_jupiter_v6_instruction (pr_jupiter sdk) instruction keys)
         (\<lambda>decoded. Inr (Some (PiJupiter decoded)))
     else if program_id = RAYDIUM_CONCENTRATED_LIQUIDITY_PROGRAM_ID then
       bind_res (decode_raydium_v6_instruction (pr_clmm sdk) instruction keys)
         (\<lambda>decoded. Inr (Some (PiRaydiumV6 decoded)))
     else if program_id = RAYDIUM_LIQUIDITY_POOL_V4_PROGRAM_ID then
       bind_res (decode_raydium_v4_instruction (pr_amm_unpack sdk) instruction keys)
         (\<lambda>decoded. Inr (Some (PiRaydiumV4 decoded)))
     else if program_id = ORCA_WHIRLPOOLS_PROGRAM_ID then
       bind_res (decode_orca_instruction (pr_orca sdk) instruction keys)
         (\<lambda>decoded. Inr (Some (PiOrca decoded)))
     else if program_id = PUMPFUN_PROGRAM_ID then Inr None
     else Inr None)"

section \<open>The clients and the parser\<close>

text \<open>The generated clients and the parser name the same programs, each in constants of its own.\<close>

lemma program_ids_agree:
  "ORCA_WHIRLPOOLS_ID = ORCA_WHIRLPOOLS_PROGRAM_ID" "JUPITER_AGGREGATOR_V6_ID = JUPITER_AGGREGATOR_V6_PROGRAM_ID"
  "PUMP_ID = PUMPFUN_PROGRAM_ID"
  by (simp_all add: ORCA_WHIRLPOOLS_ID_def JUPITER_AGGREGATOR_V6_ID_def PUMP_ID_def program_defs)

lemma orca_build_program: "orca_build c parsed extra = Inr ins \<Longrightarrow> wi_program_id ins = ORCA_WHIRLPOOLS_ID"
  by (cases parsed) (auto simp: orca_instructions expect_def Let_def split: option.splits)

lemma jup_build_program: "jup_build c parsed extra = Inr ins \<Longrightarrow> wi_program_id ins = JUPITER_AGGREGATOR_V6_ID"
  by (cases parsed) (auto simp: jup_instructions expect_def Let_def split: option.splits)

text \<open>C22. Every instruction that the generated client of the whirlpools builds, with whatever accounts
  follow its own, is parsed once it is compiled into a message: as an Orca instruction of the same kind,
  with the same arguments and the same account in every role.\<close>

theorem orca_instructions_parsed:
  assumes "orca_build (pr_orca sdk) parsed extra = Inr ins" and "orca_faithful (pr_orca sdk) parsed"
    and "compiled keys ins ix"
  shows "parse_instruction sdk ix keys = Inr (Some (PiOrca parsed))"
proof -
  have "key_at keys (ci_program_id_index ix) = Some ORCA_WHIRLPOOLS_PROGRAM_ID"
    using assms(3) orca_build_program [OF assms(1)] by (simp add: compiled_def key_at_def program_ids_agree)
  then show ?thesis
    by (simp add: parse_instruction_def orca_read_back [OF assms] program_defs)
qed

text \<open>C23. Every route that the generated client of Jupiter builds is parsed once it is compiled into a
  message, with its arguments, its accounts and its absent accounts, provided that no optional account
  is the Jupiter program, which stands for an absent one.\<close>

theorem jupiter_routes_parsed:
  assumes "jup_build (pr_jupiter sdk) parsed extra = Inr ins" and "jup_faithful (pr_jupiter sdk) parsed"
    and "compiled keys ins ix" and "Some JUPITER_AGGREGATOR_V6_ID \<notin> set (jup_optional_accounts parsed)"
  shows "parse_instruction sdk ix keys = Inr (Some (PiJupiter parsed))"
proof -
  have "key_at keys (ci_program_id_index ix) = Some JUPITER_AGGREGATOR_V6_PROGRAM_ID"
    using assms(3) jup_build_program [OF assms(1)] by (simp add: compiled_def key_at_def program_ids_agree)
  then show ?thesis
    by (simp add: parse_instruction_def jup_read_back [OF assms])
qed

definition example_programs_sdk :: "(unit, bytes) programs_sdk" where
  "example_programs_sdk = \<lparr>pr_jupiter = example_jup_codec, pr_clmm = example_clmm_sdk,
     pr_amm_unpack = (\<lambda>_. Inl (Error ''not unpacked'')), pr_orca = example_orca_codec\<rparr>"

lemma example_programs_sdk_simps [simp]:
  "pr_orca example_programs_sdk = example_orca_codec" "pr_jupiter example_programs_sdk = example_jup_codec"
  by (simp_all add: example_programs_sdk_def)

theorem orca_instructions_parsed_witness:
  "parse_instruction example_programs_sdk
     \<lparr>ci_program_id_index = 11, ci_accounts = [0, 1, 2, 3, 4, 5, 6, 7, 8, 9, 10],
      ci_data = [248, 198, 158, 145, 225, 117, 135, 200, 100, 90, 1, 0]\<rparr>
     [10, 11, 12, 13, 14, 15, 16, 17, 18, 19, 20, ORCA_WHIRLPOOLS_ID] = Inr (Some (PiOrca example_orca_swap))
   \<and> orca_get_pool_state example_orca_swap = Some 12"
proof -
  let ?ix = "\<lparr>ci_program_id_index = 11, ci_accounts = [0, 1, 2, 3, 4, 5, 6, 7, 8, 9, 10],
      ci_data = [248, 198, 158, 145, 225, 117, 135, 200, 100, 90, 1, 0]\<rparr>"
  let ?keys = "[10, 11, 12, 13, 14, 15, 16, 17, 18, 19, 20, ORCA_WHIRLPOOLS_ID]"
  obtain ins where ins: "orca_build example_orca_codec example_orca_swap [] = Inr ins"
    "wi_data ins = [248, 198, 158, 145, 225, 117, 135, 200, 100, 90, 1, 0]" "wi_program_id ins = ORCA_WHIRLPOOLS_ID"
    "map am_pubkey (wi_accounts ins) = [10, 11, 12, 13, 14, 15, 16, 17, 18, 19, 20]"
    by (simp add: example_orca_swap_def example_orca_codec_def example_swap_codec_def orca_swap_data_def
        orca_swap_instruction_with_remaining_accounts_def)
  have faithful: "orca_faithful example_orca_codec example_orca_swap"
    by (simp add: example_orca_swap_def example_orca_codec_def example_swap_codec_def faithful_def)
  have "parse_instruction example_programs_sdk ?ix ?keys = Inr (Some (PiOrca example_orca_swap))"
    by (rule orca_instructions_parsed [of example_programs_sdk, simplified, OF ins(1) faithful compiledI]) (simp_all add: ins)
  then show ?thesis by (simp add: example_orca_swap_def orca_get_pool_state_def)
qed

theorem jupiter_routes_parsed_witness:
  "parse_instruction example_programs_sdk
     \<lparr>ci_program_id_index = 7, ci_accounts = [0, 1, 2, 3, 7, 4, 5, 6, 7],
      ci_data = [229, 23, 203, 151, 122, 227, 173, 42, 100, 90, 0]\<rparr>
     [10, 11, 12, 13, 14, 15, 16, JUPITER_AGGREGATOR_V6_ID] = Inr (Some (PiJupiter example_route))
   \<and> jup_base_input example_route = Inr True \<and> jup_other_amount_threshold example_route = Inr 90"
proof -
  let ?ix = "\<lparr>ci_program_id_index = 7, ci_accounts = [0, 1, 2, 3, 7, 4, 5, 6, 7],
      ci_data = [229, 23, 203, 151, 122, 227, 173, 42, 100, 90, 0]\<rparr>"
  let ?keys = "[10, 11, 12, 13, 14, 15, 16, JUPITER_AGGREGATOR_V6_ID]"
  obtain ins where ins: "jup_build example_jup_codec example_route [] = Inr ins"
    "wi_data ins = [229, 23, 203, 151, 122, 227, 173, 42, 100, 90, 0]" "wi_program_id ins = JUPITER_AGGREGATOR_V6_ID"
    "map am_pubkey (wi_accounts ins) = [10, 11, 12, 13, JUPITER_AGGREGATOR_V6_ID, 14, 15, 16, JUPITER_AGGREGATOR_V6_ID]"
    by (simp add: example_route_def example_jup_codec_def example_route_codec_def jup_route_data_def
        jup_route_instruction_with_remaining_accounts_def)
  have faithful: "jup_faithful example_jup_codec example_route"
    by (simp add: example_route_def example_jup_codec_def example_route_codec_def faithful_def)
  have "parse_instruction example_programs_sdk ?ix ?keys = Inr (Some (PiJupiter example_route))"
    by (rule jupiter_routes_parsed [of example_programs_sdk, simplified, OF ins(1) faithful compiledI])
      (simp_all add: ins, simp add: example_route_def JUPITER_AGGREGATOR_V6_ID_def)
  then show ?thesis by (simp add: example_route_def jup_base_input_def jup_other_amount_threshold_def)
qed

end
