(* ===== verification/Sending.thy ===== *)
theory Sending
  imports Transaction "HOL-Library.Multiset"
begin

text \<open>
  Sending transactions and confirming them: the service and its handles
  (\<^verbatim>\<open>wire/send_txn/service.rs\<close>), the confirmation task (\<^verbatim>\<open>wire/confirm_txn.rs\<close>) and the retry loops
  (\<^verbatim>\<open>utils/retry.rs\<close>). A channel is the list of what was sent on it. One round of the confirmation
  task and one transaction of the sending task are atomic steps; signing, the RPC client, the leader
  schedule and the clock are arguments. The priority details of a transaction, which are only logged,
  are left out.
\<close>

section \<open>Retries\<close>

text \<open>The result and the delays in milliseconds between the calls; \<open>task n\<close> is the n-th call.\<close>

function retry_loop :: "(nat \<Rightarrow> u64) \<Rightarrow> (nat \<Rightarrow> 'a result) \<Rightarrow> nat \<Rightarrow> nat \<Rightarrow> u64 list \<times> 'a result" where
  "retry_loop delay task max_attempts attempts = (case task attempts of
     Inr ret \<Rightarrow> ([], Inr ret)
   | Inl e \<Rightarrow>
       if max_attempts < attempts then ([], Inl e)
       else case retry_loop delay task max_attempts (attempts + 1) of
              (delays, r) \<Rightarrow> (delay attempts # delays, r))"
  by pat_completeness auto
termination by (relation "measure (\<lambda>(delay, task, max_attempts, attempts). max_attempts + 1 - attempts)") auto

declare retry_loop.simps [simp del]

definition spawn_retry_task :: "(nat \<Rightarrow> 'a result) \<Rightarrow> nat \<Rightarrow> u64 \<Rightarrow> u64 list \<times> 'a result" where
  "spawn_retry_task task max_attempts delay_ms = retry_loop (\<lambda>_. delay_ms) task max_attempts 0"

definition spawn_retry_task_with_exponential_backoff ::
  "(nat \<Rightarrow> 'a result) \<Rightarrow> nat \<Rightarrow> u64 \<Rightarrow> u64 list \<times> 'a result" where
  "spawn_retry_task_with_exponential_backoff task max_attempts delay_ms =
     retry_loop (\<lambda>attempts. 2 ^ attempts * delay_ms) task max_attempts 0"

text \<open>The loops over \<open>0..send_txn_attempts\<close>: the number of calls, which stop at the first success.\<close>

fun send_attempts :: "(nat \<Rightarrow> bool) \<Rightarrow> nat \<Rightarrow> nat \<Rightarrow> nat" where
  "send_attempts ok i 0 = 0"
| "send_attempts ok i (Suc n) = (if ok i then 1 else 1 + send_attempts ok (i + 1) n)"

section \<open>The service\<close>

type_synonym source_id = usize

record 'tx send_transaction_data =
  sd_signature :: signature
  sd_last_valid_block_height :: u64
  sd_sent_at :: instant
  sd_transaction :: 'tx
  sd_txn_id :: transaction_id
  sd_source_id :: source_id
  sd_send_to_jito :: bool

record 'tx confirmation =
  cf_data :: "'tx send_transaction_data"
  cf_response :: confirm_transaction_response

text \<open>\<open>ss_next_txn_id\<close> and \<open>ss_next_source_id\<close> are the static counters; \<open>ss_last_block_height\<close> is the
  local variable of the confirmation task.\<close>

record 'tx send_service =
  ss_new_transactions :: "'tx send_transaction_data list"
  ss_unconfirmed :: "(signature, 'tx send_transaction_data) store"
  ss_subscribers :: "(source_id, 'tx confirmation list) store"
  ss_broadcast :: "'tx confirmation list"
  ss_num_sent :: usize
  ss_num_confirmed :: usize
  ss_num_unconfirmed :: usize
  ss_last_block_height :: u64
  ss_next_txn_id :: usize
  ss_next_source_id :: usize

record send_handle =
  sh_id :: source_id
  sh_num_sent :: usize

definition next_source_id :: "usize \<Rightarrow> usize \<times> source_id" where
  "next_source_id counter = (counter + 1, counter)"

definition start_send_transaction_service :: "usize \<Rightarrow> usize \<Rightarrow> u64 \<Rightarrow> 'tx send_service" where
  "start_send_transaction_service txn_counter source_counter block_height = \<lparr>
     ss_new_transactions = [], ss_unconfirmed = [], ss_subscribers = [], ss_broadcast = [],
     ss_num_sent = 0, ss_num_confirmed = 0, ss_num_unconfirmed = 0,
     ss_last_block_height = block_height, ss_next_txn_id = txn_counter, ss_next_source_id = source_counter\<rparr>"

definition subscribe :: "'tx send_service \<Rightarrow> 'tx send_service \<times> send_handle" where
  "subscribe s = (case next_source_id (ss_next_source_id s) of (c, i) \<Rightarrow>
     (s\<lparr>ss_next_source_id := c, ss_subscribers := store_insert (ss_subscribers s) i []\<rparr>,
      \<lparr>sh_id = i, sh_num_sent = 0\<rparr>))"

text \<open>The handle of \<open>subscribe_all\<close> is not entered into the map of subscribers.\<close>

definition subscribe_all :: "'tx send_service \<Rightarrow> 'tx send_service \<times> send_handle" where
  "subscribe_all s = (case next_source_id (ss_next_source_id s) of (c, i) \<Rightarrow>
     (s\<lparr>ss_next_source_id := c\<rparr>, \<lparr>sh_id = i, sh_num_sent = 0\<rparr>))"

record blockhash_notification =
  bn_blockhash :: hash
  bn_last_valid_block_height :: u64

text \<open>\<open>sign\<close> sets the blockhash and signs: \<open>None\<close> is a signing error, which panics.\<close>

definition send_with_id ::
  "(hash \<Rightarrow> 'tx \<Rightarrow> ('tx \<times> signature) option) \<Rightarrow> blockhash_notification \<Rightarrow> instant \<Rightarrow> send_handle \<Rightarrow> 'tx
     \<Rightarrow> transaction_id \<Rightarrow> bool \<Rightarrow> 'tx send_service
     \<Rightarrow> ('tx send_service \<times> send_handle \<times> signature \<times> transaction_id) result" where
  "send_with_id sign blockhash now h tx txn_id send_to_jito s =
     bind_res (expect (sign (bn_blockhash blockhash) tx) ''Signing transaction should succeed'') (\<lambda>(tx, signature).
     Inr (s\<lparr>ss_new_transactions := ss_new_transactions s @
            [\<lparr>sd_signature = signature, sd_last_valid_block_height = bn_last_valid_block_height blockhash,
              sd_sent_at = now, sd_transaction = tx, sd_txn_id = txn_id, sd_source_id = sh_id h,
              sd_send_to_jito = send_to_jito\<rparr>]\<rparr>,
          h\<lparr>sh_num_sent := sh_num_sent h + 1\<rparr>, signature, txn_id))"

definition send_transaction ::
  "(hash \<Rightarrow> 'tx \<Rightarrow> ('tx \<times> signature) option) \<Rightarrow> blockhash_notification \<Rightarrow> instant \<Rightarrow> send_handle \<Rightarrow> 'tx
     \<Rightarrow> bool \<Rightarrow> 'tx send_service \<Rightarrow> ('tx send_service \<times> send_handle \<times> signature \<times> transaction_id) result" where
  "send_transaction sign blockhash now h tx send_to_jito s =
     (case next_transaction_id (ss_next_txn_id s) of (c, txn_id) \<Rightarrow>
      send_with_id sign blockhash now h tx txn_id send_to_jito (s\<lparr>ss_next_txn_id := c\<rparr>))"

definition resend_transaction ::
  "(hash \<Rightarrow> 'tx \<Rightarrow> ('tx \<times> signature) option) \<Rightarrow> blockhash_notification \<Rightarrow> instant \<Rightarrow> send_handle \<Rightarrow> 'tx
     \<Rightarrow> transaction_id \<Rightarrow> bool \<Rightarrow> 'tx send_service
     \<Rightarrow> ('tx send_service \<times> send_handle \<times> signature \<times> transaction_id) result" where
  "resend_transaction sign blockhash now h tx txn_id send_to_jito s =
     send_with_id sign blockhash now h tx txn_id send_to_jito s"

text \<open>The sending task: where a transaction goes. A leader is its key and whether it has a QUIC port.\<close>

datatype destination = ToJito | ToRpc | ToLeader pubkey

definition destinations :: "bool \<Rightarrow> (pubkey \<times> bool) list \<Rightarrow> 'tx send_transaction_data \<Rightarrow> destination list" where
  "destinations has_jito leaders data =
     (if sd_send_to_jito data \<and> has_jito then [ToJito]
      else ToRpc # map (\<lambda>(k, _). ToLeader k) (filter (\<lambda>(_, has_quic). has_quic) leaders))"

definition send_next ::
  "bool \<Rightarrow> (pubkey \<times> bool) list \<Rightarrow> 'tx send_service \<Rightarrow> 'tx send_service \<times> destination list" where
  "send_next has_jito leaders s = (case ss_new_transactions s of
     [] \<Rightarrow> (s, [])
   | data # rest \<Rightarrow>
       (s\<lparr>ss_new_transactions := rest,
          ss_unconfirmed := store_insert (ss_unconfirmed s) (sd_signature data) data\<rparr>,
        destinations has_jito leaders data))"

section \<open>Confirmation\<close>

record tx_status =
  st_slot :: u64
  st_err :: "string option"
  st_satisfies_commitment :: bool

definition is_not_expired :: "u64 \<Rightarrow> 'tx send_transaction_data \<Rightarrow> bool" where
  "is_not_expired current d \<longleftrightarrow> current \<le> sd_last_valid_block_height d"

definition is_recently_expired :: "u64 \<Rightarrow> u64 \<Rightarrow> 'tx send_transaction_data \<Rightarrow> bool" where
  "is_recently_expired last_height current d \<longleftrightarrow>
     last_height \<le> sd_last_valid_block_height d \<and> sd_last_valid_block_height d < current"

definition MAX_STATUSES :: nat where
  "MAX_STATUSES = 256"

text \<open>Both maps are shared with the subscribers: a missing one panics.\<close>

definition deliver :: "'tx confirmation \<Rightarrow> 'tx send_service \<Rightarrow> 'tx send_service result" where
  "deliver c s =
     bind_res (expect (store_get (ss_subscribers s) (sd_source_id (cf_data c))) ''is valid confirmation id'') (\<lambda>sent.
     Inr (s\<lparr>ss_subscribers := store_insert (ss_subscribers s) (sd_source_id (cf_data c)) (sent @ [c]),
            ss_broadcast := ss_broadcast s @ [c]\<rparr>))"

definition confirmed_error :: "string option \<Rightarrow> string option" where
  "confirmed_error err = (if err = Some ''AlreadyProcessed'' then None else err)"

definition confirm_status :: "signature \<times> tx_status option \<Rightarrow> 'tx send_service \<Rightarrow> 'tx send_service result" where
  "confirm_status = (\<lambda>(sig, status) s. case status of
     None \<Rightarrow> Inr s
   | Some st \<Rightarrow>
       if \<not> st_satisfies_commitment st then Inr s
       else (case store_get (ss_unconfirmed s) sig of
           None \<Rightarrow> Inr s
         | Some data \<Rightarrow>
             deliver \<lparr>cf_data = data, cf_response = TxConfirmed (confirmed_error (st_err st)) (st_slot st)\<rparr>
               (s\<lparr>ss_unconfirmed := store_remove (ss_unconfirmed s) sig,
                  ss_num_confirmed := ss_num_confirmed s + 1\<rparr>)))"

text \<open>\<open>get_signature_statuses\<close> is the RPC call; \<open>None\<close> is an error, which is only logged.\<close>

definition confirm_chunk ::
  "(signature list \<Rightarrow> tx_status option list option) \<Rightarrow> signature list \<Rightarrow> 'tx send_service \<Rightarrow> 'tx send_service result" where
  "confirm_chunk get_statuses sigs s = (case get_statuses sigs of
     None \<Rightarrow> Inr s
   | Some statuses \<Rightarrow> fold_res confirm_status (zip sigs statuses) s)"

definition expire_one :: "signature \<Rightarrow> 'tx send_service \<Rightarrow> 'tx send_service result" where
  "expire_one sig s = (case store_get (ss_unconfirmed s) sig of
     None \<Rightarrow> Inl (Panic ''attempted duplicate removal of signature'')
   | Some data \<Rightarrow>
       deliver \<lparr>cf_data = data, cf_response = TxUnconfirmed Expired\<rparr>
         (s\<lparr>ss_num_unconfirmed := ss_num_unconfirmed s + 1,
            ss_unconfirmed := store_remove (ss_unconfirmed s) sig\<rparr>))"

definition transactions_to_verify :: "u64 \<Rightarrow> 'tx send_service \<Rightarrow> signature list" where
  "transactions_to_verify current s = map fst (filter (\<lambda>(_, d). is_not_expired current d
     \<or> is_recently_expired (ss_last_block_height s) current d) (ss_unconfirmed s))"

definition expired_txns :: "u64 \<Rightarrow> 'tx send_service \<Rightarrow> signature list" where
  "expired_txns current s = map (sd_signature \<circ> snd) (filter (\<lambda>(_, d).
     sd_last_valid_block_height d < current \<and> \<not> is_recently_expired (ss_last_block_height s) current d)
     (ss_unconfirmed s))"

definition check_confirmations ::
  "(signature list \<Rightarrow> tx_status option list option) \<Rightarrow> u64 \<Rightarrow> 'tx send_service \<Rightarrow> 'tx send_service result" where
  "check_confirmations get_statuses current s =
     (if ss_unconfirmed s = [] then Inr s
      else bind_res (fold_res (confirm_chunk get_statuses)
                       (chunks MAX_STATUSES (transactions_to_verify current s)) s) (\<lambda>s.
           bind_res (fold_res expire_one (expired_txns current s) s) (\<lambda>s.
           Inr (s\<lparr>ss_last_block_height := current\<rparr>))))"

section \<open>Every transaction is answered once\<close>

definition registered :: "'tx send_service \<Rightarrow> 'tx send_transaction_data \<Rightarrow> bool" where
  "registered s d \<longleftrightarrow> store_get (ss_subscribers s) (sd_source_id d) \<noteq> None"

definition send_ok :: "'tx send_service \<Rightarrow> bool" where
  "send_ok s \<longleftrightarrow> store_ok (ss_unconfirmed s)
     \<and> list_all (\<lambda>(k, d). sd_signature d = k \<and> registered s d) (ss_unconfirmed s)
     \<and> list_all (registered s) (ss_new_transactions s)"

text \<open>What a source has been answered and what it still waits for.\<close>

definition answered :: "'tx send_service \<Rightarrow> source_id \<Rightarrow> 'tx send_transaction_data multiset" where
  "answered s i = mset (map cf_data (unwrap_or (store_get (ss_subscribers s) i) []))"

definition waiting :: "'tx send_service \<Rightarrow> source_id \<Rightarrow> 'tx send_transaction_data multiset" where
  "waiting s i = filter_mset (\<lambda>d. sd_source_id d = i) (mset (map snd (ss_unconfirmed s)))"

lemma mset_store_remove:
  "store_ok m \<Longrightarrow> store_get m k = Some v \<Longrightarrow> mset (map snd m) = add_mset v (mset (map snd (store_remove m k)))"
proof (induction m)
  case (Cons x m)
  show ?case
  proof (cases "fst x = k")
    case True
    then have "k \<notin> fst ` set m" using Cons.prems(1) by (auto simp: store_ok_def)
    then have "store_remove m k = m" by (simp add: store_remove_def delete_id)
    then show ?thesis using True Cons.prems(2) by (cases x) (simp add: store_get_def store_remove_def)
  next
    case False
    then show ?thesis using Cons by (cases x) (simp add: store_ok_def store_get_def store_remove_def)
  qed
qed (simp add: store_get_def)

lemma set_store_remove: "set (store_remove m k) = {x \<in> set m. fst x \<noteq> k}"
  by (auto simp: store_remove_def AList.delete_eq)

text \<open>Answering one transaction moves it from the waiting to the answered ones.\<close>

definition answers :: "'tx send_service \<Rightarrow> 'tx send_service \<Rightarrow> bool" where
  "answers s s' \<longleftrightarrow> send_ok s' \<and> (\<forall>i. answered s' i + waiting s' i = answered s i + waiting s i)
     \<and> set (ss_unconfirmed s') \<subseteq> set (ss_unconfirmed s) \<and> ss_last_block_height s' = ss_last_block_height s
     \<and> ss_new_transactions s' = ss_new_transactions s"

lemma answers_refl: "send_ok s \<Longrightarrow> answers s s"
  by (simp add: answers_def)

lemma answers_trans: "answers s t \<Longrightarrow> answers t u \<Longrightarrow> answers s u"
  by (auto simp: answers_def)

lemma deliver_answers:
  assumes "send_ok s" and "store_get (ss_unconfirmed s) sig = Some (cf_data c)"
    and t: "ss_unconfirmed t = store_remove (ss_unconfirmed s) sig" "ss_subscribers t = ss_subscribers s"
      "ss_last_block_height t = ss_last_block_height s" "ss_new_transactions t = ss_new_transactions s"
  obtains s' where "deliver c t = Inr s'" and "answers s s'" and "ss_unconfirmed s' = store_remove (ss_unconfirmed s) sig"
proof -
  let ?i = "sd_source_id (cf_data c)"
  have "(sig, cf_data c) \<in> set (ss_unconfirmed s)"
    using assms(1,2) store_get_Some_iff unfolding send_ok_def by metis
  then obtain sent where sent: "store_get (ss_subscribers s) ?i = Some sent"
    using assms(1) by (auto simp: send_ok_def registered_def list_all_iff)
  let ?s' = "t\<lparr>ss_subscribers := store_insert (ss_subscribers s) ?i (sent @ [c]), ss_broadcast := ss_broadcast t @ [c]\<rparr>"
  have d: "deliver c t = Inr ?s'" using sent t(2) by (simp add: deliver_def expect_def)
  have reg: "registered ?s' d \<longleftrightarrow> registered s d" for d using sent by (auto simp: registered_def)
  have ok: "send_ok ?s'"
    using assms(1) unfolding send_ok_def reg by (auto simp: t list_all_iff set_store_remove)
  have "waiting s i = waiting ?s' i + (if i = ?i then {#cf_data c#} else {#})" for i
    using assms(1,2) mset_store_remove [of "ss_unconfirmed s" sig]
    by (auto simp: waiting_def t send_ok_def)
  then have "answers s ?s'"
    using ok sent by (auto simp: answers_def answered_def t set_store_remove)
  with d show ?thesis using that t(1) by simp
qed

lemma confirm_status_answers:
  assumes "send_ok s"
  obtains s' where "confirm_status x s = Inr s'" and "answers s s'"
proof (cases "\<exists>st data. snd x = Some st \<and> st_satisfies_commitment st \<and> store_get (ss_unconfirmed s) (fst x) = Some data")
  case True
  then obtain st data where x: "snd x = Some st" "st_satisfies_commitment st"
      "store_get (ss_unconfirmed s) (fst x) = Some data" by blast
  let ?c = "\<lparr>cf_data = data, cf_response = TxConfirmed (confirmed_error (st_err st)) (st_slot st)\<rparr>"
  let ?t = "s\<lparr>ss_unconfirmed := store_remove (ss_unconfirmed s) (fst x), ss_num_confirmed := ss_num_confirmed s + 1\<rparr>"
  obtain s' where "deliver ?c ?t = Inr s'" "answers s s'"
    by (rule deliver_answers [OF assms, where sig = "fst x" and c = ?c and t = ?t]) (use x in simp_all)
  with x show ?thesis using that by (cases x) (simp add: confirm_status_def)
next
  case False
  then have "confirm_status x s = Inr s"
    by (cases x) (auto simp: confirm_status_def split: option.splits)
  then show ?thesis using that answers_refl [OF assms] by blast
qed

lemma fold_res_answers:
  assumes "\<And>x s. send_ok s \<Longrightarrow> \<exists>s'. f x s = Inr s' \<and> answers s s'" and "send_ok s"
  obtains s' where "fold_res f xs s = Inr s'" and "answers s s'"
proof -
  have "\<exists>s'. fold_res f xs s = Inr s' \<and> answers s s'" using assms(2)
  proof (induction xs arbitrary: s)
    case (Cons x xs)
    obtain t where t: "f x s = Inr t" "answers s t" using assms(1) [OF Cons.prems] by blast
    then obtain u where "fold_res f xs t = Inr u" "answers t u" using Cons.IH [of t] by (auto simp: answers_def)
    with t show ?case using answers_trans by auto
  qed (simp add: answers_refl)
  then show ?thesis using that by blast
qed

lemma confirm_chunk_answers:
  assumes "send_ok s"
  shows "\<exists>s'. confirm_chunk get_statuses sigs s = Inr s' \<and> answers s s'"
proof (cases "get_statuses sigs")
  case None
  then show ?thesis using answers_refl [OF assms] by (simp add: confirm_chunk_def)
next
  case (Some statuses)
  have "\<exists>s'. confirm_status x s = Inr s' \<and> answers s s'" if "send_ok s"
    for x and s :: "'a send_service" using confirm_status_answers [OF that] by metis
  then obtain s' where "fold_res confirm_status (zip sigs statuses) s = Inr s'" "answers s s'"
    using fold_res_answers [OF _ assms] by metis
  then show ?thesis using Some by (simp add: confirm_chunk_def)
qed

lemma fold_expire_answers:
  assumes "send_ok s" and "distinct sigs" and "set sigs \<subseteq> fst ` set (ss_unconfirmed s)"
  obtains s' where "fold_res expire_one sigs s = Inr s'" and "answers s s'"
    and "set (ss_unconfirmed s') = {x \<in> set (ss_unconfirmed s). fst x \<notin> set sigs}"
proof -
  have "\<exists>s'. fold_res expire_one sigs s = Inr s' \<and> answers s s'
      \<and> set (ss_unconfirmed s') = {x \<in> set (ss_unconfirmed s). fst x \<notin> set sigs}" using assms
  proof (induction sigs arbitrary: s)
    case (Cons sig sigs)
    obtain data where data: "store_get (ss_unconfirmed s) sig = Some data"
      using Cons.prems(3) store_get_None_iff [of "ss_unconfirmed s" sig] by auto
    let ?c = "\<lparr>cf_data = data, cf_response = TxUnconfirmed Expired\<rparr>"
    let ?t = "s\<lparr>ss_num_unconfirmed := ss_num_unconfirmed s + 1, ss_unconfirmed := store_remove (ss_unconfirmed s) sig\<rparr>"
    obtain t where t: "deliver ?c ?t = Inr t" "answers s t" "ss_unconfirmed t = store_remove (ss_unconfirmed s) sig"
      by (rule deliver_answers [OF Cons.prems(1), where sig = sig and c = ?c and t = ?t]) (use data in simp_all)
    have "set sigs \<subseteq> fst ` set (ss_unconfirmed t)"
      using Cons.prems(2,3) unfolding t(3) set_store_remove by (fastforce simp: subset_iff image_iff)
    then obtain u where "fold_res expire_one sigs t = Inr u" "answers t u"
        "set (ss_unconfirmed u) = {x \<in> set (ss_unconfirmed t). fst x \<notin> set sigs}"
      using Cons.IH [of t] Cons.prems(2) t(2) by (auto simp: answers_def)
    moreover have "expire_one sig s = Inr t" using t(1) data by (simp add: expire_one_def)
    moreover have "answers s u" using answers_trans [OF t(2) calculation(2)] .
    ultimately show ?case using t(3) by (auto simp: set_store_remove)
  qed (simp add: answers_refl)
  then show ?thesis using that by blast
qed

lemma expired_txns_set:
  assumes "send_ok s"
  shows "distinct (expired_txns current s)" and "set (expired_txns current s) \<subseteq> fst ` set (ss_unconfirmed s)"
    and "(sig, d) \<in> set (ss_unconfirmed s) \<Longrightarrow> sd_last_valid_block_height d < current
      \<Longrightarrow> sd_last_valid_block_height d < ss_last_block_height s \<Longrightarrow> sig \<in> set (expired_txns current s)"
proof -
  let ?P = "\<lambda>(_ :: signature, d :: 'a send_transaction_data). sd_last_valid_block_height d < current
    \<and> \<not> is_recently_expired (ss_last_block_height s) current d"
  have "\<forall>x \<in> set (ss_unconfirmed s). sd_signature (snd x) = fst x"
    using assms by (auto simp: send_ok_def list_all_iff)
  then have e: "expired_txns current s = map fst (filter ?P (ss_unconfirmed s))"
    unfolding expired_txns_def by (intro map_cong) auto
  show "distinct (expired_txns current s)"
    unfolding e using assms by (auto simp: send_ok_def store_ok_def distinct_map_filter)
  show "set (expired_txns current s) \<subseteq> fst ` set (ss_unconfirmed s)" unfolding e by auto
  show "sig \<in> set (expired_txns current s)" if "(sig, d) \<in> set (ss_unconfirmed s)"
    "sd_last_valid_block_height d < current" "sd_last_valid_block_height d < ss_last_block_height s"
    unfolding e using that by (force simp: is_recently_expired_def image_iff)
qed

lemma check_confirmations_answers:
  assumes "send_ok s"
  obtains t where "check_confirmations get_statuses current s
      = Inr (t\<lparr>ss_last_block_height := (if ss_unconfirmed s = [] then ss_last_block_height s else current)\<rparr>)"
    and "answers s t"
    and "\<And>sig d. (sig, d) \<in> set (ss_unconfirmed s) \<Longrightarrow> sd_last_valid_block_height d < current
      \<Longrightarrow> sd_last_valid_block_height d < ss_last_block_height s \<Longrightarrow> (sig, d) \<notin> set (ss_unconfirmed t)"
proof (cases "ss_unconfirmed s = []")
  case True
  then show ?thesis using that [of s] answers_refl [OF assms] by (simp add: check_confirmations_def)
next
  case False
  obtain t where t: "fold_res (confirm_chunk get_statuses)
      (chunks MAX_STATUSES (transactions_to_verify current s)) s = Inr t" "answers s t"
    using fold_res_answers [OF confirm_chunk_answers assms] .
  then have ok: "send_ok t" and last: "ss_last_block_height t = ss_last_block_height s"
    and sub: "set (ss_unconfirmed t) \<subseteq> set (ss_unconfirmed s)" by (simp_all add: answers_def)
  note e = expired_txns_set [OF ok]
  obtain u where u: "fold_res expire_one (expired_txns current t) t = Inr u" "answers t u"
      "set (ss_unconfirmed u) = {x \<in> set (ss_unconfirmed t). fst x \<notin> set (expired_txns current t)}"
    using fold_expire_answers [OF ok e(1,2)] .
  have "(sig, d) \<notin> set (ss_unconfirmed u)" if "(sig, d) \<in> set (ss_unconfirmed s)"
    "sd_last_valid_block_height d < current" "sd_last_valid_block_height d < ss_last_block_height s" for sig d
    using u(3) e(3) that last by auto
  moreover have "check_confirmations get_statuses current s = Inr (u\<lparr>ss_last_block_height := current\<rparr>)"
    using False t(1) u(1) by (simp add: check_confirmations_def)
  ultimately show ?thesis using that [of u] answers_trans [OF t(2) u(2)] False by simp
qed

lemma last_block_height_frame [simp]:
  "send_ok (t\<lparr>ss_last_block_height := h\<rparr>) = send_ok t"
  "answered (t\<lparr>ss_last_block_height := h\<rparr>) = answered t" "waiting (t\<lparr>ss_last_block_height := h\<rparr>) = waiting t"
  by (simp_all add: send_ok_def registered_def answered_def waiting_def fun_eq_iff list_all_iff)

lemma check_confirmations_balance:
  assumes "send_ok s"
  shows "\<exists>s'. check_confirmations get_statuses current s = Inr s' \<and> send_ok s'
    \<and> (\<forall>i. answered s' i + waiting s' i = answered s i + waiting s i)"
proof -
  obtain t where "check_confirmations get_statuses current s
      = Inr (t\<lparr>ss_last_block_height := (if ss_unconfirmed s = [] then ss_last_block_height s else current)\<rparr>)"
      and "answers s t" using check_confirmations_answers [OF assms] .
  then show ?thesis by (simp add: answers_def)
qed

text \<open>C8. A round of the confirmation task never panics while every waiting transaction belongs to a
  subscriber, whatever the RPC client answers, and no transaction is lost or answered twice: what each
  source has been answered and what it still waits for are together what they were before.\<close>

theorem confirmations_answer_once:
  assumes "send_ok s"
  shows "\<exists>s'. check_confirmations get_statuses current s = Inr s' \<and> send_ok s'
    \<and> (\<forall>i. answered s' i + waiting s' i = answered s i + waiting s i)"
  using assms by (rule check_confirmations_balance)

definition example_sent :: "nat send_transaction_data" where
  "example_sent = \<lparr>sd_signature = 11, sd_last_valid_block_height = 100, sd_sent_at = 0, sd_transaction = 5,
     sd_txn_id = 1, sd_source_id = 1, sd_send_to_jito = False\<rparr>"

definition example_send_service :: "nat send_service" where
  "example_send_service = (start_send_transaction_service 2 2 90)
     \<lparr>ss_unconfirmed := [(11, example_sent)], ss_subscribers := [(1, [])]\<rparr>"

lemma example_send_service_ok: "send_ok example_send_service"
  by (simp add: send_ok_def example_send_service_def example_sent_def start_send_transaction_service_def
      registered_def store_get_def store_ok_def)

theorem confirmations_answer_once_witness:
  "\<exists>s'. check_confirmations (\<lambda>_. None) 120 example_send_service = Inr s'
     \<and> answered s' 1 + waiting s' 1 = {#example_sent#}"
proof -
  have "answered example_send_service 1 + waiting example_send_service 1 = {#example_sent#}"
    by (simp add: answered_def waiting_def example_send_service_def example_sent_def store_get_def)
  then show ?thesis
    using confirmations_answer_once [OF example_send_service_ok, of "\<lambda>_. None" 120] by metis
qed

lemma count_waiting:
  assumes "send_ok s"
  shows "count (waiting s (sd_source_id d)) d = (if (sd_signature d, d) \<in> set (ss_unconfirmed s) then 1 else 0)"
proof -
  have key: "fst x = sd_signature (snd x)" if "x \<in> set (ss_unconfirmed s)" for x
    using assms that by (auto simp: send_ok_def list_all_iff)
  then have "inj_on snd (set (ss_unconfirmed s))" by (metis inj_onI prod_eqI)
  then have "distinct (map snd (ss_unconfirmed s))"
    using assms by (simp add: send_ok_def store_ok_def distinct_map)
  then have "count (mset (map snd (ss_unconfirmed s))) d = (if d \<in> snd ` set (ss_unconfirmed s) then 1 else 0)"
    by (simp add: distinct_count_atmost_1 del: mset_map)
  moreover have "d \<in> snd ` set (ss_unconfirmed s) \<longleftrightarrow> (sd_signature d, d) \<in> set (ss_unconfirmed s)"
  proof
    assume "d \<in> snd ` set (ss_unconfirmed s)"
    then obtain k where "(k, d) \<in> set (ss_unconfirmed s)" by auto
    then show "(sd_signature d, d) \<in> set (ss_unconfirmed s)" using key [of "(k, d)"] by simp
  qed (rule image_eqI [where x = "(sd_signature d, d)"], simp)
  ultimately show ?thesis by (simp add: waiting_def del: mset_map)
qed

lemma two_rounds_expire:
  assumes "send_ok s" and "(sig, d) \<in> set (ss_unconfirmed s)"
    and "check_confirmations statuses1 h1 s = Inr s1" and "check_confirmations statuses2 h2 s1 = Inr s2"
    and "sd_last_valid_block_height d < h1" and "sd_last_valid_block_height d < h2"
  shows "(sig, d) \<notin> set (ss_unconfirmed s2)"
proof -
  obtain t1 where t1: "check_confirmations statuses1 h1 s
      = Inr (t1\<lparr>ss_last_block_height := (if ss_unconfirmed s = [] then ss_last_block_height s else h1)\<rparr>)"
      and a1: "answers s t1" using check_confirmations_answers [OF assms(1)] by metis
  have s1: "s1 = t1\<lparr>ss_last_block_height := h1\<rparr>" using t1 assms(2,3) by auto
  have ok1: "send_ok s1" using a1 by (simp add: s1 answers_def)
  obtain t2 where t2: "check_confirmations statuses2 h2 s1
      = Inr (t2\<lparr>ss_last_block_height := (if ss_unconfirmed s1 = [] then ss_last_block_height s1 else h2)\<rparr>)"
      and a2: "answers s1 t2"
      and gone: "\<And>sig d. (sig, d) \<in> set (ss_unconfirmed s1) \<Longrightarrow> sd_last_valid_block_height d < h2
        \<Longrightarrow> sd_last_valid_block_height d < ss_last_block_height s1 \<Longrightarrow> (sig, d) \<notin> set (ss_unconfirmed t2)"
    by (rule check_confirmations_answers [OF ok1, where get_statuses = statuses2 and current = h2]) blast
  have "ss_unconfirmed s2 = ss_unconfirmed t2" using t2 assms(4) by auto
  then show ?thesis using gone [of sig d] a2 assms(5,6) by (auto simp: s1 answers_def)
qed



section \<open>Reachable states\<close>

text \<open>The steps of the clients and of the two tasks, with the handles of \<open>subscribe\<close>.\<close>

inductive send_step :: "'tx send_service \<Rightarrow> 'tx send_service \<Rightarrow> bool" where
  Subscribe: "subscribe s = (s', h) \<Longrightarrow> ss_next_source_id s \<notin> fst ` set (ss_subscribers s) \<Longrightarrow> send_step s s'"
| Send: "store_get (ss_subscribers s) (sh_id h) \<noteq> None
    \<Longrightarrow> send_transaction sign blockhash now h tx jito s = Inr (s', r) \<Longrightarrow> send_step s s'"
| Resend: "store_get (ss_subscribers s) (sh_id h) \<noteq> None
    \<Longrightarrow> resend_transaction sign blockhash now h tx txn_id jito s = Inr (s', r) \<Longrightarrow> send_step s s'"
| Dispatch: "send_next has_jito leaders s = (s', ds) \<Longrightarrow> send_step s s'"
| Check: "check_confirmations get_statuses current s = Inr s' \<Longrightarrow> send_step s s'"

inductive send_reachable :: "'tx send_service \<Rightarrow> 'tx send_service \<Rightarrow> bool" for s0 where
  Start: "send_reachable s0 s0"
| Step: "send_reachable s0 s \<Longrightarrow> send_step s s' \<Longrightarrow> send_reachable s0 s'"

inductive_cases send_stepE: "send_step s s'"

lemma send_ok_start: "send_ok (start_send_transaction_service c i h)"
  by (simp add: send_ok_def start_send_transaction_service_def)

lemma send_ok_subscribe: "send_ok s \<Longrightarrow> subscribe s = (s', h) \<Longrightarrow> send_ok s'"
  by (auto simp: subscribe_def next_source_id_def send_ok_def registered_def list_all_iff)

lemma send_ok_send:
  assumes "send_ok s" and "store_get (ss_subscribers s) (sh_id h) \<noteq> None"
    and "send_with_id sign blockhash now h tx i jito s = Inr (s', r)"
  shows "send_ok s'"
  using assms by (auto simp: send_with_id_def send_ok_def registered_def list_all_iff)

lemma send_ok_next: "send_ok s \<Longrightarrow> send_ok (fst (send_next has_jito leaders s))"
proof -
  have "x \<in> set (store_insert m k v) \<Longrightarrow> x \<in> set m \<or> x = (k, v)" for x m and k :: signature and v :: "'a send_transaction_data"
    by (induction m) (auto simp: store_insert_def split: if_splits)
  then show "send_ok s \<Longrightarrow> ?thesis"
    by (fastforce simp: send_next_def send_ok_def registered_def list_all_iff split: list.splits)
qed

lemma send_step_ok: "send_step s s' \<Longrightarrow> send_ok s \<Longrightarrow> send_ok s'"
proof (induction rule: send_step.induct)
  case (Send s h sign blockhash now tx jito s' r)
  have "send_ok (s\<lparr>ss_next_txn_id := c\<rparr>)" for c
    using Send.prems by (simp add: send_ok_def registered_def list_all_iff)
  then show ?case using Send send_ok_send by (fastforce simp: send_transaction_def next_transaction_id_def)
next
  case (Dispatch has_jito leaders s s' ds)
  then show ?case using send_ok_next [of s has_jito leaders] by simp
next
  case (Check get_statuses current s s')
  then show ?case using check_confirmations_balance [of s get_statuses current] by auto
qed (auto simp: resend_transaction_def dest: send_ok_subscribe send_ok_send)

text \<open>C34. In every state that the sending service reaches from its start, with clients that use the
  handles of \<open>subscribe\<close>, each waiting transaction is kept under its own signature and belongs to a
  registered subscriber; so no round of the confirmation task can panic there.\<close>

theorem send_service_invariant:
  assumes "send_reachable (start_send_transaction_service c i h) s"
  shows "send_ok s \<and> (\<exists>s'. check_confirmations get_statuses current s = Inr s')"
proof -
  have "send_ok s" using assms
    by (induction rule: send_reachable.induct) (auto intro: send_ok_start send_step_ok)
  then show ?thesis using check_confirmations_balance by blast
qed

theorem send_service_invariant_witness:
  "send_ok (fst (subscribe (start_send_transaction_service 1 1 0 :: nat send_service)))"
proof -
  have "send_reachable (start_send_transaction_service 1 1 0) (fst (subscribe (start_send_transaction_service 1 1 0 :: nat send_service)))"
    by (rule Step [OF Start], rule Subscribe [where h = "snd (subscribe (start_send_transaction_service 1 1 0 :: nat send_service))"])
      (simp_all add: start_send_transaction_service_def)
  from send_service_invariant [OF this] show ?thesis by blast
qed

text \<open>The handle that \<open>subscribe_all\<close> returns is usable for sending, but the service has no
  channel for it: as soon as a transaction sent with it expires, the confirmation task panics, and
  with it the confirmations of every other client end.\<close>

theorem subscribe_all_panics:
  assumes "subscribe_all s = (s1, h)" and "ss_next_source_id s \<notin> fst ` set (ss_subscribers s)"
    and "ss_new_transactions s = []" and "ss_unconfirmed s = []"
    and "send_transaction sign blockhash now h tx jito s1 = Inr (s2, r)"
    and "bn_last_valid_block_height blockhash < current" and "bn_last_valid_block_height blockhash < ss_last_block_height s"
  shows "check_confirmations get_statuses current (fst (send_next has_jito leaders s2))
    = Inl (Panic ''is valid confirmation id'')"
proof -
  let ?b = "bn_last_valid_block_height blockhash"
  obtain d where s2: "ss_new_transactions s2 = [d]" "ss_unconfirmed s2 = []" "ss_subscribers s2 = ss_subscribers s"
      "ss_last_block_height s2 = ss_last_block_height s"
    and d: "sd_last_valid_block_height d = ?b" "sd_source_id d = ss_next_source_id s"
    using assms(1,3-5) by (auto simp: subscribe_all_def next_source_id_def send_transaction_def next_transaction_id_def
        send_with_id_def)
  let ?s3 = "fst (send_next has_jito leaders s2)"
  have s3: "ss_unconfirmed ?s3 = [(sd_signature d, d)]" "ss_subscribers ?s3 = ss_subscribers s"
      "ss_last_block_height ?s3 = ss_last_block_height s"
    using s2 by (simp_all add: send_next_def store_insert_def)
  have "\<not> is_not_expired current d" "\<not> is_recently_expired (ss_last_block_height s) current d"
    using assms(6,7) d(1) by (auto simp: is_not_expired_def is_recently_expired_def)
  then have "transactions_to_verify current ?s3 = []" "expired_txns current ?s3 = [sd_signature d]"
    using s3 d(1) assms(6) by (simp_all add: transactions_to_verify_def expired_txns_def)
  moreover have "store_get (ss_subscribers s) (sd_source_id d) = None"
    using assms(2) d(2) by (simp add: store_get_None_iff)
  ultimately show ?thesis
    using s3 by (simp add: check_confirmations_def chunks.simps expire_one_def deliver_def expect_def store_get_def)
qed

theorem subscribe_all_panics_witness:
  "\<exists>s1 h s2 r. subscribe_all (start_send_transaction_service 1 1 50 :: nat send_service) = (s1, h)
     \<and> send_transaction (\<lambda>_ tx. Some (tx, 9)) \<lparr>bn_blockhash = 0, bn_last_valid_block_height = 40\<rparr> 0 h 3 False s1 = Inr (s2, r)
     \<and> check_confirmations (\<lambda>_. None) 60 (fst (send_next False [] s2)) = Inl (Panic ''is valid confirmation id'')"
proof -
  let ?s = "start_send_transaction_service 1 1 50 :: nat send_service"
  obtain s1 h where 1: "subscribe_all ?s = (s1, h)" by force
  obtain s2 r where 2: "send_transaction (\<lambda>_ tx. Some (tx, 9)) \<lparr>bn_blockhash = 0, bn_last_valid_block_height = 40\<rparr> 0 h 3 False s1
      = Inr (s2, r)"
    by (simp add: send_transaction_def next_transaction_id_def send_with_id_def expect_def)
  have "check_confirmations (\<lambda>_. None) 60 (fst (send_next False [] s2)) = Inl (Panic ''is valid confirmation id'')"
    by (rule subscribe_all_panics [OF 1 _ _ _ 2]) (simp_all add: start_send_transaction_service_def)
  with 1 2 show ?thesis by blast
qed

section \<open>Attempts\<close>

lemma retry_loop_calls:
  assumes "attempts \<le> m + 1"
  shows "length (fst (retry_loop delay task m attempts)) \<le> m + 1 - attempts"
    and "(\<forall>n. \<exists>e. task n = Inl e) \<Longrightarrow> length (fst (retry_loop delay task m attempts)) = m + 1 - attempts"
    and "snd (retry_loop delay task m attempts) = Inr x \<Longrightarrow> \<exists>n \<le> m + 1. task n = Inr x"
proof -
  have "length (fst (retry_loop delay task m attempts)) \<le> m + 1 - attempts
    \<and> ((\<forall>n. \<exists>e. task n = Inl e) \<longrightarrow> length (fst (retry_loop delay task m attempts)) = m + 1 - attempts)
    \<and> (snd (retry_loop delay task m attempts) = Inr x \<longrightarrow> (\<exists>n \<le> m + 1. task n = Inr x))"
    using assms
  proof (induction delay task m attempts rule: retry_loop.induct)
    case (1 delay task m attempts)
    show ?case
    proof (cases "task attempts")
      case (Inl e)
      show ?thesis
      proof (cases "m < attempts")
        case False
        note IH = "1.IH" [OF Inl False]
        show ?thesis using IH False Inl by (subst (1 2 3) retry_loop.simps) (auto split: prod.splits)
      qed (use "1.prems" Inl in \<open>auto simp: retry_loop.simps\<close>)
    next
      case (Inr r)
      then show ?thesis using "1.prems" by (auto simp: retry_loop.simps) (metis sum.simps(4))
    qed
  qed
  then show "length (fst (retry_loop delay task m attempts)) \<le> m + 1 - attempts"
    and "(\<forall>n. \<exists>e. task n = Inl e) \<Longrightarrow> length (fst (retry_loop delay task m attempts)) = m + 1 - attempts"
    and "snd (retry_loop delay task m attempts) = Inr x \<Longrightarrow> \<exists>n \<le> m + 1. task n = Inr x" by blast+
qed

text \<open>The retry task always ends, after at most \<open>max_attempts + 1\<close> pauses, that is after at most
  \<open>max_attempts + 2\<close> calls, and it makes that many when every call fails; a result it returns is the
  result of one of these calls.\<close>

theorem retry_task_calls:
  "length (fst (spawn_retry_task task m delay)) \<le> m + 1
   \<and> (length (fst (spawn_retry_task (\<lambda>_. Inl e) m delay)) = m + 1)
   \<and> (case snd (spawn_retry_task task m delay) of Inr x \<Rightarrow> \<exists>n. n \<le> m + 1 \<and> task n = Inr x | Inl _ \<Rightarrow> True)"
  using retry_loop_calls [where attempts = 0 and m = m and delay = "\<lambda>_. delay" and task = task]
    retry_loop_calls(2) [where attempts = 0 and m = m and delay = "\<lambda>_. delay" and task = "\<lambda>_. Inl e"]
  by (auto simp: spawn_retry_task_def split: sum.splits)

end
