(* ===== verification/Dust.thy ===== *)
theory Dust
  imports Builder Sending
begin

text \<open>
  Moving dust to another wallet (\<open>DustTracker\<close> of \<^verbatim>\<open>services/copy/v2/dust.rs\<close>). The list of amounts is
  locked while it is processed, so that one call is one step; every chunk is simulated and sent through
  the sending service. The simulation, the message compiler and signing are arguments. A transaction
  without a swap has no swap instruction: the type parameter of the instructions is \<open>unit\<close>.
\<close>

type_synonym dust_instruction = "unit instruction"

record dust_tracker =
  du_dust_amounts :: "(pubkey \<times> u64) list"
  du_copy_wallet :: pubkey
  du_destination_wallet :: pubkey
  du_jito_tip_amount :: u64

definition dust_tracker_new :: "pubkey \<Rightarrow> pubkey \<Rightarrow> dust_tracker" where
  "dust_tracker_new wallet destination = \<lparr>du_dust_amounts = [], du_copy_wallet = wallet,
     du_destination_wallet = destination, du_jito_tip_amount = 50000\<rparr>"

definition set_jito_tip_amount :: "u64 \<Rightarrow> dust_tracker \<Rightarrow> dust_tracker" where
  "set_jito_tip_amount tip t = t\<lparr>du_jito_tip_amount := tip\<rparr>"

definition add_transfer_amount :: "pubkey \<Rightarrow> u64 \<Rightarrow> dust_tracker \<Rightarrow> dust_tracker" where
  "add_transfer_amount mint amount t =
     (if amount \<noteq> 0 then t\<lparr>du_dust_amounts := du_dust_amounts t @ [(mint, amount)]\<rparr> else t)"

definition DUST_CHUNK_SIZE :: nat where
  "DUST_CHUNK_SIZE = 7"

definition dust_transfer :: "token_sdk \<Rightarrow> dust_tracker \<Rightarrow> pubkey \<times> u64 \<Rightarrow> dust_instruction list" where
  "dust_transfer tok t = (\<lambda>(token, amount).
     let source_ata = ts_ata tok (du_copy_wallet t) token (ts_token_program tok);
         destination_ata = ts_ata tok (du_destination_wallet t) token (ts_token_program tok)
     in [CreateAtaIdempotent (du_copy_wallet t) (du_destination_wallet t) token (ts_token_program tok),
         TokenTransfer (ts_token_program tok) source_ata destination_ata (du_copy_wallet t) amount])"

text \<open>The tip instruction of line 102 is built and dropped.\<close>

definition dust_instructions :: "token_sdk \<Rightarrow> dust_tracker \<Rightarrow> (pubkey \<times> u64) list \<Rightarrow> dust_instruction list" where
  "dust_instructions tok t chunk = concat (map (dust_transfer tok t) chunk)"

definition with_limit :: "u64 option \<Rightarrow> dust_instruction list \<Rightarrow> dust_instruction list" where
  "with_limit dynamic_cu ixs = (case Option.bind dynamic_cu try_from of
     Some cu \<Rightarrow> SetComputeUnitLimit (cu + 100000) # ixs
   | None \<Rightarrow> ixs)"

record 'msg dust_sdk =
  ds_tokens :: token_sdk
  ds_message :: "(unit, 'msg) message_sdk"
  ds_simulate :: "'msg built_transaction \<Rightarrow> u64 option result"
  ds_sign :: "hash \<Rightarrow> 'msg built_transaction \<Rightarrow> ('msg built_transaction \<times> signature) option"

definition dust_chunk ::
  "'msg dust_sdk \<Rightarrow> blockhash_notification \<Rightarrow> instant \<Rightarrow> dust_tracker \<Rightarrow> (pubkey \<times> u64) list
     \<Rightarrow> 'msg built_transaction send_service \<times> send_handle
     \<Rightarrow> ('msg built_transaction send_service \<times> send_handle) result" where
  "dust_chunk sdk blockhash now t chunk = (\<lambda>(s, h).
     let ixs = dust_instructions (ds_tokens sdk) t chunk;
         txn = \<lparr>bt_signatures = [0], bt_message = ms_new (ds_message sdk) ixs (Some (du_copy_wallet t))\<rparr>
     in bind_res (ds_simulate sdk txn) (\<lambda>dynamic_cu.
        let txn = \<lparr>bt_signatures = [0],
              bt_message = ms_new (ds_message sdk) (with_limit dynamic_cu ixs) (Some (du_copy_wallet t))\<rparr>
        in bind_res (send_transaction (ds_sign sdk) blockhash now h txn True s) (\<lambda>(s, h, _, _). Inr (s, h))))"

text \<open>The chunks before the one that fails have been sent.\<close>

fun dust_chunks ::
  "((pubkey \<times> u64) list \<Rightarrow> 's \<Rightarrow> 's result) \<Rightarrow> (pubkey \<times> u64) list list \<Rightarrow> 's \<Rightarrow> 's \<times> unit result" where
  "dust_chunks send [] s = (s, Inr ())"
| "dust_chunks send (chunk # rest) s = (case send chunk s of
     Inl e \<Rightarrow> (s, Inl e)
   | Inr s \<Rightarrow> dust_chunks send rest s)"

definition process_dust ::
  "'msg dust_sdk \<Rightarrow> blockhash_notification \<Rightarrow> instant \<Rightarrow> dust_tracker
     \<Rightarrow> 'msg built_transaction send_service \<times> send_handle
     \<Rightarrow> dust_tracker \<times> ('msg built_transaction send_service \<times> send_handle) \<times> unit result" where
  "process_dust sdk blockhash now t sh =
     (if du_dust_amounts t = [] then (t, sh, Inr ())
      else case dust_chunks (dust_chunk sdk blockhash now t) (chunks DUST_CHUNK_SIZE (du_dust_amounts t)) sh of
             (sh, Inr _) \<Rightarrow> (t\<lparr>du_dust_amounts := []\<rparr>, sh, Inr ())
           | (sh, Inl e) \<Rightarrow> (t, sh, Inl e))"

section \<open>What is sent\<close>

text \<open>The token transfers of a list of instructions.\<close>

fun transfers :: "'s instruction list \<Rightarrow> (pubkey \<times> u64) list" where
  "transfers [] = []"
| "transfers (TokenTransfer p src dst own amount # ixs) = (dst, amount) # transfers ixs"
| "transfers (_ # ixs) = transfers ixs"

lemma transfers_append [simp]: "transfers (xs @ ys) = transfers xs @ transfers ys"
  by (induction xs rule: transfers.induct) simp_all

definition owed_dust :: "token_sdk \<Rightarrow> dust_tracker \<Rightarrow> (pubkey \<times> u64) list \<Rightarrow> (pubkey \<times> u64) list" where
  "owed_dust tok t = map (\<lambda>(token, amount).
     (ts_ata tok (du_destination_wallet t) token (ts_token_program tok), amount))"

lemma transfers_dust: "transfers (with_limit cu (dust_instructions tok t chunk)) = owed_dust tok t chunk"
proof -
  have "transfers (dust_instructions tok t chunk) = owed_dust tok t chunk"
    by (induction chunk) (auto simp: dust_instructions_def dust_transfer_def owed_dust_def Let_def)
  then show ?thesis by (simp add: with_limit_def split: option.splits)
qed

text \<open>What the service has been handed to send, read through the instructions of a message.\<close>

definition handed_over ::
  "('msg \<Rightarrow> dust_instruction list) \<Rightarrow> 'msg built_transaction send_service \<Rightarrow> (pubkey \<times> u64) list" where
  "handed_over ixs_of s = concat (map (\<lambda>d. transfers (ixs_of (bt_message (sd_transaction d)))) (ss_new_transactions s))"

text \<open>The message compiler keeps the instructions and signing keeps the message.\<close>

definition faithful_sdk :: "'msg dust_sdk \<Rightarrow> ('msg \<Rightarrow> dust_instruction list) \<Rightarrow> bool" where
  "faithful_sdk sdk ixs_of \<longleftrightarrow> (\<forall>ixs payer. ixs_of (ms_new (ds_message sdk) ixs payer) = ixs)
     \<and> (\<forall>h tx tx' sig. ds_sign sdk h tx = Some (tx', sig) \<longrightarrow> ixs_of (bt_message tx') = ixs_of (bt_message tx))"

lemma dust_chunk_hands_over:
  assumes "faithful_sdk sdk ixs_of" and "dust_chunk sdk blockhash now t chunk sh = Inr sh'"
  shows "handed_over ixs_of (fst sh') = handed_over ixs_of (fst sh) @ owed_dust (ds_tokens sdk) t chunk"
proof -
  let ?m = "\<lambda>cu. ms_new (ds_message sdk) (with_limit cu (dust_instructions (ds_tokens sdk) t chunk)) (Some (du_copy_wallet t))"
  obtain cu tx' sig d where
    sign: "ds_sign sdk (bn_blockhash blockhash) \<lparr>bt_signatures = [0], bt_message = ?m cu\<rparr> = Some (tx', sig)"
    and new: "ss_new_transactions (fst sh') = ss_new_transactions (fst sh) @ [d]" "sd_transaction d = tx'"
    using assms(2)
    by (auto simp: dust_chunk_def Let_def send_transaction_def next_transaction_id_def send_with_id_def expect_def
        split: prod.splits option.splits)
  have "ixs_of (bt_message tx') = ixs_of (?m cu)"
    using assms(1) sign unfolding faithful_sdk_def by (metis built_transaction.select_convs(2))
  then have "transfers (ixs_of (bt_message tx')) = owed_dust (ds_tokens sdk) t chunk"
    using assms(1) by (simp add: faithful_sdk_def transfers_dust)
  then show ?thesis by (simp add: handed_over_def new)
qed

lemma dust_chunks_hand_over:
  assumes "faithful_sdk sdk ixs_of" and "dust_chunks (dust_chunk sdk blockhash now t) cs sh = (sh', r)"
  shows "\<exists>n \<le> length cs. handed_over ixs_of (fst sh')
      = handed_over ixs_of (fst sh) @ owed_dust (ds_tokens sdk) t (concat (take n cs)) \<and> (r = Inr () \<longrightarrow> n = length cs)
      \<and> (\<forall>e. r = Inl e \<longrightarrow> n < length cs)"
  using assms(2)
proof (induction cs arbitrary: sh)
  case (Cons c cs)
  show ?case
  proof (cases "dust_chunk sdk blockhash now t c sh")
    case (Inl e)
    then show ?thesis using Cons.prems by (intro exI [of _ 0]) (auto simp: owed_dust_def)
  next
    case (Inr s1)
    obtain n where n: "n \<le> length cs" "handed_over ixs_of (fst sh')
        = handed_over ixs_of (fst s1) @ owed_dust (ds_tokens sdk) t (concat (take n cs))"
        "r = Inr () \<longrightarrow> n = length cs" "\<forall>e. r = Inl e \<longrightarrow> n < length cs"
      using Cons.IH [of s1] Cons.prems Inr by auto
    then show ?thesis
      using dust_chunk_hands_over [OF assms(1) Inr] by (intro exI [of _ "Suc n"]) (auto simp: owed_dust_def)
  qed
qed (auto simp: owed_dust_def)

text \<open>C36. When the dust is processed without an error, exactly the recorded amounts have been handed to
  the sending service, each once, in order and to the accounts of the destination wallet, in
  transactions of at most seven transfers; and the list is empty afterwards.\<close>

theorem processed_dust_sent_once:
  assumes "faithful_sdk sdk ixs_of" and "process_dust sdk blockhash now t sh = (t', sh', Inr ())"
  shows "du_dust_amounts t' = []
    \<and> handed_over ixs_of (fst sh') = handed_over ixs_of (fst sh) @ owed_dust (ds_tokens sdk) t (du_dust_amounts t)
    \<and> (\<forall>c \<in> set (chunks DUST_CHUNK_SIZE (du_dust_amounts t)). 0 < length c \<and> length c \<le> 7)"
proof -
  have c: "concat (chunks DUST_CHUNK_SIZE (du_dust_amounts t)) = du_dust_amounts t"
    by (simp add: concat_chunks DUST_CHUNK_SIZE_def)
  have "\<forall>c \<in> set (chunks DUST_CHUNK_SIZE (du_dust_amounts t)). 0 < length c \<and> length c \<le> 7"
    using chunks_length [of _ DUST_CHUNK_SIZE "du_dust_amounts t"] by (auto simp: DUST_CHUNK_SIZE_def)
  moreover have "du_dust_amounts t' = []
    \<and> handed_over ixs_of (fst sh') = handed_over ixs_of (fst sh) @ owed_dust (ds_tokens sdk) t (du_dust_amounts t)"
  proof (cases "du_dust_amounts t = []")
    case True
    then show ?thesis using assms(2) by (simp add: process_dust_def owed_dust_def)
  next
    case False
    then have d: "dust_chunks (dust_chunk sdk blockhash now t) (chunks DUST_CHUNK_SIZE (du_dust_amounts t)) sh = (sh', Inr ())"
        "t' = t\<lparr>du_dust_amounts := []\<rparr>"
      using assms(2) by (auto simp: process_dust_def split: prod.splits sum.splits)
    show ?thesis using dust_chunks_hand_over [OF assms(1) d(1)] d(2) c by auto
  qed
  ultimately show ?thesis by blast
qed

text \<open>When a chunk fails, the recorded amounts stay as they are, those of the chunks before it
  included, although these have been handed over: the next call sends them a second time.\<close>

theorem failed_dust_resent:
  assumes "faithful_sdk sdk ixs_of" and "process_dust sdk blockhash now t sh = (t', sh', Inl e)"
  shows "t' = t \<and> (\<exists>n < length (chunks DUST_CHUNK_SIZE (du_dust_amounts t)). handed_over ixs_of (fst sh')
      = handed_over ixs_of (fst sh)
        @ owed_dust (ds_tokens sdk) t (concat (take n (chunks DUST_CHUNK_SIZE (du_dust_amounts t)))))"
proof -
  have d: "dust_chunks (dust_chunk sdk blockhash now t) (chunks DUST_CHUNK_SIZE (du_dust_amounts t)) sh = (sh', Inl e)"
      "t' = t"
    using assms(2) by (auto simp: process_dust_def split: if_splits prod.splits sum.splits)
  show ?thesis using dust_chunks_hand_over [OF assms(1) d(1)] d(2) by blast
qed

definition example_dust_sdk :: "dust_instruction list dust_sdk" where
  "example_dust_sdk = \<lparr>ds_tokens = \<lparr>ts_ata = (\<lambda>w m p. w + m + p), ts_token_program = 6, ts_native = SOL\<rparr>,
     ds_message = \<lparr>ms_new = (\<lambda>ixs _. ixs), ms_set_recent_blockhash = (\<lambda>_ m. m)\<rparr>,
     ds_simulate = (\<lambda>tx. if length (bt_message tx) < 4 then Inl (Error ''rpc'') else Inr (Some 5000)),
     ds_sign = (\<lambda>_ tx. Some (tx, 9))\<rparr>"

definition example_blockhash :: blockhash_notification where
  "example_blockhash = \<lparr>bn_blockhash = 1, bn_last_valid_block_height = 100\<rparr>"

definition example_dust :: "nat \<Rightarrow> dust_tracker" where
  "example_dust n = (dust_tracker_new 10 20)\<lparr>du_dust_amounts := map (\<lambda>i. (of_nat i, 7)) [0..<n]\<rparr>"

definition example_dust_service :: "dust_instruction list built_transaction send_service \<times> send_handle" where
  "example_dust_service = subscribe (start_send_transaction_service 1 1 0)"

lemma example_dust_faithful: "faithful_sdk example_dust_sdk (\<lambda>m. m)"
  by (simp add: faithful_sdk_def example_dust_sdk_def)

lemmas example_dust_eval = process_dust_def example_dust_def dust_tracker_new_def example_dust_service_def
  chunks.simps DUST_CHUNK_SIZE_def dust_chunk_def example_dust_sdk_def dust_instructions_def dust_transfer_def
  subscribe_def next_source_id_def send_transaction_def next_transaction_id_def send_with_id_def expect_def
  start_send_transaction_service_def Let_def

theorem processed_dust_sent_once_witness:
  "\<exists>t' sh'. process_dust example_dust_sdk example_blockhash 0 (example_dust 2) example_dust_service = (t', sh', Inr ())
     \<and> du_dust_amounts t' = [] \<and> handed_over (\<lambda>m. m) (fst sh') = [(26, 7), (27, 7)]"
proof -
  have "\<exists>t' sh'. process_dust example_dust_sdk example_blockhash 0 (example_dust 2) example_dust_service = (t', sh', Inr ())"
    by (simp add: example_dust_eval upt_rec)
  then obtain t' sh' where p: "process_dust example_dust_sdk example_blockhash 0 (example_dust 2) example_dust_service
      = (t', sh', Inr ())" by blast
  have "handed_over (\<lambda>m. m) (fst example_dust_service) = []"
    "owed_dust (ds_tokens example_dust_sdk) (example_dust 2) (du_dust_amounts (example_dust 2)) = [(26, 7), (27, 7)]"
    by (simp_all add: handed_over_def owed_dust_def example_dust_eval upt_rec)
  with processed_dust_sent_once [OF example_dust_faithful p] p show ?thesis by auto
qed

theorem failed_dust_resent_witness:
  "\<exists>sh' e. process_dust example_dust_sdk example_blockhash 0 (example_dust 8) example_dust_service
      = (example_dust 8, sh', Inl e)"
proof -
  have "\<exists>t' sh' e. process_dust example_dust_sdk example_blockhash 0 (example_dust 8) example_dust_service = (t', sh', Inl e)"
    by (simp add: example_dust_eval upt_rec)
  then obtain t' sh' e where p: "process_dust example_dust_sdk example_blockhash 0 (example_dust 8) example_dust_service
      = (t', sh', Inl e)" by blast
  with failed_dust_resent [OF example_dust_faithful p] show ?thesis by auto
qed

end
