(* ===== verification/Decode.thy ===== *)
theory Decode
  imports Transaction "HOL-Library.Multiset"
begin

text \<open>
  From the wire to a transaction: the conversions of an RPC answer and of a Geyser update
  (\<^verbatim>\<open>core/types/transaction.rs\<close>, \<^verbatim>\<open>core/traits/txn_extensions.rs\<close>), the keys of address lookup tables,
  the priority details (\<^verbatim>\<open>utils/fees.rs\<close>), blocks (\<^verbatim>\<open>core/types/block.rs\<close>) and the filters of
  \<^verbatim>\<open>core/traits/txn_filters.rs\<close>. Decoding bytes, the check of a message, the reading of the compute
  budget program's instructions and the RPC client are the SDK's: arguments, gathered in records.
\<close>

section \<open>Priority details\<close>

record versioned_transaction =
  vt_signatures :: "signature list"
  vt_message :: versioned_message

text \<open>\<open>process_compute_budget_instructions\<close> pulls its instructions from an iterator: a start, a step
  per instruction, which may end it with an error, and the limit and price at the end.
  \<open>bs_fee\<close> is \<open>PrioritizationFeeDetails::new(ComputeUnitPrice(price), limit).get_fee()\<close>.\<close>

record 'c budget_sdk =
  bs_default_limit :: u32
  bs_max_limit :: u32
  bs_unpack_limit :: "u8 list \<Rightarrow> u32 option"
  bs_init :: 'c
  bs_step :: "'c \<Rightarrow> pubkey \<times> compiled_instruction \<Rightarrow> 'c option"
  bs_finish :: "'c \<Rightarrow> (u32 \<times> u64) option"
  bs_fee :: "u64 \<Rightarrow> u64 \<Rightarrow> u64"

definition from_cu_price :: "'c budget_sdk \<Rightarrow> u64 \<Rightarrow> u32 option \<Rightarrow> priority_details" where
  "from_cu_price sdk cu_price_microlamports cu_limit =
     (let cu_limit = unwrap_or cu_limit (bs_default_limit sdk)
      in \<lparr>pd_priority_fee = bs_fee sdk cu_price_microlamports (ucast cu_limit),
          pd_compute_unit_limit = cu_limit, pd_compute_unit_price = cu_price_microlamports\<rparr>)"

definition no_priority :: "u32 \<Rightarrow> priority_details" where
  "no_priority limit = \<lparr>pd_priority_fee = 0, pd_compute_unit_limit = limit, pd_compute_unit_price = 0\<rparr>"

definition limits_to_details :: "'c budget_sdk \<Rightarrow> u32 \<Rightarrow> (u32 \<times> u64) option \<Rightarrow> priority_details" where
  "limits_to_details sdk fallback limits = (case limits of
       Some (limit, cu_price) \<Rightarrow> \<lparr>pd_priority_fee = bs_fee sdk cu_price (ucast limit),
         pd_compute_unit_limit = limit, pd_compute_unit_price = cu_price\<rparr>
     | None \<Rightarrow> no_priority fallback)"

fun consume_pairs :: "'c budget_sdk \<Rightarrow> 'c \<Rightarrow> (pubkey \<times> compiled_instruction) list \<Rightarrow> (u32 \<times> u64) option" where
  "consume_pairs sdk c [] = bs_finish sdk c"
| "consume_pairs sdk c (x # xs) = (case bs_step sdk c x of None \<Rightarrow> None | Some c \<Rightarrow> consume_pairs sdk c xs)"

definition from_iterator :: "'c budget_sdk \<Rightarrow> (pubkey \<times> compiled_instruction) list \<Rightarrow> priority_details" where
  "from_iterator sdk instructions =
     limits_to_details sdk (bs_default_limit sdk) (consume_pairs sdk (bs_init sdk) instructions)"

text \<open>The iterator of \<open>priority_details_from_instructions\<close> looks up the program of an instruction
  when the instruction is pulled, and remembers the last compute limit it saw.\<close>

fun consume_instructions ::
  "'c budget_sdk \<Rightarrow> pubkey list \<Rightarrow> u32 \<Rightarrow> 'c \<Rightarrow> compiled_instruction list
     \<Rightarrow> (u32 \<times> (u32 \<times> u64) option) result" where
  "consume_instructions sdk keys limit c [] = Inr (limit, bs_finish sdk c)"
| "consume_instructions sdk keys limit c (ix # ixs) =
     (let limit = (case bs_unpack_limit sdk (ci_data ix) of
            Some l \<Rightarrow> min l (bs_max_limit sdk) | None \<Rightarrow> limit)
      in bind_res (expect (nth_opt keys (unat (ci_program_id_index ix))) ''program id index is sanitized'')
           (\<lambda>program. case bs_step sdk c (program, ix) of
              None \<Rightarrow> Inr (limit, None)
            | Some c \<Rightarrow> consume_instructions sdk keys limit c ixs))"

definition priority_details_from_instructions ::
  "'c budget_sdk \<Rightarrow> compiled_instruction list \<Rightarrow> pubkey list \<Rightarrow> priority_details result" where
  "priority_details_from_instructions sdk instructions static_account_keys =
     bind_res (consume_instructions sdk static_account_keys (bs_default_limit sdk) (bs_init sdk) instructions)
       (\<lambda>(fallback, limits). Inr (limits_to_details sdk fallback limits))"

definition from_versioned_message ::
  "'c budget_sdk \<Rightarrow> (versioned_message \<Rightarrow> bool) \<Rightarrow> versioned_message \<Rightarrow> priority_details result" where
  "from_versioned_message sdk sanitize message =
     (if sanitize message
      then priority_details_from_instructions sdk (vm_instructions message) (vm_static_account_keys message)
      else Inr (no_priority (bs_default_limit sdk)))"

definition from_versioned_transaction ::
  "'c budget_sdk \<Rightarrow> (versioned_transaction \<Rightarrow> bool) \<Rightarrow> versioned_transaction \<Rightarrow> priority_details result" where
  "from_versioned_transaction sdk sanitize transaction =
     (if sanitize transaction
      then priority_details_from_instructions sdk (vm_instructions (vt_message transaction))
             (vm_static_account_keys (vt_message transaction))
      else Inr (no_priority (bs_default_limit sdk)))"

section \<open>Meta data\<close>

definition compile_inner :: "(string \<Rightarrow> u8 list option) \<Rightarrow> ui_instruction \<Rightarrow> compiled_instruction list result" where
  "compile_inner bs58 ix = (case ix of
       UiCompiled p accounts data \<Rightarrow>
         bind_res (expect (bs58 data) ''called `Result::unwrap()` on an `Err` value'') (\<lambda>bytes.
         Inr [\<lparr>ci_program_id_index = p, ci_accounts = accounts, ci_data = bytes\<rparr>])
     | UiParsed \<Rightarrow> Inr [])"

definition extract_compiled_inner_instructions ::
  "(string \<Rightarrow> u8 list option) \<Rightarrow> tx_meta \<Rightarrow> (u8, compiled_instruction list) store option result" where
  "extract_compiled_inner_instructions bs58 meta = (case tm_inner_instructions meta of
       None \<Rightarrow> Inr None
     | Some inner \<Rightarrow>
         bind_res (collect_results (\<lambda>(index, ixs).
             bind_res (collect_results (compile_inner bs58) ixs) (\<lambda>ixs. Inr (index, concat ixs))) inner)
           (\<lambda>entries. Inr (Some (store_from_list entries))))"

definition parse_keys :: "(string \<Rightarrow> pubkey option) \<Rightarrow> string list \<Rightarrow> pubkey list result" where
  "parse_keys from_str = collect_results (\<lambda>s. expect (from_str s) ''called `Result::unwrap()` on an `Err` value'')"

text \<open>The readonly keys are parsed first.\<close>

definition extract_loaded_addresses ::
  "(string \<Rightarrow> pubkey option) \<Rightarrow> tx_meta option \<Rightarrow> loaded_addresses option result" where
  "extract_loaded_addresses from_str meta = (case Option.bind meta tm_loaded_addresses of
       None \<Rightarrow> Inr None
     | Some (writable, readonly) \<Rightarrow>
         bind_res (parse_keys from_str readonly) (\<lambda>readonly.
         bind_res (parse_keys from_str writable) (\<lambda>writable.
         Inr (Some \<lparr>la_writable = writable, la_readonly = readonly\<rparr>))))"

section \<open>Decoding\<close>

record ('enc, 'c) decode_sdk =
  ds_decode :: "'enc \<Rightarrow> versioned_transaction option"
  ds_vote_program :: pubkey
  ds_is_simple_vote :: "u8 list \<Rightarrow> bool"
  ds_bs58 :: "string \<Rightarrow> u8 list option"
  ds_is_maybe_writable :: "versioned_message \<Rightarrow> nat \<Rightarrow> bool"
  ds_sanitize :: "versioned_transaction \<Rightarrow> bool"
  ds_budget :: "'c budget_sdk"

record 'enc encoded_transaction =
  et_transaction :: 'enc
  et_meta :: "tx_meta option"

fun any_vote :: "('enc, 'c) decode_sdk \<Rightarrow> pubkey list \<Rightarrow> compiled_instruction list \<Rightarrow> bool result" where
  "any_vote sdk keys [] = Inr False"
| "any_vote sdk keys (ix # ixs) =
     bind_res (expect (nth_opt keys (unat (ci_program_id_index ix))) ''index out of bounds'') (\<lambda>program.
     if program = ds_vote_program sdk \<and> ds_is_simple_vote sdk (ci_data ix) then Inr True
     else any_vote sdk keys ixs)"

definition accounts_by ::
  "(nat \<Rightarrow> bool) \<Rightarrow> pubkey list \<Rightarrow> pubkey list" where
  "accounts_by P keys = map snd (filter (\<lambda>(i, k). P i) (enumerate 0 keys))"

definition inner_of ::
  "('enc, 'c) decode_sdk \<Rightarrow> tx_meta option \<Rightarrow> (u8, compiled_instruction list) store option result" where
  "inner_of sdk meta = (case meta of None \<Rightarrow> Inr None | Some m \<Rightarrow> extract_compiled_inner_instructions (ds_bs58 sdk) m)"

definition to_unified_transaction ::
  "('enc, 'c) decode_sdk \<Rightarrow> 'enc encoded_transaction \<Rightarrow> u64 \<Rightarrow> int option \<Rightarrow> itransaction option result" where
  "to_unified_transaction sdk e slot block_time = (case ds_decode sdk (et_transaction e) of
       None \<Rightarrow> Inr None
     | Some v \<Rightarrow>
         let message = vt_message v; keys = vm_static_account_keys message; meta = et_meta e
         in bind_res (any_vote sdk keys (vm_instructions message)) (\<lambda>is_vote_transaction.
            bind_res (from_versioned_transaction (ds_budget sdk) (ds_sanitize sdk) v) (\<lambda>priority_details.
            bind_res (inner_of sdk meta) (\<lambda>inner_instructions.
            bind_res (expect (nth_opt (vt_signatures v) 0) ''index out of bounds'') (\<lambda>signature.
            Inr (Some \<lparr>tx_signature = signature, tx_message = message, tx_slot = slot,
              tx_loaded_addresses = None, tx_meta_opt = meta, tx_err = Option.bind meta tm_err,
              tx_priority_details = priority_details,
              tx_compute_units_consumed = Option.bind meta tm_compute_units_consumed,
              tx_recent_blockhash = vm_recent_blockhash message,
              tx_inner_instructions = inner_instructions, tx_is_vote_transaction = is_vote_transaction,
              tx_address_table_lookups = unwrap_or (vm_address_table_lookups message) [],
              tx_readable_accounts = accounts_by (\<lambda>i. \<not> ds_is_maybe_writable sdk message i) keys,
              tx_writable_accounts = accounts_by (ds_is_maybe_writable sdk message) keys,
              tx_block_time = block_time\<rparr>))))))"

definition itransaction_try_from ::
  "('enc, 'c) decode_sdk \<Rightarrow> 'enc encoded_transaction \<Rightarrow> u64 \<Rightarrow> int option \<Rightarrow> itransaction result" where
  "itransaction_try_from sdk e slot block_time =
     bind_res (to_unified_transaction sdk e slot block_time) (\<lambda>tx.
     ok_or tx ''Failed decoding transaction'')"

text \<open>A Geyser update; \<open>gs_versioned\<close>, \<open>gs_meta\<close> and \<open>gs_signature\<close> are the conversions of the
  proto crate and of the SDK.\<close>

record ('ptx, 'pmeta) geyser_info =
  gi_transaction :: "'ptx option"
  gi_meta :: "'pmeta option"
  gi_signature :: "u8 list"

record ('ptx, 'pmeta) geyser_sdk =
  gs_versioned :: "'ptx \<Rightarrow> versioned_transaction result"
  gs_meta :: "'pmeta \<Rightarrow> tx_meta option"
  gs_signature :: "u8 list \<Rightarrow> signature option"

definition geyser_try_from ::
  "('enc, 'c) decode_sdk \<Rightarrow> ('ptx, 'pmeta) geyser_sdk \<Rightarrow> ('ptx, 'pmeta) geyser_info option \<Rightarrow> u64
     \<Rightarrow> itransaction result" where
  "geyser_try_from sdk gs info slot =
     bind_res (ok_or info ''No transaction data in Geyser update'') (\<lambda>info.
     bind_res (ok_or (gi_transaction info) ''No transaction data in Geyser update'') (\<lambda>transaction.
     bind_res (gs_versioned gs transaction) (\<lambda>v.
     let message = vt_message v; keys = vm_static_account_keys message
     in bind_res (any_vote sdk keys (vm_instructions message)) (\<lambda>is_vote_transaction.
        bind_res (from_versioned_transaction (ds_budget sdk) (ds_sanitize sdk) v) (\<lambda>priority_details.
        bind_res (ok_or (gs_signature gs (gi_signature info)) ''Failed converting signature from u8 array'')
          (\<lambda>signature.
        let meta = Option.bind (gi_meta info) (gs_meta gs)
        in bind_res (inner_of sdk meta) (\<lambda>inner_instructions.
           Inr \<lparr>tx_signature = signature, tx_message = message, tx_slot = slot,
              tx_loaded_addresses = None, tx_meta_opt = meta, tx_err = Option.bind meta tm_err,
              tx_priority_details = priority_details,
              tx_compute_units_consumed = Option.bind meta tm_compute_units_consumed,
              tx_recent_blockhash = vm_recent_blockhash message,
              tx_inner_instructions = inner_instructions, tx_is_vote_transaction = is_vote_transaction,
              tx_address_table_lookups = unwrap_or (vm_address_table_lookups message) [],
              tx_readable_accounts = accounts_by (\<lambda>i. \<not> ds_is_maybe_writable sdk message i) keys,
              tx_writable_accounts = accounts_by (ds_is_maybe_writable sdk message) keys,
              tx_block_time = Some 0\<rparr>)))))))"

section \<open>Address lookup tables\<close>

text \<open>The RPC client's accounts (\<open>None\<close> for a missing one) and \<open>AddressLookupTable::deserialize\<close>.\<close>

record table_sdk =
  lt_get_multiple_accounts :: "pubkey list \<Rightarrow> u8 list option list result"
  lt_deserialize :: "u8 list \<Rightarrow> pubkey list option"

definition table_entries :: "pubkey list \<Rightarrow> u8 list \<Rightarrow> pubkey list result" where
  "table_entries table = collect_results (\<lambda>i.
     ok_or (nth_opt table (unat i)) ''account lookup went out of bounds of address lookup table'')"

definition load_table ::
  "table_sdk \<Rightarrow> address_table_lookup list \<Rightarrow> nat \<times> u8 list option \<Rightarrow> loaded_addresses result" where
  "load_table sdk lookups = (\<lambda>(i, account).
     bind_res (ok_or account ''Failed to get account for address table lookup'') (\<lambda>data.
     bind_res (ok_or (lt_deserialize sdk data) ''failed to deserialize account lookup table'') (\<lambda>table.
     bind_res (expect (nth_opt lookups i) ''index out of bounds'') (\<lambda>lookup.
     bind_res (table_entries table (lk_writable_indexes lookup)) (\<lambda>writable.
     bind_res (table_entries table (lk_readonly_indexes lookup)) (\<lambda>readonly.
     Inr \<lparr>la_writable = writable, la_readonly = readonly\<rparr>))))))"

definition lookup_addresses ::
  "table_sdk \<Rightarrow> address_table_lookup list \<Rightarrow> loaded_addresses result" where
  "lookup_addresses sdk lookups =
     bind_res (lt_get_multiple_accounts sdk (map lk_account_key lookups)) (\<lambda>accounts.
     bind_res (collect_results (load_table sdk lookups) (enumerate 0 accounts)) (\<lambda>loaded.
     Inr \<lparr>la_writable = concat (map la_writable loaded), la_readonly = concat (map la_readonly loaded)\<rparr>))"

definition load_keys :: "table_sdk \<Rightarrow> itransaction \<Rightarrow> itransaction result" where
  "load_keys sdk tx = (case vm_address_table_lookups (tx_message tx) of
       Some (l # lookups) \<Rightarrow>
         (case lookup_addresses sdk (l # lookups) of
            Inr addresses \<Rightarrow> Inr (tx\<lparr>tx_loaded_addresses := Some addresses\<rparr>)
          | Inl (Error e) \<Rightarrow> Inl (Error ''Failed lookup for tx'')
          | Inl (Panic e) \<Rightarrow> Inl (Panic e))
     | _ \<Rightarrow> Inr tx)"

definition extract_or_load_additional_keys ::
  "table_sdk \<Rightarrow> (string \<Rightarrow> pubkey option) \<Rightarrow> itransaction \<Rightarrow> itransaction result" where
  "extract_or_load_additional_keys sdk from_str tx =
     bind_res (extract_loaded_addresses from_str (tx_meta_opt tx)) (\<lambda>loaded. case loaded of
       Some l \<Rightarrow> Inr (tx\<lparr>tx_loaded_addresses := Some l\<rparr>)
     | None \<Rightarrow> load_keys sdk tx)"

section \<open>Blocks\<close>

datatype reward_type = RewardFee | RewardOther

record reward =
  rw_pubkey :: string
  rw_reward_type :: "reward_type option"

record 'enc ui_confirmed_block =
  ub_previous_blockhash :: string
  ub_blockhash :: string
  ub_parent_slot :: u64
  ub_transactions :: "'enc encoded_transaction list option"
  ub_rewards :: "reward list option"
  ub_block_time :: "int option"
  ub_block_height :: "u64 option"

record iblock =
  ib_transactions :: "itransaction list"
  ib_previous_blockhash :: hash
  ib_block_hash :: hash
  ib_block_height :: u64
  ib_parent_slot :: u64
  ib_slot :: u64
  ib_block_time :: int
  ib_leader_id :: "string option"
  ib_commitment_config :: commitment_level

definition iblock_try_from ::
  "('enc, 'c) decode_sdk \<Rightarrow> (string \<Rightarrow> hash option) \<Rightarrow> 'enc ui_confirmed_block \<Rightarrow> commitment_level \<Rightarrow> u64
     \<Rightarrow> iblock result" where
  "iblock_try_from sdk hash_from_str block commitment_config slot =
     bind_res (collect_results (\<lambda>e. to_unified_transaction sdk e slot (ub_block_time block))
         (unwrap_or (ub_transactions block) [])) (\<lambda>transactions.
     let leader_id = Option.bind (ub_rewards block) (\<lambda>rewards.
           map_option rw_pubkey (List.find (\<lambda>r. rw_reward_type r = Some RewardFee) rewards))
     in bind_res (expect (hash_from_str (ub_previous_blockhash block))
           ''called `Result::unwrap()` on an `Err` value'') (\<lambda>previous_blockhash.
        bind_res (expect (hash_from_str (ub_blockhash block))
           ''called `Result::unwrap()` on an `Err` value'') (\<lambda>block_hash.
        bind_res (expect (ub_block_height block) ''called `Option::unwrap()` on a `None` value'') (\<lambda>block_height.
        bind_res (expect (ub_block_time block) ''called `Option::unwrap()` on a `None` value'') (\<lambda>block_time.
        Inr \<lparr>ib_transactions = List.map_filter id transactions, ib_previous_blockhash = previous_blockhash,
             ib_block_hash = block_hash, ib_block_height = block_height,
             ib_parent_slot = ub_parent_slot block, ib_slot = slot, ib_block_time = block_time,
             ib_leader_id = leader_id, ib_commitment_config = commitment_config\<rparr>)))))"

definition block_update_try_from ::
  "('enc, 'c) decode_sdk \<Rightarrow> (string \<Rightarrow> hash option) \<Rightarrow> 'enc ui_confirmed_block option \<Rightarrow> u64
     \<Rightarrow> commitment_level \<Rightarrow> iblock result" where
  "block_update_try_from sdk hash_from_str block slot commitment =
     bind_res (ok_or block ''No value received for block'') (\<lambda>block.
     iblock_try_from sdk hash_from_str block commitment slot)"

section \<open>Filters\<close>

datatype txn_filter =
  IsSigner pubkey
| MentionsAccount pubkey
| MentionsAccounts "pubkey list"
| MentionsOneOf "pubkey list"
| NoopTxn
| FnFilter "itransaction \<Rightarrow> bool"

fun mentions_all :: "pubkey list \<Rightarrow> pubkey list \<Rightarrow> bool" where
  "mentions_all keys [] = True"
| "mentions_all keys (a # accounts) =
     (if \<not> list_ex (\<lambda>x. x = a) keys then False else mentions_all keys accounts)"

fun mentions_one :: "pubkey list \<Rightarrow> pubkey list \<Rightarrow> bool" where
  "mentions_one keys [] = False"
| "mentions_one keys (a # accounts) =
     (if list_ex (\<lambda>x. x = a) keys then True else mentions_one keys accounts)"

fun txn_is_valid :: "txn_filter \<Rightarrow> itransaction \<Rightarrow> bool result" where
  "txn_is_valid (IsSigner k) tx =
     bind_res (expect (nth_opt (tx_static_account_keys tx) 0) ''index out of bounds'') (\<lambda>x. Inr (x = k))"
| "txn_is_valid (MentionsAccount k) tx = Inr (list_ex (\<lambda>x. x = k) (tx_account_keys tx))"
| "txn_is_valid (MentionsAccounts ks) tx = Inr (mentions_all (tx_account_keys tx) ks)"
| "txn_is_valid (MentionsOneOf ks) tx = Inr (mentions_one (tx_account_keys tx) ks)"
| "txn_is_valid NoopTxn tx = Inr True"
| "txn_is_valid (FnFilter f) tx = Inr (f tx)"

text \<open>On a stream of results a failed item is never valid.\<close>

definition stream_item_is_valid :: "txn_filter \<Rightarrow> itransaction result \<Rightarrow> bool result" where
  "stream_item_is_valid f item = (case item of Inl _ \<Rightarrow> Inr False | Inr tx \<Rightarrow> txn_is_valid f tx)"

section \<open>Properties\<close>

lemma accounts_by_partition:
  "mset (accounts_by P keys) + mset (accounts_by (\<lambda>i. \<not> P i) keys) = mset keys"
proof -
  have "mset (map snd (filter (\<lambda>(i, k). P i) xs)) + mset (map snd (filter (\<lambda>(i, k). \<not> P i) xs)) = mset (map snd xs)"
    for xs :: "(nat \<times> pubkey) list"
    by (induction xs) auto
  then show ?thesis unfolding accounts_by_def by (simp only: map_snd_enumerate)
qed

definition programs_in_range :: "versioned_message \<Rightarrow> bool" where
  "programs_in_range m \<longleftrightarrow>
     (\<forall>ix \<in> set (vm_instructions m). unat (ci_program_id_index ix) < length (vm_static_account_keys m))"

lemma any_vote_total:
  "\<forall>ix \<in> set ixs. unat (ci_program_id_index ix) < length keys \<Longrightarrow> \<exists>b. any_vote sdk keys ixs = Inr b"
  by (induction ixs) (auto simp: nth_opt_def)

lemma consume_instructions_total:
  "\<forall>ix \<in> set ixs. unat (ci_program_id_index ix) < length keys
    \<Longrightarrow> \<exists>r. consume_instructions sdk keys limit c ixs = Inr r"
proof (induction ixs arbitrary: limit c)
  case (Cons ix ixs)
  then show ?case
    by (auto simp: nth_opt_def Let_def split: option.splits)
qed auto

lemma from_versioned_transaction_total:
  "(ds_sanitize sdk v \<Longrightarrow> programs_in_range (vt_message v))
    \<Longrightarrow> \<exists>d. from_versioned_transaction (ds_budget sdk) (ds_sanitize sdk) v = Inr d"
  using consume_instructions_total [of "vm_instructions (vt_message v)" "vm_static_account_keys (vt_message v)"
      "ds_budget sdk" "bs_default_limit (ds_budget sdk)" "bs_init (ds_budget sdk)"]
  by (auto simp: from_versioned_transaction_def priority_details_from_instructions_def programs_in_range_def)

definition ui_data_ok :: "(string \<Rightarrow> u8 list option) \<Rightarrow> ui_instruction \<Rightarrow> bool" where
  "ui_data_ok bs58 ix \<longleftrightarrow> (case ix of UiCompiled _ _ d \<Rightarrow> bs58 d \<noteq> None | UiParsed \<Rightarrow> True)"

definition inner_data_ok :: "(string \<Rightarrow> u8 list option) \<Rightarrow> tx_meta option \<Rightarrow> bool" where
  "inner_data_ok bs58 meta \<longleftrightarrow> (case Option.bind meta tm_inner_instructions of
       None \<Rightarrow> True
     | Some inner \<Rightarrow> \<forall>(_, ixs) \<in> set inner. \<forall>ix \<in> set ixs. ui_data_ok bs58 ix)"

lemma compile_inner_total:
  "\<forall>ix \<in> set ixs. ui_data_ok bs58 ix \<Longrightarrow> \<exists>ys. collect_results (compile_inner bs58) ixs = Inr ys"
  by (induction ixs) (auto simp: compile_inner_def ui_data_ok_def split: ui_instruction.splits)

lemma inner_of_total:
  assumes "inner_data_ok (ds_bs58 sdk) meta"
  shows "\<exists>inner. inner_of sdk meta = Inr inner"
proof (cases "Option.bind meta tm_inner_instructions")
  case None
  then show ?thesis
    by (cases meta) (auto simp: inner_of_def extract_compiled_inner_instructions_def)
next
  case (Some inner)
  then have "\<forall>(_, ixs) \<in> set inner. \<exists>ys. collect_results (compile_inner (ds_bs58 sdk)) ixs = Inr ys"
    using assms compile_inner_total by (fastforce simp: inner_data_ok_def)
  then have "\<exists>ys. collect_results (\<lambda>(index, ixs).
      bind_res (collect_results (compile_inner (ds_bs58 sdk)) ixs) (\<lambda>ixs. Inr (index, concat ixs))) inner = Inr ys"
    by (induction inner) auto
  then show ?thesis
    using Some by (cases meta) (auto simp: inner_of_def extract_compiled_inner_instructions_def)
qed

text \<open>An encoded transaction that decodes, with a signature, with programs among its static keys and
  readable inner instructions, is always converted, and without a panic: it keeps its first signature, its message, slot and time,
  and the error of its meta data, and every static key is listed exactly once, as writable or as readable.\<close>

theorem decoded_transaction_complete:
  assumes "ds_decode sdk (et_transaction e) = Some v" and "vt_signatures v = sig # sigs"
    and "programs_in_range (vt_message v)" and "inner_data_ok (ds_bs58 sdk) (et_meta e)"
  shows "\<exists>tx. itransaction_try_from sdk e slot block_time = Inr tx
    \<and> tx_signature tx = sig \<and> tx_message tx = vt_message v \<and> tx_slot tx = slot \<and> tx_block_time tx = block_time
    \<and> tx_meta_opt tx = et_meta e \<and> tx_err tx = Option.bind (et_meta e) tm_err
    \<and> tx_account_keys tx = vm_static_account_keys (vt_message v)
    \<and> mset (tx_writable_accounts tx) + mset (tx_readable_accounts tx) = mset (vm_static_account_keys (vt_message v))"
proof -
  let ?m = "vt_message v"
  obtain vote where "any_vote sdk (vm_static_account_keys ?m) (vm_instructions ?m) = Inr vote"
    using any_vote_total [OF assms(3) [unfolded programs_in_range_def]] by blast
  moreover obtain pd where "from_versioned_transaction (ds_budget sdk) (ds_sanitize sdk) v = Inr pd"
    using from_versioned_transaction_total assms(3) by blast
  moreover obtain inner where "inner_of sdk (et_meta e) = Inr inner"
    using inner_of_total assms(4) by blast
  ultimately show ?thesis
    using assms(1,2)
    by (simp add: itransaction_try_from_def to_unified_transaction_def Let_def nth_opt_def
        tx_account_keys_def loaded_keys_def accounts_by_partition)
qed

definition example_budget :: "unit budget_sdk" where
  "example_budget = \<lparr>bs_default_limit = 200000, bs_max_limit = 1400000, bs_unpack_limit = (\<lambda>_. None),
     bs_init = (), bs_step = (\<lambda>_ _. Some ()), bs_finish = (\<lambda>_. Some (200000, 5)), bs_fee = (\<lambda>p l. p * l div 1000000)\<rparr>"

definition example_decode_sdk :: "(u8, unit) decode_sdk" where
  "example_decode_sdk = \<lparr>
     ds_decode = (\<lambda>n. Some \<lparr>vt_signatures = [9], vt_message = \<lparr>vm_static_account_keys = [10, 11],
       vm_recent_blockhash = 3, vm_instructions = [\<lparr>ci_program_id_index = 1, ci_accounts = [], ci_data = []\<rparr>],
       vm_address_table_lookups = Some []\<rparr>\<rparr>),
     ds_vote_program = 1, ds_is_simple_vote = (\<lambda>_. False), ds_bs58 = (\<lambda>_. Some []),
     ds_is_maybe_writable = (\<lambda>_ i. i = 0), ds_sanitize = (\<lambda>_. True), ds_budget = example_budget\<rparr>"

theorem decoded_transaction_complete_witness:
  "\<exists>tx. itransaction_try_from example_decode_sdk \<lparr>et_transaction = 0, et_meta = Some tx_meta_empty\<rparr> 7 (Some 1) = Inr tx
    \<and> tx_signature tx = 9 \<and> mset (tx_writable_accounts tx) + mset (tx_readable_accounts tx) = {#10, 11#}"
  using decoded_transaction_complete [where sdk = example_decode_sdk and slot = 7 and block_time = "Some 1"
      and e = "\<lparr>et_transaction = 0, et_meta = Some tx_meta_empty\<rparr>" and sig = 9 and sigs = "[]"
      and v = "the (ds_decode example_decode_sdk 0)"]
  by (auto simp: example_decode_sdk_def programs_in_range_def inner_data_ok_def tx_meta_empty_def)

subsection \<open>Lookup tables\<close>

definition entries_at :: "pubkey list \<Rightarrow> u8 list \<Rightarrow> pubkey list" where
  "entries_at table = map (\<lambda>i. table ! unat i)"

definition lookup_ok :: "table_sdk \<Rightarrow> address_table_lookup \<Rightarrow> u8 list option \<Rightarrow> bool" where
  "lookup_ok sdk l account \<longleftrightarrow> (case Option.bind account (lt_deserialize sdk) of
       None \<Rightarrow> False
     | Some table \<Rightarrow> \<forall>i \<in> set (lk_writable_indexes l @ lk_readonly_indexes l). unat i < length table)"

definition lookup_table :: "table_sdk \<Rightarrow> u8 list option \<Rightarrow> pubkey list" where
  "lookup_table sdk account = unwrap_or (Option.bind account (lt_deserialize sdk)) []"

definition table_loaded :: "table_sdk \<Rightarrow> address_table_lookup \<Rightarrow> u8 list option \<Rightarrow> loaded_addresses" where
  "table_loaded sdk l account = \<lparr>la_writable = entries_at (lookup_table sdk account) (lk_writable_indexes l),
     la_readonly = entries_at (lookup_table sdk account) (lk_readonly_indexes l)\<rparr>"

lemma table_entries_cases:
  "(\<forall>i \<in> set is. unat i < length table) \<Longrightarrow> table_entries table is = Inr (entries_at table is)"
  "\<not> (\<forall>i \<in> set is. unat i < length table)
    \<Longrightarrow> table_entries table is = Inl (Error ''account lookup went out of bounds of address lookup table'')"
proof -
  assume "\<forall>i \<in> set is. unat i < length table"
  then show "table_entries table is = Inr (entries_at table is)"
    unfolding table_entries_def entries_at_def by (intro collect_results_total) (simp add: nth_opt_def)
next
  assume "\<not> (\<forall>i \<in> set is. unat i < length table)"
  then show "table_entries table is = Inl (Error ''account lookup went out of bounds of address lookup table'')"
    unfolding table_entries_def by (induction "is") (auto simp: nth_opt_def)
qed

lemma load_table_cases:
  assumes "i < length lookups"
  shows "lookup_ok sdk (lookups ! i) account
      \<Longrightarrow> load_table sdk lookups (i, account) = Inr (table_loaded sdk (lookups ! i) account)"
    and "\<not> lookup_ok sdk (lookups ! i) account \<Longrightarrow> \<exists>e. load_table sdk lookups (i, account) = Inl (Error e)"
proof -
  assume "lookup_ok sdk (lookups ! i) account"
  then show "load_table sdk lookups (i, account) = Inr (table_loaded sdk (lookups ! i) account)"
    using assms
    by (cases account) (auto simp: lookup_ok_def load_table_def table_loaded_def lookup_table_def nth_opt_def
        table_entries_cases split: option.splits)
next
  assume "\<not> lookup_ok sdk (lookups ! i) account"
  then show "\<exists>e. load_table sdk lookups (i, account) = Inl (Error e)"
  proof (cases "Option.bind account (lt_deserialize sdk)")
    case None
    then show ?thesis by (cases account) (auto simp: load_table_def)
  next
    case (Some table)
    then obtain data where data: "account = Some data" "lt_deserialize sdk data = Some table"
      by (cases account) auto
    let ?w = "lk_writable_indexes (lookups ! i)" and ?r = "lk_readonly_indexes (lookups ! i)"
    have "\<not> (\<forall>j \<in> set ?w. unat j < length table) \<or> \<not> (\<forall>j \<in> set ?r. unat j < length table)"
      using \<open>\<not> lookup_ok sdk (lookups ! i) account\<close> data by (auto simp: lookup_ok_def)
    then show ?thesis
      using data assms table_entries_cases [of ?w table] table_entries_cases(2) [of ?r table]
      by (cases "\<forall>j \<in> set ?w. unat j < length table") (simp_all add: load_table_def nth_opt_def)
  qed
qed

lemma collect_tables:
  assumes "length accounts = length lookups"
  shows "list_all2 (lookup_ok sdk) lookups accounts \<Longrightarrow>
      collect_results (load_table sdk lookups) (enumerate 0 accounts) = Inr (map2 (table_loaded sdk) lookups accounts)"
    and "\<not> list_all2 (lookup_ok sdk) lookups accounts \<Longrightarrow>
      \<exists>e. collect_results (load_table sdk lookups) (enumerate 0 accounts) = Inl (Error e)"
proof -
  assume "list_all2 (lookup_ok sdk) lookups accounts"
  then show "collect_results (load_table sdk lookups) (enumerate 0 accounts) = Inr (map2 (table_loaded sdk) lookups accounts)"
    using assms load_table_cases(1) [of _ lookups sdk]
    by (auto simp: collect_results_Inr_iff list_all2_conv_all_nth nth_enumerate_eq)
next
  let ?r = "collect_results (load_table sdk lookups) (enumerate 0 accounts)"
  have each: "(\<exists>l. load_table sdk lookups x = Inr l) \<or> (\<exists>e. load_table sdk lookups x = Inl (Error e))"
    if "x \<in> set (enumerate 0 accounts)" for x
    using that assms load_table_cases [of "fst x" lookups sdk "snd x"]
    by (cases "lookup_ok sdk (lookups ! fst x) (snd x)") (auto simp: in_set_enumerate_eq)
  assume bad: "\<not> list_all2 (lookup_ok sdk) lookups accounts"
  have "ys \<noteq> ys'" if "?r = Inr ys" for ys ys'
  proof -
    obtain i where i: "i < length lookups" "\<not> lookup_ok sdk (lookups ! i) (accounts ! i)"
      using bad assms by (auto simp: list_all2_conv_all_nth)
    then have "\<exists>e. load_table sdk lookups (i, accounts ! i) = Inl (Error e)" by (rule load_table_cases)
    then show ?thesis
      using that i(1) assms by (auto simp: collect_results_Inr_iff list_all2_conv_all_nth nth_enumerate_eq)
  qed
  then show "\<exists>e. ?r = Inl (Error e)"
    using each collect_results_Inl [of "load_table sdk lookups" "enumerate 0 accounts"]
    by (cases ?r) fastforce+
qed

text \<open>C24. Loading the lookup tables of a transaction, when the node answers one account per key: if every
  table exists, can be read and has the entries that the message refers to, the account keys become
  the static ones, then the writable entries of all tables in order, then the readonly ones; in every
  other case the call fails with an error and never panics.\<close>

theorem load_keys_exact:
  assumes "vm_address_table_lookups (tx_message tx) = Some lookups" and "lookups \<noteq> []"
    and "lt_get_multiple_accounts sdk (map lk_account_key lookups) = Inr accounts"
    and "length accounts = length lookups"
  shows "if list_all2 (lookup_ok sdk) lookups accounts
    then \<exists>tx'. load_keys sdk tx = Inr tx' \<and> tx' = tx\<lparr>tx_loaded_addresses := tx_loaded_addresses tx'\<rparr>
      \<and> tx_account_keys tx' = tx_static_account_keys tx
        @ concat (map2 (\<lambda>l a. entries_at (lookup_table sdk a) (lk_writable_indexes l)) lookups accounts)
        @ concat (map2 (\<lambda>l a. entries_at (lookup_table sdk a) (lk_readonly_indexes l)) lookups accounts)
    else load_keys sdk tx = Inl (Error ''Failed lookup for tx'')"
proof (cases "list_all2 (lookup_ok sdk) lookups accounts")
  case True
  then have "lookup_addresses sdk lookups = Inr \<lparr>
      la_writable = concat (map2 (\<lambda>l a. entries_at (lookup_table sdk a) (lk_writable_indexes l)) lookups accounts),
      la_readonly = concat (map2 (\<lambda>l a. entries_at (lookup_table sdk a) (lk_readonly_indexes l)) lookups accounts)\<rparr>"
    using assms(3) collect_tables(1) [OF assms(4)]
    by (simp add: lookup_addresses_def comp_def case_prod_unfold table_loaded_def)
  then show ?thesis
    using True assms(1,2)
    by (cases lookups) (simp_all add: load_keys_def tx_account_keys_def loaded_keys_def)
next
  case False
  then show ?thesis
    using assms(1-3) collect_tables(2) [OF assms(4) False]
    by (cases lookups) (auto simp: load_keys_def lookup_addresses_def)
qed

definition example_tables :: table_sdk where
  "example_tables = \<lparr>lt_get_multiple_accounts = (\<lambda>ks. Inr (map (\<lambda>_. Some [1]) ks)),
     lt_deserialize = (\<lambda>_. Some [100, 101, 102])\<rparr>"

definition example_lookup_tx :: itransaction where
  "example_lookup_tx = (plain_tx 1 [10] [] [] None)\<lparr>tx_message := \<lparr>vm_static_account_keys = [10], vm_recent_blockhash = 0,
     vm_instructions = [], vm_address_table_lookups = Some [\<lparr>lk_account_key = 7, lk_writable_indexes = [2],
       lk_readonly_indexes = [0]\<rparr>]\<rparr>\<rparr>"

theorem load_keys_exact_witness:
  "\<exists>tx'. load_keys example_tables example_lookup_tx = Inr tx' \<and> tx_account_keys tx' = [10, 102, 100]"
  using load_keys_exact [of example_lookup_tx
      "[\<lparr>lk_account_key = 7, lk_writable_indexes = [2], lk_readonly_indexes = [0]\<rparr>]" example_tables "[Some [1]]"]
  by (auto simp: example_lookup_tx_def example_tables_def lookup_ok_def lookup_table_def entries_at_def)

subsection \<open>Filters\<close>

lemma mentions_all_iff: "mentions_all keys ks \<longleftrightarrow> set ks \<subseteq> set keys"
  by (induction ks) (auto simp: list_ex_iff)

lemma mentions_one_iff: "mentions_one keys ks \<longleftrightarrow> set ks \<inter> set keys \<noteq> {}"
  by (induction ks) (auto simp: list_ex_iff)

text \<open>The loops of the filters decide the set-theoretic conditions on the account keys; only
  the signer filter can panic, and only on a transaction without static keys.\<close>

theorem filters_decide:
  "txn_is_valid (MentionsAccounts ks) tx = Inr (set ks \<subseteq> set (tx_account_keys tx))"
  "txn_is_valid (MentionsOneOf ks) tx = Inr (set ks \<inter> set (tx_account_keys tx) \<noteq> {})"
  "(\<exists>e. txn_is_valid f tx = Inl e) \<longleftrightarrow> (\<exists>k. f = IsSigner k) \<and> tx_static_account_keys tx = []"
  by (simp_all add: mentions_all_iff mentions_one_iff)
    (cases f; auto simp: nth_opt_def)

end
