(* ===== verification/Streams.thy ===== *)
theory Streams
  imports Decode Copy_Types
begin

text \<open>
  The stream of transactions that polling an RPC node yields (\<^verbatim>\<open>wire/rpc/poll_transactions.rs\<close>): the
  task that watches one account and the commands that start and stop such tasks; and the slot
  notifications of \<^verbatim>\<open>wire/rpc/poll_slots.rs\<close>. A round of a task is a function of what the node answers:
  the signatures of the account, newest first, and one answer per signature and round to the request
  for its transaction. What a task broadcasts is the list it returns. Waiting and logging are left out.
\<close>

section \<open>Watching an account\<close>

record rpc_signature =
  rg_signature :: string
  rg_slot :: u64
  rg_err :: "string option"
  rg_block_time :: "int option"

definition parse_signature :: "(string \<Rightarrow> signature option) \<Rightarrow> rpc_signature \<Rightarrow> signature result" where
  "parse_signature from_str sig =
     expect (from_str (rg_signature sig)) ''called `Result::unwrap()` on an `Err` value''"

text \<open>The requests for the most recent signature, one per attempt.\<close>

fun initial_signature ::
  "(string \<Rightarrow> signature option) \<Rightarrow> rpc_signature list result list \<Rightarrow> signature option \<Rightarrow> signature option result" where
  "initial_signature from_str [] last_signature = Inr last_signature"
| "initial_signature from_str (Inl e # answers) last_signature = initial_signature from_str answers last_signature"
| "initial_signature from_str (Inr [] # answers) last_signature = initial_signature from_str answers last_signature"
| "initial_signature from_str (Inr (sig # _) # answers) last_signature =
     bind_res (parse_signature from_str sig) (\<lambda>s. initial_signature from_str answers (Some s))"

record watch_state =
  ws_last_seen :: signature
  ws_retry_signatures :: "(signature \<times> u64, u8) store"

definition DEFAULT_MAX_INITIAL_SIGNATURE_RETRIES :: u8 where
  "DEFAULT_MAX_INITIAL_SIGNATURE_RETRIES = 3"

definition MAX_RETRY_SIGNATURE_ATTEMPTS :: u8 where
  "MAX_RETRY_SIGNATURE_ATTEMPTS = 3"

definition watch_start ::
  "(string \<Rightarrow> signature option) \<Rightarrow> (nat \<Rightarrow> rpc_signature list result) \<Rightarrow> u8 \<Rightarrow> watch_state result" where
  "watch_start from_str answer max_initial_signature_retries =
     bind_res (initial_signature from_str (map answer [0..<unat max_initial_signature_retries]) None)
       (\<lambda>last_signature.
     bind_res (ok_or last_signature ''initial signature fetch: max retries exceeded'') (\<lambda>last_seen.
     Inr \<lparr>ws_last_seen = last_seen, ws_retry_signatures = []\<rparr>))"

definition new_signatures ::
  "(string \<Rightarrow> signature option) \<Rightarrow> bool \<Rightarrow> rpc_signature list \<Rightarrow> (signature \<times> u64) list result" where
  "new_signatures from_str ignore_error_transactions signatures =
     collect_results (\<lambda>sig. bind_res (parse_signature from_str sig) (\<lambda>s. Inr (s, rg_slot sig)))
       (if ignore_error_transactions then filter (\<lambda>sig. rg_err sig = None) signatures else signatures)"

text \<open>\<open>entry(key).and_modify(|attempts| *attempts += 1).or_insert(1)\<close>\<close>

definition note_failure :: "signature \<times> u64 \<Rightarrow> (signature \<times> u64, u8) store \<Rightarrow> (signature \<times> u64, u8) store" where
  "note_failure key m = store_insert m key (case store_get m key of Some n \<Rightarrow> n + 1 | None \<Rightarrow> 1)"

text \<open>All answers are collected before the first one is handled; a panic of one ends the task.\<close>

definition fetch_one ::
  "(signature \<Rightarrow> itransaction result) \<Rightarrow> signature \<times> u64 \<Rightarrow> ((signature \<times> u64) \<times> itransaction option) result" where
  "fetch_one fetch key = (case fetch (fst key) of
       Inr tx \<Rightarrow> Inr (key, Some tx)
     | Inl (Error e) \<Rightarrow> Inr (key, None)
     | Inl (Panic e) \<Rightarrow> Inl (Panic e))"

fun handle_fetched ::
  "((signature \<times> u64) \<times> itransaction option) list \<Rightarrow> (signature \<times> u64, u8) store
     \<Rightarrow> (signature \<times> u64, u8) store \<times> itransaction list" where
  "handle_fetched [] retry = (retry, [])"
| "handle_fetched ((key, Some tx) # rest) retry =
     (case handle_fetched rest retry of (retry, sent) \<Rightarrow> (retry, tx # sent))"
| "handle_fetched ((key, None) # rest) retry = handle_fetched rest (note_failure key retry)"

definition still_retried :: "(signature \<times> u64, u8) store \<Rightarrow> (signature \<times> u64, u8) store" where
  "still_retried = filter (\<lambda>(_, i). i \<le> MAX_RETRY_SIGNATURE_ATTEMPTS)"

definition watch_round ::
  "(string \<Rightarrow> signature option) \<Rightarrow> bool \<Rightarrow> rpc_signature list result \<Rightarrow> (signature \<Rightarrow> itransaction result)
     \<Rightarrow> watch_state \<Rightarrow> (watch_state \<times> itransaction list) result" where
  "watch_round from_str ignore_error_transactions answer fetch st = (case answer of
       Inl e \<Rightarrow> Inr (st, [])
     | Inr signatures \<Rightarrow>
         bind_res (new_signatures from_str ignore_error_transactions signatures) (\<lambda>signatures.
         if signatures = [] then Inr (st, [])
         else
           let last_seen = fst (hd signatures);
               retry = still_retried (ws_retry_signatures st)
           in bind_res (collect_results (fetch_one fetch) (rev (signatures @ map fst retry))) (\<lambda>fetched.
              case handle_fetched fetched retry of (retry, sent) \<Rightarrow>
                Inr (\<lparr>ws_last_seen = last_seen, ws_retry_signatures = retry\<rparr>, sent))))"

text \<open>The rounds of a task until its exit signal is set.\<close>

type_synonym node_round = "rpc_signature list result \<times> (signature \<Rightarrow> itransaction result)"

fun watch_rounds ::
  "(string \<Rightarrow> signature option) \<Rightarrow> bool \<Rightarrow> node_round list \<Rightarrow> watch_state \<Rightarrow> (watch_state \<times> itransaction list) result" where
  "watch_rounds from_str ignore [] st = Inr (st, [])"
| "watch_rounds from_str ignore ((answer, fetch) # rounds) st =
     bind_res (watch_round from_str ignore answer fetch st) (\<lambda>(st, sent).
     bind_res (watch_rounds from_str ignore rounds st) (\<lambda>(st, sent'). Inr (st, sent @ sent')))"

definition watch_account_task ::
  "(string \<Rightarrow> signature option) \<Rightarrow> (nat \<Rightarrow> rpc_signature list result) \<Rightarrow> u8 \<Rightarrow> bool \<Rightarrow> node_round list
     \<Rightarrow> itransaction list result" where
  "watch_account_task from_str initial max_initial ignore_error_transactions rounds =
     bind_res (watch_start from_str initial max_initial) (\<lambda>st.
     bind_res (watch_rounds from_str ignore_error_transactions rounds st) (\<lambda>(st, sent). Inr sent))"

text \<open>What the task does for one signature: the RPC answer, its conversion, and the lookup tables.\<close>

definition fetch_transaction ::
  "('enc, 'c) decode_sdk \<Rightarrow> table_sdk \<Rightarrow> (signature \<Rightarrow> ('enc encoded_transaction \<times> u64 \<times> int option) result)
     \<Rightarrow> signature \<Rightarrow> itransaction result" where
  "fetch_transaction sdk tables get_transaction sig =
     bind_res (get_transaction sig) (\<lambda>(e, slot, block_time).
     bind_res (itransaction_try_from sdk e slot block_time) (\<lambda>tx. load_keys tables tx))"

section \<open>The tasks\<close>

record watch_task =
  wk_key :: pubkey
  wk_poll_transactions_frequency :: "duration option"
  wk_max_initial_signature_retries :: u8
  wk_commitment_config :: "commitment_level option"
  wk_ignore_error_transactions :: bool
  wk_exit_signal :: bool

record watch_defaults =
  wd_commitment_config :: "commitment_level option"
  wd_poll_transactions_frequency :: "duration option"
  wd_max_initial_signature_retries :: "u8 option"

definition watch_task_of :: "watch_defaults \<Rightarrow> poll_request \<Rightarrow> watch_task" where
  "watch_task_of defaults request = \<lparr>wk_key = pr_address request,
     wk_poll_transactions_frequency =
       or_else (pr_poll_transactions_frequency request) (wd_poll_transactions_frequency defaults),
     wk_max_initial_signature_retries =
       unwrap_or (wd_max_initial_signature_retries defaults) DEFAULT_MAX_INITIAL_SIGNATURE_RETRIES,
     wk_commitment_config = or_else (pr_commitment request) (wd_commitment_config defaults),
     wk_ignore_error_transactions = pr_ignore_error_transactions request,
     wk_exit_signal = False\<rparr>"

text \<open>All tasks that were started, and the map from an address to the position of its task.\<close>

record watchers =
  wm_tasks :: "watch_task list"
  wm_accounts_map :: "(pubkey, nat) store"
  wm_quit :: bool

definition signal_exit :: "nat \<Rightarrow> watch_task list \<Rightarrow> watch_task list" where
  "signal_exit i tasks = tasks[i := (tasks ! i)\<lparr>wk_exit_signal := True\<rparr>]"

definition start_initial_watcher :: "watch_defaults \<Rightarrow> watchers \<Rightarrow> poll_request \<Rightarrow> watchers" where
  "start_initial_watcher defaults w request =
     w\<lparr>wm_tasks := wm_tasks w @ [watch_task_of defaults request],
       wm_accounts_map := store_insert (wm_accounts_map w) (pr_address request) (length (wm_tasks w))\<rparr>"

definition start_watchers :: "watch_defaults \<Rightarrow> poll_request list \<Rightarrow> watchers" where
  "start_watchers defaults addresses =
     foldl (start_initial_watcher defaults) \<lparr>wm_tasks = [], wm_accounts_map = [], wm_quit = False\<rparr> addresses"

definition add_watcher :: "watch_defaults \<Rightarrow> watchers \<Rightarrow> poll_request \<Rightarrow> watchers" where
  "add_watcher defaults w request =
     (let prev_task = store_get (wm_accounts_map w) (pr_address request);
          w = start_initial_watcher defaults w request
      in case prev_task of
           None \<Rightarrow> w
         | Some i \<Rightarrow> w\<lparr>wm_tasks := signal_exit i (wm_tasks w)\<rparr>)"

definition remove_watcher :: "watchers \<Rightarrow> pubkey \<Rightarrow> watchers" where
  "remove_watcher w key = (case store_get (wm_accounts_map w) key of
       None \<Rightarrow> w
     | Some i \<Rightarrow> w\<lparr>wm_tasks := signal_exit i (wm_tasks w),
                     wm_accounts_map := store_remove (wm_accounts_map w) key\<rparr>)"

datatype watch_command = WatchAdd "poll_request list" | WatchRemove "pubkey list" | WatchQuit

text \<open>The commands carry hash sets; the lists give the order in which they are iterated. After
  \<open>Quit\<close> the loop has ended.\<close>

definition handle_watch_command :: "watch_defaults \<Rightarrow> watchers \<Rightarrow> watch_command \<Rightarrow> watchers" where
  "handle_watch_command defaults w command =
     (if wm_quit w then w else case command of
        WatchAdd requests \<Rightarrow> foldl (add_watcher defaults) w requests
      | WatchRemove keys \<Rightarrow> foldl remove_watcher w keys
      | WatchQuit \<Rightarrow> (foldl remove_watcher w (map fst (wm_accounts_map w)))\<lparr>wm_quit := True\<rparr>)"

section \<open>Slots\<close>

record slot_poll =
  sp_last_slot :: u64
  sp_errors :: nat

text \<open>One request of \<open>poll_commitment_slots\<close>; \<open>None\<close> is an error. It answers the slot that is sent on.\<close>

definition poll_commitment_slot :: "u64 option \<Rightarrow> slot_poll \<Rightarrow> (slot_poll \<times> u64 option) result" where
  "poll_commitment_slot answer s = (case answer of
       Some slot \<Rightarrow>
         if slot > sp_last_slot s
         then Inr (s\<lparr>sp_last_slot := slot, sp_errors := 0\<rparr>, Some slot)
         else Inr (s\<lparr>sp_errors := 0\<rparr>, None)
     | None \<Rightarrow>
         if sp_errors s + 1 > 10 then Inl (Error ''Exceeded error count to get slots from rpc'')
         else Inr (s\<lparr>sp_errors := sp_errors s + 1\<rparr>, None))"

fun poll_commitment_slots :: "u64 option list \<Rightarrow> slot_poll \<Rightarrow> u64 list \<times> unit result" where
  "poll_commitment_slots [] s = ([], Inr ())"
| "poll_commitment_slots (a # answers) s = (case poll_commitment_slot a s of
       Inl e \<Rightarrow> ([], Inl e)
     | Inr (s, sent) \<Rightarrow>
         (case poll_commitment_slots answers s of (slots, r) \<Rightarrow>
            ((case sent of Some slot \<Rightarrow> slot # slots | None \<Rightarrow> slots), r)))"

record slot_notification =
  sn_processed_slot :: u64
  sn_estimated_processed_slot :: u64

text \<open>What the task of \<open>poll_slots\<close> waits for: a slot, or nothing for 400 milliseconds.\<close>

datatype slot_event = SlotUpdate u64 | SlotTimeout

definition slot_step :: "slot_event \<Rightarrow> slot_notification \<Rightarrow> slot_notification \<times> slot_notification list" where
  "slot_step event s = (case event of
       SlotUpdate slot \<Rightarrow>
         if slot > sn_processed_slot s then
           let s = s\<lparr>sn_processed_slot := slot,
                     sn_estimated_processed_slot :=
                       (if slot > sn_estimated_processed_slot s then slot else sn_estimated_processed_slot s)\<rparr>
           in (s, [s])
         else (s, [])
     | SlotTimeout \<Rightarrow>
         if sn_estimated_processed_slot s < sn_processed_slot s + 32 then
           let s = s\<lparr>sn_estimated_processed_slot := sn_estimated_processed_slot s + 1\<rparr>
           in (s, [s])
         else (s, []))"

fun poll_slots :: "slot_event list \<Rightarrow> slot_notification \<Rightarrow> slot_notification list" where
  "poll_slots [] s = []"
| "poll_slots (e # es) s = (case slot_step e s of (s, sent) \<Rightarrow> sent @ poll_slots es s)"

definition poll_slots_start :: "u64 \<Rightarrow> slot_notification" where
  "poll_slots_start slot = \<lparr>sn_processed_slot = slot, sn_estimated_processed_slot = slot\<rparr>"

section \<open>What a task broadcasts\<close>

definition detected :: "(string \<Rightarrow> signature option) \<Rightarrow> bool \<Rightarrow> rpc_signature list result \<Rightarrow> (signature \<times> u64) list" where
  "detected from_str ignore answer = (case bind_res answer (new_signatures from_str ignore) of
       Inl _ \<Rightarrow> [] | Inr keys \<Rightarrow> keys)"

definition readable_answer :: "(string \<Rightarrow> signature option) \<Rightarrow> rpc_signature list result \<Rightarrow> bool" where
  "readable_answer from_str answer \<longleftrightarrow> (case answer of
       Inl e \<Rightarrow> True | Inr sigs \<Rightarrow> \<forall>sig \<in> set sigs. from_str (rg_signature sig) \<noteq> None)"

lemma new_signatures_readable:
  assumes "\<forall>sig \<in> set sigs. from_str (rg_signature sig) \<noteq> None"
  shows "new_signatures from_str ignore sigs
    = Inr (map (\<lambda>sig. (the (from_str (rg_signature sig)), rg_slot sig))
        (if ignore then filter (\<lambda>sig. rg_err sig = None) sigs else sigs))"
  unfolding new_signatures_def using assms
  by (intro collect_results_total) (auto simp: parse_signature_def split: if_splits)

lemma fetch_all_ok:
  assumes "\<And>k. k \<in> set keys \<Longrightarrow> fetch (fst k) = Inr (g (fst k))"
  shows "collect_results (fetch_one fetch) keys = Inr (map (\<lambda>k. (k, Some (g (fst k)))) keys)"
  using assms by (intro collect_results_total) (simp add: fetch_one_def)

lemma handle_fetched_ok:
  "handle_fetched (map (\<lambda>k. (k, Some (g k))) keys) retry = (retry, map g keys)"
  by (induction keys) auto

lemma watch_round_ok:
  assumes "readable_answer from_str answer" and "ws_retry_signatures st = []"
    and "\<And>sig. fetch sig = Inr (g sig)"
  shows "\<exists>st'. watch_round from_str ignore answer fetch st
      = Inr (st', rev (map (\<lambda>k. g (fst k)) (detected from_str ignore answer)))
    \<and> ws_retry_signatures st' = []"
proof (cases answer)
  case (Inr sigs)
  then obtain keys where keys: "new_signatures from_str ignore sigs = Inr keys"
    using assms(1) new_signatures_readable by (auto simp: readable_answer_def)
  have fetched: "collect_results (fetch_one fetch) (rev keys) = Inr (map (\<lambda>k. (k, Some (g (fst k)))) (rev keys))"
    using assms(3) by (intro fetch_all_ok)
  show ?thesis
    using Inr keys fetched assms(2) handle_fetched_ok [of "\<lambda>k. g (fst k)" "rev keys" "[]"]
    by (cases keys) (simp_all add: watch_round_def detected_def Let_def still_retried_def rev_map)
qed (simp add: watch_round_def detected_def assms(2))


definition example_signature :: "string \<Rightarrow> rpc_signature" where
  "example_signature s = \<lparr>rg_signature = s, rg_slot = 1, rg_err = None, rg_block_time = None\<rparr>"

definition example_from_str :: "string \<Rightarrow> signature option" where
  "example_from_str s = (if s = ''A'' then Some 1 else if s = ''B'' then Some 2 else if s = ''C'' then Some 3 else None)"

definition example_fetch :: "signature \<Rightarrow> itransaction result" where
  "example_fetch sig = Inr (plain_tx sig [] [] [] None)"


subsection \<open>Retries\<close>

lemma store_get_still_retried:
  "store_get m k = Some n \<Longrightarrow> n \<le> MAX_RETRY_SIGNATURE_ATTEMPTS \<Longrightarrow> store_get (still_retried m) k = Some n"
  by (induction m) (auto simp: store_get_def still_retried_def split: if_splits)

lemma store_get_key: "store_get m k = Some n \<Longrightarrow> k \<in> fst ` set m"
  by (auto simp: store_get_def dest: map_of_SomeD intro: rev_image_eqI)

lemma handle_fetched_keeps:
  "(\<And>x. (key, x) \<in> set fetched \<Longrightarrow> x = Some tx)
    \<Longrightarrow> store_get (fst (handle_fetched fetched retry)) key = store_get retry key
      \<and> ((key, Some tx) \<in> set fetched \<longrightarrow> tx \<in> set (snd (handle_fetched fetched retry)))"
proof (induction fetched arbitrary: retry)
  case (Cons f fetched)
  obtain k x where f: "f = (k, x)" by (cases f)
  have rest: "\<And>x. (key, x) \<in> set fetched \<Longrightarrow> x = Some tx" using Cons.prems by simp
  show ?case
  proof (cases x)
    case None
    then have k: "k \<noteq> key" using Cons.prems [of None] f by auto
    then have "store_get (note_failure k retry) key = store_get retry key" by (simp add: note_failure_def)
    then show ?thesis using Cons.IH [OF rest, of "note_failure k retry"] None f k by simp
  next
    case (Some t)
    then show ?thesis using Cons.IH [OF rest, of retry] f by (auto simp: case_prod_beta)
  qed
qed simp

lemma watch_round_resends:
  assumes "watch_round from_str ignore answer fetch st = Inr (st', sent)"
    and "store_get (ws_retry_signatures st) (sig, slot) = Some n" and "n \<le> MAX_RETRY_SIGNATURE_ATTEMPTS"
    and "detected from_str ignore answer \<noteq> []" and "fetch sig = Inr tx"
  shows "tx \<in> set sent \<and> store_get (ws_retry_signatures st') (sig, slot) = Some n"
proof -
  let ?key = "(sig, slot)" and ?retry = "still_retried (ws_retry_signatures st)"
  obtain sigs keys where keys: "answer = Inr sigs" "new_signatures from_str ignore sigs = Inr keys" "keys \<noteq> []"
    using assms(4) by (cases answer) (auto simp: detected_def split: sum.splits)
  then obtain fetched where f: "collect_results (fetch_one fetch) (rev (keys @ map fst ?retry)) = Inr fetched"
      and st: "handle_fetched fetched ?retry = (ws_retry_signatures st', sent)"
    using assms(1) by (auto simp: watch_round_def Let_def split: prod.splits)
  have k: "store_get ?retry ?key = Some n" using assms(2,3) by (rule store_get_still_retried)
  have "?key \<in> set (rev (keys @ map fst ?retry))" using store_get_key [OF k] by auto
  then obtain y where "y \<in> set fetched" "fetch_one fetch ?key = Inr y"
    using collect_results_mem(1) [OF f] by blast
  then have mem: "(?key, Some tx) \<in> set fetched" using assms(5) by (simp add: fetch_one_def)
  have only: "x = Some tx" if "(?key, x) \<in> set fetched" for x
  proof -
    from collect_results_mem(2) [OF f that] obtain k' where "fetch_one fetch k' = Inr (?key, x)" by blast
    then show ?thesis
      using assms(5) by (auto simp: fetch_one_def split: sum.splits failure.splits)
  qed
  have "store_get (fst (handle_fetched fetched ?retry)) ?key = store_get ?retry ?key
      \<and> ((?key, Some tx) \<in> set fetched \<longrightarrow> tx \<in> set (snd (handle_fetched fetched ?retry)))"
    using only by (rule handle_fetched_keeps)
  then show ?thesis using mem by (simp only: st fst_conv snd_conv k)
qed

lemma rebroadcast_count:
  assumes "watch_rounds from_str ignore rounds st = Inr (st', sent)"
    and "store_get (ws_retry_signatures st) (sig, slot) = Some n" and "n \<le> MAX_RETRY_SIGNATURE_ATTEMPTS"
    and "\<forall>(answer, fetch) \<in> set rounds. detected from_str ignore answer \<noteq> [] \<and> fetch sig = Inr tx"
  shows "length rounds \<le> count_list sent tx"
  using assms
proof (induction rounds arbitrary: st sent)
  case (Cons r rounds)
  obtain answer fetch where r: "r = (answer, fetch)" by force
  then obtain st1 sent1 sent2 where 1: "watch_round from_str ignore answer fetch st = Inr (st1, sent1)"
      and 2: "watch_rounds from_str ignore rounds st1 = Inr (st', sent2)" and s: "sent = sent1 @ sent2"
    using Cons.prems(1) by auto
  have "tx \<in> set sent1" and k: "store_get (ws_retry_signatures st1) (sig, slot) = Some n"
    using watch_round_resends [OF 1 Cons.prems(2,3)] Cons.prems(4) r by auto
  then have "1 \<le> count_list sent1 tx" by (metis One_nat_def Suc_leI count_list_0_iff gr0I)
  moreover have "length rounds \<le> count_list sent2 tx"
    using Cons.IH [OF 2 k Cons.prems(3)] Cons.prems(4) by simp
  ultimately show ?case by (simp add: s)
qed simp

text \<open>A transaction whose first request failed is kept for a retry, and nothing takes it out again
  when the retry succeeds: from then on the task broadcasts it in every round that detects anything
  else.\<close>

theorem retried_transaction_rebroadcast:
  assumes "watch_rounds from_str ignore rounds st = Inr (st', sent)"
    and "store_get (ws_retry_signatures st) (sig, slot) = Some n" and "n \<le> MAX_RETRY_SIGNATURE_ATTEMPTS"
    and "\<forall>(answer, fetch) \<in> set rounds. detected from_str ignore answer \<noteq> [] \<and> fetch sig = Inr tx"
  shows "length rounds \<le> count_list sent tx"
  by (rule rebroadcast_count [OF assms])

definition example_retry_rounds :: "node_round list" where
  "example_retry_rounds = [(Inr [example_signature ''B''], example_fetch), (Inr [example_signature ''C''], example_fetch)]"

theorem retried_transaction_rebroadcast_witness:
  "\<exists>st1 st' sent. watch_rounds example_from_str True
      [(Inr [example_signature ''A''], \<lambda>_. Inl (Error ''timeout''))] \<lparr>ws_last_seen = 0, ws_retry_signatures = []\<rparr> = Inr (st1, [])
    \<and> watch_rounds example_from_str True example_retry_rounds st1 = Inr (st', sent)
    \<and> 2 \<le> count_list sent (plain_tx 1 [] [] [] None)"
proof -
  let ?st1 = "\<lparr>ws_last_seen = 1, ws_retry_signatures = [((1, 1), 1)]\<rparr> :: watch_state"
  note eval = watch_round_def new_signatures_def parse_signature_def example_from_str_def example_signature_def
    example_fetch_def example_retry_rounds_def fetch_one_def note_failure_def still_retried_def
    MAX_RETRY_SIGNATURE_ATTEMPTS_def store_insert_def Let_def
  have 1: "watch_rounds example_from_str True [(Inr [example_signature ''A''], \<lambda>_. Inl (Error ''timeout''))]
      \<lparr>ws_last_seen = 0, ws_retry_signatures = []\<rparr> = Inr (?st1, [])"
    by (simp add: eval)
  have "\<exists>st' sent. watch_rounds example_from_str True example_retry_rounds ?st1 = Inr (st', sent)"
    by (simp add: eval)
  then obtain st' sent where 2: "watch_rounds example_from_str True example_retry_rounds ?st1 = Inr (st', sent)"
    by blast
  have "length example_retry_rounds \<le> count_list sent (plain_tx 1 [] [] [] None)"
    by (rule retried_transaction_rebroadcast [OF 2, of 1 1 1])
      (simp_all add: eval store_get_def detected_def)
  then show ?thesis using 1 2 by (auto simp: example_retry_rounds_def)
qed

definition retry_ok :: "(signature \<times> u64, u8) store \<Rightarrow> bool" where
  "retry_ok m \<longleftrightarrow> store_ok m \<and> (\<forall>k n. store_get m k = Some n \<longrightarrow> 1 \<le> unat n \<and> unat n \<le> 4)"

definition below_limit :: "(signature \<times> u64, u8) store \<Rightarrow> bool" where
  "below_limit m \<longleftrightarrow> store_ok m \<and> (\<forall>k n. store_get m k = Some n \<longrightarrow> 1 \<le> unat n \<and> unat n \<le> 3)"

lemma store_ok_note_failure [simp]: "store_ok m \<Longrightarrow> store_ok (note_failure key m)"
  by (simp add: note_failure_def)

lemma still_retried_below: "retry_ok m \<Longrightarrow> below_limit (still_retried m)"
proof -
  assume m: "retry_ok m"
  then have "store_ok (still_retried m)"
    by (auto simp: retry_ok_def store_ok_def still_retried_def distinct_map_filter)
  moreover have "1 \<le> unat n \<and> unat n \<le> 3" if "store_get (still_retried m) k = Some n" for k n
  proof -
    have "(k, n) \<in> set (still_retried m)"
      using that calculation by (simp only: store_get_Some_iff)
    then have "(k, n) \<in> set m" "n \<le> MAX_RETRY_SIGNATURE_ATTEMPTS" by (auto simp: still_retried_def)
    then show ?thesis
      using m store_get_Some_iff [of m k n]
      by (cases k) (auto simp: retry_ok_def MAX_RETRY_SIGNATURE_ATTEMPTS_def word_le_nat_alt)
  qed
  ultimately show ?thesis by (simp add: below_limit_def)
qed

lemma handle_fetched_counts:
  "distinct (map fst fetched) \<Longrightarrow> store_ok retry \<Longrightarrow>
    store_ok (fst (handle_fetched fetched retry))
    \<and> store_get (fst (handle_fetched fetched retry)) k
      = (if (k, None) \<in> set fetched then Some (case store_get retry k of Some n \<Rightarrow> n + 1 | None \<Rightarrow> 1)
         else store_get retry k)"
proof (induction fetched arbitrary: retry)
  case (Cons f fetched)
  obtain key x where f: "f = (key, x)" by (cases f)
  have fresh: "(key, None) \<notin> set fetched" "distinct (map fst fetched)"
    using Cons.prems(1) f by (auto simp: rev_image_eqI)
  show ?case
  proof (cases x)
    case None
    have "store_ok (note_failure key retry)" using Cons.prems(2) by simp
    then show ?thesis using Cons.IH [OF fresh(2), of "note_failure key retry"] None f fresh(1)
      by (auto simp: note_failure_def)
  next
    case (Some t)
    then show ?thesis using Cons.IH [OF fresh(2) Cons.prems(2)] f by (auto simp: case_prod_beta)
  qed
qed simp

text \<open>Of a transaction that cannot be fetched there are at most four requests: the counter of a
  retried signature starts at 1, stays at most 4 and never wraps, and an entry at 4 is dropped by the
  next round that detects anything, as long as the node lists no signature twice.\<close>

theorem retry_attempts_bounded:
  assumes "watch_round from_str ignore answer fetch st = Inr (st', sent)"
    and "retry_ok (ws_retry_signatures st)"
    and "distinct (detected from_str ignore answer @ map fst (still_retried (ws_retry_signatures st)))"
  shows "retry_ok (ws_retry_signatures st')"
proof (cases "detected from_str ignore answer = []")
  case True
  then show ?thesis
    using assms(1,2) by (auto simp: watch_round_def detected_def split: sum.splits if_splits)
next
  case False
  let ?retry = "still_retried (ws_retry_signatures st)"
  obtain sigs keys where keys: "answer = Inr sigs" "new_signatures from_str ignore sigs = Inr keys" "keys \<noteq> []"
    using False by (cases answer) (auto simp: detected_def split: sum.splits)
  then obtain fetched where f: "collect_results (fetch_one fetch) (rev (keys @ map fst ?retry)) = Inr fetched"
      and st: "handle_fetched fetched ?retry = (ws_retry_signatures st', sent)"
    using assms(1) by (auto simp: watch_round_def Let_def split: prod.splits)
  have "fst y = k" if "fetch_one fetch k = Inr y" for k y
    using that by (auto simp: fetch_one_def split: sum.splits failure.splits)
  then have "map fst fetched = rev (keys @ map fst ?retry)"
    using f by (intro nth_equalityI) (auto simp: collect_results_Inr_iff list_all2_conv_all_nth)
  moreover have "detected from_str ignore answer = keys" using keys by (simp add: detected_def)
  ultimately have d: "distinct (map fst fetched)" using assms(3) by (simp only: distinct_rev)
  have b: "below_limit ?retry" using assms(2) by (rule still_retried_below)
  then have ok: "store_ok ?retry" by (simp add: below_limit_def)
  have "1 \<le> unat m \<and> unat m \<le> 4" if "store_get (ws_retry_signatures st') k = Some m" for k m
  proof -
    have inc: "unat (n + 1) = unat n + 1" if "unat n \<le> 3" for n :: u8
      using that by (subst unat_plus_no_wrap) simp_all
    have old: "1 \<le> unat n \<and> unat n \<le> 3" if "store_get ?retry k = Some n" for n
      using b that unfolding below_limit_def by blast
    have m: "Some m = (if (k, None) \<in> set fetched then Some (case store_get ?retry k of Some n \<Rightarrow> n + 1 | None \<Rightarrow> 1)
        else store_get ?retry k)"
      using that handle_fetched_counts [OF d ok, of k] by (simp only: st fst_conv)
    show ?thesis
    proof (cases "store_get ?retry k")
      case None
      then show ?thesis using m by (simp split: if_splits)
    next
      case (Some n)
      then show ?thesis using m old [OF Some] inc [of n] by (simp split: if_splits)
    qed
  qed
  then show ?thesis
    using handle_fetched_counts [OF d ok] by (simp add: st retry_ok_def)
qed

theorem retry_attempts_bounded_witness:
  "\<exists>st' sent. watch_round example_from_str True (Inr [example_signature ''A'']) (\<lambda>_. Inl (Error ''x''))
      \<lparr>ws_last_seen = 0, ws_retry_signatures = [((2, 1), 3)]\<rparr> = Inr (st', sent)
    \<and> retry_ok (ws_retry_signatures st')"
proof -
  let ?st = "\<lparr>ws_last_seen = 0, ws_retry_signatures = [((2, 1), 3)]\<rparr> :: watch_state"
  note eval = watch_round_def new_signatures_def parse_signature_def example_from_str_def example_signature_def
    fetch_one_def still_retried_def MAX_RETRY_SIGNATURE_ATTEMPTS_def Let_def
  have "\<exists>st' sent. watch_round example_from_str True (Inr [example_signature ''A'']) (\<lambda>_. Inl (Error ''x'')) ?st
      = Inr (st', sent)"
    by (simp add: eval)
  then obtain st' sent where r: "watch_round example_from_str True (Inr [example_signature ''A''])
      (\<lambda>_. Inl (Error ''x'')) ?st = Inr (st', sent)" by blast
  have "retry_ok (ws_retry_signatures st')"
    by (rule retry_attempts_bounded [OF r])
      (auto simp: eval retry_ok_def store_ok_def store_get_def detected_def split: if_splits)
  then show ?thesis using r by blast
qed

section \<open>One task per account\<close>

text \<open>Every entry of the map names a live task for its key, and every live task is named by the map.\<close>

definition live :: "watchers \<Rightarrow> nat \<Rightarrow> bool" where
  "live w i \<longleftrightarrow> i < length (wm_tasks w) \<and> \<not> wk_exit_signal (wm_tasks w ! i)"

definition watchers_ok :: "watchers \<Rightarrow> bool" where
  "watchers_ok w \<longleftrightarrow> store_ok (wm_accounts_map w)
     \<and> (\<forall>k i. store_get (wm_accounts_map w) k = Some i \<longleftrightarrow> live w i \<and> wk_key (wm_tasks w ! i) = k)"

lemma watchers_okD:
  "watchers_ok w \<Longrightarrow> store_get (wm_accounts_map w) k = Some i \<longleftrightarrow> live w i \<and> wk_key (wm_tasks w ! i) = k"
  by (simp add: watchers_ok_def)

lemma watch_task_of_simps [simp]:
  "wk_key (watch_task_of defaults r) = pr_address r" "\<not> wk_exit_signal (watch_task_of defaults r)"
  by (simp_all add: watch_task_of_def)

lemma live_start:
  "live (start_initial_watcher defaults w r) i \<longleftrightarrow> live w i \<or> i = length (wm_tasks w)"
  by (auto simp: live_def start_initial_watcher_def nth_append less_Suc_eq)

lemma key_start:
  "live w i \<Longrightarrow> wm_tasks (start_initial_watcher defaults w r) ! i = wm_tasks w ! i"
  "wm_tasks (start_initial_watcher defaults w r) ! length (wm_tasks w) = watch_task_of defaults r"
  by (auto simp: live_def start_initial_watcher_def nth_append)

lemma live_signal:
  "i < length (wm_tasks w) \<Longrightarrow> live (w\<lparr>wm_tasks := signal_exit i (wm_tasks w)\<rparr>) j \<longleftrightarrow> live w j \<and> j \<noteq> i"
  by (auto simp: live_def signal_exit_def nth_list_update)

lemma key_signal: "wk_key (signal_exit i tasks ! j) = wk_key (tasks ! j)"
  by (cases "i = j"; cases "j < length tasks") (simp_all add: signal_exit_def list_update_beyond)

lemma live_cong: "wm_tasks w = wm_tasks w' \<Longrightarrow> live w i = live w' i"
  by (simp add: live_def)

lemma start_initial_watcher_ok:
  assumes "watchers_ok w" and "store_get (wm_accounts_map w) (pr_address r) = None"
  shows "watchers_ok (start_initial_watcher defaults w r)"
  unfolding watchers_ok_def
proof (intro conjI allI)
  let ?w = "start_initial_watcher defaults w r"
  show "store_ok (wm_accounts_map ?w)" using assms(1) by (simp add: watchers_ok_def start_initial_watcher_def)
  fix k i
  have g: "store_get (wm_accounts_map ?w) k
      = (if k = pr_address r then Some (length (wm_tasks w)) else store_get (wm_accounts_map w) k)"
    by (simp add: start_initial_watcher_def)
  have no: "\<not> (live w i \<and> wk_key (wm_tasks w ! i) = pr_address r)"
    using watchers_okD [OF assms(1), of "pr_address r" i] assms(2) by simp
  have "\<not> live w (length (wm_tasks w))" by (simp add: live_def)
  then show "store_get (wm_accounts_map ?w) k = Some i \<longleftrightarrow> live ?w i \<and> wk_key (wm_tasks ?w ! i) = k"
    using g no watchers_okD [OF assms(1), of k i] key_start(1) [of w i defaults r]
      key_start(2) [of defaults w r] live_start [of defaults w r i]
    by (cases "i = length (wm_tasks w)") auto
qed

lemma remove_watcher_get:
  "store_get (wm_accounts_map (remove_watcher w key)) k = (if k = key then None else store_get (wm_accounts_map w) k)"
  by (simp add: remove_watcher_def split: option.splits)

lemma remove_watcher_ok:
  assumes "watchers_ok w"
  shows "watchers_ok (remove_watcher w key)"
proof (cases "store_get (wm_accounts_map w) key")
  case None
  then show ?thesis using assms by (simp add: remove_watcher_def)
next
  case (Some i)
  then have i: "live w i" "wk_key (wm_tasks w ! i) = key" "i < length (wm_tasks w)"
    using watchers_okD [OF assms] by (auto simp: live_def)
  have l: "live (remove_watcher w key) j \<longleftrightarrow> live w j \<and> j \<noteq> i" for j
    using live_signal [OF i(3), of j] Some by (simp add: remove_watcher_def live_def)
  have tasks: "wk_key (wm_tasks (remove_watcher w key) ! j) = wk_key (wm_tasks w ! j)" for j
    using Some by (simp add: remove_watcher_def key_signal)
  have uniq: "wk_key (wm_tasks w ! j) = key \<longleftrightarrow> j = i" if "live w j" for j
    using watchers_okD [OF assms, of key j] Some i that by auto
  show ?thesis
    unfolding watchers_ok_def
  proof (intro conjI allI)
    show "store_ok (wm_accounts_map (remove_watcher w key))"
      using assms by (simp add: watchers_ok_def remove_watcher_def split: option.splits)
    fix k j
    show "store_get (wm_accounts_map (remove_watcher w key)) k = Some j
        \<longleftrightarrow> live (remove_watcher w key) j \<and> wk_key (wm_tasks (remove_watcher w key) ! j) = k"
      using uniq [of j] watchers_okD [OF assms, of k j] by (auto simp: remove_watcher_get l tasks)
  qed
qed

lemma add_watcher_as_replace:
  assumes "watchers_ok w"
  shows "watchers_ok (add_watcher defaults w r)"
proof (cases "store_get (wm_accounts_map w) (pr_address r)")
  case None
  then show ?thesis using start_initial_watcher_ok [OF assms] by (simp add: add_watcher_def Let_def)
next
  case (Some i)
  let ?rm = "remove_watcher w (pr_address r)"
  have i: "i < length (wm_tasks w)" using Some watchers_okD [OF assms] by (auto simp: live_def)
  have "watchers_ok (start_initial_watcher defaults ?rm r)"
    using remove_watcher_ok [OF assms, of "pr_address r"]
    by (intro start_initial_watcher_ok) (simp_all add: remove_watcher_get)
  moreover have "wm_tasks (add_watcher defaults w r) = wm_tasks (start_initial_watcher defaults ?rm r)"
    using Some i by (simp add: add_watcher_def Let_def start_initial_watcher_def remove_watcher_def
        signal_exit_def nth_append list_update_append1)
  moreover have "store_get (wm_accounts_map (add_watcher defaults w r))
      = store_get (wm_accounts_map (start_initial_watcher defaults ?rm r))"
    using Some i by (auto simp: add_watcher_def Let_def start_initial_watcher_def remove_watcher_def signal_exit_def)
  moreover have "store_ok (wm_accounts_map (add_watcher defaults w r))"
    using assms by (simp add: watchers_ok_def add_watcher_def Let_def start_initial_watcher_def split: option.splits)
  ultimately show ?thesis by (simp add: watchers_ok_def live_def)
qed

lemma foldl_watchers_ok:
  assumes "\<And>w x. watchers_ok w \<Longrightarrow> watchers_ok (f w x)" and "watchers_ok w"
  shows "watchers_ok (foldl f w xs)"
  using assms(2) by (induction xs arbitrary: w) (simp_all add: assms(1))

lemma foldl_remove_get:
  "store_get (wm_accounts_map (foldl remove_watcher w keys)) k
    = (if k \<in> set keys then None else store_get (wm_accounts_map w) k)"
  by (induction keys arbitrary: w) (auto simp: remove_watcher_get)

lemma watchers_ok_set_quit: "watchers_ok (w\<lparr>wm_quit := q\<rparr>) \<longleftrightarrow> watchers_ok w"
  by (simp add: watchers_ok_def live_def)

text \<open>From watchers with one live task per account every command leads to such watchers: adding an
  account stops the task it had. After accounts are removed none of them has a live task, and after
  the quit command there is no live task at all.\<close>

theorem watch_commands_keep_one_task:
  assumes "watchers_ok w" and "\<not> wm_quit w"
  shows "watchers_ok (handle_watch_command defaults w c)
    \<and> (\<forall>keys k i. c = WatchRemove keys \<and> k \<in> set keys \<and> live (handle_watch_command defaults w c) i
         \<longrightarrow> wk_key (wm_tasks (handle_watch_command defaults w c) ! i) \<noteq> k)
    \<and> (c = WatchQuit \<longrightarrow> (\<forall>i. \<not> live (handle_watch_command defaults w c) i))"
proof -
  let ?w = "handle_watch_command defaults w c"
  have ok: "watchers_ok ?w"
    using assms foldl_watchers_ok [OF add_watcher_as_replace assms(1)] foldl_watchers_ok [OF remove_watcher_ok assms(1)]
    by (cases c) (simp_all add: handle_watch_command_def watchers_ok_set_quit)
  have rm: "wk_key (wm_tasks ?w ! i) \<noteq> k" if "c = WatchRemove keys" "k \<in> set keys" "live ?w i" for keys k i
  proof -
    have "store_get (wm_accounts_map ?w) k = None"
      using that assms(2) by (simp add: handle_watch_command_def foldl_remove_get)
    then show ?thesis using watchers_okD [OF ok, of k i] that(3) by auto
  qed
  have "\<not> live ?w i" if "c = WatchQuit" for i
  proof -
    have "store_get (wm_accounts_map ?w) k = None" for k
      using that assms(2) store_get_None_iff [of "wm_accounts_map w" k]
      by (auto simp: handle_watch_command_def foldl_remove_get)
    then show ?thesis using watchers_okD [OF ok, of "wk_key (wm_tasks ?w ! i)" i] by auto
  qed
  then show ?thesis using ok rm by blast
qed

lemma start_watchers_ok:
  assumes "distinct (map pr_address rs)"
  shows "watchers_ok (start_watchers defaults rs)"
proof -
  have "watchers_ok (foldl (start_initial_watcher defaults) w rs)"
    if "watchers_ok w" "\<forall>r \<in> set rs. store_get (wm_accounts_map w) (pr_address r) = None" for w
    using assms that
  proof (induction rs arbitrary: w)
    case (Cons r rs)
    let ?w = "start_initial_watcher defaults w r"
    have "watchers_ok ?w" using Cons.prems by (intro start_initial_watcher_ok) simp_all
    moreover have "\<forall>r' \<in> set rs. store_get (wm_accounts_map ?w) (pr_address r') = None"
      using Cons.prems by (auto simp: start_initial_watcher_def rev_image_eqI)
    ultimately show ?case using Cons.IH [of ?w] Cons.prems(1) by simp
  qed simp
  moreover have "watchers_ok \<lparr>wm_tasks = [], wm_accounts_map = [], wm_quit = False\<rparr>"
    by (simp add: watchers_ok_def live_def)
  ultimately show ?thesis by (simp add: start_watchers_def)
qed

definition example_request :: "pubkey \<Rightarrow> bool \<Rightarrow> poll_request" where
  "example_request k ignore = \<lparr>pr_address = k, pr_commitment = None, pr_poll_transactions_frequency = None,
     pr_ignore_error_transactions = ignore, pr_recent_signature = None, pr_order_by_earliest = None\<rparr>"

definition example_defaults :: watch_defaults where
  "example_defaults = \<lparr>wd_commitment_config = None, wd_poll_transactions_frequency = None,
     wd_max_initial_signature_retries = None\<rparr>"

theorem watch_commands_keep_one_task_witness:
  "\<forall>i. \<not> live (handle_watch_command example_defaults
     (start_watchers example_defaults [example_request 1 True, example_request 2 True]) WatchQuit) i"
proof -
  let ?w = "start_watchers example_defaults [example_request 1 True, example_request 2 True]"
  have "watchers_ok ?w" by (rule start_watchers_ok) (simp add: example_request_def)
  moreover have "\<not> wm_quit ?w" by (simp add: start_watchers_def start_initial_watcher_def)
  ultimately show ?thesis using watch_commands_keep_one_task by blast
qed

text \<open>Two initial requests for one account with different options: the first task stays alive
  through every removal of the account.\<close>

lemma initial_duplicate_outlives_removal:
  "live (handle_watch_command example_defaults
     (start_watchers example_defaults [example_request 1 True, example_request 1 False]) (WatchRemove [1])) 0"
  by (simp add: handle_watch_command_def start_watchers_def start_initial_watcher_def remove_watcher_def
      signal_exit_def example_request_def live_def watch_task_of_def)

section \<open>Slot notifications\<close>

definition slot_ok :: "slot_notification \<Rightarrow> bool" where
  "slot_ok s \<longleftrightarrow> unat (sn_processed_slot s) + 33 < 2 ^ 64 \<and> sn_processed_slot s \<le> sn_estimated_processed_slot s
     \<and> unat (sn_estimated_processed_slot s) \<le> unat (sn_processed_slot s) + 32"

fun event_in_range :: "slot_event \<Rightarrow> bool" where
  "event_in_range (SlotUpdate slot) = (unat slot + 33 < 2 ^ 64)"
| "event_in_range SlotTimeout = True"

definition slot_before :: "slot_notification \<Rightarrow> slot_notification \<Rightarrow> bool" where
  "slot_before a b \<longleftrightarrow> sn_processed_slot a \<le> sn_processed_slot b
     \<and> sn_estimated_processed_slot a \<le> sn_estimated_processed_slot b \<and> a \<noteq> b"

lemma slot_before_trans: "slot_before a b \<Longrightarrow> slot_before b c \<Longrightarrow> slot_before a c"
  by (cases a; cases b; cases c) (auto simp: slot_before_def)

lemma slot_step_cases:
  assumes "slot_ok s" and "event_in_range e" and "slot_step e s = (s', sent)"
  shows "slot_ok s' \<and> (sent = [] \<and> s' = s \<or> sent = [s'] \<and> slot_before s s')"
proof (cases e)
  case (SlotUpdate slot)
  show ?thesis
  proof (cases "slot > sn_processed_slot s")
    case True
    then show ?thesis
      using assms SlotUpdate
      by (cases s) (auto simp: slot_step_def slot_ok_def slot_before_def Let_def word_le_nat_alt word_less_nat_alt
          split: if_splits)
  qed (use assms SlotUpdate in \<open>simp add: slot_step_def\<close>)
next
  case SlotTimeout
  let ?p = "sn_processed_slot s" and ?e = "sn_estimated_processed_slot s"
  have p: "unat (?p + 32) = unat ?p + 32" using assms(1) by (subst unat_plus_no_wrap) (simp_all add: slot_ok_def)
  have e: "unat (?e + 1) = unat ?e + 1"
    using assms(1) by (subst unat_plus_no_wrap) (simp_all add: slot_ok_def)
  show ?thesis
  proof (cases "?e < ?p + 32")
    case True
    then have "unat ?e + 1 \<le> unat ?p + 32" using p by (simp add: word_less_nat_alt)
    moreover have "?e \<noteq> ?e + 1" by simp
    ultimately show ?thesis
      using assms True SlotTimeout e
      by (cases s) (auto simp: slot_step_def slot_ok_def slot_before_def Let_def word_le_nat_alt)
  qed (use assms SlotTimeout in \<open>simp add: slot_step_def\<close>)
qed

lemma poll_slots_sound:
  "slot_ok s \<Longrightarrow> list_all event_in_range es \<Longrightarrow>
    list_all (\<lambda>n. slot_ok n \<and> slot_before s n) (poll_slots es s) \<and> sorted_wrt slot_before (poll_slots es s)"
proof (induction es arbitrary: s)
  case (Cons e es)
  obtain s' sent where step: "slot_step e s = (s', sent)" by (cases "slot_step e s")
  have c: "slot_ok s' \<and> (sent = [] \<and> s' = s \<or> sent = [s'] \<and> slot_before s s')"
    by (rule slot_step_cases) (use Cons.prems step in auto)
  then have "list_all (\<lambda>n. slot_ok n \<and> slot_before s' n) (poll_slots es s') \<and> sorted_wrt slot_before (poll_slots es s')"
    using Cons by simp
  with c show ?case
    using step by (auto simp: list_all_iff intro: slot_before_trans)
qed simp

text \<open>From the first slot on, every notification of the slot task keeps its estimate between the
  processed slot and 32 slots ahead of it, and no two notifications are alike: each is ahead of all
  earlier ones in at least one slot and behind them in none.\<close>

theorem slot_notifications_sound:
  assumes "unat slot + 33 < 2 ^ 64" and "list_all event_in_range events"
  shows "list_all (\<lambda>n. sn_processed_slot n \<le> sn_estimated_processed_slot n
        \<and> unat (sn_estimated_processed_slot n) \<le> unat (sn_processed_slot n) + 32)
      (poll_slots events (poll_slots_start slot))
    \<and> sorted_wrt slot_before (poll_slots_start slot # poll_slots events (poll_slots_start slot))"
  using poll_slots_sound [of "poll_slots_start slot" events] assms
  by (auto simp: poll_slots_start_def slot_ok_def list_all_iff)

theorem slot_notifications_sound_witness:
  "sorted_wrt slot_before (poll_slots_start 5 # poll_slots [SlotTimeout, SlotUpdate 9, SlotUpdate 9, SlotTimeout] (poll_slots_start 5))
    \<and> length (poll_slots [SlotTimeout, SlotUpdate 9, SlotUpdate 9, SlotTimeout] (poll_slots_start 5)) = 3"
  using slot_notifications_sound [of 5 "[SlotTimeout, SlotUpdate 9, SlotUpdate 9, SlotTimeout]"]
  by (simp add: slot_step_def poll_slots_start_def Let_def)

definition ten_errors_exceeded :: "'a option list \<Rightarrow> bool" where
  "ten_errors_exceeded answers \<longleftrightarrow> (\<exists>before after. answers = before @ replicate 11 None @ after)"

lemma errors_before_answer:
  assumes "e \<le> 10"
  shows "ten_errors_exceeded (replicate e None @ Some x # xs) \<longleftrightarrow> ten_errors_exceeded xs"
proof
  assume "ten_errors_exceeded (replicate e None @ Some x # xs)"
  then obtain b a where eq: "replicate e None @ Some x # xs = b @ replicate 11 None @ a"
    by (auto simp: ten_errors_exceeded_def)
  have "(b @ replicate 11 None @ a) ! e = None" if "length b \<le> e"
    using that assms by (auto simp: nth_append)
  moreover have "(b @ replicate 11 None @ a) ! e = Some x"
    unfolding eq [symmetric] by (simp add: nth_append)
  ultimately have "e < length b" by fastforce
  then have "xs = drop (Suc e) b @ replicate 11 None @ a"
    using arg_cong [OF eq, of "drop (Suc e)"] by simp
  then show "ten_errors_exceeded xs" unfolding ten_errors_exceeded_def by blast
next
  assume "ten_errors_exceeded xs"
  then obtain b a where "xs = b @ replicate 11 None @ a" by (auto simp: ten_errors_exceeded_def)
  then have "replicate e None @ Some x # xs = (replicate e None @ Some x # b) @ replicate 11 None @ a" by simp
  then show "ten_errors_exceeded (replicate e None @ Some x # xs)" unfolding ten_errors_exceeded_def by blast
qed

lemma poll_commitment_slots_general:
  "sp_errors s \<le> 10 \<Longrightarrow>
    sorted_wrt (<) (sp_last_slot s # fst (poll_commitment_slots answers s))
    \<and> (snd (poll_commitment_slots answers s) \<noteq> Inr () \<longleftrightarrow> ten_errors_exceeded (replicate (sp_errors s) None @ answers))"
proof (induction answers arbitrary: s)
  case Nil
  have "length (b @ replicate 11 None @ a) \<noteq> sp_errors s" for a b :: "u64 option list"
    using Nil by simp
  then have "\<not> ten_errors_exceeded (replicate (sp_errors s) (None :: u64 option))"
    unfolding ten_errors_exceeded_def by (metis length_replicate)
  then show ?case by simp
next
  case (Cons x answers)
  show ?case
  proof (cases x)
    case None
    show ?thesis
    proof (cases "sp_errors s + 1 > 10")
      case True
      then have "sp_errors s = 10" using Cons.prems by simp
      then have "replicate (sp_errors s) None @ x # answers = [] @ replicate 11 None @ answers"
        using replicate_add [of 10 1 "None :: u64 option"] None by simp
      then have "ten_errors_exceeded (replicate (sp_errors s) None @ x # answers)"
        unfolding ten_errors_exceeded_def by blast
      then show ?thesis using True None by (simp add: poll_commitment_slot_def)
    next
      case False
      let ?s = "s\<lparr>sp_errors := sp_errors s + 1\<rparr>"
      have "None # replicate (sp_errors s) None @ answers = replicate (sp_errors s) None @ None # answers"
        by (simp add: replicate_app_Cons_same)
      then show ?thesis
        using Cons.IH [of ?s] False None by (simp add: poll_commitment_slot_def case_prod_beta)
    qed
  next
    case (Some slot)
    note t = errors_before_answer [OF Cons.prems, of slot answers]
    show ?thesis
      using Cons.IH [of "s\<lparr>sp_last_slot := slot, sp_errors := 0\<rparr>"] Cons.IH [of "s\<lparr>sp_errors := 0\<rparr>"] Some t
      by (auto simp: poll_commitment_slot_def case_prod_beta)
  qed
qed

text \<open>The slot poller sends strictly increasing slots whatever the node answers, and it gives up
  exactly when eleven requests in a row fail.\<close>

theorem polled_slots_increase:
  "sorted_wrt (<) (fst (poll_commitment_slots answers \<lparr>sp_last_slot = 0, sp_errors = 0\<rparr>))
    \<and> (snd (poll_commitment_slots answers \<lparr>sp_last_slot = 0, sp_errors = 0\<rparr>) \<noteq> Inr ()
       \<longleftrightarrow> (\<exists>before after. answers = before @ replicate 11 None @ after))"
  using poll_commitment_slots_general [of "\<lparr>sp_last_slot = 0, sp_errors = 0\<rparr>" answers]
  by (simp add: ten_errors_exceeded_def)

end
