(* ===== verification/Jupiter.thy ===== *)
theory Jupiter
  imports Accounts
begin

text \<open>
  The swap executor of Jupiter (\<^verbatim>\<open>swap/jupiter/executor.rs\<close>). The HTTP client of the swap API is code
  of another crate: its requests and responses are records with the fields that the executor fills
  and reads, and its three calls are arguments, as are the node's accounts.
\<close>

section \<open>Options\<close>

record quote_config_overrides =
  qo_as_legacy_transaction :: "bool option"
  qo_include_dexes :: "string list option"
  qo_exclude_dexes :: "string list option"
  qo_max_accounts :: "usize option"
  qo_only_direct_routes :: "bool option"

record jupiter_executor_opts =
  jo_include_dexes :: "string list option"
  jo_exclude_dexes :: "string list option"
  jo_as_legacy_transaction :: "bool option"
  jo_max_accounts :: "usize option"
  jo_quote_type :: "string option"
  jo_wrap_and_unwrap_sol :: bool
  jo_fee_account :: "pubkey option"
  jo_destination_token_account :: "pubkey option"
  jo_priority_fee :: "priority_fee_config option"
  jo_cu_limits :: "compute_unit_limits option"
  jo_use_shared_accounts :: bool
  jo_use_token_ledger :: bool
  jo_only_direct_routes :: "bool option"

definition jupiter_executor_opts_default :: jupiter_executor_opts where
  "jupiter_executor_opts_default = \<lparr>jo_include_dexes = None, jo_exclude_dexes = None,
     jo_as_legacy_transaction = Some False, jo_max_accounts = None, jo_quote_type = None,
     jo_wrap_and_unwrap_sol = True, jo_fee_account = None, jo_destination_token_account = None,
     jo_priority_fee = Some FeeDynamic, jo_cu_limits = None, jo_use_shared_accounts = False,
     jo_use_token_ledger = False, jo_only_direct_routes = Some False\<rparr>"

definition jupiter_get_config :: "jupiter_executor_opts \<Rightarrow> swap_config" where
  "jupiter_get_config opts = \<lparr>sc_priority_fee = jo_priority_fee opts, sc_cu_limits = jo_cu_limits opts,
     sc_wrap_and_unwrap_sol = Some (jo_wrap_and_unwrap_sol opts),
     sc_as_legacy_transaction = jo_as_legacy_transaction opts\<rparr>"

definition jupiter_set_config :: "swap_config \<Rightarrow> jupiter_executor_opts \<Rightarrow> jupiter_executor_opts" where
  "jupiter_set_config config opts =
     (let opts = opts\<lparr>jo_priority_fee := sc_priority_fee config, jo_cu_limits := sc_cu_limits config\<rparr>;
          opts = (case sc_wrap_and_unwrap_sol config of
            Some param \<Rightarrow> opts\<lparr>jo_wrap_and_unwrap_sol := param\<rparr> | None \<Rightarrow> opts)
      in opts\<lparr>jo_as_legacy_transaction := sc_as_legacy_transaction config\<rparr>)"

definition resolve_quote_config ::
  "jupiter_executor_opts \<Rightarrow> quote_config_overrides option \<Rightarrow> quote_config_overrides" where
  "resolve_quote_config opts overrides = (case overrides of
       Some c \<Rightarrow> \<lparr>qo_as_legacy_transaction = or_else (qo_as_legacy_transaction c) (jo_as_legacy_transaction opts),
         qo_include_dexes = or_else (qo_include_dexes c) (jo_include_dexes opts),
         qo_exclude_dexes = or_else (qo_exclude_dexes c) (jo_exclude_dexes opts),
         qo_max_accounts = or_else (qo_max_accounts c) (jo_max_accounts opts),
         qo_only_direct_routes = or_else (qo_only_direct_routes c) (jo_only_direct_routes opts)\<rparr>
     | None \<Rightarrow> \<lparr>qo_as_legacy_transaction = jo_as_legacy_transaction opts,
         qo_include_dexes = jo_include_dexes opts, qo_exclude_dexes = jo_exclude_dexes opts,
         qo_max_accounts = jo_max_accounts opts, qo_only_direct_routes = jo_only_direct_routes opts\<rparr>)"

definition resolve_swap_config ::
  "jupiter_executor_opts \<Rightarrow> swap_config_overrides option \<Rightarrow> swap_config_overrides" where
  "resolve_swap_config opts overrides = (case overrides of
       Some c \<Rightarrow> \<lparr>so_priority_fee = or_else (so_priority_fee c) (jo_priority_fee opts),
         so_cu_limits = or_else (so_cu_limits c) (jo_cu_limits opts),
         so_wrap_and_unwrap_sol = or_else (so_wrap_and_unwrap_sol c) (Some (jo_wrap_and_unwrap_sol opts)),
         so_use_shared_accounts = or_else (so_use_shared_accounts c) (Some (jo_use_shared_accounts opts)),
         so_use_token_ledger = or_else (so_use_token_ledger c) (Some (jo_use_token_ledger opts)),
         so_destination_token_account = or_else (so_destination_token_account c) (jo_destination_token_account opts),
         so_as_legacy_transaction = or_else (so_as_legacy_transaction c) (jo_as_legacy_transaction opts),
         so_include_dexes = or_else (so_include_dexes c) (jo_include_dexes opts),
         so_exclude_dexes = or_else (so_exclude_dexes c) (jo_exclude_dexes opts),
         so_max_accounts = or_else (so_max_accounts c) (jo_max_accounts opts),
         so_only_direct_routes = or_else (so_only_direct_routes c) (jo_only_direct_routes opts)\<rparr>
     | None \<Rightarrow> \<lparr>so_priority_fee = jo_priority_fee opts, so_cu_limits = jo_cu_limits opts,
         so_wrap_and_unwrap_sol = Some (jo_wrap_and_unwrap_sol opts),
         so_use_shared_accounts = Some (jo_use_shared_accounts opts),
         so_use_token_ledger = Some (jo_use_token_ledger opts),
         so_destination_token_account = jo_destination_token_account opts,
         so_as_legacy_transaction = jo_as_legacy_transaction opts,
         so_include_dexes = jo_include_dexes opts, so_exclude_dexes = jo_exclude_dexes opts,
         so_max_accounts = jo_max_accounts opts, so_only_direct_routes = jo_only_direct_routes opts\<rparr>)"

section \<open>Requests\<close>

record quote_request =
  qr_input_mint :: pubkey
  qr_output_mint :: pubkey
  qr_amount :: u64
  qr_swap_mode :: "swap_execution_mode option"
  qr_slippage_bps :: u16
  qr_platform_fee_bps :: "u8 option"
  qr_dexes :: "string list option"
  qr_exclude_dexes :: "string list option"
  qr_only_direct_routes :: "bool option"
  qr_as_legacy_transaction :: "bool option"
  qr_max_accounts :: "usize option"
  qr_quote_type :: "string option"

record quote_response =
  qp_input_mint :: pubkey
  qp_in_amount :: u64
  qp_output_mint :: pubkey
  qp_out_amount :: u64
  qp_other_amount_threshold :: u64

datatype prioritization_fee = PrioAuto | PrioAutoMultiplier u64 | PrioJitoTipLamports u64

record transaction_config =
  tc_wrap_and_unwrap_sol :: bool
  tc_fee_account :: "pubkey option"
  tc_destination_token_account :: "pubkey option"
  tc_compute_unit_price_micro_lamports :: "u64 option"
  tc_prioritization_fee_lamports :: "prioritization_fee option"
  tc_dynamic_compute_unit_limit :: bool
  tc_as_legacy_transaction :: bool
  tc_use_shared_accounts :: bool
  tc_use_token_ledger :: bool

record swap_request =
  sr_user_public_key :: pubkey
  sr_quote_response :: quote_response
  sr_config :: transaction_config

record 'ix swap_instructions_response =
  ir_token_ledger_instruction :: "'ix option"
  ir_compute_budget_instructions :: "'ix list"
  ir_setup_instructions :: "'ix list"
  ir_swap_instruction :: 'ix
  ir_cleanup_instruction :: "'ix option"

record executor_quote_response =
  eq_input_token_decimals :: "u8 option"
  eq_output_token_decimals :: "u8 option"
  eq_q :: quote_response
  eq_amount_specified_is_input :: bool

record 'ix jupiter_sdk =
  js_quote :: "quote_request \<Rightarrow> quote_response result"
  js_swap :: "swap_request \<Rightarrow> (u8 list \<times> u64) result"
  js_swap_instructions :: "swap_request \<Rightarrow> 'ix swap_instructions_response result"
  js_rpc :: account_rpc
  js_unpack_mint :: "u8 list \<Rightarrow> mint_state option"

text \<open>\<open>map_err(|e| anyhow!(...))\<close>: an error gets a message, a panic stays one.\<close>

definition map_err :: "string \<Rightarrow> 'a result \<Rightarrow> 'a result" where
  "map_err msg r = (case r of Inl (Error _) \<Rightarrow> Inl (Error msg) | _ \<Rightarrow> r)"

definition jupiter_quote_request ::
  "jupiter_executor_opts \<Rightarrow> swap_input \<Rightarrow> quote_config_overrides option \<Rightarrow> quote_request" where
  "jupiter_quote_request opts i overrides =
     (let c = resolve_quote_config opts overrides
      in \<lparr>qr_input_mint = si_input_token_mint i, qr_output_mint = si_output_token_mint i,
          qr_amount = si_amount i, qr_swap_mode = Some (si_mode i), qr_slippage_bps = si_slippage_bps i,
          qr_platform_fee_bps = None, qr_dexes = qo_include_dexes c, qr_exclude_dexes = qo_exclude_dexes c,
          qr_only_direct_routes = qo_only_direct_routes c,
          qr_as_legacy_transaction = qo_as_legacy_transaction c, qr_max_accounts = qo_max_accounts c,
          qr_quote_type = None\<rparr>)"

text \<open>\<open>Vec::remove(0)\<close> panics on an empty vector.\<close>

fun take_first :: "'a list \<Rightarrow> ('a \<times> 'a list) result" where
  "take_first [] = Inl (Panic ''removal index out of range'')"
| "take_first (x # xs) = Inr (x, xs)"

definition jupiter_quote ::
  "'ix jupiter_sdk \<Rightarrow> jupiter_executor_opts \<Rightarrow> swap_input \<Rightarrow> quote_config_overrides option
     \<Rightarrow> executor_quote_response result" where
  "jupiter_quote sdk opts i overrides =
     bind_res (map_err ''Error getting Jupiter quote'' (js_quote sdk (jupiter_quote_request opts i overrides))) (\<lambda>quote.
     bind_res (get_mint_accounts (js_rpc sdk) (js_unpack_mint sdk) [si_input_token_mint i, si_output_token_mint i])
       (\<lambda>mint_accounts.
     bind_res (take_first mint_accounts) (\<lambda>(input_mint, mint_accounts).
     bind_res (take_first mint_accounts) (\<lambda>(output_mint, _).
     Inr \<lparr>eq_input_token_decimals = map_option mst_decimals input_mint,
          eq_output_token_decimals = map_option mst_decimals output_mint,
          eq_q = quote, eq_amount_specified_is_input = amount_specified_is_input (si_mode i)\<rparr>))))"

text \<open>\<open>impl SwapQuote for ExecutorQuoteResponse\<close>\<close>

definition jupiter_swap_quote :: "executor_quote_response \<Rightarrow> swap_quote" where
  "jupiter_swap_quote e = \<lparr>q_input_token = qp_input_mint (eq_q e), q_output_token = qp_output_mint (eq_q e),
     q_input_token_decimals = eq_input_token_decimals e, q_output_token_decimals = eq_output_token_decimals e,
     q_amount = qp_in_amount (eq_q e), q_other_amount = qp_out_amount (eq_q e),
     q_other_amount_threshold = qp_other_amount_threshold (eq_q e),
     q_amount_specified_is_input = eq_amount_specified_is_input e\<rparr>"

definition jupiter_executor_quote ::
  "'ix jupiter_sdk \<Rightarrow> jupiter_executor_opts \<Rightarrow> quote_config_overrides option \<Rightarrow> swap_input \<Rightarrow> swap_quote result" where
  "jupiter_executor_quote sdk opts overrides i =
     bind_res (jupiter_quote sdk opts i overrides) (\<lambda>e. Inr (jupiter_swap_quote e))"

fun fixed_cu_price :: "priority_fee_config option \<Rightarrow> u64 option" where
  "fixed_cu_price (Some (FixedCuPrice p)) = Some p"
| "fixed_cu_price _ = None"

fun prioritization_fee_lamports :: "priority_fee_config option \<Rightarrow> prioritization_fee option" where
  "prioritization_fee_lamports (Some FeeDynamic) = Some PrioAuto"
| "prioritization_fee_lamports (Some (JitoTip tip)) = Some (PrioJitoTipLamports tip)"
| "prioritization_fee_lamports (Some (DynamicMultiplier m)) = Some (PrioAutoMultiplier m)"
| "prioritization_fee_lamports _ = None"

definition build_swap_request ::
  "jupiter_executor_opts \<Rightarrow> pubkey \<Rightarrow> executor_quote_response \<Rightarrow> swap_config_overrides option \<Rightarrow> swap_request" where
  "build_swap_request opts input_pubkey quote overrides =
     (let c = resolve_swap_config opts overrides
      in \<lparr>sr_user_public_key = input_pubkey, sr_quote_response = eq_q quote,
          sr_config = \<lparr>tc_wrap_and_unwrap_sol = unwrap_or (so_wrap_and_unwrap_sol c) True,
            tc_fee_account = None,
            tc_destination_token_account = so_destination_token_account c,
            tc_compute_unit_price_micro_lamports = fixed_cu_price (so_priority_fee c),
            tc_prioritization_fee_lamports = prioritization_fee_lamports (so_priority_fee c),
            tc_dynamic_compute_unit_limit =
              unwrap_or (map_option (\<lambda>cu. case cu of CuDynamic \<Rightarrow> True | CuFixed _ \<Rightarrow> False) (so_cu_limits c)) False,
            tc_as_legacy_transaction = unwrap_or (so_as_legacy_transaction c) False,
            tc_use_shared_accounts = unwrap_or (so_use_shared_accounts c) False,
            tc_use_token_ledger = unwrap_or (so_use_token_ledger c) False\<rparr>\<rparr>)"

definition opt_list :: "'a option \<Rightarrow> 'a list" where
  "opt_list x = (case x of Some y \<Rightarrow> [y] | None \<Rightarrow> [])"

definition jupiter_swap_instructions ::
  "'ix jupiter_sdk \<Rightarrow> jupiter_executor_opts \<Rightarrow> pubkey \<Rightarrow> executor_quote_response \<Rightarrow> swap_config_overrides option
     \<Rightarrow> 'ix list result" where
  "jupiter_swap_instructions sdk opts input_pubkey output overrides =
     bind_res (map_err ''Error getting Jupiter swap transaction''
         (js_swap_instructions sdk (build_swap_request opts input_pubkey output overrides))) (\<lambda>r.
     Inr (opt_list (ir_token_ledger_instruction r) @ ir_compute_budget_instructions r @ ir_setup_instructions r
       @ [ir_swap_instruction r] @ opt_list (ir_cleanup_instruction r)))"

definition jupiter_swap_transaction ::
  "'ix jupiter_sdk \<Rightarrow> jupiter_executor_opts \<Rightarrow> pubkey \<Rightarrow> executor_quote_response \<Rightarrow> swap_config_overrides option
     \<Rightarrow> ('tx transaction_variant \<times> u64) result" where
  "jupiter_swap_transaction sdk opts input_pubkey output overrides =
     bind_res (map_err ''Error getting Jupiter swap transaction''
         (js_swap sdk (build_swap_request opts input_pubkey output overrides))) (\<lambda>(bytes, height).
     Inr (TxBytes bytes, height))"

section \<open>The executor as a quote provider\<close>

text \<open>What the documentation of the swap API promises of a quote.\<close>

definition api_contract :: "(quote_request \<Rightarrow> quote_response result) \<Rightarrow> bool" where
  "api_contract quote \<longleftrightarrow> (\<forall>r p. quote r = Inr p \<longrightarrow>
     qp_input_mint p = qr_input_mint r \<and> qp_output_mint p = qr_output_mint r
     \<and> (qr_swap_mode r = Some ExactIn \<longrightarrow> qp_in_amount p = qr_amount r)
     \<and> (qr_swap_mode r = Some ExactOut \<longrightarrow> qp_out_amount p = qr_amount r))"

lemma jupiter_quote_answers:
  assumes "api_contract (js_quote sdk)" and "jupiter_executor_quote sdk opts overrides i = Inr q"
  shows "q_input_token q = si_input_token_mint i" and "q_output_token q = si_output_token_mint i"
    and "q_amount_specified_is_input q \<longleftrightarrow> si_mode i = ExactIn"
    and "si_mode i = ExactIn \<Longrightarrow> q_amount q = si_amount i"
    and "si_mode i = ExactOut \<Longrightarrow> q_other_amount q = si_amount i"
proof -
  obtain p where p: "js_quote sdk (jupiter_quote_request opts i overrides) = Inr p"
      and q: "q_input_token q = qp_input_mint p" "q_output_token q = qp_output_mint p"
        "q_amount_specified_is_input q = amount_specified_is_input (si_mode i)"
        "q_amount q = qp_in_amount p" "q_other_amount q = qp_out_amount p"
    using assms(2)
    by (auto simp: jupiter_executor_quote_def jupiter_quote_def jupiter_swap_quote_def map_err_def
        split: sum.splits failure.splits)
  have mode: "amount_specified_is_input (si_mode i) \<longleftrightarrow> si_mode i = ExactIn" by (cases "si_mode i") simp_all
  note c = assms(1) [unfolded api_contract_def, rule_format, OF p]
  show "q_input_token q = si_input_token_mint i" "q_output_token q = si_output_token_mint i"
      "q_amount_specified_is_input q \<longleftrightarrow> si_mode i = ExactIn"
      "si_mode i = ExactIn \<Longrightarrow> q_amount q = si_amount i"
      "si_mode i = ExactOut \<Longrightarrow> q_other_amount q = si_amount i"
    using c q mode by (simp_all add: jupiter_quote_request_def Let_def)
qed

text \<open>An executor over an API that keeps its documented contract provides quotes as the copy service
  relies on them.\<close>

lemma jupiter_provides_quotes:
  assumes "api_contract (js_quote sdk)"
  shows "quote_provider (jupiter_executor_quote sdk opts overrides)"
  using jupiter_quote_answers [OF assms]
  by unfold_locales (auto simp: quote_input_amount_def)

text \<open>Over an API that keeps its contract, a quote is for the tokens that were asked for and an
  exact-in quote is for the amount that was asked for. An exact-out quote is not: the copy service
  reads the input amount of a quote whose specified amount is not the input as its \<open>other_amount\<close>,
  and that is the requested output.\<close>

theorem jupiter_quote_input_amount:
  assumes "api_contract (js_quote sdk)" and "jupiter_executor_quote sdk opts overrides i = Inr q"
  shows "q_input_token q = si_input_token_mint i \<and> q_output_token q = si_output_token_mint i
    \<and> quote_input_amount q = si_amount i"
  using jupiter_quote_answers [OF assms] by (cases "si_mode i") (simp_all add: quote_input_amount_def)

definition example_jupiter :: "u8 jupiter_sdk" where
  "example_jupiter = \<lparr>js_quote = (\<lambda>r. Inr \<lparr>qp_input_mint = qr_input_mint r,
       qp_in_amount = (if qr_swap_mode r = Some ExactOut then 77 else qr_amount r),
       qp_output_mint = qr_output_mint r,
       qp_out_amount = (if qr_swap_mode r = Some ExactOut then qr_amount r else 55),
       qp_other_amount_threshold = 50\<rparr>),
     js_swap = (\<lambda>_. Inr ([1], 9)),
     js_swap_instructions = (\<lambda>_. Inr \<lparr>ir_token_ledger_instruction = None, ir_compute_budget_instructions = [1, 2],
       ir_setup_instructions = [3], ir_swap_instruction = 4, ir_cleanup_instruction = Some 5\<rparr>),
     js_rpc = (\<lambda>ks. Inr (map (\<lambda>_. None) ks)), js_unpack_mint = (\<lambda>_. None)\<rparr>"

definition example_exact_out :: swap_input where
  "example_exact_out = \<lparr>si_input_token_mint = SOL, si_output_token_mint = 42, si_slippage_bps = 100,
     si_amount = 1000, si_mode = ExactOut, si_market = None\<rparr>"

theorem jupiter_quote_input_amount_witness:
  "\<exists>q. jupiter_executor_quote example_jupiter jupiter_executor_opts_default None example_exact_out = Inr q
    \<and> q_amount q = 77 \<and> quote_input_amount q = 1000"
proof -
  note eval = jupiter_executor_quote_def jupiter_quote_def example_jupiter_def map_err_def get_mint_accounts_def
    get_multiple_accounts_def chunks.simps jupiter_swap_quote_def jupiter_quote_request_def example_exact_out_def
    Let_def resolve_quote_config_def jupiter_executor_opts_default_def
  have "\<exists>q. jupiter_executor_quote example_jupiter jupiter_executor_opts_default None example_exact_out = Inr q
      \<and> q_amount q = 77"
    by (simp add: eval)
  then obtain q where q: "jupiter_executor_quote example_jupiter jupiter_executor_opts_default None example_exact_out = Inr q"
      "q_amount q = 77" by blast
  have "quote_input_amount q = si_amount example_exact_out"
    using jupiter_quote_input_amount [OF _ q(1)] by (simp add: api_contract_def example_jupiter_def)
  then show ?thesis using q by (simp add: example_exact_out_def)
qed

section \<open>Requests and configuration\<close>

text \<open>A swap request never carries both a compute unit price and a priority fee in lamports, carries
  one of the two exactly when a priority fee is configured by the call or else by the executor, and
  an option of the call always wins over the executor's.\<close>

theorem swap_request_priority:
  "let r = sr_config (build_swap_request opts user quote overrides);
       fee = or_else (Option.bind overrides so_priority_fee) (jo_priority_fee opts)
   in (tc_compute_unit_price_micro_lamports r = None \<or> tc_prioritization_fee_lamports r = None)
    \<and> (tc_compute_unit_price_micro_lamports r = None \<and> tc_prioritization_fee_lamports r = None \<longleftrightarrow> fee = None)
    \<and> tc_compute_unit_price_micro_lamports r = fixed_cu_price fee
    \<and> tc_prioritization_fee_lamports r = prioritization_fee_lamports fee
    \<and> tc_wrap_and_unwrap_sol r = unwrap_or (Option.bind overrides so_wrap_and_unwrap_sol) (jo_wrap_and_unwrap_sol opts)
    \<and> tc_destination_token_account r
      = or_else (Option.bind overrides so_destination_token_account) (jo_destination_token_account opts)"
proof -
  let ?fee = "or_else (Option.bind overrides so_priority_fee) (jo_priority_fee opts)"
  have fee: "so_priority_fee (resolve_swap_config opts overrides) = ?fee"
    by (cases overrides) (simp_all add: resolve_swap_config_def)
  have "fixed_cu_price f = None \<or> prioritization_fee_lamports f = None"
      "fixed_cu_price f = None \<and> prioritization_fee_lamports f = None \<longleftrightarrow> f = None" for f
    by (cases f rule: fixed_cu_price.cases; simp)+
  moreover have "unwrap_or (so_wrap_and_unwrap_sol (resolve_swap_config opts overrides)) True
      = unwrap_or (Option.bind overrides so_wrap_and_unwrap_sol) (jo_wrap_and_unwrap_sol opts)"
    by (auto simp: resolve_swap_config_def or_else_def split: option.splits)
  moreover have "so_destination_token_account (resolve_swap_config opts overrides)
      = or_else (Option.bind overrides so_destination_token_account) (jo_destination_token_account opts)"
    by (cases overrides) (simp_all add: resolve_swap_config_def)
  ultimately show ?thesis by (simp add: build_swap_request_def Let_def fee)
qed

text \<open>Setting the configuration of an executor that it answered itself changes nothing.\<close>

lemma jupiter_config_roundtrip: "jupiter_set_config (jupiter_get_config opts) opts = opts"
  by (simp add: jupiter_set_config_def jupiter_get_config_def Let_def)

end
