(* ===== verification/Raydium_Amm.thy ===== *)
theory Raydium_Amm
  imports Builder Accounts
begin

text \<open>
  The swap executor of Raydium's constant product pools (\<^verbatim>\<open>swap/raydium/amm/executor.rs\<close>). The HTTP API,
  the \<open>raydium_amm\<close> and \<open>raydium_library\<close> crates (the layout of the accounts, the vault amounts
  without the pool's profit, the price of a swap, the instructions) and the SPL library are arguments,
  gathered in a record.
\<close>

section \<open>Pools and markets\<close>

record amm_keys =
  ak_amm_pool :: pubkey
  ak_amm_coin_mint :: pubkey
  ak_amm_pc_mint :: pubkey
  ak_amm_authority :: pubkey
  ak_amm_target :: pubkey
  ak_amm_coin_vault :: pubkey
  ak_amm_pc_vault :: pubkey
  ak_amm_open_order :: pubkey
  ak_market_program :: pubkey
  ak_market :: pubkey

record market_keys =
  mk_event_queue :: pubkey
  mk_bids :: pubkey
  mk_asks :: pubkey
  mk_coin_vault :: pubkey
  mk_pc_vault :: pubkey
  mk_vault_signer_key :: pubkey

text \<open>The market keys of the API and of the library, and their conversions.\<close>

record api_market_keys =
  am_market_event_queue :: pubkey
  am_market_bids :: pubkey
  am_market_asks :: pubkey
  am_market_base_vault :: pubkey
  am_market_quote_vault :: pubkey
  am_market_authority :: pubkey

record library_market_keys =
  lm_event_q :: pubkey
  lm_bids :: pubkey
  lm_asks :: pubkey
  lm_coin_vault :: pubkey
  lm_pc_vault :: pubkey
  lm_vault_signer_key :: pubkey

definition market_keys_from_api :: "api_market_keys \<Rightarrow> market_keys" where
  "market_keys_from_api k = \<lparr>mk_event_queue = am_market_event_queue k, mk_bids = am_market_bids k,
     mk_asks = am_market_asks k, mk_coin_vault = am_market_base_vault k,
     mk_pc_vault = am_market_quote_vault k, mk_vault_signer_key = am_market_authority k\<rparr>"

definition market_keys_from_library :: "library_market_keys \<Rightarrow> market_keys" where
  "market_keys_from_library k = \<lparr>mk_event_queue = lm_event_q k, mk_bids = lm_bids k, mk_asks = lm_asks k,
     mk_coin_vault = lm_coin_vault k, mk_pc_vault = lm_pc_vault k, mk_vault_signer_key = lm_vault_signer_key k\<rparr>"

record api_pool =
  ap_id :: pubkey
  ap_mint_a :: pubkey
  ap_mint_b :: pubkey

record amm_info =
  ai_status :: u64
  ai_coin_decimals :: u64
  ai_pc_decimals :: u64
  ai_swap_fee_numerator :: u64
  ai_swap_fee_denominator :: u64

datatype swap_direction = Coin2PC | PC2Coin

record ('b, 'ix) amm_sdk =
  as_fetch_pool_by_mints :: "pubkey \<Rightarrow> pubkey \<Rightarrow> api_pool list result"
  as_load_amm_keys :: "pubkey \<Rightarrow> amm_keys result"
  as_fetch_pool_keys :: "pubkey \<Rightarrow> api_market_keys list result"
  as_get_keys_for_market :: "pubkey \<Rightarrow> pubkey \<Rightarrow> library_market_keys result"
  as_rpc :: account_rpc
  as_amm_info :: "u8 list \<Rightarrow> amm_info result"
  as_target_orders :: "u8 list \<Rightarrow> unit result"
  as_token_amount :: "u8 list \<Rightarrow> u64 option"
  as_orderbook_permission :: "u64 \<Rightarrow> bool"
  as_load_serum_market_order :: "raw_account \<Rightarrow> raw_account \<Rightarrow> amm_info \<Rightarrow> 'b result"
  as_calc_total_without_take_pnl ::
    "u64 \<Rightarrow> u64 \<Rightarrow> 'b \<Rightarrow> amm_info \<Rightarrow> raw_account \<Rightarrow> raw_account \<Rightarrow> (u64 \<times> u64) result"
  as_calc_total_without_take_pnl_no_orderbook :: "u64 \<Rightarrow> u64 \<Rightarrow> amm_info \<Rightarrow> (u64 \<times> u64) result"
  as_swap_with_slippage ::
    "u64 \<Rightarrow> u64 \<Rightarrow> u64 \<Rightarrow> u64 \<Rightarrow> swap_direction \<Rightarrow> u64 \<Rightarrow> bool \<Rightarrow> u64 \<Rightarrow> (u64 \<times> u64) result"
  as_swap_base_in :: "amm_keys \<Rightarrow> market_keys \<Rightarrow> pubkey \<Rightarrow> pubkey \<Rightarrow> pubkey \<Rightarrow> u64 \<Rightarrow> u64 \<Rightarrow> 'ix result"
  as_swap_base_out :: "amm_keys \<Rightarrow> market_keys \<Rightarrow> pubkey \<Rightarrow> pubkey \<Rightarrow> pubkey \<Rightarrow> u64 \<Rightarrow> u64 \<Rightarrow> 'ix result"

section \<open>Quotes\<close>

record raydium_amm_quote =
  rq_market :: pubkey
  rq_input_mint :: pubkey
  rq_output_mint :: pubkey
  rq_amount :: u64
  rq_other_amount :: u64
  rq_other_amount_threshold :: u64
  rq_amount_specified_is_input :: bool
  rq_input_mint_decimals :: u8
  rq_output_mint_decimals :: u8
  rq_amm_keys :: amm_keys
  rq_market_keys :: market_keys

definition pool_matches :: "swap_input \<Rightarrow> api_pool \<Rightarrow> bool" where
  "pool_matches i p \<longleftrightarrow>
     ap_mint_a p = si_input_token_mint i \<and> ap_mint_b p = si_output_token_mint i
     \<or> ap_mint_a p = si_output_token_mint i \<and> ap_mint_b p = si_input_token_mint i"

definition find_pool :: "('b, 'ix) amm_sdk \<Rightarrow> swap_input \<Rightarrow> pubkey option result" where
  "find_pool sdk i = (case si_market i of
       Some pool_id \<Rightarrow> Inr (Some pool_id)
     | None \<Rightarrow>
         bind_res (as_fetch_pool_by_mints sdk (si_input_token_mint i) (si_output_token_mint i)) (\<lambda>pools.
         Inr (map_option ap_id (List.find (pool_matches i) pools))))"

definition find_market_keys :: "('b, 'ix) amm_sdk \<Rightarrow> bool \<Rightarrow> pubkey \<Rightarrow> amm_keys \<Rightarrow> market_keys result" where
  "find_market_keys sdk by_api pool_id keys =
     (if by_api then
        bind_res (as_fetch_pool_keys sdk pool_id) (\<lambda>response.
        bind_res (ok_or (case response of [] \<Rightarrow> None | k # _ \<Rightarrow> Some k)
          ''Failed to get pool keys for raydium standard pool'') (\<lambda>k.
        Inr (market_keys_from_api k)))
      else
        bind_res (as_get_keys_for_market sdk (ak_market_program keys) (ak_market keys)) (\<lambda>k.
        Inr (market_keys_from_library k)))"

definition amm_load_pubkeys :: "pubkey \<Rightarrow> amm_keys \<Rightarrow> market_keys \<Rightarrow> pubkey list" where
  "amm_load_pubkeys pool_id keys market = [pool_id, ak_amm_target keys, ak_amm_pc_vault keys, ak_amm_coin_vault keys,
     ak_amm_open_order keys, ak_market keys, mk_event_queue market]"

definition unwrap :: "'a option \<Rightarrow> 'a result" where
  "unwrap x = expect x ''called `Option::unwrap()` on a `None` value''"

text \<open>The amounts of the two vaults, from the accounts in the order of the request; \<open>array_ref\<close> panics
  when there are fewer than seven.\<close>

definition pool_amounts ::
  "('b, 'ix) amm_sdk \<Rightarrow> raw_account option list \<Rightarrow> (amm_info \<times> u64 \<times> u64) result" where
  "pool_amounts sdk rsps = (case rsps of
       amm_account # amm_target_account # pc_vault_account # coin_vault_account # open_orders_account
         # market_account # event_q_account # _ \<Rightarrow>
         bind_res (unwrap amm_account) (\<lambda>amm_account.
         bind_res (as_amm_info sdk (ra_data amm_account)) (\<lambda>amm.
         bind_res (unwrap amm_target_account) (\<lambda>target.
         bind_res (as_target_orders sdk (ra_data target)) (\<lambda>_.
         bind_res (unwrap pc_vault_account) (\<lambda>pc_vault.
         bind_res (unwrap (as_token_amount sdk (ra_data pc_vault))) (\<lambda>pc_amount.
         bind_res (unwrap coin_vault_account) (\<lambda>coin_vault.
         bind_res (unwrap (as_token_amount sdk (ra_data coin_vault))) (\<lambda>coin_amount.
         bind_res (if as_orderbook_permission sdk (ai_status amm) then
             bind_res (unwrap open_orders_account) (\<lambda>open_orders.
             bind_res (unwrap market_account) (\<lambda>market.
             bind_res (unwrap event_q_account) (\<lambda>event_q.
             bind_res (as_load_serum_market_order sdk market open_orders amm) (\<lambda>book.
             as_calc_total_without_take_pnl sdk pc_amount coin_amount book amm event_q open_orders))))
           else as_calc_total_without_take_pnl_no_orderbook sdk pc_amount coin_amount amm) (\<lambda>amounts.
         Inr (amm, amounts))))))))))
     | _ \<Rightarrow> Inl (Panic ''range end index out of range''))"

definition amm_direction :: "swap_input \<Rightarrow> amm_keys \<Rightarrow> swap_direction \<times> bool" where
  "amm_direction i keys =
     (if si_input_token_mint i = ak_amm_coin_mint keys \<and> si_output_token_mint i = ak_amm_pc_mint keys
      then (Coin2PC, True) else (PC2Coin, False))"

definition raydium_amm_quote_of ::
  "('b, 'ix) amm_sdk \<Rightarrow> bool \<Rightarrow> swap_input \<Rightarrow> raydium_amm_quote result" where
  "raydium_amm_quote_of sdk by_api i =
     (if si_input_token_mint i = si_output_token_mint i
      then Inl (Error ''Input token cannot equal output token'')
      else
        bind_res (find_pool sdk i) (\<lambda>pool_id.
        bind_res (ok_or pool_id
          ''todo: Return identifiable `marketNotFound` error so we can retry with Jupiter?'') (\<lambda>pool_id.
        bind_res (as_load_amm_keys sdk pool_id) (\<lambda>keys.
        bind_res (find_market_keys sdk by_api pool_id keys) (\<lambda>market.
        bind_res (get_multiple_account_data (as_rpc sdk) (amm_load_pubkeys pool_id keys market)) (\<lambda>rsps.
        bind_res (pool_amounts sdk rsps) (\<lambda>(amm, pc_vault_amount, coin_vault_amount).
        let (direction, coin_to_pc) = amm_direction i keys;
            is_input = amount_specified_is_input (si_mode i)
        in bind_res (as_swap_with_slippage sdk pc_vault_amount coin_vault_amount (ai_swap_fee_numerator amm)
               (ai_swap_fee_denominator amm) direction (si_amount i) is_input (ucast (si_slippage_bps i)))
             (\<lambda>(other_amount, other_amount_threshold).
           Inr \<lparr>rq_market = pool_id, rq_input_mint = si_input_token_mint i, rq_output_mint = si_output_token_mint i,
                rq_amount = si_amount i, rq_other_amount = other_amount,
                rq_other_amount_threshold = other_amount_threshold, rq_amount_specified_is_input = is_input,
                rq_input_mint_decimals = ucast (if coin_to_pc then ai_coin_decimals amm else ai_pc_decimals amm),
                rq_output_mint_decimals = ucast (if coin_to_pc then ai_pc_decimals amm else ai_coin_decimals amm),
                rq_amm_keys = keys, rq_market_keys = market\<rparr>))))))))"

text \<open>\<open>impl SwapQuote for RaydiumAmmQuote\<close>\<close>

definition raydium_swap_quote :: "raydium_amm_quote \<Rightarrow> swap_quote" where
  "raydium_swap_quote q = \<lparr>q_input_token = rq_input_mint q, q_output_token = rq_output_mint q,
     q_input_token_decimals = Some (rq_input_mint_decimals q), q_output_token_decimals = Some (rq_output_mint_decimals q),
     q_amount = rq_amount q, q_other_amount = rq_other_amount q,
     q_other_amount_threshold = rq_other_amount_threshold q,
     q_amount_specified_is_input = rq_amount_specified_is_input q\<rparr>"

definition raydium_executor_quote :: "('b, 'ix) amm_sdk \<Rightarrow> bool \<Rightarrow> swap_input \<Rightarrow> swap_quote result" where
  "raydium_executor_quote sdk by_api i =
     bind_res (raydium_amm_quote_of sdk by_api i) (\<lambda>q. Inr (raydium_swap_quote q))"

section \<open>Swaps\<close>

record raydium_executor_opts =
  ro_priority_fee :: "priority_fee_config option"
  ro_cu_limits :: "compute_unit_limits option"
  ro_wrap_and_unwrap_sol :: "bool option"
  ro_get_market_keys_by_api :: "bool option"

definition raydium_executor_new :: "raydium_executor_opts \<Rightarrow> bool \<times> swap_config" where
  "raydium_executor_new opts = (unwrap_or (ro_get_market_keys_by_api opts) True,
     \<lparr>sc_priority_fee = ro_priority_fee opts, sc_cu_limits = ro_cu_limits opts,
      sc_wrap_and_unwrap_sol = ro_wrap_and_unwrap_sol opts, sc_as_legacy_transaction = Some True\<rparr>)"

definition raydium_swap_instruction ::
  "('b, 'ix) amm_sdk \<Rightarrow> amm_keys \<Rightarrow> market_keys \<Rightarrow> pubkey \<Rightarrow> pubkey \<Rightarrow> pubkey \<Rightarrow> u64 \<Rightarrow> u64 \<Rightarrow> bool \<Rightarrow> 'ix result" where
  "raydium_swap_instruction sdk keys market user_owner user_source user_destination amount_specified
     other_amount_threshold swap_base_in =
     (if swap_base_in
      then as_swap_base_in sdk keys market user_source user_destination user_owner amount_specified other_amount_threshold
      else as_swap_base_out sdk keys market user_source user_destination user_owner other_amount_threshold amount_specified)"

text \<open>\<open>get_associated_token_address\<close> uses the token program.\<close>

definition raydium_make_swap ::
  "('b, 'ix) amm_sdk \<Rightarrow> token_sdk \<Rightarrow> ('ix, 'msg) message_sdk \<Rightarrow> ('msg built_transaction \<Rightarrow> u64 option result)
     \<Rightarrow> pubkey \<Rightarrow> f64 option \<Rightarrow> swap_config \<Rightarrow> pubkey \<Rightarrow> raydium_amm_quote \<Rightarrow> swap_config_overrides option
     \<Rightarrow> 'ix swap_instructions_builder result" where
  "raydium_make_swap sdk tok msg simulate jito_recipient high_fee config input_pubkey q overrides =
     (let priority_fee = or_else (Option.bind overrides so_priority_fee) (sc_priority_fee config);
          cu_limits = or_else (Option.bind overrides so_cu_limits) (sc_cu_limits config);
          wrap_and_unwrap_sol = unwrap_or (or_else (Option.bind overrides so_wrap_and_unwrap_sol)
            (sc_wrap_and_unwrap_sol config)) True;
          output = raydium_swap_quote q
      in bind_res (handle_token_wrapping_and_accounts_creation tok input_pubkey wrap_and_unwrap_sol
             (if q_amount_specified_is_input output then q_amount output else q_other_amount output)
             (q_input_token output) (q_output_token output)
             (ts_token_program tok) (ts_token_program tok) None builder_default) (\<lambda>(builder, associated_accounts).
         bind_res (raydium_swap_instruction sdk (rq_amm_keys q) (rq_market_keys q) input_pubkey
             (ts_ata tok input_pubkey (rq_input_mint q) (ts_token_program tok))
             (ts_ata tok input_pubkey (rq_output_mint q) (ts_token_program tok))
             (rq_amount q) (rq_other_amount_threshold q) (rq_amount_specified_is_input q)) (\<lambda>instruction.
         bind_res (handle_compute_units_params msg simulate cu_limits input_pubkey
             (builder\<lparr>sb_swap_instruction := Some (SwapIx instruction)\<rparr>)) (\<lambda>(builder, compute_units).
         handle_priority_fee_params jito_recipient high_fee priority_fee compute_units input_pubkey builder))))"

definition raydium_swap_instructions ::
  "('b, 'ix) amm_sdk \<Rightarrow> token_sdk \<Rightarrow> ('ix, 'msg) message_sdk \<Rightarrow> ('msg built_transaction \<Rightarrow> u64 option result)
     \<Rightarrow> pubkey \<Rightarrow> f64 option \<Rightarrow> swap_config \<Rightarrow> pubkey \<Rightarrow> raydium_amm_quote \<Rightarrow> swap_config_overrides option
     \<Rightarrow> 'ix instruction list result" where
  "raydium_swap_instructions sdk tok msg simulate jito_recipient high_fee config input_pubkey q overrides =
     bind_res (raydium_make_swap sdk tok msg simulate jito_recipient high_fee config input_pubkey q overrides)
       build_instructions"

definition raydium_swap_transaction ::
  "('b, 'ix) amm_sdk \<Rightarrow> token_sdk \<Rightarrow> ('ix, 'msg) message_sdk \<Rightarrow> ('msg built_transaction \<Rightarrow> u64 option result)
     \<Rightarrow> pubkey \<Rightarrow> f64 option \<Rightarrow> (hash \<times> u64) option \<Rightarrow> swap_config \<Rightarrow> pubkey \<Rightarrow> raydium_amm_quote
     \<Rightarrow> swap_config_overrides option \<Rightarrow> ('msg built_transaction transaction_variant \<times> u64) result" where
  "raydium_swap_transaction sdk tok msg simulate jito_recipient high_fee latest config input_pubkey q overrides =
     bind_res (raydium_make_swap sdk tok msg simulate jito_recipient high_fee config input_pubkey q overrides) (\<lambda>builder.
     let (blockhash, last_valid_blockheight) = (case latest of None \<Rightarrow> (0, 0) | Some b \<Rightarrow> b)
     in bind_res (build_transaction msg (Some input_pubkey) (Some blockhash) builder) (\<lambda>tx.
        Inr (TxVersioned tx, last_valid_blockheight)))"

section \<open>Properties\<close>

lemma raydium_quote_echoes:
  assumes "raydium_amm_quote_of sdk by_api i = Inr q"
  shows "rq_input_mint q = si_input_token_mint i" and "rq_output_mint q = si_output_token_mint i"
    and "rq_amount q = si_amount i" and "rq_amount_specified_is_input q = amount_specified_is_input (si_mode i)"
    and "si_input_token_mint i \<noteq> si_output_token_mint i"
  using assms
  by (auto simp: raydium_amm_quote_of_def Let_def amm_direction_def split: if_splits prod.splits)

interpretation raydium: quote_provider "raydium_executor_quote sdk by_api" for sdk by_api
  by unfold_locales
    (auto simp: raydium_executor_quote_def raydium_swap_quote_def quote_input_amount_def raydium_quote_echoes)

text \<open>The pool that an executor is told to use is not compared with the tokens of the swap: whatever
  two tokens are asked for, unless they are the pool's coin and price token in this order, the quote
  is the one for selling the pool's price token for its coin, relabelled with the tokens asked for.\<close>

theorem raydium_quote_ignores_pool_tokens:
  assumes "si_market i = Some pool" and "as_load_amm_keys sdk pool = Inr keys"
    and "si_input_token_mint i \<noteq> si_output_token_mint i" and "ak_amm_pc_mint keys \<noteq> ak_amm_coin_mint keys"
    and "\<not> (si_input_token_mint i = ak_amm_coin_mint keys \<and> si_output_token_mint i = ak_amm_pc_mint keys)"
  shows "raydium_amm_quote_of sdk by_api i
    = bind_res (raydium_amm_quote_of sdk by_api
        (i\<lparr>si_input_token_mint := ak_amm_pc_mint keys, si_output_token_mint := ak_amm_coin_mint keys\<rparr>))
      (\<lambda>q. Inr (q\<lparr>rq_input_mint := si_input_token_mint i, rq_output_mint := si_output_token_mint i\<rparr>))"
  using assms
  by (auto simp: raydium_amm_quote_of_def find_pool_def amm_direction_def Let_def bind_res_def
      split: sum.splits prod.splits)

definition example_amm_keys :: amm_keys where
  "example_amm_keys = \<lparr>ak_amm_pool = 1, ak_amm_coin_mint = 42, ak_amm_pc_mint = SOL, ak_amm_authority = 3,
     ak_amm_target = 4, ak_amm_coin_vault = 5, ak_amm_pc_vault = 6, ak_amm_open_order = 7, ak_market_program = 8, ak_market = 9\<rparr>"

definition example_market_keys :: market_keys where
  "example_market_keys = \<lparr>mk_event_queue = 10, mk_bids = 11, mk_asks = 12, mk_coin_vault = 13, mk_pc_vault = 14,
     mk_vault_signer_key = 15\<rparr>"

text \<open>Instructions of the example: base-in or base-out with the two amounts.\<close>

definition example_amm_sdk :: "(unit, bool \<times> u64 \<times> u64) amm_sdk" where
  "example_amm_sdk = \<lparr>as_fetch_pool_by_mints = (\<lambda>_ _. Inr []), as_load_amm_keys = (\<lambda>_. Inr example_amm_keys),
     as_fetch_pool_keys = (\<lambda>_. Inr [\<lparr>am_market_event_queue = 10, am_market_bids = 11, am_market_asks = 12,
       am_market_base_vault = 13, am_market_quote_vault = 14, am_market_authority = 15\<rparr>]),
     as_get_keys_for_market = (\<lambda>_ _. Inl (Error '''')),
     as_rpc = (\<lambda>ks. Inr (map (\<lambda>_. Some \<lparr>ra_owner = 0, ra_data = []\<rparr>) ks)),
     as_amm_info = (\<lambda>_. Inr \<lparr>ai_status = 1, ai_coin_decimals = 6, ai_pc_decimals = 9, ai_swap_fee_numerator = 25,
       ai_swap_fee_denominator = 10000\<rparr>),
     as_target_orders = (\<lambda>_. Inr ()), as_token_amount = (\<lambda>_. Some 1000000), as_orderbook_permission = (\<lambda>_. False),
     as_load_serum_market_order = (\<lambda>_ _ _. Inr ()), as_calc_total_without_take_pnl = (\<lambda>_ _ _ _ _ _. Inl (Error '''')),
     as_calc_total_without_take_pnl_no_orderbook = (\<lambda>pc coin _. Inr (pc, coin)),
     as_swap_with_slippage = (\<lambda>pc coin n d dir amount is_in bps. Inr (amount div 2, amount div 3)),
     as_swap_base_in = (\<lambda>_ _ _ _ _ a b. Inr (True, a, b)), as_swap_base_out = (\<lambda>_ _ _ _ _ a b. Inr (False, a, b))\<rparr>"

definition example_amm_input :: swap_input where
  "example_amm_input = \<lparr>si_input_token_mint = 77, si_output_token_mint = 78, si_slippage_bps = 100,
     si_amount = 600, si_mode = ExactIn, si_market = Some 1\<rparr>"

theorem raydium_quote_ignores_pool_tokens_witness:
  "\<exists>q. raydium_amm_quote_of example_amm_sdk True example_amm_input = Inr q
    \<and> rq_input_mint q = 77 \<and> rq_other_amount q = 300 \<and> rq_input_mint_decimals q = 9"
proof -
  have e: "raydium_amm_quote_of example_amm_sdk True example_amm_input
      = bind_res (raydium_amm_quote_of example_amm_sdk True
          (example_amm_input\<lparr>si_input_token_mint := ak_amm_pc_mint example_amm_keys,
            si_output_token_mint := ak_amm_coin_mint example_amm_keys\<rparr>))
        (\<lambda>q. Inr (q\<lparr>rq_input_mint := si_input_token_mint example_amm_input,
          rq_output_mint := si_output_token_mint example_amm_input\<rparr>))"
    by (rule raydium_quote_ignores_pool_tokens [of _ 1])
      (simp_all add: example_amm_input_def example_amm_sdk_def example_amm_keys_def SOL_def)
  show ?thesis
    unfolding e
    by (simp add: raydium_amm_quote_of_def find_pool_def find_market_keys_def example_amm_input_def example_amm_sdk_def
        example_amm_keys_def SOL_def get_multiple_account_data_def chunks.simps amm_load_pubkeys_def pool_amounts_def
        unwrap_def Let_def amm_direction_def)
qed

text \<open>The instructions of a Raydium swap: the compute budget, the token accounts and the Jito tip,
  the one swap instruction and the closing of the wrapped SOL account. An exact-in swap sells exactly
  the amount for at least the threshold, an exact-out swap buys exactly the amount for at most the
  threshold; SOL that is sold is wrapped first: the amount itself, or for an exact-out swap the quoted
  input without the slippage.\<close>

theorem raydium_swap_layout:
  assumes "raydium_swap_instructions sdk tok msg simulate r high config user q overrides = Inr ixs"
    and "rq_input_mint q = ts_native tok" and "rq_output_mint q \<noteq> ts_native tok"
    and "unwrap_or (or_else (Option.bind overrides so_wrap_and_unwrap_sol) (sc_wrap_and_unwrap_sol config)) True"
  defines "wsol \<equiv> ts_ata tok user (ts_native tok) (ts_token_program tok)"
  shows "\<exists>budget tip swap.
      ixs = budget
        @ [CreateAtaIdempotent user user (ts_native tok) (ts_token_program tok),
           SystemTransfer user wsol (if rq_amount_specified_is_input q then rq_amount q else rq_other_amount q),
           SyncNative (ts_token_program tok) wsol,
           CreateAtaIdempotent user user (rq_output_mint q) (ts_token_program tok)]
        @ tip @ [SwapIx swap] @ [CloseAccount (ts_token_program tok) wsol user user]
    \<and> set budget \<subseteq> range SetComputeUnitLimit \<union> range SetComputeUnitPrice
    \<and> (tip = [] \<or> (\<exists>t. tip = [SystemTransfer user r t]))
    \<and> (let out = ts_ata tok user (rq_output_mint q) (ts_token_program tok)
       in if rq_amount_specified_is_input q
          then as_swap_base_in sdk (rq_amm_keys q) (rq_market_keys q) wsol out user (rq_amount q)
                 (rq_other_amount_threshold q) = Inr swap
          else as_swap_base_out sdk (rq_amm_keys q) (rq_market_keys q) wsol out user (rq_other_amount_threshold q)
                 (rq_amount q) = Inr swap)"
proof -
  let ?wrap = "unwrap_or (or_else (Option.bind overrides so_wrap_and_unwrap_sol) (sc_wrap_and_unwrap_sol config)) True"
  obtain b1 u swap b2 units b3 where
    1: "handle_token_wrapping_and_accounts_creation tok user ?wrap
        (if rq_amount_specified_is_input q then rq_amount q else rq_other_amount q)
        (rq_input_mint q) (rq_output_mint q) (ts_token_program tok) (ts_token_program tok) None
        (builder_default\<lparr>sb_swap_instruction := None\<rparr>) = Inr (b1, u)"
    and sw: "raydium_swap_instruction sdk (rq_amm_keys q) (rq_market_keys q) user
        (ts_ata tok user (rq_input_mint q) (ts_token_program tok))
        (ts_ata tok user (rq_output_mint q) (ts_token_program tok))
        (rq_amount q) (rq_other_amount_threshold q) (rq_amount_specified_is_input q) = Inr swap"
    and 2: "handle_compute_units_params msg simulate (or_else (Option.bind overrides so_cu_limits) (sc_cu_limits config))
        user (b1\<lparr>sb_swap_instruction := Some (SwapIx swap)\<rparr>) = Inr (b2, units)"
    and 3: "handle_priority_fee_params r high
        (or_else (Option.bind overrides so_priority_fee) (sc_priority_fee config)) units user b2 = Inr b3"
    and 4: "build_instructions b3 = Inr ixs"
    using assms(1) unfolding raydium_swap_instructions_def raydium_make_swap_def Let_def raydium_swap_quote_def
    by (clarsimp elim!: bind_res_InrE simp: builder_default_def cong: if_cong simp del: handle_priority_fee_params.simps)
  note w = wrapping_default [OF 1]
  let ?b1 = "b1\<lparr>sb_swap_instruction := Some (SwapIx swap)\<rparr>"
  have b1: "sb_compute_budget_instructions ?b1 = []" "sb_swap_instruction ?b1 = Some (SwapIx swap)"
    using w(1) by simp_all
  obtain budget tip where ixs: "ixs = budget @ sb_setup_instructions ?b1 @ tip @ [SwapIx swap]
      @ (case sb_cleanup_instruction ?b1 of Some ix \<Rightarrow> [ix] | None \<Rightarrow> [])"
      and budget: "set budget \<subseteq> range SetComputeUnitLimit \<union> range SetComputeUnitPrice"
      and tip: "tip = [] \<or> (\<exists>t. tip = [SystemTransfer user r t])"
    using finished_layout [OF 2 3 4 b1] .
  show ?thesis
    by (rule exI [of _ budget], rule exI [of _ tip], rule exI [of _ swap], intro conjI)
      (use ixs budget tip sw assms(2-4) in \<open>simp_all add: w(3,4) wsol_def raydium_swap_instruction_def split: if_splits\<close>)
qed

definition example_amm_quote :: raydium_amm_quote where
  "example_amm_quote = \<lparr>rq_market = 1, rq_input_mint = SOL, rq_output_mint = 42, rq_amount = 1000,
     rq_other_amount = 500, rq_other_amount_threshold = 550, rq_amount_specified_is_input = False,
     rq_input_mint_decimals = 9, rq_output_mint_decimals = 6, rq_amm_keys = example_amm_keys,
     rq_market_keys = example_market_keys\<rparr>"

definition example_amm_config :: swap_config where
  "example_amm_config = \<lparr>sc_priority_fee = Some (JitoTip 9), sc_cu_limits = None, sc_wrap_and_unwrap_sol = None,
     sc_as_legacy_transaction = Some True\<rparr>"

definition example_amm_tokens :: token_sdk where
  "example_amm_tokens = \<lparr>ts_ata = (\<lambda>w m p. w + m + p), ts_token_program = 6, ts_native = SOL\<rparr>"

theorem raydium_swap_layout_witness:
  "\<exists>ixs budget tip swap. raydium_swap_instructions example_amm_sdk example_amm_tokens
      \<lparr>ms_new = (\<lambda>ixs p. ixs), ms_set_recent_blockhash = (\<lambda>h m. m)\<rparr> (\<lambda>_. Inr None) 5 None example_amm_config 70
      example_amm_quote None = Inr ixs
    \<and> ixs = budget @ [CreateAtaIdempotent 70 70 SOL 6, SystemTransfer 70 (76 + SOL) 500, SyncNative 6 (76 + SOL),
         CreateAtaIdempotent 70 70 42 6] @ tip @ [SwapIx swap] @ [CloseAccount 6 (76 + SOL) 70 70]
    \<and> swap = (False, 550, 1000)"
proof -
  let ?f = "raydium_swap_instructions example_amm_sdk example_amm_tokens
      \<lparr>ms_new = (\<lambda>ixs p. ixs), ms_set_recent_blockhash = (\<lambda>h m. m)\<rparr> (\<lambda>_. Inr None) 5 None example_amm_config 70
      example_amm_quote None"
  have "\<exists>ixs. ?f = Inr ixs"
    by (simp add: raydium_swap_instructions_def raydium_make_swap_def example_amm_config_def Let_def
        handle_token_wrapping_and_accounts_creation_def handle_compute_units_params_def cu_limit_of_def
        raydium_swap_instruction_def example_amm_sdk_def build_instructions_def)
  then obtain ixs where ixs: "?f = Inr ixs" by blast
  show ?thesis
    using raydium_swap_layout [OF ixs] ixs
    by (auto simp: example_amm_quote_def example_amm_tokens_def example_amm_config_def example_amm_sdk_def SOL_def)
qed

end
