(* ===== verification/Orca.thy ===== *)
theory Orca
  imports Swap_Types Wire_Ix
begin

text \<open>
  Quotes of Orca's whirlpools (\<^verbatim>\<open>swap/orca/quote.rs\<close>, \<^verbatim>\<open>swap/orca/utils.rs\<close> and the pool list of
  \<^verbatim>\<open>swap/orca/api.rs\<close>): which tick arrays a swap crosses, the
  amounts that the whirlpool program computes and the instruction. The mathematics of the swap, the
  constants and the account layouts of the \<open>whirlpool\<close> crate, the node, the clock and the derivation of
  addresses are arguments. \<open>i32\<close> is a word of 32 bits that is read with its sign.
\<close>

type_synonym i32 = "32 word"

definition i32_as_f64 :: "i32 \<Rightarrow> f64" where
  "i32_as_f64 w = (if sint w < 0 then round64 True (of_int (- sint w)) else round64 False (of_int (sint w)))"

fun f64_as_i32 :: "f64 \<Rightarrow> i32" where
  "f64_as_i32 NaN = 0"
| "f64_as_i32 (Infinity s) = (if s then of_int (- (2 ^ 31)) else of_int (2 ^ 31 - 1))"
| "f64_as_i32 (Finite s x) = of_int (max (- (2 ^ 31)) (min (2 ^ 31 - 1) (if s then - \<lfloor>x\<rfloor> else \<lfloor>x\<rfloor>)))"

text \<open>The remainder of Rust has the sign of the dividend.\<close>

definition rem_i32 :: "i32 \<Rightarrow> i32 \<Rightarrow> i32 result" where
  "rem_i32 a b =
     (if b = 0 then Inl (Panic ''attempt to calculate the remainder with a divisor of zero'')
      else Inr (of_int (if sint a < 0 then - (\<bar>sint a\<bar> mod \<bar>sint b\<bar>) else sint a mod \<bar>sint b\<bar>)))"

record whirlpool =
  wl_token_mint_a :: pubkey
  wl_token_mint_b :: pubkey
  wl_token_vault_a :: pubkey
  wl_token_vault_b :: pubkey
  wl_tick_current_index :: i32
  wl_tick_spacing :: u16

text \<open>What the code takes from the whirlpool crate, the SDK and the node; \<open>'t\<close> is a tick array.\<close>

record 't orca_sdk =
  ok_tick_array_size :: i32
  ok_min_tick_index :: i32
  ok_max_tick_index :: i32
  ok_min_sqrt_price :: u128
  ok_max_sqrt_price :: u128
  ok_program_id :: pubkey
  ok_token_program :: pubkey
  ok_tick_array_pda :: "pubkey \<Rightarrow> pubkey \<Rightarrow> i32 \<Rightarrow> pubkey"
  ok_oracle_pda :: "pubkey \<Rightarrow> pubkey \<Rightarrow> pubkey"
  ok_get_account :: "pubkey \<Rightarrow> u8 list result"
  ok_get_multiple_accounts :: "pubkey list \<Rightarrow> u8 list option list result"
  ok_read_whirlpool :: "u8 list \<Rightarrow> whirlpool result"
  ok_read_tick_array :: "u8 list \<Rightarrow> 't result"
  ok_swap :: "whirlpool \<Rightarrow> 't \<times> 't \<times> 't \<Rightarrow> u64 \<Rightarrow> u128 \<Rightarrow> bool \<Rightarrow> bool \<Rightarrow> u64 \<Rightarrow> (u64 \<times> u64) result"

section \<open>Tick arrays\<close>

definition MAX_SWAP_TICK_ARRAYS :: nat where
  "MAX_SWAP_TICK_ARRAYS = 3"

definition get_default_sqrt_price_limit :: "'t orca_sdk \<Rightarrow> bool \<Rightarrow> u128" where
  "get_default_sqrt_price_limit sdk a_to_b = (if a_to_b then ok_min_sqrt_price sdk else ok_max_sqrt_price sdk)"

definition get_start_tick_index :: "'t orca_sdk \<Rightarrow> i32 \<Rightarrow> i32 \<Rightarrow> i32 \<Rightarrow> i32 result" where
  "get_start_tick_index sdk tick_index tick_spacing offset =
     (let real_index = f64_as_i32 (f_floor (f_div (f_div (i32_as_f64 tick_index) (i32_as_f64 tick_spacing))
            (i32_as_f64 (ok_tick_array_size sdk))));
          start_tick_index = (real_index + offset) * tick_spacing * ok_tick_array_size sdk;
          ticks_in_array = ok_tick_array_size sdk * tick_spacing
      in bind_res (rem_i32 (ok_min_tick_index sdk) ticks_in_array) (\<lambda>r.
         let min_tick_index = ok_min_tick_index sdk - (r + ticks_in_array)
         in if sint start_tick_index \<le> sint min_tick_index then Inl (Error ''startTickIndex is too small'')
            else if sint (ok_max_tick_index sdk) \<le> sint start_tick_index then Inl (Error ''startTickIndex is too large'')
            else Inr start_tick_index))"

definition get_tick_array_address :: "'t orca_sdk \<Rightarrow> pubkey \<Rightarrow> pubkey \<Rightarrow> i32 \<Rightarrow> pubkey" where
  "get_tick_array_address sdk program_id whirlpool start_tick = ok_tick_array_pda sdk program_id whirlpool start_tick"

definition get_oracle_address :: "'t orca_sdk \<Rightarrow> pubkey \<Rightarrow> pubkey \<Rightarrow> pubkey" where
  "get_oracle_address sdk program_id whirlpool = ok_oracle_pda sdk program_id whirlpool"

text \<open>The loop of \<open>get_tick_array_keys\<close> with the rounds that are left: an error ends it, a panic is the
  result.\<close>

fun tick_array_keys_loop ::
  "'t orca_sdk \<Rightarrow> (i32 \<Rightarrow> pubkey) \<Rightarrow> i32 \<Rightarrow> i32 \<Rightarrow> bool \<Rightarrow> nat \<Rightarrow> i32 \<Rightarrow> pubkey list result" where
  "tick_array_keys_loop sdk address tick tick_spacing a_to_b 0 offset = Inr []"
| "tick_array_keys_loop sdk address tick tick_spacing a_to_b (Suc n) offset =
     (case get_start_tick_index sdk tick tick_spacing offset of
        Inr start_index \<Rightarrow>
          bind_res (tick_array_keys_loop sdk address tick tick_spacing a_to_b n
              (if a_to_b then offset - 1 else offset + 1)) (\<lambda>addresses.
          Inr (address start_index # addresses))
      | Inl (Error e) \<Rightarrow> Inr []
      | Inl (Panic e) \<Rightarrow> Inl (Panic e))"

definition get_tick_array_keys ::
  "'t orca_sdk \<Rightarrow> i32 \<Rightarrow> i32 \<Rightarrow> bool \<Rightarrow> pubkey \<Rightarrow> pubkey \<Rightarrow> pubkey list result" where
  "get_tick_array_keys sdk tick_current_index tick_spacing a_to_b program_id whirlpool_address =
     (let shift = if a_to_b then 0 else tick_spacing
      in tick_array_keys_loop sdk (get_tick_array_address sdk program_id whirlpool_address)
           (tick_current_index + shift) tick_spacing a_to_b MAX_SWAP_TICK_ARRAYS 0)"

definition get_tick_arrays ::
  "'t orca_sdk \<Rightarrow> i32 \<Rightarrow> i32 \<Rightarrow> bool \<Rightarrow> pubkey \<Rightarrow> pubkey \<Rightarrow> ('t list \<times> pubkey list) result" where
  "get_tick_arrays sdk tick_current_index tick_spacing a_to_b program_id whirlpool_address =
     bind_res (get_tick_array_keys sdk tick_current_index tick_spacing a_to_b program_id whirlpool_address) (\<lambda>keys.
     bind_res (ok_get_multiple_accounts sdk keys) (\<lambda>accounts.
     bind_res (collect_results (\<lambda>account. bind_res (expect account ''No account data'') (ok_read_tick_array sdk)) accounts)
       (\<lambda>tick_arrays. Inr (tick_arrays, keys))))"

text \<open>Returns the other amount's threshold.\<close>

definition calculate_swap_amounts_from_quote :: "u64 \<Rightarrow> u64 \<Rightarrow> f64 \<Rightarrow> bool \<Rightarrow> u64" where
  "calculate_swap_amounts_from_quote est_amount_in est_amount_out slippage is_input =
     (if is_input then adjust_for_slippage est_amount_out slippage False
      else adjust_for_slippage est_amount_in slippage True)"

section \<open>Quotes\<close>

record orca_swap_accounts =
  ows_token_program :: pubkey
  ows_token_authority :: pubkey
  ows_whirlpool :: pubkey
  ows_token_owner_account_a :: pubkey
  ows_token_owner_account_b :: pubkey
  ows_token_vault_a :: pubkey
  ows_token_vault_b :: pubkey
  ows_tick_array_0 :: pubkey
  ows_tick_array_1 :: pubkey
  ows_tick_array_2 :: pubkey
  ows_oracle :: pubkey

record orca_quote_args =
  owd_amount :: u64
  owd_other_amount_threshold :: u64
  owd_sqrt_price_limit :: u128
  owd_amount_specified_is_input :: bool
  owd_a_to_b :: bool

record orca_instruction_builder =
  oib_accounts :: orca_swap_accounts
  oib_data :: orca_quote_args
  oib_program_id :: pubkey

definition WHIRLPOOL_PROGRAM_ID :: pubkey where
  "WHIRLPOOL_PROGRAM_ID = 6338400779188879694835442338119989991763804279920687834040273975642487814569"

text \<open>The direction of a swap in a pool with these mints.\<close>

definition orca_direction :: "pubkey \<Rightarrow> pubkey \<Rightarrow> swap_input \<Rightarrow> string \<Rightarrow> bool result" where
  "orca_direction mint_a mint_b input msg =
     (if mint_a = si_input_token_mint input \<and> mint_b = si_output_token_mint input then Inr True
      else if mint_b = si_input_token_mint input \<and> mint_a = si_output_token_mint input then Inr False
      else Inl (Error msg))"

text \<open>What both quotes do once the pool and the direction are known.\<close>

definition orca_pool_quote ::
  "'t orca_sdk \<Rightarrow> u64 \<Rightarrow> pubkey \<Rightarrow> pubkey \<Rightarrow> whirlpool \<Rightarrow> bool \<Rightarrow> swap_input
     \<Rightarrow> (u64 \<times> u64 \<times> orca_instruction_builder) result" where
  "orca_pool_quote sdk timestamp user pool_id wp a_to_b input =
     (let is_input = amount_specified_is_input (si_mode input)
      in bind_res (get_tick_arrays sdk (wl_tick_current_index wp) (ucast (wl_tick_spacing wp)) a_to_b
             WHIRLPOOL_PROGRAM_ID pool_id) (\<lambda>(tick_arrays, tick_array_keys).
         case tick_arrays of
           t0 # t1 # t2 # _ \<Rightarrow>
             let sqrt_price_limit = get_default_sqrt_price_limit sdk a_to_b
             in bind_res (ok_swap sdk wp (t0, t1, t2) (si_amount input) sqrt_price_limit is_input a_to_b timestamp)
                  (\<lambda>(amount_a, amount_b).
                let quote = (if a_to_b then amount_b else amount_a);
                    (amount_in, amount_out) = (if a_to_b = is_input then (amount_a, amount_b) else (amount_b, amount_a));
                    slippage_adjusted_quote = calculate_swap_amounts_from_quote amount_in amount_out
                      (f_div (u16_as_f64 (si_slippage_bps input)) (f64_lit 1000)) is_input
                in case tick_array_keys of
                     [] \<Rightarrow> Inl (Panic ''At least one tick array'')
                   | k0 # ks \<Rightarrow>
                     let k1 = (case ks of [] \<Rightarrow> k0 | k # _ \<Rightarrow> k);
                         k2 = (case ks of _ # k # _ \<Rightarrow> k | _ \<Rightarrow> k1);
                         accounts = \<lparr>ows_token_program = ok_token_program sdk, ows_token_authority = user,
                           ows_whirlpool = pool_id, ows_token_owner_account_a = 0, ows_token_owner_account_b = 0,
                           ows_token_vault_a = wl_token_vault_a wp, ows_token_vault_b = wl_token_vault_b wp,
                           ows_tick_array_0 = k0, ows_tick_array_1 = k1, ows_tick_array_2 = k2,
                           ows_oracle = get_oracle_address sdk WHIRLPOOL_PROGRAM_ID pool_id\<rparr>;
                         data = \<lparr>owd_amount = si_amount input, owd_other_amount_threshold = slippage_adjusted_quote,
                           owd_sqrt_price_limit = sqrt_price_limit, owd_amount_specified_is_input = is_input,
                           owd_a_to_b = a_to_b\<rparr>
                     in Inr (quote, slippage_adjusted_quote,
                          \<lparr>oib_accounts = accounts, oib_data = data, oib_program_id = ok_program_id sdk\<rparr>))
         | _ \<Rightarrow> Inl (Panic ''called `Option::unwrap()` on a `None` value'')))"

definition orca_quote ::
  "'t orca_sdk \<Rightarrow> u64 \<Rightarrow> pubkey \<Rightarrow> pubkey \<Rightarrow> whirlpool option \<Rightarrow> swap_input
     \<Rightarrow> (u64 \<times> u64 \<times> orca_instruction_builder) result" where
  "orca_quote sdk timestamp user pool_id pool_info input =
     bind_res (case pool_info of
         Some p \<Rightarrow> Inr p
       | None \<Rightarrow> bind_res (ok_get_account sdk pool_id) (ok_read_whirlpool sdk)) (\<lambda>wp.
     bind_res (orca_direction (wl_token_mint_a wp) (wl_token_mint_b wp) input
         ''Whirlpool state from RPC doesnt match specified mints'') (\<lambda>a_to_b.
     orca_pool_quote sdk timestamp user pool_id wp a_to_b input))"

record api_whirlpool =
  iwp_address :: pubkey
  iwp_mint_a :: pubkey
  iwp_mint_b :: pubkey

definition find_whirlpool :: "api_whirlpool list \<Rightarrow> pubkey \<Rightarrow> pubkey \<Rightarrow> bool \<Rightarrow> api_whirlpool option" where
  "find_whirlpool whirlpools mint_a mint_b both_sides =
     (if both_sides
      then find (\<lambda>pool. iwp_mint_a pool = mint_a \<and> iwp_mint_b pool = mint_b
             \<or> iwp_mint_a pool = mint_b \<and> iwp_mint_b pool = mint_a) whirlpools
      else find (\<lambda>pool. iwp_mint_a pool = mint_a \<and> iwp_mint_b pool = mint_b) whirlpools)"

definition orca_quote_with_api_info ::
  "'t orca_sdk \<Rightarrow> u64 \<Rightarrow> pubkey \<Rightarrow> api_whirlpool \<Rightarrow> swap_input \<Rightarrow> (u64 \<times> u64 \<times> orca_instruction_builder) result" where
  "orca_quote_with_api_info sdk timestamp user pool_info input =
     bind_res (orca_direction (iwp_mint_a pool_info) (iwp_mint_b pool_info) input
         ''Whirlpool state from API doesnt match specified mints'') (\<lambda>a_to_b.
     bind_res (ok_get_account sdk (iwp_address pool_info)) (\<lambda>whirlpool_account.
     bind_res (ok_read_whirlpool sdk whirlpool_account) (\<lambda>wp.
     orca_pool_quote sdk timestamp user (iwp_address pool_info) wp a_to_b input)))"

section \<open>The instruction\<close>

definition orca_update_user_account :: "pubkey \<Rightarrow> orca_instruction_builder \<Rightarrow> orca_instruction_builder" where
  "orca_update_user_account key b = b\<lparr>oib_accounts := (oib_accounts b)\<lparr>ows_token_authority := key\<rparr>\<rparr>"

definition orca_update_user_token_account_a :: "pubkey \<Rightarrow> orca_instruction_builder \<Rightarrow> orca_instruction_builder" where
  "orca_update_user_token_account_a key b = b\<lparr>oib_accounts := (oib_accounts b)\<lparr>ows_token_owner_account_a := key\<rparr>\<rparr>"

definition orca_update_user_token_account_b :: "pubkey \<Rightarrow> orca_instruction_builder \<Rightarrow> orca_instruction_builder" where
  "orca_update_user_token_account_b key b = b\<lparr>oib_accounts := (oib_accounts b)\<lparr>ows_token_owner_account_b := key\<rparr>\<rparr>"

definition orca_update_program_id :: "pubkey \<Rightarrow> orca_instruction_builder \<Rightarrow> orca_instruction_builder" where
  "orca_update_program_id key b = b\<lparr>oib_program_id := key\<rparr>"

definition orca_build_instruction ::
  "(orca_swap_accounts \<Rightarrow> account_meta list) \<Rightarrow> (orca_quote_args \<Rightarrow> bytes) \<Rightarrow> orca_instruction_builder
     \<Rightarrow> wire_instruction result" where
  "orca_build_instruction to_metas to_data b =
     (if ows_token_owner_account_a (oib_accounts b) = 0 \<or> ows_token_owner_account_b (oib_accounts b) = 0
      then Inl (Panic ''Failed to update one or both of input-token-account/output-token-account'')
      else Inr \<lparr>wi_program_id = oib_program_id b, wi_accounts = to_metas (oib_accounts b), wi_data = to_data (oib_data b)\<rparr>)"

section \<open>Start ticks are floor division\<close>

text \<open>Dividing twice in \<open>f64\<close> and rounding down gives the integer quotient: an exact value next to the
  quotient separates it from the following integer.\<close>

lemma rnd_dyadic: "0 \<le> m \<Longrightarrow> m \<le> 2 ^ 53 \<Longrightarrow> rnd (of_int m / 2 ^ k) = of_int m / 2 ^ k" if "k \<le> 1074"
  by (rule rnd_exact [where m = m and k = "- int k"]) (use that in \<open>auto simp: power_int_minus divide_inverse\<close>)

lemma double_division_lower:
  fixes q m sp :: int
  assumes "0 \<le> q" and "q \<le> 2 ^ 20" and "1 \<le> sp" and "q * (88 * sp) \<le> m"
  shows "of_int q \<le> rnd (rnd (of_int m / of_int sp) / 88)"
proof -
  have "of_int (88 * q) * of_int sp = (of_int (q * (88 * sp)) :: rat)" by simp
  also have "\<dots> \<le> of_int m" using assms(4) by (simp only: of_int_le_iff)
  finally have "of_int (88 * q) \<le> (of_int m / of_int sp :: rat)"
    using assms(3) by (simp add: field_simps)
  then have "rnd (of_int (88 * q)) \<le> rnd (of_int m / of_int sp)"
    using assms(1) by (intro rnd_mono) simp_all
  moreover have "rnd (of_int (88 * q)) = of_int (88 * q)"
    using rnd_dyadic [of 0 "88 * q"] assms(1,2) by simp
  ultimately have "of_int q \<le> rnd (of_int m / of_int sp) / 88" by simp
  then have "rnd (of_int q) \<le> rnd (rnd (of_int m / of_int sp) / 88)"
    using assms(1) by (intro rnd_mono) simp_all
  moreover have "rnd (of_int q) = of_int q" using rnd_dyadic [of 0 q] assms(1,2) by simp
  ultimately show ?thesis by simp
qed

lemma double_division_upper:
  fixes q m sp :: int
  assumes "0 \<le> q" and "q \<le> 2 ^ 20" and "1 \<le> sp" and "sp \<le> 2 ^ 16" and "0 \<le> m" and "m < (q + 1) * (88 * sp)"
  shows "rnd (rnd (of_int m / of_int sp) / 88) < of_int (q + 1)"
proof -
  let ?x = "of_int m / of_int sp :: rat"
  let ?y = "of_int (88 * (q + 1) * 2 ^ 16 - 1) / 2 ^ 16 :: rat" and ?z = "of_int ((q + 1) * 2 ^ 23 - 1) / 2 ^ 23 :: rat"
  have "of_int (m + 1) \<le> (of_int ((q + 1) * (88 * sp)) :: rat)" using assms(6) by (simp only: of_int_le_iff)
  then have "?x \<le> of_int (88 * (q + 1)) - 1 / of_int sp"
    using assms(3) by (simp add: field_simps)
  also have "1 / 2 ^ 16 \<le> (1 / of_int sp :: rat)"
    using assms(3,4) by (intro divide_left_mono) (simp_all flip: of_int_le_iff)
  then have "of_int (88 * (q + 1)) - 1 / of_int sp \<le> ?y" by (simp add: field_simps)
  finally have "rnd ?x \<le> rnd ?y" using assms(3,5) by (intro rnd_mono) simp_all
  also have "\<dots> = ?y" using assms(1,2) by (intro rnd_dyadic) simp_all
  finally have "rnd ?x / 88 \<le> ?y / 88" by simp
  also have "\<dots> \<le> ?z" using assms(1) by (simp add: field_simps)
  finally have "rnd (rnd ?x / 88) \<le> rnd ?z"
    using assms(3,5) by (intro rnd_mono) (simp_all add: rnd_nonneg)
  also have "\<dots> = ?z" using assms(1,2) by (intro rnd_dyadic) simp_all
  also have "\<dots> < of_int (q + 1)" by (simp add: field_simps)
  finally show ?thesis .
qed

lemma double_division_above:
  fixes c m sp :: int
  assumes "1 \<le> c" and "c \<le> 2 ^ 20" and "1 \<le> sp" and "sp \<le> 2 ^ 16" and "(c - 1) * (88 * sp) < m"
  shows "of_int (c - 1) < rnd (rnd (of_int m / of_int sp) / 88)"
proof -
  let ?x = "of_int m / of_int sp :: rat"
  let ?y = "of_int (88 * (c - 1) * 2 ^ 16 + 1) / 2 ^ 16 :: rat" and ?z = "of_int ((c - 1) * 2 ^ 23 + 1) / 2 ^ 23 :: rat"
  have "of_int ((c - 1) * (88 * sp) + 1) \<le> (of_int m :: rat)" using assms(5) by (simp only: of_int_le_iff)
  then have "of_int ((c - 1) * (88 * sp) + 1) / of_int sp \<le> ?x"
    using assms(3) by (intro divide_right_mono) simp_all
  moreover have "of_int (88 * (c - 1)) + 1 / of_int sp = (of_int ((c - 1) * (88 * sp) + 1) / of_int sp :: rat)"
    using assms(3) by (simp add: field_simps)
  ultimately have x: "of_int (88 * (c - 1)) + 1 / of_int sp \<le> ?x" by simp
  have "1 / 2 ^ 16 \<le> (1 / of_int sp :: rat)"
    using assms(3,4) by (intro divide_left_mono) (simp_all flip: of_int_le_iff)
  then have "?y \<le> of_int (88 * (c - 1)) + 1 / of_int sp" by (simp add: field_simps)
  then have "?y \<le> ?x" using x by (rule order_trans)
  then have "rnd ?y \<le> rnd ?x" using assms(1) by (intro rnd_mono) (simp, assumption)
  moreover have "rnd ?y = ?y" using assms(1,2) by (intro rnd_dyadic) simp_all
  ultimately have y: "?y / 88 \<le> rnd ?x / 88" by simp
  have "?z \<le> ?y / 88" using assms(1) by (simp add: field_simps)
  with y have "rnd ?z \<le> rnd (rnd ?x / 88)" using assms(1) by (intro rnd_mono) simp_all
  moreover have "rnd ?z = ?z" using assms(1,2) by (intro rnd_dyadic) simp_all
  moreover have "of_int (c - 1) < ?z" by (simp add: field_simps)
  ultimately show ?thesis by simp
qed

lemma double_division_below:
  fixes c m sp :: int
  assumes "0 \<le> c" and "c \<le> 2 ^ 20" and "1 \<le> sp" and "0 \<le> m" and "m \<le> c * (88 * sp)"
  shows "rnd (rnd (of_int m / of_int sp) / 88) \<le> of_int c"
proof -
  have "of_int m \<le> (of_int (c * (88 * sp)) :: rat)" using assms(5) by (simp only: of_int_le_iff)
  then have "(of_int m / of_int sp :: rat) \<le> of_int (88 * c)"
    using assms(3) by (simp add: field_simps)
  then have "rnd (of_int m / of_int sp) \<le> rnd (of_int (88 * c))"
    using assms(3,4) by (intro rnd_mono) simp_all
  also have "\<dots> = of_int (88 * c)" using rnd_dyadic [of 0 "88 * c"] assms(1,2) by simp
  finally have "rnd (of_int m / of_int sp) / 88 \<le> of_int c" by simp
  then have "rnd (rnd (of_int m / of_int sp) / 88) \<le> rnd (of_int c)"
    using assms(3,4) by (intro rnd_mono) (simp_all add: rnd_nonneg)
  also have "\<dots> = of_int c" using rnd_dyadic [of 0 c] assms(1,2) by simp
  finally show ?thesis .
qed

lemma i32_as_f64_small:
  assumes "sint t = k" and "\<bar>k\<bar> \<le> 2 ^ 20"
  shows "i32_as_f64 t = Finite (k < 0) (of_int \<bar>k\<bar>)"
proof -
  have "round64 b (of_nat (nat \<bar>k\<bar>)) = Finite b (fl (nat \<bar>k\<bar>))" for b
    using assms(2) by (intro round64_of_nat) simp
  moreover have "fl (nat \<bar>k\<bar>) = of_nat (nat \<bar>k\<bar>)" using assms(2) by (intro fl_exact) simp
  ultimately have "round64 b (of_int \<bar>k\<bar>) = Finite b (of_int \<bar>k\<bar>)" for b by simp
  then show ?thesis unfolding i32_as_f64_def assms(1) by (cases "k < 0") simp_all
qed

lemma double_division_f64:
  assumes "sint t = k" and "sint sp = j" and "\<bar>k\<bar> \<le> 2 ^ 20" and "1 \<le> j" and "j \<le> 2 ^ 16"
  shows "f_div (f_div (i32_as_f64 t) (i32_as_f64 sp)) (i32_as_f64 88)
    = Finite (k < 0) (rnd (rnd (of_int \<bar>k\<bar> / of_int j) / 88))"
proof -
  let ?x = "of_int \<bar>k\<bar> / of_int j :: rat"
  have "(of_int \<bar>k\<bar> :: rat) \<le> of_int (2 ^ 20)" using assms(3) by (simp only: of_int_le_iff)
  moreover have "?x \<le> of_int \<bar>k\<bar> / 1" using assms(4) by (intro divide_left_mono) simp_all
  ultimately have x: "0 \<le> ?x" "?x \<le> 2 ^ 20" using assms(4) by simp_all
  have r: "0 \<le> rnd ?x" "rnd ?x \<le> 2 ^ 20"
    using x rnd_nonneg [of ?x] rnd_mono [of ?x "2 ^ 20"] rnd_dyadic [of 0 "2 ^ 20"] by simp_all
  have "i32_as_f64 88 = Finite False 88" "i32_as_f64 sp = Finite False (of_int j)"
    using i32_as_f64_small [of 88 88] i32_as_f64_small [OF assms(2)] assms(4,5) by simp_all
  then show ?thesis
    using assms(4) x r by (simp add: i32_as_f64_small [OF assms(1,3)] round64_Finite)
qed

text \<open>The number of the tick array of a tick, below and above zero.\<close>

lemma tick_array_number:
  assumes "sint t = k" and "sint sp = j" and "\<bar>k\<bar> \<le> 2 ^ 20" and "1 \<le> j" and "j \<le> 2 ^ 16"
  shows "f64_as_i32 (f_floor (f_div (f_div (i32_as_f64 t) (i32_as_f64 sp)) (i32_as_f64 88))) = of_int (k div (88 * j))"
proof -
  let ?n = "88 * j" and ?d = "rnd (rnd (of_int \<bar>k\<bar> / of_int j) / 88) :: rat"
  have n: "1 \<le> ?n" using assms(4) by simp
  have t: "k = k div ?n * ?n + k mod ?n" by (metis div_mult_mod_eq)
  have mod: "0 \<le> k mod ?n" "k mod ?n < ?n" using n by simp_all
  have bound: "\<bar>k div ?n\<bar> \<le> 2 ^ 20"
  proof -
    have k: "k \<le> 2 ^ 20" "- (2 ^ 20) \<le> k" using assms(3) by linarith+
    have "k div ?n \<le> 2 ^ 20" using k n zdiv_mono1 [of k "2 ^ 20" ?n] zdiv_mono2 [of "2 ^ 20" 1 ?n] by auto
    moreover have "- (2 ^ 20) \<le> k div ?n"
      using k n zdiv_mono1 [of "- (2 ^ 20)" k ?n] zdiv_mono2_neg [of "- (2 ^ 20)" 1 ?n] by auto
    ultimately show ?thesis by simp
  qed
  show ?thesis
  proof (cases "k < 0")
    case False
    let ?q = "k div ?n"
    have q: "0 \<le> ?q" using False n by (simp add: pos_imp_zdiv_nonneg_iff)
    have "?q * ?n \<le> k" "k < (?q + 1) * ?n" using t mod by (simp_all add: algebra_simps)
    then have "\<lfloor>?d\<rfloor> = ?q"
      using double_division_lower [of ?q j "\<bar>k\<bar>"] double_division_upper [of ?q j "\<bar>k\<bar>"]
        False q bound assms(3-5) by (simp add: floor_eq_iff)
    then show ?thesis
      using False bound by (simp add: double_division_f64 [OF assms])
  next
    case True
    let ?c = "- (k div ?n)"
    have c: "1 \<le> ?c" using True n pos_imp_zdiv_neg_iff [of ?n k] by linarith
    have "\<bar>k\<bar> \<le> ?c * ?n" "(?c - 1) * ?n < \<bar>k\<bar>" using True t mod by (simp_all add: algebra_simps)
    then have "\<lceil>?d\<rceil> = ?c"
      using double_division_below [of ?c j "\<bar>k\<bar>"] double_division_above [of ?c j "\<bar>k\<bar>"]
        c bound assms(3-5) by (simp add: ceiling_eq_iff)
    then show ?thesis
      using True bound by (simp add: double_division_f64 [OF assms])
  qed
qed

text \<open>The constants of the whirlpool program.\<close>

definition whirlpool_constants :: "'t orca_sdk \<Rightarrow> bool" where
  "whirlpool_constants sdk \<longleftrightarrow>
     ok_tick_array_size sdk = 88 \<and> ok_min_tick_index sdk = - 443636 \<and> ok_max_tick_index sdk = 443636"

lemma sint_of_int_i32: "\<bar>k\<bar> < 2 ^ 31 \<Longrightarrow> sint (of_int k :: i32) = k"
  by (subst signed_of_int) (auto intro!: signed_take_bit_int_eq_self)

lemma sint_443636: "sint (443636 :: i32) = 443636"
  by simp

text \<open>C27. The first tick of the tick array \<open>off\<close> arrays away from a tick is the one of integer arithmetic,
  although the code divides in \<open>f64\<close>: the tick rounded down to a multiple of the size of an array, moved by
  \<open>off\<close> arrays. It fails exactly below the array of the lowest tick or in it, and from the highest tick on.\<close>

theorem start_tick_exact:
  assumes "whirlpool_constants sdk" and "\<bar>sint t\<bar> \<le> 2 ^ 20" and "1 \<le> sint sp" and "sint sp \<le> 2 ^ 16"
    and "\<bar>sint off\<bar> \<le> 3" and "n = 88 * sint sp" and "s = (sint t div n + sint off) * n"
  shows "get_start_tick_index sdk t sp off =
    (if s \<le> - 443636 + 443636 mod n - n then Inl (Error ''startTickIndex is too small'')
     else if 443636 \<le> s then Inl (Error ''startTickIndex is too large'')
     else Inr (of_int s))"
proof -
  let ?k = "sint t div n"
  have n: "88 \<le> n" "n \<le> 88 * 2 ^ 16" using assms(3,4,6) by simp_all
  have "?k * n \<le> sint t" "sint t < ?k * n + n"
    using n(1) div_mult_mod_eq [of "sint t" n] pos_mod_sign [of n "sint t"] pos_mod_bound [of n "sint t"] by linarith+
  moreover have "\<bar>sint off * n\<bar> \<le> 3 * n" using assms(5) n(1) by (simp add: abs_mult)
  ultimately have s: "\<bar>s\<bar> < 2 ^ 31"
    using n assms(2) by (simp add: assms(7) distrib_right)
  have "of_int (?k + sint off) * sp * 88 = (of_int ((?k + sint off) * (sint sp * 88)) :: i32)"
    by (simp add: mult.assoc)
  then have start: "(of_int ?k + off) * sp * 88 = (of_int s :: i32)"
    by (simp add: assms(6,7) mult.commute mult.left_commute)
  have "(88 * sp :: i32) = of_int n" by (simp add: assms(6))
  moreover have "sint (of_int n :: i32) = n" using n by (intro sint_of_int_i32) simp
  ultimately have ticks: "88 * sp \<noteq> 0" "sint (88 * sp) = n" using n(1) by (metis signed_0 not_numeral_le_zero, simp)
  have r: "rem_i32 (- 443636) (88 * sp) = Inr (of_int (- (443636 mod n)))"
    using ticks n(1) by (simp add: rem_i32_def)
  let ?lo = "- 443636 + 443636 mod n - n"
  have "443636 mod n < n" "0 \<le> 443636 mod n" using n(1) by simp_all
  moreover have "n \<le> 5767168" using n(2) by simp
  ultimately have lo: "\<bar>?lo\<bar> < 2 ^ 31" by (simp add: abs_less_iff)
  obtain R where R: "rem_i32 (- 443636) (88 * sp) = Inr R" "- 443636 - (R + 88 * sp) = (of_int ?lo :: i32)"
    using r that by (simp add: assms(6))
  show ?thesis
    using assms(1) sint_of_int_i32 [OF s] sint_of_int_i32 [OF lo]
    unfolding get_start_tick_index_def Let_def whirlpool_constants_def
    by (simp only: tick_array_number [OF refl refl assms(2-4)] assms(6) [symmetric] start R bind_res_simps sint_443636)
qed

definition example_orca_sdk :: "nat orca_sdk" where
  "example_orca_sdk = \<lparr>ok_tick_array_size = 88, ok_min_tick_index = - 443636, ok_max_tick_index = 443636,
     ok_min_sqrt_price = 4295048016, ok_max_sqrt_price = 79226673515401279992447579055,
     ok_program_id = 5, ok_token_program = 6, ok_tick_array_pda = (\<lambda>p w t. w + ucast t),
     ok_oracle_pda = (\<lambda>p w. w + 1), ok_get_account = (\<lambda>k. Inl (Error ''no account'')),
     ok_get_multiple_accounts = (\<lambda>ks. Inr (map (\<lambda>k. Some []) ks)),
     ok_read_whirlpool = (\<lambda>d. Inl (Error ''no pool'')), ok_read_tick_array = (\<lambda>d. Inr 0),
     ok_swap = (\<lambda>w t amount limit is_input a_to_b ts. Inr (amount, 2 * amount))\<rparr>"

theorem start_tick_exact_witness:
  "get_start_tick_index example_orca_sdk (- 100) 8 1 = Inr 0"
  using start_tick_exact [of example_orca_sdk "- 100" 8 1 704 0]
  by (simp add: whirlpool_constants_def example_orca_sdk_def)

text \<open>The array of the lowest tick is one of the refused ones, unless it starts with that tick.\<close>

lemma lowest_array_refused:
  assumes "whirlpool_constants sdk" and "t = - 443636" and "1 \<le> sint sp" and "sint sp \<le> 2 ^ 16"
    and "443636 mod (88 * sint sp) \<noteq> 0"
  shows "get_start_tick_index sdk t sp 0 = Inl (Error ''startTickIndex is too small'')"
proof -
  let ?n = "88 * sint sp"
  have n: "0 < ?n" using assms(3) by simp
  have "sint t = - 443636" by (simp add: assms(2))
  moreover have "- 443636 div ?n = - (443636 div ?n) - 1" using assms(5) n by (simp add: zdiv_zminus1_eq_if)
  moreover have "443636 div ?n * ?n = 443636 - 443636 mod ?n" by (metis minus_mod_eq_div_mult)
  ultimately have "(sint t div ?n + sint (0 :: i32)) * ?n = - 443636 + 443636 mod ?n - ?n"
    by (simp add: left_diff_distrib)
  then show ?thesis
    using start_tick_exact [OF assms(1) _ assms(3,4) _ refl refl, of t 0] assms(2) by simp
qed

section \<open>The threshold of a quote\<close>

lemma slippage_above_one:
  assumes "1000 \<le> unat bps"
  shows "\<exists>s. f_div (u16_as_f64 bps) (f64_lit 1000) = Finite False s \<and> 1 \<le> s"
proof -
  have "(1000 :: rat) \<le> of_nat (unat bps)" using assms by (metis of_nat_le_iff of_nat_numeral)
  moreover have "(of_nat (unat bps) :: rat) \<le> of_nat (2 ^ 16)" using unat_u16_less [of bps] by (simp only: of_nat_le_iff)
  ultimately have q: "1 \<le> (of_nat (unat bps) :: rat) / 1000" "(of_nat (unat bps) :: rat) / 1000 \<le> 2 ^ 64" by simp_all
  have "f64_lit 1000 = Finite False 1000"
    using round64_of_nat [of 1000 False] fl_exact [of 1000] by (simp add: f64_lit_def)
  then have "f_div (u16_as_f64 bps) (f64_lit 1000) = Finite False (rnd (of_nat (unat bps) / 1000))"
    using q by (simp add: u16_as_f64_Finite round64_Finite del: of_nat_unat)
  moreover have "1 \<le> rnd (of_nat (unat bps) / 1000)" using rnd_mono [of 1 "of_nat (unat bps) / 1000"] q(1) by simp
  ultimately show ?thesis by blast
qed

lemma negative_as_u64: "f64_as_u64 (f_floor (round64 True x)) = 0"
  by (simp add: round64_def Let_def)

lemma adjust_down_above_one:
  assumes "1 \<le> s"
  shows "adjust_for_slippage a (Finite False s) False = 0"
proof (cases "s = 1")
  case True
  then show ?thesis
    by (simp add: adjust_for_slippage_def f64_lit_1 f_sub_def u64_as_f64_Finite round64_Finite)
next
  case False
  obtain x where x: "f_sub (f64_lit 1) (Finite False s) = x" "x = Infinity True \<or> (\<exists>y. x = Finite True y)"
    using assms False by (auto simp: f_sub_def f64_lit_1 round64_def Let_def)
  then show ?thesis by (auto simp: adjust_for_slippage_def u64_as_f64_Finite negative_as_u64)
qed

text \<open>The threshold of a quote is the amount that the pool gives, adjusted by ten times the slippage of
  the request: its basis points are divided by 1000. From ten per cent on a swap with an exact input
  accepts any output, and the largest input of a swap with an exact output is computed from the output.\<close>

theorem orca_threshold_from_output:
  assumes "orca_pool_quote sdk timestamp user pool_id wp a_to_b input = Inr (quote, threshold, builder)"
  shows "threshold = adjust_for_slippage quote (f_div (u16_as_f64 (si_slippage_bps input)) (f64_lit 1000))
        (\<not> amount_specified_is_input (si_mode input))
    \<and> owd_other_amount_threshold (oib_data builder) = threshold
    \<and> (amount_specified_is_input (si_mode input) \<and> 1000 \<le> unat (si_slippage_bps input) \<longrightarrow> threshold = 0)"
proof -
  have "threshold = adjust_for_slippage quote (f_div (u16_as_f64 (si_slippage_bps input)) (f64_lit 1000))
        (\<not> amount_specified_is_input (si_mode input))"
    "owd_other_amount_threshold (oib_data builder) = threshold"
    using assms
    by (auto simp: orca_pool_quote_def calculate_swap_amounts_from_quote_def Let_def
        split: list.splits prod.splits if_splits)
  then show ?thesis using slippage_above_one adjust_down_above_one by fastforce
qed

definition example_whirlpool :: whirlpool where
  "example_whirlpool = \<lparr>wl_token_mint_a = 1, wl_token_mint_b = 2, wl_token_vault_a = 3, wl_token_vault_b = 4,
     wl_tick_current_index = 0, wl_tick_spacing = 8\<rparr>"

definition example_orca_input :: swap_input where
  "example_orca_input = \<lparr>si_input_token_mint = 1, si_output_token_mint = 2, si_slippage_bps = 1000, si_amount = 50,
     si_mode = ExactIn, si_market = None\<rparr>"

theorem orca_threshold_from_output_witness:
  "\<exists>quote builder. orca_pool_quote example_orca_sdk 0 9 100 example_whirlpool True example_orca_input = Inr (quote, 0, builder)
     \<and> quote = 100"
proof -
  have c: "whirlpool_constants example_orca_sdk" by (simp add: whirlpool_constants_def example_orca_sdk_def)
  have ticks: "get_start_tick_index example_orca_sdk 0 8 0 = Inr 0" "get_start_tick_index example_orca_sdk 0 8 (- 1) = Inr (- 704)"
    "get_start_tick_index example_orca_sdk 0 8 (- 2) = Inr (- 1408)"
    using start_tick_exact [OF c, of 0 8 0 704 0] start_tick_exact [OF c, of 0 8 "- 1" 704 "- 704"]
      start_tick_exact [OF c, of 0 8 "- 2" 704 "- 1408"] by simp_all
  have loop: "tick_array_keys_loop example_orca_sdk f 0 8 True 3 0 = Inr [f 0, f (- 704), f (- 1408)]" for f
    by (simp add: numeral_3_eq_3 ticks)
  have "\<exists>t b. orca_pool_quote example_orca_sdk 0 9 100 example_whirlpool True example_orca_input = Inr (100, t, b)"
    using loop by (simp add: orca_pool_quote_def get_tick_arrays_def get_tick_array_keys_def MAX_SWAP_TICK_ARRAYS_def
        example_whirlpool_def example_orca_input_def Let_def)
      (simp add: example_orca_sdk_def Let_def)
  then obtain t b where q: "orca_pool_quote example_orca_sdk 0 9 100 example_whirlpool True example_orca_input = Inr (100, t, b)"
    by blast
  have "amount_specified_is_input (si_mode example_orca_input)" "1000 \<le> unat (si_slippage_bps example_orca_input)"
    by (simp_all add: example_orca_input_def)
  then have "t = 0" using orca_threshold_from_output [OF q] by blast
  then show ?thesis using q by simp
qed

end
