(* ===== verification/Clmm.thy ===== *)
theory Clmm
  imports Swap_Types Clmm_Ix
begin

text \<open>
  Quotes of Raydium's concentrated liquidity pools (\<^verbatim>\<open>swap/raydium/clmm/quote.rs\<close>). The mathematics of a
  swap, transfer fees, account layouts and derived addresses are those of the Raydium and SPL crates, and
  the node answers the requests: arguments, in one record. \<open>'m\<close> is a mint with its extensions, \<open>'c\<close> the
  configuration of the program, \<open>'b\<close> the extension of the bitmap and \<open>'t\<close> a tick array.
\<close>

record clmm_pool =
  cp_amm_config :: pubkey
  cp_token_mint_0 :: pubkey
  cp_token_mint_1 :: pubkey
  cp_token_vault_0 :: pubkey
  cp_token_vault_1 :: pubkey
  cp_observation_key :: pubkey
  cp_mint_decimals_0 :: u8
  cp_mint_decimals_1 :: u8

record ('m, 'c, 'b, 't) clmm_math =
  cm_bitmap_pda :: "pubkey \<Rightarrow> pubkey"
  cm_tick_array_pda :: "pubkey \<Rightarrow> 32 word \<Rightarrow> pubkey"
  cm_get_account :: "pubkey \<Rightarrow> u8 list result"
  cm_get_multiple_accounts :: "pubkey list \<Rightarrow> u8 list option list result"
  cm_epoch :: "u64 option"
  cm_read_pool :: "u8 list \<Rightarrow> clmm_pool result"
  cm_read_mint :: "u8 list \<Rightarrow> 'm result"
  cm_read_config :: "u8 list \<Rightarrow> 'c result"
  cm_read_bitmap :: "u8 list \<Rightarrow> 'b result"
  cm_transfer_fee :: "'m \<Rightarrow> u64 \<Rightarrow> u64 \<Rightarrow> u64"
  cm_transfer_inverse_fee :: "'m \<Rightarrow> u64 \<Rightarrow> u64 \<Rightarrow> u64"
  cm_load_tick_arrays :: "pubkey \<Rightarrow> clmm_pool \<Rightarrow> 'b \<Rightarrow> bool \<Rightarrow> 't"
  cm_price_to_sqrt_price_x64 :: "f64 \<Rightarrow> u8 \<Rightarrow> u8 \<Rightarrow> u128"
  cm_output_amount :: "u64 \<Rightarrow> u128 option \<Rightarrow> bool \<Rightarrow> bool \<Rightarrow> 'c \<Rightarrow> clmm_pool \<Rightarrow> 'b \<Rightarrow> 't \<Rightarrow> (u64 \<times> 32 word list) option"
  cm_token_program :: pubkey
  cm_token_program_2022 :: pubkey
  cm_memo_program :: pubkey

definition RAYDIUM_CONCENTRATED_LIQUIDITY :: pubkey where
  "RAYDIUM_CONCENTRATED_LIQUIDITY =
     75009356853976929659943414926574456823275450602745972963014244811826130862110"

record clmm_swap_data =
  csd_amount :: u64
  csd_other_amount_threshold :: u64
  csd_sqrt_price_limit_x64 :: u128
  csd_is_base_input :: bool

record clmm_instruction_builder =
  cib_accounts :: clmm_swap_v2
  cib_data :: clmm_swap_data
  cib_program_id :: pubkey
  cib_remaining_accounts :: "account_meta list"

definition unwrap_panic :: "'a option \<Rightarrow> 'a result" where
  "unwrap_panic x = expect x ''called `Option::unwrap()` on a `None` value''"

text \<open>What is read of the accounts of a quote: the two mints and the configuration.\<close>

definition read_clmm_accounts ::
  "('m, 'c, 'b, 't) clmm_math \<Rightarrow> u8 list option \<Rightarrow> u8 list option \<Rightarrow> u8 list option
     \<Rightarrow> ('m \<times> 'm \<times> 'c) result" where
  "read_clmm_accounts cm config_account mint0_account mint1_account =
     bind_res (unwrap_panic mint0_account) (\<lambda>mint0_data.
     bind_res (cm_read_mint cm mint0_data) (\<lambda>mint0_state.
     bind_res (unwrap_panic mint1_account) (\<lambda>mint1_data.
     bind_res (cm_read_mint cm mint1_data) (\<lambda>mint1_state.
     bind_res (unwrap_panic config_account) (\<lambda>config_data.
     bind_res (cm_read_config cm config_data) (\<lambda>amm_config_state.
     Inr (mint0_state, mint1_state, amm_config_state)))))))"

text \<open>What both quotes do with the accounts: fees, the swap and the instruction. The vaults and mints of
  the two sides come from the pool's state or from the API.\<close>

definition clmm_pool_quote ::
  "('m, 'c, 'b, 't) clmm_math \<Rightarrow> pubkey \<Rightarrow> pubkey \<Rightarrow> pubkey \<Rightarrow> clmm_pool \<Rightarrow> pubkey \<times> pubkey \<times> pubkey \<times> pubkey
     \<Rightarrow> u64 \<Rightarrow> 'm \<Rightarrow> 'm \<Rightarrow> 'c \<Rightarrow> 'b \<Rightarrow> bool \<Rightarrow> swap_input \<Rightarrow> f64 option
     \<Rightarrow> (u64 \<times> u64 \<times> clmm_instruction_builder) result" where
  "clmm_pool_quote cm user pool_id amm_config pool_state sides epoch mint0_state mint1_state amm_config_state
     bitmap zero_for_one input limit_price =
     (let base_in = amount_specified_is_input (si_mode input);
          amount = si_amount input;
          transfer_fee = (if base_in then cm_transfer_fee cm (if zero_for_one then mint0_state else mint1_state) epoch amount else 0)
      in bind_res (unwrap_panic (checked_sub amount transfer_fee)) (\<lambda>amount_specified.
         let tick_arrays = cm_load_tick_arrays cm pool_id pool_state bitmap zero_for_one;
             sqrt_price_limit_x64 = map_option (\<lambda>limit. cm_price_to_sqrt_price_x64 cm limit
               (cp_mint_decimals_0 pool_state) (cp_mint_decimals_1 pool_state)) limit_price
         in bind_res (unwrap_panic (cm_output_amount cm amount_specified sqrt_price_limit_x64 zero_for_one base_in
                amm_config_state pool_state bitmap tick_arrays)) (\<lambda>(quote, tick_array_indexs).
            let slippage = f_div (u16_as_f64 (si_slippage_bps input)) (f64_lit 10000);
                other_amount_threshold =
                  (if base_in then adjust_for_slippage quote slippage False
                   else let threshold = adjust_for_slippage quote slippage True
                        in threshold + cm_transfer_inverse_fee cm
                             (if zero_for_one then mint0_state else mint1_state) epoch threshold);
                remaining_accounts = meta_new_readonly (cm_bitmap_pda cm pool_id) False
                  # map (\<lambda>index. meta_new (cm_tick_array_pda cm pool_id index) False) tick_array_indexs;
                (vault_0, vault_1, mint_0, mint_1) = sides;
                (input_vault, output_vault, input_vault_mint, output_vault_mint) =
                  (if zero_for_one then (vault_0, vault_1, mint_0, mint_1) else (vault_1, vault_0, mint_1, mint_0));
                accounts = \<lparr>cs2_payer = user, cs2_amm_config = amm_config, cs2_pool_state = pool_id,
                  cs2_input_token_account = 0, cs2_output_token_account = 0, cs2_input_vault = input_vault,
                  cs2_output_vault = output_vault, cs2_observation_state = cp_observation_key pool_state,
                  cs2_token_program = cm_token_program cm, cs2_token_program_2022 = cm_token_program_2022 cm,
                  cs2_memo_program = cm_memo_program cm, cs2_input_vault_mint = input_vault_mint,
                  cs2_output_vault_mint = output_vault_mint\<rparr>;
                data = \<lparr>csd_amount = amount, csd_other_amount_threshold = other_amount_threshold,
                  csd_sqrt_price_limit_x64 = unwrap_or sqrt_price_limit_x64 0, csd_is_base_input = base_in\<rparr>
            in Inr (quote, other_amount_threshold,
                 \<lparr>cib_accounts = accounts, cib_data = data, cib_program_id = RAYDIUM_CONCENTRATED_LIQUIDITY,
                  cib_remaining_accounts = remaining_accounts\<rparr>))))"

definition quote_v6 ::
  "('m, 'c, 'b, 't) clmm_math \<Rightarrow> pubkey \<Rightarrow> pubkey \<Rightarrow> clmm_pool option \<Rightarrow> swap_input \<Rightarrow> f64 option
     \<Rightarrow> (u64 \<times> u64 \<times> clmm_instruction_builder) result" where
  "quote_v6 cm user pool_id pool_state input limit_price =
     bind_res (case pool_state of
         Some ps \<Rightarrow> Inr ps
       | None \<Rightarrow> bind_res (cm_get_account cm pool_id) (cm_read_pool cm)) (\<lambda>pool_state.
     bind_res (cm_get_multiple_accounts cm [cp_amm_config pool_state, cm_bitmap_pda cm pool_id,
         cp_token_mint_0 pool_state, cp_token_mint_1 pool_state]) (\<lambda>rsps.
     bind_res (unwrap_panic (cm_epoch cm)) (\<lambda>epoch.
     case rsps of
       config_account # bitmap_account # mint0_account # mint1_account # _ \<Rightarrow>
         bind_res (read_clmm_accounts cm config_account mint0_account mint1_account)
           (\<lambda>(mint0_state, mint1_state, amm_config_state).
         bind_res (unwrap_panic bitmap_account) (\<lambda>bitmap_data.
         bind_res (cm_read_bitmap cm bitmap_data) (\<lambda>bitmap.
         let zero_for_one = (si_input_token_mint input = cp_token_mint_0 pool_state
               \<and> si_output_token_mint input = cp_token_mint_1 pool_state)
         in clmm_pool_quote cm user pool_id (cp_amm_config pool_state) pool_state
              (cp_token_vault_0 pool_state, cp_token_vault_1 pool_state, cp_token_mint_0 pool_state, cp_token_mint_1 pool_state)
              epoch mint0_state mint1_state amm_config_state bitmap zero_for_one input limit_price)))
     | _ \<Rightarrow> Inl (Panic ''range end index out of range''))))"

record api_clmm_pool =
  acp_id :: pubkey
  acp_mint_a :: pubkey
  acp_mint_b :: pubkey
  acp_vault_a :: pubkey
  acp_vault_b :: pubkey
  acp_amm_config_id :: pubkey

definition quote_v6_with_api_info ::
  "('m, 'c, 'b, 't) clmm_math \<Rightarrow> pubkey \<Rightarrow> api_clmm_pool \<Rightarrow> bool \<Rightarrow> swap_input \<Rightarrow> f64 option
     \<Rightarrow> (u64 \<times> u64 \<times> clmm_instruction_builder) result" where
  "quote_v6_with_api_info cm user pool_info a_to_b input limit_price =
     (let (in_token, out_token) = (if a_to_b then (acp_mint_a pool_info, acp_mint_b pool_info)
            else (acp_mint_b pool_info, acp_mint_a pool_info))
      in bind_res (cm_get_multiple_accounts cm [acp_amm_config_id pool_info, acp_id pool_info,
             cm_bitmap_pda cm (acp_id pool_info), acp_mint_a pool_info, acp_mint_b pool_info]) (\<lambda>rsps.
         bind_res (unwrap_panic (cm_epoch cm)) (\<lambda>epoch.
         case rsps of
           config_account # pool_account # bitmap_account # mint0_account # mint1_account # _ \<Rightarrow>
             bind_res (read_clmm_accounts cm config_account mint0_account mint1_account)
               (\<lambda>(mint0_state, mint1_state, amm_config_state).
             bind_res (unwrap_panic pool_account) (\<lambda>pool_data.
             bind_res (cm_read_pool cm pool_data) (\<lambda>pool_state.
             bind_res (unwrap_panic bitmap_account) (\<lambda>bitmap_data.
             bind_res (cm_read_bitmap cm bitmap_data) (\<lambda>bitmap.
             let zero_for_one = (in_token = cp_token_mint_0 pool_state \<and> out_token = cp_token_mint_1 pool_state)
             in clmm_pool_quote cm user (acp_id pool_info) (acp_amm_config_id pool_info) pool_state
                  (acp_vault_a pool_info, acp_vault_b pool_info, acp_mint_a pool_info, acp_mint_b pool_info)
                  epoch mint0_state mint1_state amm_config_state bitmap zero_for_one input limit_price)))))
         | _ \<Rightarrow> Inl (Panic ''range end index out of range''))))"

section \<open>The instruction\<close>

definition clmm_update_user_account :: "pubkey \<Rightarrow> clmm_instruction_builder \<Rightarrow> clmm_instruction_builder" where
  "clmm_update_user_account key b = b\<lparr>cib_accounts := (cib_accounts b)\<lparr>cs2_payer := key\<rparr>\<rparr>"

definition clmm_update_user_input_token_account :: "pubkey \<Rightarrow> clmm_instruction_builder \<Rightarrow> clmm_instruction_builder" where
  "clmm_update_user_input_token_account key b = b\<lparr>cib_accounts := (cib_accounts b)\<lparr>cs2_input_token_account := key\<rparr>\<rparr>"

definition clmm_update_user_output_token_account :: "pubkey \<Rightarrow> clmm_instruction_builder \<Rightarrow> clmm_instruction_builder" where
  "clmm_update_user_output_token_account key b = b\<lparr>cib_accounts := (cib_accounts b)\<lparr>cs2_output_token_account := key\<rparr>\<rparr>"

definition clmm_update_program_id :: "pubkey \<Rightarrow> clmm_instruction_builder \<Rightarrow> clmm_instruction_builder" where
  "clmm_update_program_id key b = b\<lparr>cib_program_id := key\<rparr>"

definition clmm_build_instruction ::
  "(clmm_swap_v2 \<Rightarrow> account_meta list) \<Rightarrow> (clmm_swap_data \<Rightarrow> bytes) \<Rightarrow> clmm_instruction_builder
     \<Rightarrow> wire_instruction result" where
  "clmm_build_instruction to_metas to_data b =
     (if cs2_input_token_account (cib_accounts b) = 0 \<or> cs2_output_token_account (cib_accounts b) = 0
      then Inl (Panic ''Failed to update one or both of input-token-account/output-token-account'')
      else Inr \<lparr>wi_program_id = cib_program_id b, wi_accounts = to_metas (cib_accounts b) @ cib_remaining_accounts b,
                wi_data = to_data (cib_data b)\<rparr>)"

section \<open>The sides of a quote\<close>

lemma clmm_pool_quote_result:
  assumes "clmm_pool_quote cm user pool_id amm_config pool_state (v0, v1, m0, m1) epoch mint0 mint1 config bitmap zero input limit
    = Inr (quote, threshold, b)"
  shows "cs2_pool_state (cib_accounts b) = pool_id \<and> csd_amount (cib_data b) = si_amount input
    \<and> csd_other_amount_threshold (cib_data b) = threshold
    \<and> (cs2_input_vault (cib_accounts b), cs2_output_vault (cib_accounts b), cs2_input_vault_mint (cib_accounts b),
        cs2_output_vault_mint (cib_accounts b)) = (if zero then (v0, v1, m0, m1) else (v1, v0, m1, m0))
    \<and> (amount_specified_is_input (si_mode input) \<longrightarrow>
        threshold = adjust_for_slippage quote (f_div (u16_as_f64 (si_slippage_bps input)) (f64_lit 10000)) False
      \<and> cm_transfer_fee cm (if zero then mint0 else mint1) epoch (si_amount input) \<le> si_amount input)"
  using assms
  by (auto simp: clmm_pool_quote_def Let_def unwrap_panic_def expect_def checked_sub_def linorder_not_less
      split: option.splits prod.splits if_splits)

text \<open>A quote in a pool that does not hold the requested pair is not refused: unless the request is
  exactly the first mint of the pool against the second, the quote and the instruction swap the second
  mint of the pool against the first, whatever tokens were requested, with the requested amount.\<close>

theorem clmm_quote_ignores_pool_tokens:
  assumes "quote_v6 cm user pool_id (Some pool) input limit = Inr (quote, threshold, b)"
    and "\<not> (si_input_token_mint input = cp_token_mint_0 pool \<and> si_output_token_mint input = cp_token_mint_1 pool)"
  shows "cs2_input_vault (cib_accounts b) = cp_token_vault_1 pool \<and> cs2_output_vault (cib_accounts b) = cp_token_vault_0 pool
    \<and> cs2_input_vault_mint (cib_accounts b) = cp_token_mint_1 pool \<and> cs2_output_vault_mint (cib_accounts b) = cp_token_mint_0 pool
    \<and> csd_amount (cib_data b) = si_amount input"
  using assms
  by (auto simp: quote_v6_def Let_def elim!: bind_res_InrE split: list.splits prod.splits dest!: clmm_pool_quote_result)

definition example_clmm_math :: "(unit, unit, unit, unit) clmm_math" where
  "example_clmm_math = \<lparr>cm_bitmap_pda = (\<lambda>p. p + 1), cm_tick_array_pda = (\<lambda>p i. p + ucast i),
     cm_get_account = (\<lambda>k. Inl (Error ''no account'')), cm_get_multiple_accounts = (\<lambda>ks. Inr (map (\<lambda>k. Some []) ks)),
     cm_epoch = Some 3, cm_read_pool = (\<lambda>d. Inl (Error ''no pool'')), cm_read_mint = (\<lambda>d. Inr ()),
     cm_read_config = (\<lambda>d. Inr ()), cm_read_bitmap = (\<lambda>d. Inr ()), cm_transfer_fee = (\<lambda>m e a. 0),
     cm_transfer_inverse_fee = (\<lambda>m e a. 0), cm_load_tick_arrays = (\<lambda>p s b z. ()),
     cm_price_to_sqrt_price_x64 = (\<lambda>p d e. 0), cm_output_amount = (\<lambda>a l z i c p b t. Some (2 * a, [0])),
     cm_token_program = 6, cm_token_program_2022 = 7, cm_memo_program = 8\<rparr>"

definition example_clmm_pool :: clmm_pool where
  "example_clmm_pool = \<lparr>cp_amm_config = 20, cp_token_mint_0 = 21, cp_token_mint_1 = 22, cp_token_vault_0 = 23,
     cp_token_vault_1 = 24, cp_observation_key = 25, cp_mint_decimals_0 = 6, cp_mint_decimals_1 = 9\<rparr>"

definition example_clmm_input :: swap_input where
  "example_clmm_input = \<lparr>si_input_token_mint = 1, si_output_token_mint = 2, si_slippage_bps = 100, si_amount = 50,
     si_mode = ExactIn, si_market = None\<rparr>"

theorem clmm_quote_ignores_pool_tokens_witness:
  "\<exists>quote threshold b. quote_v6 example_clmm_math 9 30 (Some example_clmm_pool) example_clmm_input None = Inr (quote, threshold, b)
     \<and> cs2_input_vault_mint (cib_accounts b) = 22 \<and> cs2_output_vault_mint (cib_accounts b) = 21"
proof -
  have "\<exists>quote threshold b. quote_v6 example_clmm_math 9 30 (Some example_clmm_pool) example_clmm_input None = Inr (quote, threshold, b)"
    by (simp add: quote_v6_def example_clmm_math_def example_clmm_pool_def example_clmm_input_def read_clmm_accounts_def
        unwrap_panic_def clmm_pool_quote_def checked_sub_def Let_def)
  then obtain quote threshold b where
    q: "quote_v6 example_clmm_math 9 30 (Some example_clmm_pool) example_clmm_input None = Inr (quote, threshold, b)" by blast
  have "\<not> (si_input_token_mint example_clmm_input = cp_token_mint_0 example_clmm_pool
      \<and> si_output_token_mint example_clmm_input = cp_token_mint_1 example_clmm_pool)"
    by (simp add: example_clmm_input_def example_clmm_pool_def)
  from clmm_quote_ignores_pool_tokens [OF q this] q show ?thesis by (simp add: example_clmm_pool_def)
qed

end
