(* ===== verification/Token_List.thy ===== *)
theory Token_List
  imports Accounts Float64
begin

text \<open>
  The list of tokens of Jupiter (\<^verbatim>\<open>swap/jupiter/token_list_new.rs\<close>): its tags, the request for the
  tokens with given tags, the map of loaded tokens and the lookup, and the conversion of a token to the
  bot's own \<open>MintInfo\<close> (\<^verbatim>\<open>analytics/dump.rs\<close>). The HTTP request, the file system and serde are arguments.
\<close>

datatype token_tag = Verified | Unknown | Community | Strict | Lst | BirdeyeTrending | Clone | TagPump
  | Token2022 | Moonshot | Deprecated | UnrecognizedTag string

record jup_api_token =
  jt_address :: pubkey
  jt_program_id :: "pubkey option"
  jt_logo_uri :: "string option"
  jt_symbol :: string
  jt_name :: string
  jt_decimals :: u8
  jt_tags :: "token_tag list"
  jt_daily_volume :: "f64 option"
  jt_freeze_authority :: "pubkey option"
  jt_mint_authority :: "pubkey option"

fun tag_to_string :: "token_tag \<Rightarrow> string" where
  "tag_to_string Verified = ''verified''"
| "tag_to_string Unknown = ''unknown''"
| "tag_to_string Community = ''community''"
| "tag_to_string Strict = ''strict''"
| "tag_to_string Lst = ''lst''"
| "tag_to_string BirdeyeTrending = ''birdeye-trending''"
| "tag_to_string Clone = ''clone''"
| "tag_to_string TagPump = ''pump''"
| "tag_to_string Token2022 = ''token-2022''"
| "tag_to_string Moonshot = ''moonshot''"
| "tag_to_string Deprecated = ''deprecated''"
| "tag_to_string (UnrecognizedTag tag) = tag"

definition tag_from_str :: "string \<Rightarrow> token_tag" where
  "tag_from_str s =
     (if s = ''verified'' then Verified
      else if s = ''unknown'' then Unknown
      else if s = ''community'' then Community
      else if s = ''strict'' then Strict
      else if s = ''lst'' then Lst
      else if s = ''birdeye-trending'' then BirdeyeTrending
      else if s = ''clone'' then Clone
      else if s = ''pump'' then TagPump
      else if s = ''token-2022'' then Token2022
      else if s = ''moonshot'' then Moonshot
      else if s = ''deprecated'' then Deprecated
      else UnrecognizedTag s)"

text \<open>\<open>[String]::join(",")\<close>\<close>

fun join_comma :: "string list \<Rightarrow> string" where
  "join_comma [] = []"
| "join_comma [s] = s"
| "join_comma (s # ss) = s @ '','' @ join_comma ss"

definition TOKEN_LIST_BASE_URL :: string where
  "TOKEN_LIST_BASE_URL = ''https://tokens.jup.ag/tokens''"

definition DEFAULT_TOKEN_LIST_PATH :: string where
  "DEFAULT_TOKEN_LIST_PATH = ''artifacts/jup_tokens_new.json''"

definition token_list_url :: "token_tag list \<Rightarrow> string" where
  "token_list_url tags =
     (if tags \<noteq> [] then TOKEN_LIST_BASE_URL @ ''?tags='' @ join_comma (map tag_to_string tags)
      else TOKEN_LIST_BASE_URL)"

definition fetch_token_list ::
  "(string \<Rightarrow> jup_api_token list result) \<Rightarrow> token_tag list \<Rightarrow> jup_api_token list result" where
  "fetch_token_list get tags = get (token_list_url tags)"

text \<open>The files as a map from path to content.\<close>

definition fetch_and_save_token_list ::
  "(string \<Rightarrow> jup_api_token list result) \<Rightarrow> (jup_api_token list \<Rightarrow> 'json) \<Rightarrow> string option \<Rightarrow> token_tag list
     \<Rightarrow> (string \<Rightarrow> 'json option) \<Rightarrow> (string \<Rightarrow> 'json option) \<times> jup_api_token list result" where
  "fetch_and_save_token_list get to_json out tags fs = (case fetch_token_list get tags of
       Inl e \<Rightarrow> (fs, Inl e)
     | Inr tokens \<Rightarrow> (fs(unwrap_or out DEFAULT_TOKEN_LIST_PATH \<mapsto> to_json tokens), Inr tokens))"

definition token_list_from_path ::
  "('json \<Rightarrow> jup_api_token list result) \<Rightarrow> string option \<Rightarrow> (string \<Rightarrow> 'json option) \<Rightarrow> jup_api_token list result" where
  "token_list_from_path from_json load_path fs =
     bind_res (ok_or (fs (unwrap_or load_path DEFAULT_TOKEN_LIST_PATH)) ''No such file or directory'') from_json"

text \<open>Collecting into a \<open>HashMap\<close>: a later token replaces an earlier one with its address.\<close>

definition load_token_list ::
  "('json \<Rightarrow> jup_api_token list result) \<Rightarrow> string option \<Rightarrow> (string \<Rightarrow> 'json option)
     \<Rightarrow> (pubkey \<Rightarrow> jup_api_token option) \<Rightarrow> (pubkey \<Rightarrow> jup_api_token option) \<times> unit result" where
  "load_token_list from_json load_path fs tokens = (case token_list_from_path from_json load_path fs of
       Inl e \<Rightarrow> (tokens, Inl e)
     | Inr token_list \<Rightarrow> (foldl (\<lambda>m t. m(jt_address t \<mapsto> t)) Map.empty token_list, Inr ()))"

definition get_mint_by_pubkey :: "(pubkey \<Rightarrow> jup_api_token option) \<Rightarrow> pubkey \<Rightarrow> jup_api_token result" where
  "get_mint_by_pubkey tokens k = ok_or (tokens k) ''Couldn't find token-info for mint''"

text \<open>\<open>From<JupApiToken> for MintInfo\<close>\<close>

definition mint_info_of_token :: "jup_api_token \<Rightarrow> mint_info" where
  "mint_info_of_token v = \<lparr>mi_pubkey = jt_address v, mi_decimals = jt_decimals v, mi_supply = None,
     mi_program_id = jt_program_id v, mi_mint_authority = jt_mint_authority v,
     mi_freeze_authority = jt_freeze_authority v, mi_name = Some (jt_name v), mi_symbol = Some (jt_symbol v),
     mi_uri = jt_logo_uri v\<rparr>"

section \<open>Properties\<close>

lemma tag_string_roundtrip: "tag_to_string (tag_from_str s) = s"
  by (simp add: tag_from_str_def)

lemma tag_from_str_idem: "tag_from_str (tag_to_string (tag_from_str s)) = tag_from_str s"
  by (simp add: tag_string_roundtrip)

lemma foldl_tokens:
  "foldl (\<lambda>m t. m(jt_address t \<mapsto> t)) Map.empty ts = map_of (map (\<lambda>t. (jt_address t, t)) (rev ts))"
  by (induction ts rule: rev_induct) simp_all

lemma loaded_tokens:
  assumes "distinct (map jt_address ts)"
  shows "foldl (\<lambda>m t. m(jt_address t \<mapsto> t)) Map.empty ts k = Some t \<longleftrightarrow> t \<in> set ts \<and> jt_address t = k"
proof -
  have "distinct (map fst (map (\<lambda>t. (jt_address t, t)) (rev ts)))"
    using assms by (simp add: comp_def rev_map [symmetric])
  from map_of_eq_Some_iff [OF this] show ?thesis unfolding foldl_tokens by auto
qed

text \<open>What \<open>fetch_and_save_token_list\<close> wrote to a path, \<open>load_token_list\<close> loads from it, and a lookup
  then finds exactly the tokens of the list, under their own addresses.\<close>

theorem saved_token_list_loads:
  assumes "fetch_and_save_token_list get to_json path tags fs = (fs', Inr ts)"
    and "\<And>ts. from_json (to_json ts) = Inr ts" and "distinct (map jt_address ts)"
  shows "\<exists>m. load_token_list from_json path fs' old = (m, Inr ())
    \<and> (\<forall>k t. get_mint_by_pubkey m k = Inr t \<longleftrightarrow> t \<in> set ts \<and> jt_address t = k)"
proof -
  let ?m = "foldl (\<lambda>m t. m(jt_address t \<mapsto> t)) Map.empty ts"
  have "load_token_list from_json path fs' old = (?m, Inr ())"
    using assms(1,2)
    by (auto simp: fetch_and_save_token_list_def load_token_list_def token_list_from_path_def ok_or_def split: sum.splits)
  moreover have "get_mint_by_pubkey ?m k = Inr t \<longleftrightarrow> ?m k = Some t" for k t
    by (simp add: get_mint_by_pubkey_def ok_or_def split: option.splits)
  ultimately show ?thesis
    using loaded_tokens [OF assms(3)] by (intro exI [of _ ?m]) simp
qed

definition example_token :: "pubkey \<Rightarrow> jup_api_token" where
  "example_token k = \<lparr>jt_address = k, jt_program_id = None, jt_logo_uri = None, jt_symbol = ''T'', jt_name = ''Token'',
     jt_decimals = 6, jt_tags = [tag_from_str ''pump''], jt_daily_volume = None, jt_freeze_authority = None,
     jt_mint_authority = None\<rparr>"

theorem saved_token_list_loads_witness:
  "\<exists>m. load_token_list Inr None (fst (fetch_and_save_token_list (\<lambda>_. Inr [example_token 4, example_token 7])
        id None [TagPump] Map.empty)) Map.empty = (m, Inr ())
    \<and> get_mint_by_pubkey m 7 = Inr (example_token 7)"
proof -
  have s: "fetch_and_save_token_list (\<lambda>_. Inr [example_token 4, example_token 7]) id None [TagPump] Map.empty
      = (fst (fetch_and_save_token_list (\<lambda>_. Inr [example_token 4, example_token 7]) id None [TagPump] Map.empty),
         Inr [example_token 4, example_token 7])"
    by (simp add: fetch_and_save_token_list_def fetch_token_list_def)
  show ?thesis
    using saved_token_list_loads [OF s, of Inr Map.empty] by (auto simp: example_token_def)
qed

end
