(* ===== verification/Price_History.thy ===== *)
theory Price_History
  imports Float64
begin

text \<open>
  Historical prices (\<^verbatim>\<open>analytics/price_history.rs\<close>): the prices loaded per token and the price at a
  timestamp. The Birdeye API and the clock are arguments. Timestamps are \<open>i64\<close>; they are only compared
  here.
\<close>

record historical_price =
  hp_unix_time :: int
  hp_value :: f64

text \<open>\<open>slice::partition_point\<close>: the index of the first element that fails the predicate. The standard
  library specifies it for lists whose elements that satisfy the predicate come first.\<close>

definition partition_point :: "('a \<Rightarrow> bool) \<Rightarrow> 'a list \<Rightarrow> nat" where
  "partition_point p xs = length (takeWhile p xs)"

definition get_price_for_timestamp :: "historical_price list \<Rightarrow> int \<Rightarrow> f64 option result" where
  "get_price_for_timestamp prices timestamp =
     (if prices = [] then Inr None
      else if timestamp < hp_unix_time (hd prices) \<or> hp_unix_time (last prices) < timestamp then Inr None
      else
        let idx = partition_point (\<lambda>x. hp_unix_time x < timestamp) prices
        in if idx < length prices then Inr (Some (hp_value (prices ! idx)))
           else Inl (Panic ''index out of bounds''))"

section \<open>The cache per token\<close>

type_synonym price_history = "(pubkey, historical_price list) store"

text \<open>The API's two requests: the prices of a token between two timestamps, and the price at one.\<close>

record birdeye_api =
  ba_get_price_historical :: "pubkey \<Rightarrow> int \<Rightarrow> int \<Rightarrow> historical_price list result"
  ba_get_price_historical_by_unix_time :: "pubkey \<Rightarrow> int option \<Rightarrow> f64 option result"

definition load_prices_for_token ::
  "birdeye_api \<Rightarrow> int \<Rightarrow> price_history \<Rightarrow> pubkey \<Rightarrow> int \<Rightarrow> int option \<Rightarrow> price_history \<times> unit result" where
  "load_prices_for_token api now h token until_ts from =
     (case ba_get_price_historical api token (unwrap_or from now) until_ts of
        Inl e \<Rightarrow> (h, Inl e)
      | Inr items \<Rightarrow> (store_insert h token items, Inr ()))"

definition get_historical_price_for_token :: "price_history \<Rightarrow> pubkey \<Rightarrow> int \<Rightarrow> f64 option result" where
  "get_historical_price_for_token h token timestamp = (case store_get h token of
       None \<Rightarrow> Inr None
     | Some prices \<Rightarrow> get_price_for_timestamp prices timestamp)"

definition get_historical_price_from_api :: "birdeye_api \<Rightarrow> pubkey \<Rightarrow> int \<Rightarrow> f64 option result" where
  "get_historical_price_from_api api token timestamp =
     ba_get_price_historical_by_unix_time api token (Some timestamp)"

definition get_historical_price_for_token_with_api_fallback ::
  "birdeye_api \<Rightarrow> price_history \<Rightarrow> pubkey \<Rightarrow> int \<Rightarrow> f64 option result" where
  "get_historical_price_for_token_with_api_fallback api h token timestamp =
     bind_res (get_historical_price_for_token h token timestamp) (\<lambda>price. case price of
       Some p \<Rightarrow> Inr (Some p)
     | None \<Rightarrow> get_historical_price_from_api api token timestamp)"

section \<open>Properties\<close>

lemma partition_point_less:
  assumes "xs \<noteq> []" and "\<not> p (last xs)"
  shows "partition_point p xs < length xs" and "\<not> p (xs ! partition_point p xs)"
proof -
  have "takeWhile p xs \<noteq> xs" using assms by (metis last_in_set set_takeWhileD)
  then show "partition_point p xs < length xs"
    unfolding partition_point_def
    by (metis length_takeWhile_le le_neq_implies_less takeWhile_eq_take take_all_iff)
  then show "\<not> p (xs ! partition_point p xs)"
    unfolding partition_point_def by (rule nth_length_takeWhile)
qed

lemma partition_point_before:
  "i < partition_point p xs \<Longrightarrow> p (xs ! i)"
  unfolding partition_point_def by (metis nth_mem set_takeWhileD takeWhile_nth)

lemma get_price_for_timestamp_total: "\<exists>r. get_price_for_timestamp prices timestamp = Inr r"
  using partition_point_less [of prices "\<lambda>x. hp_unix_time x < timestamp"]
  by (auto simp: get_price_for_timestamp_def Let_def)

text \<open>On prices in the order of time, the lookup never fails: within the recorded range it gives the
  price of the earliest entry that is not before the timestamp, and outside of it no price.\<close>

theorem price_for_timestamp_exact:
  assumes "sorted (map hp_unix_time prices)"
  shows "if prices \<noteq> [] \<and> timestamp \<in> {hp_unix_time (hd prices)..hp_unix_time (last prices)}
    then \<exists>i < length prices. get_price_for_timestamp prices timestamp = Inr (Some (hp_value (prices ! i)))
      \<and> timestamp \<le> hp_unix_time (prices ! i) \<and> (\<forall>j < length prices. hp_unix_time (prices ! j) < timestamp \<longleftrightarrow> j < i)
    else get_price_for_timestamp prices timestamp = Inr None"
proof (cases "prices \<noteq> [] \<and> timestamp \<in> {hp_unix_time (hd prices)..hp_unix_time (last prices)}")
  case True
  let ?p = "\<lambda>x. hp_unix_time x < timestamp"
  let ?i = "partition_point ?p prices"
  have i: "?i < length prices" "\<not> ?p (prices ! ?i)"
    using partition_point_less [of prices ?p] True by auto
  then have "timestamp \<le> hp_unix_time (prices ! ?i)" by simp
  moreover
  have "hp_unix_time (prices ! j) < timestamp \<longleftrightarrow> j < ?i" if "j < length prices" for j
  proof
    show "j < ?i" if "?p (prices ! j)"
    proof (rule ccontr)
      assume "\<not> j < ?i"
      then have "hp_unix_time (prices ! ?i) \<le> hp_unix_time (prices ! j)"
        using assms \<open>j < length prices\<close> by (simp add: sorted_iff_nth_mono)
      with i(2) that show False by simp
    qed
  qed (rule partition_point_before)
  ultimately show ?thesis
    using True i(1) by (auto simp: get_price_for_timestamp_def Let_def intro!: exI [of _ ?i])
qed (auto simp: get_price_for_timestamp_def)

definition example_prices :: "historical_price list" where
  "example_prices = [\<lparr>hp_unix_time = 100, hp_value = f64_lit 2\<rparr>, \<lparr>hp_unix_time = 200, hp_value = f64_lit 3\<rparr>,
     \<lparr>hp_unix_time = 300, hp_value = f64_lit 5\<rparr>]"

theorem price_for_timestamp_exact_witness:
  "\<exists>i < 3. get_price_for_timestamp example_prices 150 = Inr (Some (hp_value (example_prices ! i))) \<and> i = 1"
proof -
  have "\<exists>i < length example_prices. get_price_for_timestamp example_prices 150 = Inr (Some (hp_value (example_prices ! i)))
      \<and> 150 \<le> hp_unix_time (example_prices ! i)
      \<and> (\<forall>j < length example_prices. hp_unix_time (example_prices ! j) < 150 \<longleftrightarrow> j < i)"
    using price_for_timestamp_exact [of example_prices 150] by (simp add: example_prices_def)
  then show ?thesis
    by (auto simp: example_prices_def get_price_for_timestamp_def partition_point_def)
qed

text \<open>After loading, the lookup with the fallback asks the API only outside of the loaded range.\<close>

lemma loaded_price_needs_no_api:
  assumes "ba_get_price_historical api token (unwrap_or from now) until_ts = Inr items"
    and "get_price_for_timestamp items ts = Inr (Some p)"
  shows "get_historical_price_for_token_with_api_fallback api'
    (fst (load_prices_for_token api now h token until_ts from)) token ts = Inr (Some p)"
  using assms
  by (simp add: get_historical_price_for_token_with_api_fallback_def get_historical_price_for_token_def
      load_prices_for_token_def)

end
