(* ===== verification/Simulator.thy ===== *)
theory Simulator
  imports Execution Price_History "HOL-Library.Multiset"
begin

text \<open>
  The simulator (\<^verbatim>\<open>services/copy/v2/simulator.rs\<close>): it replays the swaps of copied wallets through the
  execution handler and keeps the balances that the bot would have. The node, the clock, the parser and
  the price request are arguments; what is printed is not modelled.
\<close>

definition SOL_DECIMALS :: u8 where
  "SOL_DECIMALS = 9"

definition TOKEN_ACCOUNT_CREATION_LAMPORTS :: u64 where
  "TOKEN_ACCOUNT_CREATION_LAMPORTS = 2000000"

record simulator =
  sim_lamports_bal :: u64
  sim_log_swaps :: bool
  sim_execution_handler :: execution_handler
  sim_wallets :: "(pubkey, wallet_config) store"
  sim_token_balances :: "(pubkey, u64) store"
  sim_sol_price_history :: "historical_price list"
  sim_decimals :: "(pubkey, u8) store"

text \<open>\<open>Any\<close> carries an error of another component, or a panic.\<close>

datatype simulation_error = InsufficientLamportBalance | InsufficientTokenBalance pubkey | AnyError failure

type_synonym 'a sim_result = "simulation_error + 'a"

definition any_err :: "'a result \<Rightarrow> 'a sim_result" where
  "any_err r = (case r of Inl e \<Rightarrow> Inl (AnyError e) | Inr x \<Rightarrow> Inr x)"

definition sim_err :: "string \<Rightarrow> 'a sim_result" where
  "sim_err msg = Inl (AnyError (Error msg))"

definition insert_wallet :: "simulator \<Rightarrow> pubkey \<Rightarrow> wallet_config \<Rightarrow> simulator" where
  "insert_wallet s wallet config = s\<lparr>sim_wallets := store_insert (sim_wallets s) wallet config\<rparr>"

text \<open>\<open>Duration::MAX\<close> of \<open>subscribe_token\<close>, in nanoseconds.\<close>

definition DURATION_MAX :: duration where
  "DURATION_MAX = (2 ^ 64 - 1) * 1000000000 + 999999999"

text \<open>\<open>refresh\<close> is the request of the price feed, or its error; \<open>ping\<close> what \<open>PingTracker::start\<close> gives
  where a path is configured.\<close>

definition simulator_start ::
  "u64 \<Rightarrow> bool \<Rightarrow> historical_price list \<Rightarrow> instant \<Rightarrow> (pubkey list \<Rightarrow> (pubkey \<times> f64 option) list) result
     \<Rightarrow> copy_config \<Rightarrow> ping_tracker result option \<Rightarrow> (pubkey, wallet_config) store \<Rightarrow> simulator result" where
  "simulator_start initial_lamports log_swaps sol_price_history now refresh config ping wallets =
     (let feed = foldl (\<lambda>f t. fst (subscribe_token f now t (Some DURATION_MAX))) [] [SOL, USDC, USDT]
      in bind_res refresh (\<lambda>request.
         bind_res (case ping of Some r \<Rightarrow> bind_res r (\<lambda>t. Inr (Some t)) | None \<Rightarrow> Inr None) (\<lambda>tracker.
         Inr \<lparr>sim_lamports_bal = initial_lamports, sim_log_swaps = log_swaps,
           sim_execution_handler = \<lparr>eh_config = config, eh_trade_history = [], eh_ping_tracker = tracker,
             eh_price_feed = update_token_prices request feed, eh_buy_disabled = False,
             eh_buy_disabled_wallets = {}, eh_p95_landed = f64_zero, eh_metrics = copy_metrics_default\<rparr>,
           sim_wallets = wallets, sim_token_balances = [], sim_sol_price_history = sol_price_history,
           sim_decimals = [(SOL, SOL_DECIMALS)]\<rparr>)))"

section \<open>One swap\<close>

text \<open>The price of SOL at the time of the swap: the history, or the current price when the history
  ends less than a day ago. The subtraction is that of \<open>i64\<close>.\<close>

definition wrap_i64 :: "int \<Rightarrow> int" where
  "wrap_i64 x = (x + 2 ^ 63) mod 2 ^ 64 - 2 ^ 63"

definition sol_price_at :: "int \<Rightarrow> f64 option \<Rightarrow> historical_price list \<Rightarrow> int \<Rightarrow> f64 result" where
  "sol_price_at current_timestamp current_sol_price history blocktime =
     bind_res (get_price_for_timestamp history blocktime) (\<lambda>sol_price. case sol_price of
       Some p \<Rightarrow> Inr p
     | None \<Rightarrow>
         let most_recent_time = (if history = [] then current_timestamp else hp_unix_time (last history))
         in if wrap_i64 (current_timestamp - most_recent_time) < 24 * 60 * 60
            then ok_or current_sol_price ''Failed to get current sol price while getting historical price''
            else Inl (Error ''Failed to get historical sol price''))"

text \<open>The decimals and prices of the two sides of the copy.\<close>

definition exec_sides :: "copy_type \<Rightarrow> token_decimals \<Rightarrow> price_quote \<Rightarrow> u8 \<times> u8 \<times> f64 \<times> f64" where
  "exec_sides copy_type dec p = (case copy_type of
       CopyBuy \<Rightarrow> (SOL_DECIMALS, td_output dec, sol_price_usd p, output_price_usd p)
     | _ \<Rightarrow> (td_input dec, SOL_DECIMALS, input_price_usd p, sol_price_usd p))"

definition normalized :: "u64 \<Rightarrow> u8 \<Rightarrow> f64" where
  "normalized amount decimals = f_div (u64_as_f64 amount) (u32_as_f64 (pow10_u32 decimals))"

definition exec_output :: "u64 \<Rightarrow> u8 \<times> u8 \<times> f64 \<times> f64 \<Rightarrow> u64" where
  "exec_output amount = (\<lambda>(in_dec, out_dec, in_price, out_price).
     f64_as_u64 (f_trunc (f_mul (f_div (f_mul (normalized amount in_dec) in_price) out_price)
       (u32_as_f64 (pow10_u32 out_dec)))))"

definition sim_dust :: "u16 \<Rightarrow> u64 \<Rightarrow> u64" where
  "sim_dust bps amount = (ucast bps * amount) div 10000"

definition max_fee_cost :: "copy_config \<Rightarrow> u64" where
  "max_fee_cost c = cfg_max_fee_lamports c + ucast (cfg_send_txn_retries c) * cfg_fee_increase_multiplier c"

text \<open>The fee, and the rent of the account of a token that is not among the balances.\<close>

definition charge_fees :: "simulator \<Rightarrow> pubkey \<Rightarrow> simulator \<times> unit sim_result" where
  "charge_fees s output_mint =
     (let cost = max_fee_cost (eh_config (sim_execution_handler s))
      in if sim_lamports_bal s < cost then (s, Inl InsufficientLamportBalance)
         else
           let s = s\<lparr>sim_lamports_bal := sim_lamports_bal s - cost\<rparr>
           in if store_get (sim_token_balances s) output_mint \<noteq> None then (s, Inr ())
              else if sim_lamports_bal s < TOKEN_ACCOUNT_CREATION_LAMPORTS
              then (s, Inl InsufficientLamportBalance)
              else (s\<lparr>sim_lamports_bal := sim_lamports_bal s - TOKEN_ACCOUNT_CREATION_LAMPORTS\<rparr>, Inr ()))"

definition add_tokens :: "simulator \<Rightarrow> pubkey \<Rightarrow> u64 \<Rightarrow> simulator" where
  "add_tokens s mint amount = s\<lparr>sim_token_balances := store_insert (sim_token_balances s) mint
     (case store_get (sim_token_balances s) mint of Some bal \<Rightarrow> bal + amount | None \<Rightarrow> amount)\<rparr>"

definition take_tokens :: "simulator \<Rightarrow> pubkey \<Rightarrow> u64 \<Rightarrow> simulator \<times> unit sim_result" where
  "take_tokens s mint amount = (case store_get (sim_token_balances s) mint of
       None \<Rightarrow> (s, sim_err ''Attempted to sell token not present in balances'')
     | Some bal \<Rightarrow>
         if bal < amount then (s, Inl (InsufficientTokenBalance mint))
         else (s\<lparr>sim_token_balances := store_insert (sim_token_balances s) mint (bal - amount)\<rparr>, Inr ()))"

text \<open>The two sides of the copy change hands.\<close>

definition settle :: "simulator \<Rightarrow> copy_type \<Rightarrow> swap_input \<Rightarrow> u64 \<Rightarrow> simulator \<times> unit sim_result" where
  "settle s copy_type exec exec_out_amount = (case copy_type of
       CopyBuy \<Rightarrow>
         if sim_lamports_bal s < si_amount exec then (s, Inl InsufficientLamportBalance)
         else (add_tokens (s\<lparr>sim_lamports_bal := sim_lamports_bal s - si_amount exec\<rparr>)
                (si_output_token_mint exec) exec_out_amount, Inr ())
     | CopySell \<Rightarrow>
         (case take_tokens s (si_input_token_mint exec) (si_amount exec) of
            (s, Inl e) \<Rightarrow> (s, Inl e)
          | (s, Inr _) \<Rightarrow> (s\<lparr>sim_lamports_bal := sim_lamports_bal s + exec_out_amount\<rparr>, Inr ()))
     | CopyBoth \<Rightarrow>
         (case take_tokens s (si_input_token_mint exec) (si_amount exec) of
            (s, Inl e) \<Rightarrow> (s, Inl e)
          | (s, Inr _) \<Rightarrow> (add_tokens s (si_output_token_mint exec) exec_out_amount, Inr ())))"

text \<open>What the swap was worth: the input and output of the wallet and of the bot, in dollars.\<close>

record sim_values =
  vl_exec_input_usd :: f64
  vl_exec_output_usd :: f64
  vl_origin_input_usd :: f64
  vl_origin_output_usd :: f64

definition sim_values_of ::
  "resolved_swap \<Rightarrow> token_decimals \<Rightarrow> price_quote \<Rightarrow> u64 \<Rightarrow> u64 \<Rightarrow> u8 \<times> u8 \<times> f64 \<times> f64 \<Rightarrow> sim_values" where
  "sim_values_of swap dec p amount exec_out = (\<lambda>(in_dec, out_dec, in_price, out_price).
     \<lparr>vl_exec_input_usd = f_mul (normalized amount in_dec) in_price,
      vl_exec_output_usd = f_mul (normalized exec_out out_dec) out_price,
      vl_origin_input_usd = f_div (f_mul (u64_as_f64 (rs_input_amount swap)) (input_price_usd p))
        (u32_as_f64 (pow10_u32 (td_input dec))),
      vl_origin_output_usd = f_mul (normalized (rs_output_amount swap) (td_output dec)) (output_price_usd p)\<rparr>)"

definition set_history :: "simulator \<Rightarrow> historical_trades \<Rightarrow> simulator" where
  "set_history s h = s\<lparr>sim_execution_handler := (sim_execution_handler s)\<lparr>eh_trade_history := h\<rparr>\<rparr>"

definition set_tracker :: "simulator \<Rightarrow> ping_tracker \<Rightarrow> simulator" where
  "set_tracker s t = s\<lparr>sim_execution_handler := (sim_execution_handler s)\<lparr>eh_ping_tracker := Some t\<rparr>\<rparr>"

definition sim_insert_trade ::
  "simulator \<Rightarrow> historical_trades result \<Rightarrow> simulator \<times> unit sim_result" where
  "sim_insert_trade s r = (case r of Inl e \<Rightarrow> (s, Inl (AnyError e)) | Inr h \<Rightarrow> (set_history s h, Inr ()))"

definition sim_insert_execution ::
  "simulator \<Rightarrow> pubkey \<Rightarrow> u8 \<Rightarrow> u64 \<Rightarrow> f64 \<Rightarrow> f64 \<Rightarrow> trade_direction \<Rightarrow> simulator \<times> unit sim_result" where
  "sim_insert_execution s mint decimals amount price_usd sol_usd dir =
     (case eh_ping_tracker (sim_execution_handler s) of
        None \<Rightarrow> (s, sim_err ''Ping tracker not set for simulator'')
      | Some t \<Rightarrow>
          (case insert_execution t mint decimals amount price_usd (f_div price_usd sol_usd) dir
                  (Some (cfg_moonbag_bps (eh_config (sim_execution_handler s)))) of
             Inl e \<Rightarrow> (s, Inl (AnyError e))
           | Inr (t, v) \<Rightarrow> (set_tracker s t, Inr ())))"

definition record_sim_buy ::
  "simulator \<Rightarrow> copy_details \<Rightarrow> swap_input \<Rightarrow> u64 \<Rightarrow> u64 \<Rightarrow> price_quote \<Rightarrow> sim_values
     \<Rightarrow> u8 \<times> u8 \<times> f64 \<times> f64 \<Rightarrow> simulator \<times> unit sim_result" where
  "record_sim_buy s d exec exec_out dust p v sides =
     (let (in_dec, out_dec, in_price, out_price) = sides; swap = d_origin_swap d
      in case wc_mode (d_wallet_config d) of
           ModeDirect \<Rightarrow> sim_insert_trade s (insert_trade_inner (eh_trade_history (sim_execution_handler s))
             (d_origin_signer d) (si_output_token_mint exec) exec_out (rs_output_amount swap)
             (vl_exec_input_usd v) (vl_origin_input_usd v)
             (f_div (vl_exec_input_usd v) (sol_price_usd p)) (f_div (vl_origin_input_usd v) (sol_price_usd p))
             dust DirBuy)
         | ModePing \<Rightarrow> sim_insert_execution s (si_output_token_mint exec) out_dec exec_out out_price
             (sol_price_usd p) DirBuy)"

text \<open>The sell is recorded only where there is a ping tracker, for a direct copy too.\<close>

definition record_sim_sell ::
  "simulator \<Rightarrow> copy_details \<Rightarrow> swap_input \<Rightarrow> price_quote \<Rightarrow> sim_values
     \<Rightarrow> u8 \<times> u8 \<times> f64 \<times> f64 \<Rightarrow> simulator \<times> unit sim_result" where
  "record_sim_sell s d exec p v sides =
     (let (in_dec, out_dec, in_price, out_price) = sides; swap = d_origin_swap d
      in if eh_ping_tracker (sim_execution_handler s) = None
         then (s, sim_err ''Ping tracker not set for simulator'')
         else case wc_mode (d_wallet_config d) of
           ModeDirect \<Rightarrow> sim_insert_trade s (insert_trade_inner (eh_trade_history (sim_execution_handler s))
             (d_origin_signer d) (si_input_token_mint exec) (si_amount exec) (rs_input_amount swap)
             (vl_exec_output_usd v) (vl_origin_output_usd v)
             (f_div (vl_exec_output_usd v) (sol_price_usd p)) (f_div (vl_origin_output_usd v) (sol_price_usd p))
             0 DirSell)
         | ModePing \<Rightarrow> sim_insert_execution s (si_input_token_mint exec) in_dec (si_amount exec) in_price
             (sol_price_usd p) DirSell)"

definition bind_sim ::
  "simulator \<times> 'a sim_result \<Rightarrow> (simulator \<Rightarrow> 'a \<Rightarrow> simulator \<times> 'b sim_result) \<Rightarrow> simulator \<times> 'b sim_result" where
  "bind_sim r f = (case r of (s, Inl e) \<Rightarrow> (s, Inl e) | (s, Inr x) \<Rightarrow> f s x)"

definition record_sim_trade ::
  "simulator \<Rightarrow> copy_details \<Rightarrow> copy_type \<Rightarrow> swap_input \<Rightarrow> u64 \<Rightarrow> u64 \<Rightarrow> price_quote \<Rightarrow> sim_values
     \<Rightarrow> u8 \<times> u8 \<times> f64 \<times> f64 \<Rightarrow> simulator \<times> unit sim_result" where
  "record_sim_trade s d copy_type exec exec_out dust p v sides =
     bind_sim (if copy_type = CopyBuy \<or> copy_type = CopyBoth then record_sim_buy s d exec exec_out dust p v sides
               else (s, Inr ())) (\<lambda>s _.
     if copy_type = CopySell \<or> copy_type = CopyBoth then record_sim_sell s d exec p v sides else (s, Inr ()))"

definition sim_details ::
  "simulator \<Rightarrow> resolved_swap \<Rightarrow> balance option \<Rightarrow> balance option \<Rightarrow> balance option \<Rightarrow> pubkey \<Rightarrow> signature
     \<Rightarrow> wallet_config \<Rightarrow> copy_details" where
  "sim_details s swap sol_balance input_balance output_balance signer sig wc = \<lparr>
     d_origin_signature = sig, d_origin_signer = signer, d_origin_swap = swap,
     d_origin_sol_balance = sol_balance, d_origin_input_mint_balance = input_balance,
     d_origin_output_mint_balance = output_balance,
     d_send_txn_retries = cfg_send_txn_retries (eh_config (sim_execution_handler s)),
     d_confirmed_error_retries = cfg_confirmed_error_retries (eh_config (sim_execution_handler s)),
     d_retry_strategy = BuildTransaction, d_wallet_config = wc, d_next_priority_level = PHigh,
     d_last_fee_lamports = 0, d_send_to_jito = True, d_quote_output = None, d_copy_type = None\<rparr>"

record sim_env =
  sn_get_info_for_mints :: "pubkey list \<Rightarrow> mint_info option list result"
  sn_now :: instant
  sn_current_timestamp :: int

text \<open>The part of \<open>process_swap\<close> after the prices are known: the output of the copy, the fees, the balances
  and the record.\<close>

definition execute_sim_swap ::
  "simulator \<Rightarrow> copy_details \<Rightarrow> copy_type \<Rightarrow> swap_input \<Rightarrow> token_decimals \<Rightarrow> price_quote
     \<Rightarrow> simulator \<times> unit sim_result" where
  "execute_sim_swap s d copy_type exec dec p =
     (let sides = exec_sides copy_type dec p;
          dust_bps = cfg_moonbag_bps (eh_config (sim_execution_handler s));
          exec_out = exec_output (si_amount exec) sides
      in if 10000 < dust_bps then (s, sim_err ''Invalid dust bps'')
         else
           let dust = sim_dust dust_bps exec_out;
               exec_out = exec_out - dust;
               v = sim_values_of (d_origin_swap d) dec p (si_amount exec) exec_out sides
           in bind_sim (charge_fees s (si_output_token_mint exec)) (\<lambda>s _.
              bind_sim (settle s copy_type exec exec_out) (\<lambda>s _.
              record_sim_trade s d copy_type exec exec_out dust p v sides)))"

definition sim_process_swap ::
  "sim_env \<Rightarrow> simulator \<Rightarrow> resolved_swap \<Rightarrow> balance option \<Rightarrow> balance option \<Rightarrow> balance option \<Rightarrow> pubkey
     \<Rightarrow> signature \<Rightarrow> int \<Rightarrow> simulator \<times> unit sim_result" where
  "sim_process_swap env s swap sol_balance input_balance output_balance origin_signer sig blocktime =
     (case store_get (sim_wallets s) origin_signer of
        None \<Rightarrow> (s, Inr ())
      | Some wc \<Rightarrow>
          (case rs_token_decimals swap of
             None \<Rightarrow> (s, sim_err ''Token decimals not resolved for swap'')
           | Some dec \<Rightarrow>
               let s = s\<lparr>sim_decimals := store_insert (store_insert (sim_decimals s) (rs_input_token_mint swap)
                      (td_input dec)) (rs_output_token_mint swap) (td_output dec)\<rparr>;
                   d = sim_details s swap sol_balance input_balance output_balance origin_signer sig wc;
                   (h, d, r) = get_execution_input (sn_get_info_for_mints env) (sn_now env)
                      (sim_execution_handler s) d;
                   s = s\<lparr>sim_execution_handler := h\<rparr>
               in case r of
                    Inl e \<Rightarrow> (s, Inl (AnyError e))
                  | Inr None \<Rightarrow> (s, Inr ())
                  | Inr (Some exec) \<Rightarrow>
                      bind_sim (s, any_err (sol_price_at (sn_current_timestamp env)
                        (Option.bind (get_price_usd (eh_price_feed h) SOL) price)
                        (sim_sol_price_history s) blocktime)) (\<lambda>s sol_price.
                      bind_sim (s, any_err (calculate_token_prices
                        (rs_input_token_mint (d_origin_swap d)) (rs_output_token_mint (d_origin_swap d))
                        (rs_input_amount (d_origin_swap d)) (rs_output_amount (d_origin_swap d))
                        (td_input dec) (td_output dec) sol_price)) (\<lambda>s origin_price.
                      case d_copy_type d of
                        None \<Rightarrow> (s, sim_err ''No copy-type set for swap'')
                      | Some copy_type \<Rightarrow> execute_sim_swap s d copy_type exec dec origin_price))))"

definition sim_process_txn ::
  "(itransaction \<Rightarrow> resolved_swap option result) \<Rightarrow> (pubkey \<Rightarrow> string) \<Rightarrow> sim_env \<Rightarrow> simulator \<Rightarrow> itransaction
     \<Rightarrow> simulator \<times> unit sim_result" where
  "sim_process_txn parse to_string env s txn = (case parse txn of
       Inl e \<Rightarrow> (s, Inl (AnyError e))
     | Inr None \<Rightarrow> (s, Inr ())
     | Inr (Some swap) \<Rightarrow>
         (case create_sol_balance txn 0 of
            None \<Rightarrow> (s, sim_err ''Failed to get signer balance for txn'')
          | Some signer_balance \<Rightarrow>
              (case tx_account_keys txn of
                 [] \<Rightarrow> (s, sim_err ''no keys present for txn'')
               | origin_signer # _ \<Rightarrow>
                   (case tx_block_time txn of
                      None \<Rightarrow> (s, sim_err ''blocktime is null for tx'')
                    | Some blocktime \<Rightarrow>
                        sim_process_swap env s swap (create_sol_balance txn 0)
                          (create_token_balance to_string txn origin_signer (rs_input_token_mint swap))
                          (create_token_balance to_string txn origin_signer (rs_output_token_mint swap))
                          origin_signer (tx_signature txn) blocktime))))"


section \<open>The books of the simulator\<close>

text \<open>The balances as unbounded numbers.\<close>

type_synonym money = "nat \<times> (pubkey \<Rightarrow> nat option)"

definition sim_money :: "simulator \<Rightarrow> money" where
  "sim_money s = (unat (sim_lamports_bal s), \<lambda>m. map_option unat (store_get (sim_token_balances s) m))"

record sim_swap =
  ss_details :: copy_details
  ss_copy_type :: copy_type
  ss_exec :: swap_input
  ss_decimals :: token_decimals
  ss_price :: price_quote

definition ss_execute :: "simulator \<Rightarrow> sim_swap \<Rightarrow> simulator \<times> unit sim_result" where
  "ss_execute s e = execute_sim_swap s (ss_details e) (ss_copy_type e) (ss_exec e) (ss_decimals e) (ss_price e)"

text \<open>What the copy gives before and after the dust.\<close>

definition ss_gross :: "sim_swap \<Rightarrow> u64" where
  "ss_gross e = exec_output (si_amount (ss_exec e)) (exec_sides (ss_copy_type e) (ss_decimals e) (ss_price e))"

definition ss_received :: "copy_config \<Rightarrow> sim_swap \<Rightarrow> u64" where
  "ss_received c e = ss_gross e - sim_dust (cfg_moonbag_bps c) (ss_gross e)"

text \<open>The abstract books: fees and rent are paid in lamports, the input leaves one balance and the
  output enters the other.\<close>

definition sim_rent :: "(pubkey \<Rightarrow> nat option) \<Rightarrow> pubkey \<Rightarrow> nat" where
  "sim_rent tokens m = (if tokens m = None then 2000000 else 0)"

definition money_step :: "copy_config \<Rightarrow> money \<Rightarrow> sim_swap \<Rightarrow> money" where
  "money_step c = (\<lambda>(lamports, tokens) e.
     let i = si_input_token_mint (ss_exec e); j = si_output_token_mint (ss_exec e);
         amount = unat (si_amount (ss_exec e)); received = unat (ss_received c e);
         lamports = lamports - unat (max_fee_cost c) - sim_rent tokens j;
         paid = tokens(i \<mapsto> the (tokens i) - amount)
     in case ss_copy_type e of
          CopyBuy \<Rightarrow> (lamports - amount, tokens(j \<mapsto> (case tokens j of Some b \<Rightarrow> b + received | None \<Rightarrow> received)))
        | CopySell \<Rightarrow> (lamports + received, paid)
        | CopyBoth \<Rightarrow> (lamports, paid(j \<mapsto> (case paid j of Some b \<Rightarrow> b + received | None \<Rightarrow> received))))"

text \<open>A swap that goes through, under the configuration \<open>c\<close>, and whose output fits the balance.\<close>

definition swap_fits :: "copy_config \<Rightarrow> simulator \<Rightarrow> sim_swap \<Rightarrow> bool" where
  "swap_fits c s e \<longleftrightarrow> eh_config (sim_execution_handler s) = c \<and> snd (ss_execute s e) = Inr ()
     \<and> (case ss_copy_type e of
          CopySell \<Rightarrow> unat (sim_lamports_bal s) + unat (ss_received c e) < 2 ^ 64
        | _ \<Rightarrow> unat (unwrap_or (store_get (sim_token_balances s) (si_output_token_mint (ss_exec e))) 0)
                 + unat (ss_received c e) < 2 ^ 64)"

lemma bind_sim_InrE:
  assumes "bind_sim r f = (s', Inr y)"
  obtains s x where "r = (s, Inr x)" and "f s x = (s', Inr y)"
  using assms by (auto simp: bind_sim_def split: sum.splits prod.splits)

lemma bind_sim_simps [simp]: "bind_sim (s, Inl e) f = (s, Inl e)" "bind_sim (s, Inr x) f = f s x"
  by (simp_all add: bind_sim_def)

lemma charge_fees_spec:
  assumes "charge_fees s m = (s', r)"
  shows "sim_token_balances s' = sim_token_balances s" and "sim_execution_handler s' = sim_execution_handler s"
    and "unat (sim_lamports_bal s') \<le> unat (sim_lamports_bal s)"
    and "r = Inr () \<Longrightarrow> unat (sim_lamports_bal s) = unat (sim_lamports_bal s')
      + unat (max_fee_cost (eh_config (sim_execution_handler s))) + sim_rent (snd (sim_money s)) m"
  using assms
  by (auto simp: charge_fees_def Let_def sim_rent_def sim_money_def TOKEN_ACCOUNT_CREATION_LAMPORTS_def
      unat_minus_no_wrap word_less_nat_alt split: if_splits)

lemma record_sim_trade_frame:
  assumes "record_sim_trade s d ct exec out dust p v sides = (s', r)"
  shows "sim_lamports_bal s' = sim_lamports_bal s" and "sim_token_balances s' = sim_token_balances s"
    and "eh_config (sim_execution_handler s') = eh_config (sim_execution_handler s)"
  using assms
  by (auto simp: record_sim_trade_def bind_sim_def record_sim_buy_def record_sim_sell_def sim_insert_trade_def
      sim_insert_execution_def set_history_def set_tracker_def Let_def
      split: if_splits sum.splits option.splits prod.splits copy_mode.splits)


lemma take_tokens_Inr:
  assumes "take_tokens s m amount = (s', Inr ())"
  shows "\<exists>b. store_get (sim_token_balances s) m = Some b \<and> amount \<le> b
    \<and> s' = s\<lparr>sim_token_balances := store_insert (sim_token_balances s) m (b - amount)\<rparr>"
  using assms by (auto simp: take_tokens_def sim_err_def split: option.splits if_splits)

lemma take_tokens_Inl: "take_tokens s m amount = (s', Inl e) \<Longrightarrow> s' = s"
  by (auto simp: take_tokens_def split: option.splits if_splits)

lemma settle_Inl: "settle s ct exec out = (s', Inl e) \<Longrightarrow> s' = s"
  by (auto simp: settle_def dest: take_tokens_Inl split: copy_type.splits if_splits prod.splits sum.splits)

lemma settle_handler: "settle s ct exec out = (s', r) \<Longrightarrow> sim_execution_handler s' = sim_execution_handler s"
  by (auto simp: settle_def add_tokens_def take_tokens_def
      split: copy_type.splits if_splits prod.splits sum.splits option.splits)

lemma sim_money_add_tokens:
  assumes "unat (unwrap_or (store_get (sim_token_balances s) m) 0) + unat out < 2 ^ 64"
  shows "sim_money (add_tokens s m out) = (fst (sim_money s),
    (snd (sim_money s))(m \<mapsto> (case snd (sim_money s) m of Some b \<Rightarrow> b + unat out | None \<Rightarrow> unat out)))"
  using assms
  by (auto simp: sim_money_def add_tokens_def unat_plus_no_wrap fun_eq_iff split: option.splits)

lemma sim_money_take_tokens:
  assumes "take_tokens s m amount = (s', Inr ())"
  shows "sim_money s' = (fst (sim_money s), (snd (sim_money s))(m \<mapsto> the (snd (sim_money s) m) - unat amount))"
  using take_tokens_Inr [OF assms]
  by (auto simp: sim_money_def fun_eq_iff unat_minus_no_wrap word_le_nat_alt)

lemma settle_refines:
  assumes "settle s ct exec out = (s', Inr ())"
    and "case ct of CopySell \<Rightarrow> unat (sim_lamports_bal s) + unat out < 2 ^ 64
      | _ \<Rightarrow> unat (unwrap_or (store_get (sim_token_balances s) (si_output_token_mint exec)) 0) + unat out < 2 ^ 64"
  shows "sim_money s' = (let (lamports, tokens) = sim_money s; amount = unat (si_amount exec);
       paid = tokens(si_input_token_mint exec \<mapsto> the (tokens (si_input_token_mint exec)) - amount);
       credit = (\<lambda>t. t(si_output_token_mint exec \<mapsto>
         (case t (si_output_token_mint exec) of Some b \<Rightarrow> b + unat out | None \<Rightarrow> unat out)))
     in case ct of CopyBuy \<Rightarrow> (lamports - amount, credit tokens)
        | CopySell \<Rightarrow> (lamports + unat out, paid)
        | CopyBoth \<Rightarrow> (lamports, credit paid))"
proof (cases ct)
  case CopyBuy
  let ?s = "s\<lparr>sim_lamports_bal := sim_lamports_bal s - si_amount exec\<rparr>"
  have "si_amount exec \<le> sim_lamports_bal s" and s': "s' = add_tokens ?s (si_output_token_mint exec) out"
    using assms(1) CopyBuy by (auto simp: settle_def split: if_splits)
  then have "sim_money ?s = (fst (sim_money s) - unat (si_amount exec), snd (sim_money s))"
    by (simp add: sim_money_def unat_minus_no_wrap word_le_nat_alt)
  then show ?thesis
    using sim_money_add_tokens [of ?s "si_output_token_mint exec" out] assms(2) CopyBuy
    by (simp add: s' split: prod.splits)
next
  case CopySell
  obtain s1 where t: "take_tokens s (si_input_token_mint exec) (si_amount exec) = (s1, Inr ())"
      and s': "s' = s1\<lparr>sim_lamports_bal := sim_lamports_bal s1 + out\<rparr>"
    using assms(1) CopySell by (auto simp: settle_def split: prod.splits sum.splits)
  have "sim_lamports_bal s1 = sim_lamports_bal s" using take_tokens_Inr [OF t] by auto
  then have "sim_money s' = (fst (sim_money s) + unat out, snd (sim_money s1))"
    using assms(2) CopySell by (simp add: s' sim_money_def unat_plus_no_wrap)
  then show ?thesis using sim_money_take_tokens [OF t] CopySell by (simp split: prod.splits)
next
  case CopyBoth
  obtain s1 where t: "take_tokens s (si_input_token_mint exec) (si_amount exec) = (s1, Inr ())"
      and s': "s' = add_tokens s1 (si_output_token_mint exec) out"
    using assms(1) CopyBoth by (auto simp: settle_def split: prod.splits sum.splits)
  have "unat (unwrap_or (store_get (sim_token_balances s1) (si_output_token_mint exec)) 0)
      \<le> unat (unwrap_or (store_get (sim_token_balances s) (si_output_token_mint exec)) 0)"
    using take_tokens_Inr [OF t] by (auto simp: unat_minus_no_wrap word_le_nat_alt)
  then have "unat (unwrap_or (store_get (sim_token_balances s1) (si_output_token_mint exec)) 0) + unat out < 2 ^ 64"
    using assms(2) CopyBoth by simp
  then show ?thesis
    using sim_money_add_tokens [of s1 "si_output_token_mint exec" out] sim_money_take_tokens [OF t] CopyBoth
    by (simp add: s' split: prod.splits)
qed


lemma execute_sim_swap_Inr:
  assumes "ss_execute s e = (s', Inr ())"
  defines "c \<equiv> eh_config (sim_execution_handler s)"
  shows "\<exists>s1 s2. charge_fees s (si_output_token_mint (ss_exec e)) = (s1, Inr ())
    \<and> settle s1 (ss_copy_type e) (ss_exec e) (ss_received c e) = (s2, Inr ())
    \<and> sim_lamports_bal s' = sim_lamports_bal s2 \<and> sim_token_balances s' = sim_token_balances s2
    \<and> cfg_moonbag_bps c \<le> 10000"
proof -
  obtain s1 s2 d v where
    1: "charge_fees s (si_output_token_mint (ss_exec e)) = (s1, Inr ())"
    and 2: "settle s1 (ss_copy_type e) (ss_exec e) (ss_received c e) = (s2, Inr ())"
    and 3: "record_sim_trade s2 (ss_details e) (ss_copy_type e) (ss_exec e) (ss_received c e) d (ss_price e) v
      (exec_sides (ss_copy_type e) (ss_decimals e) (ss_price e)) = (s', Inr ())"
    and 4: "cfg_moonbag_bps c \<le> 10000"
    using assms(1) unfolding ss_execute_def execute_sim_swap_def Let_def ss_received_def ss_gross_def c_def
    by (auto simp: sim_err_def elim!: bind_sim_InrE split: if_splits)
  show ?thesis
    using 1 2 4 record_sim_trade_frame [OF 3] by auto
qed

lemma money_step_refines:
  assumes "swap_fits c s e"
  shows "sim_money (fst (ss_execute s e)) = money_step c (sim_money s) e"
proof -
  have c: "c = eh_config (sim_execution_handler s)" and "ss_execute s e = (fst (ss_execute s e), Inr ())"
    using assms by (auto simp: swap_fits_def intro: prod_eqI)
  from execute_sim_swap_Inr [OF this(2)] obtain s1 s2
    where 1: "charge_fees s (si_output_token_mint (ss_exec e)) = (s1, Inr ())"
      and 2: "settle s1 (ss_copy_type e) (ss_exec e) (ss_received c e) = (s2, Inr ())"
      and 3: "sim_money (fst (ss_execute s e)) = sim_money s2"
    unfolding sim_money_def c by auto
  note f = charge_fees_spec [OF 1]
  have lam: "sim_money s1 = (fst (sim_money s) - unat (max_fee_cost c)
      - sim_rent (snd (sim_money s)) (si_output_token_mint (ss_exec e)), snd (sim_money s))"
    using f(1,4) by (simp add: sim_money_def c)
  have "case ss_copy_type e of CopySell \<Rightarrow> unat (sim_lamports_bal s1) + unat (ss_received c e) < 2 ^ 64
      | _ \<Rightarrow> unat (unwrap_or (store_get (sim_token_balances s1) (si_output_token_mint (ss_exec e))) 0)
          + unat (ss_received c e) < 2 ^ 64"
    using assms f(1,3) by (auto simp: swap_fits_def split: copy_type.splits)
  from settle_refines [OF 2 this] show ?thesis
    unfolding 3 lam by (simp add: money_step_def Let_def split: prod.splits copy_type.splits)
qed

interpretation books: simulation "\<lambda>s e. fst (ss_execute s e)" "money_step c" sim_money "swap_fits c" for c
  by unfold_locales (rule money_step_refines)



lemma round64_one: "round64 False 1 = Finite False 1"
  using round64_of_nat [of 1 False] by simp

lemma round64_million: "round64 False 1000000 = Finite False 1000000"
  using round64_of_nat [of 1000000 False] by (simp add: fl_exact)

lemma example_output: "exec_output 1000000000 (9, 6, f64_lit 1, f64_lit 1) = 1000000"
proof -
  have "pow10_u32 9 = 1000000000" "pow10_u32 6 = 1000000" by (simp_all add: pow10_u32_def)
  then have "u32_as_f64 (pow10_u32 9) = Finite False 1000000000" "u32_as_f64 (pow10_u32 6) = Finite False 1000000"
    by (simp_all add: u32_as_f64_Finite)
  then show ?thesis
    by (simp add: exec_output_def normalized_def u64_as_f64_exact round64_one round64_million f64_lit_def)
qed

definition example_simulator :: simulator where
  "example_simulator = \<lparr>sim_lamports_bal = 5000000000, sim_log_swaps = True, sim_execution_handler = sample_handler,
     sim_wallets = [], sim_token_balances = [], sim_sol_price_history = [], sim_decimals = [(SOL, 9)]\<rparr>"

definition example_price :: price_quote where
  "example_price = \<lparr>input_price_usd = f64_lit 1, output_price_usd = f64_lit 1, input_price_sol = f64_lit 1,
     output_price_sol = f64_lit 1, sol_price_usd = f64_lit 1\<rparr>"

definition example_buy :: sim_swap where
  "example_buy = \<lparr>ss_details = sample_details, ss_copy_type = CopyBuy,
     ss_exec = exact_in copy_config_default SOL 77 1000000000,
     ss_decimals = \<lparr>td_input = 9, td_output = 6\<rparr>, ss_price = example_price\<rparr>"

lemma example_received: "ss_gross example_buy = 1000000" "ss_received copy_config_default example_buy = 900000"
  using example_output
  by (simp_all add: ss_received_def ss_gross_def example_buy_def exec_sides_def example_price_def exact_in_def
      SOL_DECIMALS_def sim_dust_def copy_config_default_def)

lemma example_charge:
  "charge_fees example_simulator 77 = (example_simulator\<lparr>sim_lamports_bal := 4997755000\<rparr>, Inr ())"
  by (simp add: charge_fees_def example_simulator_def sample_handler_def max_fee_cost_def copy_config_default_def
      TOKEN_ACCOUNT_CREATION_LAMPORTS_def Let_def)


lemma example_executes: "snd (ss_execute example_simulator example_buy) = Inr ()"
proof -
  have e: "ss_execute example_simulator example_buy
      = bind_sim (charge_fees example_simulator 77) (\<lambda>s _.
        bind_sim (settle s CopyBuy (ss_exec example_buy) 900000) (\<lambda>s _.
        record_sim_trade s sample_details CopyBuy (ss_exec example_buy) 900000 100000 example_price
          (sim_values_of (d_origin_swap sample_details) (ss_decimals example_buy) example_price 1000000000 900000
            (9, 6, f64_lit 1, f64_lit 1)) (9, 6, f64_lit 1, f64_lit 1)))"
    using example_output
    by (simp add: ss_execute_def execute_sim_swap_def example_buy_def exec_sides_def example_price_def exact_in_def
        SOL_DECIMALS_def sim_dust_def copy_config_default_def example_simulator_def sample_handler_def Let_def)
  show ?thesis
    unfolding e example_charge
    by (simp add: settle_def example_buy_def exact_in_def add_tokens_def record_sim_trade_def
        record_sim_buy_def sample_details_def sample_wallet_config_def sim_insert_trade_def insert_trade_inner_def
        is_static_token_def mint_defs example_simulator_def Let_def)
qed



section \<open>Where the simulation deviates\<close>

text \<open>A direct sell in a simulator without a ping tracker: the tokens are taken, the lamports are paid
  out, and then the swap fails, so that the trade is missing in the history from which the next sells
  are computed.\<close>

theorem direct_sell_unrecorded:
  assumes "ss_copy_type e = CopySell" and "wc_mode (d_wallet_config (ss_details e)) = ModeDirect"
    and "eh_ping_tracker (sim_execution_handler s) = None"
    and "cfg_moonbag_bps (eh_config (sim_execution_handler s)) \<le> 10000"
    and "charge_fees s (si_output_token_mint (ss_exec e)) = (s1, Inr ())"
    and "settle s1 CopySell (ss_exec e) (ss_received (eh_config (sim_execution_handler s)) e) = (s2, Inr ())"
  shows "ss_execute s e = (s2, sim_err ''Ping tracker not set for simulator'')
    \<and> eh_trade_history (sim_execution_handler s2) = eh_trade_history (sim_execution_handler s)
    \<and> sim_lamports_bal s2 = sim_lamports_bal s1 + ss_received (eh_config (sim_execution_handler s)) e
    \<and> (\<exists>b. store_get (sim_token_balances s) (si_input_token_mint (ss_exec e)) = Some b
      \<and> store_get (sim_token_balances s2) (si_input_token_mint (ss_exec e)) = Some (b - si_amount (ss_exec e)))"
proof -
  note h = charge_fees_spec(1,2) [OF assms(5)] settle_handler [OF assms(6)]
  obtain s3 where t: "take_tokens s1 (si_input_token_mint (ss_exec e)) (si_amount (ss_exec e)) = (s3, Inr ())"
      and s2: "s2 = s3\<lparr>sim_lamports_bal := sim_lamports_bal s3 + ss_received (eh_config (sim_execution_handler s)) e\<rparr>"
    using assms(6) by (auto simp: settle_def split: prod.splits sum.splits)
  have "\<not> 10000 < cfg_moonbag_bps (eh_config (sim_execution_handler s))" using assms(4) by simp
  then have "ss_execute s e = (s2, sim_err ''Ping tracker not set for simulator'')"
    using assms h
    by (simp add: ss_execute_def execute_sim_swap_def Let_def ss_received_def ss_gross_def record_sim_trade_def
        record_sim_sell_def split: prod.splits)
  then show ?thesis using h take_tokens_Inr [OF t] s2 by auto
qed

definition example_sell :: sim_swap where
  "example_sell = example_buy\<lparr>ss_copy_type := CopySell, ss_exec := exact_in copy_config_default 77 SOL 500\<rparr>"

theorem direct_sell_unrecorded_witness:
  "\<exists>s2. ss_execute (example_simulator\<lparr>sim_token_balances := [(77, 800)]\<rparr>) example_sell
      = (s2, sim_err ''Ping tracker not set for simulator'')
    \<and> store_get (sim_token_balances s2) 77 = Some 300"
proof -
  let ?s = "example_simulator\<lparr>sim_token_balances := [(77, 800)]\<rparr>"
  let ?r = "ss_received copy_config_default example_sell"
  let ?s1 = "?s\<lparr>sim_lamports_bal := 4997755000\<rparr>"
  let ?s2 = "?s1\<lparr>sim_token_balances := [(77, 300)], sim_lamports_bal := 4997755000 + ?r\<rparr>"
  have 1: "charge_fees ?s (si_output_token_mint (ss_exec example_sell)) = (?s1, Inr ())"
    by (simp add: charge_fees_def example_simulator_def sample_handler_def max_fee_cost_def copy_config_default_def
        TOKEN_ACCOUNT_CREATION_LAMPORTS_def Let_def store_get_def example_sell_def exact_in_def mint_defs)
  have 2: "settle ?s1 CopySell (ss_exec example_sell) ?r = (?s2, Inr ())"
    by (simp add: settle_def take_tokens_def example_sell_def exact_in_def store_get_def store_insert_def
        example_simulator_def)
  have "cfg_moonbag_bps copy_config_default \<le> 10000" by (simp add: copy_config_default_def)
  with direct_sell_unrecorded [of example_sell ?s ?s1 ?s2] 1 2 show ?thesis
    by (simp add: example_sell_def example_buy_def sample_details_def sample_wallet_config_def example_simulator_def
        sample_handler_def exact_in_def store_get_def)
qed

text \<open>A direct buy: the balance grows by the output less the dust, but the history, which subtracts
  the dust itself, records the output less twice the dust, so that the last sell leaves tokens behind.\<close>

theorem dust_subtracted_twice:
  assumes "ss_execute s e = (s', Inr ())" and "ss_copy_type e = CopyBuy"
    and "wc_mode (d_wallet_config (ss_details e)) = ModeDirect"
  defines "out \<equiv> si_output_token_mint (ss_exec e)" and "wallet \<equiv> d_origin_signer (ss_details e)"
    and "dust \<equiv> sim_dust (cfg_moonbag_bps (eh_config (sim_execution_handler s))) (ss_gross e)"
  shows "store_get (sim_token_balances s') out
      = Some (unwrap_or (store_get (sim_token_balances s) out) 0 + (ss_gross e - dust))
    \<and> (\<exists>h. store_get (eh_trade_history (sim_execution_handler s')) (wallet, out) = Some h
      \<and> buy_volume_token (ch_exec h) = buy_volume_token (ch_exec (unwrap_or
          (store_get (eh_trade_history (sim_execution_handler s)) (wallet, out)) copy_history_default))
        + (ss_gross e - dust - dust))"
proof -
  obtain s1 s2 v where
    1: "charge_fees s out = (s1, Inr ())"
    and 2: "settle s1 CopyBuy (ss_exec e) (ss_gross e - dust) = (s2, Inr ())"
    and 3: "record_sim_trade s2 (ss_details e) CopyBuy (ss_exec e) (ss_gross e - dust) dust (ss_price e) v
      (exec_sides CopyBuy (ss_decimals e) (ss_price e)) = (s', Inr ())"
    using assms(1) unfolding ss_execute_def execute_sim_swap_def Let_def ss_gross_def dust_def out_def assms(2)
    by (auto simp: sim_err_def elim!: bind_sim_InrE split: if_splits)
  note h = charge_fees_spec(1,2) [OF 1] settle_handler [OF 2]
  have "store_get (sim_token_balances s2) out
      = Some (unwrap_or (store_get (sim_token_balances s) out) 0 + (ss_gross e - dust))"
    using 2 h(1) by (auto simp: settle_def add_tokens_def out_def split: if_splits option.splits)
  moreover have "\<exists>h. store_get (eh_trade_history (sim_execution_handler s')) (wallet, out) = Some h
      \<and> buy_volume_token (ch_exec h) = buy_volume_token (ch_exec (unwrap_or
          (store_get (eh_trade_history (sim_execution_handler s2)) (wallet, out)) copy_history_default))
        + (ss_gross e - dust - dust)"
    using 3 assms(3) unfolding out_def wallet_def
    by (auto simp: record_sim_trade_def record_sim_buy_def sim_insert_trade_def insert_trade_inner_def set_history_def
        add_buy_def Let_def split: prod.splits sum.splits if_splits)
  ultimately show ?thesis using record_sim_trade_frame(2) [OF 3] h by simp
qed

theorem dust_subtracted_twice_witness:
  "\<exists>s'. ss_execute example_simulator example_buy = (s', Inr ()) \<and> store_get (sim_token_balances s') 77 = Some 900000
    \<and> (\<exists>h. store_get (eh_trade_history (sim_execution_handler s')) (10, 77) = Some h
      \<and> buy_volume_token (ch_exec h) = 800000)"
proof -
  obtain s' where s': "ss_execute example_simulator example_buy = (s', Inr ())"
    using example_executes by (cases "ss_execute example_simulator example_buy") simp
  have "sim_dust (cfg_moonbag_bps copy_config_default) 1000000 = 100000"
    by (simp add: sim_dust_def copy_config_default_def)
  with dust_subtracted_twice [OF s'] example_received(1) s' show ?thesis
    by (simp add: example_buy_def sample_details_def sample_wallet_config_def example_simulator_def sample_handler_def
        exact_in_def copy_history_default_def trade_history_default_def)
qed


section \<open>The report\<close>

text \<open>\<open>print_simulation_state\<close>: the prices of the tokens held or traded are refreshed and the balances
  valued with them. The tokens of a set are subscribed in the order of the balances.\<close>

record sim_token =
  stk_pubkey :: string
  stk_symbol :: "string option"
  stk_name :: "string option"

record ping_balance =
  pbl_token :: sim_token
  pbl_total_buy_value_usd :: f64
  pbl_total_sell_value_usd :: f64
  pbl_total_holding_value_usd :: f64
  pbl_pnl_usd :: f64
  pbl_pings :: ping

definition report_tokens :: "(pubkey \<Rightarrow> string) \<Rightarrow> (string \<Rightarrow> pubkey option) \<Rightarrow> simulator \<Rightarrow> pubkey list" where
  "report_tokens to_string from_str s =
     remdups (map fst (sim_token_balances s)
       @ (case eh_ping_tracker (sim_execution_handler s) of
            None \<Rightarrow> []
          | Some t \<Rightarrow> List.map_filter (\<lambda>(token, _). from_str token) (ps_execution (to_snapshot to_string t)))
       @ [SOL, USDC, USDT])"

definition report_feed ::
  "(pubkey \<Rightarrow> string) \<Rightarrow> (string \<Rightarrow> pubkey option) \<Rightarrow> instant \<Rightarrow> (pubkey list \<Rightarrow> (pubkey \<times> f64 option) list)
     \<Rightarrow> simulator \<Rightarrow> price_feed" where
  "report_feed to_string from_str now request s =
     update_token_prices request
       (foldl (\<lambda>f t. fst (subscribe_token f now t (Some ((2 ^ 64 - 1) * 1000000000))))
          (eh_price_feed (sim_execution_handler s)) (report_tokens to_string from_str s))"

definition token_price_or_zero :: "price_feed \<Rightarrow> pubkey \<Rightarrow> f64" where
  "token_price_or_zero feed token = unwrap_or (Option.bind (get_price_usd feed token) price) f64_zero"

definition total_token_value :: "price_feed \<Rightarrow> simulator \<Rightarrow> f64" where
  "total_token_value feed s = foldl (\<lambda>total (token, amount). case store_get (sim_decimals s) token of
       None \<Rightarrow> total
     | Some decimals \<Rightarrow> f_add total (f_mul (normalized amount decimals) (token_price_or_zero feed token)))
     f64_zero (sim_token_balances s)"

text \<open>The totals in dollars and in SOL.\<close>

definition total_balance :: "price_feed \<Rightarrow> simulator \<Rightarrow> (f64 \<times> f64) result" where
  "total_balance feed s =
     bind_res (ok_or (Option.bind (get_price_usd feed SOL) price) ''Failed to get current sol price'') (\<lambda>sol_price.
     let sol_balance = f_div (u64_as_f64 (sim_lamports_bal s)) (u64_as_f64 LAMPORTS_PER_SOL);
         total_usd = f_add (f_mul sol_balance sol_price) (total_token_value feed s)
     in Inr (total_usd, f_div total_usd sol_price))"

definition report_token :: "(pubkey \<Rightarrow> string) \<Rightarrow> (pubkey, mint_info) store \<Rightarrow> pubkey \<Rightarrow> sim_token" where
  "report_token to_string token_info key = (case store_get token_info key of
       Some info \<Rightarrow> \<lparr>stk_pubkey = to_string (mi_pubkey info), stk_symbol = mi_symbol info, stk_name = mi_name info\<rparr>
     | None \<Rightarrow> \<lparr>stk_pubkey = to_string key, stk_symbol = None, stk_name = None\<rparr>)"

text \<open>The entry of one execution of the snapshot; the keys of the snapshot are distinct, so that removing
  a ping is looking it up.\<close>

definition ping_balance_of ::
  "(pubkey \<Rightarrow> string) \<Rightarrow> (string \<Rightarrow> pubkey option) \<Rightarrow> (pubkey, mint_info) store \<Rightarrow> price_feed \<Rightarrow> simulator
     \<Rightarrow> ping_snapshot \<Rightarrow> string \<times> trade_history \<Rightarrow> ping_balance option" where
  "ping_balance_of to_string from_str token_info feed s snapshot = (\<lambda>(token, history).
     Option.bind (from_str token) (\<lambda>key.
     Option.bind (store_get (ps_pings snapshot) token) (\<lambda>pings.
     Option.bind (store_get (sim_decimals s) key) (\<lambda>decimals.
     let amount = saturating_sub (buy_volume_token history) (sell_volume_token history);
         value_usd = f_mul (normalized amount decimals) (token_price_or_zero feed key)
     in Some \<lparr>pbl_token = report_token to_string token_info key,
          pbl_total_buy_value_usd = buy_volume_usd history, pbl_total_sell_value_usd = sell_volume_usd history,
          pbl_total_holding_value_usd = value_usd,
          pbl_pnl_usd = f_sub (f_add (sell_volume_usd history) value_usd) (buy_volume_usd history),
          pbl_pings = pings\<rparr>))))"

text \<open>The stable \<open>sort_by\<close> with the profits exchanged, where values that cannot be compared are equal.\<close>

fun insert_by_pnl :: "ping_balance \<Rightarrow> ping_balance list \<Rightarrow> ping_balance list" where
  "insert_by_pnl x [] = [x]"
| "insert_by_pnl x (y # ys) = (if f_less (pbl_pnl_usd x) (pbl_pnl_usd y) then y # insert_by_pnl x ys else x # y # ys)"

definition sort_by_pnl :: "ping_balance list \<Rightarrow> ping_balance list" where
  "sort_by_pnl xs = foldr insert_by_pnl xs []"

definition ping_balances ::
  "(pubkey \<Rightarrow> string) \<Rightarrow> (string \<Rightarrow> pubkey option) \<Rightarrow> (pubkey, mint_info) store \<Rightarrow> price_feed \<Rightarrow> simulator
     \<Rightarrow> ping_tracker \<Rightarrow> ping_balance list" where
  "ping_balances to_string from_str token_info feed s tracker =
     (let snapshot = to_snapshot to_string tracker
      in sort_by_pnl (List.map_filter (ping_balance_of to_string from_str token_info feed s snapshot)
           (ps_execution snapshot)))"

definition report_totals :: "ping_balance list \<Rightarrow> f64 \<times> f64 \<times> u64" where
  "report_totals bs = (foldl (\<lambda>acc b. f_add acc (pbl_pnl_usd b)) f64_zero bs,
     foldl (\<lambda>acc b. f_add acc (pbl_total_holding_value_usd b)) f64_zero bs,
     foldl (\<lambda>acc b. acc + ucast (pg_execution_count (pbl_pings b))) 0 bs)"

lemma mset_sort_by_pnl: "mset (sort_by_pnl xs) = mset xs"
proof -
  have "mset (insert_by_pnl x ys) = add_mset x (mset ys)" for x ys
    by (induction ys) auto
  then show ?thesis unfolding sort_by_pnl_def by (induction xs) auto
qed

definition is_finite :: "f64 \<Rightarrow> bool" where
  "is_finite x = (case x of Finite _ _ \<Rightarrow> True | _ \<Rightarrow> False)"

lemma f_less_not_trans:
  assumes "is_finite b" and "\<not> f_less a b" and "\<not> f_less b c" and "is_finite a" "is_finite c"
  shows "\<not> f_less a c"
  using assms by (cases a; cases b; cases c) (auto simp: is_finite_def)

lemma f_less_asym: "f_less a b \<Longrightarrow> \<not> f_less b a"
  by (cases a; cases b) auto

lemma insert_by_pnl_sorted:
  assumes "sorted_wrt (\<lambda>a b. \<not> f_less (pbl_pnl_usd a) (pbl_pnl_usd b)) ys"
    and "\<forall>y \<in> set (x # ys). is_finite (pbl_pnl_usd y)"
  shows "sorted_wrt (\<lambda>a b. \<not> f_less (pbl_pnl_usd a) (pbl_pnl_usd b)) (insert_by_pnl x ys)"
proof -
  have set: "set (insert_by_pnl x ys) = insert x (set ys)" for ys by (induction ys) auto
  show ?thesis
    using assms
  proof (induction ys)
    case (Cons y ys)
    show ?case
    proof (cases "f_less (pbl_pnl_usd x) (pbl_pnl_usd y)")
      case True
      then show ?thesis using Cons f_less_asym by (auto simp: set)
    next
      case False
      then show ?thesis
        using Cons.prems f_less_not_trans [of "pbl_pnl_usd y" "pbl_pnl_usd x"] by auto
    qed
  qed simp
qed

text \<open>The report lists every execution that has its pings and decimals exactly once, the largest profit
  first as long as the profits are numbers.\<close>

theorem ping_report_sorted:
  assumes "\<forall>b \<in> set (ping_balances to_string from_str token_info feed s tracker). is_finite (pbl_pnl_usd b)"
  shows "mset (ping_balances to_string from_str token_info feed s tracker)
      = mset (List.map_filter (ping_balance_of to_string from_str token_info feed s (to_snapshot to_string tracker))
          (ps_execution (to_snapshot to_string tracker)))
    \<and> sorted_wrt (\<lambda>a b. \<not> f_less (pbl_pnl_usd a) (pbl_pnl_usd b))
        (ping_balances to_string from_str token_info feed s tracker)"
proof -
  have "sorted_wrt (\<lambda>a b. \<not> f_less (pbl_pnl_usd a) (pbl_pnl_usd b)) (sort_by_pnl xs)"
    if "\<forall>b \<in> set xs. is_finite (pbl_pnl_usd b)" for xs
    using that
  proof (induction xs)
    case (Cons x xs)
    then have "sorted_wrt (\<lambda>a b. \<not> f_less (pbl_pnl_usd a) (pbl_pnl_usd b)) (sort_by_pnl xs)" by simp
    then show ?case
      using insert_by_pnl_sorted [of "sort_by_pnl xs" x] Cons.prems mset_sort_by_pnl [of xs]
      by (simp add: sort_by_pnl_def set_mset_mset [symmetric] del: set_mset_mset)
  qed (simp add: sort_by_pnl_def)
  moreover have "\<forall>b \<in> set xs. is_finite (pbl_pnl_usd b)" if "\<forall>b \<in> set (sort_by_pnl xs). is_finite (pbl_pnl_usd b)" for xs
    using that mset_sort_by_pnl [of xs] by (metis set_mset_mset)
  ultimately show ?thesis using assms by (simp add: ping_balances_def Let_def mset_sort_by_pnl)
qed

end
