(* ===== verification/Blocks.thy ===== *)
theory Blocks
  imports Streams
begin

text \<open>
  The stream of blocks (\<^verbatim>\<open>wire/rpc/poll_blocks.rs\<close>): its configuration and the tasks that
  \<open>start_block_polling_tasks\<close> spawns. The workers take the slots that the node reports as
  optimistically confirmed from a channel and fetch their blocks, the replay task forwards the slots to
  be fetched again, and the slot poller follows the current slot. The node is an argument.
\<close>

section \<open>Configuration\<close>

datatype commitment_scheme = ConfirmedOnly | FinalizedOnly | BothCommitments

fun should_send_confirmed_blocks :: "commitment_scheme \<Rightarrow> bool" where
  "should_send_confirmed_blocks ConfirmedOnly = True"
| "should_send_confirmed_blocks BothCommitments = True"
| "should_send_confirmed_blocks FinalizedOnly = False"

fun should_send_finalized_blocks :: "commitment_scheme \<Rightarrow> bool" where
  "should_send_finalized_blocks FinalizedOnly = True"
| "should_send_finalized_blocks BothCommitments = True"
| "should_send_finalized_blocks ConfirmedOnly = False"

definition DEFAULT_NUM_PARALLEL_TASKS :: usize where
  "DEFAULT_NUM_PARALLEL_TASKS = 16"

definition DEFAULT_RETRY_BLOCKS_DELAY_MS :: u64 where
  "DEFAULT_RETRY_BLOCKS_DELAY_MS = 10"

definition DEFAULT_FINALIZED_DELAY_S :: u64 where
  "DEFAULT_FINALIZED_DELAY_S = 2"

text \<open>The RPC client and the receiver of slots are handles of type \<open>'c\<close> and \<open>'r\<close>.\<close>

record ('c, 'r) rpc_blocks_config_builder =
  cb_rpc_client :: "'c option"
  cb_ws_url :: "string option"
  cb_commitment_scheme :: "commitment_scheme option"
  cb_retry_delay_ms :: "u64 option"
  cb_num_parallel_tasks :: "usize option"
  cb_slot_notification_receiver :: "'r option"

record ('c, 'r) rpc_blocks_config =
  bc_rpc_client :: 'c
  bc_ws_url :: string
  bc_commitment_scheme :: "commitment_scheme option"
  bc_retry_delay_ms :: "u64 option"
  bc_num_parallel_tasks :: usize
  bc_slot_notification_receiver :: "'r option"

definition blocks_builder_new :: "('c, 'r) rpc_blocks_config_builder" where
  "blocks_builder_new = \<lparr>cb_rpc_client = None, cb_ws_url = None, cb_commitment_scheme = None,
     cb_retry_delay_ms = None, cb_num_parallel_tasks = None, cb_slot_notification_receiver = None\<rparr>"

definition with_ws_url :: "string \<Rightarrow> ('c, 'r) rpc_blocks_config_builder \<Rightarrow> ('c, 'r) rpc_blocks_config_builder" where
  "with_ws_url url b = b\<lparr>cb_ws_url := Some url\<rparr>"

definition with_shared_rpc_client :: "'c \<Rightarrow> ('c, 'r) rpc_blocks_config_builder \<Rightarrow> ('c, 'r) rpc_blocks_config_builder" where
  "with_shared_rpc_client client b = b\<lparr>cb_rpc_client := Some client\<rparr>"

definition with_commitment_scheme ::
  "commitment_scheme \<Rightarrow> ('c, 'r) rpc_blocks_config_builder \<Rightarrow> ('c, 'r) rpc_blocks_config_builder" where
  "with_commitment_scheme scheme b = b\<lparr>cb_commitment_scheme := Some scheme\<rparr>"

definition with_block_retry_delay_ms :: "u64 \<Rightarrow> ('c, 'r) rpc_blocks_config_builder \<Rightarrow> ('c, 'r) rpc_blocks_config_builder" where
  "with_block_retry_delay_ms delay b = b\<lparr>cb_retry_delay_ms := Some delay\<rparr>"

definition with_num_parallel_tasks :: "usize \<Rightarrow> ('c, 'r) rpc_blocks_config_builder \<Rightarrow> ('c, 'r) rpc_blocks_config_builder" where
  "with_num_parallel_tasks num b = b\<lparr>cb_num_parallel_tasks := Some num\<rparr>"

definition with_slot_notification_receiver :: "'r \<Rightarrow> ('c, 'r) rpc_blocks_config_builder \<Rightarrow> ('c, 'r) rpc_blocks_config_builder" where
  "with_slot_notification_receiver receiver b = b\<lparr>cb_slot_notification_receiver := Some receiver\<rparr>"

definition blocks_build :: "('c, 'r) rpc_blocks_config_builder \<Rightarrow> ('c, 'r) rpc_blocks_config result" where
  "blocks_build b =
     bind_res (ok_or (cb_rpc_client b) ''rpc client not set for builder'') (\<lambda>client.
     bind_res (ok_or (cb_ws_url b) ''ws url not set for builder'') (\<lambda>url.
     Inr \<lparr>bc_rpc_client = client, bc_ws_url = url, bc_commitment_scheme = cb_commitment_scheme b,
          bc_retry_delay_ms = cb_retry_delay_ms b,
          bc_num_parallel_tasks = unwrap_or (cb_num_parallel_tasks b) DEFAULT_NUM_PARALLEL_TASKS,
          bc_slot_notification_receiver = cb_slot_notification_receiver b\<rparr>))"

definition new_from_rpc_client :: "'c \<Rightarrow> string \<Rightarrow> ('c, 'r) rpc_blocks_config" where
  "new_from_rpc_client client ws_url = \<lparr>bc_rpc_client = client, bc_ws_url = ws_url,
     bc_commitment_scheme = Some ConfirmedOnly, bc_retry_delay_ms = Some DEFAULT_RETRY_BLOCKS_DELAY_MS,
     bc_num_parallel_tasks = DEFAULT_NUM_PARALLEL_TASKS, bc_slot_notification_receiver = None\<rparr>"

section \<open>The tasks\<close>

datatype notification_kind = NotifyBlocks | NotifyTransactions

datatype block_notification = BlockSent iblock | TransactionSent itransaction

text \<open>\<open>bl_workers\<close> counts the live workers; \<open>bl_replay\<close> and \<open>bl_poller\<close> say whether the other two tasks
  are alive. \<open>bl_requests\<close> lists the blocks requested from the node.\<close>

record block_poller =
  bl_slots :: "u64 list"
  bl_retry :: "((u64 \<times> commitment_level) \<times> instant) list"
  bl_recent_slot :: u64
  bl_workers :: nat
  bl_replay :: bool
  bl_poller :: bool
  bl_exit :: bool
  bl_sent :: "block_notification list"
  bl_requests :: "(u64 \<times> commitment_level) list"

definition block_tasks_start :: "usize \<Rightarrow> block_poller" where
  "block_tasks_start num_parallel_tasks = \<lparr>bl_slots = [], bl_retry = [], bl_recent_slot = 0,
     bl_workers = unat num_parallel_tasks, bl_replay = True, bl_poller = True, bl_exit = False, bl_sent = [],
     bl_requests = []\<rparr>"

text \<open>\<open>fetch_block\<close>; reading the hashes, the height and the time of a block may panic.\<close>

definition fetch_block ::
  "('enc, 'c) decode_sdk \<Rightarrow> (string \<Rightarrow> hash option) \<Rightarrow> (u64 \<Rightarrow> commitment_level \<Rightarrow> 'enc ui_confirmed_block result)
     \<Rightarrow> u64 \<Rightarrow> commitment_level \<Rightarrow> iblock option result" where
  "fetch_block sdk hash_from_str get_block slot commitment = (case get_block slot commitment of
       Inl (Panic msg) \<Rightarrow> Inl (Panic msg)
     | Inl (Error _) \<Rightarrow> Inr None
     | Inr block \<Rightarrow>
         (case iblock_try_from sdk hash_from_str block commitment slot of
            Inl (Panic msg) \<Rightarrow> Inl (Panic msg)
          | Inl (Error _) \<Rightarrow> Inr None
          | Inr b \<Rightarrow> Inr (Some b)))"

definition block_notifications :: "notification_kind \<Rightarrow> iblock \<Rightarrow> block_notification list" where
  "block_notifications kind b = (case kind of
       NotifyBlocks \<Rightarrow> [BlockSent b] | NotifyTransactions \<Rightarrow> map TransactionSent (ib_transactions b))"

text \<open>A worker hands a slot to the replay task; once that task has ended, its channel is closed and
  sending ends the worker.\<close>

definition send_retry :: "u64 \<times> commitment_level \<Rightarrow> instant \<Rightarrow> block_poller \<Rightarrow> block_poller" where
  "send_retry entry retry_at s =
     (if bl_replay s then s\<lparr>bl_retry := bl_retry s @ [(entry, retry_at)]\<rparr>
      else s\<lparr>bl_workers := bl_workers s - 1\<rparr>)"

record block_env =
  be_kind :: notification_kind
  be_scheme :: commitment_scheme
  be_retry_after_ms :: "u64 option"

definition worker_step ::
  "block_env \<Rightarrow> (u64 \<Rightarrow> commitment_level \<Rightarrow> iblock option result) \<Rightarrow> instant \<Rightarrow> block_poller \<Rightarrow> block_poller" where
  "worker_step env fetch now s = (case bl_slots s of
       [] \<Rightarrow> s
     | slot # slots \<Rightarrow>
         if bl_workers s = 0 \<or> bl_exit s then s
         else
           let s = s\<lparr>bl_slots := slots, bl_requests := bl_requests s @ [(slot, Confirmed)]\<rparr>
           in case fetch slot Confirmed of
                Inl _ \<Rightarrow> s\<lparr>bl_workers := bl_workers s - 1\<rparr>
              | Inr (Some block) \<Rightarrow>
                  let s = (if should_send_confirmed_blocks (be_scheme env)
                           then s\<lparr>bl_sent := bl_sent s @ block_notifications (be_kind env) block\<rparr> else s)
                  in if should_send_finalized_blocks (be_scheme env)
                     then send_retry (slot, Finalized) (now + unat DEFAULT_FINALIZED_DELAY_S * 1000000000) s
                     else s
              | Inr None \<Rightarrow>
                  send_retry (slot, Confirmed)
                    (now + unat (unwrap_or (be_retry_after_ms env) DEFAULT_RETRY_BLOCKS_DELAY_MS) * 1000000) s)"

text \<open>The replay task forwards a slot to the schedule queue. The receivers of that queue are not moved
  into the workers and are dropped when the function that spawns the tasks returns: sending fails and
  ends the task.\<close>

definition replay_step :: "block_poller \<Rightarrow> block_poller" where
  "replay_step s = (case bl_retry s of
       [] \<Rightarrow> s
     | ((slot, commitment), retry_at) # rest \<Rightarrow>
         if \<not> bl_replay s then s
         else
           let s = s\<lparr>bl_retry := rest\<rparr>
           in if bl_exit s then s\<lparr>bl_replay := False\<rparr>
              else if 128 < saturating_sub (bl_recent_slot s) slot then s
              else s\<lparr>bl_replay := False\<rparr>)"

text \<open>So does the slot poller, after it has stored the slot.\<close>

definition poller_step :: "u64 \<Rightarrow> block_poller \<Rightarrow> block_poller" where
  "poller_step processed_slot s =
     (if bl_poller s then s\<lparr>bl_recent_slot := processed_slot, bl_poller := False\<rparr> else s)"

datatype block_event =
  SlotConfirmed u64
| WorkerRuns instant
| ReplayRuns
| PollerStarts u64
| SlotProcessed u64
| BlocksShutdown

fun block_step ::
  "block_env \<Rightarrow> (u64 \<Rightarrow> commitment_level \<Rightarrow> iblock option result) \<Rightarrow> block_poller \<Rightarrow> block_event \<Rightarrow> block_poller" where
  "block_step env fetch s (SlotConfirmed slot) =
     (if bl_workers s = 0 then s else s\<lparr>bl_slots := bl_slots s @ [slot]\<rparr>)"
| "block_step env fetch s (WorkerRuns now) = worker_step env fetch now s"
| "block_step env fetch s ReplayRuns = replay_step s"
| "block_step env fetch s (PollerStarts current_slot) =
     (if bl_poller s then s\<lparr>bl_recent_slot := current_slot\<rparr> else s)"
| "block_step env fetch s (SlotProcessed slot) = poller_step slot s"
| "block_step env fetch s BlocksShutdown = s\<lparr>bl_exit := True\<rparr>"

definition run_blocks ::
  "block_env \<Rightarrow> (u64 \<Rightarrow> commitment_level \<Rightarrow> iblock option result) \<Rightarrow> block_event list \<Rightarrow> block_poller \<Rightarrow> block_poller" where
  "run_blocks env fetch es s = foldl (block_step env fetch) s es"


section \<open>Properties\<close>

lemma send_retry_frame [simp]:
  "bl_slots (send_retry e t s) = bl_slots s" "bl_requests (send_retry e t s) = bl_requests s"
  "bl_sent (send_retry e t s) = bl_sent s" "bl_replay (send_retry e t s) = bl_replay s"
  by (simp_all add: send_retry_def)

lemma worker_step_cases:
  "worker_step env fetch now s = s \<or> (\<exists>slot slots. bl_slots s = slot # slots
     \<and> bl_slots (worker_step env fetch now s) = slots
     \<and> bl_requests (worker_step env fetch now s) = bl_requests s @ [(slot, Confirmed)]
     \<and> (bl_sent (worker_step env fetch now s) = bl_sent s
       \<or> should_send_confirmed_blocks (be_scheme env)
         \<and> (\<exists>b. fetch slot Confirmed = Inr (Some b)
           \<and> bl_sent (worker_step env fetch now s) = bl_sent s @ block_notifications (be_kind env) b)))"
  by (auto simp: worker_step_def Let_def split: list.splits sum.splits option.splits)

lemma replay_step_frame [simp]:
  "bl_slots (replay_step s) = bl_slots s" "bl_requests (replay_step s) = bl_requests s"
  "bl_sent (replay_step s) = bl_sent s" "bl_workers (replay_step s) = bl_workers s"
  by (auto simp: replay_step_def Let_def split: list.splits)

lemma poller_step_frame [simp]:
  "bl_slots (poller_step n s) = bl_slots s" "bl_requests (poller_step n s) = bl_requests s"
  "bl_sent (poller_step n s) = bl_sent s" "bl_workers (poller_step n s) = bl_workers s"
  "bl_replay (poller_step n s) = bl_replay s"
  by (auto simp: poller_step_def)

definition confirmed_slots :: "block_event list \<Rightarrow> u64 list" where
  "confirmed_slots es = List.map_filter (\<lambda>e. case e of SlotConfirmed slot \<Rightarrow> Some slot | _ \<Rightarrow> None) es"

lemma confirmed_slots_simps [simp]:
  "confirmed_slots [] = []"
  "confirmed_slots (e # es) = (case e of SlotConfirmed slot \<Rightarrow> slot # confirmed_slots es | _ \<Rightarrow> confirmed_slots es)"
  by (simp_all add: confirmed_slots_def map_filter_simps split: block_event.splits)

text \<open>What was requested and what waits is a part of what the node confirmed.\<close>

lemma block_step_counts:
  "count_list (map fst (bl_requests (block_step env fetch s e)) @ bl_slots (block_step env fetch s e)) slot
    \<le> count_list (map fst (bl_requests s) @ bl_slots s) slot + count_list (confirmed_slots [e]) slot"
proof (cases e)
  case (WorkerRuns now)
  then show ?thesis using worker_step_cases [of env fetch now s] by (auto simp del: count_list_append simp: count_list_append)
qed (auto simp: count_list_append)

lemma run_blocks_counts:
  "count_list (map fst (bl_requests (run_blocks env fetch es s)) @ bl_slots (run_blocks env fetch es s)) slot
    \<le> count_list (map fst (bl_requests s) @ bl_slots s) slot + count_list (confirmed_slots es) slot"
  unfolding run_blocks_def
proof (induction es arbitrary: s)
  case (Cons e es)
  have "count_list (confirmed_slots (e # es)) slot = count_list (confirmed_slots [e]) slot + count_list (confirmed_slots es) slot"
    by (simp split: block_event.splits)
  then show ?case using Cons.IH [of "block_step env fetch s e"] block_step_counts [of env fetch s e slot] by simp
qed simp

lemma run_blocks_confirmed:
  assumes "\<forall>(slot, c) \<in> set (bl_requests s). c = Confirmed"
  shows "\<forall>(slot, c) \<in> set (bl_requests (run_blocks env fetch es s)). c = Confirmed"
  using assms unfolding run_blocks_def
proof (induction es arbitrary: s)
  case (Cons e es)
  have "\<forall>(slot, c) \<in> set (bl_requests (block_step env fetch s e)). c = Confirmed"
  proof (cases e)
    case (WorkerRuns now)
    then show ?thesis using worker_step_cases [of env fetch now s] Cons.prems by auto
  qed (use Cons.prems in auto)
  then show ?case using Cons.IH by simp
qed simp

lemma run_blocks_unsent:
  assumes "\<not> should_send_confirmed_blocks (be_scheme env)"
  shows "bl_sent (run_blocks env fetch es s) = bl_sent s"
  unfolding run_blocks_def
proof (induction es arbitrary: s)
  case (Cons e es)
  have "bl_sent (block_step env fetch s e) = bl_sent s"
  proof (cases e)
    case (WorkerRuns now)
    then show ?thesis using worker_step_cases [of env fetch now s] assms by auto
  qed auto
  then show ?case using Cons.IH by simp
qed simp

text \<open>However the tasks interleave, a block is requested at the confirmed commitment only and at most
  once per confirmation of its slot: a request that failed is never repeated, and no finalized block is
  ever requested. A stream of finalized blocks therefore sends nothing.\<close>

theorem failed_blocks_never_refetched:
  assumes "s = run_blocks env fetch es (block_tasks_start n)"
  shows "count_list (map fst (bl_requests s)) slot \<le> count_list (confirmed_slots es) slot
    \<and> (\<forall>(slot, c) \<in> set (bl_requests s). c = Confirmed)
    \<and> (be_scheme env = FinalizedOnly \<longrightarrow> bl_sent s = [])"
proof -
  have "count_list (map fst (bl_requests s)) slot \<le> count_list (confirmed_slots es) slot"
    using run_blocks_counts [of env fetch es "block_tasks_start n" slot]
    by (simp add: assms block_tasks_start_def count_list_append)
  moreover have "\<forall>(slot, c) \<in> set (bl_requests s). c = Confirmed"
    unfolding assms by (rule run_blocks_confirmed) (simp add: block_tasks_start_def)
  moreover have "bl_sent s = []" if "be_scheme env = FinalizedOnly"
    using run_blocks_unsent [of env] that by (simp add: assms block_tasks_start_def)
  ultimately show ?thesis by blast
qed


definition example_block_env :: block_env where
  "example_block_env = \<lparr>be_kind = NotifyTransactions, be_scheme = FinalizedOnly, be_retry_after_ms = None\<rparr>"

definition example_block :: iblock where
  "example_block = \<lparr>ib_transactions = [], ib_previous_blockhash = 1, ib_block_hash = 2, ib_block_height = 3,
     ib_parent_slot = 4, ib_slot = 5, ib_block_time = 6, ib_leader_id = None, ib_commitment_config = Confirmed\<rparr>"

theorem failed_blocks_never_refetched_witness:
  "bl_sent (run_blocks example_block_env (\<lambda>_ _. Inr (Some example_block)) [SlotConfirmed 5, WorkerRuns 0, ReplayRuns]
      (block_tasks_start 2)) = []
   \<and> bl_requests (run_blocks example_block_env (\<lambda>_ _. Inr (Some example_block)) [SlotConfirmed 5, WorkerRuns 0, ReplayRuns]
      (block_tasks_start 2)) = [(5, Confirmed)]"
  using failed_blocks_never_refetched [OF refl, of example_block_env "\<lambda>_ _. Inr (Some example_block)"
      "[SlotConfirmed 5, WorkerRuns 0, ReplayRuns]" 2 5]
  by (simp add: example_block_env_def run_blocks_def block_tasks_start_def worker_step_def send_retry_def Let_def)

lemma run_blocks_Cons [simp]: "run_blocks env fetch (e # es) s = run_blocks env fetch es (block_step env fetch s e)"
  by (simp add: run_blocks_def)

lemma run_blocks_Nil [simp]: "run_blocks env fetch [] s = s"
  by (simp add: run_blocks_def)

lemma run_blocks_append: "run_blocks env fetch (xs @ ys) s = run_blocks env fetch ys (run_blocks env fetch xs s)"
  by (simp add: run_blocks_def)

lemma failing_workers_end:
  assumes "\<forall>slot. fetch slot Confirmed = Inr None" and "\<not> bl_replay s" and "\<not> bl_exit s"
    and "length (bl_slots s) = bl_workers s"
  shows "bl_workers (run_blocks env fetch (replicate (bl_workers s) (WorkerRuns now)) s) = 0
    \<and> bl_sent (run_blocks env fetch (replicate (bl_workers s) (WorkerRuns now)) s) = bl_sent s"
  using assms(2-4)
proof (induction "bl_workers s" arbitrary: s)
  case (Suc n)
  then obtain slot slots where q: "bl_slots s = slot # slots" by (cases "bl_slots s") auto
  let ?s = "worker_step env fetch now s"
  have s': "\<not> bl_replay ?s" "\<not> bl_exit ?s" "bl_workers ?s = n" "bl_slots ?s = slots" "bl_sent ?s = bl_sent s"
    using assms(1) Suc q by (auto simp: worker_step_def send_retry_def Let_def split: list.splits)
  then have "length (bl_slots ?s) = bl_workers ?s" using Suc q by simp
  then show ?case using Suc.hyps(1) [of ?s] s' by (simp add: Suc.hyps(2) [symmetric])
qed simp

text \<open>The blocks that cannot be fetched stop the stream: the first of them ends the replay task, whose
  queue nobody reads, and each of the next ones ends the worker that could not hand it over. After one
  more failure than there are workers, no worker is left.\<close>

theorem failed_blocks_stop_stream:
  assumes "\<forall>slot. fetch slot Confirmed = Inr None" and "length slots = Suc (unat n)" and "0 < n"
  shows "bl_workers (run_blocks env fetch (map SlotConfirmed slots @ [WorkerRuns now, ReplayRuns]
      @ replicate (unat n) (WorkerRuns now)) (block_tasks_start n)) = 0"
proof -
  have enqueue: "run_blocks env fetch (map SlotConfirmed xs) s = s\<lparr>bl_slots := bl_slots s @ xs\<rparr>"
    if "bl_workers s \<noteq> 0" for s xs
    using that by (induction xs arbitrary: s) auto
  obtain slot rest where slots: "slots = slot # rest" using assms(2) by (cases slots) auto
  have n: "unat n \<noteq> 0" using assms(3) by (simp add: unat_eq_zero word_gt_0)
  have z: "saturating_sub 0 x = 0" for x :: u64 by (simp add: saturating_sub_eq_0_iff)
  let ?s = "replay_step (worker_step env fetch now ((block_tasks_start n)\<lparr>bl_slots := slots\<rparr>))"
  have "\<not> bl_replay ?s" "\<not> bl_exit ?s" "bl_workers ?s = unat n" "bl_slots ?s = rest"
    using assms(1) n
    by (simp_all add: slots block_tasks_start_def worker_step_def send_retry_def replay_step_def z Let_def)
  then show ?thesis
    using failing_workers_end [of fetch ?s env now] assms(1,2) n
    by (simp add: run_blocks_append enqueue block_tasks_start_def slots)
qed

theorem failed_blocks_stop_stream_witness:
  "bl_workers (run_blocks example_block_env (\<lambda>_ _. Inr None) [SlotConfirmed 5, SlotConfirmed 6, SlotConfirmed 7,
      WorkerRuns 0, ReplayRuns, WorkerRuns 0, WorkerRuns 0] (block_tasks_start 2)) = 0"
proof -
  have u: "unat (2 :: usize) = Suc (Suc 0)" by simp
  show ?thesis
    using failed_blocks_stop_stream [of "\<lambda>_ _. Inr None" "[5, 6, 7]" 2 example_block_env 0]
    unfolding u by (simp del: block_step.simps)
qed

end
