(* ===== verification/Historical.thy ===== *)
theory Historical
  imports Streams "HOL-Library.Sublist"
begin

text \<open>
  The history of an account: the search for its signatures and the transactions of a list of signatures
  (\<^verbatim>\<open>wire/rpc/utils.rs\<close>), and the stream of historical transactions (\<^verbatim>\<open>wire/rpc/historical_transactions.rs\<close>).
  The node answers a query for signatures with a page of them, newest first.
\<close>

section \<open>The search for signatures\<close>

datatype transaction_history_order = Forward | Backward

datatype transaction_history_limit = LimitBlocktime int | LimitN usize

datatype termination_reason = ReasonBlockTime | ReasonN | ReasonUntilSig

record signature_query =
  sq_before :: "signature option"
  sq_until :: "signature option"
  sq_limit :: "usize option"

type_synonym signature_node = "signature_query \<Rightarrow> rpc_signature list result"

definition get_most_recent_transaction_for_wallet ::
  "(string \<Rightarrow> signature option) \<Rightarrow> signature_node \<Rightarrow> signature option result" where
  "get_most_recent_transaction_for_wallet from_str node =
     bind_res (node \<lparr>sq_before = None, sq_until = None, sq_limit = Some 1\<rparr>) (\<lambda>signatures.
     case signatures of
       [] \<Rightarrow> Inr None
     | sig # _ \<Rightarrow> bind_res (parse_signature from_str sig) (\<lambda>s. Inr (Some s)))"

text \<open>The last limit of each kind counts.\<close>

definition read_limits :: "transaction_history_limit list \<Rightarrow> usize option \<times> int option" where
  "read_limits limits = foldl (\<lambda>(limit, blocktime) l. case l of
       LimitBlocktime ts \<Rightarrow> (limit, Some ts)
     | LimitN n \<Rightarrow> (Some n, blocktime)) (None, None) limits"

text \<open>The order of \<open>Option<i64>\<close>: \<open>None\<close> is below every timestamp.\<close>

fun opt_less :: "int option \<Rightarrow> int option \<Rightarrow> bool" where
  "opt_less None y = (y \<noteq> None)"
| "opt_less (Some a) None = False"
| "opt_less (Some a) (Some b) = (a < b)"

definition before_ts :: "int \<Rightarrow> rpc_signature \<Rightarrow> bool" where
  "before_ts ts v = (case rg_block_time v of Some t \<Rightarrow> t < ts | None \<Rightarrow> False)"

text \<open>One turn of the loop: the final result, or the next query. \<open>pp\<close> is \<open>slice::partition_point\<close>; the
  page is not partitioned by the predicate (its oldest signatures come last), and then the standard
  library does not specify which index it answers.\<close>

definition signature_page ::
  "((rpc_signature \<Rightarrow> bool) \<Rightarrow> rpc_signature list \<Rightarrow> nat) \<Rightarrow> (string \<Rightarrow> signature option) \<Rightarrow> signature_node
     \<Rightarrow> signature option \<Rightarrow> int option \<Rightarrow> signature option \<Rightarrow> usize option \<Rightarrow> rpc_signature list
     \<Rightarrow> (rpc_signature list \<times> termination_reason) result + (signature option \<times> usize option \<times> rpc_signature list)" where
  "signature_page pp from_str node until blocktime_limit before limit signatures =
     (if limit = Some 0 then Inl (Inr (signatures, ReasonN))
      else if before = until \<and> before \<noteq> None then Inl (Inr (signatures, ReasonUntilSig))
      else case node \<lparr>sq_before = before, sq_until = until, sq_limit = map_option (\<lambda>count. min count 1000) limit\<rparr> of
             Inl e \<Rightarrow> Inl (Inl e)
           | Inr results \<Rightarrow>
               if results = [] then Inl (Inr (signatures, ReasonUntilSig))
               else
                 let earliest = last results;
                     continue = (case from_str (rg_signature earliest) of
                       None \<Rightarrow> Inl (Inl (Error ''invalid signature''))
                     | Some sig \<Rightarrow> Inr (Some sig,
                         map_option (\<lambda>c. saturating_sub c (word_of_nat (length results))) limit,
                         signatures @ results))
                 in (case blocktime_limit of
                       None \<Rightarrow> continue
                     | Some ts \<Rightarrow>
                         if opt_less (rg_block_time earliest) (Some ts)
                         then Inl (Inr (signatures @ drop (pp (before_ts ts) results) results, ReasonBlockTime))
                         else continue))"

text \<open>The loop ends only if the node runs out of signatures; \<open>None\<close> is a search that never returns.\<close>

partial_function (option) signature_loop ::
  "((rpc_signature \<Rightarrow> bool) \<Rightarrow> rpc_signature list \<Rightarrow> nat) \<Rightarrow> (string \<Rightarrow> signature option) \<Rightarrow> signature_node
     \<Rightarrow> signature option \<Rightarrow> int option \<Rightarrow> signature option \<Rightarrow> usize option \<Rightarrow> rpc_signature list
     \<Rightarrow> (rpc_signature list \<times> termination_reason) result option" where
  [code]: "signature_loop pp from_str node until blocktime_limit before limit signatures =
     (case signature_page pp from_str node until blocktime_limit before limit signatures of
        Inl r \<Rightarrow> Some r
      | Inr (before, limit, signatures) \<Rightarrow>
          signature_loop pp from_str node until blocktime_limit before limit signatures)"

definition get_signatures_for_address ::
  "((rpc_signature \<Rightarrow> bool) \<Rightarrow> rpc_signature list \<Rightarrow> nat) \<Rightarrow> (string \<Rightarrow> signature option) \<Rightarrow> signature_node
     \<Rightarrow> signature option \<Rightarrow> signature option \<Rightarrow> transaction_history_limit list \<Rightarrow> transaction_history_order option
     \<Rightarrow> (rpc_signature list \<times> termination_reason) result option" where
  "get_signatures_for_address pp from_str node before until limits order =
     (case read_limits limits of (limit, blocktime_limit) \<Rightarrow>
        map_option (\<lambda>r. bind_res r (\<lambda>(signatures, reason).
            Inr (case unwrap_or order Backward of Backward \<Rightarrow> signatures | Forward \<Rightarrow> rev signatures, reason)))
          (signature_loop pp from_str node until blocktime_limit before limit []))"

section \<open>The transactions of signatures\<close>

text \<open>The cache as a map; a transaction whose lookup tables cannot be read is kept as it is. The
  requests run in parallel and are answered in order; here they are made in order.\<close>

record ('raw, 'cache) transaction_source =
  tsrc_get :: "'cache \<Rightarrow> signature \<Rightarrow> 'raw option result"
  tsrc_insert :: "'cache \<Rightarrow> 'raw \<Rightarrow> 'cache result"
  tsrc_request :: "signature \<Rightarrow> 'raw result"
  tsrc_convert :: "'raw \<Rightarrow> itransaction result"
  tsrc_load_keys :: "itransaction \<Rightarrow> itransaction result"

definition with_keys :: "('raw, 'cache) transaction_source \<Rightarrow> 'raw \<Rightarrow> itransaction result" where
  "with_keys src raw = bind_res (tsrc_convert src raw) (\<lambda>tx. case tsrc_load_keys src tx of
       Inr tx \<Rightarrow> Inr tx
     | Inl (Error _) \<Rightarrow> Inr tx
     | Inl (Panic msg) \<Rightarrow> Inl (Panic msg))"

definition transaction_for_signature ::
  "('raw, 'cache) transaction_source \<Rightarrow> 'cache option \<Rightarrow> signature \<Rightarrow> ('cache option \<times> itransaction) result" where
  "transaction_for_signature src cache sig =
     bind_res (case cache of Some c \<Rightarrow> tsrc_get src c sig | None \<Rightarrow> Inr None) (\<lambda>cached. case cached of
       Some raw \<Rightarrow> bind_res (with_keys src raw) (\<lambda>tx. Inr (cache, tx))
     | None \<Rightarrow>
         bind_res (tsrc_request src sig) (\<lambda>raw.
         bind_res (case cache of Some c \<Rightarrow> bind_res (tsrc_insert src c raw) (\<lambda>c. Inr (Some c)) | None \<Rightarrow> Inr None) (\<lambda>cache.
         bind_res (with_keys src raw) (\<lambda>tx. Inr (cache, tx)))))"

fun get_transactions_for_signatures ::
  "('raw, 'cache) transaction_source \<Rightarrow> (itransaction \<Rightarrow> bool) option \<Rightarrow> 'cache option \<Rightarrow> signature list
     \<Rightarrow> ('cache option \<times> itransaction list) result" where
  "get_transactions_for_signatures src keep cache [] = Inr (cache, [])"
| "get_transactions_for_signatures src keep cache (sig # sigs) =
     bind_res (transaction_for_signature src cache sig) (\<lambda>(cache, tx).
     bind_res (get_transactions_for_signatures src keep cache sigs) (\<lambda>(cache, txs).
     Inr (cache, if (case keep of Some f \<Rightarrow> f tx | None \<Rightarrow> True) then tx # txs else txs)))"

section \<open>The stream of historical transactions\<close>

datatype historical_txn_command = HistoricalAdd "poll_request list" | HistoricalRemove "pubkey list" | HistoricalQuit

record 'c historical_config =
  hc_rpc :: 'c
  hc_commitment_config :: "commitment_level option"
  hc_n_transactions :: usize
  hc_max_initial_signature_retries :: "u8 option"
  hc_initial_accounts :: "poll_request list"
  hc_ignore_error_transactions :: bool

record 'c historical_builder =
  hb_rpc_url :: "string option"
  hb_rpc :: "'c option"
  hb_commitment_config :: "commitment_level option"
  hb_n_transactions :: "usize option"
  hb_ignore_error_transactions :: "bool option"
  hb_max_initial_signature_retries :: "u8 option"
  hb_initial_accounts :: "poll_request list"

definition historical_config_new :: "(string \<Rightarrow> 'c) \<Rightarrow> string \<Rightarrow> usize \<Rightarrow> bool \<Rightarrow> 'c historical_config" where
  "historical_config_new connect url n ignore_error_transactions = \<lparr>hc_rpc = connect url, hc_commitment_config = None,
     hc_n_transactions = n, hc_max_initial_signature_retries = None, hc_initial_accounts = [],
     hc_ignore_error_transactions = ignore_error_transactions\<rparr>"

definition historical_build :: "(string \<Rightarrow> 'c) \<Rightarrow> 'c historical_builder \<Rightarrow> 'c historical_config result" where
  "historical_build connect b =
     bind_res (case hb_rpc b of
         Some rpc \<Rightarrow> Inr rpc
       | None \<Rightarrow> bind_res (ok_or (hb_rpc_url b) ''None of rpc client/url specified for builder'') (\<lambda>url. Inr (connect url)))
       (\<lambda>rpc.
     Inr \<lparr>hc_rpc = rpc, hc_commitment_config = hb_commitment_config b,
          hc_n_transactions = unwrap_or (hb_n_transactions b) 1000,
          hc_max_initial_signature_retries = hb_max_initial_signature_retries b,
          hc_initial_accounts = hb_initial_accounts b,
          hc_ignore_error_transactions = unwrap_or (hb_ignore_error_transactions b) False\<rparr>)"

text \<open>\<open>send_drop_accounts\<close> is refused once the stream runs.\<close>

definition send_drop_accounts :: "pubkey list \<Rightarrow> unit result" where
  "send_drop_accounts requests =
     Inl (Error ''Cannot dynamically drop accounts from RpcHistoricalTxns once started'')"

text \<open>One page of the search: an error of the node is an empty page. \<open>exit i\<close> is what the exit signal says
  before the turn \<open>i\<close>.\<close>

definition historical_page ::
  "(string \<Rightarrow> signature option) \<Rightarrow> signature_node \<Rightarrow> bool \<Rightarrow> signature \<Rightarrow> nat \<Rightarrow> (string \<times> u64) list" where
  "historical_page from_str node ignore_error_transactions last_signature k =
     (case node \<lparr>sq_before = Some last_signature, sq_until = None, sq_limit = Some (word_of_nat k)\<rparr> of
        Inl _ \<Rightarrow> []
      | Inr signatures \<Rightarrow> map (\<lambda>sig. (rg_signature sig, rg_slot sig))
          (filter (\<lambda>sig. \<not> (ignore_error_transactions \<and> rg_err sig \<noteq> None)) signatures))"

definition next_signature :: "(string \<Rightarrow> signature option) \<Rightarrow> (string \<times> u64) list \<Rightarrow> signature \<Rightarrow> signature" where
  "next_signature from_str results last_signature =
     (if results = [] then last_signature else unwrap_or (from_str (fst (last results))) last_signature)"

function historical_signatures ::
  "(string \<Rightarrow> signature option) \<Rightarrow> signature_node \<Rightarrow> bool \<Rightarrow> (nat \<Rightarrow> bool) \<Rightarrow> nat \<Rightarrow> nat \<Rightarrow> signature
     \<Rightarrow> (string \<times> u64) list \<Rightarrow> (string \<times> u64) list" where
  "historical_signatures from_str node ignore exit i left last_signature signatures =
     (if left = 0 \<or> exit i then signatures
      else
        let k = min left 1000;
            results = historical_page from_str node ignore last_signature k
        in historical_signatures from_str node ignore exit (Suc i) (left - k)
             (next_signature from_str results last_signature) (signatures @ results))"
  by pat_completeness auto
termination
  by (relation "measure (\<lambda>(_, _, _, _, _, left, _, _). left)") auto

declare historical_signatures.simps [simp del]

definition historical_fetch ::
  "(string \<Rightarrow> signature option) \<Rightarrow> (signature \<Rightarrow> itransaction result) \<Rightarrow> string \<times> u64 \<Rightarrow> itransaction option result" where
  "historical_fetch from_str fetch = (\<lambda>(sig, slot). case bind_res (ok_or (from_str sig) ''invalid signature'') fetch of
       Inr tx \<Rightarrow> Inr (Some tx)
     | Inl (Error _) \<Rightarrow> Inr None
     | Inl (Panic msg) \<Rightarrow> Inl (Panic msg))"

definition get_last_n_historical_transactions ::
  "(string \<Rightarrow> signature option) \<Rightarrow> signature_node \<Rightarrow> (nat \<Rightarrow> rpc_signature list result) \<Rightarrow> (signature \<Rightarrow> itransaction result)
     \<Rightarrow> (nat \<Rightarrow> bool) \<Rightarrow> signature option \<Rightarrow> usize \<Rightarrow> bool option \<Rightarrow> u8 \<Rightarrow> bool \<Rightarrow> itransaction list result" where
  "get_last_n_historical_transactions from_str node initial fetch exit recent_signature n order_by_earliest
     max_initial_signature_retries ignore_error_transactions =
     bind_res (case recent_signature of
         Some s \<Rightarrow> Inr (Some s)
       | None \<Rightarrow> initial_signature from_str (map initial [0..<unat max_initial_signature_retries]) None) (\<lambda>recent.
     bind_res (ok_or recent ''Failed to get initial signature for wallet'') (\<lambda>recent.
     let signatures = historical_signatures from_str node ignore_error_transactions exit 0 (unat n) recent [];
         sig_iterator = (if unwrap_or order_by_earliest True then signatures else rev signatures)
     in bind_res (collect_results (historical_fetch from_str fetch) sig_iterator) (\<lambda>txs. Inr (List.map_filter id txs))))"

text \<open>The transactions that one command makes the stream broadcast, and whether it goes on.\<close>

definition handle_historical_command ::
  "(poll_request \<Rightarrow> itransaction list result) \<Rightarrow> historical_txn_command \<Rightarrow> itransaction list \<times> bool" where
  "handle_historical_command history command = (case command of
       HistoricalAdd requests \<Rightarrow> (concat (map (\<lambda>r. case history r of Inr txs \<Rightarrow> txs | Inl _ \<Rightarrow> []) requests), True)
     | HistoricalRemove _ \<Rightarrow> ([], True)
     | HistoricalQuit \<Rightarrow> ([], False))"


section \<open>Properties\<close>

text \<open>What the node documents: of the signatures \<open>h\<close> of the account, newest first, it answers the ones
  after \<open>before\<close> (all of them without it) and before \<open>until\<close>, at most a thousand and at most as many as
  asked for.\<close>

definition sig_key :: "(string \<Rightarrow> signature option) \<Rightarrow> rpc_signature \<Rightarrow> signature option" where
  "sig_key from_str s = from_str (rg_signature s)"

fun older_than :: "(string \<Rightarrow> signature option) \<Rightarrow> signature option \<Rightarrow> rpc_signature list \<Rightarrow> rpc_signature list" where
  "older_than from_str None h = h"
| "older_than from_str (Some s) h = tl (dropWhile (\<lambda>x. sig_key from_str x \<noteq> Some s) h)"

definition newer_than :: "(string \<Rightarrow> signature option) \<Rightarrow> signature option \<Rightarrow> rpc_signature list \<Rightarrow> rpc_signature list" where
  "newer_than from_str until h = (case until of None \<Rightarrow> h | Some s \<Rightarrow> takeWhile (\<lambda>x. sig_key from_str x \<noteq> Some s) h)"

definition serves :: "(string \<Rightarrow> signature option) \<Rightarrow> rpc_signature list \<Rightarrow> signature_node \<Rightarrow> bool" where
  "serves from_str h node \<longleftrightarrow> (\<forall>q. node q = Inr (take (case sq_limit q of Some n \<Rightarrow> min (unat n) 1000 | None \<Rightarrow> 1000)
     (newer_than from_str (sq_until q) (older_than from_str (sq_before q) h))))"

definition readable :: "(string \<Rightarrow> signature option) \<Rightarrow> rpc_signature list \<Rightarrow> bool" where
  "readable from_str h \<longleftrightarrow> None \<notin> set (map (sig_key from_str) h) \<and> distinct (map (sig_key from_str) h)"

lemma older_than_suffix: "\<exists>xs. h = xs @ older_than from_str before h"
proof -
  have "suffix (older_than from_str before h) h"
    by (cases before) (auto intro: suffix_order.trans [OF suffix_tl suffix_dropWhile])
  then show ?thesis by (simp add: suffix_def)
qed

lemma older_than_split:
  assumes "readable from_str (xs @ x # ys)" and "sig_key from_str x = Some s"
  shows "older_than from_str (Some s) (xs @ x # ys) = ys"
proof -
  have "\<forall>y \<in> set xs. sig_key from_str y \<noteq> Some s"
    using assms by (auto simp: readable_def intro: rev_image_eqI)
  then show ?thesis using assms(2) by (simp add: dropWhile_append2)
qed

lemma older_than_page:
  assumes "readable from_str h" and "older_than from_str before h = page @ rest" and "page \<noteq> []"
  shows "\<exists>s. sig_key from_str (last page) = Some s \<and> older_than from_str (Some s) h = rest"
proof -
  obtain xs where h: "h = xs @ page @ rest" using older_than_suffix [of h from_str before] assms(2) by auto
  have "last page \<in> set h" using assms(3) by (simp add: h)
  then obtain s where s: "sig_key from_str (last page) = Some s"
    using assms(1) unfolding readable_def by (metis image_eqI image_set not_None_eq)
  have "h = (xs @ butlast page) @ last page # rest" using assms(3) by (simp add: h)
  then show ?thesis using older_than_split [of from_str "xs @ butlast page" "last page" rest s] assms(1) s by metis
qed


definition take_limit :: "usize option \<Rightarrow> 'a list \<Rightarrow> 'a list" where
  "take_limit limit xs = (case limit of Some n \<Rightarrow> take (unat n) xs | None \<Rightarrow> xs)"

lemma newer_than_split: "\<exists>rest. xs = newer_than from_str until xs @ rest \<and>
    (\<forall>p q. newer_than from_str until xs = p @ q \<longrightarrow> newer_than from_str until (q @ rest) = q)"
proof (cases until)
  case (Some u)
  let ?P = "\<lambda>x. sig_key from_str x \<noteq> Some u"
  have "takeWhile ?P (q @ dropWhile ?P xs) = q" if "takeWhile ?P xs = p @ q" for p q
  proof -
    have "set q \<subseteq> set (takeWhile ?P xs)" unfolding that by simp
    then have "\<forall>x \<in> set q. ?P x" by (blast dest: set_takeWhileD)
    moreover have "takeWhile ?P (dropWhile ?P xs) = []" by (induction xs) auto
    ultimately show ?thesis by (simp add: takeWhile_append2)
  qed
  then show ?thesis using Some by (auto simp: newer_than_def intro!: exI [of _ "dropWhile ?P xs"])
qed (auto simp: newer_than_def)

lemma newer_than_until: "x \<in> set (newer_than from_str until xs) \<Longrightarrow> until \<noteq> None \<Longrightarrow> sig_key from_str x \<noteq> until"
  by (auto simp: newer_than_def dest: set_takeWhileD)

lemma unat_length_page: "length p \<le> 1000 \<Longrightarrow> unat (word_of_nat (length p) :: usize) = length p"
  by (simp add: unsigned_of_nat take_bit_nat_eq_self)

lemma take_limit_page:
  assumes "length p \<le> 1000" and "\<And>n. limit = Some n \<Longrightarrow> length p \<le> unat n"
  shows "take_limit limit (p @ q)
    = p @ take_limit (map_option (\<lambda>c. saturating_sub c (word_of_nat (length p))) limit) q"
  using assms by (cases limit) (auto simp: take_limit_def unat_saturating_sub unat_length_page)

lemma signature_loop_exact:
  assumes "serves from_str h node" and "readable from_str h" and "before = None \<or> before \<noteq> until"
  shows "\<exists>reason. signature_loop pp from_str node until None before limit signatures
    = Some (Inr (signatures @ take_limit limit (newer_than from_str until (older_than from_str before h)), reason))"
  using assms(3)
proof (induction "length (older_than from_str before h)" arbitrary: before limit signatures rule: less_induct)
  case less
  let ?seg = "newer_than from_str until (older_than from_str before h)"
  let ?k = "case map_option (\<lambda>count. min count 1000) limit of Some n \<Rightarrow> min (unat n) 1000 | None \<Rightarrow> 1000"
  let ?p = "take ?k ?seg" and ?q = "drop ?k ?seg"
  have page: "node \<lparr>sq_before = before, sq_until = until, sq_limit = map_option (\<lambda>count. min count 1000) limit\<rparr> = Inr ?p"
    using assms(1) by (simp add: serves_def)
  consider "limit = Some 0" | "limit \<noteq> Some 0" "?p = []" | "limit \<noteq> Some 0" "?p \<noteq> []" by blast
  then show ?case
  proof cases
    case 1
    then show ?thesis by (subst signature_loop.simps) (simp add: signature_page_def take_limit_def)
  next
    case 2
    have "0 < ?k" using 2(1) by (cases limit) (auto simp: unat_min unat_gt_0)
    then have "?seg = []" using 2(2) by simp
    then show ?thesis
      using 2 less.prems page
      by (subst signature_loop.simps) (auto simp: signature_page_def take_limit_def split: option.splits)
  next
    case 3
    obtain rest where r: "older_than from_str before h = ?seg @ rest"
        "\<And>p q. ?seg = p @ q \<Longrightarrow> newer_than from_str until (q @ rest) = q"
      using newer_than_split [of "older_than from_str before h" from_str until] by blast
    have "older_than from_str before h = ?p @ (?q @ rest)" using r(1) by (metis append.assoc append_take_drop_id)
    from older_than_page [OF assms(2) this 3(2)] obtain s
      where s: "sig_key from_str (last ?p) = Some s" "older_than from_str (Some s) h = ?q @ rest" by blast
    have "last ?p \<in> set ?seg" using 3(2) by (meson in_set_takeD last_in_set)
    then have ne: "Some s \<noteq> until" using newer_than_until s(1) by fastforce
    have len: "length ?p \<le> 1000" "\<And>n. limit = Some n \<Longrightarrow> length ?p \<le> unat n" by (auto simp: unat_min split: option.splits)
    let ?limit = "map_option (\<lambda>c. saturating_sub c (word_of_nat (length ?p))) limit"
    have "length (older_than from_str (Some s) h) < length (older_than from_str before h)"
      using 3(2) s(2) r(1) by (metis \<open>older_than from_str before h = ?p @ (?q @ rest)\<close> length_append length_greater_0_conv less_add_same_cancel2)
    from less.hyps [OF this, of ?limit "signatures @ ?p"] ne obtain reason
      where IH: "signature_loop pp from_str node until None (Some s) ?limit (signatures @ ?p)
        = Some (Inr ((signatures @ ?p) @ take_limit ?limit (newer_than from_str until (?q @ rest)), reason))"
      unfolding s(2) by auto
    have "newer_than from_str until (?q @ rest) = ?q" using r(2) [of ?p ?q] by simp
    moreover have "take_limit limit ?seg = ?p @ take_limit ?limit ?q"
      using take_limit_page [OF len, of limit ?q] by simp
    moreover have "signature_page pp from_str node until None before limit signatures = Inr (Some s, ?limit, signatures @ ?p)"
      using 3 less.prems s(1) unfolding signature_page_def page by (auto simp: sig_key_def Let_def)
    ultimately show ?thesis using IH by (subst signature_loop.simps) simp
  qed
qed



definition example_history :: "rpc_signature list" where
  "example_history = [example_signature ''A'', example_signature ''B'', example_signature ''C'']"

definition example_signature_node :: signature_node where
  "example_signature_node q = Inr (take (case sq_limit q of Some n \<Rightarrow> min (unat n) 1000 | None \<Rightarrow> 1000)
     (newer_than example_from_str (sq_until q) (older_than example_from_str (sq_before q) example_history)))"

lemma example_node_serves: "serves example_from_str example_history example_signature_node"
  by (simp add: serves_def example_signature_node_def)

lemma example_readable: "readable example_from_str example_history"
  by (simp add: readable_def example_history_def sig_key_def example_signature_def example_from_str_def)


text \<open>With a limit in time, whatever index the search in the last page answers: either nothing of that page
  is returned, or its oldest signature is, which lies before the limit.\<close>

lemma blocktime_limit_misplaced:
  assumes "signature_page pp from_str node until (Some ts) before limit signatures = Inl (Inr (found, ReasonBlockTime))"
  shows "found = signatures \<or> opt_less (rg_block_time (last found)) (Some ts)"
  using assms
  by (auto simp: signature_page_def Let_def last_append last_drop split: if_splits sum.splits option.splits)

lemma historical_page_serves:
  assumes "serves from_str h node" and "k \<le> 1000"
  shows "historical_page from_str node False last_signature k
    = map (\<lambda>s. (rg_signature s, rg_slot s)) (take k (older_than from_str (Some last_signature) h))"
proof -
  have "unat (word_of_nat k :: usize) = k" using assms(2) by (simp add: unsigned_of_nat take_bit_nat_eq_self)
  then show ?thesis
    using assms by (simp add: historical_page_def serves_def newer_than_def)
qed

lemma historical_signatures_exact:
  assumes "serves from_str h node" and "readable from_str h" and "\<forall>i. \<not> exit i"
  shows "historical_signatures from_str node False exit i left last_signature signatures
    = signatures @ map (\<lambda>s. (rg_signature s, rg_slot s)) (take left (older_than from_str (Some last_signature) h))"
proof (induction left arbitrary: i last_signature signatures rule: less_induct)
  case (less left)
  let ?old = "older_than from_str (Some last_signature) h"
  let ?k = "min left 1000"
  let ?page = "take ?k ?old"
  show ?case
  proof (cases "left = 0")
    case False
    note page = historical_page_serves [OF assms(1), of ?k last_signature, simplified]
    let ?next = "next_signature from_str (map (\<lambda>s. (rg_signature s, rg_slot s)) ?page) last_signature"
    have "take (left - ?k) (older_than from_str (Some ?next) h) = take (left - ?k) (drop ?k ?old)"
    proof (cases "?page = []")
      case True
      moreover have "?k \<noteq> 0" using False by (simp add: min_def)
      ultimately have "?old = []" by simp
      then show ?thesis unfolding True by (simp add: next_signature_def)
    next
      case ne: False
      from older_than_page [OF assms(2), of "Some last_signature" ?page "drop ?k ?old"] ne obtain s
        where "sig_key from_str (last ?page) = Some s" "older_than from_str (Some s) h = drop ?k ?old" by auto
      then show ?thesis using ne by (simp add: next_signature_def sig_key_def last_map)
    qed
    moreover have "take left ?old = ?page @ take (left - ?k) (drop ?k ?old)"
      by (metis le_add_diff_inverse min.cobounded1 take_add)
    moreover have "historical_signatures from_str node False exit i left last_signature signatures
        = historical_signatures from_str node False exit (Suc i) (left - ?k) ?next
            (signatures @ map (\<lambda>s. (rg_signature s, rg_slot s)) ?page)"
      using False assms(3) by (subst historical_signatures.simps) (simp add: page Let_def)
    moreover have "left - ?k < left" using False by simp
    ultimately show ?thesis
      by (simp only: less.IH map_append append.assoc)
  qed (simp add: historical_signatures.simps)
qed

text \<open>The stream of historical transactions yields the \<open>n\<close> transactions before the recent signature. With
  \<open>order_by_earliest\<close>, which is the default, it yields them newest first: the signatures are collected from
  newest to oldest and it is the other order that reverses them.\<close>

theorem historical_newest_first:
  assumes "serves from_str h node" and "readable from_str h" and "\<forall>i. \<not> exit i"
    and "\<forall>s \<in> set h. fetch (the (sig_key from_str s)) = Inr (tx_of s)"
  shows "get_last_n_historical_transactions from_str node initial fetch exit (Some recent) n order max_retries False
    = Inr (let found = map tx_of (take (unat n) (older_than from_str (Some recent) h))
        in if unwrap_or order True then found else rev found)"
proof -
  let ?found = "take (unat n) (older_than from_str (Some recent) h)"
  obtain xs where "h = xs @ older_than from_str (Some recent) h" using older_than_suffix by blast
  then have sub: "set ?found \<subseteq> set h" by (metis Un_iff in_set_takeD set_append subsetI)
  have each: "historical_fetch from_str fetch (rg_signature s, rg_slot s) = Inr (Some (tx_of s))" if "s \<in> set ?found" for s
  proof -
    have "s \<in> set h" using that sub by blast
    moreover obtain k where "sig_key from_str s = Some k"
      using assms(2) \<open>s \<in> set h\<close> unfolding readable_def by (metis image_eqI image_set not_None_eq)
    ultimately have "from_str (rg_signature s) = Some k" "fetch k = Inr (tx_of s)"
      using assms(4) by (fastforce simp: sig_key_def)+
    then show ?thesis by (simp add: historical_fetch_def)
  qed
  have all: "bind_res (collect_results (historical_fetch from_str fetch) (map (\<lambda>s. (rg_signature s, rg_slot s)) ss))
      (\<lambda>txs. Inr (List.map_filter id txs)) = Inr (map tx_of ss)" if "set ss \<subseteq> set ?found" for ss
    using that by (induction ss) (auto simp: each List.map_filter_def)
  show ?thesis
    using all [of ?found] all [of "rev ?found"]
    by (simp add: get_last_n_historical_transactions_def historical_signatures_exact [OF assms(1-3)] Let_def rev_map)
qed

theorem historical_newest_first_witness:
  "get_last_n_historical_transactions example_from_str example_signature_node (\<lambda>_. Inl (Error '''')) example_fetch
     (\<lambda>_. False) (Some 1) 7 (Some True) 3 False = Inr [plain_tx 2 [] [] [] None, plain_tx 3 [] [] [] None]"
proof -
  have "\<forall>s \<in> set example_history. example_fetch (the (sig_key example_from_str s))
      = Inr (plain_tx (the (sig_key example_from_str s)) [] [] [] None)"
    by (simp add: example_fetch_def)
  note historical_newest_first [OF example_node_serves example_readable _ this, of "\<lambda>_. False" "\<lambda>_. Inl (Error '''')" 1 7
      "Some True" 3]
  moreover have "map (\<lambda>s. plain_tx (the (sig_key example_from_str s)) [] [] [] None)
      (take (unat (7 :: usize)) (older_than example_from_str (Some 1) example_history))
      = [plain_tx 2 [] [] [] None, plain_tx 3 [] [] [] None]"
    by (simp add: example_history_def sig_key_def example_signature_def example_from_str_def)
  ultimately show ?thesis by simp
qed

end
