(* ===== verification/Lookup_Tables.thy ===== *)
theory Lookup_Tables
  imports Decode "HOL-Library.Sublist"
begin

text \<open>
  The store of address lookup tables (\<^verbatim>\<open>wire/lookup_tables.rs\<close>): which tables a message needs, loading
  them in batches, resolving the indices of a message and the binary file of the store. The node, the
  layout of a table account and bincode are arguments. A batch is loaded by a task of its own, which a
  timeout leaves running, so the model has the store after all tasks ended; a task that panics keeps
  what it saved before.
\<close>

type_synonym table_store = "(pubkey, pubkey list) store"

record alt_sdk =
  al_get_multiple_accounts :: "pubkey list \<Rightarrow> u8 list option list result"
  al_get_account :: "pubkey \<Rightarrow> u8 list option result"
  al_deserialize :: "u8 list \<Rightarrow> pubkey list option"

definition save_account :: "alt_sdk \<Rightarrow> table_store \<Rightarrow> pubkey \<Rightarrow> u8 list \<Rightarrow> table_store result" where
  "save_account sdk m address data =
     bind_res (expect (al_deserialize sdk data) ''called `Result::unwrap()` on an `Err` value'') (\<lambda>addresses.
     Inr (store_insert m address addresses))"

text \<open>The loop over the accounts of a batch, whose positions are those of the requested keys.\<close>

fun save_accounts :: "alt_sdk \<Rightarrow> pubkey list \<Rightarrow> table_store \<Rightarrow> (nat \<times> u8 list option) list \<Rightarrow> table_store" where
  "save_accounts sdk batch m [] = m"
| "save_accounts sdk batch m ((i, None) # accounts) = save_accounts sdk batch m accounts"
| "save_accounts sdk batch m ((i, Some data) # accounts) =
     (if i < length batch
      then (case save_account sdk m (batch ! i) data of
              Inl _ \<Rightarrow> m
            | Inr m \<Rightarrow> save_accounts sdk batch m accounts)
      else m)"

definition load_batch :: "alt_sdk \<Rightarrow> table_store \<Rightarrow> pubkey list \<Rightarrow> table_store" where
  "load_batch sdk m batch = (case al_get_multiple_accounts sdk batch of
     Inr accounts \<Rightarrow> save_accounts sdk batch m (enumerate 0 accounts)
   | Inl e \<Rightarrow> m)"

definition load_alts_list :: "alt_sdk \<Rightarrow> table_store \<Rightarrow> pubkey list \<Rightarrow> table_store" where
  "load_alts_list sdk m alts_list =
     foldl (\<lambda>m batches. foldl (load_batch sdk) m (chunks 100 batches)) m (chunks 1000 alts_list)"

definition alt_to_load :: "table_store \<Rightarrow> address_table_lookup \<Rightarrow> pubkey option" where
  "alt_to_load m alt = (case store_get m (lk_account_key alt) of
     Some alt_data \<Rightarrow>
       (let size = of_nat (length alt_data) :: u8
        in if list_ex (\<lambda>x. size \<le> x) (lk_readonly_indexes alt) \<or> list_ex (\<lambda>x. size \<le> x) (lk_writable_indexes alt)
           then Some (lk_account_key alt) else None)
   | None \<Rightarrow> Some (lk_account_key alt))"

definition reload_if_necessary :: "alt_sdk \<Rightarrow> table_store \<Rightarrow> address_table_lookup list \<Rightarrow> table_store" where
  "reload_if_necessary sdk m alt_messages = load_alts_list sdk m (List.map_filter (alt_to_load m) alt_messages)"

definition reload_alt_account :: "alt_sdk \<Rightarrow> table_store \<Rightarrow> pubkey \<Rightarrow> table_store result" where
  "reload_alt_account sdk m address =
     (let account = (case al_get_account sdk address of Inr acc \<Rightarrow> acc | Inl e \<Rightarrow> None)
      in case account of
           Some data \<Rightarrow> save_account sdk m address data
         | None \<Rightarrow> Inr m)"

definition get_accounts_in_address_lookup_table :: "table_store \<Rightarrow> pubkey \<Rightarrow> u8 list \<Rightarrow> pubkey list option" where
  "get_accounts_in_address_lookup_table m alt accounts = (case store_get m alt of
     Some alt_account \<Rightarrow>
       if list_ex (\<lambda>index. length alt_account \<le> unat index) accounts then None
       else Some (map (\<lambda>index. alt_account ! unat index) accounts)
   | None \<Rightarrow> None)"

definition get_accounts :: "table_store \<Rightarrow> pubkey \<Rightarrow> u8 list \<Rightarrow> pubkey list" where
  "get_accounts m alt accounts = (case get_accounts_in_address_lookup_table m alt accounts of
     Some x \<Rightarrow> x
   | None \<Rightarrow> [])"

definition resolve_addresses_from_lookup_table ::
  "table_store \<Rightarrow> address_table_lookup \<Rightarrow> pubkey list \<times> pubkey list" where
  "resolve_addresses_from_lookup_table m lookup =
     (get_accounts m (lk_account_key lookup) (lk_writable_indexes lookup),
      get_accounts m (lk_account_key lookup) (lk_readonly_indexes lookup))"

definition binary_alt_data_new :: "table_store \<Rightarrow> (pubkey \<times> pubkey list) list" where
  "binary_alt_data_new m = map (\<lambda>(key, value). (key, value)) m"

definition serialize_binary :: "((pubkey \<times> pubkey list) list \<Rightarrow> u8 list option) \<Rightarrow> table_store \<Rightarrow> u8 list result" where
  "serialize_binary bincode m =
     expect (bincode (binary_alt_data_new m)) ''called `Result::unwrap()` on an `Err` value''"

definition load_binary ::
  "(u8 list \<Rightarrow> (pubkey \<times> pubkey list) list option) \<Rightarrow> table_store \<Rightarrow> u8 list \<Rightarrow> table_store result" where
  "load_binary bincode m binary_data =
     bind_res (expect (bincode binary_data) ''called `Result::unwrap()` on an `Err` value'') (\<lambda>data.
     Inr (foldl (\<lambda>m (alt, accounts). store_insert m alt accounts) m data))"

section \<open>Loading\<close>

text \<open>A node that answers every request of at most a hundred keys, with accounts that are tables.\<close>

definition tables_served :: "alt_sdk \<Rightarrow> (pubkey \<Rightarrow> u8 list option) \<Rightarrow> bool" where
  "tables_served sdk accounts \<longleftrightarrow>
     (\<forall>batch. length batch \<le> 100 \<longrightarrow> al_get_multiple_accounts sdk batch = Inr (map accounts batch))
   \<and> (\<forall>k data. accounts k = Some data \<longrightarrow> al_deserialize sdk data \<noteq> None)"

definition table_of :: "alt_sdk \<Rightarrow> (pubkey \<Rightarrow> u8 list option) \<Rightarrow> pubkey \<Rightarrow> pubkey list option" where
  "table_of sdk accounts k = Option.bind (accounts k) (al_deserialize sdk)"

definition loaded :: "alt_sdk \<Rightarrow> (pubkey \<Rightarrow> u8 list option) \<Rightarrow> pubkey set \<Rightarrow> table_store \<Rightarrow> pubkey \<Rightarrow> pubkey list option" where
  "loaded sdk accounts K m k = (if k \<in> K then or_else (table_of sdk accounts k) (store_get m k) else store_get m k)"

lemma save_accounts_get:
  assumes "tables_served sdk accounts" and "n + length ks = length batch" and "drop n batch = ks"
  shows "store_get (save_accounts sdk batch m (enumerate n (map accounts ks))) k = loaded sdk accounts (set ks) m k"
  using assms(2,3)
proof (induction ks arbitrary: n m)
  case (Cons x ks)
  have next_keys: "drop (Suc n) batch = ks" and x: "batch ! n = x" and n: "n < length batch"
    using Cons.prems by (auto simp: drop_Suc nth_via_drop dest: arg_cong [of _ _ tl] simp flip: tl_drop)
  show ?case
  proof (cases "accounts x")
    case None
    then show ?thesis
      using Cons.IH [of "Suc n" m] Cons.prems(1) next_keys by (auto simp: loaded_def table_of_def)
  next
    case (Some data)
    then obtain t where t: "al_deserialize sdk data = Some t"
      using assms(1) unfolding tables_served_def by blast
    then have "table_of sdk accounts x = Some t" using Some by (simp add: table_of_def)
    then show ?thesis
      using Cons.IH [of "Suc n" "store_insert m x t"] Cons.prems(1) next_keys n
      by (auto simp: Some save_account_def t x loaded_def or_else_def split: option.splits)
  qed
qed (simp add: loaded_def)

lemma load_batch_get:
  assumes "tables_served sdk accounts" and "length batch \<le> 100"
  shows "store_get (load_batch sdk m batch) k = loaded sdk accounts (set batch) m k"
proof -
  have "al_get_multiple_accounts sdk batch = Inr (map accounts batch)"
    using assms by (simp add: tables_served_def)
  then show ?thesis
    using save_accounts_get [OF assms(1), of 0 batch batch m k] by (simp add: load_batch_def)
qed

lemma foldl_loaded:
  assumes "\<And>m x. x \<in> set xs \<Longrightarrow> store_get (f m x) k = loaded sdk accounts (g x) m k"
  shows "store_get (foldl f m xs) k = loaded sdk accounts (\<Union>x\<in>set xs. g x) m k"
  using assms
proof (induction xs arbitrary: m)
  case (Cons x xs)
  have "store_get (foldl f m (x # xs)) k = loaded sdk accounts (\<Union>x\<in>set xs. g x) (f m x) k"
    using Cons by simp
  also have "\<dots> = loaded sdk accounts (\<Union>x\<in>set (x # xs). g x) m k"
    using Cons.prems [of x m] by (auto simp: loaded_def or_else_def split: option.splits)
  finally show ?case .
qed (simp add: loaded_def)

lemma set_chunks: "0 < n \<Longrightarrow> (\<Union>c\<in>set (chunks n xs). set c) = set xs"
  using concat_chunks [of n xs] by (metis set_concat)

lemma load_alts_list_get:
  assumes "tables_served sdk accounts"
  shows "store_get (load_alts_list sdk m alts) k = loaded sdk accounts (set alts) m k"
proof -
  have batch: "store_get (foldl (load_batch sdk) m (chunks 100 c)) k = loaded sdk accounts (set c) m k" for m c
    using foldl_loaded [of "chunks 100 c" "load_batch sdk" k sdk accounts set m] load_batch_get [OF assms]
      chunks_length [of _ 100 c] by (simp add: set_chunks)
  then show ?thesis
    using foldl_loaded [of "chunks 1000 alts" "\<lambda>m batches. foldl (load_batch sdk) m (chunks 100 batches)" k sdk accounts set m]
    by (simp add: load_alts_list_def set_chunks)
qed

section \<open>Resolving\<close>

lemma get_accounts_prefix:
  assumes "store_get m alt = Some x" and "prefix x table" and "list_all (\<lambda>i. unat i < length x) is"
  shows "get_accounts m alt is = map (\<lambda>i. table ! unat i) is"
proof -
  have "\<not> list_ex (\<lambda>i. length x \<le> unat i) is" using assms(3) by (auto simp: list_all_iff list_ex_iff)
  moreover have "x ! unat i = table ! unat i" if "i \<in> set is" for i
    using assms(2,3) that by (auto simp: list_all_iff prefix_def nth_append)
  ultimately show ?thesis
    by (simp add: get_accounts_def get_accounts_in_address_lookup_table_def assms(1))
qed

lemma index_in_stored_table:
  assumes "\<not> of_nat (length x) \<le> (i :: u8)"
  shows "unat i < length x"
proof -
  have "unat i < unat (of_nat (length x) :: u8)" using assms by (simp add: word_le_nat_alt)
  also have "\<dots> \<le> length x" by (simp add: unat_of_nat take_bit_nat_eq_self_iff take_bit_nat_less_eq_self)
  finally show ?thesis .
qed

lemma not_loaded_indices:
  assumes "alt_to_load m lookup = None"
  obtains x where "store_get m (lk_account_key lookup) = Some x"
    and "list_all (\<lambda>i. unat i < length x) (lk_writable_indexes lookup)"
    and "list_all (\<lambda>i. unat i < length x) (lk_readonly_indexes lookup)"
  using assms index_in_stored_table
  by (auto simp: alt_to_load_def Let_def list_ex_iff list_all_iff split: option.splits if_splits)

text \<open>C26. Tables only grow. When the store holds beginnings of the tables and the node serves them, then
  after the reload of what a list of lookups needs, every lookup in it whose indices are in its table
  resolves to exactly the entries of the table, writable and readonly, in the order of the indices,
  whether its table was stored before or not.\<close>

theorem lookups_resolved_after_reload:
  assumes "tables_served sdk accounts" and "lookup \<in> set lookups"
    and "table_of sdk accounts (lk_account_key lookup) = Some table"
    and "\<forall>x. store_get m (lk_account_key lookup) = Some x \<longrightarrow> prefix x table"
    and "list_all (\<lambda>i. unat i < length table) (lk_writable_indexes lookup)"
    and "list_all (\<lambda>i. unat i < length table) (lk_readonly_indexes lookup)"
  shows "resolve_addresses_from_lookup_table (reload_if_necessary sdk m lookups) lookup
    = (map (\<lambda>i. table ! unat i) (lk_writable_indexes lookup), map (\<lambda>i. table ! unat i) (lk_readonly_indexes lookup))"
proof -
  let ?k = "lk_account_key lookup" and ?alts = "List.map_filter (alt_to_load m) lookups"
  obtain x where "store_get (reload_if_necessary sdk m lookups) ?k = Some x" and "prefix x table"
    and "list_all (\<lambda>i. unat i < length x) (lk_writable_indexes lookup)"
    and "list_all (\<lambda>i. unat i < length x) (lk_readonly_indexes lookup)"
  proof (cases "?k \<in> set ?alts")
    case True
    then have "store_get (reload_if_necessary sdk m lookups) ?k = Some table"
      using assms(3) by (simp add: reload_if_necessary_def load_alts_list_get [OF assms(1)] loaded_def)
    then show ?thesis using that assms(5,6) by blast
  next
    case False
    then have "alt_to_load m lookup = None"
      using assms(2) by (force simp: map_filter_def alt_to_load_def Let_def split: option.splits if_splits)
    then obtain x where x: "store_get m ?k = Some x"
        "list_all (\<lambda>i. unat i < length x) (lk_writable_indexes lookup)"
        "list_all (\<lambda>i. unat i < length x) (lk_readonly_indexes lookup)"
      by (rule not_loaded_indices)
    have "store_get (reload_if_necessary sdk m lookups) ?k = Some x"
      using False x(1) by (simp add: reload_if_necessary_def load_alts_list_get [OF assms(1)] loaded_def)
    then show ?thesis using that x assms(4) by blast
  qed
  then show ?thesis
    by (simp add: resolve_addresses_from_lookup_table_def get_accounts_prefix)
qed

definition example_alt_sdk :: alt_sdk where
  "example_alt_sdk = \<lparr>al_get_multiple_accounts = (\<lambda>keys. Inr (map (\<lambda>k. if k = 5 then Some [1] else None) keys)),
     al_get_account = (\<lambda>k. Inr None), al_deserialize = (\<lambda>data. Some [70, 71, 72])\<rparr>"

theorem lookups_resolved_after_reload_witness:
  "resolve_addresses_from_lookup_table (reload_if_necessary example_alt_sdk [(5, [70, 71])]
      [\<lparr>lk_account_key = 5, lk_writable_indexes = [2, 0], lk_readonly_indexes = [1]\<rparr>])
    \<lparr>lk_account_key = 5, lk_writable_indexes = [2, 0], lk_readonly_indexes = [1]\<rparr> = ([72, 70], [71])"
proof -
  let ?l = "\<lparr>lk_account_key = 5, lk_writable_indexes = [2, 0], lk_readonly_indexes = [1]\<rparr>"
  have "tables_served example_alt_sdk (\<lambda>k. if k = 5 then Some [1] else None)"
    by (simp add: tables_served_def example_alt_sdk_def)
  from lookups_resolved_after_reload [OF this, of ?l "[?l]" "[70, 71, 72]" "[(5, [70, 71])]"] show ?thesis
    by (simp add: table_of_def example_alt_sdk_def store_get_def)
qed

text \<open>A table with all of its 256 entries is loaded again for every message that uses it: its length as
  a \<open>u8\<close> is zero.\<close>

lemma full_table_always_reloaded:
  assumes "store_get m (lk_account_key alt) = Some table" and "length table = 256"
    and "lk_readonly_indexes alt \<noteq> [] \<or> lk_writable_indexes alt \<noteq> []"
  shows "alt_to_load m alt = Some (lk_account_key alt)"
proof -
  have "of_nat (length table) = (0 :: u8)" by (simp add: assms(2))
  then show ?thesis
    using assms(1,3) by (cases "lk_readonly_indexes alt"; cases "lk_writable_indexes alt")
      (simp_all add: alt_to_load_def Let_def)
qed

text \<open>The binary file gives the stored tables back.\<close>

lemma load_binary_serialized:
  assumes "store_ok m" and "serialize_binary put m = Inr bs" and "get bs = Some (binary_alt_data_new m)"
  shows "load_binary get [] bs = Inr m"
  using assms foldl_store_insert_distinct [of "[]" m]
  by (simp add: load_binary_def binary_alt_data_new_def store_ok_def)

end
