(* ===== verification/Leaders.thy ===== *)
theory Leaders
  imports Streams
begin

text \<open>
  The leader schedule (\<^verbatim>\<open>wire/rpc/poll_slot_leaders.rs\<close>): a task follows the slot, another one asks the
  node for the leaders of the next thousand slots and their contact information, and a handle lists the
  next leaders. The two tasks share the slot and the map of leaders; they interleave in any order, each
  round of a task being one step. \<open>i64\<close> is an integer here: the offset is a small constant of the
  configuration.
\<close>

definition NUM_SLOTS_PER_LEADER :: nat where
  "NUM_SLOTS_PER_LEADER = 4"

record contact_info =
  ct_pubkey :: string
  ct_tpu :: "string option"

record leader_schedule =
  lsc_current_leaders :: "(u64, contact_info) store"
  lsc_slot_update :: u64
  lsc_num_leaders :: nat

definition get_start_slot_from_offset :: "u64 \<Rightarrow> int \<Rightarrow> u64" where
  "get_start_slot_from_offset next_slot leader_offset =
     (let slot_buffer = leader_offset * int NUM_SLOTS_PER_LEADER
      in if 0 < slot_buffer then next_slot + of_int slot_buffer else next_slot - of_int \<bar>slot_buffer\<bar>)"

text \<open>\<open>get_leaders\<close>: the loop over the slots, with the leaders in the order in which they were found; an
  \<open>IndexMap\<close> keeps the place of a key that is inserted again.\<close>

fun collect_leaders :: "(u64, contact_info) store \<Rightarrow> nat \<Rightarrow> (string, contact_info) store \<Rightarrow> u64 list \<Rightarrow> (string, contact_info) store" where
  "collect_leaders current num leaders [] = leaders"
| "collect_leaders current num leaders (slot # slots) =
     (let leaders = (case store_get current slot of
            Some leader \<Rightarrow> store_insert leaders (ct_pubkey leader) leader
          | None \<Rightarrow> leaders)
      in if num \<le> length leaders then leaders else collect_leaders current num leaders slots)"

definition slot_range :: "u64 \<Rightarrow> u64 \<Rightarrow> u64 list" where
  "slot_range a b = map of_nat [unat a..<unat b]"

definition get_leaders :: "leader_schedule \<Rightarrow> contact_info list" where
  "get_leaders h =
     (let start_slot = lsc_slot_update h;
          end_slot = start_slot + of_nat (lsc_num_leaders h * NUM_SLOTS_PER_LEADER)
      in map snd (collect_leaders (lsc_current_leaders h) (lsc_num_leaders h) [] (slot_range start_slot end_slot)))"

text \<open>One round of the task that follows the slot: a notification, a lag or the end of the channel.\<close>

datatype slot_message = SlotProcessed u64 | SlotLagged | SlotClosed

definition poll_slot_round :: "int \<Rightarrow> slot_message \<Rightarrow> leader_schedule \<Rightarrow> leader_schedule option" where
  "poll_slot_round leader_offset msg h = (case msg of
       SlotClosed \<Rightarrow> None
     | _ \<Rightarrow>
       let next_slot = (case msg of SlotProcessed slot \<Rightarrow> slot | _ \<Rightarrow> lsc_slot_update h);
           start_slot = get_start_slot_from_offset next_slot leader_offset
       in Some (if lsc_slot_update h < start_slot then h\<lparr>lsc_slot_update := start_slot\<rparr> else h))"

definition clean_up_slot_leaders :: "u64 \<Rightarrow> (u64, contact_info) store \<Rightarrow> (u64, contact_info) store" where
  "clean_up_slot_leaders cur_slot current_leaders =
     (let slots_to_remove = filter (\<lambda>slot. slot < cur_slot) (map fst current_leaders)
      in foldl store_remove current_leaders slots_to_remove)"

text \<open>The slot is read again for the clean-up, after the node's answers: \<open>cur_slot\<close>.\<close>

record leader_node =
  ln_get_slot_leaders :: "u64 \<Rightarrow> u64 \<Rightarrow> pubkey list result"
  ln_get_cluster_nodes :: "contact_info list result"
  ln_to_string :: "pubkey \<Rightarrow> string"

definition get_leaders_for_slot ::
  "leader_node \<Rightarrow> u64 \<Rightarrow> u64 \<Rightarrow> (u64, contact_info) store \<Rightarrow> (u64, contact_info) store result" where
  "get_leaders_for_slot node next_slot cur_slot current_leaders =
     bind_res (case ln_get_slot_leaders node next_slot 1000 of
       Inl e \<Rightarrow> Inl (Error ''Error getting slot leaders'') | Inr l \<Rightarrow> Inr l) (\<lambda>slot_leaders.
     bind_res (case ln_get_cluster_nodes node of
       Inl e \<Rightarrow> Inl (Error ''Error getting cluster nodes'') | Inr l \<Rightarrow> Inr l) (\<lambda>new_cluster_nodes.
     let cluster_node_map = foldl (\<lambda>m node. store_insert m (ct_pubkey node) node) [] new_cluster_nodes;
         current_leaders = foldl (\<lambda>m (i, leader). case store_get cluster_node_map (ln_to_string node leader) of
             Some contact_info \<Rightarrow> store_insert m (next_slot + of_nat i) contact_info
           | None \<Rightarrow> m) current_leaders (enumerate 0 slot_leaders)
     in Inr (clean_up_slot_leaders cur_slot current_leaders)))"

text \<open>One round of the task that polls the leaders, from the slot that it read before its requests: an
  error leaves the map as it is.\<close>

definition poll_leaders_round :: "leader_node \<Rightarrow> u64 \<Rightarrow> leader_schedule \<Rightarrow> leader_schedule" where
  "poll_leaders_round node next_slot h =
     (case get_leaders_for_slot node next_slot (lsc_slot_update h) (lsc_current_leaders h) of
       Inr leaders \<Rightarrow> h\<lparr>lsc_current_leaders := leaders\<rparr>
     | Inl e \<Rightarrow> h)"

definition start_leader_tracker ::
  "nat \<Rightarrow> u64 option \<Rightarrow> (u64, contact_info) store option \<Rightarrow> leader_schedule" where
  "start_leader_tracker num_leaders bootstrap_slot_update bootstrap_leaders_map =
     \<lparr>lsc_current_leaders = unwrap_or bootstrap_leaders_map [], lsc_slot_update = unwrap_or bootstrap_slot_update 0,
      lsc_num_leaders = num_leaders\<rparr>"

definition bootstrap_leader_tracker ::
  "leader_node \<Rightarrow> u64 result \<Rightarrow> int \<Rightarrow> nat \<Rightarrow> leader_schedule result" where
  "bootstrap_leader_tracker node slot leader_offset num_leaders =
     bind_res slot (\<lambda>slot.
     let start_slot = get_start_slot_from_offset slot leader_offset
     in bind_res (get_leaders_for_slot node start_slot start_slot []) (\<lambda>current_leaders_map.
        Inr (start_leader_tracker num_leaders (Some start_slot) (Some current_leaders_map))))"

section \<open>The schedule\<close>

lemma store_get_foldl_remove:
  "store_get (foldl store_remove m ks) k = (if k \<in> set ks then None else store_get m k)"
  by (induction ks arbitrary: m) auto

lemma store_ok_foldl_remove: "store_ok m \<Longrightarrow> store_ok (foldl store_remove m ks)"
  by (induction ks arbitrary: m) auto

lemma clean_up_get:
  "store_get (clean_up_slot_leaders cur m) slot = (if slot < cur then None else store_get m slot)"
  by (auto simp: clean_up_slot_leaders_def store_get_foldl_remove store_get_None_iff Let_def
      intro!: store_get_None_iff [THEN iffD2])

lemma clean_up_ok: "store_ok m \<Longrightarrow> store_ok (clean_up_slot_leaders cur m)"
  by (simp add: clean_up_slot_leaders_def store_ok_foldl_remove Let_def)

text \<open>What a round writes: the contact of the leader of each of the requested slots.\<close>

definition slot_leader_contact ::
  "leader_node \<Rightarrow> contact_info list \<Rightarrow> pubkey \<Rightarrow> contact_info option" where
  "slot_leader_contact node nodes leader =
     store_get (foldl (\<lambda>m node. store_insert m (ct_pubkey node) node) [] nodes) (ln_to_string node leader)"

lemma u64_of_nat_inject: "a < 2 ^ 64 \<Longrightarrow> b < 2 ^ 64 \<Longrightarrow> (of_nat a :: u64) = of_nat b \<longleftrightarrow> a = b"
  by (auto dest: arg_cong [of _ _ unat] simp: unat_of_nat take_bit_nat_eq_self)

abbreviation write_leaders :: "('l \<Rightarrow> contact_info option) \<Rightarrow> u64 \<Rightarrow> (u64, contact_info) store \<Rightarrow> (nat \<times> 'l) list
    \<Rightarrow> (u64, contact_info) store" where
  "write_leaders f s \<equiv> foldl (\<lambda>m (i, l). case f l of Some c \<Rightarrow> store_insert m (s + of_nat i) c | None \<Rightarrow> m)"

lemma write_leaders_other:
  "k \<notin> (\<lambda>i. s + of_nat i) ` {n..<n + length ls} \<Longrightarrow> store_get (write_leaders f s m (enumerate n ls)) k = store_get m k"
  by (induction ls arbitrary: n m) (auto split: option.split simp: image_iff)

lemma write_leaders_get:
  assumes "j < length ls" and "n + length ls \<le> 2 ^ 64"
  shows "store_get (write_leaders f s m (enumerate n ls)) (s + of_nat (n + j))
    = (case f (ls ! j) of Some c \<Rightarrow> Some c | None \<Rightarrow> store_get m (s + of_nat (n + j)))"
  using assms
proof (induction ls arbitrary: n m j)
  case (Cons l ls)
  show ?case
  proof (cases j)
    case 0
    have "s + of_nat n \<notin> (\<lambda>i. s + of_nat i) ` {Suc n..<Suc n + length ls}"
      using Cons.prems by (auto simp: u64_of_nat_inject)
    then show ?thesis
      by (simp add: 0 write_leaders_other [of _ s "Suc n"] split: option.split)
  next
    case (Suc i)
    have "of_nat (n + j) \<noteq> (of_nat n :: u64)"
      using u64_of_nat_inject [of "n + j" n] Cons.prems Suc by (simp del: of_nat_add)
    then have "s + of_nat (Suc n + i) \<noteq> s + of_nat n" using Suc by (simp del: of_nat_add of_nat_Suc)
    then show ?thesis
      using Cons.IH [of i "Suc n"] Cons.prems Suc by (simp del: of_nat_add of_nat_Suc split: option.split)
  qed
qed simp

lemma write_leaders_ok: "store_ok m \<Longrightarrow> store_ok (write_leaders f s m (enumerate n ls))"
  by (induction ls arbitrary: n m) (auto split: option.split)

lemma leaders_for_slot_get:
  assumes "ln_get_slot_leaders node slot 1000 = Inr ls" and "ln_get_cluster_nodes node = Inr nodes"
    and "j < length ls" and "length ls \<le> 2 ^ 64" and "\<not> slot + of_nat j < cur"
    and "slot_leader_contact node nodes (ls ! j) = Some c"
  shows "\<exists>m'. get_leaders_for_slot node slot cur m = Inr m' \<and> store_get m' (slot + of_nat j) = Some c"
proof -
  let ?w = "write_leaders (slot_leader_contact node nodes) slot m (enumerate 0 ls)"
  have "get_leaders_for_slot node slot cur m = Inr (clean_up_slot_leaders cur ?w)"
    by (simp add: get_leaders_for_slot_def assms(1,2) Let_def slot_leader_contact_def)
  then show ?thesis
    using assms(4-6) write_leaders_get [OF assms(3), where n = 0 and f = "slot_leader_contact node nodes" and s = slot and m = m]
    by (simp add: clean_up_get)
qed

section \<open>The next leaders\<close>

text \<open>The distinct elements in the order of their first occurrence, after those already seen.\<close>

fun keep_first :: "'a list \<Rightarrow> 'a list \<Rightarrow> 'a list" where
  "keep_first seen [] = seen"
| "keep_first seen (x # xs) = keep_first (if x \<in> set seen then seen else seen @ [x]) xs"

lemma keep_first_prefix: "\<exists>ys. keep_first seen xs = seen @ ys"
proof (induction xs arbitrary: seen)
  case (Cons x xs)
  obtain ys where "keep_first (if x \<in> set seen then seen else seen @ [x]) xs
      = (if x \<in> set seen then seen else seen @ [x]) @ ys"
    using Cons.IH by blast
  then show ?case by auto
qed simp

lemma take_keep_first: "length seen = n \<Longrightarrow> take n (keep_first seen xs) = seen"
  using keep_first_prefix [of seen xs] by auto

lemma collect_leaders_names:
  assumes "\<forall>slot \<in> set slots. store_get current slot = Some (c slot)"
    and "\<forall>(k, v) \<in> set acc. ct_pubkey v = k" and "length acc < num"
  shows "map (ct_pubkey \<circ> snd) (collect_leaders current num acc slots)
    = take num (keep_first (map fst acc) (map (ct_pubkey \<circ> c) slots))"
  using assms
proof (induction slots arbitrary: acc)
  case Nil
  then show ?case by (auto simp: case_prod_beta)
next
  case (Cons slot slots)
  let ?acc = "store_insert acc (ct_pubkey (c slot)) (c slot)"
  have named: "\<forall>(k, v) \<in> set ?acc. ct_pubkey v = k"
    using store_insert_all [OF Cons.prems(2)] by simp
  have keys: "map fst ?acc = (if ct_pubkey (c slot) \<in> set (map fst acc) then map fst acc else map fst acc @ [ct_pubkey (c slot)])"
    by (rule store_insert_keys)
  show ?case
  proof (cases "num \<le> length ?acc")
    case True
    then have "length (map fst ?acc) = num"
      using Cons.prems(3) arg_cong [OF keys, of length] by (auto split: if_splits)
    then have "take num (keep_first (map fst ?acc) (map (ct_pubkey \<circ> c) slots)) = map fst ?acc"
      by (rule take_keep_first)
    also have "\<dots> = map (ct_pubkey \<circ> snd) ?acc" using named by (auto simp: case_prod_beta)
    finally show ?thesis using True Cons.prems(1) by (simp add: keys o_def split: if_splits)
  next
    case False
    then show ?thesis
      using Cons.IH [OF _ named] Cons.prems(1) by (simp add: keys o_def Let_def split: if_splits)
  qed
qed

lemma slot_range_from:
  assumes "unat start + n < 2 ^ 64"
  shows "slot_range start (start + of_nat n) = map (\<lambda>i. start + of_nat i) [0..<n]"
proof -
  have "unat (of_nat n :: u64) = n" using assms by (simp add: unat_of_nat take_bit_nat_eq_self)
  then have "unat (start + of_nat n) = unat start + n" using assms by (subst unat_plus_no_wrap) simp_all
  then have "slot_range start (start + of_nat n) = map of_nat [unat start..<unat start + n]"
    by (simp add: slot_range_def)
  also have "[unat start..<unat start + n] = map (\<lambda>i. i + unat start) [0..<n]"
    by (simp add: map_add_upt add.commute)
  finally show ?thesis by (simp add: o_def add.commute)
qed

lemma slot_leader_contact_name:
  "slot_leader_contact node nodes leader = Some c \<Longrightarrow> ct_pubkey c = ln_to_string node leader"
proof -
  have "\<forall>(k, v) \<in> set (foldl (\<lambda>m node. store_insert m (ct_pubkey node) node) m nodes). ct_pubkey v = k"
    if "\<forall>(k, v) \<in> set m. ct_pubkey v = k" for m
    using that
  proof (induction nodes arbitrary: m)
    case (Cons n nodes)
    show ?case using Cons.IH [OF store_insert_all [OF Cons.prems]] by simp
  qed simp
  from this [of "[]"] show "slot_leader_contact node nodes leader = Some c \<Longrightarrow> ct_pubkey c = ln_to_string node leader"
    by (auto simp: slot_leader_contact_def store_get_def dest!: map_of_SomeD)
qed

text \<open>C31. After the bootstrap, the handle lists the next leaders as the cluster will see them: from the
  slot that the offset selects, the leaders of the next four slots per requested leader, each once and in
  the order of its first slot, at most as many as requested; provided that the node knows the contact of
  every leader and the slots do not reach the end of \<open>u64\<close>.\<close>

theorem next_leaders_in_order:
  assumes "bootstrap_leader_tracker node (Inr slot) offset num = Inr h"
    and "get_start_slot_from_offset slot offset = start"
    and "ln_get_slot_leaders node start 1000 = Inr ls" and "ln_get_cluster_nodes node = Inr nodes"
    and "\<forall>l \<in> set ls. slot_leader_contact node nodes l \<noteq> None"
    and "num * 4 \<le> length ls" and "unat start + length ls < 2 ^ 64"
  shows "map ct_pubkey (get_leaders h) = take num (keep_first [] (map (ln_to_string node) (take (num * 4) ls)))"
proof (cases "num = 0")
  case True
  then show ?thesis
    using assms(1) by (auto simp: bootstrap_leader_tracker_def start_leader_tracker_def get_leaders_def
        slot_range_def Let_def)
next
  case False
  let ?c = "\<lambda>s. the (slot_leader_contact node nodes (ls ! (unat s - unat start)))"
  obtain m where m: "get_leaders_for_slot node start start [] = Inr m"
      and h: "h = \<lparr>lsc_current_leaders = m, lsc_slot_update = start, lsc_num_leaders = num\<rparr>"
    using assms(1,2) by (auto simp: bootstrap_leader_tracker_def start_leader_tracker_def Let_def)
  have idx: "unat (start + of_nat j) = unat start + j" if "j < length ls" for j
    using assms(7) that by (subst unat_plus_no_wrap) (simp_all add: unat_of_nat take_bit_nat_eq_self)
  have stored: "store_get m (start + of_nat j) = Some (?c (start + of_nat j))" if j: "j < length ls" for j
  proof -
    obtain c where c: "slot_leader_contact node nodes (ls ! j) = Some c" using assms(5) j by fastforce
    have "\<not> start + of_nat j < start" using idx [OF j] by (simp add: word_less_nat_alt)
    from leaders_for_slot_get [OF assms(3,4) j _ this c, of "[]"] show ?thesis
      using assms(7) m c idx [OF j] by simp
  qed
  have range: "slot_range start (start + of_nat (num * 4)) = map (\<lambda>i. start + of_nat i) [0..<num * 4]"
    using assms(6,7) by (intro slot_range_from) simp
  let ?slots = "map (\<lambda>i. start + of_nat i) [0..<num * 4]"
  have "map (ct_pubkey \<circ> snd) (collect_leaders m num [] ?slots) = take num (keep_first [] (map (ct_pubkey \<circ> ?c) ?slots))"
    using collect_leaders_names [of ?slots m ?c "[]" num] False stored assms(6) by simp
  also have "map (ct_pubkey \<circ> ?c) ?slots = map (ln_to_string node) (take (num * 4) ls)"
  proof -
    have "ct_pubkey (?c (start + of_nat j)) = ln_to_string node (ls ! j)" if j: "j < length ls" for j
      using assms(5) j idx [OF j] slot_leader_contact_name by fastforce
    then show ?thesis
      using assms(6) by (auto intro!: nth_equalityI)
  qed
  also have "map (ct_pubkey \<circ> snd) (collect_leaders m num [] ?slots) = map ct_pubkey (get_leaders h)"
    unfolding get_leaders_def h NUM_SLOTS_PER_LEADER_def Let_def range [symmetric] by simp
  finally show ?thesis .
qed

definition example_leader_node :: leader_node where
  "example_leader_node = \<lparr>
     ln_get_slot_leaders = (\<lambda>slot n. Inr [1, 1, 1, 1, 2, 2, 2, 2, 1, 1, 1, 1]),
     ln_get_cluster_nodes = Inr [\<lparr>ct_pubkey = ''b'', ct_tpu = None\<rparr>, \<lparr>ct_pubkey = ''a'', ct_tpu = None\<rparr>],
     ln_to_string = (\<lambda>k. if k = 1 then ''a'' else ''b'')\<rparr>"

theorem next_leaders_in_order_witness:
  "\<exists>h. bootstrap_leader_tracker example_leader_node (Inr 100) 1 2 = Inr h
     \<and> map ct_pubkey (get_leaders h) = [''a'', ''b'']"
proof -
  obtain h where h: "bootstrap_leader_tracker example_leader_node (Inr 100) 1 2 = Inr h"
    by (simp add: bootstrap_leader_tracker_def get_leaders_for_slot_def example_leader_node_def Let_def)
  have "map ct_pubkey (get_leaders h) = take 2 (keep_first []
      (map (ln_to_string example_leader_node) (take (2 * 4) [1, 1, 1, 1, 2, 2, 2, 2, 1, 1, 1, 1])))"
    by (rule next_leaders_in_order [OF h refl, where nodes = "[\<lparr>ct_pubkey = ''b'', ct_tpu = None\<rparr>, \<lparr>ct_pubkey = ''a'', ct_tpu = None\<rparr>]"])
      (simp_all add: example_leader_node_def slot_leader_contact_def store_get_def store_insert_def
        get_start_slot_from_offset_def NUM_SLOTS_PER_LEADER_def)
  then show ?thesis using h by (simp add: example_leader_node_def)
qed

section \<open>The slot\<close>

text \<open>The slot of the schedule never goes back.\<close>

lemma poll_slot_round_monotone:
  "poll_slot_round offset msg h = Some h' \<Longrightarrow> lsc_slot_update h \<le> lsc_slot_update h'"
  by (auto simp: poll_slot_round_def Let_def split: slot_message.splits if_splits)

text \<open>A lag of the channel moves the slot ahead by the offset once more, although no slot has passed: the
  slot of the schedule, in which the offset is contained, is taken for the slot of the cluster.\<close>

lemma lag_adds_offset:
  assumes "0 < offset" and "unat (lsc_slot_update h) + nat (4 * offset) < 2 ^ 64"
  shows "poll_slot_round offset SlotLagged h = Some (h\<lparr>lsc_slot_update := lsc_slot_update h + of_int (4 * offset)\<rparr>)"
proof -
  have "of_int (4 * offset) = (of_nat (nat (4 * offset)) :: u64)" using assms(1) by simp
  moreover have "unat (of_nat (nat (4 * offset)) :: u64) = nat (4 * offset)"
    using assms(2) by (simp add: unat_of_nat take_bit_nat_eq_self)
  ultimately have "unat (lsc_slot_update h + of_int (4 * offset)) = unat (lsc_slot_update h) + nat (4 * offset)"
    using assms(2) by (subst unat_plus_no_wrap) simp_all
  then have "lsc_slot_update h < lsc_slot_update h + of_int (4 * offset)"
    using assms(1) by (simp add: word_less_nat_alt)
  then show ?thesis
    using assms(1) by (simp add: poll_slot_round_def get_start_slot_from_offset_def NUM_SLOTS_PER_LEADER_def mult.commute)
qed

end
