(* ===== verification/Wallet_Stats.thy ===== *)
theory Wallet_Stats
  imports Swap_Types Price_History
begin

text \<open>
  The statistics of the wallets under analysis (\<^verbatim>\<open>analytics/wallet.rs\<close>): what a swap adds to the
  statistics of its signer, and the report over them. The clock, chrono's conversion of a timestamp (a
  date is its timestamp here) and the constant \<open>USDC\<close> of \<open>anchor_spl\<close> are arguments. What a swap wrote
  before an error stays. Counters are \<open>usize\<close> and volumes \<open>u64\<close>; both wrap.
\<close>

datatype wallet_direction = DirBuy | DirSell

record wallet_swap =
  wsw_signature :: signature
  wsw_block_time :: int
  wsw_token :: pubkey
  wsw_other_token :: pubkey
  wsw_amount :: u64
  wsw_other_amount :: u64
  wsw_volume_token_usd :: f64
  wsw_volume_other_token_usd :: f64
  wsw_direction :: wallet_direction

record token_stats =
  tks_decimals :: u8
  tks_total_buys :: usize
  tks_total_sells :: usize
  tks_buy_volume_token :: u64
  tks_sell_volume_token :: u64
  tks_buy_volume_usd :: f64
  tks_sell_volume_usd :: f64

definition token_stats_default :: token_stats where
  "token_stats_default = \<lparr>tks_decimals = 0, tks_total_buys = 0, tks_total_sells = 0, tks_buy_volume_token = 0,
     tks_sell_volume_token = 0, tks_buy_volume_usd = f64_zero, tks_sell_volume_usd = f64_zero\<rparr>"

record wallet_stats =
  wst_address :: pubkey
  wst_earliest_txn :: "int option"
  wst_latest_txn :: "int option"
  wst_num_swaps :: usize
  wst_total_buys :: usize
  wst_total_sells :: usize
  wst_total_buy_volume_usd :: f64
  wst_total_sell_volume_usd :: f64
  wst_token_stats :: "(pubkey, token_stats) store"
  wst_token_swaps :: "(pubkey, wallet_swap list) store"
  wst_failed_signatures :: "signature list"

definition wallet_stats_new :: "pubkey \<Rightarrow> wallet_stats" where
  "wallet_stats_new signer = \<lparr>wst_address = signer, wst_earliest_txn = None, wst_latest_txn = None, wst_num_swaps = 0,
     wst_total_buys = 0, wst_total_sells = 0, wst_total_buy_volume_usd = f64_zero, wst_total_sell_volume_usd = f64_zero,
     wst_token_stats = [], wst_token_swaps = [], wst_failed_signatures = []\<rparr>"

record wallet_analyzer =
  wan_wallets :: "pubkey set"
  wan_sol_price_history :: "historical_price list"
  wan_wallet_stats :: "(pubkey, wallet_stats) store"
  wan_current_sol_price :: f64

record wallet_env =
  wen_now :: int
  wen_from_timestamp :: "int \<Rightarrow> int option"
  wen_usdc :: pubkey

text \<open>\<open>new\<close> takes the answer of the price request for SOL.\<close>

definition wallet_analyzer_new ::
  "pubkey set \<Rightarrow> historical_price list \<Rightarrow> f64 option \<Rightarrow> wallet_analyzer result" where
  "wallet_analyzer_new wallets history sol_price =
     bind_res (ok_or sol_price ''Failed to get SOL price'') (\<lambda>current_sol_price.
     Inr \<lparr>wan_wallets = wallets, wan_sol_price_history = history, wan_wallet_stats = [],
          wan_current_sol_price = current_sol_price\<rparr>)"

definition analyzer_insert_wallet :: "pubkey \<Rightarrow> wallet_analyzer \<Rightarrow> wallet_analyzer" where
  "analyzer_insert_wallet wallet a = a\<lparr>wan_wallets := insert wallet (wan_wallets a)\<rparr>"

text \<open>\<open>entry(k).and_modify(f).or_insert(d)\<close>\<close>

definition and_modify_or_insert :: "('v \<Rightarrow> 'v) \<Rightarrow> 'v \<Rightarrow> 'k \<Rightarrow> ('k, 'v) store \<Rightarrow> ('k, 'v) store" where
  "and_modify_or_insert f d k m = (case store_get m k of
     Some v \<Rightarrow> store_insert m k (f v)
   | None \<Rightarrow> store_insert m k d)"

definition record_time :: "wallet_env \<Rightarrow> (int \<Rightarrow> int \<Rightarrow> bool) \<Rightarrow> int \<Rightarrow> int option \<Rightarrow> int option result" where
  "record_time env earlier block_time recorded =
     (if (case recorded of Some timestamp \<Rightarrow> earlier block_time timestamp | None \<Rightarrow> True)
      then bind_res (ok_or (wen_from_timestamp env block_time) ''failed converting blocktime to date'')
             (\<lambda>time. Inr (Some time))
      else Inr recorded)"

definition historical_sol_price :: "wallet_env \<Rightarrow> wallet_analyzer \<Rightarrow> int \<Rightarrow> f64 option result" where
  "historical_sol_price env a block_time =
     bind_res (get_price_for_timestamp (wan_sol_price_history a) block_time) (\<lambda>sol_price.
     case sol_price of
       Some p \<Rightarrow> Inr (Some p)
     | None \<Rightarrow>
         let most_recent_time = (if wan_sol_price_history a = [] then wen_now env
               else hp_unix_time (last (wan_sol_price_history a)))
         in Inr (if wen_now env - most_recent_time < 24 * 60 * 60 then Some (wan_current_sol_price a) else None))"

definition swap_volume_usd :: "u64 \<Rightarrow> u8 \<Rightarrow> f64 \<Rightarrow> f64" where
  "swap_volume_usd amount decimals p = f_mul (f_div (u64_as_f64 amount) (u32_as_f64 (pow10_u32 decimals))) p"

text \<open>The two sides of a swap: what a purchase adds for the bought token, what a sale adds for the sold
  one. The entry of the token is there: both were made at the start.\<close>

definition wallet_record_buy :: "resolved_swap \<Rightarrow> f64 \<Rightarrow> wallet_stats \<Rightarrow> wallet_stats result" where
  "wallet_record_buy swap input_volume_usd st =
     bind_res (expect (store_get (wst_token_stats st) (rs_output_token_mint swap)) ''unreachable'') (\<lambda>t.
     Inr (st\<lparr>wst_total_buys := wst_total_buys st + 1,
       wst_total_buy_volume_usd := f_add (wst_total_buy_volume_usd st) input_volume_usd,
       wst_token_stats := store_insert (wst_token_stats st) (rs_output_token_mint swap)
         (t\<lparr>tks_total_buys := tks_total_buys t + 1,
            tks_buy_volume_token := tks_buy_volume_token t + rs_output_amount swap,
            tks_buy_volume_usd := f_add (tks_buy_volume_usd t) input_volume_usd\<rparr>)\<rparr>))"

definition wallet_record_sell :: "resolved_swap \<Rightarrow> f64 \<Rightarrow> wallet_stats \<Rightarrow> wallet_stats result" where
  "wallet_record_sell swap output_volume_usd st =
     bind_res (expect (store_get (wst_token_stats st) (rs_input_token_mint swap)) ''unreachable'') (\<lambda>t.
     Inr (st\<lparr>wst_total_sells := wst_total_sells st + 1,
       wst_total_sell_volume_usd := f_add (wst_total_sell_volume_usd st) output_volume_usd,
       wst_token_stats := store_insert (wst_token_stats st) (rs_input_token_mint swap)
         (t\<lparr>tks_total_sells := tks_total_sells t + 1,
            tks_sell_volume_token := tks_sell_volume_token t + rs_input_amount swap,
            tks_sell_volume_usd := f_add (tks_sell_volume_usd t) output_volume_usd\<rparr>)\<rparr>))"

definition buy_swap :: "resolved_swap \<Rightarrow> signature \<Rightarrow> int \<Rightarrow> f64 \<Rightarrow> f64 \<Rightarrow> wallet_swap" where
  "buy_swap swap sig block_time input_volume_usd output_volume_usd = \<lparr>wsw_signature = sig, wsw_block_time = block_time,
     wsw_token = rs_output_token_mint swap, wsw_other_token = rs_input_token_mint swap,
     wsw_amount = rs_output_amount swap, wsw_other_amount = rs_input_amount swap,
     wsw_volume_token_usd = output_volume_usd, wsw_volume_other_token_usd = input_volume_usd, wsw_direction = DirBuy\<rparr>"

definition sell_swap :: "resolved_swap \<Rightarrow> signature \<Rightarrow> int \<Rightarrow> f64 \<Rightarrow> f64 \<Rightarrow> wallet_swap" where
  "sell_swap swap sig block_time input_volume_usd output_volume_usd = \<lparr>wsw_signature = sig, wsw_block_time = block_time,
     wsw_token = rs_input_token_mint swap, wsw_other_token = rs_output_token_mint swap,
     wsw_amount = rs_input_amount swap, wsw_other_amount = rs_output_amount swap,
     wsw_volume_token_usd = input_volume_usd, wsw_volume_other_token_usd = output_volume_usd, wsw_direction = DirSell\<rparr>"

definition push_swap :: "wallet_swap option \<Rightarrow> pubkey \<Rightarrow> wallet_stats \<Rightarrow> wallet_stats" where
  "push_swap swap token st = (case swap of
     Some s \<Rightarrow> st\<lparr>wst_token_swaps := and_modify_or_insert (\<lambda>swaps. swaps @ [s]) [] token (wst_token_swaps st)\<rparr>
   | None \<Rightarrow> st)"

definition record_swap ::
  "wallet_env \<Rightarrow> resolved_swap \<Rightarrow> signature \<Rightarrow> int \<Rightarrow> f64 \<Rightarrow> f64 \<Rightarrow> wallet_stats \<Rightarrow> wallet_stats result" where
  "record_swap env swap sig block_time input_volume_usd output_volume_usd st =
     (let buy = rs_output_token_mint swap \<notin> {SOL, wen_usdc env, USDT};
          sell = rs_input_token_mint swap \<notin> {SOL, wen_usdc env, USDT};
          the_buy = buy_swap swap sig block_time input_volume_usd output_volume_usd;
          the_sell = sell_swap swap sig block_time input_volume_usd output_volume_usd
      in bind_res
           (if buy then
              if sell then
                bind_res (wallet_record_buy swap input_volume_usd (st\<lparr>wst_num_swaps := wst_num_swaps st + 2\<rparr>)) (\<lambda>st.
                bind_res (wallet_record_sell swap output_volume_usd st) (\<lambda>st. Inr (st, Some the_sell, Some the_buy)))
              else
                bind_res (wallet_record_buy swap input_volume_usd (st\<lparr>wst_num_swaps := wst_num_swaps st + 1\<rparr>)) (\<lambda>st.
                Inr (st, None, Some the_buy))
            else if sell then
                bind_res (wallet_record_sell swap output_volume_usd (st\<lparr>wst_num_swaps := wst_num_swaps st + 1\<rparr>)) (\<lambda>st.
                Inr (st, Some the_sell, None))
            else Inr (st, None, None)) (\<lambda>(st, input_mint_swap, output_mint_swap).
         Inr (push_swap output_mint_swap (rs_output_token_mint swap)
               (push_swap input_mint_swap (rs_input_token_mint swap) st))))"

text \<open>What \<open>process_swap\<close> does to the statistics of a watched signer, which it returns also on an error.\<close>

definition process_wallet_swap ::
  "wallet_env \<Rightarrow> wallet_analyzer \<Rightarrow> resolved_swap \<Rightarrow> signature \<Rightarrow> int \<Rightarrow> wallet_stats \<Rightarrow> wallet_stats \<times> unit result" where
  "process_wallet_swap env a swap sig block_time st =
     (case rs_token_decimals swap of
        None \<Rightarrow> (st\<lparr>wst_failed_signatures := wst_failed_signatures st @ [sig]\<rparr>,
                 Inl (Error ''Token decimals not resolved for swap''))
      | Some decimals \<Rightarrow>
     (case record_time env (<) block_time (wst_earliest_txn st) of
        Inl e \<Rightarrow> (st, Inl e)
      | Inr earliest \<Rightarrow>
     let st = st\<lparr>wst_earliest_txn := earliest\<rparr> in
     (case record_time env (>) block_time (wst_latest_txn st) of
        Inl e \<Rightarrow> (st, Inl e)
      | Inr latest \<Rightarrow>
     let st = st\<lparr>wst_latest_txn := latest,
           wst_token_stats :=
             and_modify_or_insert (\<lambda>s. s\<lparr>tks_total_buys := tks_total_buys s + 1\<rparr>)
               (token_stats_default\<lparr>tks_decimals := td_output decimals, tks_total_buys := 1\<rparr>) (rs_output_token_mint swap)
             (and_modify_or_insert (\<lambda>s. s\<lparr>tks_total_sells := tks_total_sells s + 1\<rparr>)
               (token_stats_default\<lparr>tks_decimals := td_input decimals, tks_total_sells := 1\<rparr>) (rs_input_token_mint swap)
               (wst_token_stats st))\<rparr>;
         failed = st\<lparr>wst_failed_signatures := wst_failed_signatures st @ [sig]\<rparr>
     in (case historical_sol_price env a block_time of
        Inl e \<Rightarrow> (st, Inl e)
      | Inr None \<Rightarrow> (failed, Inl (Error ''Failed to get historical sol price''))
      | Inr (Some sol_price) \<Rightarrow>
     (case calculate_token_prices (rs_input_token_mint swap) (rs_output_token_mint swap)
             (rs_input_amount swap) (rs_output_amount swap) (td_input decimals) (td_output decimals) sol_price of
        Inl (Error e) \<Rightarrow> (failed, Inl (Error e))
      | Inl (Panic e) \<Rightarrow> (st, Inl (Panic e))
      | Inr origin_price \<Rightarrow>
     let input_volume_usd = swap_volume_usd (rs_input_amount swap) (td_input decimals) (input_price_usd origin_price);
         output_volume_usd = swap_volume_usd (rs_output_amount swap) (td_output decimals) (input_price_usd origin_price)
     in (case record_swap env swap sig block_time input_volume_usd output_volume_usd st of
        Inl e \<Rightarrow> (st, Inl e)
      | Inr st \<Rightarrow> (st, Inr ())))))))"

definition process_swap ::
  "wallet_env \<Rightarrow> resolved_swap \<Rightarrow> signature \<Rightarrow> pubkey \<Rightarrow> int \<Rightarrow> wallet_analyzer \<Rightarrow> wallet_analyzer \<times> unit result" where
  "process_swap env swap sig signer block_time a =
     (if signer \<notin> wan_wallets a then (a, Inr ())
      else
        let st = unwrap_or (store_get (wan_wallet_stats a) signer) (wallet_stats_new signer);
            (st, r) = process_wallet_swap env a swap sig block_time st
        in (a\<lparr>wan_wallet_stats := store_insert (wan_wallet_stats a) signer st\<rparr>, r))"

definition get_token_addresses :: "wallet_analyzer \<Rightarrow> pubkey set" where
  "get_token_addresses a =
     set (concat (map (\<lambda>(wallet, st). map fst (wst_token_stats st)) (wan_wallet_stats a)))"

section \<open>The report\<close>

record 'v token_ext =
  tex_address :: pubkey
  tex_name :: "string option"
  tex_symbol :: "string option"
  tex_value :: 'v
  tex_pnl_usd :: f64
  tex_unrealized_usd :: f64
  tex_value_held_token :: u64

definition token_report ::
  "(pubkey, mint_info) store \<Rightarrow> (pubkey, f64) store \<Rightarrow> pubkey \<times> token_stats \<Rightarrow> token_stats token_ext" where
  "token_report token_info token_prices = (\<lambda>(token, stats).
     let info = store_get token_info token;
         value_held_token = saturating_sub (tks_buy_volume_token stats) (tks_sell_volume_token stats);
         p = unwrap_or (store_get token_prices token) f64_zero;
         unrealized_usd = swap_volume_usd value_held_token (tks_decimals stats) p
     in \<lparr>tex_address = token, tex_name = Option.bind info mi_name, tex_symbol = Option.bind info mi_symbol,
         tex_value = stats,
         tex_pnl_usd = f_sub (f_add unrealized_usd (tks_sell_volume_usd stats)) (tks_buy_volume_usd stats),
         tex_unrealized_usd = unrealized_usd, tex_value_held_token = value_held_token\<rparr>)"

definition swaps_report ::
  "(pubkey, token_stats token_ext) store \<Rightarrow> pubkey \<times> wallet_swap list \<Rightarrow> wallet_swap list token_ext result" where
  "swaps_report token_stats_map = (\<lambda>(token, token_swaps).
     bind_res (ok_or (store_get token_stats_map token) ''should find stats for token'') (\<lambda>stats.
     Inr \<lparr>tex_address = token, tex_name = tex_name stats, tex_symbol = tex_symbol stats, tex_value = token_swaps,
          tex_pnl_usd = tex_pnl_usd stats, tex_unrealized_usd = tex_unrealized_usd stats,
          tex_value_held_token = tex_value_held_token stats\<rparr>))"

text \<open>The stable sort by falling profit; profits that are not numbers compare as greater in the source,
  which orders them arbitrarily.\<close>

fun insert_by_profit :: "'v token_ext \<Rightarrow> 'v token_ext list \<Rightarrow> 'v token_ext list" where
  "insert_by_profit x [] = [x]"
| "insert_by_profit x (y # ys) = (if f_less (tex_pnl_usd x) (tex_pnl_usd y) then y # insert_by_profit x ys else x # y # ys)"

record wallet_report =
  wre_stats :: wallet_stats
  wre_token_stats :: "token_stats token_ext list"
  wre_token_swaps :: "wallet_swap list token_ext list"
  wre_total_pnl_usd :: f64
  wre_total_unrealized :: f64

definition wallet_report_of ::
  "(pubkey, mint_info) store \<Rightarrow> (pubkey, f64) store \<Rightarrow> wallet_stats \<Rightarrow> wallet_report result" where
  "wallet_report_of token_info token_prices st =
     (let reports = map (token_report token_info token_prices) (wst_token_stats st);
          token_stats_map = map (\<lambda>r. (tex_address r, r)) reports
      in bind_res (collect_results (swaps_report token_stats_map) (wst_token_swaps st)) (\<lambda>token_swaps.
         let sorted = foldr insert_by_profit reports []
         in Inr \<lparr>wre_stats = st, wre_token_stats = sorted, wre_token_swaps = foldr insert_by_profit token_swaps [],
              wre_total_pnl_usd = foldl (\<lambda>acc x. f_add acc (tex_pnl_usd x)) f64_zero sorted,
              wre_total_unrealized = foldl (\<lambda>acc x. f_add acc (tex_unrealized_usd x)) f64_zero sorted\<rparr>))"

definition print_wallet_state ::
  "(pubkey, mint_info) store option \<Rightarrow> (pubkey, f64) store option \<Rightarrow> wallet_analyzer
     \<Rightarrow> (pubkey \<times> wallet_report) list result" where
  "print_wallet_state token_info token_prices a =
     collect_results (\<lambda>(wallet, st).
       bind_res (wallet_report_of (unwrap_or token_info []) (unwrap_or token_prices []) st) (\<lambda>r. Inr (wallet, r)))
       (wan_wallet_stats a)"

section \<open>What a purchase records\<close>

lemma and_modify_or_insert_get:
  "store_get (and_modify_or_insert f d k m) k' =
     (if k' = k then Some (case store_get m k of Some v \<Rightarrow> f v | None \<Rightarrow> d) else store_get m k')"
  by (auto simp: and_modify_or_insert_def split: option.split)

lemma and_modify_or_insert_ok [simp]: "store_ok m \<Longrightarrow> store_ok (and_modify_or_insert f d k m)"
  by (auto simp: and_modify_or_insert_def split: option.split)

definition stats_of :: "wallet_analyzer \<Rightarrow> pubkey \<Rightarrow> wallet_stats" where
  "stats_of a signer = unwrap_or (store_get (wan_wallet_stats a) signer) (wallet_stats_new signer)"

definition token_of :: "wallet_stats \<Rightarrow> pubkey \<Rightarrow> token_stats" where
  "token_of st token = unwrap_or (store_get (wst_token_stats st) token) token_stats_default"

text \<open>A purchase of a watched wallet that is processed without an error raises the wallet's counters by
  one and the volume of the token by the bought amount, but it counts the purchase of the token twice; the
  list of the token's swaps does not get the first swap of the token at all; and the value of what was
  bought is the bought amount at the price of what was paid.\<close>

theorem purchase_recorded:
  assumes "process_swap env swap sig signer t a = (a', Inr ())" and "signer \<in> wan_wallets a"
    and "rs_input_token_mint swap \<in> {SOL, wen_usdc env, USDT}"
    and "rs_output_token_mint swap \<notin> {SOL, wen_usdc env, USDT}"
  shows "\<exists>decimals sol p. rs_token_decimals swap = Some decimals
      \<and> historical_sol_price env a t = Inr (Some sol)
      \<and> calculate_token_prices (rs_input_token_mint swap) (rs_output_token_mint swap) (rs_input_amount swap)
          (rs_output_amount swap) (td_input decimals) (td_output decimals) sol = Inr p
      \<and> wst_num_swaps (stats_of a' signer) = wst_num_swaps (stats_of a signer) + 1
      \<and> wst_total_buys (stats_of a' signer) = wst_total_buys (stats_of a signer) + 1
      \<and> tks_total_buys (token_of (stats_of a' signer) (rs_output_token_mint swap))
          = tks_total_buys (token_of (stats_of a signer) (rs_output_token_mint swap)) + 2
      \<and> tks_buy_volume_token (token_of (stats_of a' signer) (rs_output_token_mint swap))
          = tks_buy_volume_token (token_of (stats_of a signer) (rs_output_token_mint swap)) + rs_output_amount swap
      \<and> store_get (wst_token_swaps (stats_of a' signer)) (rs_output_token_mint swap)
          = Some (case store_get (wst_token_swaps (stats_of a signer)) (rs_output_token_mint swap) of
              None \<Rightarrow> []
            | Some swaps \<Rightarrow> swaps @ [buy_swap swap sig t
                (swap_volume_usd (rs_input_amount swap) (td_input decimals) (input_price_usd p))
                (swap_volume_usd (rs_output_amount swap) (td_output decimals) (input_price_usd p))])"
proof -
  have ne: "rs_output_token_mint swap \<noteq> rs_input_token_mint swap" using assms(3,4) by metis
  let ?st = "stats_of a signer"
  obtain st where st: "process_wallet_swap env a swap sig t ?st = (st, Inr ())"
      and a': "stats_of a' signer = st"
    using assms(1,2) by (auto simp: process_swap_def stats_of_def Let_def split: prod.splits)
  from st obtain decimals earliest latest sol p where
    d: "rs_token_decimals swap = Some decimals" and sol: "historical_sol_price env a t = Inr (Some sol)"
    and p: "calculate_token_prices (rs_input_token_mint swap) (rs_output_token_mint swap) (rs_input_amount swap)
          (rs_output_amount swap) (td_input decimals) (td_output decimals) sol = Inr p"
    by (auto simp: process_wallet_swap_def Let_def split: option.splits sum.splits failure.splits)
  show ?thesis
    using st unfolding a'
    by (intro exI [of _ decimals] exI [of _ sol] exI [of _ p])
      (use assms(3,4) ne in \<open>auto simp: process_wallet_swap_def d sol p Let_def record_swap_def wallet_record_buy_def push_swap_def
        token_of_def and_modify_or_insert_get token_stats_default_def split: option.splits sum.splits\<close>)
qed

definition example_purchase :: resolved_swap where
  "example_purchase = (resolved_swap_plain Pump 1000000000 77 SOL 42)
     \<lparr>rs_token_decimals := Some \<lparr>td_input = 9, td_output = 6\<rparr>\<rparr>"

definition example_wallet_env :: wallet_env where
  "example_wallet_env = \<lparr>wen_now = 2000, wen_from_timestamp = Some, wen_usdc = USDC\<rparr>"

definition example_analyzer :: wallet_analyzer where
  "example_analyzer = \<lparr>wan_wallets = {7}, wan_sol_price_history = [], wan_wallet_stats = [], wan_current_sol_price = f64_lit 150\<rparr>"

theorem purchase_recorded_witness:
  "\<exists>a'. process_swap example_wallet_env example_purchase 5 7 1000 example_analyzer = (a', Inr ())
     \<and> wst_total_buys (stats_of a' 7) = 1 \<and> tks_total_buys (token_of (stats_of a' 7) 42) = 2
     \<and> store_get (wst_token_swaps (stats_of a' 7)) 42 = Some []"
proof -
  have "\<exists>q. calculate_token_prices SOL 42 1000000000 77 9 6 (f64_lit 150) = Inr q"
    by (simp add: calculate_token_prices_def resolve_prices_def mint_price_def SOL_def USDC_def USDT_def)
  then obtain q where q: "calculate_token_prices SOL 42 1000000000 77 9 6 (f64_lit 150) = Inr q" ..
  have "\<exists>a'. process_swap example_wallet_env example_purchase 5 7 1000 example_analyzer = (a', Inr ())"
    by (simp add: process_swap_def process_wallet_swap_def example_wallet_env_def example_purchase_def
        example_analyzer_def resolved_swap_plain_def record_time_def wallet_stats_new_def historical_sol_price_def
        get_price_for_timestamp_def Let_def q record_swap_def wallet_record_buy_def and_modify_or_insert_get
        SOL_def USDC_def USDT_def push_swap_def q [unfolded SOL_def])
  then obtain a' where a': "process_swap example_wallet_env example_purchase 5 7 1000 example_analyzer = (a', Inr ())" ..
  have "7 \<in> wan_wallets example_analyzer" "rs_input_token_mint example_purchase \<in> {SOL, wen_usdc example_wallet_env, USDT}"
    "rs_output_token_mint example_purchase \<notin> {SOL, wen_usdc example_wallet_env, USDT}"
    by (simp_all add: example_analyzer_def example_purchase_def example_wallet_env_def resolved_swap_plain_def
        SOL_def USDC_def USDT_def)
  note purchase_recorded [OF a' this]
  then show ?thesis
    using a' by (auto simp: example_analyzer_def example_purchase_def resolved_swap_plain_def stats_of_def
        token_of_def wallet_stats_new_def token_stats_default_def)
qed

section \<open>The report never fails\<close>

definition stats_ok :: "wallet_stats \<Rightarrow> bool" where
  "stats_ok st \<longleftrightarrow> store_keys (wst_token_swaps st) \<subseteq> store_keys (wst_token_stats st)"

definition analyzer_ok :: "wallet_analyzer \<Rightarrow> bool" where
  "analyzer_ok a \<longleftrightarrow> (\<forall>(wallet, st) \<in> set (wan_wallet_stats a). stats_ok st)"

lemma and_modify_or_insert_keys [simp]: "store_keys (and_modify_or_insert f d k m) = insert k (store_keys m)"
  by (auto simp: and_modify_or_insert_def split: option.split)

lemma record_swap_ok:
  assumes "record_swap env swap sig t x y st = Inr st'" and "stats_ok st"
    and "rs_input_token_mint swap \<in> store_keys (wst_token_stats st)"
    and "rs_output_token_mint swap \<in> store_keys (wst_token_stats st)"
  shows "stats_ok st'"
  using assms by (auto simp: record_swap_def wallet_record_buy_def wallet_record_sell_def push_swap_def stats_ok_def Let_def
      split: if_splits)

lemma process_wallet_swap_ok:
  assumes "process_wallet_swap env a swap sig t st = (st', r)" and "stats_ok st"
  shows "stats_ok st'"
  using assms
  by (auto simp: process_wallet_swap_def Let_def stats_ok_def split: option.splits sum.splits failure.splits
      dest!: record_swap_ok)

lemma print_wallet_state_total:
  assumes "analyzer_ok a"
  shows "\<exists>reports. print_wallet_state info prices a = Inr reports"
proof -
  have "\<exists>r. wallet_report_of i p st = Inr r" if "stats_ok st" for i p st
  proof -
    let ?m = "map (\<lambda>r. (tex_address r, r)) (map (token_report i p) (wst_token_stats st))"
    have keys: "store_keys ?m = store_keys (wst_token_stats st)"
      by (force simp: store_keys_def token_report_def image_iff Let_def)
    have "\<exists>ys. collect_results (swaps_report ?m) (wst_token_swaps st) = Inr ys"
    proof (rule collect_results_ex)
      fix x assume "x \<in> set (wst_token_swaps st)"
      then have "fst x \<in> store_keys (wst_token_swaps st)" by (simp add: store_keys_def)
      then have "fst x \<in> store_keys ?m" using that unfolding keys by (auto simp: stats_ok_def)
      then obtain r where "store_get ?m (fst x) = Some r" by (auto simp: store_keys_get)
      then show "\<exists>y. swaps_report ?m x = Inr y" by (simp add: swaps_report_def split_beta)
    qed
    then show ?thesis by (auto simp: wallet_report_of_def Let_def)
  qed
  note report = this
  show ?thesis
    unfolding print_wallet_state_def
  proof (rule collect_results_ex)
    fix x assume x: "x \<in> set (wan_wallet_stats a)"
    obtain wallet st where wallet: "x = (wallet, st)" by fastforce
    then have "stats_ok st" using assms x by (auto simp: analyzer_ok_def)
    from report [OF this] obtain r where "wallet_report_of (unwrap_or info []) (unwrap_or prices []) st = Inr r" by blast
    then show "\<exists>y. (case x of (wallet, st) \<Rightarrow>
        bind_res (wallet_report_of (unwrap_or info []) (unwrap_or prices []) st) (\<lambda>r. Inr (wallet, r))) = Inr y"
      by (simp add: wallet)
  qed
qed

text \<open>C32. Whatever swaps a fresh analyzer has processed, in whatever order and whether they failed or not,
  its report succeeds: no token has listed swaps without statistics.\<close>

theorem report_never_fails:
  assumes "wallet_analyzer_new wallets history sol_price = Inr a"
  shows "\<exists>reports. print_wallet_state info prices
     (foldl (\<lambda>a (env, swap, sig, signer, t). fst (process_swap env swap sig signer t a)) a swaps) = Inr reports"
proof -
  have "analyzer_ok (fst (process_swap env swap sig signer t a))" if "analyzer_ok a" for env swap sig signer t a
  proof (cases "signer \<in> wan_wallets a")
    case True
    obtain st r where st: "process_wallet_swap env a swap sig t (stats_of a signer) = (st, r)" by fastforce
    have "stats_ok (stats_of a signer)"
    proof (cases "store_get (wan_wallet_stats a) signer")
      case None
      then show ?thesis by (simp add: stats_of_def wallet_stats_new_def stats_ok_def store_keys_def)
    next
      case (Some st)
      then have "(signer, st) \<in> set (wan_wallet_stats a)" by (simp add: store_get_def map_of_SomeD)
      then show ?thesis using that Some by (auto simp: stats_of_def analyzer_ok_def)
    qed
    then have "stats_ok st" by (rule process_wallet_swap_ok [OF st])
    then have "\<forall>(wallet, st) \<in> set (store_insert (wan_wallet_stats a) signer st). stats_ok st"
      using that by (intro store_insert_all) (auto simp: analyzer_ok_def)
    then show ?thesis using True st by (simp add: process_swap_def stats_of_def analyzer_ok_def)
  qed (simp add: process_swap_def that)
  then have "analyzer_ok (foldl (\<lambda>a (env, swap, sig, signer, t). fst (process_swap env swap sig signer t a)) a swaps)"
    if "analyzer_ok a" for a using that by (induction swaps arbitrary: a) auto
  moreover have "analyzer_ok a" using assms by (auto simp: wallet_analyzer_new_def analyzer_ok_def)
  ultimately show ?thesis by (simp add: print_wallet_state_total)
qed

theorem report_never_fails_witness:
  "\<exists>reports. print_wallet_state None None
     (fst (process_swap example_wallet_env example_purchase 5 7 1000 example_analyzer)) = Inr reports"
  using report_never_fails [of "{7}" "[]" "Some (f64_lit 150)" example_analyzer None None
      "[(example_wallet_env, example_purchase, 5, 7, 1000)]"]
  by (simp add: wallet_analyzer_new_def example_analyzer_def)

end
