(* ===== verification/Files.thy ===== *)
theory Files
  imports Prelude "HOL-Library.Multiset"
begin

text \<open>
  The part of \<open>std::fs\<close> that the storages use (\<^verbatim>\<open>services/copy/storage/file.rs\<close>,
  \<^verbatim>\<open>core/traits/transaction_cache.rs\<close>): directories, files and their contents. A path is the list of its
  components, relative to a working directory that is there. The order in which a directory is listed,
  and entries of a listing that cannot be read, are an argument. Operations fail only where the tree of
  files makes them fail; a full or broken disk is not modelled.
\<close>

type_synonym path = "string list"

record file_system =
  fs_dirs :: "path list"
  fs_files :: "(path, string) store"

datatype io_error = AlreadyExists | NotFound | OtherIo

definition fs_is_dir :: "file_system \<Rightarrow> path \<Rightarrow> bool" where
  "fs_is_dir fs p \<longleftrightarrow> p \<in> set (fs_dirs fs)"

definition fs_exists :: "file_system \<Rightarrow> path \<Rightarrow> bool" where
  "fs_exists fs p \<longleftrightarrow> fs_is_dir fs p \<or> store_get (fs_files fs) p \<noteq> None"

definition fs_has_parent :: "file_system \<Rightarrow> path \<Rightarrow> bool" where
  "fs_has_parent fs p \<longleftrightarrow> p \<noteq> [] \<and> (butlast p = [] \<or> fs_is_dir fs (butlast p))"

definition create_dir :: "path \<Rightarrow> file_system \<Rightarrow> io_error + file_system" where
  "create_dir p fs =
     (if fs_exists fs p then Inl AlreadyExists
      else if fs_has_parent fs p then Inr (fs\<lparr>fs_dirs := fs_dirs fs @ [p]\<rparr>)
      else Inl NotFound)"

definition fs_write :: "path \<Rightarrow> string \<Rightarrow> file_system \<Rightarrow> io_error + file_system" where
  "fs_write p content fs =
     (if fs_is_dir fs p then Inl OtherIo
      else if fs_has_parent fs p then Inr (fs\<lparr>fs_files := store_insert (fs_files fs) p content\<rparr>)
      else Inl NotFound)"

definition fs_read :: "path \<Rightarrow> file_system \<Rightarrow> io_error + string" where
  "fs_read p fs =
     (if fs_is_dir fs p then Inl OtherIo
      else case store_get (fs_files fs) p of Some content \<Rightarrow> Inr content | None \<Rightarrow> Inl NotFound)"

definition fs_entries :: "file_system \<Rightarrow> path \<Rightarrow> path list" where
  "fs_entries fs p = filter (\<lambda>q. q \<noteq> [] \<and> butlast q = p) (fs_dirs fs @ map fst (fs_files fs))"

definition fs_read_dir ::
  "(path \<Rightarrow> path list \<Rightarrow> path option list) \<Rightarrow> path \<Rightarrow> file_system \<Rightarrow> io_error + path option list" where
  "fs_read_dir listing p fs = (if fs_is_dir fs p then Inr (listing p (fs_entries fs p)) else Inl NotFound)"

text \<open>\<open>?\<close> on an \<open>io::Error\<close>.\<close>

definition io_result :: "(io_error + 'a) \<Rightarrow> 'a result" where
  "io_result r = (case r of Inl e \<Rightarrow> Inl (Error ''io error'') | Inr x \<Rightarrow> Inr x)"

text \<open>Both storages have the same helper.\<close>

definition make_dir_if_not_exists :: "path \<Rightarrow> file_system \<Rightarrow> file_system result" where
  "make_dir_if_not_exists p fs = (case create_dir p fs of
     Inr fs \<Rightarrow> Inr fs
   | Inl AlreadyExists \<Rightarrow> Inr fs
   | Inl e \<Rightarrow> Inl (Error ''io error''))"

text \<open>The loop over the entries of a directory that skips the ones that cannot be read.\<close>

definition for_entries ::
  "(path \<Rightarrow> path list \<Rightarrow> path option list) \<Rightarrow> path \<Rightarrow> file_system \<Rightarrow> (path \<Rightarrow> 's \<Rightarrow> 's result) \<Rightarrow> 's \<Rightarrow> 's result" where
  "for_entries listing p fs f s =
     bind_res (io_result (fs_read_dir listing p fs))
       (\<lambda>entries. fold_res (\<lambda>dir_entry s. case dir_entry of Some q \<Rightarrow> f q s | None \<Rightarrow> Inr s) entries s)"

text \<open>A number in decimal.\<close>

fun decimal :: "nat \<Rightarrow> string" where
  "decimal n = (if n < 10 then [char_of (48 + n)] else decimal (n div 10) @ [char_of (48 + n mod 10)])"

declare decimal.simps [simp del]

definition parse_decimal :: "string \<Rightarrow> nat" where
  "parse_decimal s = foldl (\<lambda>a c. 10 * a + (of_char c - 48)) 0 s"

section \<open>Facts\<close>

lemma parse_decimal_digit: "d < 10 \<Longrightarrow> of_char (char_of (48 + d) :: char) = (48 + d :: nat)"
  by (simp add: of_char_of)

lemma parse_decimal: "parse_decimal (decimal n) = n"
proof (induction n rule: decimal.induct)
  case (1 n)
  show ?case
  proof (cases "n < 10")
    case True
    then show ?thesis by (subst decimal.simps) (simp add: parse_decimal_def parse_decimal_digit)
  next
    case False
    then have "parse_decimal (decimal (n div 10)) = n div 10" by (rule "1.IH")
    then show ?thesis
      using False by (subst decimal.simps) (simp add: parse_decimal_def parse_decimal_digit)
  qed
qed

lemma decimal_inj [simp]: "decimal m = decimal n \<longleftrightarrow> m = n"
  by (metis parse_decimal)

lemma decimal_chars: "c \<in> set (decimal n) \<Longrightarrow> 48 \<le> (of_char c :: nat)"
proof (induction n rule: decimal.induct)
  case (1 n)
  show ?case
  proof (cases "n < 10")
    case True
    then have "c = char_of (48 + n)" using "1.prems" by (subst (asm) decimal.simps) simp
    then show ?thesis using True by (simp only: parse_decimal_digit)
  next
    case False
    then have "c \<in> set (decimal (n div 10)) \<or> c = char_of (48 + n mod 10)"
      using "1.prems" decimal.simps [of n] by (simp, blast)
    then show ?thesis using "1.IH" [OF False] parse_decimal_digit [of "n mod 10"] by auto
  qed
qed

lemma decimal_no_slash: "CHR ''/'' \<notin> set (decimal n)" "CHR ''.'' \<notin> set (decimal n)"
  using decimal_chars by fastforce+

lemma map_filter_map_Some [simp]: "List.map_filter id (map Some xs) = xs"
  by (induction xs) (simp_all add: List.map_filter_simps)

text \<open>A listing that holds each entry once, among entries that cannot be read.\<close>

definition listing_ok :: "(path \<Rightarrow> path list \<Rightarrow> path option list) \<Rightarrow> bool" where
  "listing_ok listing \<longleftrightarrow> (\<forall>p qs. mset (List.map_filter id (listing p qs)) = mset qs)"

definition fs_ok :: "file_system \<Rightarrow> bool" where
  "fs_ok fs \<longleftrightarrow> distinct (fs_dirs fs @ map fst (fs_files fs))"

lemma fs_ok_store: "fs_ok fs \<Longrightarrow> store_ok (fs_files fs)"
  by (simp add: fs_ok_def store_ok_def)

lemma make_dir_ok:
  assumes "fs_has_parent fs p" and "store_get (fs_files fs) p = None" and "fs_ok fs"
  obtains fs' where "make_dir_if_not_exists p fs = Inr fs'" and "fs_ok fs'" and "fs_files fs' = fs_files fs"
    and "set (fs_dirs fs') = insert p (set (fs_dirs fs))"
proof (cases "fs_is_dir fs p")
  case True
  then have "make_dir_if_not_exists p fs = Inr fs"
    by (simp add: make_dir_if_not_exists_def create_dir_def fs_exists_def)
  moreover have "set (fs_dirs fs) = insert p (set (fs_dirs fs))" using True by (auto simp: fs_is_dir_def)
  ultimately show ?thesis using that assms(3) by blast
next
  case False
  let ?fs = "fs\<lparr>fs_dirs := fs_dirs fs @ [p]\<rparr>"
  have "make_dir_if_not_exists p fs = Inr ?fs"
    using False assms(1,2) by (simp add: make_dir_if_not_exists_def create_dir_def fs_exists_def)
  moreover have "fs_ok ?fs"
    using False assms(2,3) by (auto simp: fs_ok_def fs_is_dir_def store_get_None_iff)
  ultimately show ?thesis using that by simp
qed

lemma fs_write_ok:
  assumes "\<not> fs_is_dir fs p" and "fs_has_parent fs p" and "fs_ok fs"
  shows "\<exists>fs'. fs_write p content fs = Inr fs' \<and> fs_ok fs' \<and> fs_dirs fs' = fs_dirs fs
    \<and> fs_files fs' = store_insert (fs_files fs) p content"
proof -
  have "set (map fst (store_insert (fs_files fs) p content)) = insert p (set (map fst (fs_files fs)))"
    using store_keys_insert [of "fs_files fs" p content] by (simp add: store_keys_def)
  then have "fs_ok (fs\<lparr>fs_files := store_insert (fs_files fs) p content\<rparr>)"
    using assms(1,3) store_ok_insert [OF fs_ok_store [OF assms(3)], of p content]
    by (auto simp: fs_ok_def fs_is_dir_def store_ok_def)
  then show ?thesis using assms(1,2) by (simp add: fs_write_def)
qed

lemma set_fs_entries:
  "q \<in> set (fs_entries fs p) \<longleftrightarrow> q \<noteq> [] \<and> butlast q = p \<and> (fs_is_dir fs q \<or> store_get (fs_files fs) q \<noteq> None)"
  using store_get_None_iff [of "fs_files fs" q] by (auto simp: fs_entries_def fs_is_dir_def)

lemma fold_res_skip:
  "fold_res (\<lambda>e s. case e of Some q \<Rightarrow> f q s | None \<Rightarrow> Inr s) es s = fold_res f (List.map_filter id es) s"
  by (induction es arbitrary: s) (auto simp: List.map_filter_simps bind_res_def split: option.splits sum.splits)

text \<open>The entries that the loop meets.\<close>

definition listed :: "(path \<Rightarrow> path list \<Rightarrow> path option list) \<Rightarrow> file_system \<Rightarrow> path \<Rightarrow> path list" where
  "listed listing fs p = List.map_filter id (listing p (fs_entries fs p))"

lemma for_entries_listed:
  "fs_is_dir fs p \<Longrightarrow> for_entries listing p fs f s = fold_res f (listed listing fs p) s"
  by (simp add: for_entries_def io_result_def fs_read_dir_def listed_def fold_res_skip)

lemma listed_ok:
  assumes "listing_ok listing"
  shows "mset (listed listing fs p) = mset (fs_entries fs p)"
  using assms by (simp add: listing_ok_def listed_def)

lemma set_listed:
  assumes "listing_ok listing"
  shows "q \<in> set (listed listing fs p)
    \<longleftrightarrow> q \<noteq> [] \<and> butlast q = p \<and> (fs_is_dir fs q \<or> store_get (fs_files fs) q \<noteq> None)"
  using mset_eq_setD [OF listed_ok [OF assms, of fs p]] by (simp add: set_fs_entries)

lemma distinct_listed:
  assumes "listing_ok listing" and "fs_ok fs"
  shows "distinct (listed listing fs p)"
proof -
  have "distinct (fs_entries fs p)" using assms(2) by (simp add: fs_ok_def fs_entries_def del: filter_append)
  then show ?thesis using mset_eq_imp_distinct_iff [OF listed_ok [OF assms(1), of fs p]] by simp
qed

lemma distinct_concat_listed:
  assumes "listing_ok listing" and "fs_ok fs" and "distinct ps"
  shows "distinct (concat (map (listed listing fs) ps))"
  using assms(3)
proof (induction ps)
  case (Cons p ps)
  have "set (listed listing fs p) \<inter> set (concat (map (listed listing fs) ps)) = {}"
    using Cons.prems by (auto simp: set_listed [OF assms(1)])
  then show ?case using Cons distinct_listed [OF assms(1,2)] by simp
qed simp

end
