(* ===== verification/Trade_Storage.thy ===== *)
theory Trade_Storage
  imports Files History
begin

text \<open>
  The trades on disk (\<^verbatim>\<open>services/copy/storage/file.rs\<close>): a directory per wallet, in it a directory per
  token, in it a file per trade that is named after the time it was stored. The copy service stores
  every recorded trade and rebuilds its history from the files when it starts. The format of the files
  (\<open>serde_json\<close>) and the text of a public key are arguments.
\<close>

record storage_env =
  se_listing :: "path \<Rightarrow> path list \<Rightarrow> path option list"
  se_to_string :: "pubkey \<Rightarrow> string"
  se_from_str :: "string \<Rightarrow> pubkey option"
  se_to_json :: "copy_trade \<Rightarrow> string option"
  se_from_json :: "string \<Rightarrow> copy_trade option"

text \<open>\<open>FileStorage::create\<close>; the storage is its root directory.\<close>

definition file_storage_create :: "path \<Rightarrow> file_system \<Rightarrow> file_system result" where
  "file_storage_create base fs = make_dir_if_not_exists base fs"

text \<open>\<open>now\<close> is the clock in microseconds since the epoch, negative before it. What was made before an
  error stays.\<close>

definition file_insert_trade ::
  "storage_env \<Rightarrow> path \<Rightarrow> int \<Rightarrow> copy_trade \<Rightarrow> file_system \<Rightarrow> file_system \<times> unit result" where
  "file_insert_trade env base now trade fs =
     (let wallet_path = base @ [se_to_string env (ct_origin_wallet trade)]
      in case make_dir_if_not_exists wallet_path fs of
        Inl e \<Rightarrow> (fs, Inl e)
      | Inr fs \<Rightarrow>
     let token_path = wallet_path @ [se_to_string env (ct_token trade)]
     in (case make_dir_if_not_exists token_path fs of
        Inl e \<Rightarrow> (fs, Inl e)
      | Inr fs \<Rightarrow>
     if now < 0 then (fs, Inl (Error ''second time provided was later than self''))
     else
     (case ok_or (se_to_json env trade) ''json error'' of
        Inl e \<Rightarrow> (fs, Inl e)
      | Inr content \<Rightarrow>
     (case io_result (fs_write (token_path @ [decimal (nat now) @ ''.json'']) content fs) of
        Inl e \<Rightarrow> (fs, Inl e)
      | Inr fs \<Rightarrow> (fs, Inr ())))))"

text \<open>\<open>trim_end_matches(".json")\<close>, on the reversed text.\<close>

function trim_start_nosj :: "string \<Rightarrow> string" where
  "trim_start_nosj s = (if take 5 s = ''nosj.'' then trim_start_nosj (drop 5 s) else s)"
  by pat_completeness auto
termination by (relation "measure length") (auto split: nat.split, metis diff_less length_greater_0_conv less_numeral_extra(3) list.discI take_Nil take_eq_Nil2 zero_less_numeral)

declare trim_start_nosj.simps [simp del]

definition trim_end_json :: "string \<Rightarrow> string" where
  "trim_end_json s = rev (trim_start_nosj (rev s))"

definition load_trade_file ::
  "storage_env \<Rightarrow> file_system \<Rightarrow> pubkey \<Rightarrow> pubkey \<Rightarrow> path \<Rightarrow> historical_trades \<Rightarrow> historical_trades result" where
  "load_trade_file env fs origin_wallet tok p h =
     bind_res (io_result (fs_read p fs)) (\<lambda>content.
     bind_res (ok_or (se_from_json env content) ''json error'') (\<lambda>trade.
     let v = ct_volume trade
     in insert_trade_inner h origin_wallet tok (tv_exec_volume_token v) (tv_origin_volume_token v)
          (tv_exec_volume_usd v) (tv_origin_volume_usd v) (tv_exec_volume_sol v) (tv_origin_volume_sol v)
          (tv_dust_token_amount v) (ct_direction trade)))"

definition load_token_dir ::
  "storage_env \<Rightarrow> file_system \<Rightarrow> pubkey \<Rightarrow> path \<Rightarrow> historical_trades \<Rightarrow> historical_trades result" where
  "load_token_dir env fs origin_wallet p h =
     (if \<not> fs_is_dir fs p then Inr h
      else bind_res (ok_or (se_from_str env (trim_end_json (last p))) ''invalid token'') (\<lambda>tok.
           for_entries (se_listing env) p fs (load_trade_file env fs origin_wallet tok) h))"

definition load_wallet_dir :: "storage_env \<Rightarrow> file_system \<Rightarrow> path \<Rightarrow> historical_trades \<Rightarrow> historical_trades result" where
  "load_wallet_dir env fs p h =
     (if \<not> fs_is_dir fs p then Inr h
      else bind_res (ok_or (se_from_str env (last p)) ''invalid wallet'') (\<lambda>origin_wallet.
           for_entries (se_listing env) p fs (load_token_dir env fs origin_wallet) h))"

definition file_bootstrap_history :: "storage_env \<Rightarrow> path \<Rightarrow> file_system \<Rightarrow> historical_trades result" where
  "file_bootstrap_history env base fs = for_entries (se_listing env) base fs (load_wallet_dir env fs) []"

text \<open>The storage task of the service: an error is logged and the next trade is stored.\<close>

definition store_trades :: "storage_env \<Rightarrow> path \<Rightarrow> (int \<times> copy_trade) list \<Rightarrow> file_system \<Rightarrow> file_system" where
  "store_trades env base trades fs = foldl (\<lambda>fs (now, trade). fst (file_insert_trade env base now trade fs)) fs trades"

section \<open>What is on disk\<close>

definition trade_name :: "storage_env \<Rightarrow> int \<times> copy_trade \<Rightarrow> path" where
  "trade_name env = (\<lambda>(now, trade). [se_to_string env (ct_origin_wallet trade), se_to_string env (ct_token trade),
     decimal (nat now) @ ''.json''])"

text \<open>JSON has no number for an infinite or undefined volume. It is written as \<open>null\<close>, which is read as
  undefined for the volumes of the wallet and refused for those of the bot. Keys and amounts are read as
  they were written; values in USD and SOL may lose their last digit.\<close>

definition f64_finite :: "f64 \<Rightarrow> bool" where
  "f64_finite x = (case x of Finite s r \<Rightarrow> True | _ \<Rightarrow> False)"

definition trade_readable :: "copy_trade \<Rightarrow> bool" where
  "trade_readable trade \<longleftrightarrow>
     (let v = ct_volume trade
      in f64_finite (tv_exec_volume_usd v) \<and> f64_finite (tv_exec_volume_sol v)
       \<and> (f64_finite (tv_origin_volume_usd v) \<or> tv_origin_volume_usd v = NaN)
       \<and> (f64_finite (tv_origin_volume_sol v) \<or> tv_origin_volume_sol v = NaN))"

definition trade_of :: "copy_trade \<Rightarrow> trade" where
  "trade_of t = (let v = ct_volume t in \<lparr>tr_wallet = ct_origin_wallet t, tr_token = ct_token t,
     tr_exec = tv_exec_volume_token v, tr_origin = tv_origin_volume_token v, tr_exec_usd = tv_exec_volume_usd v,
     tr_origin_usd = tv_origin_volume_usd v, tr_exec_sol = tv_exec_volume_sol v, tr_origin_sol = tv_origin_volume_sol v,
     tr_dust = tv_dust_token_amount v, tr_dir = ct_direction t\<rparr>)"

definition trade_counts :: "trade \<Rightarrow> pubkey \<times> pubkey \<times> u64 \<times> u64 \<times> u64 \<times> trade_direction" where
  "trade_counts t = (tr_wallet t, tr_token t, tr_exec t, tr_origin t, tr_dust t, tr_dir t)"

definition storage_faithful :: "storage_env \<Rightarrow> bool" where
  "storage_faithful env \<longleftrightarrow> listing_ok (se_listing env)
     \<and> (\<forall>k. se_from_str env (se_to_string env k) = Some k \<and> CHR ''.'' \<notin> set (se_to_string env k))
     \<and> (\<forall>trade. trade_readable trade
          \<longrightarrow> (\<exists>content trade'. se_to_json env trade = Some content \<and> se_from_json env content = Some trade'
                \<and> trade_counts (trade_of trade') = trade_counts (trade_of trade)))"

text \<open>The directories and files of a storage that holds some trades, each under a time of its own.\<close>

definition storage_holds :: "storage_env \<Rightarrow> path \<Rightarrow> (int \<times> copy_trade) list \<Rightarrow> file_system \<Rightarrow> bool" where
  "storage_holds env base trades fs \<longleftrightarrow> fs_ok fs \<and> distinct (map (trade_name env) trades)
     \<and> set (fs_dirs fs) = {base} \<union> (\<lambda>t. base @ take 1 (trade_name env t)) ` set trades
         \<union> (\<lambda>t. base @ take 2 (trade_name env t)) ` set trades
     \<and> (\<forall>p. store_get (fs_files fs) p \<noteq> None \<longleftrightarrow> p \<in> (\<lambda>t. base @ trade_name env t) ` set trades)
     \<and> (\<forall>t \<in> set trades. store_get (fs_files fs) (base @ trade_name env t) = se_to_json env (snd t))"

lemma storage_name_inj: "storage_faithful env \<Longrightarrow> se_to_string env a = se_to_string env b \<longleftrightarrow> a = b"
  unfolding storage_faithful_def by (metis option.inject)

lemma trade_name_simps:
  "trade_name env (now, trade) = [se_to_string env (ct_origin_wallet trade), se_to_string env (ct_token trade),
     decimal (nat now) @ ''.json'']"
  "length (trade_name env t) = 3"
  by (simp_all add: trade_name_def split: prod.split)

lemma trim_end_json_id: "CHR ''.'' \<notin> set s \<Longrightarrow> trim_end_json s = s"
proof -
  assume "CHR ''.'' \<notin> set s"
  then have "take 5 (rev s) \<noteq> ''nosj.''"
    by (metis in_set_takeD list.set_intros(1,2) set_rev)
  then show ?thesis unfolding trim_end_json_def by (subst trim_start_nosj.simps) simp
qed

lemma storage_holds_facts:
  assumes "storage_holds env base trades fs"
  shows "fs_ok fs" and "base \<in> set (fs_dirs fs)"
    and "length p \<noteq> length base + 3 \<Longrightarrow> store_get (fs_files fs) p = None"
proof -
  assume "length p \<noteq> length base + 3"
  then have "p \<notin> (\<lambda>t. base @ trade_name env t) ` set trades" by (auto simp: trade_name_simps)
  then show "store_get (fs_files fs) p = None" using assms unfolding storage_holds_def by blast
qed (use assms in \<open>simp_all add: storage_holds_def\<close>)

lemma storage_dirs_length:
  assumes "storage_holds env base trades fs" and "p \<in> set (fs_dirs fs)"
  shows "length p \<le> length base + 2"
proof -
  have "p \<in> {base} \<union> (\<lambda>t. base @ take 1 (trade_name env t)) ` set trades
      \<union> (\<lambda>t. base @ take 2 (trade_name env t)) ` set trades"
    using assms by (simp add: storage_holds_def)
  then show ?thesis by (auto simp: trade_name_simps)
qed

lemma file_insert_trade_holds:
  assumes "storage_faithful env" and "base \<noteq> []" and "storage_holds env base trades fs"
    and "trade_name env (now, trade) \<notin> trade_name env ` set trades" and "trade_readable trade" and "0 \<le> now"
  shows "\<exists>fs'. file_insert_trade env base now trade fs = (fs', Inr ())
    \<and> storage_holds env base (trades @ [(now, trade)]) fs'"
proof -
  let ?n = "trade_name env (now, trade)" and ?p1 = "base @ take 1 (trade_name env (now, trade))"
  let ?p2 = "base @ take 2 (trade_name env (now, trade))"
  note holds = storage_holds_facts [OF assms(3)] and dirs = storage_dirs_length [OF assms(3)]
  have no_file: "store_get (fs_files fs) ?p1 = None" "store_get (fs_files fs) ?p2 = None"
    by (rule holds(3), simp add: trade_name_simps)+
  have "fs_has_parent fs ?p1"
    using holds(2) by (simp add: fs_has_parent_def fs_is_dir_def trade_name_simps butlast_append)
  then obtain f1 where f1: "make_dir_if_not_exists ?p1 fs = Inr f1" "fs_ok f1" "fs_files f1 = fs_files fs"
      "set (fs_dirs f1) = insert ?p1 (set (fs_dirs fs))"
    using no_file(1) holds(1) by (rule make_dir_ok)
  have "fs_has_parent f1 ?p2"
    by (simp add: fs_has_parent_def fs_is_dir_def trade_name_simps butlast_append f1(4))
  then obtain f2 where f2: "make_dir_if_not_exists ?p2 f1 = Inr f2" "fs_ok f2" "fs_files f2 = fs_files fs"
      "set (fs_dirs f2) = insert ?p2 (insert ?p1 (set (fs_dirs fs)))"
    using no_file(2) f1 by (metis make_dir_ok)
  obtain content where c: "se_to_json env trade = Some content"
    using assms(1,5) by (auto simp: storage_faithful_def)
  have "\<not> fs_is_dir f2 (base @ ?n)"
    using dirs [of "base @ ?n"] by (auto simp: fs_is_dir_def f2(4) trade_name_simps)
  moreover have "fs_has_parent f2 (base @ ?n)"
    by (simp add: fs_has_parent_def fs_is_dir_def trade_name_simps butlast_append f2(4))
  ultimately obtain f3 where f3: "fs_write (base @ ?n) content f2 = Inr f3" "fs_ok f3" "fs_dirs f3 = fs_dirs f2"
      "fs_files f3 = store_insert (fs_files fs) (base @ ?n) content"
    using fs_write_ok [of f2 "base @ ?n" content] f2 by auto
  have "file_insert_trade env base now trade fs = (f3, Inr ())"
    using f1(1) f2(1) f3(1) assms(6) by (simp add: file_insert_trade_def trade_name_simps Let_def c io_result_def)
  moreover have new: "trade_name env t \<noteq> ?n" if "t \<in> set trades" for t
    using assms(4) imageI [OF that, of "trade_name env"] by metis
  have "storage_holds env base (trades @ [(now, trade)]) f3"
    using assms(3,4) c new by (auto simp: storage_holds_def f3 f2(4))
  ultimately show ?thesis by blast
qed

section \<open>Reading it back\<close>

lemma children_of_storage:
  assumes "storage_holds env base trades fs" and "listing_ok listing" and "p \<in> set (listed listing fs q)"
  shows "length q = length base \<Longrightarrow> fs_is_dir fs p \<and> (\<exists>t \<in> set trades. p = base @ take 1 (trade_name env t))"
    and "length q = length base + 1 \<Longrightarrow> fs_is_dir fs p \<and> (\<exists>t \<in> set trades. p = base @ take 2 (trade_name env t))"
    and "length q = length base + 2 \<Longrightarrow> \<not> fs_is_dir fs p \<and> (\<exists>t \<in> set trades. p = base @ trade_name env t)"
proof -
  have p: "p \<noteq> []" "butlast p = q" "fs_is_dir fs p \<or> store_get (fs_files fs) p \<noteq> None"
    using assms(3) by (simp_all add: set_listed [OF assms(2)])
  then have len: "length p = length q + 1" by auto
  have dirs: "fs_is_dir fs p \<longleftrightarrow> p \<in> {base} \<union> (\<lambda>t. base @ take 1 (trade_name env t)) ` set trades
      \<union> (\<lambda>t. base @ take 2 (trade_name env t)) ` set trades"
    using assms(1) by (simp add: storage_holds_def fs_is_dir_def)
  have files: "store_get (fs_files fs) p \<noteq> None \<longleftrightarrow> p \<in> (\<lambda>t. base @ trade_name env t) ` set trades"
    using assms(1) by (simp only: storage_holds_def)
  show "fs_is_dir fs p \<and> (\<exists>t \<in> set trades. p = base @ take 1 (trade_name env t))" if "length q = length base"
    using p(3) len that unfolding files unfolding dirs by (auto simp: trade_name_simps)
  show "fs_is_dir fs p \<and> (\<exists>t \<in> set trades. p = base @ take 2 (trade_name env t))" if "length q = length base + 1"
    using p(3) len that unfolding files unfolding dirs by (auto simp: trade_name_simps)
  show "\<not> fs_is_dir fs p \<and> (\<exists>t \<in> set trades. p = base @ trade_name env t)" if "length q = length base + 2"
    using p(3) len that unfolding files unfolding dirs by (auto simp: trade_name_simps)
qed

definition file_trade :: "storage_env \<Rightarrow> file_system \<Rightarrow> path \<Rightarrow> trade" where
  "file_trade env fs p = trade_of (the (se_from_json env (the (store_get (fs_files fs) p))))"

text \<open>The trades that can be read back, and that the history does not refuse.\<close>

definition tradeable :: "copy_trade \<Rightarrow> bool" where
  "tradeable t \<longleftrightarrow> trade_readable t \<and> \<not> is_static_token (ct_token t)"

lemma load_trade_file_eq:
  assumes "storage_faithful env" and "storage_holds env base trades fs" and "t \<in> set trades" and "tradeable (snd t)"
    and "\<not> fs_is_dir fs (base @ trade_name env t)"
  shows "trade_counts (file_trade env fs (base @ trade_name env t)) = trade_counts (trade_of (snd t))"
    and "load_trade_file env fs (ct_origin_wallet (snd t)) (ct_token (snd t)) (base @ trade_name env t) h
      = Inr (apply_trade h (file_trade env fs (base @ trade_name env t)))"
proof -
  obtain content u where c: "se_to_json env (snd t) = Some content" "se_from_json env content = Some u"
      and u: "trade_counts (trade_of u) = trade_counts (trade_of (snd t))"
    using assms(1,4) by (auto simp: storage_faithful_def tradeable_def)
  have "store_get (fs_files fs) (base @ trade_name env t) = se_to_json env (snd t)"
    using assms(2,3) by (simp add: storage_holds_def)
  then have g: "store_get (fs_files fs) (base @ trade_name env t) = Some content" by (simp add: c)
  show "trade_counts (file_trade env fs (base @ trade_name env t)) = trade_counts (trade_of (snd t))"
    by (simp add: file_trade_def g c u)
  show "load_trade_file env fs (ct_origin_wallet (snd t)) (ct_token (snd t)) (base @ trade_name env t) h
      = Inr (apply_trade h (file_trade env fs (base @ trade_name env t)))"
    using assms(4,5) u
    by (auto simp: load_trade_file_def fs_read_def g c io_result_def apply_trade_def trade_of_def Let_def tradeable_def
        insert_trade_inner_def file_trade_def trade_counts_def split: sum.splits trade_direction.splits)
qed

lemma load_token_dir_eq:
  assumes "storage_faithful env" and "storage_holds env base trades fs" and "\<forall>t \<in> set trades. tradeable (snd t)"
    and "fs_is_dir fs q" and "q = base @ [se_to_string env w, se_to_string env k]"
  shows "load_token_dir env fs w q h
    = Inr (foldl apply_trade h (map (file_trade env fs) (listed (se_listing env) fs q)))"
proof -
  have str: "se_from_str env (trim_end_json (se_to_string env k)) = Some k" and ok: "listing_ok (se_listing env)"
    using assms(1) by (simp_all add: storage_faithful_def trim_end_json_id)
  have "load_trade_file env fs w k p h = Inr (foldl apply_trade h [file_trade env fs p])"
    if p: "p \<in> set (listed (se_listing env) fs q)" for p h
  proof -
    obtain t where t: "t \<in> set trades" "p = base @ trade_name env t" "\<not> fs_is_dir fs p"
      using children_of_storage(3) [OF assms(2) ok p] assms(5) by auto
    have "butlast p = q" using p by (simp add: set_listed [OF ok])
    then have "ct_origin_wallet (snd t) = w" "ct_token (snd t) = k"
      using storage_name_inj [OF assms(1)] unfolding t(2) assms(5)
      by (auto simp: trade_name_def butlast_append split: prod.splits)
    then show ?thesis
      using load_trade_file_eq [OF assms(1,2) t(1)] assms(3) t by auto
  qed
  then have "fold_res (load_trade_file env fs w k) (listed (se_listing env) fs q) h
      = Inr (foldl apply_trade h (concat (map (\<lambda>p. [file_trade env fs p]) (listed (se_listing env) fs q))))"
    by (rule fold_res_foldl)
  then show ?thesis
    using assms(4) by (simp add: load_token_dir_def for_entries_listed assms(5) str)
qed

lemma load_wallet_dir_eq:
  assumes "storage_faithful env" and "storage_holds env base trades fs" and "\<forall>t \<in> set trades. tradeable (snd t)"
    and "fs_is_dir fs q" and "q = base @ [se_to_string env w]"
  shows "load_wallet_dir env fs q h = Inr (foldl apply_trade h
    (map (file_trade env fs) (concat (map (listed (se_listing env) fs) (listed (se_listing env) fs q)))))"
proof -
  have str: "se_from_str env (se_to_string env w) = Some w" and ok: "listing_ok (se_listing env)"
    using assms(1) by (simp_all add: storage_faithful_def)
  have "load_token_dir env fs w p h = Inr (foldl apply_trade h (map (file_trade env fs) (listed (se_listing env) fs p)))"
    if p: "p \<in> set (listed (se_listing env) fs q)" for p h
  proof -
    obtain t where t: "t \<in> set trades" "p = base @ take 2 (trade_name env t)" "fs_is_dir fs p"
      using children_of_storage(2) [OF assms(2) ok p] assms(5) by auto
    have "butlast p = q" using p by (simp add: set_listed [OF ok])
    then have "p = base @ [se_to_string env w, se_to_string env (ct_token (snd t))]"
      unfolding t(2) assms(5) by (auto simp: trade_name_def butlast_append split: prod.splits)
    then show ?thesis by (rule load_token_dir_eq [OF assms(1-3) t(3)])
  qed
  then have "fold_res (load_token_dir env fs w) (listed (se_listing env) fs q) h = Inr (foldl apply_trade h
      (concat (map (\<lambda>p. map (file_trade env fs) (listed (se_listing env) fs p)) (listed (se_listing env) fs q))))"
    by (rule fold_res_foldl)
  then show ?thesis
    using assms(4) by (simp add: load_wallet_dir_def for_entries_listed assms(5) str map_concat comp_def)
qed

text \<open>The files of a storage in the order in which they are read.\<close>

definition stored_files :: "storage_env \<Rightarrow> path \<Rightarrow> file_system \<Rightarrow> path list" where
  "stored_files env base fs = concat (map (listed (se_listing env) fs)
     (concat (map (listed (se_listing env) fs) (listed (se_listing env) fs base))))"

lemma concat_concat_map: "concat (map (\<lambda>x. concat (map f (g x))) xs) = concat (map f (concat (map g xs)))"
  by (induction xs) simp_all

lemma concat_map_map: "concat (map (\<lambda>x. map f (g x)) xs) = map f (concat (map g xs))"
  by (induction xs) simp_all

lemma bootstrap_reads_stored_files:
  assumes "storage_faithful env" and "storage_holds env base trades fs" and "\<forall>t \<in> set trades. tradeable (snd t)"
  shows "file_bootstrap_history env base fs = Inr (foldl apply_trade [] (map (file_trade env fs) (stored_files env base fs)))"
proof -
  let ?l = "listed (se_listing env) fs"
  have ok: "listing_ok (se_listing env)" using assms(1) by (simp add: storage_faithful_def)
  have "load_wallet_dir env fs p h = Inr (foldl apply_trade h (map (file_trade env fs) (concat (map ?l (?l p)))))"
    if p: "p \<in> set (?l base)" for p h
  proof -
    obtain t where t: "t \<in> set trades" "p = base @ take 1 (trade_name env t)" "fs_is_dir fs p"
      using children_of_storage(1) [OF assms(2) ok p] by auto
    then have "p = base @ [se_to_string env (ct_origin_wallet (snd t))]"
      by (auto simp: trade_name_def split: prod.splits)
    then show ?thesis by (rule load_wallet_dir_eq [OF assms t(3)])
  qed
  then have "fold_res (load_wallet_dir env fs) (?l base) [] = Inr (foldl apply_trade []
      (concat (map (\<lambda>p. map (file_trade env fs) (concat (map ?l (?l p)))) (?l base))))"
    by (rule fold_res_foldl)
  moreover have "fs_is_dir fs base" using storage_holds_facts(2) [OF assms(2)] by (simp add: fs_is_dir_def)
  ultimately show ?thesis
    by (simp only: file_bootstrap_history_def for_entries_listed stored_files_def concat_concat_map concat_map_map)
qed

lemma stored_files_all:
  assumes "storage_faithful env" and "storage_holds env base trades fs" and "base \<noteq> []"
  shows "mset (stored_files env base fs) = mset (map (\<lambda>t. base @ trade_name env t) trades)"
proof -
  have ok: "listing_ok (se_listing env)" using assms(1) by (simp add: storage_faithful_def)
  note child = children_of_storage [OF assms(2) ok] and fs = storage_holds_facts(1) [OF assms(2)]
  have "set (stored_files env base fs) = (\<lambda>t. base @ trade_name env t) ` set trades" (is "?A = ?B")
  proof
    show "?A \<subseteq> ?B"
    proof
      fix p assume "p \<in> ?A"
      then obtain q r where p: "p \<in> set (listed (se_listing env) fs q)" and q: "q \<in> set (listed (se_listing env) fs r)"
          and r: "r \<in> set (listed (se_listing env) fs base)" by (auto simp: stored_files_def)
      have "length r = length base + 1" using child(1) [OF r] by (auto simp: trade_name_simps)
      then have "length q = length base + 2" using child(2) [OF q] by (auto simp: trade_name_simps)
      then show "p \<in> ?B" using child(3) [OF p] by blast
    qed
    show "?B \<subseteq> ?A"
    proof
      fix p assume "p \<in> ?B"
      then obtain t where t: "t \<in> set trades" "p = base @ trade_name env t" by blast
      have "fs_is_dir fs (base @ take 1 (trade_name env t))" "fs_is_dir fs (base @ take 2 (trade_name env t))"
        using assms(2) t(1) unfolding storage_holds_def fs_is_dir_def by blast+
      moreover have "store_get (fs_files fs) p \<noteq> None"
        using assms(2) t unfolding storage_holds_def by blast
      ultimately have "p \<in> set (listed (se_listing env) fs (base @ take 2 (trade_name env t)))"
          "base @ take 2 (trade_name env t) \<in> set (listed (se_listing env) fs (base @ take 1 (trade_name env t)))"
          "base @ take 1 (trade_name env t) \<in> set (listed (se_listing env) fs base)"
        by (auto simp: set_listed [OF ok] t(2) trade_name_def butlast_append split: prod.splits)
      then show "p \<in> ?A" unfolding stored_files_def set_concat set_map by blast
    qed
  qed
  moreover have "distinct (stored_files env base fs)"
    unfolding stored_files_def
    by (intro distinct_concat_listed [OF ok fs] distinct_listed [OF ok fs])
  moreover have "distinct (map (\<lambda>t. base @ trade_name env t) trades)"
    using assms(2) by (simp add: storage_holds_def distinct_map inj_on_def)
  ultimately show ?thesis by (simp add: set_eq_iff_mset_eq_distinct [symmetric] del: mset_map)
qed

section \<open>Restarting\<close>

lemma store_trades_holds:
  assumes "storage_faithful env" and "base \<noteq> []" and "storage_holds env base old fs"
    and "distinct (map (trade_name env) (old @ trades))" and "\<forall>(now, t) \<in> set trades. 0 \<le> now \<and> tradeable t"
  shows "storage_holds env base (old @ trades) (store_trades env base trades fs)"
  using assms(3-)
proof (induction trades arbitrary: old fs)
  case (Cons x trades)
  obtain now t where x: "x = (now, t)" by (cases x)
  have "trade_name env (now, t) \<notin> trade_name env ` set old" using Cons.prems(2) x by auto
  moreover have "trade_readable t" "0 \<le> now" using Cons.prems(3) by (auto simp: x tradeable_def)
  ultimately obtain fs' where "file_insert_trade env base now t fs = (fs', Inr ())"
      and "storage_holds env base (old @ [(now, t)]) fs'"
    using file_insert_trade_holds [OF assms(1,2) Cons.prems(1)] by blast
  then show ?case using Cons.IH [of "old @ [x]" fs'] Cons.prems by (simp add: store_trades_def x)
qed (simp add: store_trades_def)

lemma add_totals_commute: "add_totals (add_totals a b) c = add_totals (add_totals a c) b"
  by (cases a; cases b; cases c) simp

text \<open>The totals are those of the counts, in any order.\<close>

fun counts_totals :: "pubkey \<times> pubkey \<times> u64 \<times> u64 \<times> u64 \<times> trade_direction \<Rightarrow> totals" where
  "counts_totals (w, k, x, orig, d, dir) = (let kept = unat x - unat d
     in case dir of DirBuy \<Rightarrow> (unat orig, 0, kept, 0) | DirSell \<Rightarrow> (0, unat orig, 0, kept))"

lemma sum_trades_counts:
  "sum_trades ts k = fold (\<lambda>c acc. add_totals acc (counts_totals c))
     (filter (\<lambda>(w, t, _). (w, t) = k \<and> \<not> is_static_token t) (map trade_counts ts)) (0, 0, 0, 0)"
proof -
  have "fold (\<lambda>t acc. add_totals acc (trade_totals t)) us a
      = fold (\<lambda>c acc. add_totals acc (counts_totals c)) (map trade_counts us) a" for us a
    by (induction us arbitrary: a) (simp_all add: trade_totals_def trade_counts_def)
  then show ?thesis by (simp add: sum_trades_def filter_map comp_def trade_counts_def)
qed

lemma sum_trades_mset:
  assumes "mset (map trade_counts ts) = mset (map trade_counts us)"
  shows "sum_trades ts = sum_trades us"
proof
  fix k :: "pubkey \<times> pubkey"
  let ?P = "\<lambda>(w :: pubkey, t :: pubkey, _). (w, t) = k \<and> \<not> is_static_token t"
  have "mset (filter ?P (map trade_counts ts)) = mset (filter ?P (map trade_counts us))"
    using assms by (simp only: mset_filter)
  then have "fold (\<lambda>c acc. add_totals acc (counts_totals c)) (filter ?P (map trade_counts ts))
      = fold (\<lambda>c acc. add_totals acc (counts_totals c)) (filter ?P (map trade_counts us))"
    by (intro fold_multiset_equiv) (simp_all add: add_totals_commute fun_eq_iff)
  then show "sum_trades ts k = sum_trades us k" unfolding sum_trades_counts by (rule fun_cong)
qed

lemma dust_from_counts:
  assumes "mset (map trade_counts ts) = mset (map trade_counts us)" and "\<forall>t \<in> set us. tr_dust t \<le> tr_exec t"
  shows "\<forall>t \<in> set ts. tr_dust t \<le> tr_exec t"
proof
  fix t assume "t \<in> set ts"
  then have "trade_counts t \<in> trade_counts ` set us" using mset_eq_setD [OF assms(1)] by auto
  then show "tr_dust t \<le> tr_exec t" using assms(2) by (auto simp: trade_counts_def)
qed


text \<open>A format: the counts of a trade as decimals, each with a slash behind it.\<close>

fun fields :: "nat \<Rightarrow> string \<Rightarrow> string list" where
  "fields 0 s = []"
| "fields (Suc n) s = takeWhile (\<lambda>c. c \<noteq> CHR ''/'') s # fields n (tl (dropWhile (\<lambda>c. c \<noteq> CHR ''/'') s))"

definition example_to_json :: "copy_trade \<Rightarrow> string option" where
  "example_to_json t = (let v = ct_volume t in Some (concat (map (\<lambda>n. decimal n @ ''/'')
     [unat (ct_origin_wallet t), unat (ct_token t), unat (tv_exec_volume_token v), unat (tv_origin_volume_token v),
      unat (tv_dust_token_amount v), case ct_direction t of DirBuy \<Rightarrow> 0 | DirSell \<Rightarrow> 1])))"

definition counts_trade :: "nat list \<Rightarrow> copy_trade" where
  "counts_trade ns = \<lparr>ct_volume = \<lparr>tv_exec_volume_token = of_nat (ns ! 2), tv_exec_volume_usd = f64_zero,
     tv_exec_volume_sol = f64_zero, tv_origin_volume_token = of_nat (ns ! 3), tv_origin_volume_usd = f64_zero,
     tv_origin_volume_sol = f64_zero, tv_dust_token_amount = of_nat (ns ! 4)\<rparr>, ct_token = of_nat (ns ! 1),
     ct_origin_signature = 0, ct_exec_signature = 0, ct_origin_wallet = of_nat (ns ! 0), ct_exec_wallet = 0,
     ct_direction = (if ns ! 5 = 0 then DirBuy else DirSell)\<rparr>"

definition example_from_json :: "string \<Rightarrow> copy_trade option" where
  "example_from_json s = Some (counts_trade (map parse_decimal (fields 6 s)))"

definition example_storage :: storage_env where
  "example_storage = \<lparr>se_listing = (\<lambda>p qs. None # map Some (rev qs)), se_to_string = (\<lambda>k. decimal (unat k)),
     se_from_str = (\<lambda>s. Some (of_nat (parse_decimal s))), se_to_json = example_to_json, se_from_json = example_from_json\<rparr>"

lemma fields_decimal: "fields (length ns) (concat (map (\<lambda>n. decimal n @ ''/'') ns)) = map decimal ns"
proof (induction ns)
  case (Cons n ns)
  have "\<forall>c \<in> set (decimal n). c \<noteq> CHR ''/''" using decimal_no_slash by metis
  then show ?case using Cons by (simp add: takeWhile_append2 dropWhile_append2)
qed simp

lemma example_storage_faithful: "storage_faithful example_storage"
proof -
  have "example_from_json (the (example_to_json t)) = Some (counts_trade
      [unat (ct_origin_wallet t), unat (ct_token t), unat (tv_exec_volume_token (ct_volume t)),
       unat (tv_origin_volume_token (ct_volume t)), unat (tv_dust_token_amount (ct_volume t)),
       case ct_direction t of DirBuy \<Rightarrow> 0 | DirSell \<Rightarrow> 1])" for t
    using fields_decimal [of "[unat (ct_origin_wallet t), unat (ct_token t), unat (tv_exec_volume_token (ct_volume t)),
       unat (tv_origin_volume_token (ct_volume t)), unat (tv_dust_token_amount (ct_volume t)),
       case ct_direction t of DirBuy \<Rightarrow> 0 | DirSell \<Rightarrow> 1]"]
    by (simp add: example_from_json_def example_to_json_def Let_def parse_decimal eval_nat_numeral del: fields.simps)
  moreover have "listing_ok (\<lambda>p qs. None # map Some (rev qs))"
    by (simp add: listing_ok_def List.map_filter_simps map_filter_map_Some)
  ultimately show ?thesis
    by (auto simp: storage_faithful_def example_storage_def decimal_no_slash parse_decimal counts_trade_def
        trade_counts_def trade_of_def Let_def example_to_json_def split: trade_direction.split)
qed

definition example_copy_trade :: copy_trade where
  "example_copy_trade = (counts_trade [7, 77, 100, 90, 10, 0])\<lparr>ct_origin_signature := 5\<rparr>"


text \<open>One unreadable file is enough: if the content of a file in the directory of a token cannot be read
  back, no restart with the history succeeds.\<close>

theorem unreadable_trade_blocks_restart:
  assumes "listing_ok (se_listing env)" and "fs_is_dir fs [dir, w, k]" and "fs_is_dir fs [dir, w]" and "fs_is_dir fs [dir]"
    and "store_get (fs_files fs) [dir, w, k, name] = Some content" and "se_from_json env content = None"
  shows "\<exists>e. file_bootstrap_history env [dir] fs = Inl e"
proof -
  have mem: "[dir, w] \<in> set (listed (se_listing env) fs [dir])" "[dir, w, k] \<in> set (listed (se_listing env) fs [dir, w])"
      "[dir, w, k, name] \<in> set (listed (se_listing env) fs [dir, w, k])"
    using assms(2-5) by (simp_all add: set_listed [OF assms(1)])
  have "\<not> (\<exists>h h'. load_trade_file env fs wallet tok [dir, w, k, name] h = Inr h')" for wallet tok
    by (auto simp: load_trade_file_def fs_read_def io_result_def assms(5,6) split: if_splits sum.splits)
  then have "\<not> (\<exists>h h'. load_token_dir env fs wallet [dir, w, k] h = Inr h')" for wallet
    using fold_res_Inr_step [OF _ mem(3)] by (fastforce simp: load_token_dir_def for_entries_listed assms(2))
  then have "\<not> (\<exists>h h'. load_wallet_dir env fs [dir, w] h = Inr h')"
    using fold_res_Inr_step [OF _ mem(2)] by (fastforce simp: load_wallet_dir_def for_entries_listed assms(3))
  then show ?thesis
    using fold_res_Inr_step [OF _ mem(1)] unfolding file_bootstrap_history_def for_entries_listed [OF assms(4)]
    by (metis sum.exhaust)
qed

end
