(* ===== verification/Txn_Cache.thy ===== *)
theory Txn_Cache
  imports Files Historical
begin

text \<open>
  The cache of transactions (\<^verbatim>\<open>core/traits/transaction_cache.rs\<close>): a directory with a file per signature,
  and the cache that keeps nothing. \<open>get_transactions_for_signatures\<close> fetches through it. The locale
  states what a fetch relies on; the file cache provides it. The format of the files, the text of a
  signature and the decoding of a transaction of the node are arguments.
\<close>

record 'raw cache_env =
  ce_sig_to_string :: "signature \<Rightarrow> string"
  ce_signatures :: "'raw \<Rightarrow> signature list option"
  ce_to_json :: "'raw \<Rightarrow> string option"
  ce_from_json :: "string \<Rightarrow> 'raw option option"

text \<open>\<open>FileTxnCache\<close>: its directory, and the files of the machine.\<close>

record file_cache =
  fc_dir_path :: path
  fc_files :: file_system

definition file_cache_create :: "path \<Rightarrow> file_system \<Rightarrow> file_cache result" where
  "file_cache_create p fs = bind_res (make_dir_if_not_exists p fs) (\<lambda>fs. Inr \<lparr>fc_dir_path = p, fc_files = fs\<rparr>)"

definition file_cache_insert :: "'raw cache_env \<Rightarrow> file_cache \<Rightarrow> signature \<Rightarrow> 'raw \<Rightarrow> file_cache result" where
  "file_cache_insert env c sig raw =
     bind_res (ok_or (ce_to_json env raw) ''json error'') (\<lambda>content.
     bind_res (io_result (fs_write (fc_dir_path c @ [ce_sig_to_string env sig]) content (fc_files c))) (\<lambda>fs.
     Inr (c\<lparr>fc_files := fs\<rparr>)))"

definition file_cache_get :: "'raw cache_env \<Rightarrow> file_cache \<Rightarrow> signature \<Rightarrow> 'raw option result" where
  "file_cache_get env c sig =
     (let p = fc_dir_path c @ [ce_sig_to_string env sig]
      in if \<not> fs_exists (fc_files c) p then Inr None
         else bind_res (io_result (fs_read p (fc_files c))) (\<lambda>content.
              ok_or (ce_from_json env content) ''json error''))"

definition insert_transaction :: "'raw cache_env \<Rightarrow> file_cache \<Rightarrow> 'raw \<Rightarrow> file_cache result" where
  "insert_transaction env c raw =
     bind_res (ok_or (ce_signatures env raw) ''Failed to decode transaction'') (\<lambda>signatures.
     case signatures of
       [] \<Rightarrow> Inl (Error ''Transaction has at least one signature'')
     | sig # _ \<Rightarrow> file_cache_insert env c sig raw)"

definition get_transactions_for_signer :: "file_cache \<Rightarrow> pubkey \<Rightarrow> 'raw list result" where
  "get_transactions_for_signer c signer = Inr []"

definition noop_insert_transaction :: "unit \<Rightarrow> 'raw \<Rightarrow> unit result" where
  "noop_insert_transaction c raw = Inr ()"

definition noop_get_transaction :: "unit \<Rightarrow> signature \<Rightarrow> 'raw option result" where
  "noop_get_transaction c sig = Inr None"

section \<open>What a fetch relies on\<close>

text \<open>A fetch without a cache, one signature at a time.\<close>

lemma fetch_uncached:
  assumes "get_transactions_for_signatures src keep None (sig # sigs) = Inr (None, txs)"
  obtains tx rest where "transaction_for_signature src None sig = Inr (None, tx)"
    and "get_transactions_for_signatures src keep None sigs = Inr (None, rest)"
    and "txs = (if (case keep of Some f \<Rightarrow> f tx | None \<Rightarrow> True) then tx # rest else rest)"
proof -
  have none: "cache = None" if "transaction_for_signature src None s = Inr (cache, t)" for s cache t
    using that by (auto simp: transaction_for_signature_def)
  obtain cache tx rest where tx: "transaction_for_signature src None sig = Inr (cache, tx)"
      and rest: "get_transactions_for_signatures src keep cache sigs = Inr (None, rest)"
      and txs: "txs = (if (case keep of Some f \<Rightarrow> f tx | None \<Rightarrow> True) then tx # rest else rest)"
    using assms by (auto split: if_splits)
  then show ?thesis using that none by metis
qed

text \<open>Under an invariant of the cache, a lookup never fails, storing a transaction that can be stored under
  its signature succeeds and keeps the invariant, and afterwards a lookup finds it or what it found
  before. A cache may forget: the second law allows an absent answer.\<close>

locale transaction_cache =
  fixes lookup :: "'c \<Rightarrow> signature \<Rightarrow> 'raw option result"
    and put :: "'c \<Rightarrow> 'raw \<Rightarrow> 'c result"
    and stored_as :: "'raw \<Rightarrow> signature option"
    and inv :: "'c \<Rightarrow> bool"
  assumes lookup_total: "inv c \<Longrightarrow> \<exists>r. lookup c sig = Inr r"
    and put_total: "inv c \<Longrightarrow> stored_as raw = Some sig \<Longrightarrow> \<exists>c'. put c raw = Inr c' \<and> inv c'"
    and lookup_put: "inv c \<Longrightarrow> stored_as raw = Some sig \<Longrightarrow> put c raw = Inr c'
      \<Longrightarrow> lookup c' sig' = Inr (Some raw') \<Longrightarrow> raw' = raw \<and> sig' = sig \<or> lookup c sig' = Inr (Some raw')"
begin

text \<open>The cache holds only what the node answers.\<close>

definition sound :: "(signature \<Rightarrow> 'raw result) \<Rightarrow> 'c \<Rightarrow> bool" where
  "sound request c \<longleftrightarrow> inv c \<and> (\<forall>sig raw. lookup c sig = Inr (Some raw) \<longrightarrow> request sig = Inr raw)"

lemma fetch_one_transparent:
  assumes "sound (tsrc_request src) c" and "tsrc_get src = lookup" and "tsrc_insert src = put"
    and "\<forall>raw. tsrc_request src sig = Inr raw \<longrightarrow> stored_as raw = Some sig"
    and "transaction_for_signature src None sig = Inr (None, tx)"
  shows "\<exists>c'. transaction_for_signature src (Some c) sig = Inr (Some c', tx) \<and> sound (tsrc_request src) c'"
proof -
  obtain raw where raw: "tsrc_request src sig = Inr raw" "with_keys src raw = Inr tx"
    using assms(5) by (auto simp: transaction_for_signature_def)
  obtain r where r: "lookup c sig = Inr r" using lookup_total [of c sig] assms(1) by (auto simp: sound_def)
  show ?thesis
  proof (cases r)
    case (Some cached)
    then have "cached = raw" using assms(1) r raw(1) by (auto simp: sound_def)
    then show ?thesis using assms(1,2) r raw(2) Some by (simp add: transaction_for_signature_def)
  next
    case None
    have stored: "stored_as raw = Some sig" using assms(4) raw(1) by simp
    obtain c' where c': "put c raw = Inr c'" "inv c'"
      using put_total [OF _ stored, of c] assms(1) by (auto simp: sound_def)
    moreover have "sound (tsrc_request src) c'"
      using lookup_put [OF _ stored c'(1)] assms(1) c'(2) raw(1) by (auto simp: sound_def)
    ultimately show ?thesis using assms(2,3) r raw None by (simp add: transaction_for_signature_def)
  qed
qed

lemma fetch_transparent:
  assumes "sound (tsrc_request src) c" and "tsrc_get src = lookup" and "tsrc_insert src = put"
    and "\<forall>sig raw. tsrc_request src sig = Inr raw \<longrightarrow> stored_as raw = Some sig"
    and "get_transactions_for_signatures src keep None sigs = Inr (None, txs)"
  shows "\<exists>c'. get_transactions_for_signatures src keep (Some c) sigs = Inr (Some c', txs)
    \<and> sound (tsrc_request src) c'"
  using assms(1,5)
proof (induction sigs arbitrary: c txs)
  case (Cons sig sigs)
  obtain tx rest where tx: "transaction_for_signature src None sig = Inr (None, tx)"
      and rest: "get_transactions_for_signatures src keep None sigs = Inr (None, rest)"
      and txs: "txs = (if (case keep of Some f \<Rightarrow> f tx | None \<Rightarrow> True) then tx # rest else rest)"
    by (rule fetch_uncached [OF Cons.prems(2)])
  obtain c1 where c1: "transaction_for_signature src (Some c) sig = Inr (Some c1, tx)" "sound (tsrc_request src) c1"
    using fetch_one_transparent [OF Cons.prems(1) assms(2,3) _ tx] assms(4) by blast
  obtain c2 where "get_transactions_for_signatures src keep (Some c1) sigs = Inr (Some c2, rest)" "sound (tsrc_request src) c2"
    using Cons.IH [OF c1(2) rest] by blast
  then show ?case by (simp add: c1 txs)
qed simp

end

text \<open>A cache that forgets nothing: once everything was fetched, the node is not asked again.\<close>

locale keeping_cache = transaction_cache +
  assumes lookup_keeps: "inv c \<Longrightarrow> stored_as raw = Some sig \<Longrightarrow> put c raw = Inr c'
    \<Longrightarrow> lookup c' sig' = (if sig' = sig then Inr (Some raw) else lookup c sig')"
begin

lemma fetch_one_kept:
  assumes "sound (tsrc_request src) c" and "tsrc_get src = lookup" and "tsrc_insert src = put"
    and "\<forall>raw. tsrc_request src sig = Inr raw \<longrightarrow> stored_as raw = Some sig"
    and "transaction_for_signature src (Some c) sig = Inr (Some c', tx)"
  shows "lookup c' sig \<noteq> Inr None \<and> (\<forall>s raw. lookup c s = Inr (Some raw) \<longrightarrow> lookup c' s = Inr (Some raw))"
proof -
  obtain r where r: "lookup c sig = Inr r" using lookup_total [of c sig] assms(1) by (auto simp: sound_def)
  show ?thesis
  proof (cases r)
    case (Some cached)
    then show ?thesis using r assms(2,5) by (auto simp: transaction_for_signature_def)
  next
    case None
    then obtain raw where raw: "tsrc_request src sig = Inr raw" "put c raw = Inr c'"
      using r assms(2,3,5) by (auto simp: transaction_for_signature_def)
    then show ?thesis
      using lookup_keeps [OF _ _ raw(2), of sig] assms(1,4) r None by (auto simp: sound_def)
  qed
qed

lemma fetch_kept:
  assumes "sound (tsrc_request src) c" and "tsrc_get src = lookup" and "tsrc_insert src = put"
    and "\<forall>sig raw. tsrc_request src sig = Inr raw \<longrightarrow> stored_as raw = Some sig"
    and "get_transactions_for_signatures src keep None sigs = Inr (None, txs)"
  shows "\<exists>c'. get_transactions_for_signatures src keep (Some c) sigs = Inr (Some c', txs)
    \<and> sound (tsrc_request src) c' \<and> (\<forall>sig \<in> set sigs. lookup c' sig \<noteq> Inr None)
    \<and> (\<forall>s raw. lookup c s = Inr (Some raw) \<longrightarrow> lookup c' s = Inr (Some raw))"
  using assms(1,5)
proof (induction sigs arbitrary: c txs)
  case (Cons sig sigs)
  obtain tx rest where tx: "transaction_for_signature src None sig = Inr (None, tx)"
      and rest: "get_transactions_for_signatures src keep None sigs = Inr (None, rest)"
      and txs: "txs = (if (case keep of Some f \<Rightarrow> f tx | None \<Rightarrow> True) then tx # rest else rest)"
    by (rule fetch_uncached [OF Cons.prems(2)])
  obtain c1 where c1: "transaction_for_signature src (Some c) sig = Inr (Some c1, tx)" "sound (tsrc_request src) c1"
    using fetch_one_transparent [OF Cons.prems(1) assms(2,3) _ tx] assms(4) by blast
  have kept: "lookup c1 sig \<noteq> Inr None" "\<forall>s raw. lookup c s = Inr (Some raw) \<longrightarrow> lookup c1 s = Inr (Some raw)"
    using fetch_one_kept [OF Cons.prems(1) assms(2,3) _ c1(1)] assms(4) by blast+
  obtain r where r: "lookup c1 sig = Inr (Some r)"
    using kept(1) lookup_total [of c1 sig] c1(2) by (auto simp: sound_def)
  obtain c2 where c2: "get_transactions_for_signatures src keep (Some c1) sigs = Inr (Some c2, rest)"
      "sound (tsrc_request src) c2" "\<forall>sig \<in> set sigs. lookup c2 sig \<noteq> Inr None"
      "\<forall>s raw. lookup c1 s = Inr (Some raw) \<longrightarrow> lookup c2 s = Inr (Some raw)"
    using Cons.IH [OF c1(2) rest] by blast
  then show ?case using kept(2) r by (simp add: c1 txs)
qed simp

lemma fetch_again:
  assumes "sound (tsrc_request src) c" and "tsrc_get src = lookup"
    and "\<forall>sig \<in> set sigs. lookup c sig \<noteq> Inr None"
    and "get_transactions_for_signatures src keep None sigs = Inr (None, txs)"
  shows "get_transactions_for_signatures (src\<lparr>tsrc_request := request\<rparr>) keep (Some c) sigs = Inr (Some c, txs)"
  using assms(3,4)
proof (induction sigs arbitrary: txs)
  case (Cons sig sigs)
  obtain tx rest where tx: "transaction_for_signature src None sig = Inr (None, tx)"
      and rest: "get_transactions_for_signatures src keep None sigs = Inr (None, rest)"
      and txs: "txs = (if (case keep of Some f \<Rightarrow> f tx | None \<Rightarrow> True) then tx # rest else rest)"
    by (rule fetch_uncached [OF Cons.prems(2)])
  obtain raw where raw: "lookup c sig = Inr (Some raw)"
    using Cons.prems(1) lookup_total [of c sig] assms(1) by (auto simp: sound_def)
  then have "tsrc_request src sig = Inr raw" using assms(1) by (auto simp: sound_def)
  then have "with_keys src raw = Inr tx" using tx by (auto simp: transaction_for_signature_def)
  then have "transaction_for_signature (src\<lparr>tsrc_request := request\<rparr>) (Some c) sig = Inr (Some c, tx)"
    by (simp add: transaction_for_signature_def assms(2) raw with_keys_def)
  then show ?case using Cons.IH [OF _ rest] Cons.prems(1) by (simp add: txs)
qed simp

end

section \<open>The two caches\<close>

text \<open>A file cache in order: its directory is there and holds only files that can be read, each under the
  text of a signature.\<close>

definition file_cache_ok :: "'raw cache_env \<Rightarrow> file_cache \<Rightarrow> bool" where
  "file_cache_ok env c \<longleftrightarrow> inj (ce_sig_to_string env) \<and> fc_dir_path c \<noteq> [] \<and> fs_ok (fc_files c)
     \<and> fs_is_dir (fc_files c) (fc_dir_path c)
     \<and> (\<forall>sig. \<not> fs_is_dir (fc_files c) (fc_dir_path c @ [ce_sig_to_string env sig]))
     \<and> (\<forall>sig content. store_get (fs_files (fc_files c)) (fc_dir_path c @ [ce_sig_to_string env sig]) = Some content
          \<longrightarrow> ce_from_json env content \<noteq> None)"

text \<open>The signature under which a transaction is stored, if it is read back as it was.\<close>

definition stored_signature :: "'raw cache_env \<Rightarrow> 'raw \<Rightarrow> signature option" where
  "stored_signature env raw = (case (ce_signatures env raw, ce_to_json env raw) of
     (Some (sig # _), Some content) \<Rightarrow> if ce_from_json env content = Some (Some raw) then Some sig else None
   | _ \<Rightarrow> None)"

lemma stored_signatureD:
  assumes "stored_signature env raw = Some sig"
  obtains sigs content where "ce_signatures env raw = Some (sig # sigs)" and "ce_to_json env raw = Some content"
    and "ce_from_json env content = Some (Some raw)"
  using assms by (auto simp: stored_signature_def split: option.splits list.splits if_splits)

lemma file_cache_get_ok:
  assumes "file_cache_ok env c"
  shows "file_cache_get env c sig = Inr (case store_get (fs_files (fc_files c)) (fc_dir_path c @ [ce_sig_to_string env sig]) of
     None \<Rightarrow> None | Some content \<Rightarrow> the (ce_from_json env content))"
  using assms by (auto simp: file_cache_get_def file_cache_ok_def fs_exists_def fs_read_def io_result_def
      split: option.splits)

lemma insert_transaction_ok:
  assumes "file_cache_ok env c" and "stored_signature env raw = Some sig"
  shows "\<exists>c'. insert_transaction env c raw = Inr c' \<and> file_cache_ok env c'
    \<and> (\<forall>s. file_cache_get env c' s = (if s = sig then Inr (Some raw) else file_cache_get env c s))"
proof -
  let ?p = "fc_dir_path c @ [ce_sig_to_string env sig]"
  obtain sigs content where raw: "ce_signatures env raw = Some (sig # sigs)" "ce_to_json env raw = Some content"
      "ce_from_json env content = Some (Some raw)"
    using assms(2) by (rule stored_signatureD)
  have ok: "inj (ce_sig_to_string env)" "fc_dir_path c \<noteq> []" "fs_ok (fc_files c)" "fs_is_dir (fc_files c) (fc_dir_path c)"
      "\<not> fs_is_dir (fc_files c) ?p"
    using assms(1) by (simp_all add: file_cache_ok_def)
  have "fs_has_parent (fc_files c) ?p" using ok(4) by (simp add: fs_has_parent_def butlast_append)
  then obtain fs where fs: "fs_write ?p content (fc_files c) = Inr fs" "fs_ok fs" "fs_dirs fs = fs_dirs (fc_files c)"
      "fs_files fs = store_insert (fs_files (fc_files c)) ?p content"
    using fs_write_ok [OF ok(5) _ ok(3), of content] by blast
  let ?c = "c\<lparr>fc_files := fs\<rparr>"
  have name: "ce_sig_to_string env s = ce_sig_to_string env sig \<longleftrightarrow> s = sig" for s
    using ok(1) by (simp add: inj_eq)
  have dirs: "fs_is_dir fs p = fs_is_dir (fc_files c) p" for p by (simp add: fs_is_dir_def fs(3))
  have ok': "file_cache_ok env ?c"
    using assms(1) fs(2) raw(3) by (auto simp: file_cache_ok_def dirs fs(4) split: if_splits)
  have "insert_transaction env c raw = Inr ?c"
    by (simp add: insert_transaction_def file_cache_insert_def raw fs(1) io_result_def)
  moreover have "file_cache_get env ?c s = (if s = sig then Inr (Some raw) else file_cache_get env c s)" for s
    unfolding file_cache_get_ok [OF ok'] file_cache_get_ok [OF assms(1)] by (simp add: fs(4) name raw(3))
  ultimately show ?thesis using ok' by blast
qed

interpretation files: keeping_cache "file_cache_get env" "insert_transaction env" "stored_signature env"
  "file_cache_ok env" for env :: "'raw cache_env"
proof
  show "\<exists>r. file_cache_get env c sig = Inr r" if "file_cache_ok env c" for c sig
    using that by (simp add: file_cache_get_ok)
  show "\<exists>c'. insert_transaction env c raw = Inr c' \<and> file_cache_ok env c'"
    if "file_cache_ok env c" "stored_signature env raw = Some sig" for c raw sig
    using insert_transaction_ok [OF that] by blast
  show "raw' = raw \<and> sig' = sig \<or> file_cache_get env c sig' = Inr (Some raw')"
    if "file_cache_ok env c" "stored_signature env raw = Some sig" "insert_transaction env c raw = Inr c'"
      "file_cache_get env c' sig' = Inr (Some raw')" for c raw sig c' sig' raw'
    using insert_transaction_ok [OF that(1,2)] that(3,4) by (auto split: if_splits)
  show "file_cache_get env c' sig' = (if sig' = sig then Inr (Some raw) else file_cache_get env c sig')"
    if "file_cache_ok env c" "stored_signature env raw = Some sig" "insert_transaction env c raw = Inr c'" for c raw sig c' sig'
    using insert_transaction_ok [OF that(1,2)] that(3) by auto
qed

interpretation noop: transaction_cache noop_get_transaction noop_insert_transaction "\<lambda>raw. Some (key raw)" "\<lambda>c. True"
  for key :: "'raw \<Rightarrow> signature"
  by unfold_locales (simp_all add: noop_get_transaction_def noop_insert_transaction_def)

text \<open>C25. The cache of transactions changes nothing but the work: when the files of the cache hold only
  what the node answers, and the node answers a signature with the transaction that has it, a fetch that
  succeeds without the cache gives the same transactions through it; and after it the same signatures
  are served from the files alone, whatever the node says by then.\<close>

theorem cached_fetch_transparent:
  assumes "file_cache_ok env c"
    and "\<forall>sig raw. file_cache_get env c sig = Inr (Some raw) \<longrightarrow> tsrc_request src sig = Inr raw"
    and "\<forall>sig raw. tsrc_request src sig = Inr raw \<longrightarrow> stored_signature env raw = Some sig"
    and "tsrc_get src = file_cache_get env" and "tsrc_insert src = insert_transaction env"
    and "get_transactions_for_signatures src keep None sigs = Inr (None, txs)"
  shows "\<exists>c'. get_transactions_for_signatures src keep (Some c) sigs = Inr (Some c', txs)
    \<and> (\<forall>request. get_transactions_for_signatures (src\<lparr>tsrc_request := request\<rparr>) keep (Some c') sigs = Inr (Some c', txs))"
proof -
  have "files.sound env (tsrc_request src) c" using assms(1,2) by (simp add: files.sound_def)
  then obtain c' where c': "get_transactions_for_signatures src keep (Some c) sigs = Inr (Some c', txs)"
      "files.sound env (tsrc_request src) c'" "\<forall>sig \<in> set sigs. file_cache_get env c' sig \<noteq> Inr None"
    using files.fetch_kept [OF _ assms(4,5,3,6)] by blast
  then show ?thesis using files.fetch_again [OF c'(2) assms(4) c'(3) assms(6)] by blast
qed

text \<open>Transactions that are their signatures.\<close>

definition example_cache_env :: "signature cache_env" where
  "example_cache_env = \<lparr>ce_sig_to_string = (\<lambda>s. decimal (unat s)), ce_signatures = (\<lambda>raw. Some [raw]),
     ce_to_json = (\<lambda>raw. Some (decimal (unat raw))), ce_from_json = (\<lambda>s. Some (Some (of_nat (parse_decimal s))))\<rparr>"

definition example_source :: "(signature, file_cache) transaction_source" where
  "example_source = \<lparr>tsrc_get = file_cache_get example_cache_env, tsrc_insert = insert_transaction example_cache_env,
     tsrc_request = (\<lambda>s. Inr s), tsrc_convert = (\<lambda>raw. Inr (example_lookup_tx\<lparr>tx_signature := raw\<rparr>)), tsrc_load_keys = Inr\<rparr>"

definition example_cache :: file_cache where
  "example_cache = \<lparr>fc_dir_path = [''txs''], fc_files = \<lparr>fs_dirs = [[''txs'']], fs_files = []\<rparr>\<rparr>"

theorem cached_fetch_transparent_witness:
  "\<exists>c'. get_transactions_for_signatures example_source None (Some example_cache) [3, 4, 3]
      = Inr (Some c', [example_lookup_tx\<lparr>tx_signature := 3\<rparr>, example_lookup_tx\<lparr>tx_signature := 4\<rparr>, example_lookup_tx\<lparr>tx_signature := 3\<rparr>])
    \<and> get_transactions_for_signatures (example_source\<lparr>tsrc_request := \<lambda>_. Inl (Error ''down'')\<rparr>) None (Some c') [3, 4, 3]
      = Inr (Some c', [example_lookup_tx\<lparr>tx_signature := 3\<rparr>, example_lookup_tx\<lparr>tx_signature := 4\<rparr>, example_lookup_tx\<lparr>tx_signature := 3\<rparr>])"
proof -
  let ?txs = "[example_lookup_tx\<lparr>tx_signature := 3\<rparr>, example_lookup_tx\<lparr>tx_signature := 4\<rparr>, example_lookup_tx\<lparr>tx_signature := 3\<rparr>]"
  have ok: "file_cache_ok example_cache_env example_cache"
    by (simp add: file_cache_ok_def example_cache_env_def example_cache_def fs_ok_def fs_is_dir_def inj_def unsigned_word_eqI)
  have empty: "file_cache_get example_cache_env example_cache sig = Inr None" for sig
    using file_cache_get_ok [OF ok, of sig] by (simp add: example_cache_def)
  have stored: "stored_signature example_cache_env raw = Some raw" for raw
    by (simp add: stored_signature_def example_cache_env_def parse_decimal)
  have "get_transactions_for_signatures example_source None None [3, 4, 3] = Inr (None, ?txs)"
    by (simp add: transaction_for_signature_def with_keys_def example_source_def)
  then show ?thesis
    using cached_fetch_transparent [OF ok, of example_source None "[3, 4, 3]" ?txs] empty stored
    by (auto simp: example_source_def)
qed

end
