(* ===== verification/Txn_Executor.thy ===== *)
theory Txn_Executor
  imports Prelude "HOL-Library.Multiset"
begin

text \<open>
  The blocking executor of transactions (\<^verbatim>\<open>wire/send_txn/blocking_executor.rs\<close>): it sends transactions and
  gives each an id; a thread asks for their statuses and clears the ids of those that landed or are
  older than thirty seconds. The node and the clock are arguments. A panic of the thread poisons the
  lock of the outstanding transactions, which every later call unwraps.
\<close>

type_synonym outstanding = "signature \<times> u64 \<times> u64"

record executor =
  exr_sigs :: "outstanding list"
  exr_cleared :: "u64 list"
  exr_exit :: bool
  exr_counter :: u64
  exr_poisoned :: bool

definition executor_new :: executor where
  "executor_new = \<lparr>exr_sigs = [], exr_cleared = [], exr_exit = False, exr_counter = 0, exr_poisoned = False\<rparr>"

definition lock_sigs :: "executor \<Rightarrow> unit result" where
  "lock_sigs s = (if exr_poisoned s then Inl (Panic ''called `Result::unwrap()` on an `Err` value: PoisonError'') else Inr ())"

definition num_outstanding :: "executor \<Rightarrow> nat result" where
  "num_outstanding s = bind_res (lock_sigs s) (\<lambda>_. Inr (length (exr_sigs s)))"

text \<open>The ids of all transactions, the entries of those that were accepted, and the counter afterwards.
  The answer of the node to a transaction comes with the time at which it arrived.\<close>

fun push_loop ::
  "('tx \<Rightarrow> (signature \<times> u64) result) \<Rightarrow> 'tx list \<Rightarrow> u64 \<Rightarrow> u64 list \<times> outstanding list \<times> u64" where
  "push_loop send [] counter = ([], [], counter)"
| "push_loop send (tx # txs) counter =
     (case push_loop send txs (counter + 1) of
        (ids, new_sigs, counter') \<Rightarrow>
          (counter # ids,
           case send tx of Inr (sig, ts) \<Rightarrow> (sig, ts, counter) # new_sigs | Inl e \<Rightarrow> new_sigs,
           counter'))"

text \<open>The lock is taken before the first transaction is sent.\<close>

definition push_transactions ::
  "('tx \<Rightarrow> (signature \<times> u64) result) \<Rightarrow> 'tx list \<Rightarrow> executor \<Rightarrow> (executor \<times> u64 list) result" where
  "push_transactions send txs s =
     bind_res (lock_sigs s) (\<lambda>_.
     case push_loop send txs (exr_counter s) of
       (ids, new_sigs, counter) \<Rightarrow> Inr (s\<lparr>exr_sigs := exr_sigs s @ new_sigs, exr_counter := counter\<rparr>, ids))"

definition drain_cleared :: "executor \<Rightarrow> executor \<times> u64 list" where
  "drain_cleared s = (s\<lparr>exr_cleared := []\<rparr>, exr_cleared s)"

text \<open>\<open>close\<close> joins the thread, whose panic it passes on.\<close>

definition executor_close :: "executor \<Rightarrow> unit result" where
  "executor_close s = (if exr_poisoned s then Inl (Panic ''called `Result::unwrap()` on an `Err` value'') else Inr ())"

definition MAX_AGE_MS :: u64 where
  "MAX_AGE_MS = 30000"

text \<open>The scan over the outstanding transactions and their statuses: the ones that stay and the ids that
  are cleared. A status says whether the transaction succeeded.\<close>

fun clear_scan :: "u64 \<Rightarrow> outstanding list \<Rightarrow> bool option list \<Rightarrow> (outstanding list \<times> u64 list) result" where
  "clear_scan now [] statuses = Inr ([], [])"
| "clear_scan now (entry # sigs) [] = Inl (Panic ''index out of bounds'')"
| "clear_scan now ((sig, sent_ts, i) # sigs) (status # statuses) =
     bind_res (clear_scan now sigs statuses) (\<lambda>(kept, new_ids).
     if status \<noteq> None \<or> MAX_AGE_MS < now - sent_ts then Inr (kept, i # new_ids)
     else Inr ((sig, sent_ts, i) # kept, new_ids))"

definition request_statuses :: "(signature list \<Rightarrow> bool option list result) \<Rightarrow> outstanding list \<Rightarrow> bool option list result" where
  "request_statuses get_signature_statuses sigs =
     bind_res (collect_results (\<lambda>chunk. case get_signature_statuses (map fst chunk) of
         Inr value \<Rightarrow> Inr value
       | Inl e \<Rightarrow> Inl (Panic ''status fail'')) (chunks 200 sigs)) (\<lambda>statuses. Inr (concat statuses))"

text \<open>One turn of the thread, which ends when it is told to or panics.\<close>

definition clear_round :: "(signature list \<Rightarrow> bool option list result) \<Rightarrow> u64 \<Rightarrow> executor \<Rightarrow> executor" where
  "clear_round get_signature_statuses now s =
     (if exr_exit s \<or> exr_poisoned s \<or> exr_sigs s = [] then s
      else case bind_res (request_statuses get_signature_statuses (exr_sigs s)) (clear_scan now (exr_sigs s)) of
             Inr (kept, new_ids) \<Rightarrow> s\<lparr>exr_sigs := kept, exr_cleared := exr_cleared s @ new_ids\<rparr>
           | Inl e \<Rightarrow> s\<lparr>exr_poisoned := True\<rparr>)"

section \<open>Every accepted transaction is reported once\<close>

definition ids_of :: "outstanding list \<Rightarrow> u64 list" where
  "ids_of sigs = map (\<lambda>(sig, ts, i). i) sigs"

lemma ids_of_append: "ids_of (xs @ ys) = ids_of xs @ ids_of ys"
  by (simp add: ids_of_def)

text \<open>A state that calls and turns of the thread can lead to (a transaction is its bytes here), with the ids of all accepted transactions
  and the ids that were drained so far. Fewer than \<open>2 ^ 64\<close> transactions are pushed.\<close>

inductive executor_reaches :: "executor \<Rightarrow> u64 list \<Rightarrow> u64 list \<Rightarrow> bool" where
  reaches_new: "executor_reaches executor_new [] []"
| reaches_push: "executor_reaches s accepted drained \<Longrightarrow> unat (exr_counter s) + length (txs :: u8 list list) < 2 ^ 64
    \<Longrightarrow> push_transactions send txs s = Inr (s', ids)
    \<Longrightarrow> executor_reaches s' (accepted @ ids_of (fst (snd (push_loop send txs (exr_counter s))))) drained"
| reaches_round: "executor_reaches s accepted drained \<Longrightarrow> executor_reaches (clear_round statuses now s) accepted drained"
| reaches_drain: "executor_reaches s accepted drained \<Longrightarrow> drain_cleared s = (s', ids)
    \<Longrightarrow> executor_reaches s' accepted (drained @ ids)"

lemma push_loop_ids:
  assumes "push_loop send txs counter = (ids, new_sigs, counter')" and "unat counter + length txs < 2 ^ 64"
  shows "unat counter' = unat counter + length txs \<and> map unat ids = [unat counter ..< unat counter + length txs]
    \<and> distinct (ids_of new_sigs) \<and> set (ids_of new_sigs) \<subseteq> set ids"
  using assms
proof (induction txs arbitrary: counter ids new_sigs)
  case (Cons tx txs)
  obtain ids1 new1 where rest: "push_loop send txs (counter + 1) = (ids1, new1, counter')"
      and ids: "ids = counter # ids1"
      and new: "new_sigs = (case send tx of Inr (sig, ts) \<Rightarrow> (sig, ts, counter) # new1 | Inl e \<Rightarrow> new1)"
    using Cons.prems(1) by (auto split: prod.splits)
  have step: "unat (counter + 1) = unat counter + 1"
    using unat_plus_no_wrap [of counter 1] Cons.prems(2) by simp
  have IH: "unat counter' = unat (counter + 1) + length txs" "map unat ids1 = [unat (counter + 1) ..< unat (counter + 1) + length txs]"
      "distinct (ids_of new1)" "set (ids_of new1) \<subseteq> set ids1"
    using Cons.IH [OF rest] Cons.prems(2) step by simp_all
  have "counter \<notin> set ids1"
  proof
    assume "counter \<in> set ids1"
    then have "unat counter \<in> set (map unat ids1)" by simp
    then show False unfolding IH(2) step by (simp del: upt_Suc)
  qed
  moreover have "map unat ids = [unat counter ..< unat counter + length (tx # txs)]"
  proof -
    have "map unat ids = unat counter # [Suc (unat counter) ..< Suc (unat counter) + length txs]"
      using IH(2) step by (simp add: ids del: upt_Suc)
    also have "Suc (unat counter) + length txs = unat counter + length (tx # txs)" by simp
    also have "unat counter # [Suc (unat counter) ..< unat counter + length (tx # txs)]
        = [unat counter ..< unat counter + length (tx # txs)]" by (rule upt_conv_Cons [symmetric]) simp
    finally show ?thesis .
  qed
  moreover have "distinct (ids_of new_sigs) \<and> set (ids_of new_sigs) \<subseteq> set ids"
    using calculation(1) IH(3,4) by (auto simp: ids new ids_of_def split: sum.splits)
  ultimately show ?case using IH(1) step by simp
qed (simp add: ids_of_def)

lemma clear_scan_ids:
  "clear_scan now sigs statuses = Inr (kept, new_ids) \<Longrightarrow> mset (ids_of sigs) = mset (ids_of kept) + mset new_ids"
  by (induction now sigs statuses arbitrary: kept new_ids rule: clear_scan.induct)
    (auto simp: ids_of_def split: if_splits)

lemma clear_round_ids:
  "mset (ids_of (exr_sigs s)) + mset (exr_cleared s)
     = mset (ids_of (exr_sigs (clear_round statuses now s))) + mset (exr_cleared (clear_round statuses now s))"
  by (auto simp: clear_round_def clear_scan_ids split: sum.splits)

lemma clear_round_counter [simp]: "exr_counter (clear_round statuses now s) = exr_counter s"
  by (auto simp: clear_round_def split: sum.splits)


definition example_executor :: executor where
  "example_executor = \<lparr>exr_sigs = [(8, 0, 1)], exr_cleared = [0], exr_exit = False, exr_counter = 3, exr_poisoned = False\<rparr>"

definition example_send :: "u8 list \<Rightarrow> (signature \<times> u64) result" where
  "example_send tx = (if tx = [2] then Inl (Error ''refused'') else Inr (if tx = [] then 7 else 8, 0))"


section \<open>Old transactions are cleared\<close>

lemma clear_scan_kept:
  "clear_scan now sigs statuses = Inr (kept, new_ids) \<Longrightarrow> (sig, ts, i) \<in> set kept \<Longrightarrow> now - ts \<le> MAX_AGE_MS"
  by (induction now sigs statuses arbitrary: kept new_ids rule: clear_scan.induct)
    (auto split: if_splits simp: not_less)

text \<open>A turn of the thread that gets the statuses leaves nothing older than thirty seconds behind; one that
  does not makes every later call panic.\<close>

lemma clear_round_old:
  assumes "\<not> exr_exit s" and "\<not> exr_poisoned s" and "s' = clear_round statuses now s"
  shows "exr_poisoned s' \<and> push_transactions send txs s' = Inl (Panic ''called `Result::unwrap()` on an `Err` value: PoisonError'')
    \<or> (\<forall>(sig, ts, i) \<in> set (exr_sigs s'). now - ts \<le> MAX_AGE_MS)"
  using assms by (auto simp: clear_round_def push_transactions_def lock_sigs_def clear_scan_kept split: sum.splits)

end
