(* ===== verification/Block_Watch.thy ===== *)
theory Block_Watch
  imports Prelude
begin

text \<open>
  The subscription to blocks over a web socket (\<^verbatim>\<open>wire/rpc/subscribe_blocks.rs\<close>): a manager with a task
  per watched account, which forwards the transactions of the blocks that mention the account. A task is
  a number here; \<open>bkw_running\<close> are the tasks that have not ended, \<open>bkw_tasks\<close> the handles of the manager.
  The web socket and the conversion of a block are arguments.
\<close>

record 'tx block_watcher =
  bkw_tasks :: "(pubkey, nat) store"
  bkw_running :: "(nat \<times> pubkey) list"
  bkw_next :: nat
  bkw_manager_running :: bool
  bkw_sent :: "'tx list"

datatype block_watch_command = StopWatching "pubkey list" | StartWatching "pubkey list" | WatchShutdown

text \<open>A new task takes the place of the handle of its account. A task whose handle is dropped keeps
  running: its command channel is closed, and the branch that waits for it is disabled.\<close>

definition spawn_task_for_account :: "'tx block_watcher \<Rightarrow> pubkey \<Rightarrow> 'tx block_watcher" where
  "spawn_task_for_account w account = w\<lparr>
     bkw_running := bkw_running w @ [(bkw_next w, account)],
     bkw_tasks := store_insert (bkw_tasks w) account (bkw_next w),
     bkw_next := bkw_next w + 1\<rparr>"

definition spawn_tasks_for_accounts :: "pubkey list \<Rightarrow> 'tx block_watcher \<Rightarrow> 'tx block_watcher" where
  "spawn_tasks_for_accounts accounts w = foldl spawn_task_for_account w accounts"

text \<open>\<open>Vec::dedup\<close> removes repetitions that follow each other.\<close>

fun dedup :: "'a list \<Rightarrow> 'a list" where
  "dedup (x # y # xs) = (if x = y then dedup (y # xs) else x # dedup (y # xs))"
| "dedup xs = xs"

definition watch_for_transactions :: "pubkey list \<Rightarrow> 'tx block_watcher" where
  "watch_for_transactions init_accounts =
     spawn_tasks_for_accounts (dedup init_accounts)
       \<lparr>bkw_tasks = [], bkw_running = [], bkw_next = 0, bkw_manager_running = True, bkw_sent = []\<rparr>"

definition block_task_running :: "'tx block_watcher \<Rightarrow> nat \<Rightarrow> bool" where
  "block_task_running w i \<longleftrightarrow> i \<in> fst ` set (bkw_running w)"

text \<open>Ending the task of one account: a task that has ended already cannot be told to, which ends the
  manager with an error.\<close>

definition stop_watching_account :: "pubkey \<Rightarrow> 'tx block_watcher \<Rightarrow> 'tx block_watcher result" where
  "stop_watching_account account w = (case store_get (bkw_tasks w) account of
     None \<Rightarrow> Inr w
   | Some i \<Rightarrow>
       let w = w\<lparr>bkw_tasks := store_remove (bkw_tasks w) account\<rparr>
       in if block_task_running w i then Inr (w\<lparr>bkw_running := filter (\<lambda>(j, a). j \<noteq> i) (bkw_running w)\<rparr>)
          else Inl (Error ''channel closed''))"

fun stop_watching_accounts :: "pubkey list \<Rightarrow> 'tx block_watcher \<Rightarrow> 'tx block_watcher" where
  "stop_watching_accounts [] w = w"
| "stop_watching_accounts (account # accounts) w = (case stop_watching_account account w of
     Inr w \<Rightarrow> stop_watching_accounts accounts w
   | Inl e \<Rightarrow> w\<lparr>bkw_tasks := store_remove (bkw_tasks w) account, bkw_manager_running := False\<rparr>)"

definition handle_block_watch_command :: "block_watch_command \<Rightarrow> 'tx block_watcher \<Rightarrow> 'tx block_watcher" where
  "handle_block_watch_command cmd w =
     (if \<not> bkw_manager_running w then w
      else case cmd of
        WatchShutdown \<Rightarrow> w\<lparr>bkw_running := [], bkw_manager_running := False\<rparr>
      | StopWatching accounts \<Rightarrow> stop_watching_accounts accounts w
      | StartWatching accounts \<Rightarrow> spawn_tasks_for_accounts accounts w)"

text \<open>A block that mentions an account, at every task of the account: one that cannot convert it ends, the
  others send all its transactions.\<close>

definition account_block :: "('block \<Rightarrow> 'tx list result) \<Rightarrow> pubkey \<Rightarrow> 'block \<Rightarrow> 'tx block_watcher \<Rightarrow> 'tx block_watcher" where
  "account_block convert account block w = (case convert block of
     Inl e \<Rightarrow> w\<lparr>bkw_running := filter (\<lambda>(i, a). a \<noteq> account) (bkw_running w)\<rparr>
   | Inr transactions \<Rightarrow> w\<lparr>bkw_sent := bkw_sent w
       @ concat (map (\<lambda>_. transactions) (filter (\<lambda>(i, a). a = account) (bkw_running w)))\<rparr>)"

section \<open>Tasks and handles\<close>

text \<open>Every handle belongs to a task of its account, and the numbers of tasks are used once.\<close>

definition handles_ok :: "'tx block_watcher \<Rightarrow> bool" where
  "handles_ok w \<longleftrightarrow> distinct (map fst (bkw_running w)) \<and> (\<forall>(i, a) \<in> set (bkw_running w). i < bkw_next w)
     \<and> (\<forall>a i. store_get (bkw_tasks w) a = Some i \<longrightarrow> i < bkw_next w \<and> (\<forall>b. (i, b) \<in> set (bkw_running w) \<longrightarrow> b = a))"

lemma spawn_handles_ok: "handles_ok w \<Longrightarrow> handles_ok (spawn_task_for_account w a)"
  by (force simp: handles_ok_def spawn_task_for_account_def split: if_splits)

lemma spawns_handles_ok: "handles_ok w \<Longrightarrow> handles_ok (spawn_tasks_for_accounts accounts w)"
  unfolding spawn_tasks_for_accounts_def by (induction accounts arbitrary: w) (simp_all add: spawn_handles_ok)

lemma stop_handles_ok: "handles_ok w \<Longrightarrow> handles_ok (stop_watching_accounts accounts w)"
proof (induction accounts arbitrary: w)
  case (Cons a accounts)
  have "handles_ok w'" if "stop_watching_account a w = Inr w'" for w'
    using that Cons.prems
    by (auto simp: stop_watching_account_def handles_ok_def Let_def distinct_map_filter split: option.splits if_splits)
  moreover have "handles_ok (w\<lparr>bkw_tasks := store_remove (bkw_tasks w) a, bkw_manager_running := False\<rparr>)"
    using Cons.prems by (auto simp: handles_ok_def split: if_splits)
  ultimately show ?case using Cons.IH by (auto split: sum.split)
qed simp

lemma command_handles_ok: "handles_ok w \<Longrightarrow> handles_ok (handle_block_watch_command cmd w)"
  by (auto simp: handle_block_watch_command_def spawns_handles_ok stop_handles_ok split: block_watch_command.split)
    (simp add: handles_ok_def)

section \<open>Orphans\<close>

text \<open>A running task without a handle.\<close>

definition orphan :: "'tx block_watcher \<Rightarrow> nat \<Rightarrow> pubkey \<Rightarrow> bool" where
  "orphan w i account \<longleftrightarrow> (i, account) \<in> set (bkw_running w) \<and> (\<forall>a. store_get (bkw_tasks w) a \<noteq> Some i) \<and> i < bkw_next w"

lemma spawn_orphan: "orphan w i a \<Longrightarrow> orphan (spawn_task_for_account w b) i a"
  by (auto simp: orphan_def spawn_task_for_account_def)

lemma spawns_orphan: "orphan w i a \<Longrightarrow> orphan (spawn_tasks_for_accounts accounts w) i a"
  unfolding spawn_tasks_for_accounts_def by (induction accounts arbitrary: w) (simp_all add: spawn_orphan)

lemma stop_orphan: "orphan w i a \<Longrightarrow> orphan (stop_watching_accounts accounts w) i a"
proof (induction accounts arbitrary: w)
  case (Cons b accounts)
  have "orphan w' i a" if "stop_watching_account b w = Inr w'" for w'
    using that Cons.prems by (auto simp: stop_watching_account_def orphan_def Let_def split: option.splits if_splits)
  moreover have "orphan (w\<lparr>bkw_tasks := store_remove (bkw_tasks w) b, bkw_manager_running := False\<rparr>) i a"
    using Cons.prems by (auto simp: orphan_def)
  ultimately show ?case using Cons.IH by (auto split: sum.split)
qed simp

lemma commands_orphan:
  assumes "orphan w i a" and "WatchShutdown \<notin> set cmds"
  shows "orphan (foldl (\<lambda>w cmd. handle_block_watch_command cmd w) w cmds) i a"
  using assms
proof (induction cmds arbitrary: w)
  case (Cons cmd cmds)
  have "orphan (handle_block_watch_command cmd w) i a"
    using Cons.prems by (cases cmd) (auto simp: handle_block_watch_command_def spawns_orphan stop_orphan)
  then show ?case using Cons by simp
qed simp



end
