(* ===== verification/Pools.thy ===== *)
theory Pools
  imports Swap_Types Raydium_V4
begin

text \<open>
  The search for pools: the filters that a node applies to the accounts of a program
  (\<^verbatim>\<open>filter.rs\<close> of \<^verbatim>\<open>swap/orca\<close>, \<^verbatim>\<open>swap/raydium/amm\<close> and \<^verbatim>\<open>swap/raydium/clmm\<close>), the layout of Raydium's pool
  accounts (\<^verbatim>\<open>swap/raydium/amm/amm_info.rs\<close>) and the search for the pool of a pair (the three \<^verbatim>\<open>mod.rs\<close>).
  The node, the discriminators and sizes of foreign account types and reading an account are arguments.
\<close>

datatype account_filter = MemcmpBytes nat bytes | DataSize nat

definition le_bytes :: "nat \<Rightarrow> 'a::len word \<Rightarrow> bytes" where
  "le_bytes n w = map (\<lambda>i. ucast (drop_bit (8 * i) w)) [0..<n]"

text \<open>A public key is its bytes, the first one the highest.\<close>

definition key_bytes :: "pubkey \<Rightarrow> bytes" where
  "key_bytes k = rev (le_bytes 32 k)"

section \<open>Raydium's pool account\<close>

record amm_state_data =
  asd_need_take_pnl_coin :: u64
  asd_need_take_pnl_pc :: u64
  asd_total_pnl_pc :: u64
  asd_total_pnl_coin :: u64
  asd_pool_open_time :: u64
  asd_padding :: "u64 \<times> u64"
  asd_orderbook_to_init_time :: u64
  asd_swap_coin_in_amount :: bytes
  asd_swap_pc_out_amount :: bytes
  asd_swap_acc_pc_fee :: u64
  asd_swap_pc_in_amount :: bytes
  asd_swap_coin_out_amount :: bytes
  asd_swap_acc_coin_fee :: u64

definition state_data_bytes :: "amm_state_data \<Rightarrow> bytes" where
  "state_data_bytes d = concat [le_bytes 8 (asd_need_take_pnl_coin d), le_bytes 8 (asd_need_take_pnl_pc d),
     le_bytes 8 (asd_total_pnl_pc d), le_bytes 8 (asd_total_pnl_coin d), le_bytes 8 (asd_pool_open_time d),
     le_bytes 8 (fst (asd_padding d)), le_bytes 8 (snd (asd_padding d)), le_bytes 8 (asd_orderbook_to_init_time d),
     asd_swap_coin_in_amount d, asd_swap_pc_out_amount d, le_bytes 8 (asd_swap_acc_pc_fee d),
     asd_swap_pc_in_amount d, asd_swap_coin_out_amount d, le_bytes 8 (asd_swap_acc_coin_fee d)]"

text \<open>The sixteen numbers at the front, the fees of the Raydium crate as their bytes, and the keys.\<close>

record amm_account =
  ami_numbers :: "u64 list"
  ami_fees :: bytes
  ami_state_data :: amm_state_data
  ami_coin_vault :: pubkey
  ami_pc_vault :: pubkey
  ami_coin_vault_mint :: pubkey
  ami_pc_vault_mint :: pubkey
  ami_lp_mint :: pubkey
  ami_open_orders :: pubkey
  ami_market :: pubkey
  ami_market_program :: pubkey
  ami_target_orders :: pubkey
  ami_padding1 :: "u64 list"
  ami_amm_owner :: pubkey
  ami_lp_amount :: u64
  ami_client_order_id :: u64
  ami_padding2 :: "u64 list"

definition amm_info_bytes :: "amm_account \<Rightarrow> bytes" where
  "amm_info_bytes a = concat (map (le_bytes 8) (ami_numbers a)) @ ami_fees a @ state_data_bytes (ami_state_data a)
     @ key_bytes (ami_coin_vault a) @ key_bytes (ami_pc_vault a) @ key_bytes (ami_coin_vault_mint a)
     @ key_bytes (ami_pc_vault_mint a) @ key_bytes (ami_lp_mint a) @ key_bytes (ami_open_orders a)
     @ key_bytes (ami_market a) @ key_bytes (ami_market_program a) @ key_bytes (ami_target_orders a)
     @ concat (map (le_bytes 8) (ami_padding1 a)) @ key_bytes (ami_amm_owner a) @ le_bytes 8 (ami_lp_amount a)
     @ le_bytes 8 (ami_client_order_id a) @ concat (map (le_bytes 8) (ami_padding2 a))"

text \<open>\<open>mem::size_of::<StateData>()\<close>\<close>

definition STATE_DATA_SIZE :: nat where
  "STATE_DATA_SIZE = 8 * 8 + 2 * 16 + 8 + 2 * 16 + 8"

definition COIN_MINT_OFFSET :: "nat \<Rightarrow> nat" where
  "COIN_MINT_OFFSET fees_size = 16 * 8 + STATE_DATA_SIZE + fees_size + 32 + 32"

definition PC_MINT_OFFSET :: "nat \<Rightarrow> nat" where
  "PC_MINT_OFFSET fees_size = COIN_MINT_OFFSET fees_size + 32"

definition OWNER_OFFSET :: "nat \<Rightarrow> nat" where
  "OWNER_OFFSET fees_size = PC_MINT_OFFSET fees_size + 32 * 6 + 8 * 8"

definition AMM_INFO_SIZE :: "nat \<Rightarrow> nat" where
  "AMM_INFO_SIZE fees_size = 16 * 8 + fees_size + STATE_DATA_SIZE + 9 * 32 + 8 * 8 + 32 + 8 + 8 + 2 * 8"

definition get_raydium_v4_pool_by_pair :: "nat \<Rightarrow> pubkey \<Rightarrow> pubkey \<Rightarrow> account_filter list" where
  "get_raydium_v4_pool_by_pair fees_size coin_mint pc_mint =
     [MemcmpBytes (COIN_MINT_OFFSET fees_size) (key_bytes coin_mint), MemcmpBytes (PC_MINT_OFFSET fees_size) (key_bytes pc_mint)]"

definition get_raydium_v4_pool_by_coin_mint :: "nat \<Rightarrow> pubkey \<Rightarrow> account_filter list" where
  "get_raydium_v4_pool_by_coin_mint fees_size coin_mint = [MemcmpBytes (COIN_MINT_OFFSET fees_size) (key_bytes coin_mint)]"

definition get_raydium_v4_pool_by_pc_mint :: "nat \<Rightarrow> pubkey \<Rightarrow> account_filter list" where
  "get_raydium_v4_pool_by_pc_mint fees_size pc_mint = [MemcmpBytes (PC_MINT_OFFSET fees_size) (key_bytes pc_mint)]"

definition get_raydium_v4_pool_by_owner :: "nat \<Rightarrow> pubkey \<Rightarrow> account_filter list" where
  "get_raydium_v4_pool_by_owner fees_size owner = [MemcmpBytes (OWNER_OFFSET fees_size) (key_bytes owner)]"

section \<open>Filters of concentrated pools and whirlpools\<close>

definition V6_MINT_A_OFFSET :: nat where
  "V6_MINT_A_OFFSET = 8 + 65"

definition V6_MINT_B_OFFSET :: nat where
  "V6_MINT_B_OFFSET = 8 + 97"

definition V6_OWNER_OFFSET :: nat where
  "V6_OWNER_OFFSET = 8 + 33"

definition get_raydium_v6_pool_by_pair :: "bytes \<Rightarrow> pubkey \<Rightarrow> pubkey \<Rightarrow> account_filter list" where
  "get_raydium_v6_pool_by_pair discriminator token_a token_b =
     (let (token_a, token_b) = (if token_a < token_b then (token_a, token_b) else (token_b, token_a))
      in [MemcmpBytes 0 discriminator, MemcmpBytes V6_MINT_A_OFFSET (key_bytes token_a),
          MemcmpBytes V6_MINT_B_OFFSET (key_bytes token_b)])"

definition get_raydium_v6_pool_by_token_a :: "bytes \<Rightarrow> pubkey \<Rightarrow> account_filter list" where
  "get_raydium_v6_pool_by_token_a discriminator token_a =
     [MemcmpBytes 0 discriminator, MemcmpBytes V6_MINT_A_OFFSET (key_bytes token_a)]"

definition get_raydium_v6_pool_by_token_b :: "bytes \<Rightarrow> pubkey \<Rightarrow> account_filter list" where
  "get_raydium_v6_pool_by_token_b discriminator token_b =
     [MemcmpBytes 0 discriminator, MemcmpBytes V6_MINT_B_OFFSET (key_bytes token_b)]"

definition get_raydium_v6_pool_by_owner :: "bytes \<Rightarrow> pubkey \<Rightarrow> account_filter list" where
  "get_raydium_v6_pool_by_owner discriminator owner =
     [MemcmpBytes 0 discriminator, MemcmpBytes V6_OWNER_OFFSET (key_bytes owner)]"

definition MINT_A_OFFSET :: nat where
  "MINT_A_OFFSET = 8 + 93"

definition MINT_B_OFFSET :: nat where
  "MINT_B_OFFSET = 8 + 173"

definition get_whirlpool_by_pair :: "bytes \<Rightarrow> pubkey \<Rightarrow> pubkey \<Rightarrow> account_filter list" where
  "get_whirlpool_by_pair discriminator token_a token_b =
     (let (token_a, token_b) = (if token_a < token_b then (token_a, token_b) else (token_b, token_a))
      in [MemcmpBytes 0 discriminator, MemcmpBytes MINT_A_OFFSET (key_bytes token_a),
          MemcmpBytes MINT_B_OFFSET (key_bytes token_b)])"

definition get_whirlpool_by_token_a :: "bytes \<Rightarrow> pubkey \<Rightarrow> account_filter list" where
  "get_whirlpool_by_token_a discriminator token_a =
     [MemcmpBytes 0 discriminator, MemcmpBytes MINT_A_OFFSET (key_bytes token_a)]"

definition get_whirlpool_by_token_b :: "bytes \<Rightarrow> pubkey \<Rightarrow> account_filter list" where
  "get_whirlpool_by_token_b discriminator token_b =
     [MemcmpBytes 0 discriminator, MemcmpBytes MINT_B_OFFSET (key_bytes token_b)]"

section \<open>The search\<close>

text \<open>\<open>get_pools\<close> of the three programs: \<open>node\<close> answers for the accounts of the program, an account that
  cannot be read panics.\<close>

definition pools_by_filters ::
  "(account_filter list \<Rightarrow> (pubkey \<times> bytes) list result) \<Rightarrow> (bytes \<Rightarrow> 'p option) \<Rightarrow> nat \<Rightarrow> account_filter list \<Rightarrow> bool
     \<Rightarrow> (pubkey \<times> 'p) list result" where
  "pools_by_filters node read_pool account_size filters with_size_filter =
     bind_res (node (if with_size_filter then filters @ [DataSize account_size] else filters))
       (collect_results (\<lambda>(key, data).
          bind_res (expect (read_pool data) ''called `Result::unwrap()` on an `Err` value'') (\<lambda>pool. Inr (key, pool))))"

definition first_pool :: "(pubkey \<times> 'p) list \<Rightarrow> (pubkey \<times> 'p) result" where
  "first_pool pools = (case pools of [] \<Rightarrow> Inl (Error ''No pool found for pair'') | pool # _ \<Rightarrow> Inr pool)"

text \<open>For Raydium's pools both orders of the pair are requested, and the answers come in any order.\<close>

definition amm_pool_for_pair ::
  "(account_filter list \<Rightarrow> (pubkey \<times> bytes) list result) \<Rightarrow> (bytes \<Rightarrow> amm_account option) \<Rightarrow> nat \<Rightarrow> bool \<Rightarrow> pubkey \<Rightarrow> pubkey
     \<Rightarrow> (pubkey \<times> amm_account) result" where
  "amm_pool_for_pair node read_pool fees_size in_order token_a token_b =
     (let search = (\<lambda>(a, b). bind_res (pools_by_filters node read_pool (AMM_INFO_SIZE fees_size)
            (get_raydium_v4_pool_by_pair fees_size a b) False) first_pool);
          pair = (if in_order then (token_a, token_b) else (token_b, token_a))
      in case (search pair, search (snd pair, fst pair)) of
           (Inl (Panic e), _) \<Rightarrow> Inl (Panic e)
         | (_, Inl (Panic e)) \<Rightarrow> Inl (Panic e)
         | (Inr pool, _) \<Rightarrow> Inr pool
         | (_, Inr pool) \<Rightarrow> Inr pool
         | _ \<Rightarrow> Inl (Error ''No pool found for pair''))"

definition amm_pool_for_pair2 ::
  "(account_filter list \<Rightarrow> (pubkey \<times> bytes) list result) \<Rightarrow> (bytes \<Rightarrow> amm_account option) \<Rightarrow> nat \<Rightarrow> pubkey \<Rightarrow> pubkey
     \<Rightarrow> (pubkey \<times> amm_account) result" where
  "amm_pool_for_pair2 node read_pool fees_size token_a token_b =
     bind_res (pools_by_filters node read_pool (AMM_INFO_SIZE fees_size)
       (get_raydium_v4_pool_by_pair fees_size token_a token_b) False) (\<lambda>pools.
     case pools of [] \<Rightarrow> Inl (Panic ''index out of bounds'') | pool # _ \<Rightarrow> Inr pool)"

definition clmm_pool_for_pair ::
  "(account_filter list \<Rightarrow> (pubkey \<times> bytes) list result) \<Rightarrow> (bytes \<Rightarrow> 'p option) \<Rightarrow> bytes \<Rightarrow> nat \<Rightarrow> pubkey \<Rightarrow> pubkey
     \<Rightarrow> (pubkey \<times> 'p) result" where
  "clmm_pool_for_pair node read_pool discriminator account_size token_a token_b =
     bind_res (pools_by_filters node read_pool account_size (get_raydium_v6_pool_by_pair discriminator token_a token_b) False)
       first_pool"

definition orca_pools_for_pair ::
  "(account_filter list \<Rightarrow> (pubkey \<times> bytes) list result) \<Rightarrow> (bytes \<Rightarrow> 'p option) \<Rightarrow> bytes \<Rightarrow> nat \<Rightarrow> pubkey \<Rightarrow> pubkey
     \<Rightarrow> (pubkey \<times> 'p) list result" where
  "orca_pools_for_pair node read_pool discriminator account_size token_a token_b =
     pools_by_filters node read_pool account_size (get_whirlpool_by_pair discriminator token_a token_b) False"

section \<open>What the filters select\<close>

fun filter_matches :: "account_filter \<Rightarrow> bytes \<Rightarrow> bool" where
  "filter_matches (MemcmpBytes offset bs) data \<longleftrightarrow> take (length bs) (drop offset data) = bs"
| "filter_matches (DataSize n) data \<longleftrightarrow> length data = n"

text \<open>A node that answers with the accounts that pass all filters.\<close>

definition node_filters ::
  "(account_filter list \<Rightarrow> (pubkey \<times> bytes) list result) \<Rightarrow> (pubkey \<times> bytes) list \<Rightarrow> bool" where
  "node_filters node accounts \<longleftrightarrow>
     (\<forall>fs. node fs = Inr (filter (\<lambda>(k, data). \<forall>f \<in> set fs. filter_matches f data) accounts))"

text \<open>The sizes that the layout of an account has.\<close>

definition amm_info_ok :: "nat \<Rightarrow> amm_account \<Rightarrow> bool" where
  "amm_info_ok fees_size a \<longleftrightarrow> length (ami_numbers a) = 16 \<and> length (ami_fees a) = fees_size
     \<and> length (ami_padding1 a) = 8 \<and> length (ami_padding2 a) = 2
     \<and> length (asd_swap_coin_in_amount (ami_state_data a)) = 16 \<and> length (asd_swap_pc_out_amount (ami_state_data a)) = 16
     \<and> length (asd_swap_pc_in_amount (ami_state_data a)) = 16 \<and> length (asd_swap_coin_out_amount (ami_state_data a)) = 16"

lemma length_le_bytes [simp]: "length (le_bytes n w) = n"
  by (simp add: le_bytes_def)

lemma length_key_bytes [simp]: "length (key_bytes k) = 32"
  by (simp add: key_bytes_def)

lemma length_concat_le_bytes [simp]: "length (concat (map (le_bytes n) xs)) = n * length xs"
  by (induction xs) simp_all

lemma key_bytes_inj [simp]: "key_bytes a = key_bytes b \<longleftrightarrow> a = b"
proof
  assume "key_bytes a = key_bytes b"
  then have eq: "(ucast (drop_bit (8 * i) a) :: u8) = ucast (drop_bit (8 * i) b)" if "i < 32" for i
    using that by (simp add: key_bytes_def le_bytes_def)
  show "a = b"
  proof (rule bit_word_eqI)
    fix n assume "n < LENGTH(256)"
    then have "bit (ucast (drop_bit (8 * (n div 8)) a) :: u8) (n mod 8) = bit (ucast (drop_bit (8 * (n div 8)) b) :: u8) (n mod 8)"
      using eq [of "n div 8"] by simp
    then show "bit a n = bit b n" by (simp add: bit_simps)
  qed
qed simp

lemma length_state_data_bytes:
  "amm_info_ok fees_size a \<Longrightarrow> length (state_data_bytes (ami_state_data a)) = STATE_DATA_SIZE"
  by (simp add: state_data_bytes_def amm_info_ok_def STATE_DATA_SIZE_def)

lemma window_at: "length xs = n \<Longrightarrow> length k = m \<Longrightarrow> take m (drop n (xs @ k @ ys)) = k"
  by simp

text \<open>The offsets are those of the layout.\<close>

lemma amm_info_layout:
  assumes "amm_info_ok fees_size a"
  shows "length (amm_info_bytes a) = AMM_INFO_SIZE fees_size"
    and "take 32 (drop (COIN_MINT_OFFSET fees_size) (amm_info_bytes a)) = key_bytes (ami_coin_vault_mint a)"
    and "take 32 (drop (PC_MINT_OFFSET fees_size) (amm_info_bytes a)) = key_bytes (ami_pc_vault_mint a)"
    and "take 32 (drop (OWNER_OFFSET fees_size) (amm_info_bytes a)) = key_bytes (ami_amm_owner a)"
proof -
  let ?front = "concat (map (le_bytes 8) (ami_numbers a)) @ ami_fees a @ state_data_bytes (ami_state_data a)
     @ key_bytes (ami_coin_vault a) @ key_bytes (ami_pc_vault a)"
  let ?mid = "key_bytes (ami_lp_mint a) @ key_bytes (ami_open_orders a) @ key_bytes (ami_market a)
     @ key_bytes (ami_market_program a) @ key_bytes (ami_target_orders a) @ concat (map (le_bytes 8) (ami_padding1 a))"
  let ?rest = "le_bytes 8 (ami_lp_amount a) @ le_bytes 8 (ami_client_order_id a) @ concat (map (le_bytes 8) (ami_padding2 a))"
  let ?coin = "key_bytes (ami_coin_vault_mint a)" and ?pc = "key_bytes (ami_pc_vault_mint a)" and ?owner = "key_bytes (ami_amm_owner a)"
  note len = length_state_data_bytes [OF assms]
  have front: "length ?front = COIN_MINT_OFFSET fees_size"
    using assms by (simp add: len COIN_MINT_OFFSET_def amm_info_ok_def)
  have mid: "length ?mid = 32 * 5 + 8 * 8" and rest: "length ?rest = 8 + 8 + 2 * 8"
    using assms by (simp_all add: amm_info_ok_def)
  show "length (amm_info_bytes a) = AMM_INFO_SIZE fees_size"
    using assms by (simp add: amm_info_bytes_def len AMM_INFO_SIZE_def amm_info_ok_def)
  have coin: "amm_info_bytes a = ?front @ ?coin @ (?pc @ ?mid @ ?owner @ ?rest)" by (simp add: amm_info_bytes_def)
  show "take 32 (drop (COIN_MINT_OFFSET fees_size) (amm_info_bytes a)) = ?coin"
    unfolding coin by (rule window_at [OF front]) simp
  have pc: "amm_info_bytes a = (?front @ ?coin) @ ?pc @ (?mid @ ?owner @ ?rest)" by (simp add: amm_info_bytes_def)
  have "length (?front @ ?coin) = PC_MINT_OFFSET fees_size"
    unfolding PC_MINT_OFFSET_def length_append [of ?front ?coin] front by simp
  then show "take 32 (drop (PC_MINT_OFFSET fees_size) (amm_info_bytes a)) = ?pc"
    unfolding pc by (rule window_at) simp
  have owner: "amm_info_bytes a = (?front @ ?coin @ ?pc @ ?mid) @ ?owner @ ?rest" by (simp add: amm_info_bytes_def)
  have "length (?front @ ?coin @ ?pc @ ?mid) = OWNER_OFFSET fees_size"
    unfolding OWNER_OFFSET_def PC_MINT_OFFSET_def length_append [of ?front "?coin @ ?pc @ ?mid"] front
      length_append [of ?coin "?pc @ ?mid"] length_append [of ?pc ?mid] mid by simp
  then show "take 32 (drop (OWNER_OFFSET fees_size) (amm_info_bytes a)) = ?owner"
    unfolding owner by (rule window_at) simp
qed

lemma v4_pair_filters:
  assumes "amm_info_ok fees_size p"
  shows "(\<forall>f \<in> set (get_raydium_v4_pool_by_pair fees_size a b). filter_matches f (amm_info_bytes p))
    \<longleftrightarrow> ami_coin_vault_mint p = a \<and> ami_pc_vault_mint p = b"
  by (simp add: get_raydium_v4_pool_by_pair_def amm_info_layout [OF assms])

text \<open>A node over pools that are laid out as \<open>AmmInfo\<close>, and that can be read.\<close>

definition amm_node ::
  "(account_filter list \<Rightarrow> (pubkey \<times> bytes) list result) \<Rightarrow> (bytes \<Rightarrow> amm_account option) \<Rightarrow> nat \<Rightarrow> (pubkey \<times> amm_account) list \<Rightarrow> bool" where
  "amm_node node read_pool fees_size pools \<longleftrightarrow> node_filters node (map (\<lambda>(k, p). (k, amm_info_bytes p)) pools)
     \<and> (\<forall>(k, p) \<in> set pools. amm_info_ok fees_size p \<and> read_pool (amm_info_bytes p) = Some p)"

lemma amm_pools_of_pair:
  assumes "amm_node node read_pool fees_size pools"
  shows "pools_by_filters node read_pool n (get_raydium_v4_pool_by_pair fees_size a b) False
    = Inr (filter (\<lambda>(k, p). ami_coin_vault_mint p = a \<and> ami_pc_vault_mint p = b) pools)"
proof -
  let ?P = "\<lambda>(k, p). ami_coin_vault_mint p = a \<and> ami_pc_vault_mint p = b"
  let ?row = "\<lambda>(k :: pubkey, p). (k, amm_info_bytes p)"
  have ok: "amm_info_ok fees_size p" "read_pool (amm_info_bytes p) = Some p" if "(k, p) \<in> set pools" for k p
    using assms that by (auto simp: amm_node_def)
  have "filter (\<lambda>(k, data). \<forall>f \<in> set (get_raydium_v4_pool_by_pair fees_size a b). filter_matches f data) (map ?row pools)
      = map ?row (filter ?P pools)"
    unfolding filter_map
    by (rule arg_cong [of _ _ "map ?row"], rule filter_cong, simp) (clarsimp, rule v4_pair_filters, erule ok(1))
  then have "node (get_raydium_v4_pool_by_pair fees_size a b) = Inr (map ?row (filter ?P pools))"
    using assms by (simp add: amm_node_def node_filters_def)
  moreover have "collect_results (\<lambda>(key, data). bind_res (expect (read_pool data) m) (\<lambda>pool. Inr (key, pool)))
      (map ?row qs) = Inr qs" if "set qs \<subseteq> set pools" for qs m
    using that by (induction qs) (auto simp: ok(2))
  ultimately show ?thesis by (simp add: pools_by_filters_def)
qed


definition example_amm :: amm_account where
  "example_amm = \<lparr>ami_numbers = replicate 16 1, ami_fees = replicate 64 0,
     ami_state_data = \<lparr>asd_need_take_pnl_coin = 0, asd_need_take_pnl_pc = 0, asd_total_pnl_pc = 0, asd_total_pnl_coin = 0,
       asd_pool_open_time = 0, asd_padding = (0, 0), asd_orderbook_to_init_time = 0, asd_swap_coin_in_amount = replicate 16 0,
       asd_swap_pc_out_amount = replicate 16 0, asd_swap_acc_pc_fee = 0, asd_swap_pc_in_amount = replicate 16 0,
       asd_swap_coin_out_amount = replicate 16 0, asd_swap_acc_coin_fee = 0\<rparr>,
     ami_coin_vault = 3, ami_pc_vault = 4, ami_coin_vault_mint = 1, ami_pc_vault_mint = 2, ami_lp_mint = 5,
     ami_open_orders = 6, ami_market = 7, ami_market_program = 8, ami_target_orders = 9, ami_padding1 = replicate 8 0,
     ami_amm_owner = 10, ami_lp_amount = 0, ami_client_order_id = 0, ami_padding2 = [0, 0]\<rparr>"

definition example_amm_node :: "account_filter list \<Rightarrow> (pubkey \<times> bytes) list result" where
  "example_amm_node fs = Inr (filter (\<lambda>(k, data). list_all (\<lambda>f. filter_matches f data) fs) [(11, amm_info_bytes example_amm)])"


text \<open>Whirlpools and concentrated pools have their mints in order; the filters take a pair either way.\<close>

lemma ordered_pair_filters:
  assumes "a \<noteq> b"
  shows "get_whirlpool_by_pair d a b = get_whirlpool_by_pair d b a"
    and "get_raydium_v6_pool_by_pair d a b = get_raydium_v6_pool_by_pair d b a"
  using assms by (auto simp: get_whirlpool_by_pair_def get_raydium_v6_pool_by_pair_def)

end
