(* ===== verification/Wallet_Dump.thy ===== *)
theory Wallet_Dump
  imports Historical Accounts Parser Files
begin

text \<open>
  The swaps of a wallet (\<^verbatim>\<open>analytics/dump.rs\<close>): the signatures of a stretch of time, their transactions, the
  swaps that the parser finds in them, and the decimals of the traded tokens, put together the way the two
  searches of the file do. The node, the cache, serde's reading and printing of the file of swaps and the
  mint of the SPL library are arguments. How many requests run at once does not show in the answers.
\<close>

section \<open>Data\<close>

record dump_swap =
  dsw_swap :: resolved_swap
  dsw_origin_signer :: pubkey
  dsw_origin_signature :: signature
  dsw_block_time :: int
  dsw_origin_sol_balance :: "balance option"
  dsw_origin_input_mint_balance :: "balance option"
  dsw_origin_output_mint_balance :: "balance option"

record search_window =
  sw_before :: "signature option"
  sw_until :: "signature option"
  sw_until_ts :: int

definition wallet_filepath :: "(pubkey \<Rightarrow> string) \<Rightarrow> path \<Rightarrow> pubkey \<Rightarrow> path" where
  "wallet_filepath to_string dir wallet = dir @ [to_string wallet @ ''.json'']"

text \<open>\<open>de_binary_search\<close> is \<open>slice::binary_search_by\<close> on the keys of a slice: \<open>Inl\<close> an index with the
  key, \<open>Inr\<close> the index where it could be inserted. On slices with repetitions the standard library leaves
  open which of the equal elements it finds, and on unsorted ones it leaves open everything.\<close>

record ('x, 'raw, 'cache) dump_env =
  de_to_string :: "pubkey \<Rightarrow> string"
  de_from_str :: "string \<Rightarrow> signature option"
  de_partition_point :: "(rpc_signature \<Rightarrow> bool) \<Rightarrow> rpc_signature list \<Rightarrow> nat"
  de_binary_search :: "int list \<Rightarrow> int \<Rightarrow> nat + nat"
  de_node :: "pubkey \<Rightarrow> signature_node"
  de_source :: "('raw, 'cache) transaction_source"
  de_sdk :: "'x parser_sdk"
  de_accounts :: account_rpc
  de_unpack :: "u8 list \<Rightarrow> mint_state option"
  de_path :: "string \<Rightarrow> path"
  de_from_json :: "string \<Rightarrow> dump_swap list result"
  de_to_json :: "dump_swap list \<Rightarrow> string result"

section \<open>From signatures to swaps\<close>

text \<open>What is not a swap and what cannot be parsed is left out.\<close>

fun parse_transactions :: "(itransaction \<Rightarrow> resolved_swap option result) \<Rightarrow> itransaction list
    \<Rightarrow> (itransaction \<times> resolved_swap) list result" where
  "parse_transactions parse [] = Inr []"
| "parse_transactions parse (tx # txs) = (case parse tx of
     Inl (Panic e) \<Rightarrow> Inl (Panic e)
   | Inl (Error _) \<Rightarrow> parse_transactions parse txs
   | Inr None \<Rightarrow> parse_transactions parse txs
   | Inr (Some swap) \<Rightarrow> bind_res (parse_transactions parse txs) (\<lambda>r. Inr ((tx, swap) # r)))"

text \<open>The tokens are collected in a hash set; the order in which they come out of it has no effect on the
  decimals found.\<close>

definition traded_mints :: "(itransaction \<times> resolved_swap) list \<Rightarrow> pubkey list" where
  "traded_mints swaps = remdups (concat (map (\<lambda>(_, s). [rs_input_token_mint s, rs_output_token_mint s]) swaps))"

fun collect_decimals :: "(u8 list \<Rightarrow> mint_state option) \<Rightarrow> raw_account option list \<Rightarrow> pubkey list
    \<Rightarrow> (pubkey, u8) store \<Rightarrow> (pubkey, u8) store result" where
  "collect_decimals unpack accounts [] m = Inr m"
| "collect_decimals unpack [] (mint # mints) m = Inl (Panic ''index out of bounds'')"
| "collect_decimals unpack (None # accounts) (mint # mints) m = collect_decimals unpack accounts mints m"
| "collect_decimals unpack (Some account # accounts) (mint # mints) m =
     bind_res (unpack_mint unpack account) (\<lambda>state. collect_decimals unpack accounts mints
       (case state of Some st \<Rightarrow> store_insert m mint (mst_decimals st) | None \<Rightarrow> m))"

definition with_decimals :: "(pubkey, u8) store \<Rightarrow> resolved_swap \<Rightarrow> resolved_swap" where
  "with_decimals m swap = (case (store_get m (rs_input_token_mint swap), store_get m (rs_output_token_mint swap)) of
     (Some i, Some j) \<Rightarrow> swap\<lparr>rs_token_decimals := Some \<lparr>td_input = i, td_output = j\<rparr>\<rparr>
   | _ \<Rightarrow> swap)"

definition dump_swap_of ::
  "(pubkey \<Rightarrow> string) \<Rightarrow> (pubkey, u8) store \<Rightarrow> itransaction \<times> resolved_swap \<Rightarrow> dump_swap result" where
  "dump_swap_of to_string m p = (case p of (tx, swap) \<Rightarrow>
     bind_res (ok_or (nth_opt (tx_account_keys tx) 0) ''no keys present in txn'') (\<lambda>origin_signer.
     bind_res (ok_or (tx_block_time tx) ''blocktime not defined'') (\<lambda>block_time.
     Inr \<lparr>dsw_swap = with_decimals m swap,
          dsw_origin_signer = origin_signer,
          dsw_origin_signature = tx_signature tx,
          dsw_block_time = block_time,
          dsw_origin_sol_balance = create_sol_balance tx 0,
          dsw_origin_input_mint_balance = create_token_balance to_string tx origin_signer (rs_input_token_mint swap),
          dsw_origin_output_mint_balance = create_token_balance to_string tx origin_signer (rs_output_token_mint swap)\<rparr>)))"

text \<open>The part that the two searches share, line by line the same in both.\<close>

definition swaps_of_signatures ::
  "('x, 'raw, 'cache) dump_env \<Rightarrow> (itransaction \<Rightarrow> bool) \<Rightarrow> 'cache option \<Rightarrow> rpc_signature list
     \<Rightarrow> ('cache option \<times> dump_swap list) result" where
  "swaps_of_signatures env keep cache signatures =
     bind_res (collect_results (parse_signature (de_from_str env)) signatures) (\<lambda>sigs.
     bind_res (get_transactions_for_signatures (de_source env) (Some keep) cache sigs) (\<lambda>(cache, transactions).
     bind_res (parse_transactions (parse_swap_transaction (de_sdk env)) transactions) (\<lambda>transactions_and_swaps.
     let token_mints = traded_mints transactions_and_swaps in
     bind_res (get_multiple_account_data (de_accounts env) token_mints) (\<lambda>accounts.
     bind_res (collect_decimals (de_unpack env) accounts token_mints []) (\<lambda>decimals.
     bind_res (collect_results (dump_swap_of (de_to_string env) decimals) transactions_and_swaps) (\<lambda>swaps.
     Inr (cache, swaps)))))))"

section \<open>The last days of a wallet\<close>

text \<open>The pattern \<open>Some(wallet)\<close> of the filter binds a new variable: it holds for every first key.\<close>

definition keep_wallet_transaction :: "pubkey \<Rightarrow> itransaction \<Rightarrow> bool" where
  "keep_wallet_transaction wallet tx \<longleftrightarrow> tx_err tx = None \<and>
     (case nth_opt (tx_account_keys tx) 0 of Some wallet \<Rightarrow> True | None \<Rightarrow> False)"

text \<open>\<open>None\<close> is a search for signatures that does not return.\<close>

definition get_swaps_for_wallet ::
  "('x, 'raw, 'cache) dump_env \<Rightarrow> u64 \<Rightarrow> pubkey \<Rightarrow> u64 \<Rightarrow> signature option \<Rightarrow> usize option \<Rightarrow> 'cache option
     \<Rightarrow> ('cache option \<times> dump_swap list) result option" where
  "get_swaps_for_wallet env current_timestamp wallet duration_days until_signature transaction_limit cache =
     (case checked_sub current_timestamp (duration_days * 24 * 60 * 60) of
        None \<Rightarrow> Some (Inl (Error ''underflow''))
      | Some start \<Rightarrow>
          map_option (\<lambda>found. bind_res found (\<lambda>(signatures, termination).
            if transaction_limit \<noteq> None \<and> termination = ReasonN then Inl (Error ''Transactions exceeded limit'')
            else
              let signatures = filter (\<lambda>sig. rg_err sig = None) signatures
              in if (case transaction_limit of Some limit \<Rightarrow> unat limit < length signatures | None \<Rightarrow> False)
                 then Inl (Error ''Signatures are of length'')
                 else swaps_of_signatures env (keep_wallet_transaction wallet) cache signatures))
           (get_signatures_for_address (de_partition_point env) (de_from_str env) (de_node env wallet) None
             until_signature
             (LimitBlocktime (sint start) # (case transaction_limit of Some n \<Rightarrow> [LimitN n] | None \<Rightarrow> []))
             (Some Forward)))"

section \<open>The swaps between two timestamps\<close>

text \<open>The windows to search, and whether the file covers the request.\<close>

definition search_windows :: "dump_swap list \<Rightarrow> int \<Rightarrow> int \<Rightarrow> search_window list \<times> bool" where
  "search_windows additional target_start target_end =
     (if additional = [] then ([\<lparr>sw_before = None, sw_until = None, sw_until_ts = target_start\<rparr>], True)
      else let first = hd additional; last = last additional in
        ((if target_start < dsw_block_time first
          then [\<lparr>sw_before = Some (dsw_origin_signature first), sw_until = None, sw_until_ts = target_start\<rparr>] else [])
         @ (if dsw_block_time last < target_end
            then [\<lparr>sw_before = None, sw_until = Some (dsw_origin_signature last), sw_until_ts = dsw_block_time last\<rparr>]
            else []),
         \<not> target_end < dsw_block_time first \<and> \<not> dsw_block_time last < target_start))"

fun window_signatures ::
  "('x, 'raw, 'cache) dump_env \<Rightarrow> pubkey \<Rightarrow> search_window list \<Rightarrow> rpc_signature list \<Rightarrow> rpc_signature list result option" where
  "window_signatures env wallet [] signatures = Some (Inr signatures)"
| "window_signatures env wallet (w # ws) signatures =
     (case get_signatures_for_address (de_partition_point env) (de_from_str env) (de_node env wallet)
         (sw_before w) (sw_until w) [LimitBlocktime (sw_until_ts w)] (Some Forward) of
        None \<Rightarrow> None
      | Some (Inl e) \<Rightarrow> Some (Inl e)
      | Some (Inr (sigs, _)) \<Rightarrow> window_signatures env wallet ws (signatures @ sigs))"

text \<open>The match on the result of \<open>binary_search_by\<close>, \<open>Vec::split_off\<close> and a slice with an inclusive
  range.\<close>

definition search_index :: "(int list \<Rightarrow> int \<Rightarrow> nat + nat) \<Rightarrow> int list \<Rightarrow> int \<Rightarrow> nat" where
  "search_index bs keys x = (case bs keys x of Inl idx \<Rightarrow> idx | Inr idx \<Rightarrow> idx)"

definition split_off_rest :: "nat \<Rightarrow> 'a list \<Rightarrow> 'a list result" where
  "split_off_rest idx xs = (if length xs < idx then Inl (Panic ''`at` split index should be <= len'') else Inr (take idx xs))"

definition slice_inclusive :: "nat \<Rightarrow> nat \<Rightarrow> 'a list \<Rightarrow> 'a list result" where
  "slice_inclusive i j xs =
     (if Suc j < i then Inl (Panic ''slice index starts after its end'')
      else if length xs < Suc j then Inl (Panic ''range end index out of range'')
      else Inr (drop i (take (Suc j) xs)))"

text \<open>\<open>dedup_by\<close> keeps the first of swaps in a row with the same signature.\<close>

fun dedup_swaps :: "dump_swap list \<Rightarrow> dump_swap list" where
  "dedup_swaps (x # y # ys) = (if dsw_origin_signature x = dsw_origin_signature y then dedup_swaps (x # ys)
     else x # dedup_swaps (y # ys))"
| "dedup_swaps xs = xs"

definition merge_additional :: "dump_swap list \<Rightarrow> dump_swap list \<Rightarrow> dump_swap list" where
  "merge_additional additional swaps =
     (if additional = [] then swaps else dedup_swaps (sort_key dsw_block_time (swaps @ additional)))"

text \<open>The path itself is handed to serde, not what the file holds.\<close>

definition read_additional :: "('x, 'raw, 'cache) dump_env \<Rightarrow> string option \<Rightarrow> dump_swap list result" where
  "read_additional env append_file_path =
     (case append_file_path of None \<Rightarrow> Inr [] | Some file \<Rightarrow> de_from_json env file)"

definition write_additional ::
  "('x, 'raw, 'cache) dump_env \<Rightarrow> file_system \<Rightarrow> string option \<Rightarrow> bool \<Rightarrow> dump_swap list \<Rightarrow> file_system result" where
  "write_additional env fs append_file_path within_bounds swaps =
     (case append_file_path of
        None \<Rightarrow> Inr fs
      | Some file \<Rightarrow>
          if within_bounds
          then bind_res (de_to_json env swaps) (\<lambda>json. io_result (fs_write (de_path env file) json fs))
          else Inr fs)"

definition swaps_in_range :: "(int list \<Rightarrow> int \<Rightarrow> nat + nat) \<Rightarrow> int \<Rightarrow> int \<Rightarrow> dump_swap list \<Rightarrow> dump_swap list result" where
  "swaps_in_range bs target_start target_end swaps =
     (let times = map dsw_block_time swaps
      in slice_inclusive (search_index bs times target_start) (search_index bs times target_end) swaps)"

definition signature_times :: "rpc_signature list \<Rightarrow> int list" where
  "signature_times signatures = map (\<lambda>sig. unwrap_or (rg_block_time sig) 0) signatures"

definition get_swaps_for_wallet2 ::
  "('x, 'raw, 'cache) dump_env \<Rightarrow> file_system \<Rightarrow> pubkey \<Rightarrow> int \<Rightarrow> int \<Rightarrow> string option \<Rightarrow> 'cache option
     \<Rightarrow> (file_system \<times> ('cache option \<times> dump_swap list) result) option" where
  "get_swaps_for_wallet2 env fs wallet target_start target_end append_file_path cache =
     (if target_end \<le> target_start then Some (fs, Inl (Error ''start timestamp must be greater than end timestamp''))
      else case read_additional env append_file_path of
        Inl e \<Rightarrow> Some (fs, Inl e)
      | Inr additional \<Rightarrow>
          (case search_windows additional target_start target_end of (windows, within_bounds) \<Rightarrow>
             map_option (\<lambda>found.
               case bind_res found (\<lambda>signatures.
                    bind_res (split_off_rest (search_index (de_binary_search env) (signature_times signatures) target_end)
                        signatures) (\<lambda>signatures.
                    swaps_of_signatures env (\<lambda>tx. tx_err tx = None) cache signatures)) of
                 Inl e \<Rightarrow> (fs, Inl e)
               | Inr (cache, swaps) \<Rightarrow>
                   let swaps = merge_additional additional swaps in
                   (case write_additional env fs append_file_path within_bounds swaps of
                      Inl e \<Rightarrow> (fs, Inl e)
                    | Inr fs \<Rightarrow> (fs, bind_res (swaps_in_range (de_binary_search env) target_start target_end swaps)
                        (\<lambda>answer. Inr (cache, answer)))))
              (window_signatures env wallet windows [])))"

section \<open>What the searches answer\<close>

definition dump_line :: "itransaction \<Rightarrow> signature \<times> pubkey \<times> int" where
  "dump_line tx = (tx_signature tx, hd (tx_account_keys tx), the (tx_block_time tx))"

definition dump_swap_line :: "dump_swap \<Rightarrow> signature \<times> pubkey \<times> int" where
  "dump_swap_line s = (dsw_origin_signature s, dsw_origin_signer s, dsw_block_time s)"

definition parsed_swap :: "(itransaction \<Rightarrow> resolved_swap option result) \<Rightarrow> itransaction \<Rightarrow> bool" where
  "parsed_swap parse tx \<longleftrightarrow> (case parse tx of Inr (Some _) \<Rightarrow> True | _ \<Rightarrow> False)"

lemma parse_transactions_filter:
  "parse_transactions parse txs = Inr r \<Longrightarrow> map fst r = filter (parsed_swap parse) txs"
  by (induction parse txs arbitrary: r rule: parse_transactions.induct)
    (auto simp: parsed_swap_def bind_res_def split: sum.splits option.splits failure.splits)

lemma dump_swap_of_line:
  "dump_swap_of to_string m p = Inr s \<Longrightarrow> dump_swap_line s = dump_line (fst p) \<and> tx_block_time (fst p) = Some (dsw_block_time s)"
  by (cases "tx_account_keys (fst p)")
    (auto simp: dump_swap_of_def dump_swap_line_def dump_line_def ok_or_def nth_opt_def bind_res_def
      split: prod.splits option.splits sum.splits if_splits)

lemma dumped_lines:
  assumes "collect_results (dump_swap_of to_string m) ps = Inr swaps"
  shows "map dump_swap_line swaps = map dump_line (map fst ps)
    \<and> map (\<lambda>s. Some (dsw_block_time s)) swaps = map tx_block_time (map fst ps)"
  using assms unfolding collect_results_Inr_iff
  by (induction rule: list_all2_induct) (auto dest: dump_swap_of_line)

text \<open>A filter on transactions only filters.\<close>

lemma transactions_filtered:
  "get_transactions_for_signatures src (Some keep) cache sigs
    = bind_res (get_transactions_for_signatures src None cache sigs) (\<lambda>(cache, txs). Inr (cache, filter keep txs))"
  by (induction src "Some keep" cache sigs rule: get_transactions_for_signatures.induct)
    (auto simp: bind_res_def split: sum.splits prod.splits)

lemma swaps_of_signatures_lines:
  assumes "swaps_of_signatures env keep cache signatures = Inr (cache', swaps)"
  shows "\<exists>sigs txs. collect_results (parse_signature (de_from_str env)) signatures = Inr sigs
    \<and> get_transactions_for_signatures (de_source env) None cache sigs = Inr (cache', txs)
    \<and> map dump_swap_line swaps
        = map dump_line (filter (\<lambda>tx. keep tx \<and> parsed_swap (parse_swap_transaction (de_sdk env)) tx) txs)
    \<and> map (\<lambda>s. Some (dsw_block_time s)) swaps
        = map tx_block_time (filter (\<lambda>tx. keep tx \<and> parsed_swap (parse_swap_transaction (de_sdk env)) tx) txs)"
  using assms
  by (auto simp: swaps_of_signatures_def transactions_filtered Let_def conj_commute
      dest!: parse_transactions_filter dumped_lines elim!: bind_res_InrE split: prod.splits)

lemma parsed_swap_has_keys:
  assumes "parsed_swap (parse_swap_transaction sdk) tx"
  shows "tx_account_keys tx \<noteq> []"
proof
  assume "tx_account_keys tx = []"
  then have none: "parse_swap_instruction sdk tx ix idx = Inl (Error ''Failed getting program-id. Invalid index?'')" for ix idx
    by (simp add: parse_swap_instruction_def key_at_def)
  have "first_swap (\<lambda>(i, ix). parse_swap_instruction sdk tx ix (Some (of_nat i))) ixs \<noteq> Inr (Some swap)" for ixs swap
    by (cases ixs) (auto simp: none split: prod.splits)
  moreover have "first_swap (\<lambda>ix. parse_swap_instruction sdk tx ix None) ixs \<noteq> Inr (Some swap)" for ixs swap
    by (cases ixs) (auto simp: none)
  ultimately show False
    using assms
    by (auto simp: parsed_swap_def parse_swap_transaction_def split: sum.splits option.splits elim!: bind_res_InrE)
qed

text \<open>C37. The dump of a wallet holds every successful transaction of the found signatures in which the parser
  finds a swap, oldest first, with its first key as the signer. The wallet does not restrict them: the
  transactions that only mention it are dumped too, under the key that signed them.\<close>

theorem wallet_dump_exact:
  assumes "get_swaps_for_wallet env now wallet days until limit cache = Some (Inr (cache', swaps))"
  shows "\<exists>found reason sigs txs.
    get_signatures_for_address (de_partition_point env) (de_from_str env) (de_node env wallet) None until
      (LimitBlocktime (sint (now - days * 24 * 60 * 60)) # (case limit of Some n \<Rightarrow> [LimitN n] | None \<Rightarrow> []))
      (Some Forward) = Some (Inr (found, reason))
    \<and> collect_results (parse_signature (de_from_str env)) (filter (\<lambda>s. rg_err s = None) found) = Inr sigs
    \<and> get_transactions_for_signatures (de_source env) None cache sigs = Inr (cache', txs)
    \<and> map dump_swap_line swaps = map dump_line
        (filter (\<lambda>tx. tx_err tx = None \<and> parsed_swap (parse_swap_transaction (de_sdk env)) tx) txs)"
proof -
  obtain found reason where f: "get_signatures_for_address (de_partition_point env) (de_from_str env)
        (de_node env wallet) None until (LimitBlocktime (sint (now - days * 24 * 60 * 60)) # (case limit of Some n \<Rightarrow> [LimitN n] | None \<Rightarrow> []))
        (Some Forward) = Some (Inr (found, reason))"
      "swaps_of_signatures env (keep_wallet_transaction wallet) cache (filter (\<lambda>s. rg_err s = None) found)
        = Inr (cache', swaps)"
    using assms
    by (auto simp: get_swaps_for_wallet_def Let_def checked_sub_def split: option.splits if_splits prod.splits elim!: bind_res_InrE)
  have "keep_wallet_transaction wallet tx \<and> parsed_swap (parse_swap_transaction (de_sdk env)) tx
      \<longleftrightarrow> tx_err tx = None \<and> parsed_swap (parse_swap_transaction (de_sdk env)) tx" for tx
    using parsed_swap_has_keys [of "de_sdk env" tx]
    by (cases "tx_account_keys tx") (auto simp: keep_wallet_transaction_def nth_opt_def)
  then show ?thesis using swaps_of_signatures_lines [OF f(2)] f(1) by auto
qed

section \<open>A search between two timestamps\<close>

text \<open>What the standard library documents of \<open>binary_search_by\<close> on a sorted slice.\<close>

definition binary_searches :: "(int list \<Rightarrow> int \<Rightarrow> nat + nat) \<Rightarrow> bool" where
  "binary_searches bs \<longleftrightarrow> (\<forall>keys x. sorted keys \<longrightarrow> (case bs keys x of
     Inl i \<Rightarrow> i < length keys \<and> keys ! i = x
   | Inr i \<Rightarrow> i \<le> length keys \<and> (\<forall>k \<in> set (take i keys). k < x) \<and> (\<forall>k \<in> set (drop i keys). x < k)))"

text \<open>The node reports the history \<open>h\<close> with a time for every signature, newest first, and reports the same
  time with the transaction, whether it is cached or not.\<close>

definition newest_first :: "rpc_signature list \<Rightarrow> bool" where
  "newest_first h \<longleftrightarrow> (\<forall>s \<in> set h. rg_block_time s \<noteq> None) \<and> sorted (rev (signature_times h))"

definition times_agree :: "('x, 'raw, 'cache) dump_env \<Rightarrow> rpc_signature list \<Rightarrow> bool" where
  "times_agree env h \<longleftrightarrow> (\<forall>s \<in> set h. \<forall>sig cache cache' tx. de_from_str env (rg_signature s) = Some sig
     \<longrightarrow> transaction_for_signature (de_source env) cache sig = Inr (cache', tx) \<longrightarrow> tx_block_time tx = rg_block_time s)"

lemma search_index_absent:
  assumes "binary_searches bs" and "sorted keys" and "x \<notin> set keys"
  shows "\<forall>k \<in> set (take (search_index bs keys x) keys). k < x"
    and "\<forall>k \<in> set keys. k < x \<Longrightarrow> search_index bs keys x = length keys"
proof -
  obtain i where i: "bs keys x = Inr i" "i \<le> length keys" "\<forall>k \<in> set (take i keys). k < x" "\<forall>k \<in> set (drop i keys). x < k"
  proof -
    have "case bs keys x of
        Inl i \<Rightarrow> i < length keys \<and> keys ! i = x
      | Inr i \<Rightarrow> i \<le> length keys \<and> (\<forall>k \<in> set (take i keys). k < x) \<and> (\<forall>k \<in> set (drop i keys). x < k)"
      using assms(1,2) unfolding binary_searches_def by blast
    then show ?thesis using assms(3) that by (cases "bs keys x") auto
  qed
  then show "\<forall>k \<in> set (take (search_index bs keys x) keys). k < x" by (simp add: search_index_def)
  assume "\<forall>k \<in> set keys. k < x"
  then have "drop i keys = []" using i(4) by (metis in_set_dropD last_in_set not_less_iff_gr_or_eq)
  then show "search_index bs keys x = length keys" using i(1,2) by (simp add: search_index_def)
qed

lemma sorted_subseq: "subseq xs ys \<Longrightarrow> sorted (ys :: int list) \<Longrightarrow> sorted xs"
  unfolding subseq_conv_nths by (auto intro: sorted_nths)

lemma subseq_revI: "subseq xs ys \<Longrightarrow> subseq (rev xs) (rev ys)"
  by (induction rule: list_emb.induct) (auto intro: subseq_rev_drop_many)

lemma subseq_drop: "subseq (drop n xs) xs"
  by (simp add: suffix_drop suffix_imp_subseq)

text \<open>Whatever index the search in a page answers, the found signatures are those of the history in its
  order, some left out.\<close>

lemma signature_loop_subseq:
  assumes "serves from_str h node" and "readable from_str h"
    and "signature_loop pp from_str node until ts before limit signatures = Some (Inr (found, reason))"
  shows "\<exists>ys. found = signatures @ ys \<and> subseq ys (older_than from_str before h)"
  using assms(3)
proof (induction "length (older_than from_str before h)" arbitrary: before limit signatures rule: less_induct)
  case less
  let ?q = "\<lparr>sq_before = before, sq_until = until, sq_limit = map_option (\<lambda>count. min count 1000) limit\<rparr>"
  obtain page rest where page: "node ?q = Inr page" "older_than from_str before h = page @ rest"
    using newer_than_split [of "older_than from_str before h" from_str until] assms(1)
    unfolding serves_def by (metis append.assoc append_take_drop_id signature_query.select_convs(1,2))
  show ?case
  proof (cases "signature_page pp from_str node until ts before limit signatures")
    case (Inl r)
    then have "r = Inr (found, reason)" using less.prems by (subst (asm) signature_loop.simps) simp
    then show ?thesis
      using Inl page
      by (auto simp: signature_page_def Let_def split: if_splits option.splits intro: subseq_rev_drop_many subseq_drop)
  next
    case (Inr turn)
    then obtain s limit' where n: "turn = (Some s, limit', signatures @ page)" "page \<noteq> []" "sig_key from_str (last page) = Some s"
      using page(1) by (auto simp: signature_page_def Let_def sig_key_def split: if_splits option.splits)
    have rest: "older_than from_str (Some s) h = rest"
      using older_than_page [OF assms(2) page(2) n(2)] n(3) by auto
    have "signature_loop pp from_str node until ts (Some s) limit' (signatures @ page) = Some (Inr (found, reason))"
      using less.prems Inr n(1) by (subst (asm) signature_loop.simps) simp
    then obtain ys where "found = (signatures @ page) @ ys" "subseq ys rest"
      using less.hyps [of "Some s" limit' "signatures @ page"] page(2) n(2) rest by auto
    then show ?thesis using page(2) by (auto intro!: exI [of _ "page @ ys"] simp: subseq_append')
  qed
qed

lemma found_signatures_subseq:
  assumes "serves from_str h node" and "readable from_str h"
    and "get_signatures_for_address pp from_str node before until limits (Some Forward) = Some (Inr (found, reason))"
  shows "subseq (rev found) (older_than from_str before h)"
  using assms(3) signature_loop_subseq [OF assms(1,2), where signatures = "[]"]
  by (fastforce simp: get_signatures_for_address_def split: prod.splits elim!: bind_res_InrE)

lemma transactions_dated:
  assumes "times_agree env h" and "set ss \<subseteq> set h"
    and "collect_results (parse_signature (de_from_str env)) ss = Inr sigs"
    and "get_transactions_for_signatures (de_source env) None cache sigs = Inr (cache', txs)"
  shows "map tx_block_time txs = map rg_block_time ss"
  using assms(2-4)
proof (induction ss arbitrary: sigs cache cache' txs)
  case (Cons s ss)
  obtain sig sigs' where sigs: "de_from_str env (rg_signature s) = Some sig" "sigs = sig # sigs'"
      "collect_results (parse_signature (de_from_str env)) ss = Inr sigs'"
    using Cons.prems(2) by (cases "de_from_str env (rg_signature s)") (auto simp: parse_signature_def [of _ s])
  obtain c tx txs' where t: "transaction_for_signature (de_source env) cache sig = Inr (c, tx)" "txs = tx # txs'"
      "get_transactions_for_signatures (de_source env) None c sigs' = Inr (cache', txs')"
    using Cons.prems(3) by (auto simp: sigs(2) split: prod.splits elim!: bind_res_InrE)
  have "tx_block_time tx = rg_block_time s"
    using assms(1) Cons.prems(1) sigs(1) t(1) unfolding times_agree_def by auto
  then show ?case using Cons.IH [OF _ sigs(3) t(3)] Cons.prems(1) t(2) by simp
qed simp

lemma times_of_dated:
  assumes "\<forall>s \<in> set ss. rg_block_time s \<noteq> None"
  shows "map rg_block_time ss = map Some (signature_times ss)"
  using assms by (auto simp: signature_times_def)

text \<open>The times of the dumped swaps are, in their order, times of the signatures they were fetched for.\<close>

lemma dumped_times_subseq:
  assumes "swaps_of_signatures env keep cache ss = Inr (cache', swaps)" and "times_agree env h"
    and "set ss \<subseteq> set h" and "newest_first h"
  shows "subseq (map dsw_block_time swaps) (signature_times ss)"
proof -
  obtain sigs txs P where t: "collect_results (parse_signature (de_from_str env)) ss = Inr sigs"
      "get_transactions_for_signatures (de_source env) None cache sigs = Inr (cache', txs)"
      "map (\<lambda>s. Some (dsw_block_time s)) swaps = map tx_block_time (filter P txs)"
    using swaps_of_signatures_lines [OF assms(1)] by blast
  have "map tx_block_time txs = map Some (signature_times ss)"
    using transactions_dated [OF assms(2,3) t(1,2)] times_of_dated [of ss] assms(3,4) by (auto simp: newest_first_def)
  then have "subseq (map Some (map dsw_block_time swaps)) (map Some (signature_times ss))"
    using t(3) subseq_map [OF subseq_filter_left [of P txs], of tx_block_time] by (simp add: comp_def)
  from subseq_map [OF this, of the] show ?thesis by (simp add: comp_def)
qed

lemma found_times_sorted:
  assumes "subseq (rev found) h" and "newest_first h"
  shows "sorted (signature_times found)" and "set found \<subseteq> set h"
proof -
  have rev: "subseq found (rev h)" using subseq_revI [OF assms(1)] by simp
  have "subseq (signature_times found) (signature_times (rev h))"
    unfolding signature_times_def by (rule subseq_map [OF rev])
  moreover have "sorted (signature_times (rev h))"
    using assms(2) by (simp add: newest_first_def signature_times_def rev_map)
  ultimately show "sorted (signature_times found)" by (rule sorted_subseq)
  show "set found \<subseteq> set h"
  proof
    fix s assume "s \<in> set found"
    from list_emb_set [OF rev this] show "s \<in> set h" by auto
  qed
qed

text \<open>The slice at the end is inclusive, but the search for the end answers the index behind the last swap
  when all swaps are older: a list of swaps before the end panics.\<close>

lemma swaps_before_end_panic:
  assumes "binary_searches bs" and "sorted (map dsw_block_time swaps)" and "\<forall>s \<in> set swaps. dsw_block_time s < target_end"
  shows "\<exists>msg. swaps_in_range bs target_start target_end swaps = Inl (Panic msg)"
proof -
  have "search_index bs (map dsw_block_time swaps) target_end = length swaps"
    using search_index_absent(2) [OF assms(1,2), of target_end] assms(3) by fastforce
  then show ?thesis by (simp add: swaps_in_range_def slice_inclusive_def Let_def)
qed

lemma get_swaps_without_file:
  assumes "target_start < target_end"
  shows "get_swaps_for_wallet2 env fs wallet target_start target_end None cache =
    map_option (\<lambda>found. (fs, bind_res found (\<lambda>(signatures, _).
        bind_res (split_off_rest (search_index (de_binary_search env) (signature_times signatures) target_end) signatures)
          (\<lambda>signatures. bind_res (swaps_of_signatures env (\<lambda>tx. tx_err tx = None) cache signatures)
          (\<lambda>(cache, swaps). bind_res (swaps_in_range (de_binary_search env) target_start target_end swaps)
          (\<lambda>answer. Inr (cache, answer)))))))
      (get_signatures_for_address (de_partition_point env) (de_from_str env) (de_node env wallet) None None
         [LimitBlocktime target_start] (Some Forward))"
proof (cases "get_signatures_for_address (de_partition_point env) (de_from_str env) (de_node env wallet) None None
    [LimitBlocktime target_start] (Some Forward)")
  case (Some found)
  show ?thesis
  proof (cases found)
    case (Inr p)
    obtain signatures reason where p: "p = (signatures, reason)" by (cases p)
    let ?split = "split_off_rest (search_index (de_binary_search env) (signature_times signatures) target_end) signatures"
    note unfold = get_swaps_for_wallet2_def read_additional_def search_windows_def merge_additional_def
      write_additional_def
    show ?thesis
    proof (cases ?split)
      case split: (Inr ss)
      show ?thesis
        using assms Some Inr p split
        by (cases "swaps_of_signatures env (\<lambda>tx. tx_err tx = None) cache ss") (auto simp: unfold)
    qed (use assms Some Inr p in \<open>simp add: unfold\<close>)
  qed (use assms Some in \<open>simp add: get_swaps_for_wallet2_def read_additional_def search_windows_def\<close>)
qed (use assms in \<open>simp add: get_swaps_for_wallet2_def read_additional_def search_windows_def\<close>)

text \<open>C35. Without a file, the search for the swaps between two timestamps never answers: it fetches the swaps
  before the end and then takes a slice that reaches one past them. The node is assumed to report the
  history in order with its times; no transaction falls into the very second of the end.\<close>

theorem range_search_never_answers:
  assumes "serves (de_from_str env) h (de_node env wallet)" and "readable (de_from_str env) h"
    and "newest_first h" and "times_agree env h" and "binary_searches (de_binary_search env)"
    and "Some target_end \<notin> set (map rg_block_time h)"
  shows "get_swaps_for_wallet2 env fs wallet target_start target_end None cache \<noteq> Some (fs', Inr answer)"
proof
  let ?bs = "de_binary_search env"
  assume "get_swaps_for_wallet2 env fs wallet target_start target_end None cache = Some (fs', Inr answer)"
  then obtain found reason ss cache' swaps where g:
      "get_signatures_for_address (de_partition_point env) (de_from_str env) (de_node env wallet) None None
         [LimitBlocktime target_start] (Some Forward) = Some (Inr (found, reason))"
      "split_off_rest (search_index ?bs (signature_times found) target_end) found = Inr ss"
      "swaps_of_signatures env (\<lambda>tx. tx_err tx = None) cache ss = Inr (cache', swaps)"
      "\<exists>answer. swaps_in_range ?bs target_start target_end swaps = Inr answer"
    by (cases "target_start < target_end")
      (auto simp: get_swaps_without_file, auto simp: get_swaps_for_wallet2_def elim!: bind_res_InrE split: prod.splits)
  have "subseq (rev found) h" using found_signatures_subseq [OF assms(1,2) g(1)] by simp
  note found = found_times_sorted [OF this assms(3)]
  let ?i = "search_index ?bs (signature_times found) target_end"
  have ss: "ss = take ?i found" using g(2) by (simp add: split_off_rest_def split: if_splits)
  have absent: "target_end \<notin> set (signature_times found)"
  proof
    assume "target_end \<in> set (signature_times found)"
    then obtain s where s: "s \<in> set h" "target_end = unwrap_or (rg_block_time s) 0"
      using found(2) by (auto simp: signature_times_def)
    then have "rg_block_time s = Some target_end" using assms(3) by (auto simp: newest_first_def)
    then show False using assms(6) s(1) by force
  qed
  have times: "signature_times ss = take ?i (signature_times found)" by (simp add: ss signature_times_def take_map)
  have "set ss \<subseteq> set h" using found(2) by (auto simp: ss dest: in_set_takeD)
  note sub = dumped_times_subseq [OF g(3) assms(4) this assms(3)]
  have "sorted (map dsw_block_time swaps)"
    using sorted_subseq [OF sub] found(1) by (simp add: times sorted_wrt_take)
  moreover have "\<forall>s \<in> set swaps. dsw_block_time s < target_end"
    using list_emb_set [OF sub] search_index_absent(1) [OF assms(5) found(1) absent] by (fastforce simp: times)
  ultimately show False using swaps_before_end_panic [OF assms(5)] g(4) by (metis Inl_Inr_False)
qed

text \<open>With a file, the search fails before it asks the node, because the path is read as JSON: a document of
  serde's for a struct starts with a bracket or a space, and a path does not.\<close>

theorem appended_file_never_read:
  assumes "\<forall>text swaps. de_from_json env text = Inr swaps \<longrightarrow> text \<noteq> [] \<and> hd text \<in> set ''{[ \<newline>''"
    and "file = [] \<or> hd file \<notin> set ''{[ \<newline>''"
  shows "\<exists>e. get_swaps_for_wallet2 env fs wallet target_start target_end (Some file) cache = Some (fs, Inl e)"
  using assms by (cases "de_from_json env file") (auto simp: get_swaps_for_wallet2_def read_additional_def)

section \<open>An example\<close>

definition example_dated_tx :: itransaction where
  "example_dated_tx = example_pump_tx\<lparr>tx_block_time := Some 100\<rparr>"

definition example_dated_history :: "rpc_signature list" where
  "example_dated_history = [\<lparr>rg_signature = ''A'', rg_slot = 1, rg_err = None, rg_block_time = Some 100\<rparr>]"

definition example_dump_env :: "(unit, signature, unit) dump_env" where
  "example_dump_env = \<lparr>de_to_string = (\<lambda>_. ''W''), de_from_str = example_from_str, de_partition_point = (\<lambda>_ _. 0),
     de_binary_search = (\<lambda>keys x. let i = length (takeWhile (\<lambda>k. k < x) keys)
       in if i < length keys \<and> keys ! i = x then Inl i else Inr i),
     de_node = (\<lambda>_ q. Inr (take (case sq_limit q of Some n \<Rightarrow> min (unat n) 1000 | None \<Rightarrow> 1000)
       (newer_than example_from_str (sq_until q) (older_than example_from_str (sq_before q) example_dated_history)))),
     de_source = \<lparr>tsrc_get = (\<lambda>_ _. Inr None), tsrc_insert = (\<lambda>_ _. Inr ()), tsrc_request = Inr,
       tsrc_convert = (\<lambda>_. Inr example_dated_tx), tsrc_load_keys = Inr\<rparr>,
     de_sdk = example_parser_sdk, de_accounts = (\<lambda>keys. Inr (map (\<lambda>_. None) keys)),
     de_unpack = (\<lambda>_. None), de_path = (\<lambda>f. [f]),
     de_from_json = (\<lambda>text. if text = ''{}'' then Inr [] else Inl (Error ''expected value'')),
     de_to_json = (\<lambda>_. Inr ''{}'')\<rparr>"

lemma example_dump_serves:
  "serves (de_from_str example_dump_env) example_dated_history (de_node example_dump_env wallet)"
  "readable (de_from_str example_dump_env) example_dated_history"
  "newest_first example_dated_history"
  by (simp_all add: serves_def readable_def newest_first_def example_dump_env_def example_dated_history_def
      signature_times_def sig_key_def example_from_str_def)

lemma example_times_agree: "times_agree example_dump_env example_dated_history"
  by (auto simp: times_agree_def example_dump_env_def example_dated_history_def transaction_for_signature_def
      with_keys_def example_dated_tx_def split: option.splits elim!: bind_res_InrE)

lemma example_binary_search: "binary_searches (de_binary_search example_dump_env)"
proof -
  have gt: "x < k" if "sorted keys" "length (takeWhile (\<lambda>k. k < x) keys) < length keys \<longrightarrow> keys ! length (takeWhile (\<lambda>k. k < x) keys) \<noteq> x"
      "k \<in> set (dropWhile (\<lambda>k. k < x) keys)" for keys and x k :: int
    using that by (induction keys) (auto split: if_splits)
  show ?thesis
    by (auto simp: binary_searches_def example_dump_env_def Let_def length_takeWhile_le takeWhile_eq_take [symmetric]
        dropWhile_eq_drop [symmetric] dest: set_takeWhileD gt)
qed

theorem range_search_never_answers_witness:
  "\<forall>fs' answer. get_swaps_for_wallet2 example_dump_env \<lparr>fs_dirs = [], fs_files = []\<rparr> 77 0 200 None None
     \<noteq> Some (fs', Inr answer)"
  using range_search_never_answers [OF example_dump_serves example_times_agree example_binary_search]
  by (simp add: example_dated_history_def)

theorem appended_file_never_read_witness:
  "\<exists>e. get_swaps_for_wallet2 example_dump_env \<lparr>fs_dirs = [], fs_files = []\<rparr> 77 0 200 (Some ''swaps.json'') None
     = Some (\<lparr>fs_dirs = [], fs_files = []\<rparr>, Inl e)"
  by (rule appended_file_never_read) (simp_all add: example_dump_env_def)

lemma example_dated_reads:
  "tx_account_keys example_dated_tx = [10, PUMPFUN_PROGRAM_ID, 3]"
  "tx_logs example_dated_tx = tx_logs example_pump_tx"
  "tx_instructions example_dated_tx = tx_instructions example_pump_tx"
  "tx_err example_dated_tx = None" "tx_block_time example_dated_tx = Some 100" "tx_signature example_dated_tx = 5"
proof -
  have "tx_account_keys example_dated_tx = tx_account_keys example_pump_tx"
    by (simp add: example_dated_tx_def tx_account_keys_def)
  then show "tx_account_keys example_dated_tx = [10, PUMPFUN_PROGRAM_ID, 3]" by (simp add: example_pump_tx_def)
qed (simp_all add: example_dated_tx_def tx_logs_def example_pump_tx_def)

lemma example_dated_swap:
  "parse_swap_transaction example_parser_sdk example_dated_tx = Inr (Some (resolved_swap_plain Pump 1000 77 SOL 42))"
proof -
  have "parse_swap_transaction example_parser_sdk example_dated_tx
      = Inr (Some (trade_swap (ps_native_mint example_parser_sdk) example_trade))"
    by (rule parse_pump_trade [OF _ _ _ decode_pump_trade [OF example_pump_logs(1,2) _ _ example_pump_logs(4)],
          where xs = "[\<lparr>ci_program_id_index = 2, ci_accounts = [], ci_data = []\<rparr>]"
            and ix = "\<lparr>ci_program_id_index = 1, ci_accounts = [], ci_data = []\<rparr>" and ys = "[]"])
      (simp_all add: example_dated_reads example_pump_logs(3), simp_all add: example_pump_tx_def example_parser_sdk_def
        not_a_swap_program_def key_at_def example_dated_reads
        JUPITER_AGGREGATOR_V6_PROGRAM_ID_def PUMPFUN_PROGRAM_ID_def RAYDIUM_LIQUIDITY_POOL_V4_PROGRAM_ID_def)
  then show ?thesis by (simp add: trade_swap_def example_trade_def example_parser_sdk_def)
qed

lemma example_found:
  "get_signatures_for_address (de_partition_point example_dump_env) (de_from_str example_dump_env)
     (de_node example_dump_env wallet) None None [LimitBlocktime 0] (Some Forward)
   = Some (Inr (example_dated_history, ReasonUntilSig))"
proof -
  have "signature_loop (de_partition_point example_dump_env) (de_from_str example_dump_env) (de_node example_dump_env wallet)
      None (Some 0) (Some 1) None example_dated_history = Some (Inr (example_dated_history, ReasonUntilSig))"
    by (subst signature_loop.simps)
      (simp add: signature_page_def example_dump_env_def newer_than_def example_dated_history_def sig_key_def
        example_from_str_def)
  then have "signature_loop (de_partition_point example_dump_env) (de_from_str example_dump_env) (de_node example_dump_env wallet)
      None (Some 0) None None [] = Some (Inr (example_dated_history, ReasonUntilSig))"
    by (subst signature_loop.simps)
      (simp add: signature_page_def example_dump_env_def newer_than_def example_dated_history_def example_from_str_def
        Let_def)
  then show ?thesis by (simp add: get_signatures_for_address_def read_limits_def example_dated_history_def)
qed

lemma example_swaps:
  "\<exists>swaps. swaps_of_signatures example_dump_env (keep_wallet_transaction 77) None example_dated_history
     = Inr (None, swaps)"
  by (simp add: swaps_of_signatures_def example_dump_env_def example_dated_history_def parse_signature_def
      example_from_str_def transaction_for_signature_def with_keys_def keep_wallet_transaction_def example_dated_reads
      nth_opt_def example_dated_swap traded_mints_def get_multiple_account_data_def chunks.simps resolved_swap_plain_def
      dump_swap_of_def SOL_def)

text \<open>The dump of the wallet 77 holds the swap that the wallet 10 signed.\<close>

theorem wallet_dump_exact_witness:
  "\<exists>swaps. get_swaps_for_wallet example_dump_env 86400 77 1 None None None = Some (Inr (None, swaps))
    \<and> map dump_swap_line swaps = [(5, 10, 100)]"
proof -
  have found: "get_signatures_for_address (de_partition_point example_dump_env) (de_from_str example_dump_env)
     (de_node example_dump_env 77) None None
      (LimitBlocktime (sint (86400 - 1 * 24 * 60 * 60 :: u64)) # (case None of Some n \<Rightarrow> [LimitN n] | None \<Rightarrow> []))
      (Some Forward) = Some (Inr (example_dated_history, ReasonUntilSig))"
    using example_found by simp
  obtain swaps where dump: "get_swaps_for_wallet example_dump_env 86400 77 1 None None None = Some (Inr (None, swaps))"
    using found example_swaps
    by (auto simp: get_swaps_for_wallet_def checked_sub_def example_dated_history_def)
  from wallet_dump_exact [OF this] found obtain sigs txs where t:
      "collect_results (parse_signature (de_from_str example_dump_env)) (filter (\<lambda>s. rg_err s = None) example_dated_history)
        = Inr sigs"
      "get_transactions_for_signatures (de_source example_dump_env) None None sigs = Inr (None, txs)"
      "map dump_swap_line swaps = map dump_line (filter (\<lambda>tx. tx_err tx = None
        \<and> parsed_swap (parse_swap_transaction (de_sdk example_dump_env)) tx) txs)"
    by auto
  have "parsed_swap (parse_swap_transaction (de_sdk example_dump_env)) example_dated_tx"
    by (simp add: parsed_swap_def example_dump_env_def example_dated_swap)
  moreover have "txs = [example_dated_tx]"
    using t(1,2) by (auto simp: example_dump_env_def example_dated_history_def parse_signature_def example_from_str_def
        transaction_for_signature_def with_keys_def)
  ultimately show ?thesis using t(3) dump by (simp add: dump_line_def example_dated_reads)
qed

end
