(* ===== verification/Spec2Isabelle.thy ===== *)
theory Spec2Isabelle
  imports Service Pump Programs Dust Streams Jupiter Raydium_Amm Orca Clmm Token_List Simulator Blocks Historical
    Lookup_Tables Leaders Wallet_Stats Trade_Storage Txn_Cache Txn_Executor Block_Watch Pools Wallet_Dump
begin

text \<open>
  \<^bold>\<open>A verification of the copy-trading bot \<^verbatim>\<open>crates/biscuit\<close>.\<close>

  The bot watches the transactions of configured wallets, recognises the swaps in them, and repeats
  them with its own wallet. The parts and how they meet:

  \<^item> A stream delivers a transaction to \<open>handle_wire_txn\<close> of the copy service
    (\<^verbatim>\<open>services/copy/v2/service.rs\<close>). The parser (\<^verbatim>\<open>parser/v1\<close>) reads the swap off its instructions, logs
    and balances; the service queues a copy.
  \<^item> The execution handler (\<^verbatim>\<open>services/copy/v2/execution.rs\<close>) takes a copy from the queue, decides what to
    buy or sell from the trade history (\<^verbatim>\<open>services/copy/history.rs\<close>) or the ping tracker
    (\<^verbatim>\<open>services/copy/v2/ping.rs\<close>), asks a swap executor for a quote and a transaction, sets its fee and
    hands it back. The executor of Pump (\<^verbatim>\<open>swap/pump\<close>) builds its instructions with
    \<^verbatim>\<open>swap/builder.rs\<close>.
  \<^item> The sending service (\<^verbatim>\<open>wire/send_txn/service.rs\<close>, \<^verbatim>\<open>wire/confirm_txn.rs\<close>) signs and sends it and
    reports its confirmation or its expiry. \<open>handle_confirmation\<close> of the copy service then records the
    trade, retries within a budget, or records the failure. The dust tracker
    (\<^verbatim>\<open>services/copy/v2/dust.rs\<close>) moves the share of a buy that is not traded to another wallet.

  \<^bold>\<open>Theories.\<close> Each opens with the files it models; \<^verbatim>\<open>PROJECT.json\<close> maps every definition to its lines.

  \<^item> \<open>Prelude\<close>: Rust's integers as words (checked, saturating and wrapping operations, casts), results
    with errors and panics as values, concurrent maps as association lists behind the locale
    \<open>key_value\<close>, and the locale \<open>simulation\<close> of refinement step by step.
  \<^item> \<open>Float64\<close>: IEEE double precision on rationals with round to nearest even, the operations and
    conversions of the source, and exactness up to 2^53.
  \<^item> \<open>Constants\<close>, \<open>Config\<close>: addresses and configuration. \<open>Price_Feed\<close>: the cache of prices.
  \<^item> \<open>History\<close>: the trade history as a map from wallet and token to volumes. It refines a ledger of
    unbounded totals (an interpretation of \<open>simulation\<close>), recording splits the volume and its dust
    without loss, and it fails exactly where the source says.
  \<^item> \<open>Pending\<close>: the bounded map of sent transactions, which sheds the oldest.
  \<^item> \<open>Swap_Types\<close>, \<open>Transaction\<close>, \<open>Copy_Types\<close>: the data that the components exchange, and the locale
    \<open>quote_provider\<close>, the contract of a swap executor.
  \<^item> \<open>Ping\<close>: the ping tracker, its tiers, its snapshot and restart.
  \<^item> \<open>Execution\<close>: the decisions of the execution handler and its bounds: a buy stays within the wallet's
    limits, a sell within the holdings, the fee within the configured range and attempts are bounded.
  \<^item> \<open>Service\<close>: the handlers of the main loop and the loop as a step relation \<open>copy_step\<close> on the shared
    state. The invariant \<open>service_ok\<close> holds in every reachable state, no handler of a confirmation
    panics there, and every retry advances a bounded budget.
  \<^item> \<open>Logs\<close>, \<open>Raydium_V4\<close>, \<open>Parser\<close>: the call stack of programs in the logs, the account windows of
    the instructions, and the swap parser. On well-nested logs the parser sees exactly what a program
    logged itself; a Raydium swap is resolved to the amounts that moved.
  \<^item> \<open>Builder\<close>, \<open>Pump\<close>: the instructions around a swap and the bonding curve. Rounding favours the
    curve, a round trip loses, and the quotes of Pump interpret \<open>quote_provider\<close>. The swaps of Pump are
    built with the generated client of \<open>Pump_Ix\<close>, whose builder panics for every one of them because
    the executor leaves accounts unset that have no default.
  \<^item> \<open>Sending\<close>, \<open>Dust\<close>: the sending service as a step relation. Every transaction is answered exactly
    once, at the latest two rounds after it expired, as long as its sender is a subscriber.
  \<^item> \<open>Decode\<close>, \<open>Streams\<close>: how a transaction of the node becomes the bot's own (\<^verbatim>\<open>core/types\<close>, fees, lookup
    tables, filters), and the tasks that watch wallets and slots (\<^verbatim>\<open>wire/rpc\<close>). The loaded keys are those
    of the message in its order, a transaction is broadcast once per detection, one task watches a wallet.
  \<^item> \<open>Accounts\<close>, \<open>Token_List\<close>: accounts and mints read in chunks, and the list of tokens.
  \<^item> \<open>Jupiter\<close>, \<open>Raydium_Amm\<close>: the other two swap executors of the service and the instructions they build.
  \<^item> \<open>Orca\<close>, \<open>Clmm\<close>: the quotes of whirlpools and of Raydium's concentrated pools. The start of a tick
    array that the source computes in floating point is the one of integer division.
  \<^item> \<open>Wire_Ix\<close>, \<open>Pump_Ix\<close>, \<open>Whirlpool_Ix\<close>, \<open>Jupiter_Ix\<close>, \<open>Clmm_Ix\<close>, \<open>Programs\<close>: instructions on the
    wire, the clients generated from the IDLs of the programs (\<^verbatim>\<open>parser/generated\<close>) and the decoders of
    \<^verbatim>\<open>parser/v1\<close>. What a client builds is parsed back with its arguments and accounts. The byte format of
    borsh is an argument.
  \<^item> \<open>Price_History\<close>, \<open>Simulator\<close>: past prices, and the simulation of a strategy on recorded swaps
    (\<^verbatim>\<open>services/copy/v2/simulator.rs\<close>), whose balances are exactly those of the recorded trades.
  \<^item> \<open>Blocks\<close>, \<open>Historical\<close>, \<open>Lookup_Tables\<close>, \<open>Leaders\<close>: the stream of blocks and its workers, the search
    of past signatures and transactions, the store of lookup tables and the schedule of leaders.
  \<^item> \<open>Files\<close>, \<open>Trade_Storage\<close>, \<open>Txn_Cache\<close>: directories and files, the trades on disk
    (\<^verbatim>\<open>services/copy/storage/file.rs\<close>), from which a restarted service rebuilds the volumes of its history,
    and the cache of transactions. The locales \<open>transaction_cache\<close> and \<open>keeping_cache\<close> state what a fetch
    relies on; through the file cache it returns the same transactions.
  \<^item> \<open>Txn_Executor\<close>, \<open>Block_Watch\<close>, \<open>Pools\<close>: the blocking executor, which reports every accepted transaction
    once, the subscription to blocks, and the search for pools by the layout of their accounts.
  \<^item> \<open>Wallet_Stats\<close>: the statistics of analysed wallets and their report (\<^verbatim>\<open>analytics/wallet.rs\<close>).
    \<open>Wallet_Dump\<close>: the searches for the swaps of a wallet (\<^verbatim>\<open>analytics/dump.rs\<close>), put together from the search
    for signatures, the parser and the account requests. The first dumps every swap found, whoever signed
    it; the second never answers.
  \<^item> This theory: what spans the components, from the logs of a trade to the queued copy, and what a
    repeated broadcast does to the queue.

  \<^bold>\<open>Conventions.\<close> Arithmetic is that of a release build: \<open>+\<close>, \<open>-\<close> and \<open>*\<close> wrap at their width and the
  theorems say when they do not. A function that mutates its receiver returns the new state, also beside
  an error; a panic is the value \<open>Inl (Panic msg)\<close> and an error \<open>Inl (Error msg)\<close>. The parameters of a
  message are dropped from its text. Record fields carry a prefix per record. Channels are lists. A
  handler of a task is one atomic step; the tasks interleave in any order. What the network, the RPC
  client, the clock, the SDK and third-party crates answer is an argument of the definition that asks,
  and a theorem that needs something of it says so as a hypothesis; each has a witness in which the
  argument is a concrete function.

  \<^bold>\<open>Termination and bounds.\<close> No definition uses fuel: loops are structural recursion, or functions with
  a measure (\<open>run_attempts\<close>, \<open>retry_loop\<close>, \<open>chunks\<close>, \<open>historical_signatures\<close>). The search for the
  signatures of an address ends only if the node's pages do: \<open>signature_loop\<close> is a partial function into
  options, proved to return, with exactly the signatures asked for, under the node's contract. The counters that bound retries
  are \<open>u8\<close> in the source; the theorems on them name the configured maxima.

  \<^bold>\<open>Not modelled.\<close> The HTTP clients and the databases, because their behaviour is not in the sources; of
  the generated code the calls from other programs (Cpi), the instructions that nothing builds and the
  error tables; the subscriptions of Geyser; the first version of the copy service, the test harness,
  the binaries, the rest of the offline analytics and the on-chain memo program.
\<close>

section \<open>From a detected trade to a queued copy\<close>

text \<open>C9. When a copied wallet trades on Pump, successfully and in a transaction whose logs are
  well-nested, and the queue has room, the service queues exactly one copy for it: a first execution
  for that wallet whose swap is the trade that Pump logged, SOL against tokens or tokens against SOL,
  with the amounts of the event.\<close>

theorem copied_pump_trade_queued:
  assumes "extract_or_load_additional_keys tables from_str tx0 = Inr tx" and "tx_err tx = None" and "tx_static_account_keys tx = w # ks"
    and "store_get (sv_wallet_config s) w = Some wc"
    and "length (sv_queue s) < unat (cfg_max_execution_queue_length (sv_config s))"
    and "tx_instructions tx = xs @ ix # ys" and "list_all (not_a_swap_program tx) xs"
    and "key_at (tx_account_keys tx) (ci_program_id_index ix) = Some PUMPFUN_PROGRAM_ID"
    and "list_all (log_item_ok (xt_base64 (ps_text sdk))) logs" and "list_all is_invoke logs"
    and "xt_from_str (ps_text sdk) (xt_to_string (ps_text sdk) PUMPFUN_PROGRAM_ID) = Some PUMPFUN_PROGRAM_ID"
    and "tx_logs tx = concat (map render logs)"
    and "parse_pumpfun_swap_events (ps_trade_event sdk) (concat (map (own_events (xt_base64 (ps_text sdk))
      (xt_to_string (ps_text sdk) PUMPFUN_PROGRAM_ID) []) logs)) = Inr (event # events)"
  shows "\<exists>d. sv_queue (handle_wire_txn to_string (extract_or_load_additional_keys tables from_str)
      (parse_swap_transaction sdk) s (Inr tx0)) = sv_queue s @ [d]
    \<and> d_origin_swap d = trade_swap (ps_native_mint sdk) event \<and> d_origin_signer d = w
    \<and> d_wallet_config d = wc \<and> is_first_execution d"
proof -
  have "parse_swap_transaction sdk tx = Inr (Some (trade_swap (ps_native_mint sdk) event))"
    by (rule parse_pump_trade [OF assms(6-8) decode_pump_trade [OF assms(9-13)]])
  then show ?thesis
    using assms(1-5) by (simp add: handle_wire_txn_def try_send_def copy_details_of_def is_first_execution_def)
qed

lemma example_pump_load: "extract_or_load_additional_keys tables from_str example_pump_tx = Inr example_pump_tx"
  by (simp add: extract_or_load_additional_keys_def extract_loaded_addresses_def load_keys_def example_pump_tx_def
      plain_tx_def tx_meta_empty_def)

theorem copied_pump_trade_queued_witness:
  "\<exists>d. sv_queue (handle_wire_txn (\<lambda>_. ''w'') (extract_or_load_additional_keys example_tables (\<lambda>_. None))
      (parse_swap_transaction example_parser_sdk) sample_service
      (Inr example_pump_tx)) = [d] \<and> d_origin_swap d = resolved_swap_plain Pump 1000 77 SOL 42 \<and> d_origin_signer d = 10"
proof -
  have "\<exists>d. sv_queue (handle_wire_txn (\<lambda>_. ''w'') (extract_or_load_additional_keys example_tables (\<lambda>_. None))
      (parse_swap_transaction example_parser_sdk) sample_service
        (Inr example_pump_tx)) = sv_queue sample_service @ [d]
    \<and> d_origin_swap d = trade_swap (ps_native_mint example_parser_sdk) example_trade \<and> d_origin_signer d = 10
    \<and> d_wallet_config d = the (store_get (sv_wallet_config sample_service) 10) \<and> is_first_execution d"
    by (rule copied_pump_trade_queued [OF example_pump_load _ _ _ _ _ _ _ example_pump_logs(1,2) _ example_pump_logs(3,4),
          where xs = "[\<lparr>ci_program_id_index = 2, ci_accounts = [], ci_data = []\<rparr>]"
            and ix = "\<lparr>ci_program_id_index = 1, ci_accounts = [], ci_data = []\<rparr>" and ys = "[]" and ks = "[]"])
      (simp_all add: example_pump_tx_def example_parser_sdk_def not_a_swap_program_def key_at_def sample_service_def
        store_get_def copy_config_default_def
        JUPITER_AGGREGATOR_V6_PROGRAM_ID_def PUMPFUN_PROGRAM_ID_def RAYDIUM_LIQUIDITY_POOL_V4_PROGRAM_ID_def)
  then show ?thesis
    by (auto simp: trade_swap_def example_trade_def example_parser_sdk_def sample_service_def)
qed

section \<open>From the stream to repeated copies\<close>

text \<open>The service handling the transactions of a stream one after the other.\<close>

definition handle_stream ::
  "(pubkey \<Rightarrow> string) \<Rightarrow> (itransaction \<Rightarrow> itransaction result) \<Rightarrow> (itransaction \<Rightarrow> resolved_swap option result)
     \<Rightarrow> copy_service \<Rightarrow> itransaction list \<Rightarrow> copy_service" where
  "handle_stream to_string load parse s txs = foldl (\<lambda>s tx. handle_wire_txn to_string load parse s (Inr tx)) s txs"

definition copies_of :: "signature \<Rightarrow> copy_service \<Rightarrow> copy_details list" where
  "copies_of sig s = filter (\<lambda>d. d_origin_signature d = sig) (sv_queue s)"

lemma handle_wire_txn_frame:
  assumes "s' = handle_wire_txn to_string load parse s txn"
  shows "sv_wallet_config s' = sv_wallet_config s \<and> sv_config s' = sv_config s
    \<and> length (sv_queue s') \<le> Suc (length (sv_queue s)) \<and> (\<exists>ds. sv_queue s' = sv_queue s @ ds)"
  unfolding assms
  by (auto simp: handle_wire_txn_def try_send_def split: sum.splits if_splits list.splits option.splits)

lemma handle_wire_txn_copies:
  assumes "load tx = Inr tx'" and "tx_err tx' = None" and "tx_static_account_keys tx' = w # ks"
    and "store_get (sv_wallet_config s) w = Some wc" and "parse tx' = Inr (Some swap)"
    and "length (sv_queue s) < unat (cfg_max_execution_queue_length (sv_config s))"
  shows "length (copies_of (tx_signature tx') (handle_wire_txn to_string load parse s (Inr tx)))
    = Suc (length (copies_of (tx_signature tx') s))"
  using assms by (simp add: handle_wire_txn_def try_send_def copies_of_def copy_details_of_def)

lemma handle_stream_copies:
  assumes "load tx = Inr tx'" and "tx_err tx' = None" and "tx_static_account_keys tx' = w # ks"
    and "store_get (sv_wallet_config s) w = Some wc" and "parse tx' = Inr (Some swap)"
    and "length (sv_queue s) + length txs \<le> unat (cfg_max_execution_queue_length (sv_config s))"
  shows "length (copies_of (tx_signature tx') s) + count_list txs tx
    \<le> length (copies_of (tx_signature tx') (handle_stream to_string load parse s txs))"
  using assms(4,6)
proof (induction txs arbitrary: s)
  case (Cons t txs)
  let ?s = "handle_wire_txn to_string load parse s (Inr t)"
  have f: "sv_wallet_config ?s = sv_wallet_config s" "sv_config ?s = sv_config s"
      "length (sv_queue ?s) \<le> Suc (length (sv_queue s))" "\<exists>ds. sv_queue ?s = sv_queue s @ ds"
    using handle_wire_txn_frame [OF refl] by blast+
  have "length (copies_of (tx_signature tx') ?s) + count_list txs tx
      \<le> length (copies_of (tx_signature tx') (handle_stream to_string load parse ?s txs))"
    using Cons.IH [of ?s] Cons.prems f by simp
  moreover have "length (copies_of (tx_signature tx') s) + (if t = tx then 1 else 0)
      \<le> length (copies_of (tx_signature tx') ?s)"
  proof (cases "t = tx")
    case True
    then show ?thesis
      using handle_wire_txn_copies [where load = load and parse = parse and tx = tx and to_string = to_string,
          OF assms(1-3) Cons.prems(1) assms(5)] Cons.prems(2) by simp
  next
    case False
    then show ?thesis using f(4) by (auto simp: copies_of_def)
  qed
  ultimately show ?case by (simp add: handle_stream_def split: if_splits)
qed (simp add: handle_stream_def)

text \<open>C10. A trade of a copied wallet whose transaction had to be requested twice is copied again
  and again: the stream repeats it in every round that brings news, the service keeps no record of
  the signatures it has handled, and each repetition queues another copy of the same trade.\<close>

theorem retried_trade_copied_again:
  assumes "watch_rounds sig_from_str ignore rounds st = Inr (st', sent)"
    and "store_get (ws_retry_signatures st) (sig, slot) = Some n" and "n \<le> MAX_RETRY_SIGNATURE_ATTEMPTS"
    and "\<forall>(answer, fetch) \<in> set rounds. detected sig_from_str ignore answer \<noteq> [] \<and> fetch sig = Inr tx"
    and "extract_or_load_additional_keys tables from_str tx = Inr tx'"
    and "tx_err tx' = None" and "tx_static_account_keys tx' = w # ks"
    and "store_get (sv_wallet_config s) w = Some wc" and "parse tx' = Inr (Some swap)"
    and "length (sv_queue s) + length sent \<le> unat (cfg_max_execution_queue_length (sv_config s))"
  shows "length rounds \<le> length (copies_of (tx_signature tx')
    (handle_stream to_string (extract_or_load_additional_keys tables from_str) parse s sent))"
proof -
  have "length rounds \<le> count_list sent tx" by (rule rebroadcast_count [OF assms(1-4)])
  also have "\<dots> \<le> length (copies_of (tx_signature tx')
      (handle_stream to_string (extract_or_load_additional_keys tables from_str) parse s sent))"
    using handle_stream_copies [where load = "extract_or_load_additional_keys tables from_str" and parse = parse
        and tx = tx and to_string = to_string, OF assms(5-10)] by simp
  finally show ?thesis .
qed

definition example_trade_rounds :: "node_round list" where
  "example_trade_rounds = [(Inr [example_signature ''B''], \<lambda>_. Inr sample_tx), (Inr [example_signature ''C''], \<lambda>_. Inr sample_tx)]"

theorem retried_trade_copied_again_witness:
  "\<exists>st' sent. watch_rounds example_from_str True example_trade_rounds
      \<lparr>ws_last_seen = 1, ws_retry_signatures = [((5, 1), 1)]\<rparr> = Inr (st', sent)
    \<and> 2 \<le> length (copies_of 5 (handle_stream (\<lambda>_. ''w'') (extract_or_load_additional_keys example_tables (\<lambda>_. None))
        (\<lambda>_. Inr (Some (resolved_swap_plain Pump 1 2 SOL 77))) sample_service sent))"
proof -
  let ?st = "\<lparr>ws_last_seen = 1, ws_retry_signatures = [((5, 1), 1)]\<rparr> :: watch_state"
  note eval = watch_round_def new_signatures_def parse_signature_def example_from_str_def example_signature_def
    fetch_one_def still_retried_def MAX_RETRY_SIGNATURE_ATTEMPTS_def Let_def example_trade_rounds_def
  have "\<exists>st' sent. watch_rounds example_from_str True example_trade_rounds ?st = Inr (st', sent) \<and> length sent = 4"
    by (simp add: eval)
  then obtain st' sent where r: "watch_rounds example_from_str True example_trade_rounds ?st = Inr (st', sent)"
      and l: "length sent = 4" by blast
  have load: "extract_or_load_additional_keys tables from_str sample_tx = Inr sample_tx" for tables from_str
    by (simp add: extract_or_load_additional_keys_def extract_loaded_addresses_def load_keys_def sample_tx_def plain_tx_def)
  have "length example_trade_rounds \<le> length (copies_of (tx_signature sample_tx)
      (handle_stream (\<lambda>_. ''w'') (extract_or_load_additional_keys example_tables (\<lambda>_. None))
        (\<lambda>_. Inr (Some (resolved_swap_plain Pump 1 2 SOL 77))) sample_service sent))"
    by (rule retried_trade_copied_again [OF r, of 5 1 1 sample_tx example_tables "\<lambda>_. None" sample_tx 10 "[]"])
      (simp_all add: l load eval store_get_def detected_def sample_service_def copy_config_default_def, simp_all add: sample_tx_def)
  then show ?thesis using r by (auto simp: example_trade_rounds_def sample_tx_def)
qed

end
